(* ===== verification/Prelude.thy ===== *)
theory Prelude
  imports Main "HOL-Library.Word" "HOL-Library.Char_ord" "HOL-Library.List_Lexorder"
    "HOL-Library.Product_Lexorder" "HOL-Library.AList"
begin

text \<open>
  Shared vocabulary of the development: the Python values the components exchange (strings,
  UUIDs, instants, JSON values), the command type for code that reads and writes state and may
  raise, the SQL operations on tables, and the lemma collections the component theories use.

  A Python \<open>str\<close> is a list of characters, each character being one code point below 256.
  A timezone-aware \<open>datetime\<close> is the number of microseconds since the epoch in UTC; a naive
  one cannot be written in the model. A \<open>date\<close> is the number of days since 1970-01-01.
\<close>

named_theorems cmd_simps \<open>unfolding of the command combinators\<close>
named_theorems table_simps \<open>facts on the SQL operations on tables\<close>

section \<open>Values\<close>

type_synonym time = int
type_synonym date = int
type_synonym uuid = "128 word"

datatype json =
    JNull
  | JBool bool
  | JInt int
  | JStr string
  | JList "json list"
  | JObj "(string \<times> json) list"

type_synonym tags = "(string \<times> json) list"

subsection \<open>UUIDs\<close>

text \<open>
  \<open>UUID.version\<close> of Python's \<open>uuid\<close> module: the four bits above bit 76, meaningful only
  when the variant bits (63 and 62) say RFC 4122.
\<close>

definition uuid_version :: "uuid \<Rightarrow> int option" where
  "uuid_version u =
     (if bit u 63 \<and> \<not> bit u 62 then Some (uint (take_bit 4 (drop_bit 76 u))) else None)"

subsection \<open>Strings\<close>

definition py_space :: "char \<Rightarrow> bool" where
  "py_space c \<longleftrightarrow>
     (let n = of_char c :: int in 9 \<le> n \<and> n \<le> 13 \<or> 28 \<le> n \<and> n \<le> 32 \<or> n = 133 \<or> n = 160)"

definition py_strip :: "string \<Rightarrow> string" where
  "py_strip xs = rev (dropWhile py_space (rev (dropWhile py_space xs)))"

definition blank :: "string \<Rightarrow> bool" where
  "blank xs \<longleftrightarrow> list_all py_space xs"

lemma py_strip_Nil_iff: "py_strip xs = [] \<longleftrightarrow> blank xs"
proof
  assume "py_strip xs = []"
  then have "\<forall>c \<in> set (dropWhile py_space xs). py_space c"
    unfolding py_strip_def by (metis Nil_is_rev_conv dropWhile_eq_Nil_conv set_rev)
  then have "dropWhile py_space xs = []"
    by (metis hd_dropWhile hd_in_set)
  then show "blank xs"
    by (metis blank_def dropWhile_eq_Nil_conv list_all_iff)
next
  assume "blank xs"
  then have "dropWhile py_space xs = []"
    by (metis blank_def dropWhile_eq_Nil_conv list_all_iff)
  then show "py_strip xs = []"
    unfolding py_strip_def by (metis dropWhile.simps(1) rev.simps(1))
qed

definition py_lower :: "string \<Rightarrow> string" where
  "py_lower = map (\<lambda>c. let n = of_char c :: int in
     if 65 \<le> n \<and> n \<le> 90 \<or> 192 \<le> n \<and> n \<le> 222 \<and> n \<noteq> 215 then char_of (n + 32) else c)"

fun starts_with :: "string \<Rightarrow> string \<Rightarrow> bool" where
  "starts_with [] _ = True"
| "starts_with (p # ps) [] = False"
| "starts_with (p # ps) (x # xs) = (p = x \<and> starts_with ps xs)"

fun occurs_in :: "string \<Rightarrow> string \<Rightarrow> bool" where
  "occurs_in p [] = (p = [])"
| "occurs_in p (x # xs) = (starts_with p (x # xs) \<or> occurs_in p xs)"

definition quoted :: "string \<Rightarrow> string" where
  "quoted xs = char_of (39 :: nat) # xs @ [char_of (39 :: nat)]"

text \<open>\<open>str\<close> of a Python integer.\<close>

definition digit_char :: "nat \<Rightarrow> char" where
  "digit_char d = char_of (48 + d)"

fun str_nat :: "nat \<Rightarrow> string" where
  "str_nat n = (if n < 10 then [digit_char n] else str_nat (n div 10) @ [digit_char (n mod 10)])"

declare str_nat.simps [simp del]

definition str_int :: "int \<Rightarrow> string" where
  "str_int n = (if n < 0 then CHR ''-'' # str_nat (nat (- n)) else str_nat (nat n))"

definition nat_of_digits :: "string \<Rightarrow> nat" where
  "nat_of_digits = foldl (\<lambda>a c. 10 * a + (of_char c - 48)) 0"

lemma nat_of_digits_snoc [simp]:
  "nat_of_digits (xs @ [c]) = 10 * nat_of_digits xs + (of_char c - 48)"
  by (simp add: nat_of_digits_def)

lemma of_char_digit [simp]: "d < 10 \<Longrightarrow> (of_char (digit_char d) :: nat) = 48 + d"
  by (simp add: digit_char_def)

lemma nat_of_digits_str_nat: "nat_of_digits (str_nat n) = n"
proof (induction n rule: str_nat.induct)
  case (1 n)
  show ?case
  proof (cases "n < 10")
    case True
    then show ?thesis
      using nat_of_digits_snoc [of "[]" "digit_char n"]
      by (simp add: str_nat.simps [of n] nat_of_digits_def)
  next
    case False
    then show ?thesis
      using 1 by (simp add: str_nat.simps [of n])
  qed
qed

lemma str_nat_nonempty [simp]: "str_nat n \<noteq> []"
  by (simp add: str_nat.simps [of n])

lemma str_nat_digits: "c \<in> set (str_nat n) \<Longrightarrow> 48 \<le> (of_char c :: nat)"
proof (induction n rule: str_nat.induct)
  case (1 n)
  then show ?case
    by (cases "n < 10") (auto simp: str_nat.simps [of n])
qed

lemma str_int_inject: "str_int m = str_int n \<longleftrightarrow> m = n"
proof
  assume eq: "str_int m = str_int n"
  have dash: "hd (str_nat k) \<noteq> CHR ''-''" for k
  proof
    assume "hd (str_nat k) = CHR ''-''"
    with str_nat_digits [OF hd_in_set [OF str_nat_nonempty [of k]]]
    have "48 \<le> (of_char (CHR ''-'') :: nat)" by simp
    then show False by simp
  qed
  have inj: "str_nat a = str_nat b \<Longrightarrow> a = b" for a b
    by (metis nat_of_digits_str_nat)
  show "m = n"
    using eq inj [of "nat (- m)" "nat (- n)"] inj [of "nat m" "nat n"]
      dash [of "nat m"] dash [of "nat n"]
    by (auto simp: str_int_def split: if_splits) (metis list.sel(1))+
qed simp

lemma str_int_nonempty [simp]: "str_int n \<noteq> []"
  by (simp add: str_int_def)

text \<open>\<open>str\<close> of a UUID: 32 lowercase hexadecimal digits in groups of 8, 4, 4, 4 and 12.\<close>

definition hex_char :: "nat \<Rightarrow> char" where
  "hex_char d = char_of (if d < 10 then 48 + d else 87 + d)"

fun hex_digits :: "nat \<Rightarrow> nat \<Rightarrow> string" where
  "hex_digits 0 n = []"
| "hex_digits (Suc k) n = hex_digits k (n div 16) @ [hex_char (n mod 16)]"

definition uuid_str :: "uuid \<Rightarrow> string" where
  "uuid_str u =
     (let n = unat u in
      hex_digits 8 (n div 16 ^ 24) @ ''-'' @ hex_digits 4 (n div 16 ^ 20) @ ''-'' @
      hex_digits 4 (n div 16 ^ 16) @ ''-'' @ hex_digits 4 (n div 16 ^ 12) @ ''-'' @
      hex_digits 12 n)"

text \<open>For evaluation, the same digits over the binary integers.\<close>

fun hex_digits_int :: "nat \<Rightarrow> int \<Rightarrow> string" where
  "hex_digits_int 0 n = []"
| "hex_digits_int (Suc k) n =
     hex_digits_int k (n div 16) @ [char_of (if n mod 16 < 10 then 48 + n mod 16 else 87 + n mod 16)]"

lemma hex_digits_int: "hex_digits_int k (int n) = hex_digits k n"
proof (induction k arbitrary: n)
  case (Suc k)
  have "char_of (if int n mod 16 < 10 then 48 + int n mod 16 else 87 + int n mod 16) = hex_char (n mod 16)"
  proof -
    have "48 + int n mod 16 = int (48 + n mod 16)" "87 + int n mod 16 = int (87 + n mod 16)"
      by (simp_all add: zmod_int)
    then have "char_of (48 + int n mod 16) = char_of (48 + n mod 16)"
      "char_of (87 + int n mod 16) = char_of (87 + n mod 16)"
      by (simp_all only: char_of_nat)
    moreover have "int n mod 16 < 10 \<longleftrightarrow> n mod 16 < 10" by presburger
    ultimately show ?thesis
      by (cases "n mod 16 < 10") (simp_all only: hex_char_def if_True if_False)
  qed
  then show ?case using Suc [of "n div 16"] by (simp only: hex_digits_int.simps hex_digits.simps zdiv_int of_nat_numeral)
qed simp

lemma uuid_str_code [code]:
  "uuid_str u =
     (if uint u < 0 then [] else let n = uint u in
      hex_digits_int 8 (n div 0x1000000000000000000000000) @ ''-'' @
      hex_digits_int 4 (n div 0x100000000000000000000) @ ''-'' @
      hex_digits_int 4 (n div 0x10000000000000000) @ ''-'' @
      hex_digits_int 4 (n div 0x1000000000000) @ ''-'' @ hex_digits_int 12 n)"
proof -
  have n: "uint u = int (unat u)" by simp
  have nonneg: "\<not> int k < 0" for k by simp
  have pow: "(0x1000000000000000000000000 :: int) = int (16 ^ 24)" "(0x100000000000000000000 :: int) = int (16 ^ 20)"
    "(0x10000000000000000 :: int) = int (16 ^ 16)" "(0x1000000000000 :: int) = int (16 ^ 12)"
    by simp_all
  show ?thesis
    by (simp only: uuid_str_def Let_def pow n zdiv_int [symmetric] hex_digits_int nonneg if_False)
qed

lemma hex_char_less: "d < 16 \<Longrightarrow> e < 16 \<Longrightarrow> hex_char d < hex_char e \<longleftrightarrow> d < e"
  by (simp add: hex_char_def less_char_def)

lemma length_hex_digits [simp]: "length (hex_digits k n) = k"
  by (induction k n rule: hex_digits.induct) auto

lemma less_append_eq_length:
  fixes xs ys :: "'a::linorder list"
  shows "length xs = length ys \<Longrightarrow>
    xs @ us < ys @ vs \<longleftrightarrow> xs < ys \<or> xs = ys \<and> us < vs"
proof (induction xs ys rule: list_induct2)
  case (Cons x xs y ys)
  then show ?case by (cases "x = y") auto
qed auto

lemma hex_digits_less:
  "hex_digits k m < hex_digits k n \<longleftrightarrow> m mod 16 ^ k < n mod 16 ^ k"
proof (induction k arbitrary: m n)
  case (Suc k)
  have split: "p mod 16 ^ Suc k = 16 * ((p div 16) mod 16 ^ k) + p mod 16" for p :: nat
    by (simp add: mod_mult2_eq)
  have eq: "hex_digits k a = hex_digits k b \<longleftrightarrow> a mod 16 ^ k = b mod 16 ^ k" for a b
    using Suc.IH [of a b] Suc.IH [of b a] by (metis linorder_neq_iff)
  have "hex_digits (Suc k) m < hex_digits (Suc k) n \<longleftrightarrow>
      (m div 16) mod 16 ^ k < (n div 16) mod 16 ^ k \<or>
      (m div 16) mod 16 ^ k = (n div 16) mod 16 ^ k \<and> m mod 16 < n mod 16"
    by (simp add: less_append_eq_length Suc.IH eq hex_char_less)
  also have "\<dots> \<longleftrightarrow> 16 * ((m div 16) mod 16 ^ k) + m mod 16 < 16 * ((n div 16) mod 16 ^ k) + n mod 16"
    using mod_less_divisor [of 16 m] mod_less_divisor [of 16 n] by linarith
  finally show ?case by (simp only: split)
qed simp

lemma hex_digits_eq: "hex_digits k m = hex_digits k n \<longleftrightarrow> m mod 16 ^ k = n mod 16 ^ k"
  using hex_digits_less [of k m n] hex_digits_less [of k n m] by (metis linorder_neq_iff)

lemma hex_digits_add: "hex_digits (j + k) n = hex_digits j (n div 16 ^ k) @ hex_digits k n"
  by (induction k arbitrary: n) (simp_all add: div_mult2_eq)

lemma append_dash_less:
  fixes xs ys :: string
  assumes "length xs = length ys"
  shows "xs @ ''-'' @ us < ys @ ''-'' @ vs \<longleftrightarrow> xs @ us < ys @ vs"
  using assms by (simp add: less_append_eq_length)

text \<open>Hence sorting by \<open>str\<close> is sorting by the 128-bit value.\<close>

lemma uuid_str_less: "uuid_str u < uuid_str v \<longleftrightarrow> u < v"
proof -
  let ?m = "unat u" and ?n = "unat v"
  have plain: "hex_digits 8 (k div 16 ^ 24) @ hex_digits 4 (k div 16 ^ 20) @
      hex_digits 4 (k div 16 ^ 16) @ hex_digits 4 (k div 16 ^ 12) @ hex_digits 12 k = hex_digits 32 k" for k
    using hex_digits_add [of 8 24 k] hex_digits_add [of 4 20 k] hex_digits_add [of 4 16 k]
      hex_digits_add [of 4 12 k] by simp
  have dashes: "(uuid_str u < uuid_str v) = (hex_digits 32 ?m < hex_digits 32 ?n)"
    unfolding plain [symmetric] uuid_str_def Let_def
    by (simp add: append_dash_less less_append_eq_length)
  have "unat w < 16 ^ 32" for w :: uuid
    using unsigned_less [of w, where ?'a = nat] by simp
  then show ?thesis
    by (simp only: dashes hex_digits_less mod_less word_less_nat_alt)
qed

lemma uuid_str_inject: "uuid_str u = uuid_str v \<longleftrightarrow> u = v"
  using uuid_str_less [of u v] uuid_str_less [of v u] by (metis linorder_neq_iff)

lemma uuid_str_le: "uuid_str u \<le> uuid_str v \<longleftrightarrow> u \<le> v"
  using uuid_str_less [of v u] by (simp add: not_less [symmetric])

subsection \<open>Optional strings\<close>

text \<open>Python's truth value of an optional string: neither \<open>None\<close> nor empty.\<close>

definition truthy :: "string option \<Rightarrow> bool" where
  "truthy x \<longleftrightarrow> (case x of None \<Rightarrow> False | Some v \<Rightarrow> v \<noteq> [])"

lemma truthy_simps [simp]: "\<not> truthy None" "truthy (Some v) \<longleftrightarrow> v \<noteq> []"
  by (simp_all add: truthy_def)

definition or_else :: "'a option \<Rightarrow> 'a \<Rightarrow> 'a" where
  "or_else x d = (case x of None \<Rightarrow> d | Some v \<Rightarrow> v)"

lemma or_else_simps [simp]: "or_else None d = d" "or_else (Some v) d = v"
  by (simp_all add: or_else_def)

lemma sorted_map_uuid_str: "sorted (map uuid_str us) \<longleftrightarrow> sorted us"
  by (simp add: sorted_map uuid_str_le)

section \<open>Commands\<close>

text \<open>
  A command reads and writes a state and either raises (\<open>Inl\<close>) or returns (\<open>Inr\<close>). The
  state after a raise is the state at the raise: nothing is undone unless the code does it.
\<close>

type_synonym ('s, 'e, 'a) cmd = "'s \<Rightarrow> ('e + 'a) \<times> 's"

definition return_cmd :: "'a \<Rightarrow> ('s, 'e, 'a) cmd" where
  "return_cmd a = (\<lambda>s. (Inr a, s))"

definition raise_cmd :: "'e \<Rightarrow> ('s, 'e, 'a) cmd" where
  "raise_cmd e = (\<lambda>s. (Inl e, s))"

definition bind_cmd :: "('s, 'e, 'a) cmd \<Rightarrow> ('a \<Rightarrow> ('s, 'e, 'b) cmd) \<Rightarrow> ('s, 'e, 'b) cmd" where
  "bind_cmd m f = (\<lambda>s. case m s of (Inl e, t) \<Rightarrow> (Inl e, t) | (Inr a, t) \<Rightarrow> f a t)"

definition lift_result :: "'e + 'a \<Rightarrow> ('s, 'e, 'a) cmd" where
  "lift_result r = (\<lambda>s. (r, s))"

lemma lift_result_simp [simp, cmd_simps]: "lift_result r s = (r, s)"
  by (simp add: lift_result_def)

lemma return_cmd_simp [simp, cmd_simps]: "return_cmd a s = (Inr a, s)"
  by (simp add: return_cmd_def)

lemma raise_cmd_simp [simp, cmd_simps]: "raise_cmd e s = (Inl e, s)"
  by (simp add: raise_cmd_def)

lemma bind_cmd_Inr [cmd_simps]: "m s = (Inr a, t) \<Longrightarrow> bind_cmd m f s = f a t"
  by (simp add: bind_cmd_def)

lemma bind_cmd_Inl [cmd_simps]: "m s = (Inl e, t) \<Longrightarrow> bind_cmd m f s = (Inl e, t)"
  by (simp add: bind_cmd_def)

lemma bind_cmd_eq_Inr:
  "bind_cmd m f s = (Inr b, u) \<longleftrightarrow> (\<exists>a t. m s = (Inr a, t) \<and> f a t = (Inr b, u))"
  by (auto simp: bind_cmd_def split: prod.splits sum.splits)

lemma bind_cmd_eq_Inl:
  "bind_cmd m f s = (Inl e, u) \<longleftrightarrow>
     m s = (Inl e, u) \<or> (\<exists>a t. m s = (Inr a, t) \<and> f a t = (Inl e, u))"
  by (auto simp: bind_cmd_def split: prod.splits sum.splits)

definition map_error :: "('e \<Rightarrow> 'f) \<Rightarrow> ('s, 'e, 'a) cmd \<Rightarrow> ('s, 'f, 'a) cmd" where
  "map_error f m = (\<lambda>s. case m s of (Inl e, t) \<Rightarrow> (Inl (f e), t) | (Inr a, t) \<Rightarrow> (Inr a, t))"

lemma map_error_Inr [simp]: "map_error f m s = (Inr a, t) \<longleftrightarrow> m s = (Inr a, t)"
  by (auto simp: map_error_def split: prod.splits sum.splits)

lemma map_error_Inl: "map_error f m s = (Inl e, t) \<longleftrightarrow> (\<exists>e'. m s = (Inl e', t) \<and> e = f e')"
  by (auto simp: map_error_def split: prod.splits sum.splits)

lemma snd_bind_cmd:
  "snd (bind_cmd m f s) =
     (case m s of (Inl e, t) \<Rightarrow> t | (Inr a, t) \<Rightarrow> snd (f a t))"
  by (auto simp: bind_cmd_def split: prod.splits sum.splits)

text \<open>
  How the commit of a transaction ends: as the code asked, rolled back, or done although its
  confirmation is lost.
\<close>

datatype commit_outcome = CommitOk | CommitRolledBack | CommitLost

section \<open>Results\<close>

text \<open>A value or an error, for code that reads no state: a guard and the next computation.\<close>

definition bind_result :: "'e + 'a \<Rightarrow> ('a \<Rightarrow> 'e + 'b) \<Rightarrow> 'e + 'b" where
  "bind_result r f = (case r of Inl e \<Rightarrow> Inl e | Inr a \<Rightarrow> f a)"

definition guard :: "bool \<Rightarrow> 'e \<Rightarrow> 'e + unit" where
  "guard b e = (if b then Inr () else Inl e)"

lemma bind_result_simps [simp, cmd_simps]:
  "bind_result (Inl e) f = Inl e" "bind_result (Inr a) f = f a"
  by (simp_all add: bind_result_def)

lemma bind_result_Inr: "bind_result r f = Inr b \<longleftrightarrow> (\<exists>a. r = Inr a \<and> f a = Inr b)"
  by (cases r) simp_all

lemma bind_result_Inl: "bind_result r f = Inl e \<longleftrightarrow> r = Inl e \<or> (\<exists>a. r = Inr a \<and> f a = Inl e)"
  by (cases r) simp_all

lemma guard_Inr [simp]: "guard b e = Inr u \<longleftrightarrow> b"
  by (simp add: guard_def)

lemma guard_Inl [simp]: "guard b e = Inl e' \<longleftrightarrow> \<not> b \<and> e' = e"
  by (auto simp: guard_def)

lemma guard_simps [simp, cmd_simps]: "guard True e = Inr ()" "guard False e = Inl e"
  by (simp_all add: guard_def)

section \<open>Loops that may raise and dictionaries\<close>

text \<open>A list comprehension whose element may raise: the first raise ends it.\<close>

fun traverse :: "('a \<Rightarrow> 'e + 'b) \<Rightarrow> 'a list \<Rightarrow> 'e + 'b list" where
  "traverse f [] = Inr []"
| "traverse f (x # xs) =
     (case f x of
        Inl e \<Rightarrow> Inl e
      | Inr y \<Rightarrow> (case traverse f xs of Inl e \<Rightarrow> Inl e | Inr ys \<Rightarrow> Inr (y # ys)))"

lemma traverse_Inr:
  "(\<And>x. x \<in> set xs \<Longrightarrow> f x = Inr (g x)) \<Longrightarrow> traverse f xs = Inr (map g xs)"
  by (induction xs) auto

lemma traverse_InrD: "traverse f xs = Inr ys \<Longrightarrow> list_all2 (\<lambda>x y. f x = Inr y) xs ys"
  by (induction xs arbitrary: ys) (auto split: sum.splits)

text \<open>
  A dict comprehension: a repeated key keeps its first position and takes the last value.
\<close>

definition py_dict :: "('k \<times> 'v) list \<Rightarrow> ('k \<times> 'v) list" where
  "py_dict kvs = foldl (\<lambda>d (k, v). AList.update k v d) [] kvs"

lemma foldl_update_distinct:
  "distinct (map fst (d @ kvs)) \<Longrightarrow> foldl (\<lambda>d (k, v). AList.update k v d) d kvs = d @ kvs"
proof (induction kvs arbitrary: d)
  case (Cons kv kvs)
  obtain k v where kv: "kv = (k, v)" by (cases kv)
  have "AList.update k v d = d @ [(k, v)]"
    using Cons.prems kv by (induction d) auto
  then show ?case
    using Cons.IH [of "d @ [(k, v)]"] Cons.prems kv by simp
qed simp

lemma py_dict_distinct: "distinct (map fst kvs) \<Longrightarrow> py_dict kvs = kvs"
  using foldl_update_distinct [of "[]" kvs] by (simp add: py_dict_def)

section \<open>Tables\<close>

text \<open>
  A table is the list of its rows in insertion order. A query filters it, an update maps over
  it, \<open>RETURNING\<close> yields the changed rows.
\<close>

definition sql_update :: "('r \<Rightarrow> bool) \<Rightarrow> ('r \<Rightarrow> 'r) \<Rightarrow> 'r list \<Rightarrow> 'r list" where
  "sql_update p f rows = map (\<lambda>r. if p r then f r else r) rows"

definition sql_returning :: "('r \<Rightarrow> bool) \<Rightarrow> ('r \<Rightarrow> 'r) \<Rightarrow> 'r list \<Rightarrow> 'r list" where
  "sql_returning p f rows = map f (filter p rows)"

text \<open>\<open>SUM\<close> over the matching rows is \<open>NULL\<close> when there are none.\<close>

definition sql_sum :: "('r \<Rightarrow> bool) \<Rightarrow> ('r \<Rightarrow> int) \<Rightarrow> 'r list \<Rightarrow> int option" where
  "sql_sum p f rows =
     (case filter p rows of [] \<Rightarrow> None | m # ms \<Rightarrow> Some (sum_list (map f (m # ms))))"

text \<open>\<open>SELECT key, SUM(f) ... GROUP BY key\<close>: one row for each key that occurs.\<close>

definition sql_group_sum :: "('r \<Rightarrow> 'k) \<Rightarrow> ('r \<Rightarrow> int) \<Rightarrow> 'r list \<Rightarrow> ('k \<times> int) list" where
  "sql_group_sum key f rows =
     map (\<lambda>k. (k, sum_list (map f (filter (\<lambda>r. key r = k) rows)))) (remdups (map key rows))"

definition keys_unique :: "('r \<Rightarrow> 'k) \<Rightarrow> 'r list \<Rightarrow> bool" where
  "keys_unique key rows \<longleftrightarrow> distinct (map key rows)"

lemma sql_update_simps [simp, table_simps]:
  "sql_update p f [] = []"
  "sql_update p f (r # rs) = (if p r then f r else r) # sql_update p f rs"
  "sql_update p f (xs @ ys) = sql_update p f xs @ sql_update p f ys"
  by (simp_all add: sql_update_def)

lemma length_sql_update [simp]: "length (sql_update p f rows) = length rows"
  by (simp add: sql_update_def)

lemma set_sql_update:
  "set (sql_update p f rows) = {f r |r. r \<in> set rows \<and> p r} \<union> {r \<in> set rows. \<not> p r}"
  by (auto simp: sql_update_def)

lemma map_sql_update:
  "(\<And>r. r \<in> set rows \<Longrightarrow> p r \<Longrightarrow> g (f r) = g r) \<Longrightarrow> map g (sql_update p f rows) = map g rows"
  by (auto simp: sql_update_def)

lemma sql_update_id: "(\<And>r. r \<in> set rows \<Longrightarrow> \<not> p r) \<Longrightarrow> sql_update p f rows = rows"
  by (auto simp: sql_update_def intro: map_idI)

lemma sql_returning_Nil_iff:
  "sql_returning p f rows = [] \<longleftrightarrow> (\<forall>r \<in> set rows. \<not> p r)"
  by (auto simp: sql_returning_def filter_empty_conv)

lemma sql_sum_or_0 [simp, table_simps]:
  "or_else (sql_sum p f rows) 0 = sum_list (map f (filter p rows))"
  by (auto simp: sql_sum_def split: list.splits)

lemma map_of_map_self: "map_of (map (\<lambda>k. (k, g k)) ks) k = (if k \<in> set ks then Some (g k) else None)"
  by (induction ks) auto

lemma map_of_sql_group_sum:
  "map_of (sql_group_sum key f rows) k =
     (if k \<in> key ` set rows then Some (sum_list (map f (filter (\<lambda>r. key r = k) rows))) else None)"
  by (simp add: sql_group_sum_def map_of_map_self)

lemma or_else_group_sum:
  "or_else (map_of (sql_group_sum key f rows) k) 0 = sum_list (map f (filter (\<lambda>r. key r = k) rows))"
proof (cases "k \<in> key ` set rows")
  case False
  then have "filter (\<lambda>r. key r = k) rows = []" by (auto simp: filter_empty_conv)
  then show ?thesis using False by (simp only: map_of_sql_group_sum if_False) simp
qed (simp only: map_of_sql_group_sum if_True or_else_simps)

lemma keys_unique_simps [simp, table_simps]:
  "keys_unique key []"
  "keys_unique key (r # rs) \<longleftrightarrow> key r \<notin> key ` set rs \<and> keys_unique key rs"
  by (auto simp: keys_unique_def)

lemma keys_unique_snoc [simp, table_simps]:
  "keys_unique key (rs @ [r]) \<longleftrightarrow> key r \<notin> key ` set rs \<and> keys_unique key rs"
  by (auto simp: keys_unique_def)

lemma keys_unique_find:
  assumes "keys_unique key rows" and "r \<in> set rows"
  shows "find (\<lambda>x. key x = key r) rows = Some r"
  using assms
proof (induction rows)
  case (Cons x rows)
  then show ?case by (cases "x = r") (auto simp: image_iff)
qed simp

lemma keys_uniqueD:
  "keys_unique key rows \<Longrightarrow> x \<in> set rows \<Longrightarrow> y \<in> set rows \<Longrightarrow> key x = key y \<Longrightarrow> x = y"
  by (auto simp: keys_unique_def distinct_map inj_on_def)

lemma keys_unique_update:
  "(\<And>r. r \<in> set rows \<Longrightarrow> p r \<Longrightarrow> key (f r) = key r) \<Longrightarrow>
   keys_unique key (sql_update p f rows) \<longleftrightarrow> keys_unique key rows"
  by (simp add: keys_unique_def map_sql_update)

lemma distinct_constant:
  assumes "distinct (map f xs)" and "\<And>x. x \<in> set xs \<Longrightarrow> f x = c"
  shows "length xs \<le> 1"
proof -
  have "set (map f xs) \<subseteq> {c}" using assms(2) by auto
  then have "card (set (map f xs)) \<le> card {c}" by (intro card_mono) simp_all
  then show ?thesis using distinct_card [OF assms(1)] by simp
qed

lemma find_SomeD: "find p xs = Some x \<Longrightarrow> x \<in> set xs \<and> p x"
  by (auto simp: find_Some_iff)

lemma find_NoneD: "find p xs = None \<Longrightarrow> x \<in> set xs \<Longrightarrow> \<not> p x"
  by (auto simp: find_None_iff)

lemma keys_unique_filter:
  "keys_unique key rows \<Longrightarrow> filter (\<lambda>x. key x = k) rows =
     (case find (\<lambda>x. key x = k) rows of None \<Rightarrow> [] | Some r \<Rightarrow> [r])"
proof (induction rows)
  case (Cons r rows)
  show ?case
  proof (cases "key r = k")
    case True
    then have "find (\<lambda>x. key x = k) rows = None" using Cons.prems by (auto simp: find_None_iff) (metis imageI)
    then show ?thesis using Cons True by simp
  qed (use Cons in simp)
qed simp

text \<open>An update of the row with the key of \<open>r\<close> to \<open>r\<close>.\<close>

definition put_row :: "('r \<Rightarrow> 'k) \<Rightarrow> 'r \<Rightarrow> 'r list \<Rightarrow> 'r list" where
  "put_row key r rows = sql_update (\<lambda>x. key x = key r) (\<lambda>_. r) rows"

lemma map_put_row [simp]: "map key (put_row key r rows) = map key rows"
  unfolding put_row_def by (rule map_sql_update) simp

lemma keys_unique_put_row [simp]: "keys_unique key (put_row key r rows) \<longleftrightarrow> keys_unique key rows"
  by (simp add: keys_unique_def)

lemma set_put_row: "set (put_row key r rows) =
    {x \<in> set rows. key x \<noteq> key r} \<union> (if key r \<in> key ` set rows then {r} else {})"
  by (auto simp: put_row_def set_sql_update image_iff)

lemma put_row_image: "(\<And>x. x \<in> set rows \<Longrightarrow> key x = key r \<Longrightarrow> g x = g r) \<Longrightarrow> map g (put_row key r rows) = map g rows"
  by (auto simp: put_row_def map_sql_update)

lemma find_put_row: "find (\<lambda>x. key x = k) (put_row key r rows) =
    (if key r = k \<and> k \<in> key ` set rows then Some r else find (\<lambda>x. key x = k) rows)"
  by (induction rows) (auto simp: put_row_def)

lemma put_row_again: "key r = key r' \<Longrightarrow> put_row key r (put_row key r' rows) = put_row key r rows"
  by (simp add: put_row_def sql_update_def)

lemma put_row_id: "keys_unique key rows \<Longrightarrow> r \<in> set rows \<Longrightarrow> put_row key r rows = rows"
  unfolding put_row_def sql_update_def by (rule map_idI) (auto dest: keys_uniqueD)

text \<open>
  A compare-and-set update of at most one row: it changes nothing and returns nothing, or it
  replaces the one row that matches and returns the new one.
\<close>

lemma cas_update:
  assumes uniq: "keys_unique key rows" and key: "\<And>r. p r \<Longrightarrow> key r = k" "\<And>r. p r \<Longrightarrow> key (f r) = k"
  obtains (miss) "sql_update p f rows = rows" "sql_returning p f rows = []" "\<forall>r \<in> set rows. \<not> p r"
  | (hit) r where "r \<in> set rows" "p r" "key r = k" "sql_update p f rows = put_row key (f r) rows"
      "sql_returning p f rows = [f r]"
proof (cases "\<exists>r \<in> set rows. p r")
  case True
  then obtain r where r: "r \<in> set rows" "p r" by blast
  then have k: "key r = k" by (simp add: key)
  have same: "p x \<longleftrightarrow> x = r" if "x \<in> set rows" for x
    using keys_uniqueD [OF uniq that r(1)] that r key by auto
  have only: "key x = k \<longleftrightarrow> x = r" if "x \<in> set rows" for x
    using keys_uniqueD [OF uniq that r(1)] that k by auto
  have "sql_update p f rows = put_row key (f r) rows"
    using same only r(2) by (auto simp: sql_update_def put_row_def key(2))
  moreover have "filter p rows = filter (\<lambda>x. key x = k) rows"
    by (rule filter_cong) (auto simp: same only)
  then have "filter p rows = [r]"
    using keys_unique_filter [OF uniq, of k] keys_unique_find [OF uniq r(1)] k by simp
  then have "sql_returning p f rows = [f r]" by (simp add: sql_returning_def)
  ultimately show thesis using r k by (intro hit)
next
  case False
  then show thesis by (intro miss) (auto simp: sql_update_id sql_returning_def filter_empty_conv)
qed

end
