(* ===== verification/Cache.thy ===== *)
theory Cache
  imports Complex_Main Prelude
begin

text \<open>
  The process-local TTL cache of \<open>services/api/cache.py\<close>: entries with an expiry, lazy
  eviction on reads, explicit invalidation from the write paths. The injected clock is the
  argument \<open>now\<close>; its seconds are rationals (the rounding of Python floats is not
  modelled). The locale \<open>read_through\<close> is the contract the inventory routes rely on.
\<close>

section \<open>The cache\<close>

record 'v cache_entry =
  ce_value :: 'v
  ce_expires_at :: rat

record 'v ttl_cache =
  ttl_seconds :: rat
  cache_entries :: "(string \<times> 'v cache_entry) list"

definition ttl_cache_init :: "rat \<Rightarrow> string + 'v ttl_cache" where
  "ttl_cache_init ttl =
     (if ttl \<le> 0 then Inl ''ttl_seconds must be greater than zero''
      else Inr \<lparr>ttl_seconds = ttl, cache_entries = []\<rparr>)"

definition cache_get ::
  "rat \<Rightarrow> string \<Rightarrow> 'v option \<Rightarrow> 'v ttl_cache \<Rightarrow> 'v option \<times> 'v ttl_cache" where
  "cache_get now key dflt c =
     (case map_of (cache_entries c) key of
        None \<Rightarrow> (dflt, c)
      | Some entry \<Rightarrow>
          if ce_expires_at entry \<le> now
          then (dflt, c\<lparr>cache_entries := AList.delete key (cache_entries c)\<rparr>)
          else (Some (ce_value entry), c))"

definition cache_set :: "rat \<Rightarrow> string \<Rightarrow> 'v \<Rightarrow> 'v ttl_cache \<Rightarrow> 'v ttl_cache" where
  "cache_set now key value c =
     c\<lparr>cache_entries :=
        AList.update key \<lparr>ce_value = value, ce_expires_at = now + ttl_seconds c\<rparr> (cache_entries c)\<rparr>"

definition cache_delete :: "string \<Rightarrow> 'v ttl_cache \<Rightarrow> bool \<times> 'v ttl_cache" where
  "cache_delete key c =
     (map_of (cache_entries c) key \<noteq> None,
      c\<lparr>cache_entries := AList.delete key (cache_entries c)\<rparr>)"

definition cache_clear :: "'v ttl_cache \<Rightarrow> 'v ttl_cache" where
  "cache_clear c = c\<lparr>cache_entries := []\<rparr>"

definition cache_len :: "rat \<Rightarrow> 'v ttl_cache \<Rightarrow> nat \<times> 'v ttl_cache" where
  "cache_len now c =
     (let expired = map fst (filter (\<lambda>(_, entry). ce_expires_at entry \<le> now) (cache_entries c));
          kept = foldl (\<lambda>es key. AList.delete key es) (cache_entries c) expired
      in (length kept, c\<lparr>cache_entries := kept\<rparr>))"

definition inventory_cache_key :: "string \<Rightarrow> int \<Rightarrow> string" where
  "inventory_cache_key kind bind_id = kind @ '':'' @ str_int bind_id"

text \<open>A Python dict has each key once.\<close>

definition cache_wf :: "'v ttl_cache \<Rightarrow> bool" where
  "cache_wf c \<longleftrightarrow> 0 < ttl_seconds c \<and> distinct (map fst (cache_entries c))"

text \<open>What a reader would see at an instant, with no effect on the cache.\<close>

definition cache_live :: "rat \<Rightarrow> 'v ttl_cache \<Rightarrow> string \<Rightarrow> 'v option" where
  "cache_live now c key =
     (case map_of (cache_entries c) key of
        None \<Rightarrow> None
      | Some entry \<Rightarrow> if ce_expires_at entry \<le> now then None else Some (ce_value entry))"

lemma cache_live_get: "fst (cache_get now key None c) = cache_live now c key"
  by (simp add: cache_get_def cache_live_def split: option.splits)

lemma cache_live_after_get:
  "cache_wf c \<Longrightarrow> now \<le> t \<Longrightarrow> cache_live t (snd (cache_get now key dflt c)) k = cache_live t c k"
  by (auto simp: cache_get_def cache_live_def AList.delete_conv' split: option.splits)

lemma cache_live_set:
  "cache_live t (cache_set now key v c) k =
     (if k = key then (if now + ttl_seconds c \<le> t then None else Some v) else cache_live t c k)"
  by (simp add: cache_set_def cache_live_def AList.update_conv')

lemma cache_live_delete:
  "cache_live t (snd (cache_delete key c)) k = (if k = key then None else cache_live t c k)"
  by (simp add: cache_delete_def cache_live_def AList.delete_conv')

lemma cache_wf_set: "cache_wf c \<Longrightarrow> cache_wf (cache_set now key v c)"
  by (simp add: cache_wf_def cache_set_def AList.distinct_update)

lemma cache_wf_get: "cache_wf c \<Longrightarrow> cache_wf (snd (cache_get now key dflt c))"
  by (auto simp: cache_wf_def cache_get_def AList.distinct_delete split: option.splits)

lemma cache_wf_delete: "cache_wf c \<Longrightarrow> cache_wf (snd (cache_delete key c))"
  by (simp add: cache_wf_def cache_delete_def AList.distinct_delete)

lemma foldl_delete_eq:
  "foldl (\<lambda>es key. AList.delete key es) es ks = filter (\<lambda>e. fst e \<notin> set ks) es"
proof (induction ks arbitrary: es)
  case (Cons k ks)
  have "foldl (\<lambda>es key. AList.delete key es) es (k # ks) =
    filter (\<lambda>e. fst e \<notin> set ks) (filter (\<lambda>e. k \<noteq> fst e) es)"
    using Cons.IH [of "AList.delete k es"] by (simp only: foldl.simps) (simp only: AList.delete_eq split_def)
  also have "\<dots> = filter (\<lambda>e. fst e \<notin> set (k # ks)) es"
    unfolding filter_filter by (rule filter_cong) auto
  finally show ?case .
qed simp

lemma cache_len_counts_live:
  assumes "cache_wf c"
  shows "fst (cache_len now c) = card {k. cache_live now c k \<noteq> None}"
proof -
  let ?es = "cache_entries c"
  let ?ex = "map fst (filter (\<lambda>(_, entry). ce_expires_at entry \<le> now) ?es)"
  let ?kept = "filter (\<lambda>e. fst e \<notin> set ?ex) ?es"
  have d: "distinct (map fst ?es)" using assms by (simp add: cache_wf_def)
  then have "distinct (map fst ?kept)" by (simp add: distinct_map_filter)
  then have "card (set (map fst ?kept)) = length (map fst ?kept)" by (rule distinct_card)
  then have "length ?kept = card (fst ` set ?kept)" by (simp only: length_map list.set_map)
  moreover have "fst ` set ?kept = {k. cache_live now c k \<noteq> None}"
  proof (intro set_eqI iffI)
    fix k assume "k \<in> fst ` set ?kept"
    then obtain e where e: "(k, e) \<in> set ?es" and n: "k \<notin> set ?ex" by auto
    then have "\<not> ce_expires_at e \<le> now" by force
    with d e show "k \<in> {k. cache_live now c k \<noteq> None}"
      by (simp add: cache_live_def)
  next
    fix k assume "k \<in> {k. cache_live now c k \<noteq> None}"
    then obtain e where e: "map_of ?es k = Some e" and n: "\<not> ce_expires_at e \<le> now"
      by (auto simp: cache_live_def split: option.splits if_splits)
    have in_es: "(k, e) \<in> set ?es" using e by (rule map_of_SomeD)
    have "k \<notin> set ?ex"
    proof
      assume "k \<in> set ?ex"
      then obtain e' where "(k, e') \<in> set ?es" "ce_expires_at e' \<le> now" by auto
      with d e n show False by simp
    qed
    then have "(k, e) \<in> set ?kept" using in_es by simp
    then show "k \<in> fst ` set ?kept" by (rule image_eqI [rotated]) simp
  qed
  ultimately show ?thesis
    by (simp add: cache_len_def Let_def foldl_delete_eq)
qed

section \<open>The contract of a read-through projection\<close>

text \<open>
  \<open>holds c k v\<close>: whatever a reader finds under \<open>k\<close>, now or later, is \<open>v\<close>. The laws say
  that a lookup returns only held values, that storing the current value keeps what is held and
  that a drop leaves nothing to be read.
\<close>

locale read_through =
  fixes lookup :: "'t \<Rightarrow> 'k \<Rightarrow> 'c \<Rightarrow> 'v option \<times> 'c"
    and store :: "'t \<Rightarrow> 'k \<Rightarrow> 'v \<Rightarrow> 'c \<Rightarrow> 'c"
    and drop_key :: "'k \<Rightarrow> 'c \<Rightarrow> 'c"
    and holds :: "'c \<Rightarrow> 'k \<Rightarrow> 'v \<Rightarrow> bool"
  assumes lookup_held: "holds c k v \<Longrightarrow> fst (lookup t k c) = Some w \<Longrightarrow> w = v"
    and holds_lookup: "holds c k v \<Longrightarrow> holds (snd (lookup t j c)) k v"
    and holds_store: "holds (store t k v c) k v"
    and holds_store_other: "holds c k v \<Longrightarrow> j \<noteq> k \<Longrightarrow> holds (store t j w c) k v"
    and holds_drop: "holds (drop_key k c) k v"
    and holds_drop_other: "holds c k v \<Longrightarrow> holds (drop_key j c) k v"
begin

definition fetch :: "'t \<Rightarrow> 'k \<Rightarrow> 'v \<Rightarrow> 'c \<Rightarrow> 'v \<times> 'c" where
  "fetch t k v c =
     (case lookup t k c of
        (Some w, c') \<Rightarrow> (w, c')
      | (None, c') \<Rightarrow> (v, store t k v c'))"

text \<open>A read-through fetch of a held key returns the value it would compute afresh.\<close>

lemma fetch_fresh:
  assumes "holds c k v"
  shows "fst (fetch t k v c) = v"
proof (cases "lookup t k c")
  case (Pair r c')
  then show ?thesis
    using lookup_held [OF assms, of t] by (cases r) (simp_all add: fetch_def)
qed

lemma fetch_holds: "holds c k v \<Longrightarrow> holds (snd (fetch t k v c)) k v"
  using holds_lookup [of c k v t k] holds_store
  by (auto simp: fetch_def split: prod.splits option.splits)

lemma drop_fetch_fresh: "fst (fetch t k v (drop_key k c)) = v"
  by (rule fetch_fresh) (rule holds_drop)

end

text \<open>
  For the TTL cache: every entry stored under the key, expired or not, has the value.
\<close>

definition cache_holds :: "'v ttl_cache \<Rightarrow> string \<Rightarrow> 'v \<Rightarrow> bool" where
  "cache_holds c key v \<longleftrightarrow>
     (case map_of (cache_entries c) key of None \<Rightarrow> True | Some entry \<Rightarrow> ce_value entry = v)"

interpretation ttl: read_through
  "\<lambda>now key. cache_get now key None" cache_set "\<lambda>key c. snd (cache_delete key c)" cache_holds
proof unfold_locales
qed (auto simp: cache_holds_def cache_get_def cache_set_def cache_delete_def AList.update_conv'
      AList.delete_conv' split: option.splits if_splits)

end
