(* ===== verification/InventoryModels.thy ===== *)
theory InventoryModels
  imports Cache
begin

text \<open>
  The inventory data: the rows of \<open>services/api/inventory_models.py\<close> with their table
  constraints, the payloads of \<open>services/api/inventory_schemas.py\<close> with their validators, the
  client registry of \<open>services/api/inventory_clients.py\<close>, the warehouse vocabulary of
  \<open>services/api/telemetry_utils.py\<close> and the telemetry envelope of
  \<open>services/api/telemetry_schemas.py\<close>.
\<close>

section \<open>Errors\<close>

datatype api_error =
    HTTPException int string "string option"
  | InventoryDataIntegrityError "int set"
  | IntegrityError string
  | OperationalError
  | ValueError string
  | ValidationError string
  | KeyError int

section \<open>Rows\<close>

record sku_row =
  sku_id :: int
  sku_name :: string
  sku_code :: string
  sku_client_name :: string
  sku_category :: string
  sku_warehouse :: string
  sku_client_id :: "string option"
  sku_minimum_stock_threshold :: "int option"

record stock_entry =
  en_id :: int
  en_sku_id :: int
  en_quantity :: int
  en_reference :: string
  en_warehouse :: string
  en_created_at :: time
  en_user_uuid :: string

record stock_exit =
  ex_id :: int
  ex_sku_id :: int
  ex_quantity :: int
  ex_exit_type :: string
  ex_tracking_number :: "string option"
  ex_warehouse :: string
  ex_created_at :: time
  ex_user_uuid :: string
  ex_commercial_order_id :: "int option"
  ex_dispatch_id :: "uuid option"

record commercial_order =
  co_id :: int
  co_order_id :: uuid
  co_client_id :: string
  co_warehouse :: string
  co_created_at :: time

record physical_count =
  pc_id :: int
  pc_count_id :: uuid
  pc_sku_id :: int
  pc_client_id :: string
  pc_warehouse :: string
  pc_expected_quantity :: int
  pc_observed_quantity :: int
  pc_confirmed_at :: time
  pc_user_uuid :: string

record threshold_evaluation =
  te_id :: int
  te_source_table :: string
  te_source_pk :: int
  te_sku_id :: int
  te_client_id :: "string option"
  te_warehouse :: string
  te_before_quantity :: int
  te_after_quantity :: int
  te_threshold_quantity :: "int option"
  te_crossed :: bool
  te_event_id :: "uuid option"
  te_evaluated_at :: time

section \<open>Table constraints\<close>

text \<open>The \<open>CHECK\<close> constraints of the table definitions, one predicate per table.\<close>

definition stock_exit_check :: "stock_exit \<Rightarrow> string option" where
  "stock_exit_check x =
     (if \<not> (ex_commercial_order_id x = None \<or> ex_exit_type x = ''dispatch'')
      then Some ''ck_stockexit_order_only_for_dispatch''
      else if \<not> (ex_commercial_order_id x = None \<or> ex_dispatch_id x \<noteq> None)
      then Some ''ck_stockexit_order_requires_dispatch_id''
      else None)"

definition physical_count_check :: "physical_count \<Rightarrow> string option" where
  "physical_count_check c =
     (if \<not> 0 \<le> pc_expected_quantity c
      then Some ''ck_inventory_physical_count_expected_nonnegative''
      else if \<not> 0 \<le> pc_observed_quantity c
      then Some ''ck_inventory_physical_count_observed_nonnegative''
      else None)"

definition threshold_evaluation_check :: "threshold_evaluation \<Rightarrow> string option" where
  "threshold_evaluation_check e =
     (if te_source_table e \<notin> {''stockentry'', ''stockexit''}
      then Some ''ck_threshold_evaluation_source_table''
      else if \<not> (0 \<le> te_before_quantity e \<and> 0 \<le> te_after_quantity e)
      then Some ''ck_threshold_evaluation_quantities_nonnegative''
      else if \<not> (case te_threshold_quantity e of None \<Rightarrow> True | Some t \<Rightarrow> 0 \<le> t)
      then Some ''ck_threshold_evaluation_threshold_nonnegative''
      else if te_crossed e \<longleftrightarrow> te_event_id e = None
      then Some ''ck_threshold_evaluation_crossed_event''
      else None)"

definition sku_check :: "sku_row \<Rightarrow> string option" where
  "sku_check s =
     (if \<not> (case sku_minimum_stock_threshold s of None \<Rightarrow> True | Some t \<Rightarrow> 0 \<le> t)
      then Some ''ck_sku_minimum_stock_threshold_nonnegative'' else None)"

lemma sku_check_None:
  "sku_check s = None \<longleftrightarrow> (\<forall>t. sku_minimum_stock_threshold s = Some t \<longrightarrow> 0 \<le> t)"
  by (auto simp: sku_check_def split: option.splits)

lemma threshold_evaluation_check_None:
  "threshold_evaluation_check e = None \<longleftrightarrow>
     te_source_table e \<in> {''stockentry'', ''stockexit''} \<and>
     0 \<le> te_before_quantity e \<and> 0 \<le> te_after_quantity e \<and>
     (\<forall>t. te_threshold_quantity e = Some t \<longrightarrow> 0 \<le> t) \<and>
     (te_crossed e \<longleftrightarrow> te_event_id e \<noteq> None)"
  by (auto simp: threshold_evaluation_check_def split: option.splits)

section \<open>Vocabularies\<close>

datatype category = FASHION | ELECTRONICS | COSMETICS

fun category_value :: "category \<Rightarrow> string" where
  "category_value FASHION = ''fashion''"
| "category_value ELECTRONICS = ''electronics''"
| "category_value COSMETICS = ''cosmetics''"

datatype warehouse = LA | ZGZ

fun warehouse_value :: "warehouse \<Rightarrow> string" where
  "warehouse_value LA = ''LA''"
| "warehouse_value ZGZ = ''ZGZ''"

datatype exit_type = DISPATCH | LOSS

fun exit_type_value :: "exit_type \<Rightarrow> string" where
  "exit_type_value DISPATCH = ''dispatch''"
| "exit_type_value LOSS = ''loss''"

definition canonical_telemetry_warehouse :: "string \<Rightarrow> string option" where
  "canonical_telemetry_warehouse w =
     map_of [(''LA'', ''los_angeles''), (''ZGZ'', ''zaragoza''),
             (''Los Angeles'', ''los_angeles''), (''Zaragoza'', ''zaragoza'')] w"

lemma canonical_warehouse_value [simp]:
  "canonical_telemetry_warehouse (warehouse_value LA) = Some ''los_angeles''"
  "canonical_telemetry_warehouse (warehouse_value ZGZ) = Some ''zaragoza''"
  by (simp_all add: canonical_telemetry_warehouse_def)

lemma canonical_warehouse_value_defined:
  "\<exists>c. canonical_telemetry_warehouse (warehouse_value w) = Some c"
  by (cases w) (simp_all only: canonical_warehouse_value option.inject ex_simps simp_thms)

record canonical_client =
  cc_client_id :: string
  cc_client_name :: string

definition CANONICAL_CLIENTS :: "canonical_client list" where
  "CANONICAL_CLIENTS =
     [\<lparr>cc_client_id = ''7f6e3d21-8c4a-4b92-a1d7-5e9f2c6b1048'', cc_client_name = ''PureStep Footwear''\<rparr>,
      \<lparr>cc_client_id = ''2a9b7c41-6d8e-4f03-b5c2-9a1e7d4f8260'', cc_client_name = ''SoundWave Electronics''\<rparr>,
      \<lparr>cc_client_id = ''c4d8e2f7-1a63-4b90-8e25-6f3c9d7a1052'', cc_client_name = ''GlowLab Cosmetics''\<rparr>,
      \<lparr>cc_client_id = ''9e1b5d73-4c28-4a06-bf91-7d2e8c6a4305'', cc_client_name = ''UrbanThread''\<rparr>]"

definition get_canonical_client :: "string \<Rightarrow> canonical_client option" where
  "get_canonical_client client_id =
     map_of (map (\<lambda>c. (cc_client_id c, c)) CANONICAL_CLIENTS) client_id"

definition validate_client_pair :: "string \<Rightarrow> string \<Rightarrow> api_error + unit" where
  "validate_client_pair client_id client_name =
     (case get_canonical_client client_id of
        None \<Rightarrow> Inl (ValueError ''Unknown client_id.'')
      | Some client \<Rightarrow>
          if cc_client_name client \<noteq> client_name
          then Inl (ValueError ''client_id and client_name do not match.'')
          else Inr ())"

section \<open>Payloads\<close>

text \<open>The enumerations read a stored value back, or fail.\<close>

definition parse_category :: "string \<Rightarrow> category option" where
  "parse_category v =
     (if v = ''fashion'' then Some FASHION
      else if v = ''electronics'' then Some ELECTRONICS
      else if v = ''cosmetics'' then Some COSMETICS
      else None)"

definition parse_warehouse :: "string \<Rightarrow> warehouse option" where
  "parse_warehouse v = (if v = ''LA'' then Some LA else if v = ''ZGZ'' then Some ZGZ else None)"

lemma parse_category_value [simp]: "parse_category (category_value c) = Some c"
  by (cases c) (simp_all add: parse_category_def)

lemma parse_warehouse_value [simp]: "parse_warehouse (warehouse_value w) = Some w"
  by (cases w) (simp_all add: parse_warehouse_def)

lemma warehouse_value_inject [simp]: "warehouse_value v = warehouse_value w \<longleftrightarrow> v = w"
  by (metis option.inject parse_warehouse_value)

text \<open>
  A payload record is the parsed body; \<open>check_\<dots>\<close> is the validation its schema adds, so that a
  body that fails it never reaches the service.
\<close>

record sku_create =
  sc_name :: string
  sc_sku :: string
  sc_client_id :: string
  sc_client_name :: string
  sc_category :: category
  sc_warehouse :: warehouse
  sc_minimum_stock_threshold :: "int option"

definition check_sku_create :: "sku_create \<Rightarrow> api_error + unit" where
  "check_sku_create p =
     (case sc_minimum_stock_threshold p of
        Some t \<Rightarrow> if t < 0 then Inl (ValidationError ''minimum_stock_threshold'')
                  else validate_client_pair (sc_client_id p) (sc_client_name p)
      | None \<Rightarrow> validate_client_pair (sc_client_id p) (sc_client_name p))"

definition check_sku_threshold_update :: "int option \<Rightarrow> api_error + unit" where
  "check_sku_threshold_update t =
     (case t of
        Some v \<Rightarrow> if v < 0 then Inl (ValidationError ''minimum_stock_threshold'') else Inr ()
      | None \<Rightarrow> Inr ())"

record stock_entry_create =
  sec_sku_id :: int
  sec_quantity :: int
  sec_reference :: string
  sec_warehouse :: warehouse

definition check_stock_entry_create :: "stock_entry_create \<Rightarrow> api_error + unit" where
  "check_stock_entry_create p =
     (if sec_quantity p \<le> 0 then Inl (ValidationError ''quantity'') else Inr ())"

record stock_exit_create =
  sxc_sku_id :: int
  sxc_quantity :: int
  sxc_exit_type :: exit_type
  sxc_tracking_number :: "string option"
  sxc_warehouse :: warehouse

definition check_stock_exit_create :: "stock_exit_create \<Rightarrow> api_error + unit" where
  "check_stock_exit_create p =
     (if sxc_quantity p \<le> 0 then Inl (ValidationError ''quantity'')
      else case sxc_exit_type p of
        DISPATCH \<Rightarrow>
          if \<not> truthy (sxc_tracking_number p)
          then Inl (ValidationError
            (''tracking_number is required when exit_type is '' @ quoted ''dispatch''))
          else Inr ()
      | LOSS \<Rightarrow>
          if sxc_tracking_number p \<noteq> None
          then Inl (ValidationError
            (''tracking_number must be None when exit_type is '' @ quoted ''loss''))
          else Inr ())"

record dispatch_create =
  dc_dispatch_id :: uuid
  dc_sku_id :: int
  dc_quantity :: int
  dc_tracking_number :: string

definition check_dispatch_create :: "dispatch_create \<Rightarrow> api_error + unit" where
  "check_dispatch_create p =
     (if uuid_version (dc_dispatch_id p) \<noteq> Some 4 then Inl (ValidationError ''dispatch_id'')
      else if dc_sku_id p \<le> 0 then Inl (ValidationError ''sku_id'')
      else if dc_quantity p \<le> 0 then Inl (ValidationError ''quantity'')
      else if dc_tracking_number p = [] then Inl (ValidationError ''tracking_number'')
      else Inr ())"

fun check_dispatches :: "dispatch_create list \<Rightarrow> api_error + unit" where
  "check_dispatches [] = Inr ()"
| "check_dispatches (d # ds) =
     (case check_dispatch_create d of Inl e \<Rightarrow> Inl e | Inr _ \<Rightarrow> check_dispatches ds)"

definition unique_dispatch_ids :: "dispatch_create list \<Rightarrow> api_error + unit" where
  "unique_dispatch_ids ds =
     (if \<not> distinct (map dc_dispatch_id ds)
      then Inl (ValidationError ''dispatch_id values must be unique within a command'')
      else Inr ())"

record commercial_order_create =
  coc_order_id :: uuid
  coc_client_id :: string
  coc_warehouse :: warehouse
  coc_dispatches :: "dispatch_create list"

definition check_commercial_order_create :: "commercial_order_create \<Rightarrow> api_error + unit" where
  "check_commercial_order_create p =
     (if uuid_version (coc_order_id p) \<noteq> Some 4 then Inl (ValidationError ''order_id'')
      else if coc_client_id p = [] then Inl (ValidationError ''client_id'')
      else if coc_dispatches p = [] then Inl (ValidationError ''dispatches'')
      else case check_dispatches (coc_dispatches p) of
        Inl e \<Rightarrow> Inl e
      | Inr _ \<Rightarrow> unique_dispatch_ids (coc_dispatches p))"

record dispatch_append =
  da_order_id :: uuid
  da_dispatches :: "dispatch_create list"

definition check_dispatch_append :: "dispatch_append \<Rightarrow> api_error + unit" where
  "check_dispatch_append p =
     (if uuid_version (da_order_id p) \<noteq> Some 4 then Inl (ValidationError ''order_id'')
      else if da_dispatches p = [] then Inl (ValidationError ''dispatches'')
      else case check_dispatches (da_dispatches p) of
        Inl e \<Rightarrow> Inl e
      | Inr _ \<Rightarrow> unique_dispatch_ids (da_dispatches p))"

record physical_count_create =
  pcc_count_id :: uuid
  pcc_sku_id :: int
  pcc_observed_quantity :: int
  pcc_warehouse :: warehouse

definition check_physical_count_create :: "physical_count_create \<Rightarrow> api_error + unit" where
  "check_physical_count_create p =
     (if uuid_version (pcc_count_id p) \<noteq> Some 4 then Inl (ValidationError ''count_id'')
      else if pcc_observed_quantity p < 0 then Inl (ValidationError ''observed_quantity'')
      else Inr ())"

definition dispatch_ok :: "dispatch_create \<Rightarrow> bool" where
  "dispatch_ok d \<longleftrightarrow> uuid_version (dc_dispatch_id d) = Some 4 \<and> 0 < dc_sku_id d \<and>
     0 < dc_quantity d \<and> dc_tracking_number d \<noteq> []"

lemma check_dispatches_Inr:
  "check_dispatches ds = Inr () \<longleftrightarrow> (\<forall>d \<in> set ds. dispatch_ok d)"
  by (induction ds) (auto simp: check_dispatch_create_def dispatch_ok_def split: sum.splits if_splits)

lemma check_commercial_order_create_Inr:
  "check_commercial_order_create p = Inr () \<longleftrightarrow>
     uuid_version (coc_order_id p) = Some 4 \<and> coc_client_id p \<noteq> [] \<and> coc_dispatches p \<noteq> [] \<and>
     (\<forall>d \<in> set (coc_dispatches p). dispatch_ok d) \<and> distinct (map dc_dispatch_id (coc_dispatches p))"
  using check_dispatches_Inr [of "coc_dispatches p"]
  by (auto simp: check_commercial_order_create_def unique_dispatch_ids_def split: sum.splits)

lemma check_dispatch_append_Inr:
  "check_dispatch_append p = Inr () \<longleftrightarrow>
     uuid_version (da_order_id p) = Some 4 \<and> da_dispatches p \<noteq> [] \<and>
     (\<forall>d \<in> set (da_dispatches p). dispatch_ok d) \<and> distinct (map dc_dispatch_id (da_dispatches p))"
  using check_dispatches_Inr [of "da_dispatches p"]
  by (auto simp: check_dispatch_append_def unique_dispatch_ids_def split: sum.splits)

section \<open>Responses\<close>

record sku_response =
  sr_id :: int
  sr_name :: string
  sr_sku :: string
  sr_client_id :: "string option"
  sr_client_name :: string
  sr_category :: category
  sr_warehouse :: warehouse
  sr_minimum_stock_threshold :: "int option"
  sr_current_stock :: int

record order_item =
  oi_id :: int
  oi_movement_type :: string
  oi_quantity :: int
  oi_warehouse :: warehouse
  oi_created_at :: time
  oi_user_uuid :: string
  oi_sku_name :: string
  oi_sku_code :: string
  oi_reference :: "string option"
  oi_exit_type :: "string option"
  oi_tracking_number :: "string option"

record order_mutation_response =
  om_id :: int
  om_order_id :: uuid
  om_dispatch_ids :: "uuid list"

section \<open>Telemetry envelope\<close>

record telemetry_event =
  tv_eventId :: uuid
  tv_timestamp :: time
  tv_sessionId :: "string option"
  tv_userId :: "string option"
  tv_event_type :: string
  tv_schemaVersion :: string
  tv_requestId :: "string option"
  tv_properties :: tags

text \<open>
  The validation of the envelope. The timestamp conditions (aware, UTC, a trailing \<open>Z\<close>) are
  those of the type \<^typ>\<open>time\<close>.
\<close>

definition TelemetryEvent :: "telemetry_event \<Rightarrow> api_error + telemetry_event" where
  "TelemetryEvent e =
     (if uuid_version (tv_eventId e) \<noteq> Some 4 then Inl (ValidationError ''eventId must be a UUID v4'')
      else if tv_sessionId e = Some [] then Inl (ValidationError ''sessionId'')
      else if tv_userId e = Some [] then Inl (ValidationError ''userId'')
      else if tv_event_type e = [] then Inl (ValidationError ''event_type'')
      else if blank (tv_event_type e) then Inl (ValidationError ''event_type must not be blank'')
      else if tv_schemaVersion e \<noteq> ''1.0'' then Inl (ValidationError ''schemaVersion'')
      else if tv_requestId e = Some [] then Inl (ValidationError ''requestId'')
      else Inr e)"

lemma TelemetryEvent_Inr: "TelemetryEvent e = Inr e' \<Longrightarrow> e' = e \<and> uuid_version (tv_eventId e) = Some 4"
  by (auto simp: TelemetryEvent_def split: if_splits)

end
