(* ===== verification/Telemetry.thy ===== *)
theory Telemetry
  imports InventoryModels
begin

text \<open>
  The telemetry rows of \<open>services/api/telemetry_storage.py\<close>: the property allowlists, the two
  mappings to insertable rows and the one-statement insert. The destination table is a list of
  rows; whether a statement or a commit of that database fails is an argument.
\<close>

record telemetry_row =
  tr_id :: "uuid option"
  tr_timestamp :: time
  tr_service :: string
  tr_event_type :: string
  tr_level :: "string option"
  tr_value :: "int option"
  tr_message :: "string option"
  tr_tags :: tags

definition EVENT_PROPERTY_ALLOWLISTS :: "(string \<times> string list) list" where
  "EVENT_PROPERTY_ALLOWLISTS =
     [(''inbound_order_created'',
       [''warehouse'', ''client_id'', ''product_id'', ''product_category'', ''quantity'', ''movement_id'']),
      (''outbound_order_created'', [''warehouse'', ''client_id'', ''order_id'']),
      (''stock_threshold_triggered'',
       [''warehouse'', ''client_id'', ''product_id'', ''product_category'', ''quantity'',
        ''threshold_quantity'', ''movement_id'']),
      (''direct_stock_edit_rejected'',
       [''warehouse'', ''client_id'', ''product_id'', ''product_category'', ''quantity'']),
      (''inventory_discrepancy_detected'',
       [''warehouse'', ''client_id'', ''product_id'', ''product_category'', ''quantity'',
        ''system_quantity'', ''counted_quantity'', ''discrepancy_delta'', ''discrepancy_type'',
        ''count_id'']),
      (''auth_login_succeeded'', [''role'']),
      (''auth_login_failed'', [''failure_reason'', ''role_if_known'']),
      (''auth_password_reset_requested'', [''request_outcome_class'']),
      (''auth_password_reset_completed'', []),
      (''inventory_validation_failed'',
       [''operation'', ''failure_reason'', ''warehouse'', ''product_id'', ''status_code'']),
      (''inventory_stock_insufficient'',
       [''warehouse'', ''client_id'', ''product_id'', ''product_category'', ''requested_quantity'',
        ''available_quantity'']),
      (''api_request_slow'',
       [''method'', ''path_template'', ''status_code'', ''duration_ms'', ''threshold_ms'']),
      (''api_request_failed'', [''method'', ''path_template'', ''status_code'', ''duration_ms'']),
      (''backoffice_section_entered'', [''section'']),
      (''inventory_workflow_started'', [''workflow'']),
      (''inventory_workflow_abandoned'',
       [''workflow'', ''abandonment_stage'', ''had_validation_error'', ''duration_ms'']),
      (''inventory_product_created'',
       [''warehouse'', ''client_id'', ''product_id'', ''product_category''])]"

definition filter_tags :: "string \<Rightarrow> tags \<Rightarrow> tags" where
  "filter_tags event_type properties =
     (case map_of EVENT_PROPERTY_ALLOWLISTS event_type of
        None \<Rightarrow> []
      | Some allowed \<Rightarrow>
          if allowed = [] \<or> properties = [] then []
          else filter (\<lambda>(key, _). key \<in> set allowed) properties)"

definition map_event_to_row :: "string \<Rightarrow> telemetry_event \<Rightarrow> telemetry_row" where
  "map_event_to_row service event =
     \<lparr>tr_id = None, tr_timestamp = tv_timestamp event, tr_service = service,
      tr_event_type = tv_event_type event, tr_level = Some ''info'', tr_value = None,
      tr_message = None, tr_tags = filter_tags (tv_event_type event) (tv_properties event)\<rparr>"

definition map_outbox_event_to_row :: "uuid \<Rightarrow> time \<Rightarrow> string \<Rightarrow> tags \<Rightarrow> telemetry_row" where
  "map_outbox_event_to_row event_id occurred_at event_type event_tags =
     \<lparr>tr_id = Some event_id, tr_timestamp = occurred_at, tr_service = ''api'',
      tr_event_type = event_type, tr_level = Some ''info'', tr_value = None,
      tr_message = None, tr_tags = filter_tags event_type event_tags\<rparr>"

text \<open>The insert of a non-empty batch commits as a whole or rolls back and raises.\<close>

definition bulk_insert_telemetry ::
  "bool \<Rightarrow> telemetry_row list \<Rightarrow> (telemetry_row list, api_error, unit) cmd" where
  "bulk_insert_telemetry db_ok rows table =
     (if rows = [] then (Inr (), table)
      else if db_ok then (Inr (), table @ rows)
      else (Inl OperationalError, table))"

definition persist_backend_telemetry ::
  "bool \<Rightarrow> telemetry_event list \<Rightarrow> (telemetry_row list, api_error, unit) cmd" where
  "persist_backend_telemetry db_ok events table =
     (if events = [] then (Inr (), table)
      else bulk_insert_telemetry db_ok (map (map_event_to_row ''api'') events) table)"

definition persist_backend_telemetry_best_effort ::
  "bool \<Rightarrow> telemetry_event list \<Rightarrow> telemetry_row list \<Rightarrow> telemetry_row list" where
  "persist_backend_telemetry_best_effort db_ok events table =
     (if events = [] then table else snd (persist_backend_telemetry db_ok events table))"

lemma filter_tags_subset: "set (filter_tags t ps) \<subseteq> set ps"
  by (auto simp: filter_tags_def split: option.splits if_splits)

lemma filter_tags_keep:
  assumes "map_of EVENT_PROPERTY_ALLOWLISTS t = Some allowed"
    and "list_all (\<lambda>kv. fst kv \<in> set allowed) ps"
  shows "filter_tags t ps = ps"
  using assms by (cases ps) (auto simp: filter_tags_def list_all_iff intro!: filter_True)

lemma filter_tags_idem: "filter_tags t (filter_tags t ps) = filter_tags t ps"
  by (auto simp: filter_tags_def split_def split: option.splits intro!: filter_cong)

end
