(* ===== verification/InventoryOutbox.thy ===== *)
theory InventoryOutbox
  imports Telemetry
begin

text \<open>
  The transactional outbox of \<open>services/api/inventory_outbox.py\<close>: the table with its
  constraints and \<open>enqueue_inventory_event\<close>, a command on the rows of the table.
\<close>

record outbox_row =
  ob_event_id :: uuid
  ob_occurred_at :: time
  ob_source_table :: string
  ob_source_pk :: int
  ob_event_type :: string
  ob_tags :: tags
  ob_published_at :: "time option"
  ob_attempt_count :: int
  ob_last_attempt_at :: "time option"
  ob_last_error :: "string option"
  ob_created_at :: time

definition OUTBOX_SOURCE_EVENT_TYPES :: "(string \<times> string) list" where
  "OUTBOX_SOURCE_EVENT_TYPES =
     [(''stockentry'', ''inbound_order_created''),
      (''commercial_order'', ''outbound_order_created''),
      (''stockexit'', ''stock_threshold_triggered''),
      (''inventory_physical_count'', ''inventory_discrepancy_detected'')]"

definition OUTBOX_SOURCE_TABLES :: "string list" where
  "OUTBOX_SOURCE_TABLES = map fst OUTBOX_SOURCE_EVENT_TYPES"

definition OUTBOX_EVENT_TYPES :: "string list" where
  "OUTBOX_EVENT_TYPES = map snd OUTBOX_SOURCE_EVENT_TYPES"

text \<open>The unique key of the table besides its primary key.\<close>

definition ob_source :: "outbox_row \<Rightarrow> string \<times> int \<times> string" where
  "ob_source r = (ob_source_table r, ob_source_pk r, ob_event_type r)"

definition insert_outbox_row :: "outbox_row \<Rightarrow> (outbox_row list, api_error, unit) cmd" where
  "insert_outbox_row r table =
     (if (ob_source_table r, ob_event_type r) \<notin> set OUTBOX_SOURCE_EVENT_TYPES
      then (Inl (IntegrityError ''ck_inventory_event_outbox_source_event_pair''), table)
      else if ob_attempt_count r < 0
      then (Inl (IntegrityError ''ck_inventory_event_outbox_attempt_count''), table)
      else if ob_event_id r \<in> ob_event_id ` set table
      then (Inl (IntegrityError ''inventory_event_outbox_pkey''), table)
      else if ob_source r \<in> ob_source ` set table
      then (Inl (IntegrityError ''uq_inventory_event_outbox_source_event''), table)
      else (Inr (), table @ [r]))"

definition new_outbox_row ::
  "uuid \<Rightarrow> time \<Rightarrow> string \<Rightarrow> int \<Rightarrow> string \<Rightarrow> tags \<Rightarrow> outbox_row" where
  "new_outbox_row event_id occurred_at source_table source_pk event_type event_tags =
     \<lparr>ob_event_id = event_id, ob_occurred_at = occurred_at, ob_source_table = source_table,
      ob_source_pk = source_pk, ob_event_type = event_type, ob_tags = event_tags,
      ob_published_at = None, ob_attempt_count = 0, ob_last_attempt_at = None,
      ob_last_error = None, ob_created_at = occurred_at\<rparr>"

definition enqueue_inventory_event ::
  "uuid \<Rightarrow> time \<Rightarrow> string \<Rightarrow> int \<Rightarrow> string \<Rightarrow> tags \<Rightarrow> (outbox_row list, api_error, unit) cmd" where
  "enqueue_inventory_event event_id occurred_at source_table source_pk event_type event_tags table =
     (if uuid_version event_id \<noteq> Some 4
      then (Inl (ValueError ''event_id must be a UUID v4''), table)
      else if source_table \<notin> set OUTBOX_SOURCE_TABLES
      then (Inl (ValueError ''source_table is not an authorized inventory event source''), table)
      else if source_pk \<le> 0
      then (Inl (ValueError ''source_pk must be a positive integer''), table)
      else if event_type \<notin> set OUTBOX_EVENT_TYPES
      then (Inl (ValueError ''event_type is not an authorized inventory business event''), table)
      else if (source_table, event_type) \<notin> set OUTBOX_SOURCE_EVENT_TYPES
      then (Inl (ValueError ''source_table and event_type are not an authorized pair''), table)
      else insert_outbox_row
        (new_outbox_row event_id occurred_at source_table source_pk event_type event_tags) table)"

text \<open>The constraints of the table, as a predicate on its rows.\<close>

definition outbox_wf :: "outbox_row list \<Rightarrow> bool" where
  "outbox_wf table \<longleftrightarrow>
     keys_unique ob_event_id table \<and> keys_unique ob_source table \<and>
     (\<forall>r \<in> set table. (ob_source_table r, ob_event_type r) \<in> set OUTBOX_SOURCE_EVENT_TYPES \<and>
        uuid_version (ob_event_id r) = Some 4 \<and> 0 < ob_source_pk r \<and> 0 \<le> ob_attempt_count r)"

lemma ob_source_new [simp]: "ob_source (new_outbox_row i t st pk et tgs) = (st, pk, et)"
  by (simp add: ob_source_def new_outbox_row_def)

lemma new_outbox_row_simps [simp]:
  "ob_event_id (new_outbox_row i t st pk et tgs) = i"
  "ob_occurred_at (new_outbox_row i t st pk et tgs) = t"
  "ob_source_table (new_outbox_row i t st pk et tgs) = st"
  "ob_source_pk (new_outbox_row i t st pk et tgs) = pk"
  "ob_event_type (new_outbox_row i t st pk et tgs) = et"
  "ob_tags (new_outbox_row i t st pk et tgs) = tgs"
  "ob_published_at (new_outbox_row i t st pk et tgs) = None"
  "ob_attempt_count (new_outbox_row i t st pk et tgs) = 0"
  by (simp_all add: new_outbox_row_def)

lemma source_event_pairD:
  "(st, et) \<in> set OUTBOX_SOURCE_EVENT_TYPES \<Longrightarrow>
   st \<in> set OUTBOX_SOURCE_TABLES \<and> et \<in> set OUTBOX_EVENT_TYPES"
  by (force simp: OUTBOX_SOURCE_TABLES_def OUTBOX_EVENT_TYPES_def)

lemma enqueue_Inr:
  "enqueue_inventory_event i t st pk et tgs table = (Inr u, table') \<longleftrightarrow>
     uuid_version i = Some 4 \<and> 0 < pk \<and> (st, et) \<in> set OUTBOX_SOURCE_EVENT_TYPES \<and>
     i \<notin> ob_event_id ` set table \<and> (st, pk, et) \<notin> ob_source ` set table \<and>
     table' = table @ [new_outbox_row i t st pk et tgs]"
  by (auto simp: enqueue_inventory_event_def insert_outbox_row_def dest: source_event_pairD)

lemma enqueue_Inl:
  "enqueue_inventory_event i t st pk et tgs table = (Inl e, table') \<Longrightarrow> table' = table"
  by (auto simp: enqueue_inventory_event_def insert_outbox_row_def split: if_splits)

lemma enqueue_wf:
  assumes "outbox_wf table"
  shows "outbox_wf (snd (enqueue_inventory_event i t st pk et tgs table))"
proof (cases "enqueue_inventory_event i t st pk et tgs table")
  case (Pair r table')
  show ?thesis
  proof (cases r)
    case (Inl e)
    then show ?thesis using Pair assms enqueue_Inl by fastforce
  next
    case (Inr u)
    have "outbox_wf table'"
      using Pair [unfolded Inr enqueue_Inr] assms by (auto simp: outbox_wf_def)
    then show ?thesis using Pair by simp
  qed
qed

end
