(* ===== verification/InventoryStore.thy ===== *)
theory InventoryStore
  imports InventoryOutbox
begin

text \<open>
  The session the inventory service works on: the operational tables, the identity sequences,
  the caches and the log of telemetry captures, with the inserts, locks and transactions of
  \<open>services/api/inventory_service.py\<close> and its stock queries.

  An insert checks the constraints of its table as the database does (row checks, then unique
  keys, then foreign keys). A sequence is not rolled back, so a failed insert consumes its
  identity. What the program takes from outside (the clock, \<open>uuid4\<close>, how a commit ends, whether the
  statements after it or a telemetry sink fail, the engine behind the session) is the record \<open>env\<close>.
  A statement that fails before the commit leaves the tables like a commit that is rolled back.
\<close>

section \<open>State\<close>

record inventory_db =
  db_skus :: "sku_row list"
  db_entries :: "stock_entry list"
  db_exits :: "stock_exit list"
  db_orders :: "commercial_order list"
  db_counts :: "physical_count list"
  db_evals :: "threshold_evaluation list"
  db_outbox :: "outbox_row list"

datatype db_lock = AdvisoryLock int | OrderRow int | CountRow int | SkuRow int

record inventory_state =
  inv_db :: inventory_db
  seq_sku :: int
  seq_entry :: int
  seq_exit :: int
  seq_order :: int
  seq_count :: int
  seq_eval :: int
  uuids_drawn :: nat
  captured :: "telemetry_event list"
  telemetry_table :: "telemetry_row list"
  products_cache :: "sku_response list ttl_cache"
  orders_cache :: "order_item list ttl_cache"
  lock_log :: "db_lock list"

record env =
  env_now :: time
  env_clock :: rat
  env_uuid4 :: "nat \<Rightarrow> uuid"
  env_bind_id :: int
  env_postgresql :: bool
  env_commit :: commit_outcome
  env_refresh_ok :: bool
  env_reread_ok :: bool
  env_capture_ok :: bool
  env_telemetry_db_ok :: bool

type_synonym 'a inv_cmd = "(inventory_state, api_error, 'a) cmd"

text \<open>\<open>uuid4()\<close>: the next identifier of the environment.\<close>

definition draw_uuid :: "env \<Rightarrow> uuid inv_cmd" where
  "draw_uuid E s = (Inr (env_uuid4 E (uuids_drawn s)), s\<lparr>uuids_drawn := Suc (uuids_drawn s)\<rparr>)"

section \<open>Locks\<close>

text \<open>\<open>int.from_bytes(value.bytes[:8], "big", signed=True)\<close>\<close>

definition advisory_key :: "uuid \<Rightarrow> int" where
  "advisory_key u = sint (ucast (drop_bit 64 u) :: 64 word)"

definition lock_idempotency_keys :: "env \<Rightarrow> uuid list \<Rightarrow> inventory_state \<Rightarrow> inventory_state" where
  "lock_idempotency_keys E values s =
     (if \<not> env_postgresql E then s
      else s\<lparr>lock_log := lock_log s @
             map (\<lambda>v. AdvisoryLock (advisory_key v)) (sort_key uuid_str (remdups values))\<rparr>)"

definition lock_skus :: "int list \<Rightarrow> inventory_state \<Rightarrow> sku_row list \<times> inventory_state" where
  "lock_skus ids s =
     (let rows = sort_key sku_id (filter (\<lambda>r. sku_id r \<in> set ids) (db_skus (inv_db s)))
      in (rows, s\<lparr>lock_log := lock_log s @ map (\<lambda>r. SkuRow (sku_id r)) rows\<rparr>))"

text \<open>The dictionary \<open>{row.id: row}\<close> is read with this lookup.\<close>

definition sku_of :: "sku_row list \<Rightarrow> int \<Rightarrow> sku_row option" where
  "sku_of rows k = map_of (map (\<lambda>r. (sku_id r, r)) rows) k"

definition get_sku_or_none :: "inventory_db \<Rightarrow> int \<Rightarrow> sku_row option" where
  "get_sku_or_none d k = find (\<lambda>r. sku_id r = k) (db_skus d)"

section \<open>Inserts\<close>

definition insert_sku :: "sku_row \<Rightarrow> sku_row inv_cmd" where
  "insert_sku r s =
     (let n = seq_sku s + 1; s = s\<lparr>seq_sku := n\<rparr>; r = r\<lparr>sku_id := n\<rparr>; d = inv_db s in
      case sku_check r of
        Some c \<Rightarrow> (Inl (IntegrityError c), s)
      | None \<Rightarrow>
          if n \<in> sku_id ` set (db_skus d) then (Inl (IntegrityError ''sku_pkey''), s)
          else (Inr r, s\<lparr>inv_db := d\<lparr>db_skus := db_skus d @ [r]\<rparr>\<rparr>))"

definition insert_entry :: "stock_entry \<Rightarrow> stock_entry inv_cmd" where
  "insert_entry r s =
     (let n = seq_entry s + 1; s = s\<lparr>seq_entry := n\<rparr>; r = r\<lparr>en_id := n\<rparr>; d = inv_db s in
      if n \<in> en_id ` set (db_entries d) then (Inl (IntegrityError ''stockentry_pkey''), s)
      else if en_sku_id r \<notin> sku_id ` set (db_skus d)
      then (Inl (IntegrityError ''stockentry_sku_id_fkey''), s)
      else (Inr r, s\<lparr>inv_db := d\<lparr>db_entries := db_entries d @ [r]\<rparr>\<rparr>))"

definition insert_exit :: "stock_exit \<Rightarrow> stock_exit inv_cmd" where
  "insert_exit r s =
     (let n = seq_exit s + 1; s = s\<lparr>seq_exit := n\<rparr>; r = r\<lparr>ex_id := n\<rparr>; d = inv_db s in
      case stock_exit_check r of
        Some c \<Rightarrow> (Inl (IntegrityError c), s)
      | None \<Rightarrow>
          if n \<in> ex_id ` set (db_exits d) then (Inl (IntegrityError ''stockexit_pkey''), s)
          else if ex_dispatch_id r \<noteq> None \<and> ex_dispatch_id r \<in> ex_dispatch_id ` set (db_exits d)
          then (Inl (IntegrityError ''uq_stockexit_dispatch_id''), s)
          else if ex_sku_id r \<notin> sku_id ` set (db_skus d)
          then (Inl (IntegrityError ''stockexit_sku_id_fkey''), s)
          else if (case ex_commercial_order_id r of None \<Rightarrow> False
                   | Some k \<Rightarrow> k \<notin> co_id ` set (db_orders d))
          then (Inl (IntegrityError ''stockexit_commercial_order_id_fkey''), s)
          else (Inr r, s\<lparr>inv_db := d\<lparr>db_exits := db_exits d @ [r]\<rparr>\<rparr>))"

definition insert_order :: "commercial_order \<Rightarrow> commercial_order inv_cmd" where
  "insert_order r s =
     (let n = seq_order s + 1; s = s\<lparr>seq_order := n\<rparr>; r = r\<lparr>co_id := n\<rparr>; d = inv_db s in
      if n \<in> co_id ` set (db_orders d) then (Inl (IntegrityError ''commercial_order_pkey''), s)
      else if co_order_id r \<in> co_order_id ` set (db_orders d)
      then (Inl (IntegrityError ''uq_commercial_order_order_id''), s)
      else (Inr r, s\<lparr>inv_db := d\<lparr>db_orders := db_orders d @ [r]\<rparr>\<rparr>))"

definition insert_count :: "physical_count \<Rightarrow> physical_count inv_cmd" where
  "insert_count r s =
     (let n = seq_count s + 1; s = s\<lparr>seq_count := n\<rparr>; r = r\<lparr>pc_id := n\<rparr>; d = inv_db s in
      case physical_count_check r of
        Some c \<Rightarrow> (Inl (IntegrityError c), s)
      | None \<Rightarrow>
          if n \<in> pc_id ` set (db_counts d)
          then (Inl (IntegrityError ''inventory_physical_count_pkey''), s)
          else if pc_count_id r \<in> pc_count_id ` set (db_counts d)
          then (Inl (IntegrityError ''uq_inventory_physical_count_count_id''), s)
          else if pc_sku_id r \<notin> sku_id ` set (db_skus d)
          then (Inl (IntegrityError ''inventory_physical_count_sku_id_fkey''), s)
          else (Inr r, s\<lparr>inv_db := d\<lparr>db_counts := db_counts d @ [r]\<rparr>\<rparr>))"

definition te_source :: "threshold_evaluation \<Rightarrow> string \<times> int" where
  "te_source e = (te_source_table e, te_source_pk e)"

definition insert_eval :: "threshold_evaluation \<Rightarrow> threshold_evaluation inv_cmd" where
  "insert_eval r s =
     (let n = seq_eval s + 1; s = s\<lparr>seq_eval := n\<rparr>; r = r\<lparr>te_id := n\<rparr>; d = inv_db s in
      case threshold_evaluation_check r of
        Some c \<Rightarrow> (Inl (IntegrityError c), s)
      | None \<Rightarrow>
          if n \<in> te_id ` set (db_evals d)
          then (Inl (IntegrityError ''inventory_threshold_evaluation_pkey''), s)
          else if te_source r \<in> te_source ` set (db_evals d)
          then (Inl (IntegrityError ''uq_threshold_evaluation_source''), s)
          else if te_sku_id r \<notin> sku_id ` set (db_skus d)
          then (Inl (IntegrityError ''inventory_threshold_evaluation_sku_id_fkey''), s)
          else (Inr r, s\<lparr>inv_db := d\<lparr>db_evals := db_evals d @ [r]\<rparr>\<rparr>))"

definition enqueue_event ::
  "uuid \<Rightarrow> time \<Rightarrow> string \<Rightarrow> int \<Rightarrow> string \<Rightarrow> tags \<Rightarrow> unit inv_cmd" where
  "enqueue_event event_id occurred_at source_table source_pk event_type event_tags s =
     (case enqueue_inventory_event event_id occurred_at source_table source_pk event_type event_tags
             (db_outbox (inv_db s)) of
        (r, table) \<Rightarrow> (r, s\<lparr>inv_db := (inv_db s)\<lparr>db_outbox := table\<rparr>\<rparr>))"

text \<open>What a successful insert did: the identity it took, the row it added, what was checked.\<close>

lemma insert_sku_Inr:
  "insert_sku r s = (Inr x, t) \<Longrightarrow>
     x = r\<lparr>sku_id := seq_sku s + 1\<rparr> \<and> sku_check x = None \<and>
     sku_id x \<notin> sku_id ` set (db_skus (inv_db s)) \<and>
     t = s\<lparr>seq_sku := seq_sku s + 1,
           inv_db := (inv_db s)\<lparr>db_skus := db_skus (inv_db s) @ [x]\<rparr>\<rparr>"
  by (auto simp: insert_sku_def Let_def split: option.splits if_splits)

lemma insert_entry_Inr:
  "insert_entry r s = (Inr x, t) \<Longrightarrow>
     x = r\<lparr>en_id := seq_entry s + 1\<rparr> \<and>
     en_id x \<notin> en_id ` set (db_entries (inv_db s)) \<and>
     en_sku_id x \<in> sku_id ` set (db_skus (inv_db s)) \<and>
     t = s\<lparr>seq_entry := seq_entry s + 1,
           inv_db := (inv_db s)\<lparr>db_entries := db_entries (inv_db s) @ [x]\<rparr>\<rparr>"
  by (auto simp: insert_entry_def Let_def split: option.splits if_splits)

lemma insert_exit_Inr:
  "insert_exit r s = (Inr x, t) \<Longrightarrow>
     x = r\<lparr>ex_id := seq_exit s + 1\<rparr> \<and> stock_exit_check x = None \<and>
     ex_id x \<notin> ex_id ` set (db_exits (inv_db s)) \<and>
     (ex_dispatch_id x = None \<or> ex_dispatch_id x \<notin> ex_dispatch_id ` set (db_exits (inv_db s))) \<and>
     ex_sku_id x \<in> sku_id ` set (db_skus (inv_db s)) \<and>
     (\<forall>k. ex_commercial_order_id x = Some k \<longrightarrow> k \<in> co_id ` set (db_orders (inv_db s))) \<and>
     t = s\<lparr>seq_exit := seq_exit s + 1,
           inv_db := (inv_db s)\<lparr>db_exits := db_exits (inv_db s) @ [x]\<rparr>\<rparr>"
  by (auto simp: insert_exit_def Let_def split: option.splits if_splits)

lemma insert_order_Inr:
  "insert_order r s = (Inr x, t) \<Longrightarrow>
     x = r\<lparr>co_id := seq_order s + 1\<rparr> \<and>
     co_id x \<notin> co_id ` set (db_orders (inv_db s)) \<and>
     co_order_id x \<notin> co_order_id ` set (db_orders (inv_db s)) \<and>
     t = s\<lparr>seq_order := seq_order s + 1,
           inv_db := (inv_db s)\<lparr>db_orders := db_orders (inv_db s) @ [x]\<rparr>\<rparr>"
  by (auto simp: insert_order_def Let_def split: option.splits if_splits)

lemma insert_count_Inr:
  "insert_count r s = (Inr x, t) \<Longrightarrow>
     x = r\<lparr>pc_id := seq_count s + 1\<rparr> \<and> physical_count_check x = None \<and>
     pc_id x \<notin> pc_id ` set (db_counts (inv_db s)) \<and>
     pc_count_id x \<notin> pc_count_id ` set (db_counts (inv_db s)) \<and>
     pc_sku_id x \<in> sku_id ` set (db_skus (inv_db s)) \<and>
     t = s\<lparr>seq_count := seq_count s + 1,
           inv_db := (inv_db s)\<lparr>db_counts := db_counts (inv_db s) @ [x]\<rparr>\<rparr>"
  by (auto simp: insert_count_def Let_def split: option.splits if_splits)

lemma insert_eval_Inr:
  "insert_eval r s = (Inr x, t) \<Longrightarrow>
     x = r\<lparr>te_id := seq_eval s + 1\<rparr> \<and> threshold_evaluation_check x = None \<and>
     te_id x \<notin> te_id ` set (db_evals (inv_db s)) \<and>
     te_source x \<notin> te_source ` set (db_evals (inv_db s)) \<and>
     te_sku_id x \<in> sku_id ` set (db_skus (inv_db s)) \<and>
     t = s\<lparr>seq_eval := seq_eval s + 1,
           inv_db := (inv_db s)\<lparr>db_evals := db_evals (inv_db s) @ [x]\<rparr>\<rparr>"
  by (auto simp: insert_eval_def Let_def split: option.splits if_splits)

lemma enqueue_event_Inr:
  "enqueue_event i tm st pk et tgs s = (Inr u, t) \<Longrightarrow>
     uuid_version i = Some 4 \<and> 0 < pk \<and> (st, et) \<in> set OUTBOX_SOURCE_EVENT_TYPES \<and>
     i \<notin> ob_event_id ` set (db_outbox (inv_db s)) \<and>
     (st, pk, et) \<notin> ob_source ` set (db_outbox (inv_db s)) \<and>
     t = s\<lparr>inv_db := (inv_db s)\<lparr>db_outbox :=
           db_outbox (inv_db s) @ [new_outbox_row i tm st pk et tgs]\<rparr>\<rparr>"
  by (auto simp: enqueue_event_def enqueue_Inr split: prod.splits)

section \<open>Transactions\<close>

text \<open>
  \<open>try: body; session.commit() except Exception: session.rollback(); raise\<close>. Nothing is
  written before the \<open>try\<close>, so a rollback restores the tables the body started from. A commit whose
  confirmation is lost raises too, with the tables already changed: the rollback finds nothing to undo.
\<close>

definition in_transaction :: "env \<Rightarrow> 'a inv_cmd \<Rightarrow> 'a inv_cmd" where
  "in_transaction E body s =
     (case body s of
        (Inl e, t) \<Rightarrow> (Inl e, t\<lparr>inv_db := inv_db s\<rparr>)
      | (Inr a, t) \<Rightarrow>
          (case env_commit E of
             CommitOk \<Rightarrow> (Inr a, t)
           | CommitRolledBack \<Rightarrow> (Inl OperationalError, t\<lparr>inv_db := inv_db s\<rparr>)
           | CommitLost \<Rightarrow> (Inl OperationalError, t)))"

text \<open>
  The statements after the commit: \<open>session.refresh\<close> of the written row, which comes before the caches
  are invalidated, and the queries of the answer after that. When they raise, the write stays.
\<close>

definition session_read :: "bool \<Rightarrow> 'a \<Rightarrow> 'a inv_cmd" where
  "session_read works a s = (if works then (Inr a, s) else (Inl OperationalError, s))"

definition commit_and_refresh :: "env \<Rightarrow> 'a inv_cmd \<Rightarrow> 'a inv_cmd" where
  "commit_and_refresh E body = bind_cmd (in_transaction E body) (session_read (env_refresh_ok E))"

text \<open>
  A command is in doubt when it may raise although its write took effect. \<open>sound\<close> is the same
  environment without such failures.
\<close>

definition commit_in_doubt :: "env \<Rightarrow> bool" where
  "commit_in_doubt E \<longleftrightarrow>
     env_commit E = CommitLost \<or> env_commit E = CommitOk \<and> \<not> (env_refresh_ok E \<and> env_reread_ok E)"

definition sound :: "env \<Rightarrow> env" where
  "sound E = E\<lparr>env_commit := CommitOk, env_refresh_ok := True, env_reread_ok := True\<rparr>"

lemma sound_simps [simp]:
  "env_now (sound E) = env_now E" "env_uuid4 (sound E) = env_uuid4 E" "env_clock (sound E) = env_clock E"
  "env_bind_id (sound E) = env_bind_id E" "env_postgresql (sound E) = env_postgresql E"
  "env_capture_ok (sound E) = env_capture_ok E" "env_telemetry_db_ok (sound E) = env_telemetry_db_ok E"
  "env_commit (sound E) = CommitOk" "env_refresh_ok (sound E)" "env_reread_ok (sound E)"
  by (simp_all add: sound_def)

lemma in_transaction_Inr:
  "in_transaction E body s = (Inr a, t) \<longleftrightarrow> body s = (Inr a, t) \<and> env_commit E = CommitOk"
  by (auto simp: in_transaction_def split: prod.splits sum.splits commit_outcome.splits)

lemma session_read_Inr [simp]: "session_read works a s = (Inr b, t) \<longleftrightarrow> works \<and> b = a \<and> t = s"
  by (auto simp: session_read_def)

lemma session_read_Inl [simp]:
  "session_read works a s = (Inl e, t) \<longleftrightarrow> \<not> works \<and> e = OperationalError \<and> t = s"
  by (auto simp: session_read_def)

lemma session_read_state [simp]: "snd (session_read works a s) = s"
  by (simp add: session_read_def)

lemma commit_and_refresh_Inr:
  "commit_and_refresh E body s = (Inr a, t) \<longleftrightarrow> body s = (Inr a, t) \<and> env_commit E = CommitOk \<and> env_refresh_ok E"
  by (auto simp: commit_and_refresh_def bind_cmd_eq_Inr in_transaction_Inr)

lemma in_transaction_Inl:
  "in_transaction E body s = (Inl e, t) \<Longrightarrow>
     inv_db t = inv_db s \<or> commit_in_doubt E \<and> e = OperationalError \<and> (\<exists>a. body s = (Inr a, t))"
  by (auto simp: in_transaction_def commit_in_doubt_def split: prod.splits sum.splits commit_outcome.splits)

lemma commit_and_refresh_Inl:
  "commit_and_refresh E body s = (Inl e, t) \<Longrightarrow>
     inv_db t = inv_db s \<or> commit_in_doubt E \<and> e = OperationalError \<and> (\<exists>a. body s = (Inr a, t))"
  by (auto simp: commit_and_refresh_def bind_cmd_eq_Inl in_transaction_Inr commit_in_doubt_def
      dest: in_transaction_Inl [unfolded commit_in_doubt_def])

section \<open>Effects outside the transaction\<close>

text \<open>
  \<open>capture_telemetry_events\<close> writes log lines; its callers swallow a failure of it.
\<close>

definition capture_telemetry_events :: "env \<Rightarrow> telemetry_event list \<Rightarrow> unit inv_cmd" where
  "capture_telemetry_events E events s =
     (if env_capture_ok E then (Inr (), s\<lparr>captured := captured s @ events\<rparr>)
      else (Inl OperationalError, s))"

definition capture_after_commit :: "env \<Rightarrow> telemetry_event list \<Rightarrow> inventory_state \<Rightarrow> inventory_state" where
  "capture_after_commit E events s =
     (if events = [] then s else snd (capture_telemetry_events E events s))"

definition invalidate_products_cache :: "env \<Rightarrow> inventory_state \<Rightarrow> inventory_state" where
  "invalidate_products_cache E s =
     s\<lparr>products_cache :=
        snd (cache_delete (inventory_cache_key ''products'' (env_bind_id E)) (products_cache s))\<rparr>"

definition invalidate_orders_cache :: "env \<Rightarrow> inventory_state \<Rightarrow> inventory_state" where
  "invalidate_orders_cache E s =
     s\<lparr>orders_cache :=
        snd (cache_delete (inventory_cache_key ''orders'' (env_bind_id E)) (orders_cache s))\<rparr>"

definition invalidate_inventory_cache :: "env \<Rightarrow> inventory_state \<Rightarrow> inventory_state" where
  "invalidate_inventory_cache E s = invalidate_orders_cache E (invalidate_products_cache E s)"

text \<open>The effects outside the transaction leave the tables alone.\<close>

lemma inv_db_effects [simp]:
  "inv_db (capture_after_commit E events s) = inv_db s"
  "inv_db (invalidate_products_cache E s) = inv_db s"
  "inv_db (invalidate_orders_cache E s) = inv_db s"
  "inv_db (invalidate_inventory_cache E s) = inv_db s"
  "inv_db (snd (capture_telemetry_events E events s)) = inv_db s"
  "inv_db (lock_idempotency_keys E values s) = inv_db s"
  "inv_db (snd (lock_skus ids s)) = inv_db s"
  by (simp_all add: capture_after_commit_def capture_telemetry_events_def
      invalidate_inventory_cache_def invalidate_products_cache_def invalidate_orders_cache_def
      lock_idempotency_keys_def lock_skus_def Let_def)

lemma lock_skus_rows:
  "set (fst (lock_skus ids s)) = {r \<in> set (db_skus (inv_db s)). sku_id r \<in> set ids}"
  by (auto simp: lock_skus_def Let_def)

lemma sku_of_SomeD: "sku_of rows k = Some r \<Longrightarrow> r \<in> set rows \<and> sku_id r = k"
  by (auto simp: sku_of_def dest: map_of_SomeD)

lemma sku_of_None: "sku_of rows k = None \<longleftrightarrow> k \<notin> sku_id ` set rows"
  by (auto simp: sku_of_def map_of_eq_None_iff image_image)

section \<open>Stock queries\<close>

definition get_current_stock :: "inventory_db \<Rightarrow> int \<Rightarrow> string \<Rightarrow> int" where
  "get_current_stock d k w =
     (let entry_sum = sql_sum (\<lambda>e. en_sku_id e = k \<and> en_warehouse e = w) en_quantity (db_entries d);
          exit_sum = sql_sum (\<lambda>x. ex_sku_id x = k \<and> ex_warehouse x = w) ex_quantity (db_exits d);
          entries = or_else entry_sum 0;
          exits = or_else exit_sum 0
      in entries - exits)"

definition get_current_stocks :: "inventory_db \<Rightarrow> ((int \<times> string) \<times> int) list" where
  "get_current_stocks d =
     (let entry_map = sql_group_sum (\<lambda>e. (en_sku_id e, en_warehouse e)) en_quantity (db_entries d);
          exit_map = sql_group_sum (\<lambda>x. (ex_sku_id x, ex_warehouse x)) ex_quantity (db_exits d);
          all_keys = remdups (map fst entry_map @ map fst exit_map)
      in map (\<lambda>key. (key, or_else (map_of entry_map key) 0 - or_else (map_of exit_map key) 0)) all_keys)"

lemma get_current_stock_sums:
  "get_current_stock d k w =
     sum_list (map en_quantity (filter (\<lambda>e. en_sku_id e = k \<and> en_warehouse e = w) (db_entries d))) -
     sum_list (map ex_quantity (filter (\<lambda>x. ex_sku_id x = k \<and> ex_warehouse x = w) (db_exits d)))"
  by (simp add: get_current_stock_def)

lemma get_current_stock_cong:
  "db_entries d = db_entries d' \<Longrightarrow> db_exits d = db_exits d' \<Longrightarrow>
   get_current_stock d = get_current_stock d'"
  by (intro ext) (simp add: get_current_stock_sums)

lemma get_current_stock_frame [simp]:
  "get_current_stock (d\<lparr>db_skus := rs\<rparr>) = get_current_stock d"
  "get_current_stock (d\<lparr>db_orders := cs\<rparr>) = get_current_stock d"
  "get_current_stock (d\<lparr>db_counts := ps\<rparr>) = get_current_stock d"
  "get_current_stock (d\<lparr>db_evals := es\<rparr>) = get_current_stock d"
  "get_current_stock (d\<lparr>db_outbox := bs\<rparr>) = get_current_stock d"
  by (rule get_current_stock_cong; simp)+

lemma get_current_stock_add_entry:
  "get_current_stock (d\<lparr>db_entries := db_entries d @ [e]\<rparr>) k w =
     get_current_stock d k w + (if en_sku_id e = k \<and> en_warehouse e = w then en_quantity e else 0)"
  by (simp add: get_current_stock_sums)

lemma get_current_stock_add_exit:
  "get_current_stock (d\<lparr>db_exits := db_exits d @ [x]\<rparr>) k w =
     get_current_stock d k w - (if ex_sku_id x = k \<and> ex_warehouse x = w then ex_quantity x else 0)"
  by (simp add: get_current_stock_sums)

end
