(* ===== verification/InventoryService.thy ===== *)
theory InventoryService
  imports InventoryStore
begin

text \<open>
  The movement operations of \<open>services/api/inventory_service.py\<close>: inbound and outbound
  movements, the threshold decision of every movement, the threshold configuration and the
  physical counts. Each operation is one command, with the guards in the order of the code.
\<close>

section \<open>Events\<close>

definition event_cmd ::
  "env \<Rightarrow> string \<Rightarrow> string \<Rightarrow> string option \<Rightarrow> time \<Rightarrow> tags \<Rightarrow> telemetry_event inv_cmd" where
  "event_cmd E event_type user_uuid request_id occurred_at event_tags =
     bind_cmd (draw_uuid E) (\<lambda>i.
     lift_result (TelemetryEvent
       \<lparr>tv_eventId = i, tv_timestamp = occurred_at, tv_sessionId = None,
        tv_userId = Some user_uuid, tv_event_type = event_type, tv_schemaVersion = ''1.0'',
        tv_requestId = request_id, tv_properties = event_tags\<rparr>))"

definition threshold_event ::
  "env \<Rightarrow> sku_row \<Rightarrow> int \<Rightarrow> int \<Rightarrow> int \<Rightarrow> string \<Rightarrow> string option \<Rightarrow> time \<Rightarrow>
   telemetry_event option inv_cmd" where
  "threshold_event E sku source_pk before after user_uuid request_id occurred_at =
     (case sku_minimum_stock_threshold sku of
        None \<Rightarrow> return_cmd None
      | Some threshold \<Rightarrow>
          if \<not> (before > threshold \<and> after \<le> threshold) then return_cmd None
          else case canonical_telemetry_warehouse (sku_warehouse sku) of
            None \<Rightarrow> raise_cmd (InventoryDataIntegrityError {sku_id sku})
          | Some w \<Rightarrow>
              if \<not> truthy (sku_client_id sku)
              then raise_cmd (InventoryDataIntegrityError {sku_id sku})
              else
                let event_tags =
                  [(''warehouse'', JStr w),
                   (''client_id'', JStr (the (sku_client_id sku))),
                   (''product_id'', JStr (str_int (sku_id sku))),
                   (''product_category'', JStr (sku_category sku)),
                   (''quantity'', JInt after),
                   (''threshold_quantity'', JInt threshold),
                   (''movement_id'', JStr (str_int source_pk))]
                in bind_cmd
                     (event_cmd E ''stock_threshold_triggered'' user_uuid request_id occurred_at
                       event_tags) (\<lambda>event.
                   bind_cmd
                     (enqueue_event (tv_eventId event) occurred_at ''stockexit'' source_pk
                       (tv_event_type event) event_tags) (\<lambda>_.
                   return_cmd (Some event))))"

definition record_threshold_evaluation ::
  "string \<Rightarrow> int \<Rightarrow> sku_row \<Rightarrow> int \<Rightarrow> int \<Rightarrow> telemetry_event option \<Rightarrow> time \<Rightarrow>
   threshold_evaluation inv_cmd" where
  "record_threshold_evaluation source_table source_pk sku before after event evaluated_at =
     (let crossed = event \<noteq> None in
      insert_eval
        \<lparr>te_id = 0, te_source_table = source_table, te_source_pk = source_pk,
         te_sku_id = sku_id sku, te_client_id = sku_client_id sku,
         te_warehouse = sku_warehouse sku, te_before_quantity = before,
         te_after_quantity = after, te_threshold_quantity = sku_minimum_stock_threshold sku,
         te_crossed = crossed, te_event_id = map_option tv_eventId event,
         te_evaluated_at = evaluated_at\<rparr>)"

section \<open>Inbound movements\<close>

definition warehouse_mismatch :: "sku_row \<Rightarrow> string \<Rightarrow> api_error" where
  "warehouse_mismatch sku movement_warehouse =
     HTTPException 400
       (''Warehouse mismatch for SKU '' @ quoted (sku_code sku) @ ''. SKU warehouse: '' @
        sku_warehouse sku @ '', movement warehouse: '' @ movement_warehouse @ ''.'')
       (Some ''warehouse_mismatch'')"

definition unknown_product :: api_error where
  "unknown_product = HTTPException 404 ''SKU not found.'' (Some ''unknown_product'')"

text \<open>The event of an inbound movement, for a product whose client is known.\<close>

definition inbound_event ::
  "env \<Rightarrow> sku_row \<Rightarrow> stock_entry \<Rightarrow> string \<Rightarrow> string option \<Rightarrow> telemetry_event option inv_cmd" where
  "inbound_event E sku entry user_uuid request_id =
     (case sku_client_id sku of
        None \<Rightarrow> return_cmd None
      | Some client_id \<Rightarrow>
          (case canonical_telemetry_warehouse (en_warehouse entry) of
             None \<Rightarrow> return_cmd None
           | Some w \<Rightarrow>
               let event_tags =
                 [(''warehouse'', JStr w),
                  (''client_id'', JStr client_id),
                  (''product_id'', JStr (str_int (sku_id sku))),
                  (''product_category'', JStr (sku_category sku)),
                  (''quantity'', JInt (en_quantity entry)),
                  (''movement_id'', JStr (str_int (en_id entry)))]
               in bind_cmd
                    (event_cmd E ''inbound_order_created'' user_uuid request_id
                      (en_created_at entry) event_tags) (\<lambda>event.
                  bind_cmd
                    (enqueue_event (tv_eventId event) (en_created_at entry) ''stockentry''
                      (en_id entry) (tv_event_type event) event_tags) (\<lambda>_.
                  return_cmd (Some event)))))"

definition stock_entry_body ::
  "env \<Rightarrow> stock_entry_create \<Rightarrow> sku_row \<Rightarrow> int \<Rightarrow> string \<Rightarrow> string option \<Rightarrow>
   (stock_entry \<times> telemetry_event option) inv_cmd" where
  "stock_entry_body E data sku before user_uuid request_id =
     bind_cmd (insert_entry
       \<lparr>en_id = 0, en_sku_id = sec_sku_id data, en_quantity = sec_quantity data,
        en_reference = sec_reference data, en_warehouse = warehouse_value (sec_warehouse data),
        en_created_at = env_now E, en_user_uuid = user_uuid\<rparr>) (\<lambda>entry.
     bind_cmd (inbound_event E sku entry user_uuid request_id) (\<lambda>event.
     bind_cmd (record_threshold_evaluation ''stockentry'' (en_id entry) sku before
       (before + en_quantity entry) None (env_now E)) (\<lambda>_.
     return_cmd (entry, event))))"

definition create_stock_entry ::
  "env \<Rightarrow> stock_entry_create \<Rightarrow> string \<Rightarrow> string option \<Rightarrow> stock_entry inv_cmd" where
  "create_stock_entry E data user_uuid request_id s =
     (let (rows, s) = lock_skus [sec_sku_id data] s in
      case sku_of rows (sec_sku_id data) of
        None \<Rightarrow> (Inl unknown_product, s)
      | Some sku \<Rightarrow>
          let movement_warehouse = warehouse_value (sec_warehouse data) in
          if movement_warehouse \<noteq> sku_warehouse sku
          then (Inl (warehouse_mismatch sku movement_warehouse), s)
          else
            let before = get_current_stock (inv_db s) (sec_sku_id data) movement_warehouse in
            (case commit_and_refresh E (stock_entry_body E data sku before user_uuid request_id) s of
               (Inl e, s) \<Rightarrow> (Inl e, s)
             | (Inr (entry, event), s) \<Rightarrow>
                 let s = (case event of None \<Rightarrow> s
                          | Some ev \<Rightarrow> snd (capture_telemetry_events E [ev] s))
                 in (Inr entry, invalidate_inventory_cache E s)))"

section \<open>Outbound movements\<close>

text \<open>
  The telemetry of a refused movement. Every failure in it is swallowed: an event that does
  not validate is not captured, and a failed capture skips the persistence.
\<close>

definition insufficient_stock_telemetry ::
  "env \<Rightarrow> sku_row \<Rightarrow> string \<Rightarrow> int \<Rightarrow> int \<Rightarrow> string \<Rightarrow> string option \<Rightarrow> inventory_state \<Rightarrow>
   inventory_state" where
  "insufficient_stock_telemetry E sku movement_warehouse quantity available user_uuid request_id s =
     (case sku_client_id sku of
        None \<Rightarrow> s
      | Some client_id \<Rightarrow>
          (case canonical_telemetry_warehouse movement_warehouse of
             None \<Rightarrow> s
           | Some w \<Rightarrow>
               (case event_cmd E ''inventory_stock_insufficient'' user_uuid request_id (env_now E)
                       [(''warehouse'', JStr w),
                        (''client_id'', JStr client_id),
                        (''product_id'', JStr (str_int (sku_id sku))),
                        (''product_category'', JStr (sku_category sku)),
                        (''requested_quantity'', JInt quantity),
                        (''available_quantity'', JInt available)] s of
                  (Inl _, s) \<Rightarrow> s
                | (Inr event, s) \<Rightarrow>
                    (case capture_telemetry_events E [event] s of
                       (Inl _, s) \<Rightarrow> s
                     | (Inr _, s) \<Rightarrow>
                         s\<lparr>telemetry_table :=
                             persist_backend_telemetry_best_effort (env_telemetry_db_ok E) [event]
                               (telemetry_table s)\<rparr>))))"

definition insufficient_stock :: "sku_row \<Rightarrow> int \<Rightarrow> int \<Rightarrow> api_error" where
  "insufficient_stock sku available quantity =
     HTTPException 400
       (''Insufficient stock for SKU '' @ quoted (sku_code sku) @ ''. Available: '' @
        str_int available @ '', requested: '' @ str_int quantity @ ''.'')
       (Some ''insufficient_stock'')"

definition stock_exit_body ::
  "env \<Rightarrow> stock_exit_create \<Rightarrow> sku_row \<Rightarrow> int \<Rightarrow> string \<Rightarrow> string option \<Rightarrow>
   (stock_exit \<times> telemetry_event list) inv_cmd" where
  "stock_exit_body E data sku available user_uuid request_id =
     bind_cmd (insert_exit
       \<lparr>ex_id = 0, ex_sku_id = sxc_sku_id data, ex_quantity = sxc_quantity data,
        ex_exit_type = exit_type_value (sxc_exit_type data),
        ex_tracking_number = sxc_tracking_number data,
        ex_warehouse = warehouse_value (sxc_warehouse data), ex_created_at = env_now E,
        ex_user_uuid = user_uuid, ex_commercial_order_id = None, ex_dispatch_id = None\<rparr>) (\<lambda>record.
     bind_cmd (threshold_event E sku (ex_id record) available (available - ex_quantity record)
       user_uuid request_id (env_now E)) (\<lambda>event.
     bind_cmd (record_threshold_evaluation ''stockexit'' (ex_id record) sku available
       (available - ex_quantity record) event (env_now E)) (\<lambda>_.
     return_cmd (record, case event of None \<Rightarrow> [] | Some ev \<Rightarrow> [ev]))))"

definition create_stock_exit ::
  "env \<Rightarrow> stock_exit_create \<Rightarrow> string \<Rightarrow> string option \<Rightarrow> stock_exit inv_cmd" where
  "create_stock_exit E data user_uuid request_id s =
     (let (rows, s) = lock_skus [sxc_sku_id data] s in
      case sku_of rows (sxc_sku_id data) of
        None \<Rightarrow> (Inl unknown_product, s)
      | Some sku \<Rightarrow>
          let movement_warehouse = warehouse_value (sxc_warehouse data) in
          if movement_warehouse \<noteq> sku_warehouse sku
          then (Inl (warehouse_mismatch sku movement_warehouse), s)
          else
            let available = get_current_stock (inv_db s) (sku_id sku) movement_warehouse in
            if sxc_quantity data > available
            then (Inl (insufficient_stock sku available (sxc_quantity data)),
                  insufficient_stock_telemetry E sku movement_warehouse (sxc_quantity data)
                    available user_uuid request_id s)
            else
              (case commit_and_refresh E (stock_exit_body E data sku available user_uuid request_id) s of
                 (Inl e, s) \<Rightarrow> (Inl e, s)
               | (Inr (record, events), s) \<Rightarrow>
                   (Inr record, invalidate_inventory_cache E (capture_after_commit E events s))))"

section \<open>Threshold configuration\<close>

definition set_sku_threshold :: "int \<Rightarrow> int option \<Rightarrow> sku_row \<Rightarrow> sku_row inv_cmd" where
  "set_sku_threshold k threshold sku s =
     (let sku = sku\<lparr>sku_minimum_stock_threshold := threshold\<rparr>; d = inv_db s in
      case sku_check sku of
        Some c \<Rightarrow> (Inl (IntegrityError c), s)
      | None \<Rightarrow>
          (Inr sku, s\<lparr>inv_db := d\<lparr>db_skus :=
             sql_update (\<lambda>r. sku_id r = k) (\<lambda>r. r\<lparr>sku_minimum_stock_threshold := threshold\<rparr>)
               (db_skus d)\<rparr>\<rparr>))"

definition update_sku_threshold :: "env \<Rightarrow> int \<Rightarrow> int option \<Rightarrow> sku_row inv_cmd" where
  "update_sku_threshold E k threshold s =
     (let (rows, s) = lock_skus [k] s in
      case sku_of rows k of
        None \<Rightarrow> (Inl (HTTPException 404 ''SKU not found.'' None), s)
      | Some sku \<Rightarrow>
          (case commit_and_refresh E (set_sku_threshold k threshold sku) s of
             (Inl e, s) \<Rightarrow> (Inl e, s)
           | (Inr sku, s) \<Rightarrow> (Inr sku, invalidate_inventory_cache E s)))"

section \<open>Physical counts\<close>

definition conflict :: "string \<Rightarrow> api_error" where
  "conflict detail = HTTPException 409 detail None"

definition discrepancy_event ::
  "env \<Rightarrow> physical_count_create \<Rightarrow> sku_row \<Rightarrow> physical_count \<Rightarrow> int \<Rightarrow> string \<Rightarrow> string option \<Rightarrow>
   telemetry_event list inv_cmd" where
  "discrepancy_event E data sku count expected user_uuid request_id =
     (let delta = pcc_observed_quantity data - expected in
      if delta = 0 then return_cmd []
      else case canonical_telemetry_warehouse (warehouse_value (pcc_warehouse data)) of
        None \<Rightarrow> raise_cmd (InventoryDataIntegrityError {pcc_sku_id data})
      | Some w \<Rightarrow>
          let event_tags =
            [(''warehouse'', JStr w),
             (''client_id'', JStr (the (sku_client_id sku))),
             (''product_id'', JStr (str_int (sku_id sku))),
             (''product_category'', JStr (sku_category sku)),
             (''quantity'', JInt \<bar>delta\<bar>),
             (''system_quantity'', JInt expected),
             (''counted_quantity'', JInt (pcc_observed_quantity data)),
             (''discrepancy_delta'', JInt delta),
             (''discrepancy_type'', JStr (if delta > 0 then ''surplus'' else ''shortage'')),
             (''count_id'', JStr (uuid_str (pc_count_id count)))]
          in bind_cmd
               (event_cmd E ''inventory_discrepancy_detected'' user_uuid request_id (env_now E)
                 event_tags) (\<lambda>event.
             bind_cmd
               (enqueue_event (tv_eventId event) (env_now E) ''inventory_physical_count''
                 (pc_id count) (tv_event_type event) event_tags) (\<lambda>_.
             return_cmd [event])))"

definition physical_count_body ::
  "env \<Rightarrow> physical_count_create \<Rightarrow> sku_row \<Rightarrow> int \<Rightarrow> string \<Rightarrow> string option \<Rightarrow>
   (physical_count \<times> telemetry_event list) inv_cmd" where
  "physical_count_body E data sku expected user_uuid request_id =
     bind_cmd (insert_count
       \<lparr>pc_id = 0, pc_count_id = pcc_count_id data, pc_sku_id = pcc_sku_id data,
        pc_client_id = the (sku_client_id sku), pc_warehouse = warehouse_value (pcc_warehouse data),
        pc_expected_quantity = expected, pc_observed_quantity = pcc_observed_quantity data,
        pc_confirmed_at = env_now E, pc_user_uuid = user_uuid\<rparr>) (\<lambda>count.
     bind_cmd (discrepancy_event E data sku count expected user_uuid request_id) (\<lambda>events.
     return_cmd (count, events)))"

definition count_matches :: "physical_count \<Rightarrow> physical_count_create \<Rightarrow> string \<Rightarrow> bool" where
  "count_matches existing data user_uuid \<longleftrightarrow>
     pc_sku_id existing = pcc_sku_id data \<and>
     pc_warehouse existing = warehouse_value (pcc_warehouse data) \<and>
     pc_observed_quantity existing = pcc_observed_quantity data \<and>
     pc_user_uuid existing = user_uuid"

definition confirm_inventory_physical_count ::
  "env \<Rightarrow> physical_count_create \<Rightarrow> string \<Rightarrow> string option \<Rightarrow> physical_count inv_cmd" where
  "confirm_inventory_physical_count E data user_uuid request_id s =
     (let s = lock_idempotency_keys E [pcc_count_id data] s in
      case find (\<lambda>c. pc_count_id c = pcc_count_id data) (db_counts (inv_db s)) of
        Some existing \<Rightarrow>
          (let s = s\<lparr>lock_log := lock_log s @ [CountRow (pc_id existing)]\<rparr> in
           if count_matches existing data user_uuid then (Inr existing, s)
           else (Inl (conflict ''count_id already exists with different content''), s))
      | None \<Rightarrow>
          (let (rows, s) = lock_skus [pcc_sku_id data] s in
           case sku_of rows (pcc_sku_id data) of
             None \<Rightarrow> (Inl (HTTPException 404 ''SKU not found.'' None), s)
           | Some sku \<Rightarrow>
               if sku_warehouse sku \<noteq> warehouse_value (pcc_warehouse data)
               then (Inl (HTTPException 400 ''Warehouse mismatch for SKU.'' None), s)
               else if \<not> truthy (sku_client_id sku)
               then (Inl (InventoryDataIntegrityError {pcc_sku_id data}), s)
               else
                 let expected = get_current_stock (inv_db s) (pcc_sku_id data)
                       (warehouse_value (pcc_warehouse data)) in
                 (case commit_and_refresh E
                         (physical_count_body E data sku expected user_uuid request_id) s of
                    (Inl e, s) \<Rightarrow> (Inl e, s)
                  | (Inr (count, events), s) \<Rightarrow>
                      (Inr count, capture_after_commit E events s))))"

end
