(* ===== verification/InventoryOrders.thy ===== *)
theory InventoryOrders
  imports InventoryService
begin

text \<open>
  The commercial orders of \<open>services/api/inventory_service.py\<close>: validation of the products of
  an order, the loop that writes its dispatches, the idempotent creation and extension of an
  order, and the movement list.
\<close>

section \<open>Dispatches\<close>

definition dispatch_matches :: "stock_exit \<Rightarrow> dispatch_create \<Rightarrow> int \<Rightarrow> bool" where
  "dispatch_matches r payload order_pk \<longleftrightarrow>
     ex_commercial_order_id r = Some order_pk \<and>
     ex_sku_id r = dc_sku_id payload \<and>
     ex_quantity r = dc_quantity payload \<and>
     ex_exit_type r = ''dispatch'' \<and>
     ex_tracking_number r = Some (dc_tracking_number payload)"

text \<open>\<open>ORDER BY dispatch_id\<close>; PostgreSQL puts \<open>NULL\<close> last.\<close>

definition dispatch_rank :: "stock_exit \<Rightarrow> nat \<times> uuid" where
  "dispatch_rank r = (case ex_dispatch_id r of None \<Rightarrow> (1, 0) | Some u \<Rightarrow> (0, u))"

definition order_dispatches :: "inventory_db \<Rightarrow> int \<Rightarrow> stock_exit list" where
  "order_dispatches d order_pk =
     sort_key dispatch_rank (filter (\<lambda>r. ex_commercial_order_id r = Some order_pk) (db_exits d))"

definition required_quantities :: "dispatch_create list \<Rightarrow> (int \<times> int) list" where
  "required_quantities dispatches = sql_group_sum dc_sku_id dc_quantity dispatches"

definition validate_order_skus ::
  "dispatch_create list \<Rightarrow> string \<Rightarrow> string \<Rightarrow> sku_row list inv_cmd" where
  "validate_order_skus dispatches client_id w s =
     (let wanted = map dc_sku_id dispatches;
          (skus, s) = lock_skus wanted s;
          missing = set wanted - set (map sku_id skus)
      in if missing \<noteq> {} then (Inl (InventoryDataIntegrityError missing), s)
         else if list_ex (\<lambda>r. sku_client_id r \<noteq> Some client_id \<or> sku_warehouse r \<noteq> w) skus
         then (Inl (HTTPException 400 ''Order client or warehouse does not match its SKU.'' None), s)
         else if list_ex (\<lambda>(k, quantity). quantity > get_current_stock (inv_db s) k w)
                  (required_quantities dispatches)
         then (Inl (HTTPException 400 ''Insufficient stock for order.'' None), s)
         else (Inr skus, s))"

text \<open>
  One turn of the loop of \<open>_add_order_dispatches\<close>. The dictionaries \<open>running\<close> and \<open>skus\<close> are
  subscripted, so an absent key raises.
\<close>

definition add_dispatch ::
  "env \<Rightarrow> commercial_order \<Rightarrow> sku_row list \<Rightarrow> string \<Rightarrow> string option \<Rightarrow>
   dispatch_create \<Rightarrow> (int \<rightharpoonup> int) \<Rightarrow>
   (stock_exit \<times> telemetry_event list \<times> (int \<rightharpoonup> int)) inv_cmd" where
  "add_dispatch E order skus user_uuid request_id item running =
     (case running (dc_sku_id item) of
        None \<Rightarrow> raise_cmd (KeyError (dc_sku_id item))
      | Some before \<Rightarrow>
          bind_cmd (insert_exit
            \<lparr>ex_id = 0, ex_sku_id = dc_sku_id item, ex_quantity = dc_quantity item,
             ex_exit_type = ''dispatch'', ex_tracking_number = Some (dc_tracking_number item),
             ex_warehouse = co_warehouse order, ex_created_at = env_now E,
             ex_user_uuid = user_uuid, ex_commercial_order_id = Some (co_id order),
             ex_dispatch_id = Some (dc_dispatch_id item)\<rparr>) (\<lambda>r.
          let after = before - dc_quantity item in
          case sku_of skus (dc_sku_id item) of
            None \<Rightarrow> raise_cmd (KeyError (dc_sku_id item))
          | Some sku \<Rightarrow>
              bind_cmd (threshold_event E sku (ex_id r) before after user_uuid request_id
                (env_now E)) (\<lambda>event.
              bind_cmd (record_threshold_evaluation ''stockexit'' (ex_id r) sku before after event
                (env_now E)) (\<lambda>_.
              return_cmd (r, case event of None \<Rightarrow> [] | Some ev \<Rightarrow> [ev],
                running(dc_sku_id item \<mapsto> after))))))"

fun add_dispatches ::
  "env \<Rightarrow> commercial_order \<Rightarrow> sku_row list \<Rightarrow> string \<Rightarrow> string option \<Rightarrow>
   dispatch_create list \<Rightarrow> (int \<rightharpoonup> int) \<Rightarrow>
   (stock_exit list \<times> telemetry_event list) inv_cmd" where
  "add_dispatches E order skus user_uuid request_id [] running = return_cmd ([], [])"
| "add_dispatches E order skus user_uuid request_id (item # items) running =
     bind_cmd (add_dispatch E order skus user_uuid request_id item running)
       (\<lambda>(r, events, running').
     bind_cmd (add_dispatches E order skus user_uuid request_id items running')
       (\<lambda>(created, events'). return_cmd (r # created, events @ events')))"

definition add_order_dispatches ::
  "env \<Rightarrow> commercial_order \<Rightarrow> dispatch_create list \<Rightarrow> sku_row list \<Rightarrow> string \<Rightarrow>
   string option \<Rightarrow> (stock_exit list \<times> telemetry_event list) inv_cmd" where
  "add_order_dispatches E order dispatches skus user_uuid request_id s =
     (let running = map_of (map (\<lambda>r.
            (sku_id r, get_current_stock (inv_db s) (sku_id r) (co_warehouse order))) skus)
      in add_dispatches E order skus user_uuid request_id
           (sort_key (\<lambda>item. uuid_str (dc_dispatch_id item)) dispatches) running s)"

section \<open>Orders\<close>

definition outbound_event ::
  "env \<Rightarrow> commercial_order \<Rightarrow> string \<Rightarrow> string option \<Rightarrow> telemetry_event inv_cmd" where
  "outbound_event E order user_uuid request_id =
     (let event_tags =
        [(''order_id'', JStr (uuid_str (co_order_id order))),
         (''warehouse'', case canonical_telemetry_warehouse (co_warehouse order) of
                           None \<Rightarrow> JNull | Some w \<Rightarrow> JStr w),
         (''client_id'', JStr (co_client_id order))]
      in bind_cmd (event_cmd E ''outbound_order_created'' user_uuid request_id (env_now E)
           event_tags) (\<lambda>outbound.
         bind_cmd (enqueue_event (tv_eventId outbound) (env_now E) ''commercial_order''
           (co_id order) (tv_event_type outbound) event_tags) (\<lambda>_.
         return_cmd outbound)))"

definition commercial_order_body ::
  "env \<Rightarrow> commercial_order_create \<Rightarrow> sku_row list \<Rightarrow> string \<Rightarrow> string option \<Rightarrow>
   (commercial_order \<times> stock_exit list \<times> telemetry_event list) inv_cmd" where
  "commercial_order_body E data skus user_uuid request_id =
     bind_cmd (insert_order
       \<lparr>co_id = 0, co_order_id = coc_order_id data, co_client_id = coc_client_id data,
        co_warehouse = warehouse_value (coc_warehouse data), co_created_at = env_now E\<rparr>) (\<lambda>order.
     bind_cmd (add_order_dispatches E order (coc_dispatches data) skus user_uuid request_id)
       (\<lambda>(created, threshold_events).
     bind_cmd (outbound_event E order user_uuid request_id) (\<lambda>outbound.
     return_cmd (order, created, outbound # threshold_events))))"

definition duplicate_dispatch_ids :: api_error where
  "duplicate_dispatch_ids = conflict ''dispatch_id values must be unique within a command''"

definition find_order :: "uuid \<Rightarrow> inventory_state \<Rightarrow> commercial_order option \<times> inventory_state" where
  "find_order order_id s =
     (case find (\<lambda>c. co_order_id c = order_id) (db_orders (inv_db s)) of
        None \<Rightarrow> (None, s)
      | Some existing \<Rightarrow>
          (Some existing, s\<lparr>lock_log := lock_log s @ [OrderRow (co_id existing)]\<rparr>))"

definition exits_with_dispatch_ids :: "inventory_db \<Rightarrow> uuid list \<Rightarrow> stock_exit list" where
  "exits_with_dispatch_ids d dispatch_ids =
     filter (\<lambda>r. \<exists>u \<in> set dispatch_ids. ex_dispatch_id r = Some u) (db_exits d)"

definition retry_order ::
  "inventory_db \<Rightarrow> commercial_order \<Rightarrow> commercial_order_create \<Rightarrow>
   api_error + commercial_order \<times> stock_exit list" where
  "retry_order d existing data =
     (let persisted = py_dict (map (\<lambda>r. (ex_dispatch_id r, r)) (order_dispatches d (co_id existing)))
      in if co_client_id existing \<noteq> coc_client_id data \<or>
            co_warehouse existing \<noteq> warehouse_value (coc_warehouse data)
         then Inl (conflict ''order_id already exists with different content'')
         else if set (map fst persisted) = Some ` set (map dc_dispatch_id (coc_dispatches data)) \<and>
              list_all (\<lambda>item. case map_of persisted (Some (dc_dispatch_id item)) of
                  None \<Rightarrow> False | Some r \<Rightarrow> dispatch_matches r item (co_id existing))
                (coc_dispatches data)
         then Inr (existing, map snd persisted)
         else Inl (conflict ''order_id already exists with different dispatches''))"

definition create_commercial_order ::
  "env \<Rightarrow> commercial_order_create \<Rightarrow> string \<Rightarrow> string option \<Rightarrow>
   (commercial_order \<times> stock_exit list) inv_cmd" where
  "create_commercial_order E data user_uuid request_id s =
     (let dispatch_ids = map dc_dispatch_id (coc_dispatches data) in
      if length dispatch_ids \<noteq> length (remdups dispatch_ids) then (Inl duplicate_dispatch_ids, s)
      else
        let s = lock_idempotency_keys E (coc_order_id data # dispatch_ids) s;
            (found, s) = find_order (coc_order_id data) s
        in case found of
          Some existing \<Rightarrow> (retry_order (inv_db s) existing data, s)
        | None \<Rightarrow>
            if exits_with_dispatch_ids (inv_db s) dispatch_ids \<noteq> []
            then (Inl (conflict ''dispatch_id already exists''), s)
            else
              (case validate_order_skus (coc_dispatches data) (coc_client_id data)
                      (warehouse_value (coc_warehouse data)) s of
                 (Inl e, s) \<Rightarrow> (Inl e, s)
               | (Inr skus, s) \<Rightarrow>
                   (case commit_and_refresh E
                           (commercial_order_body E data skus user_uuid request_id) s of
                      (Inl e, s) \<Rightarrow> (Inl e, s)
                    | (Inr (order, created, events), s) \<Rightarrow>
                        (Inr (order, created),
                         capture_after_commit E events (invalidate_inventory_cache E s)))))"

text \<open>The loop that separates new items from exact retries.\<close>

fun new_items ::
  "(uuid option \<times> stock_exit) list \<Rightarrow> int \<Rightarrow> dispatch_create list \<Rightarrow>
   api_error + dispatch_create list" where
  "new_items existing order_pk [] = Inr []"
| "new_items existing order_pk (item # items) =
     (case map_of existing (Some (dc_dispatch_id item)) of
        None \<Rightarrow>
          (case new_items existing order_pk items of
             Inl e \<Rightarrow> Inl e | Inr rest \<Rightarrow> Inr (item # rest))
      | Some r \<Rightarrow>
          if \<not> dispatch_matches r item order_pk
          then Inl (conflict ''dispatch_id already exists with different content'')
          else new_items existing order_pk items)"

definition append_commercial_order_dispatches ::
  "env \<Rightarrow> dispatch_append \<Rightarrow> string \<Rightarrow> string option \<Rightarrow>
   (commercial_order \<times> stock_exit list) inv_cmd" where
  "append_commercial_order_dispatches E data user_uuid request_id s =
     (let dispatch_ids = map dc_dispatch_id (da_dispatches data) in
      if length dispatch_ids \<noteq> length (remdups dispatch_ids) then (Inl duplicate_dispatch_ids, s)
      else
        let s = lock_idempotency_keys E (da_order_id data # dispatch_ids) s;
            (found, s) = find_order (da_order_id data) s
        in case found of
          None \<Rightarrow> (Inl (HTTPException 404 ''Commercial order not found.'' None), s)
        | Some order \<Rightarrow>
            let existing = py_dict (map (\<lambda>r. (ex_dispatch_id r, r))
                  (exits_with_dispatch_ids (inv_db s) dispatch_ids))
            in (case new_items existing (co_id order) (da_dispatches data) of
                  Inl e \<Rightarrow> (Inl e, s)
                | Inr [] \<Rightarrow> (Inr (order, order_dispatches (inv_db s) (co_id order)), s)
                | Inr (item # items) \<Rightarrow>
                    (case validate_order_skus (item # items) (co_client_id order)
                            (co_warehouse order) s of
                       (Inl e, s) \<Rightarrow> (Inl e, s)
                     | (Inr skus, s) \<Rightarrow>
                         (case in_transaction E
                                 (add_order_dispatches E order (item # items) skus user_uuid
                                   request_id) s of
                            (Inl e, s) \<Rightarrow> (Inl e, s)
                          | (Inr (created, events), s) \<Rightarrow>
                              (let s = capture_after_commit E events (invalidate_inventory_cache E s)
                               in session_read (env_reread_ok E) (order, order_dispatches (inv_db s) (co_id order)) s)))))"

section \<open>The movement list\<close>

record movement =
  mv_id :: int
  mv_movement_type :: string
  mv_sku_id :: int
  mv_quantity :: int
  mv_warehouse :: string
  mv_created_at :: time
  mv_user_uuid :: string
  mv_sku :: sku_row
  mv_reference :: "string option"
  mv_exit_type :: "string option"
  mv_tracking_number :: "string option"

definition entry_movement :: "sku_row list \<Rightarrow> stock_entry \<Rightarrow> api_error + movement" where
  "entry_movement skus e =
     (case sku_of skus (en_sku_id e) of
        None \<Rightarrow> Inl (KeyError (en_sku_id e))
      | Some sku \<Rightarrow> Inr
          \<lparr>mv_id = en_id e, mv_movement_type = ''inbound'', mv_sku_id = en_sku_id e,
           mv_quantity = en_quantity e, mv_warehouse = en_warehouse e,
           mv_created_at = en_created_at e, mv_user_uuid = en_user_uuid e, mv_sku = sku,
           mv_reference = Some (en_reference e), mv_exit_type = None,
           mv_tracking_number = None\<rparr>)"

definition exit_movement :: "sku_row list \<Rightarrow> stock_exit \<Rightarrow> api_error + movement" where
  "exit_movement skus x =
     (case sku_of skus (ex_sku_id x) of
        None \<Rightarrow> Inl (KeyError (ex_sku_id x))
      | Some sku \<Rightarrow> Inr
          \<lparr>mv_id = ex_id x, mv_movement_type = ''outbound'', mv_sku_id = ex_sku_id x,
           mv_quantity = ex_quantity x, mv_warehouse = ex_warehouse x,
           mv_created_at = ex_created_at x, mv_user_uuid = ex_user_uuid x, mv_sku = sku,
           mv_reference = None, mv_exit_type = Some (ex_exit_type x),
           mv_tracking_number = ex_tracking_number x\<rparr>)"

definition movement_key :: "movement \<Rightarrow> time \<times> string \<times> int" where
  "movement_key m = (mv_created_at m, mv_movement_type m, mv_id m)"

definition list_orders :: "inventory_db \<Rightarrow> api_error + movement list" where
  "list_orders d =
     (let wanted = set (map en_sku_id (db_entries d) @ map ex_sku_id (db_exits d));
          skus = filter (\<lambda>r. sku_id r \<in> wanted) (db_skus d);
          missing = wanted - set (map sku_id skus)
      in if missing \<noteq> {} then Inl (InventoryDataIntegrityError missing)
         else case traverse (entry_movement skus) (db_entries d) of
           Inl e \<Rightarrow> Inl e
         | Inr inbound \<Rightarrow>
             (case traverse (exit_movement skus) (db_exits d) of
                Inl e \<Rightarrow> Inl e
              | Inr outbound \<Rightarrow> Inr (sort_key movement_key (inbound @ outbound))))"

end
