(* ===== verification/InventoryRoutes.thy ===== *)
theory InventoryRoutes
  imports InventoryOrders
begin

text \<open>
  The HTTP handlers of \<open>services/api/routes/inventory.py\<close> over the operations of the service:
  the cached product and movement projections, the product creation, the payload checks in front
  of every write, and the request language with its dispatcher \<open>handle\<close>.

  A handler that raises answers with an error, and the session is discarded with the tables as
  the handler left them. The authenticated user and the request id are arguments.
\<close>

section \<open>Projections\<close>

definition sku_to_response :: "sku_row \<Rightarrow> ((int \<times> string) \<times> int) list \<Rightarrow> api_error + sku_response" where
  "sku_to_response sku stock_map =
     (case parse_category (sku_category sku) of
        None \<Rightarrow> Inl (ValidationError ''category'')
      | Some c \<Rightarrow>
          (case parse_warehouse (sku_warehouse sku) of
             None \<Rightarrow> Inl (ValidationError ''warehouse'')
           | Some w \<Rightarrow> Inr
               \<lparr>sr_id = sku_id sku, sr_name = sku_name sku, sr_sku = sku_code sku,
                sr_client_id = sku_client_id sku, sr_client_name = sku_client_name sku,
                sr_category = c, sr_warehouse = w,
                sr_minimum_stock_threshold = sku_minimum_stock_threshold sku,
                sr_current_stock = or_else (map_of stock_map (sku_id sku, sku_warehouse sku)) 0\<rparr>))"

definition order_item_of :: "movement \<Rightarrow> api_error + order_item" where
  "order_item_of m =
     (case parse_warehouse (mv_warehouse m) of
        None \<Rightarrow> Inl (ValidationError ''warehouse'')
      | Some w \<Rightarrow> Inr
          \<lparr>oi_id = mv_id m, oi_movement_type = mv_movement_type m, oi_quantity = mv_quantity m,
           oi_warehouse = w, oi_created_at = mv_created_at m, oi_user_uuid = mv_user_uuid m,
           oi_sku_name = sku_name (mv_sku m), oi_sku_code = sku_code (mv_sku m),
           oi_reference = mv_reference m, oi_exit_type = mv_exit_type m,
           oi_tracking_number = mv_tracking_number m\<rparr>)"

definition order_items_to_response :: "movement list \<Rightarrow> api_error + order_item list" where
  "order_items_to_response raw = traverse order_item_of raw"

definition products_projection :: "inventory_db \<Rightarrow> api_error + sku_response list" where
  "products_projection d =
     traverse (\<lambda>sku. sku_to_response sku (get_current_stocks d)) (db_skus d)"

definition list_products :: "env \<Rightarrow> sku_response list inv_cmd" where
  "list_products E s =
     (let cache_key = inventory_cache_key ''products'' (env_bind_id E);
          (cached, c) = cache_get (env_clock E) cache_key None (products_cache s);
          s = s\<lparr>products_cache := c\<rparr>
      in case cached of
        Some v \<Rightarrow> (Inr v, s)
      | None \<Rightarrow>
          (case products_projection (inv_db s) of
             Inl e \<Rightarrow> (Inl e, s)
           | Inr v \<Rightarrow>
               (Inr v, s\<lparr>products_cache := cache_set (env_clock E) cache_key v (products_cache s)\<rparr>)))"

definition get_product :: "inventory_db \<Rightarrow> int \<Rightarrow> api_error + sku_response" where
  "get_product d k =
     (case get_sku_or_none d k of
        None \<Rightarrow> Inl (HTTPException 404 ''SKU not found.'' None)
      | Some sku \<Rightarrow>
          sku_to_response sku
            [((sku_id sku, sku_warehouse sku), get_current_stock d (sku_id sku) (sku_warehouse sku))])"

definition orders_projection :: "inventory_db \<Rightarrow> api_error + order_item list" where
  "orders_projection d =
     (case list_orders d of
        Inl (InventoryDataIntegrityError _) \<Rightarrow>
          Inl (HTTPException 500 ''Inventory data integrity error.'' None)
      | Inl e \<Rightarrow> Inl e
      | Inr raw \<Rightarrow> order_items_to_response raw)"

definition list_orders_endpoint :: "env \<Rightarrow> order_item list inv_cmd" where
  "list_orders_endpoint E s =
     (let cache_key = inventory_cache_key ''orders'' (env_bind_id E);
          (cached, c) = cache_get (env_clock E) cache_key None (orders_cache s);
          s = s\<lparr>orders_cache := c\<rparr>
      in case cached of
        Some v \<Rightarrow> (Inr v, s)
      | None \<Rightarrow>
          (case orders_projection (inv_db s) of
             Inl e \<Rightarrow> (Inl e, s)
           | Inr v \<Rightarrow>
               (Inr v, s\<lparr>orders_cache := cache_set (env_clock E) cache_key v (orders_cache s)\<rparr>)))"

section \<open>Product creation\<close>

text \<open>The insert of a new product, committed on its own.\<close>

definition product_created_telemetry ::
  "env \<Rightarrow> sku_row \<Rightarrow> string \<Rightarrow> string option \<Rightarrow> inventory_state \<Rightarrow> inventory_state" where
  "product_created_telemetry E sku user_id request_id s =
     (case sku_client_id sku of
        None \<Rightarrow> s
      | Some client_id \<Rightarrow>
          (case canonical_telemetry_warehouse (sku_warehouse sku) of
             None \<Rightarrow> s
           | Some w \<Rightarrow>
               (case event_cmd E ''inventory_product_created'' user_id request_id (env_now E)
                       [(''warehouse'', JStr w),
                        (''client_id'', JStr client_id),
                        (''product_id'', JStr (str_int (sku_id sku))),
                        (''product_category'', JStr (sku_category sku))] s of
                  (Inl _, s) \<Rightarrow> s
                | (Inr event, s) \<Rightarrow> snd (capture_telemetry_events E [event] s))))"

definition create_product ::
  "env \<Rightarrow> sku_create \<Rightarrow> string \<Rightarrow> string option \<Rightarrow> sku_response inv_cmd" where
  "create_product E payload user_id request_id s =
     (case commit_and_refresh E (insert_sku
         \<lparr>sku_id = 0, sku_name = sc_name payload, sku_code = sc_sku payload,
          sku_client_name = sc_client_name payload,
          sku_category = category_value (sc_category payload),
          sku_warehouse = warehouse_value (sc_warehouse payload),
          sku_client_id = Some (sc_client_id payload),
          sku_minimum_stock_threshold = sc_minimum_stock_threshold payload\<rparr>) s of
        (Inl e, s) \<Rightarrow> (Inl e, s)
      | (Inr sku, s) \<Rightarrow>
          let s = invalidate_products_cache E (product_created_telemetry E sku user_id request_id s)
          in (sku_to_response sku [], s))"

section \<open>Writes\<close>

definition configure_product_threshold ::
  "env \<Rightarrow> int \<Rightarrow> int option \<Rightarrow> sku_response inv_cmd" where
  "configure_product_threshold E k threshold s =
     (case update_sku_threshold E k threshold s of
        (Inl e, s) \<Rightarrow> (Inl e, s)
      | (Inr sku, s) \<Rightarrow>
          bind_cmd (session_read (env_reread_ok E) (get_current_stock (inv_db s) (sku_id sku) (sku_warehouse sku)))
            (\<lambda>stock. lift_result (sku_to_response sku [((sku_id sku, sku_warehouse sku), stock)])) s)"

definition order_mutation_response_of ::
  "commercial_order \<Rightarrow> stock_exit list \<Rightarrow> api_error + order_mutation_response" where
  "order_mutation_response_of order dispatches =
     (case traverse (\<lambda>r. case ex_dispatch_id r of
              None \<Rightarrow> Inl (ValidationError ''dispatch_ids'') | Some u \<Rightarrow> Inr u) dispatches of
        Inl e \<Rightarrow> Inl e
      | Inr ids \<Rightarrow> Inr \<lparr>om_id = co_id order, om_order_id = co_order_id order,
                        om_dispatch_ids = sort_key uuid_str ids\<rparr>)"

text \<open>The response of a new order reads its dispatches again, which the commit expired.\<close>

definition create_order_with_dispatches ::
  "env \<Rightarrow> commercial_order_create \<Rightarrow> string \<Rightarrow> string option \<Rightarrow> order_mutation_response inv_cmd" where
  "create_order_with_dispatches E payload user_id request_id =
     bind_cmd (create_commercial_order E payload user_id request_id) (\<lambda>(order, dispatches).
     bind_cmd (session_read (env_reread_ok E) dispatches) (\<lambda>dispatches.
     lift_result (order_mutation_response_of order dispatches)))"

definition append_order_dispatches ::
  "env \<Rightarrow> uuid \<Rightarrow> dispatch_append \<Rightarrow> string \<Rightarrow> string option \<Rightarrow> order_mutation_response inv_cmd" where
  "append_order_dispatches E order_id payload user_id request_id =
     (if order_id \<noteq> da_order_id payload
      then raise_cmd (HTTPException 409 ''order_id path and payload mismatch'' None)
      else bind_cmd (append_commercial_order_dispatches E payload user_id request_id)
        (\<lambda>(order, dispatches). lift_result (order_mutation_response_of order dispatches)))"

definition create_inbound_order ::
  "env \<Rightarrow> stock_entry_create \<Rightarrow> string \<Rightarrow> string option \<Rightarrow> int inv_cmd" where
  "create_inbound_order E payload user_id request_id =
     bind_cmd (create_stock_entry E payload user_id request_id) (\<lambda>entry. return_cmd (en_id entry))"

definition create_outbound_order ::
  "env \<Rightarrow> stock_exit_create \<Rightarrow> string \<Rightarrow> string option \<Rightarrow> int inv_cmd" where
  "create_outbound_order E payload user_id request_id =
     bind_cmd (create_stock_exit E payload user_id request_id) (\<lambda>r. return_cmd (ex_id r))"

section \<open>Requests\<close>

datatype request =
    GetProducts
  | GetProduct int
  | PostProduct sku_create
  | PatchThreshold int "int option"
  | PostCount physical_count_create
  | PostOrder commercial_order_create
  | PostDispatches uuid dispatch_append
  | PostInbound stock_entry_create
  | PostOutbound stock_exit_create
  | GetOrders

datatype response =
    Products "sku_response list"
  | Product sku_response
  | Count physical_count
  | OrderMutation order_mutation_response
  | MovementCreated int
  | Orders "order_item list"

text \<open>The body is validated before the handler runs.\<close>

definition checked :: "api_error + unit \<Rightarrow> 'a inv_cmd \<Rightarrow> 'a inv_cmd" where
  "checked c m = bind_cmd (lift_result c) (\<lambda>_. m)"

definition reply :: "('a \<Rightarrow> response) \<Rightarrow> 'a inv_cmd \<Rightarrow> response inv_cmd" where
  "reply f m = bind_cmd m (\<lambda>a. return_cmd (f a))"

fun handle :: "env \<Rightarrow> string \<Rightarrow> string option \<Rightarrow> request \<Rightarrow> response inv_cmd" where
  "handle E user request_id GetProducts = reply Products (list_products E)"
| "handle E user request_id (GetProduct k) =
     reply Product (\<lambda>s. (get_product (inv_db s) k, s))"
| "handle E user request_id (PostProduct p) =
     reply Product (checked (check_sku_create p) (create_product E p user request_id))"
| "handle E user request_id (PatchThreshold k t) =
     reply Product (checked (check_sku_threshold_update t) (configure_product_threshold E k t))"
| "handle E user request_id (PostCount p) =
     reply Count (checked (check_physical_count_create p)
       (confirm_inventory_physical_count E p user request_id))"
| "handle E user request_id (PostOrder p) =
     reply OrderMutation (checked (check_commercial_order_create p)
       (create_order_with_dispatches E p user request_id))"
| "handle E user request_id (PostDispatches i p) =
     reply OrderMutation (checked (check_dispatch_append p)
       (append_order_dispatches E i p user request_id))"
| "handle E user request_id (PostInbound p) =
     reply MovementCreated (checked (check_stock_entry_create p)
       (create_inbound_order E p user request_id))"
| "handle E user request_id (PostOutbound p) =
     reply MovementCreated (checked (check_stock_exit_create p)
       (create_outbound_order E p user request_id))"
| "handle E user request_id GetOrders = reply Orders (list_orders_endpoint E)"

text \<open>The states the service reaches from a start state, one request after another.\<close>

inductive reachable :: "inventory_state \<Rightarrow> inventory_state \<Rightarrow> bool" for s0 where
  reach_init: "reachable s0 s0"
| reach_step: "reachable s0 s \<Longrightarrow> handle E user request_id r s = (res, t) \<Longrightarrow> reachable s0 t"

end
