(* ===== verification/InventoryLedger.thy ===== *)
theory InventoryLedger
  imports InventoryStore
begin

text \<open>
  What the inventory promises, stated on the tables alone: the stock ledger as an interface, the
  business transactions \<open>txn\<close> (one constructor for each committed write) and the invariants
  every transaction keeps. The refinement theory shows that each operation of the service is one
  of these transactions or leaves the tables as they were.
\<close>

section \<open>The ledger interface\<close>

text \<open>
  A ledger holds a stock for each key; a receipt raises the stock of its key and an issue lowers
  it. The client lemmas need nothing else.
\<close>

locale stock_ledger =
  fixes stock :: "'d \<Rightarrow> 'k \<Rightarrow> int"
    and receive :: "'e \<Rightarrow> 'd \<Rightarrow> 'd"
    and issue :: "'x \<Rightarrow> 'd \<Rightarrow> 'd"
    and received :: "'e \<Rightarrow> 'k \<times> int"
    and issued :: "'x \<Rightarrow> 'k \<times> int"
  assumes stock_receive:
      "stock (receive e d) k = stock d k + (if fst (received e) = k then snd (received e) else 0)"
    and stock_issue:
      "stock (issue x d) k = stock d k - (if fst (issued x) = k then snd (issued x) else 0)"
begin

lemma stock_issues:
  "stock (fold issue xs d) k =
     stock d k - sum_list (map (snd \<circ> issued) (filter (\<lambda>x. fst (issued x) = k) xs))"
  by (induction xs arbitrary: d) (auto simp: stock_issue)

text \<open>
  If the total asked of every key is covered, each single issue is covered when its turn comes,
  in whatever order the issues are made.
\<close>

lemma covered_prefix:
  assumes "\<And>k. sum_list (map (snd \<circ> issued) (filter (\<lambda>x. fst (issued x) = k) (xs @ x # ys))) \<le> stock d k"
    and "\<And>y. y \<in> set ys \<Longrightarrow> 0 \<le> snd (issued y)"
  shows "snd (issued x) \<le> stock (fold issue xs d) (fst (issued x))"
proof -
  let ?k = "fst (issued x)"
  let ?t = "\<lambda>zs. sum_list (map (snd \<circ> issued) (filter (\<lambda>x. fst (issued x) = ?k) zs))"
  have "0 \<le> ?t ys" using assms(2) by (intro sum_list_nonneg) auto
  then show ?thesis using assms(1) [of ?k] by (simp add: stock_issues)
qed

lemma receive_keeps_nonneg:
  "0 \<le> snd (received e) \<Longrightarrow> (\<And>k. 0 \<le> stock d k) \<Longrightarrow> 0 \<le> stock (receive e d) k"
  by (simp add: stock_receive)

lemma issue_keeps_nonneg:
  "snd (issued x) \<le> stock d (fst (issued x)) \<Longrightarrow> (\<And>k. 0 \<le> stock d k) \<Longrightarrow> 0 \<le> stock (issue x d) k"
  by (auto simp: stock_issue)

end

definition stock_at :: "inventory_db \<Rightarrow> int \<times> string \<Rightarrow> int" where
  "stock_at d kw = get_current_stock d (fst kw) (snd kw)"

definition add_entry :: "stock_entry \<Rightarrow> inventory_db \<Rightarrow> inventory_db" where
  "add_entry e d = d\<lparr>db_entries := db_entries d @ [e]\<rparr>"

definition add_exit :: "stock_exit \<Rightarrow> inventory_db \<Rightarrow> inventory_db" where
  "add_exit x d = d\<lparr>db_exits := db_exits d @ [x]\<rparr>"

definition received_of :: "stock_entry \<Rightarrow> (int \<times> string) \<times> int" where
  "received_of e = ((en_sku_id e, en_warehouse e), en_quantity e)"

definition issued_of :: "stock_exit \<Rightarrow> (int \<times> string) \<times> int" where
  "issued_of x = ((ex_sku_id x, ex_warehouse x), ex_quantity x)"

interpretation inv_ledger: stock_ledger stock_at add_entry add_exit received_of issued_of
  by unfold_locales
    (auto simp: stock_at_def add_entry_def add_exit_def received_of_def issued_of_def
      get_current_stock_add_entry get_current_stock_add_exit)

section \<open>Threshold decisions\<close>

definition crosses :: "sku_row \<Rightarrow> int \<Rightarrow> int \<Rightarrow> bool" where
  "crosses sku before after \<longleftrightarrow>
     (case sku_minimum_stock_threshold sku of
        None \<Rightarrow> False | Some threshold \<Rightarrow> before > threshold \<and> after \<le> threshold)"

text \<open>How often a falling stock crosses a threshold.\<close>

fun crossings :: "int \<Rightarrow> int \<Rightarrow> int list \<Rightarrow> nat" where
  "crossings threshold before [] = 0"
| "crossings threshold before (q # qs) =
     (if before > threshold \<and> before - q \<le> threshold then 1 else 0) +
     crossings threshold (before - q) qs"

lemma crossings_once:
  "(\<And>q. q \<in> set qs \<Longrightarrow> 0 \<le> q) \<Longrightarrow>
   crossings threshold before qs =
     (if before > threshold \<and> before - sum_list qs \<le> threshold then 1 else 0)"
proof (induction qs arbitrary: before)
  case (Cons q qs)
  have "0 \<le> sum_list qs" by (intro sum_list_nonneg) (use Cons.prems in auto)
  moreover have "0 \<le> q" using Cons.prems [of q] by simp
  moreover have "crossings threshold (before - q) qs =
      (if before - q > threshold \<and> before - q - sum_list qs \<le> threshold then 1 else 0)"
    by (rule Cons.IH) (use Cons.prems in auto)
  ultimately show ?case by (simp split: if_splits)
qed simp

definition threshold_tags :: "sku_row \<Rightarrow> string \<Rightarrow> int \<Rightarrow> int \<Rightarrow> int \<Rightarrow> tags" where
  "threshold_tags sku w after threshold source_pk =
     [(''warehouse'', JStr w),
      (''client_id'', JStr (the (sku_client_id sku))),
      (''product_id'', JStr (str_int (sku_id sku))),
      (''product_category'', JStr (sku_category sku)),
      (''quantity'', JInt after),
      (''threshold_quantity'', JInt threshold),
      (''movement_id'', JStr (str_int source_pk))]"

text \<open>
  The outbox after the decision on a movement: an event is queued exactly when the movement
  crosses the threshold of its product.
\<close>

definition threshold_outcome ::
  "sku_row \<Rightarrow> int \<Rightarrow> int \<Rightarrow> int \<Rightarrow> time \<Rightarrow> uuid option \<Rightarrow> outbox_row list \<Rightarrow> outbox_row list \<Rightarrow> bool" where
  "threshold_outcome sku source_pk before after tm i table table' \<longleftrightarrow>
     (if crosses sku before after
      then \<exists>u w. i = Some u \<and> canonical_telemetry_warehouse (sku_warehouse sku) = Some w \<and>
             truthy (sku_client_id sku) \<and>
             enqueue_inventory_event u tm ''stockexit'' source_pk ''stock_threshold_triggered''
               (threshold_tags sku w after (the (sku_minimum_stock_threshold sku)) source_pk) table =
             (Inr (), table')
      else i = None \<and> table' = table)"

definition evaluation_of ::
  "string \<Rightarrow> int \<Rightarrow> sku_row \<Rightarrow> int \<Rightarrow> int \<Rightarrow> uuid option \<Rightarrow> time \<Rightarrow> threshold_evaluation \<Rightarrow> bool" where
  "evaluation_of source_table source_pk sku before after i tm e \<longleftrightarrow>
     te_source e = (source_table, source_pk) \<and> te_sku_id e = sku_id sku \<and>
     te_client_id e = sku_client_id sku \<and> te_warehouse e = sku_warehouse sku \<and>
     te_before_quantity e = before \<and> te_after_quantity e = after \<and>
     te_threshold_quantity e = sku_minimum_stock_threshold sku \<and>
     te_event_id e = i \<and> te_crossed e = (i \<noteq> None) \<and> te_evaluated_at e = tm"

definition eval_insertable :: "inventory_db \<Rightarrow> threshold_evaluation \<Rightarrow> bool" where
  "eval_insertable d e \<longleftrightarrow>
     threshold_evaluation_check e = None \<and> te_id e \<notin> te_id ` set (db_evals d) \<and>
     te_source e \<notin> te_source ` set (db_evals d)"

section \<open>Business transactions\<close>

inductive issue_step :: "inventory_db \<Rightarrow> stock_exit \<Rightarrow> inventory_db \<Rightarrow> bool" where
  issue_stepI:
    "\<lbrakk>sku \<in> set (db_skus d); ex_sku_id x = sku_id sku; ex_warehouse x = sku_warehouse sku;
      0 < ex_quantity x; before = get_current_stock d (ex_sku_id x) (ex_warehouse x);
      ex_quantity x \<le> before; ex_id x \<notin> ex_id ` set (db_exits d); stock_exit_check x = None;
      ex_dispatch_id x = None \<or> ex_dispatch_id x \<notin> ex_dispatch_id ` set (db_exits d);
      \<forall>k. ex_commercial_order_id x = Some k \<longrightarrow> k \<in> co_id ` set (db_orders d);
      threshold_outcome sku (ex_id x) before (before - ex_quantity x) (ex_created_at x) i
        (db_outbox d) table;
      evaluation_of ''stockexit'' (ex_id x) sku before (before - ex_quantity x) i
        (ex_created_at x) e;
      eval_insertable d e\<rbrakk>
     \<Longrightarrow> issue_step d x
          (d\<lparr>db_exits := db_exits d @ [x], db_outbox := table, db_evals := db_evals d @ [e]\<rparr>)"

inductive issue_all :: "inventory_db \<Rightarrow> stock_exit list \<Rightarrow> inventory_db \<Rightarrow> bool" where
  issue_none: "issue_all d [] d"
| issue_more: "issue_step d x d' \<Longrightarrow> issue_all d' xs d'' \<Longrightarrow> issue_all d (x # xs) d''"

definition inbound_tags :: "sku_row \<Rightarrow> string \<Rightarrow> stock_entry \<Rightarrow> tags" where
  "inbound_tags sku w e =
     [(''warehouse'', JStr w),
      (''client_id'', JStr (the (sku_client_id sku))),
      (''product_id'', JStr (str_int (sku_id sku))),
      (''product_category'', JStr (sku_category sku)),
      (''quantity'', JInt (en_quantity e)),
      (''movement_id'', JStr (str_int (en_id e)))]"

definition inbound_outcome ::
  "sku_row \<Rightarrow> stock_entry \<Rightarrow> outbox_row list \<Rightarrow> outbox_row list \<Rightarrow> bool" where
  "inbound_outcome sku e table table' \<longleftrightarrow>
     (case (sku_client_id sku, canonical_telemetry_warehouse (en_warehouse e)) of
        (Some _, Some w) \<Rightarrow>
          \<exists>u. enqueue_inventory_event u (en_created_at e) ''stockentry'' (en_id e)
                ''inbound_order_created'' (inbound_tags sku w e) table = (Inr (), table')
      | _ \<Rightarrow> table' = table)"

definition discrepancy_tags :: "sku_row \<Rightarrow> string \<Rightarrow> physical_count \<Rightarrow> tags" where
  "discrepancy_tags sku w c =
     (let delta = pc_observed_quantity c - pc_expected_quantity c in
      [(''warehouse'', JStr w),
       (''client_id'', JStr (the (sku_client_id sku))),
       (''product_id'', JStr (str_int (sku_id sku))),
       (''product_category'', JStr (sku_category sku)),
       (''quantity'', JInt \<bar>delta\<bar>),
       (''system_quantity'', JInt (pc_expected_quantity c)),
       (''counted_quantity'', JInt (pc_observed_quantity c)),
       (''discrepancy_delta'', JInt delta),
       (''discrepancy_type'', JStr (if delta > 0 then ''surplus'' else ''shortage'')),
       (''count_id'', JStr (uuid_str (pc_count_id c)))])"

definition count_outcome ::
  "sku_row \<Rightarrow> physical_count \<Rightarrow> outbox_row list \<Rightarrow> outbox_row list \<Rightarrow> bool" where
  "count_outcome sku c table table' \<longleftrightarrow>
     (if pc_observed_quantity c = pc_expected_quantity c then table' = table
      else \<exists>u w. canonical_telemetry_warehouse (pc_warehouse c) = Some w \<and>
             enqueue_inventory_event u (pc_confirmed_at c) ''inventory_physical_count'' (pc_id c)
               ''inventory_discrepancy_detected'' (discrepancy_tags sku w c) table = (Inr (), table'))"

definition outbound_tags :: "commercial_order \<Rightarrow> tags" where
  "outbound_tags c =
     [(''order_id'', JStr (uuid_str (co_order_id c))),
      (''warehouse'', case canonical_telemetry_warehouse (co_warehouse c) of
                        None \<Rightarrow> JNull | Some w \<Rightarrow> JStr w),
      (''client_id'', JStr (co_client_id c))]"

definition dispatch_of :: "inventory_db \<Rightarrow> commercial_order \<Rightarrow> stock_exit \<Rightarrow> bool" where
  "dispatch_of d c x \<longleftrightarrow>
     ex_commercial_order_id x = Some (co_id c) \<and> ex_warehouse x = co_warehouse c \<and>
     (\<exists>sku \<in> set (db_skus d). sku_id sku = ex_sku_id x \<and> sku_client_id sku = Some (co_client_id c))"

inductive txn :: "inventory_db \<Rightarrow> inventory_db \<Rightarrow> bool" where
  txn_product:
    "\<lbrakk>sku_check r = None; sku_id r \<notin> sku_id ` set (db_skus d);
      parse_category (sku_category r) \<noteq> None; parse_warehouse (sku_warehouse r) \<noteq> None;
      sku_client_id r \<noteq> None\<rbrakk>
     \<Longrightarrow> txn d (d\<lparr>db_skus := db_skus d @ [r]\<rparr>)"
| txn_threshold:
    "\<lbrakk>\<forall>t. threshold = Some t \<longrightarrow> 0 \<le> t\<rbrakk>
     \<Longrightarrow> txn d (d\<lparr>db_skus := sql_update (\<lambda>r. sku_id r = k)
            (\<lambda>r. r\<lparr>sku_minimum_stock_threshold := threshold\<rparr>) (db_skus d)\<rparr>)"
| txn_receive:
    "\<lbrakk>sku \<in> set (db_skus d); en_sku_id x = sku_id sku; en_warehouse x = sku_warehouse sku;
      0 < en_quantity x; before = get_current_stock d (en_sku_id x) (en_warehouse x);
      en_id x \<notin> en_id ` set (db_entries d); inbound_outcome sku x (db_outbox d) table;
      evaluation_of ''stockentry'' (en_id x) sku before (before + en_quantity x) None
        (en_created_at x) e;
      eval_insertable d e\<rbrakk>
     \<Longrightarrow> txn d (d\<lparr>db_entries := db_entries d @ [x], db_outbox := table,
            db_evals := db_evals d @ [e]\<rparr>)"
| txn_issue:
    "\<lbrakk>issue_step d x d'; ex_commercial_order_id x = None\<rbrakk> \<Longrightarrow> txn d d'"
| txn_count:
    "\<lbrakk>sku \<in> set (db_skus d); pc_sku_id c = sku_id sku; pc_warehouse c = sku_warehouse sku;
      sku_client_id sku = Some (pc_client_id c); physical_count_check c = None;
      pc_expected_quantity c = get_current_stock d (pc_sku_id c) (pc_warehouse c);
      pc_id c \<notin> pc_id ` set (db_counts d); pc_count_id c \<notin> pc_count_id ` set (db_counts d);
      count_outcome sku c (db_outbox d) table\<rbrakk>
     \<Longrightarrow> txn d (d\<lparr>db_counts := db_counts d @ [c], db_outbox := table\<rparr>)"
| txn_open_order:
    "\<lbrakk>co_id c \<notin> co_id ` set (db_orders d); co_order_id c \<notin> co_order_id ` set (db_orders d);
      issue_all (d\<lparr>db_orders := db_orders d @ [c]\<rparr>) xs d'; xs \<noteq> [];
      \<forall>x \<in> set xs. dispatch_of d c x;
      enqueue_inventory_event u (co_created_at c) ''commercial_order'' (co_id c)
        ''outbound_order_created'' (outbound_tags c) (db_outbox d') = (Inr (), table)\<rbrakk>
     \<Longrightarrow> txn d (d'\<lparr>db_outbox := table\<rparr>)"
| txn_extend_order:
    "\<lbrakk>c \<in> set (db_orders d); issue_all d xs d'; xs \<noteq> []; \<forall>x \<in> set xs. dispatch_of d c x\<rbrakk>
     \<Longrightarrow> txn d d'"

inductive_cases issue_all_NilE: "issue_all d [] d'"
inductive_cases issue_all_ConsE: "issue_all d (x # xs) d'"

end
