(* ===== verification/InventoryInvariants.thy ===== *)
theory InventoryInvariants
  imports InventoryLedger
begin

text \<open>
  The invariants of the inventory tables and their preservation by every business transaction,
  by induction over \<open>issue_all\<close> and cases over \<open>txn\<close>.
\<close>

section \<open>Invariants\<close>

definition stock_nonneg :: "inventory_db \<Rightarrow> bool" where
  "stock_nonneg d \<longleftrightarrow> (\<forall>k w. 0 \<le> get_current_stock d k w)"

definition sku_ok :: "sku_row \<Rightarrow> bool" where
  "sku_ok r \<longleftrightarrow> sku_check r = None \<and> parse_category (sku_category r) \<noteq> None \<and>
     parse_warehouse (sku_warehouse r) \<noteq> None"

text \<open>A movement is of a known product, in the warehouse of the product, of a positive quantity.\<close>

definition sku_warehouses :: "inventory_db \<Rightarrow> (int \<times> string) set" where
  "sku_warehouses d = (\<lambda>r. (sku_id r, sku_warehouse r)) ` set (db_skus d)"

definition sku_clients :: "inventory_db \<Rightarrow> (int \<times> string option) set" where
  "sku_clients d = (\<lambda>r. (sku_id r, sku_client_id r)) ` set (db_skus d)"

definition movement_of_sku :: "inventory_db \<Rightarrow> int \<Rightarrow> string \<Rightarrow> int \<Rightarrow> bool" where
  "movement_of_sku d k w q \<longleftrightarrow> 0 < q \<and> (k, w) \<in> sku_warehouses d"

definition exit_link_ok :: "inventory_db \<Rightarrow> stock_exit \<Rightarrow> bool" where
  "exit_link_ok d x \<longleftrightarrow>
     (\<forall>k. ex_commercial_order_id x = Some k \<longrightarrow>
        ex_dispatch_id x \<noteq> None \<and>
        (\<exists>c \<in> set (db_orders d). co_id c = k \<and> ex_warehouse x = co_warehouse c \<and>
          (ex_sku_id x, Some (co_client_id c)) \<in> sku_clients d))"

definition tables_ok :: "inventory_db \<Rightarrow> bool" where
  "tables_ok d \<longleftrightarrow>
     keys_unique sku_id (db_skus d) \<and> keys_unique en_id (db_entries d) \<and>
     keys_unique ex_id (db_exits d) \<and> keys_unique co_id (db_orders d) \<and>
     keys_unique co_order_id (db_orders d) \<and> keys_unique pc_count_id (db_counts d) \<and>
     keys_unique pc_id (db_counts d) \<and>
     keys_unique ex_dispatch_id (filter (\<lambda>x. ex_dispatch_id x \<noteq> None) (db_exits d)) \<and>
     (\<forall>r \<in> set (db_skus d). sku_ok r) \<and>
     (\<forall>e \<in> set (db_entries d). movement_of_sku d (en_sku_id e) (en_warehouse e) (en_quantity e)) \<and>
     (\<forall>x \<in> set (db_exits d). movement_of_sku d (ex_sku_id x) (ex_warehouse x) (ex_quantity x))"

definition links_ok :: "inventory_db \<Rightarrow> bool" where
  "links_ok d \<longleftrightarrow> (\<forall>x \<in> set (db_exits d). exit_link_ok d x)"

definition evals_ok :: "inventory_db \<Rightarrow> bool" where
  "evals_ok d \<longleftrightarrow>
     keys_unique te_source (db_evals d) \<and>
     te_source ` set (db_evals d) =
       (\<lambda>e. (''stockentry'', en_id e)) ` set (db_entries d) \<union>
       (\<lambda>x. (''stockexit'', ex_id x)) ` set (db_exits d) \<and>
     (\<forall>e \<in> set (db_evals d). threshold_evaluation_check e = None)"

definition rows_of :: "string \<Rightarrow> inventory_db \<Rightarrow> outbox_row list" where
  "rows_of st d = filter (\<lambda>r. ob_source_table r = st) (db_outbox d)"

definition crossings_published :: "inventory_db \<Rightarrow> bool" where
  "crossings_published d \<longleftrightarrow>
     {(te_source e, u) |e u. e \<in> set (db_evals d) \<and> te_event_id e = Some u} =
     (\<lambda>r. ((''stockexit'', ob_source_pk r), ob_event_id r)) ` set (rows_of ''stockexit'' d)"

definition orders_published :: "inventory_db \<Rightarrow> bool" where
  "orders_published d \<longleftrightarrow>
     ob_source_pk ` set (rows_of ''commercial_order'' d) = co_id ` set (db_orders d)"

definition counts_published :: "inventory_db \<Rightarrow> bool" where
  "counts_published d \<longleftrightarrow>
     ob_source_pk ` set (rows_of ''inventory_physical_count'' d) =
     pc_id ` {c \<in> set (db_counts d). pc_observed_quantity c \<noteq> pc_expected_quantity c}"

definition client_known :: "inventory_db \<Rightarrow> stock_entry \<Rightarrow> bool" where
  "client_known d e \<longleftrightarrow> (\<exists>c. (en_sku_id e, Some c) \<in> sku_clients d)"

definition entries_published :: "inventory_db \<Rightarrow> bool" where
  "entries_published d \<longleftrightarrow>
     ob_source_pk ` set (rows_of ''stockentry'' d) =
     en_id ` {e \<in> set (db_entries d). client_known d e}"

definition tags_ok :: "inventory_db \<Rightarrow> bool" where
  "tags_ok d \<longleftrightarrow>
     (\<forall>r \<in> set (db_outbox d). filter_tags (ob_event_type r) (ob_tags r) = ob_tags r)"

definition inventory_ok :: "inventory_db \<Rightarrow> bool" where
  "inventory_ok d \<longleftrightarrow>
     tables_ok d \<and> links_ok d \<and> stock_nonneg d \<and> evals_ok d \<and> outbox_wf (db_outbox d) \<and>
     crossings_published d \<and> orders_published d \<and> counts_published d \<and> entries_published d \<and>
     tags_ok d"

section \<open>Issues\<close>

lemma rows_of_simps [simp]:
  "rows_of st (d\<lparr>db_outbox := table @ rows\<rparr>) =
     filter (\<lambda>r. ob_source_table r = st) table @ filter (\<lambda>r. ob_source_table r = st) rows"
  by (simp add: rows_of_def)

lemma threshold_outcome_shape:
  assumes "threshold_outcome sku pk b a tm i table table'"
  shows "\<exists>rows. table' = table @ rows \<and>
    (\<lambda>r. (ob_source_table r, ob_source_pk r, ob_event_id r)) ` set rows =
      (case i of None \<Rightarrow> {} | Some u \<Rightarrow> {(''stockexit'', pk, u)}) \<and>
    (\<forall>r \<in> set rows. filter_tags (ob_event_type r) (ob_tags r) = ob_tags r)"
proof (cases "crosses sku b a")
  case True
  then obtain u w where
    i: "i = Some u" and
    e: "enqueue_inventory_event u tm ''stockexit'' pk ''stock_threshold_triggered''
       (threshold_tags sku w a (the (sku_minimum_stock_threshold sku)) pk) table = (Inr (), table')"
    using assms by (auto simp: threshold_outcome_def)
  let ?tags = "threshold_tags sku w a (the (sku_minimum_stock_threshold sku)) pk"
  have keep: "filter_tags ''stock_threshold_triggered'' ?tags = ?tags"
    by (rule filter_tags_keep)
      (simp add: EVENT_PROPERTY_ALLOWLISTS_def, simp add: threshold_tags_def)
  show ?thesis
    using e by (intro exI [of _ "[new_outbox_row u tm ''stockexit'' pk ''stock_threshold_triggered'' ?tags]"])
      (simp add: enqueue_Inr i keep)
next
  case False
  then show ?thesis using assms by (auto simp: threshold_outcome_def)
qed

lemma threshold_outcome_wf:
  "threshold_outcome sku pk b a tm i table table' \<Longrightarrow> outbox_wf table \<Longrightarrow> outbox_wf table'"
  using enqueue_wf [of table]
  by (auto simp: threshold_outcome_def split: if_splits) (metis snd_conv)

text \<open>What an issue writes, as one update of the tables.\<close>

lemma issue_step_shape:
  assumes "issue_step d x d'"
  obtains rows e where
    "d' = d\<lparr>db_exits := db_exits d @ [x], db_outbox := db_outbox d @ rows, db_evals := db_evals d @ [e]\<rparr>"
    "(\<lambda>r. (ob_source_table r, ob_source_pk r, ob_event_id r)) ` set rows =
      (case te_event_id e of None \<Rightarrow> {} | Some u \<Rightarrow> {(''stockexit'', ex_id x, u)})"
    "\<forall>r \<in> set rows. filter_tags (ob_event_type r) (ob_tags r) = ob_tags r"
    "te_source e = (''stockexit'', ex_id x)" "eval_insertable d e"
    "outbox_wf (db_outbox d) \<Longrightarrow> outbox_wf (db_outbox d @ rows)"
    "movement_of_sku d (ex_sku_id x) (ex_warehouse x) (ex_quantity x)"
    "ex_quantity x \<le> get_current_stock d (ex_sku_id x) (ex_warehouse x)"
    "ex_id x \<notin> ex_id ` set (db_exits d)" "stock_exit_check x = None"
    "ex_dispatch_id x = None \<or> ex_dispatch_id x \<notin> ex_dispatch_id ` set (db_exits d)"
  using assms
proof cases
  case (issue_stepI sku before i table e)
  from threshold_outcome_shape [OF issue_stepI(12)] obtain rows where
    rows: "table = db_outbox d @ rows"
      "(\<lambda>r. (ob_source_table r, ob_source_pk r, ob_event_id r)) ` set rows =
        (case i of None \<Rightarrow> {} | Some u \<Rightarrow> {(''stockexit'', ex_id x, u)})"
      "\<forall>r \<in> set rows. filter_tags (ob_event_type r) (ob_tags r) = ob_tags r"
    by blast
  show thesis
  proof (rule that [where rows = rows and e = e])
    show "movement_of_sku d (ex_sku_id x) (ex_warehouse x) (ex_quantity x)"
      using issue_stepI by (auto simp: movement_of_sku_def sku_warehouses_def)
    show "outbox_wf (db_outbox d @ rows)" if "outbox_wf (db_outbox d)"
      using threshold_outcome_wf [OF issue_stepI(12) that] rows by simp
  qed (use issue_stepI rows in \<open>auto simp: evaluation_of_def\<close>)
qed

lemma issue_all_invariant:
  assumes "issue_all d xs d'" and "P d" and "\<And>d x d'. P d \<Longrightarrow> issue_step d x d' \<Longrightarrow> P d'"
  shows "P d'"
  using assms(1,2) by (induction rule: issue_all.induct) (auto intro: assms(3))

lemma issue_all_frame:
  "issue_all d xs d' \<Longrightarrow>
     db_skus d' = db_skus d \<and> db_entries d' = db_entries d \<and> db_orders d' = db_orders d \<and>
     db_counts d' = db_counts d \<and> db_exits d' = db_exits d @ xs \<and>
     (\<forall>st. st \<noteq> ''stockexit'' \<longrightarrow> rows_of st d' = rows_of st d)"
proof (induction rule: issue_all.induct)
  case (issue_more d x d' xs d'')
  from issue_more.hyps(1) show ?case
  proof (rule issue_step_shape)
    fix rows e
    assume d': "d' = d\<lparr>db_exits := db_exits d @ [x], db_outbox := db_outbox d @ rows,
        db_evals := db_evals d @ [e]\<rparr>"
      and rows: "(\<lambda>r. (ob_source_table r, ob_source_pk r, ob_event_id r)) ` set rows =
        (case te_event_id e of None \<Rightarrow> {} | Some u \<Rightarrow> {(''stockexit'', ex_id x, u)})"
    have "ob_source_table r = ''stockexit''" if "r \<in> set rows" for r
      using that rows by (auto split: option.splits)
    then show ?thesis
      using issue_more.IH d' by (auto simp: rows_of_def filter_empty_conv)
  qed
qed simp

lemma issue_step_stock:
  assumes "issue_step d x d'"
  shows "get_current_stock d' k w =
    get_current_stock d k w - (if ex_sku_id x = k \<and> ex_warehouse x = w then ex_quantity x else 0)"
  using assms by (cases rule: issue_step.cases) (simp add: get_current_stock_sums)

lemma issue_step_stock_nonneg: "issue_step d x d' \<Longrightarrow> stock_nonneg d \<Longrightarrow> stock_nonneg d'"
  unfolding stock_nonneg_def
  by (auto simp: issue_step_stock elim!: issue_step_shape)


lemma sku_projections_cong:
  "db_skus d' = db_skus d \<Longrightarrow> sku_warehouses d' = sku_warehouses d \<and> sku_clients d' = sku_clients d"
  by (simp add: sku_warehouses_def sku_clients_def)

lemma movement_of_sku_update [simp]:
  "movement_of_sku (d\<lparr>db_entries := es\<rparr>) = movement_of_sku d"
  "movement_of_sku (d\<lparr>db_exits := xs\<rparr>) = movement_of_sku d"
  "movement_of_sku (d\<lparr>db_orders := os\<rparr>) = movement_of_sku d"
  "movement_of_sku (d\<lparr>db_counts := cs\<rparr>) = movement_of_sku d"
  "movement_of_sku (d\<lparr>db_evals := vs\<rparr>) = movement_of_sku d"
  "movement_of_sku (d\<lparr>db_outbox := bs\<rparr>) = movement_of_sku d"
  by (simp_all add: fun_eq_iff movement_of_sku_def sku_warehouses_def)

lemma tables_ok_issue: "issue_step d x d' \<Longrightarrow> tables_ok d \<Longrightarrow> tables_ok d'"
  by (erule issue_step_shape) (auto simp: tables_ok_def)

lemma evals_ok_issue: "issue_step d x d' \<Longrightarrow> evals_ok d \<Longrightarrow> evals_ok d'"
  by (erule issue_step_shape) (auto simp: evals_ok_def eval_insertable_def)

lemma outbox_wf_issue: "issue_step d x d' \<Longrightarrow> outbox_wf (db_outbox d) \<Longrightarrow> outbox_wf (db_outbox d')"
  by (erule issue_step_shape) simp

lemma tags_ok_issue: "issue_step d x d' \<Longrightarrow> tags_ok d \<Longrightarrow> tags_ok d'"
  by (erule issue_step_shape) (auto simp: tags_ok_def)

lemma crossings_published_issue:
  assumes "issue_step d x d'" and "crossings_published d"
  shows "crossings_published d'"
  using assms(1)
proof (rule issue_step_shape)
  fix rows e
  assume d': "d' = d\<lparr>db_exits := db_exits d @ [x], db_outbox := db_outbox d @ rows,
      db_evals := db_evals d @ [e]\<rparr>"
    and rows: "(\<lambda>r. (ob_source_table r, ob_source_pk r, ob_event_id r)) ` set rows =
      (case te_event_id e of None \<Rightarrow> {} | Some u \<Rightarrow> {(''stockexit'', ex_id x, u)})"
    and src: "te_source e = (''stockexit'', ex_id x)"
  have evs: "{(te_source f, u) |f u. f \<in> set (db_evals d') \<and> te_event_id f = Some u} =
      {(te_source f, u) |f u. f \<in> set (db_evals d) \<and> te_event_id f = Some u} \<union>
      {(te_source e, u) |u. te_event_id e = Some u}"
    by (auto simp: d')
  let ?f = "\<lambda>r. ((''stockexit'', ob_source_pk r), ob_event_id r)"
  have all: "ob_source_table r = ''stockexit''" if "r \<in> set rows" for r
    using that rows by (auto split: option.splits)
  have new: "?f ` set rows = {(te_source e, u) |u. te_event_id e = Some u}"
  proof -
    have "?f ` set rows =
        (\<lambda>(t, p, u). ((''stockexit'', p), u)) ` (\<lambda>r. (ob_source_table r, ob_source_pk r, ob_event_id r)) ` set rows"
      by (simp add: image_image)
    also have "\<dots> = {(te_source e, u) |u. te_event_id e = Some u}"
      unfolding rows by (auto simp: src split: option.splits)
    finally show ?thesis .
  qed
  have "rows_of ''stockexit'' d' = rows_of ''stockexit'' d @ rows"
    using all by (simp add: d' rows_of_def)
  then have "?f ` set (rows_of ''stockexit'' d') = ?f ` set (rows_of ''stockexit'' d) \<union> ?f ` set rows"
    by auto
  then show "crossings_published d'"
    using assms(2) by (simp only: crossings_published_def evs new)
qed

lemmas issue_invariants = issue_step_stock_nonneg tables_ok_issue evals_ok_issue outbox_wf_issue
  tags_ok_issue crossings_published_issue

text \<open>The invariants no issue can break, kept by any number of issues.\<close>

definition issue_inv :: "inventory_db \<Rightarrow> bool" where
  "issue_inv d \<longleftrightarrow> stock_nonneg d \<and> tables_ok d \<and> evals_ok d \<and> outbox_wf (db_outbox d) \<and>
     tags_ok d \<and> crossings_published d"

lemma issue_all_inv: "issue_all d xs d' \<Longrightarrow> issue_inv d \<Longrightarrow> issue_inv d'"
  by (rule issue_all_invariant) (auto simp: issue_inv_def intro: issue_invariants)

lemma issue_all_check: "issue_all d xs d' \<Longrightarrow> x \<in> set xs \<Longrightarrow> stock_exit_check x = None"
  by (induction rule: issue_all.induct) (auto elim: issue_step_shape)

section \<open>Transactions\<close>

lemma issue_inv_add_order:
  "tables_ok d \<Longrightarrow> co_id c \<notin> co_id ` set (db_orders d) \<Longrightarrow>
   co_order_id c \<notin> co_order_id ` set (db_orders d) \<Longrightarrow>
   issue_inv d \<Longrightarrow> issue_inv (d\<lparr>db_orders := db_orders d @ [c]\<rparr>)"
  by (simp add: tables_ok_def issue_inv_def stock_nonneg_def evals_ok_def tags_ok_def
      crossings_published_def rows_of_def get_current_stock_sums)

lemma enqueue_rows:
  assumes "enqueue_inventory_event u tm st pk et tgs table = (Inr (), table')"
  shows "table' = table @ [new_outbox_row u tm st pk et tgs]"
  using assms by (simp add: enqueue_Inr)

lemma enqueue_keeps_wf:
  "enqueue_inventory_event u tm st pk et tgs table = (Inr (), table') \<Longrightarrow> outbox_wf table \<Longrightarrow>
   outbox_wf table'"
  using enqueue_wf [of table u tm st pk et tgs] by simp

text \<open>Queueing an event of another source, with allowlisted tags.\<close>

lemma issue_inv_enqueue:
  assumes "enqueue_inventory_event u tm st pk et tgs (db_outbox d) = (Inr (), table)"
    and "st \<noteq> ''stockexit''" and "filter_tags et tgs = tgs" and "issue_inv d"
  shows "issue_inv (d\<lparr>db_outbox := table\<rparr>)"
  using assms enqueue_keeps_wf [OF assms(1)]
  by (simp add: issue_inv_def enqueue_rows [OF assms(1)] stock_nonneg_def tables_ok_def
      evals_ok_def tags_ok_def crossings_published_def rows_of_def get_current_stock_sums)

lemma inbound_tags_kept: "filter_tags ''inbound_order_created'' (inbound_tags sku w e) = inbound_tags sku w e"
  by (rule filter_tags_keep)
    (simp add: EVENT_PROPERTY_ALLOWLISTS_def, simp add: inbound_tags_def)

lemma discrepancy_tags_kept:
  "filter_tags ''inventory_discrepancy_detected'' (discrepancy_tags sku w c) = discrepancy_tags sku w c"
  by (rule filter_tags_keep)
    (simp add: EVENT_PROPERTY_ALLOWLISTS_def, simp add: discrepancy_tags_def Let_def)

lemma outbound_tags_kept: "filter_tags ''outbound_order_created'' (outbound_tags c) = outbound_tags c"
  by (rule filter_tags_keep)
    (simp add: EVENT_PROPERTY_ALLOWLISTS_def, simp add: outbound_tags_def)


lemma issue_inv_of: "inventory_ok d \<Longrightarrow> issue_inv d"
  by (simp add: inventory_ok_def issue_inv_def)

lemma sku_warehouse_known:
  assumes "parse_warehouse v \<noteq> None"
  obtains c where "canonical_telemetry_warehouse v = Some c"
  using assms canonical_warehouse_value that
  by (cases "v = ''LA''"; cases "v = ''ZGZ''") (auto simp: parse_warehouse_def)

lemma ok_product:
  assumes ok: "inventory_ok d" and r: "sku_check r = None" "sku_id r \<notin> sku_id ` set (db_skus d)"
    "parse_category (sku_category r) \<noteq> None" "parse_warehouse (sku_warehouse r) \<noteq> None"
  shows "inventory_ok (d\<lparr>db_skus := db_skus d @ [r]\<rparr>)" (is "inventory_ok ?d")
proof -
  have proj: "sku_warehouses ?d = insert (sku_id r, sku_warehouse r) (sku_warehouses d)"
    "sku_clients ?d = insert (sku_id r, sku_client_id r) (sku_clients d)"
    by (simp_all add: sku_warehouses_def sku_clients_def)
  have "links_ok ?d"
    using ok by (fastforce simp: inventory_ok_def links_ok_def exit_link_ok_def proj)
  moreover have "entries_published ?d"
  proof -
    have "en_sku_id e \<noteq> sku_id r" if "e \<in> set (db_entries d)" for e
    proof -
      have "(en_sku_id e, en_warehouse e) \<in> sku_warehouses d"
        using ok that by (simp add: inventory_ok_def tables_ok_def movement_of_sku_def)
      then show ?thesis using r(2) by (auto simp: sku_warehouses_def)
    qed
    then have "{e \<in> set (db_entries d). client_known ?d e} = {e \<in> set (db_entries d). client_known d e}"
      by (auto simp: client_known_def proj)
    then show ?thesis using ok by (simp add: inventory_ok_def entries_published_def rows_of_def)
  qed
  moreover have "tables_ok ?d"
    using ok r by (simp add: inventory_ok_def tables_ok_def sku_ok_def movement_of_sku_def proj)
  ultimately show ?thesis
    using ok by (simp add: inventory_ok_def stock_nonneg_def evals_ok_def crossings_published_def
        orders_published_def counts_published_def tags_ok_def rows_of_def get_current_stock_sums)
qed

lemma ok_threshold:
  assumes ok: "inventory_ok d" and t: "\<forall>t. threshold = Some t \<longrightarrow> 0 \<le> t"
  shows "inventory_ok (d\<lparr>db_skus := sql_update (\<lambda>r. sku_id r = k)
      (\<lambda>r. r\<lparr>sku_minimum_stock_threshold := threshold\<rparr>) (db_skus d)\<rparr>)" (is "inventory_ok ?d")
proof -
  have maps: "map (\<lambda>r. (sku_id r, sku_warehouse r)) (db_skus ?d) = map (\<lambda>r. (sku_id r, sku_warehouse r)) (db_skus d)"
    "map (\<lambda>r. (sku_id r, sku_client_id r)) (db_skus ?d) = map (\<lambda>r. (sku_id r, sku_client_id r)) (db_skus d)"
    by (simp_all add: sql_update_def)
  have proj: "sku_warehouses ?d = sku_warehouses d" "sku_clients ?d = sku_clients d"
    by (simp_all only: sku_warehouses_def sku_clients_def list.set_map [symmetric] maps)
  have rows: "sku_ok r" if "r \<in> set (db_skus ?d)" for r
    using that ok t
    by (auto simp: inventory_ok_def tables_ok_def sku_ok_def sku_check_None set_sql_update)
  have "tables_ok ?d"
    using ok rows by (simp add: inventory_ok_def tables_ok_def movement_of_sku_def proj keys_unique_update)
  moreover have "links_ok ?d" "entries_published ?d"
    using ok by (simp_all add: inventory_ok_def links_ok_def exit_link_ok_def entries_published_def
        rows_of_def client_known_def proj)
  ultimately show ?thesis
    using ok by (simp add: inventory_ok_def stock_nonneg_def evals_ok_def crossings_published_def
        orders_published_def counts_published_def tags_ok_def rows_of_def get_current_stock_sums)
qed

lemma sku_clients_iff:
  assumes "keys_unique sku_id (db_skus d)" and "sku \<in> set (db_skus d)"
  shows "(sku_id sku, c) \<in> sku_clients d \<longleftrightarrow> sku_client_id sku = c"
proof
  assume "(sku_id sku, c) \<in> sku_clients d"
  then obtain r where "r \<in> set (db_skus d)" "sku_id r = sku_id sku" "sku_client_id r = c"
    by (auto simp: sku_clients_def)
  with keys_uniqueD [OF assms(1), of r sku] assms(2) show "sku_client_id sku = c" by simp
qed (use assms(2) in \<open>auto simp: sku_clients_def\<close>)

lemma ok_receive:
  assumes ok: "inventory_ok d" and sku: "sku \<in> set (db_skus d)" "en_sku_id x = sku_id sku"
    "en_warehouse x = sku_warehouse sku" and q: "0 < en_quantity x"
    and fresh: "en_id x \<notin> en_id ` set (db_entries d)"
    and out: "inbound_outcome sku x (db_outbox d) table"
    and ev: "te_source e = (''stockentry'', en_id x)" "te_event_id e = None" "eval_insertable d e"
  shows "inventory_ok (d\<lparr>db_entries := db_entries d @ [x], db_outbox := table,
      db_evals := db_evals d @ [e]\<rparr>)" (is "inventory_ok ?d")
proof -
  have parsed: "parse_warehouse (sku_warehouse sku) \<noteq> None"
    using ok sku(1) by (auto simp: inventory_ok_def tables_ok_def sku_ok_def)
  from sku_warehouse_known [OF parsed] obtain w where
    w: "canonical_telemetry_warehouse (en_warehouse x) = Some w"
    using sku(3) by metis
  have proj: "sku_warehouses ?d = sku_warehouses d" "sku_clients ?d = sku_clients d"
    by (simp_all add: sku_warehouses_def sku_clients_def)
  have uniq: "keys_unique sku_id (db_skus d)"
    using ok by (simp add: inventory_ok_def tables_ok_def)
  have client: "client_known d x \<longleftrightarrow> sku_client_id sku \<noteq> None"
    using sku_clients_iff [OF uniq sku(1)] by (auto simp: client_known_def sku(2))
  obtain rows where rows: "table = db_outbox d @ rows" "outbox_wf table"
    "\<forall>r \<in> set rows. filter_tags (ob_event_type r) (ob_tags r) = ob_tags r"
    "(\<lambda>r. (ob_source_table r, ob_source_pk r)) ` set rows =
      (if client_known d x then {(''stockentry'', en_id x)} else {})"
  proof (cases "sku_client_id sku")
    case None
    then show thesis
      using out ok that [of "[]"] client by (simp add: inbound_outcome_def inventory_ok_def)
  next
    case (Some c)
    with out w obtain u where
      e: "enqueue_inventory_event u (en_created_at x) ''stockentry'' (en_id x)
        ''inbound_order_created'' (inbound_tags sku w x) (db_outbox d) = (Inr (), table)"
      by (auto simp: inbound_outcome_def)
    show thesis
      using enqueue_rows [OF e] enqueue_keeps_wf [OF e] ok Some client
      by (intro that [of "[new_outbox_row u (en_created_at x) ''stockentry'' (en_id x)
          ''inbound_order_created'' (inbound_tags sku w x)]"])
        (auto simp: inbound_tags_kept inventory_ok_def)
  qed
  have st: "ob_source_table r = ''stockentry''" if "r \<in> set rows" for r
    using that rows(4) by (auto split: if_splits)
  have other: "rows_of st ?d = rows_of st d" if "st \<noteq> ''stockentry''" for st
    using st that by (auto simp: rows_of_def rows(1) filter_empty_conv)
  have "rows_of ''stockentry'' ?d = rows_of ''stockentry'' d @ rows"
    using st by (simp add: rows_of_def rows(1))
  moreover have "ob_source_pk ` set rows = (if client_known d x then {en_id x} else {})"
    using arg_cong [OF rows(4), of "(`) snd"] by (simp add: image_image split: if_splits)
  moreover have "client_known ?d = client_known d"
    by (simp add: fun_eq_iff client_known_def proj)
  moreover have "{k \<in> set (db_entries ?d). client_known d k} =
      {k \<in> set (db_entries d). client_known d k} \<union> (if client_known d x then {x} else {})"
    by auto
  ultimately have "entries_published ?d"
    using ok by (simp add: inventory_ok_def entries_published_def image_Un split: if_splits)
  moreover have "tables_ok ?d"
    using ok fresh q sku by (force simp: inventory_ok_def tables_ok_def movement_of_sku_def
        sku_warehouses_def)
  moreover have "stock_nonneg ?d"
  proof -
    have "get_current_stock ?d k v = stock_at (add_entry x d) (k, v)" for k v
      by (simp add: stock_at_def add_entry_def get_current_stock_sums)
    moreover have "0 \<le> stock_at d kv" for kv
      using ok by (simp add: inventory_ok_def stock_nonneg_def stock_at_def)
    ultimately show ?thesis
      using q by (auto simp: stock_nonneg_def received_of_def
          intro: inv_ledger.receive_keeps_nonneg)
  qed
  moreover have "evals_ok ?d"
    using ok ev by (simp add: inventory_ok_def evals_ok_def eval_insertable_def)
  moreover have "crossings_published ?d"
  proof -
    have "{(te_source f, u) |f u. f \<in> set (db_evals ?d) \<and> te_event_id f = Some u} =
        {(te_source f, u) |f u. f \<in> set (db_evals d) \<and> te_event_id f = Some u}"
      using ev(2) by auto
    then show ?thesis using ok other by (simp add: inventory_ok_def crossings_published_def)
  qed
  moreover have "tags_ok ?d"
    using ok rows(3) by (auto simp: inventory_ok_def tags_ok_def rows(1))
  moreover have "links_ok ?d"
    using ok by (simp add: inventory_ok_def links_ok_def exit_link_ok_def proj)
  ultimately show ?thesis
    using ok rows(2) other
    by (simp add: inventory_ok_def orders_published_def counts_published_def)
qed

lemma ok_count:
  assumes ok: "inventory_ok d" and fresh: "pc_id c \<notin> pc_id ` set (db_counts d)"
    "pc_count_id c \<notin> pc_count_id ` set (db_counts d)"
    and out: "count_outcome sku c (db_outbox d) table"
  shows "inventory_ok (d\<lparr>db_counts := db_counts d @ [c], db_outbox := table\<rparr>)" (is "inventory_ok ?d")
proof -
  let ?differs = "pc_observed_quantity c \<noteq> pc_expected_quantity c"
  obtain rows where rows: "table = db_outbox d @ rows" "outbox_wf table"
    "\<forall>r \<in> set rows. filter_tags (ob_event_type r) (ob_tags r) = ob_tags r"
    "(\<lambda>r. (ob_source_table r, ob_source_pk r)) ` set rows =
      (if ?differs then {(''inventory_physical_count'', pc_id c)} else {})"
  proof (cases ?differs)
    case False
    then show thesis
      using out ok that [of "[]"] by (simp add: count_outcome_def inventory_ok_def)
  next
    case True
    with out obtain u w where
      e: "enqueue_inventory_event u (pc_confirmed_at c) ''inventory_physical_count'' (pc_id c)
        ''inventory_discrepancy_detected'' (discrepancy_tags sku w c) (db_outbox d) = (Inr (), table)"
      by (auto simp: count_outcome_def)
    show thesis
      using enqueue_rows [OF e] enqueue_keeps_wf [OF e] ok True
      by (intro that [of "[new_outbox_row u (pc_confirmed_at c) ''inventory_physical_count'' (pc_id c)
          ''inventory_discrepancy_detected'' (discrepancy_tags sku w c)]"])
        (auto simp: discrepancy_tags_kept inventory_ok_def)
  qed
  have proj: "sku_warehouses ?d = sku_warehouses d" "sku_clients ?d = sku_clients d"
    by (simp_all add: sku_warehouses_def sku_clients_def)
  have st: "ob_source_table r = ''inventory_physical_count''" if "r \<in> set rows" for r
    using that rows(4) by (auto split: if_splits)
  have other: "rows_of st ?d = rows_of st d" if "st \<noteq> ''inventory_physical_count''" for st
    using st that by (auto simp: rows_of_def rows(1) filter_empty_conv)
  have "rows_of ''inventory_physical_count'' ?d = rows_of ''inventory_physical_count'' d @ rows"
    using st by (simp add: rows_of_def rows(1))
  moreover have "ob_source_pk ` set rows = (if ?differs then {pc_id c} else {})"
    using arg_cong [OF rows(4), of "(`) snd"] by (simp add: image_image split: if_splits)
  moreover have "{k \<in> set (db_counts ?d). pc_observed_quantity k \<noteq> pc_expected_quantity k} =
      {k \<in> set (db_counts d). pc_observed_quantity k \<noteq> pc_expected_quantity k} \<union>
      (if ?differs then {c} else {})"
    by auto
  ultimately have "counts_published ?d"
    using ok by (simp add: inventory_ok_def counts_published_def image_Un split: if_splits)
  moreover have "tags_ok ?d"
    using ok rows(3) by (auto simp: inventory_ok_def tags_ok_def rows(1))
  moreover have "tables_ok ?d"
    using ok fresh by (simp add: inventory_ok_def tables_ok_def)
  ultimately show ?thesis
    using ok rows(2) other
    by (simp add: inventory_ok_def orders_published_def entries_published_def links_ok_def
        exit_link_ok_def stock_nonneg_def evals_ok_def crossings_published_def client_known_def
        get_current_stock_sums proj)
qed

text \<open>A batch of dispatches of known orders.\<close>

lemma ok_issue_all:
  assumes step: "issue_all d xs d'" and inv: "issue_inv d" and links: "links_ok d"
    and disp: "\<And>x. x \<in> set xs \<Longrightarrow> ex_commercial_order_id x = None \<or>
      (\<exists>c \<in> set (db_orders d). dispatch_of d c x)"
  shows "issue_inv d' \<and> links_ok d'"
proof
  note frame = issue_all_frame [OF step]
  show "issue_inv d'" using step inv by (rule issue_all_inv)
  have proj: "sku_clients d' = sku_clients d" using frame by (simp add: sku_clients_def)
  have "exit_link_ok d x" if "x \<in> set xs" for x
    using disp [OF that] issue_all_check [OF step that]
    by (force simp: exit_link_ok_def dispatch_of_def stock_exit_check_def sku_clients_def
        split: if_splits)
  then show "links_ok d'"
    using links frame by (auto simp: links_ok_def exit_link_ok_def proj)
qed

lemma ok_open_order:
  assumes ok: "inventory_ok d" and fresh: "co_id c \<notin> co_id ` set (db_orders d)"
    "co_order_id c \<notin> co_order_id ` set (db_orders d)"
    and step: "issue_all (d\<lparr>db_orders := db_orders d @ [c]\<rparr>) xs d'"
    and disp: "\<forall>x \<in> set xs. dispatch_of d c x"
    and enq: "enqueue_inventory_event u (co_created_at c) ''commercial_order'' (co_id c)
        ''outbound_order_created'' (outbound_tags c) (db_outbox d') = (Inr (), table)"
  shows "inventory_ok (d'\<lparr>db_outbox := table\<rparr>)" (is "inventory_ok ?d")
proof -
  let ?o = "d\<lparr>db_orders := db_orders d @ [c]\<rparr>"
  note frame = issue_all_frame [OF step]
  have o: "issue_inv ?o" "links_ok ?o"
    using ok fresh issue_inv_add_order [of d c]
    by (auto simp: issue_inv_of inventory_ok_def links_ok_def exit_link_ok_def sku_clients_def)
  have "issue_inv d' \<and> links_ok d'"
    using step o
  proof (rule ok_issue_all)
    fix x assume "x \<in> set xs"
    then have "dispatch_of ?o c x" using disp by (simp add: dispatch_of_def)
    then show "ex_commercial_order_id x = None \<or> (\<exists>c \<in> set (db_orders ?o). dispatch_of ?o c x)"
      by auto
  qed
  then have inv: "issue_inv ?d" and links: "links_ok ?d"
    using issue_inv_enqueue [OF enq] outbound_tags_kept
    by (simp_all add: links_ok_def exit_link_ok_def sku_clients_def)
  have "rows_of st ?d = rows_of st d" if "st \<noteq> ''commercial_order''" "st \<noteq> ''stockexit''" for st
    using frame that enqueue_rows [OF enq] by (simp add: rows_of_def)
  moreover have "ob_source_pk ` set (rows_of ''commercial_order'' ?d) =
      insert (co_id c) (ob_source_pk ` set (rows_of ''commercial_order'' d))"
    using frame enqueue_rows [OF enq] by (simp add: rows_of_def)
  ultimately show ?thesis
    using ok inv links frame
    by (simp add: inventory_ok_def issue_inv_def orders_published_def counts_published_def
        entries_published_def client_known_def sku_clients_def)
qed

text \<open>Issues that leave the orders as they are: a movement of its own, or more dispatches.\<close>

lemma ok_issues:
  assumes ok: "inventory_ok d" and step: "issue_all d xs d'"
    and disp: "\<And>x. x \<in> set xs \<Longrightarrow> ex_commercial_order_id x = None \<or>
      (\<exists>c \<in> set (db_orders d). dispatch_of d c x)"
  shows "inventory_ok d'"
proof -
  note frame = issue_all_frame [OF step]
  have "issue_inv d' \<and> links_ok d'"
    using step issue_inv_of [OF ok] _ disp by (rule ok_issue_all) (use ok in \<open>simp add: inventory_ok_def\<close>)
  then show ?thesis
    using ok frame by (simp add: inventory_ok_def issue_inv_def orders_published_def
        counts_published_def entries_published_def client_known_def sku_clients_def)
qed

lemma txn_ok:
  assumes "txn d d'" and ok: "inventory_ok d"
  shows "inventory_ok d'"
  using assms(1)
proof cases
  case (txn_issue x)
  have "issue_all d [x] d'" using txn_issue(1) by (auto intro: issue_all.intros)
  then show ?thesis using txn_issue(2) by (intro ok_issues [OF ok]) auto
next
  case (txn_extend_order c xs)
  then show ?thesis by (intro ok_issues [OF ok]) auto
next
  case (txn_receive sku x before table e)
  then show ?thesis using ok ok_receive [of d sku x table e] by (simp add: evaluation_of_def)
next
  case (txn_count sku c table)
  then show ?thesis using ok ok_count [of d c sku table] by simp
next
  case (txn_open_order c xs e u table)
  then show ?thesis using ok_open_order [OF ok] by blast
next
  case (txn_product r)
  then show ?thesis using ok_product [OF ok] by simp
next
  case (txn_threshold threshold k)
  then show ?thesis using ok_threshold [OF ok] by simp
qed

lemma txns_ok: "txn\<^sup>*\<^sup>* d d' \<Longrightarrow> inventory_ok d \<Longrightarrow> inventory_ok d'"
  by (induction rule: rtranclp_induct) (auto intro: txn_ok)

end
