(* ===== verification/InventoryRefinement.thy ===== *)
theory InventoryRefinement
  imports InventoryRoutes InventoryInvariants "HOL-Library.Multiset"
begin

text \<open>
  Each operation of the service is atomic on the tables and refines one business transaction:
  when it returns they are unchanged or one \<open>txn\<close> later, and when it raises they are unchanged, or
  one \<open>txn\<close> later if the commit took effect and its confirmation or a statement after it failed.
  The first part says what the steps of the bodies did when they returned.
\<close>

section \<open>Steps of the bodies\<close>

lemma event_cmd_Inr:
  "event_cmd E ty user rid tm tgs s = (Inr ev, t) \<Longrightarrow>
     tv_eventId ev = env_uuid4 E (uuids_drawn s) \<and> tv_event_type ev = ty \<and>
     tv_properties ev = tgs \<and> t = s\<lparr>uuids_drawn := Suc (uuids_drawn s)\<rparr>"
  by (auto simp: event_cmd_def bind_cmd_eq_Inr draw_uuid_def dest!: TelemetryEvent_Inr)

lemma enqueue_event_table:
  "enqueue_event i tm st pk et tgs s = (Inr u, t) \<Longrightarrow>
     \<exists>table. enqueue_inventory_event i tm st pk et tgs (db_outbox (inv_db s)) = (Inr (), table) \<and>
       t = s\<lparr>inv_db := (inv_db s)\<lparr>db_outbox := table\<rparr>\<rparr>"
  by (auto simp: enqueue_event_def split: prod.splits)

lemma threshold_event_Inr:
  assumes "threshold_event E sku pk before after user rid tm s = (Inr ev, t)"
  shows "\<exists>table. threshold_outcome sku pk before after tm (map_option tv_eventId ev)
      (db_outbox (inv_db s)) table \<and> inv_db t = (inv_db s)\<lparr>db_outbox := table\<rparr>"
proof (cases "crosses sku before after")
  case False
  then show ?thesis
    using assms by (auto simp: threshold_event_def crosses_def threshold_outcome_def
        split: option.splits if_splits)
next
  case True
  then obtain threshold where th: "sku_minimum_stock_threshold sku = Some threshold"
    and lt: "before > threshold \<and> after \<le> threshold"
    by (auto simp: crosses_def split: option.splits)
  with assms obtain w where w: "canonical_telemetry_warehouse (sku_warehouse sku) = Some w"
    and c: "truthy (sku_client_id sku)"
    by (auto simp: threshold_event_def split: option.splits if_splits)
  from assms obtain event v where
    ev: "event_cmd E ''stock_threshold_triggered'' user rid tm (threshold_tags sku w after threshold pk) s
       = (Inr event, v)"
    and enq: "enqueue_event (tv_eventId event) tm ''stockexit'' pk (tv_event_type event)
       (threshold_tags sku w after threshold pk) v = (Inr (), t)" and some: "ev = Some event"
    by (auto simp: threshold_event_def th lt w c threshold_tags_def Let_def bind_cmd_eq_Inr)
  show ?thesis
    using event_cmd_Inr [OF ev] enqueue_event_table [OF enq] True w c th some
    by (auto simp: threshold_outcome_def)
qed

lemma record_threshold_evaluation_Inr:
  "record_threshold_evaluation st pk sku before after ev tm s = (Inr e, t) \<Longrightarrow>
     evaluation_of st pk sku before after (map_option tv_eventId ev) tm e \<and>
     eval_insertable (inv_db s) e \<and>
     inv_db t = (inv_db s)\<lparr>db_evals := db_evals (inv_db s) @ [e]\<rparr>"
  by (auto simp: record_threshold_evaluation_def eval_insertable_def evaluation_of_def te_source_def
      dest!: insert_eval_Inr)

lemma inbound_event_Inr:
  assumes "inbound_event E sku x user rid s = (Inr ev, t)"
  shows "\<exists>table. inbound_outcome sku x (db_outbox (inv_db s)) table \<and>
    inv_db t = (inv_db s)\<lparr>db_outbox := table\<rparr>"
proof (cases "sku_client_id sku")
  case None
  then show ?thesis using assms by (auto simp: inbound_event_def inbound_outcome_def)
next
  case (Some c)
  show ?thesis
  proof (cases "canonical_telemetry_warehouse (en_warehouse x)")
    case None
    then show ?thesis using assms Some by (auto simp: inbound_event_def inbound_outcome_def)
  next
    case (Some w)
    with \<open>sku_client_id sku = Some c\<close> assms obtain event v where
      ev: "event_cmd E ''inbound_order_created'' user rid (en_created_at x) (inbound_tags sku w x) s
        = (Inr event, v)"
      and enq: "enqueue_event (tv_eventId event) (en_created_at x) ''stockentry'' (en_id x)
        (tv_event_type event) (inbound_tags sku w x) v = (Inr (), t)"
      by (auto simp: inbound_event_def inbound_tags_def Let_def bind_cmd_eq_Inr)
    show ?thesis
      using event_cmd_Inr [OF ev] enqueue_event_table [OF enq] Some \<open>sku_client_id sku = Some c\<close>
      by (auto simp: inbound_outcome_def)
  qed
qed

lemma discrepancy_event_Inr:
  assumes "discrepancy_event E data sku c (pc_expected_quantity c) user rid s = (Inr evs, t)"
    and "pc_observed_quantity c = pcc_observed_quantity data"
    and "pc_warehouse c = warehouse_value (pcc_warehouse data)" and "pc_confirmed_at c = env_now E"
  shows "\<exists>table. count_outcome sku c (db_outbox (inv_db s)) table \<and>
    inv_db t = (inv_db s)\<lparr>db_outbox := table\<rparr>"
proof (cases "pc_observed_quantity c = pc_expected_quantity c")
  case True
  then show ?thesis using assms by (auto simp: discrepancy_event_def count_outcome_def)
next
  case False
  obtain w where w: "canonical_telemetry_warehouse (pc_warehouse c) = Some w"
    using canonical_warehouse_value_defined assms(3) by metis
  from assms False w obtain event v where
    ev: "event_cmd E ''inventory_discrepancy_detected'' user rid (env_now E) (discrepancy_tags sku w c) s
      = (Inr event, v)"
    and enq: "enqueue_event (tv_eventId event) (env_now E) ''inventory_physical_count'' (pc_id c)
      (tv_event_type event) (discrepancy_tags sku w c) v = (Inr (), t)"
    by (auto simp: discrepancy_event_def discrepancy_tags_def Let_def bind_cmd_eq_Inr)
  show ?thesis
    using event_cmd_Inr [OF ev] enqueue_event_table [OF enq] w False assms(4)
    by (auto simp: count_outcome_def)
qed

lemma outbound_event_Inr:
  assumes "outbound_event E c user rid s = (Inr ev, t)" and "co_created_at c = env_now E"
  shows "\<exists>u table. enqueue_inventory_event u (co_created_at c) ''commercial_order'' (co_id c)
      ''outbound_order_created'' (outbound_tags c) (db_outbox (inv_db s)) = (Inr (), table) \<and>
    inv_db t = (inv_db s)\<lparr>db_outbox := table\<rparr>"
proof -
  from assms(1) obtain event v where
    ev: "event_cmd E ''outbound_order_created'' user rid (env_now E) (outbound_tags c) s = (Inr event, v)"
    and enq: "enqueue_event (tv_eventId event) (env_now E) ''commercial_order'' (co_id c)
      (tv_event_type event) (outbound_tags c) v = (Inr (), t)"
    by (auto simp: outbound_event_def outbound_tags_def Let_def bind_cmd_eq_Inr)
  obtain table where tab: "enqueue_inventory_event (tv_eventId event) (env_now E) ''commercial_order''
      (co_id c) (tv_event_type event) (outbound_tags c) (db_outbox (inv_db v)) = (Inr (), table)"
    and t: "t = v\<lparr>inv_db := (inv_db v)\<lparr>db_outbox := table\<rparr>\<rparr>"
    using enqueue_event_table [OF enq] by blast
  show ?thesis
    using event_cmd_Inr [OF ev] tab t assms(2)
    by (intro exI [of _ "tv_eventId event"] exI [of _ table]) simp
qed

section \<open>Atomic commands\<close>

text \<open>
  An error in doubt leaves the tables of the answer the same command gives in the sound environment.
\<close>

definition atomic_at :: "env \<Rightarrow> 'a inv_cmd \<Rightarrow> inventory_state \<Rightarrow> bool" where
  "atomic_at E m s \<longleftrightarrow>
     (case m s of
        (Inl e, t) \<Rightarrow> inv_db t = inv_db s \<or>
          commit_in_doubt E \<and> e = OperationalError \<and> txn (inv_db s) (inv_db t)
      | (Inr a, t) \<Rightarrow> inv_db t = inv_db s \<or> env_commit E = CommitOk \<and> txn (inv_db s) (inv_db t))"

definition doubtful :: "env \<Rightarrow> (env \<Rightarrow> 'a inv_cmd) \<Rightarrow> inventory_state \<Rightarrow> bool" where
  "doubtful E m s \<longleftrightarrow>
     (\<forall>e t. m E s = (Inl e, t) \<longrightarrow> inv_db t = inv_db s \<or>
        commit_in_doubt E \<and> e = OperationalError \<and>
        (\<exists>a u. m (sound E) s = (Inr a, u) \<and> inv_db u = inv_db t))"

lemma atomic_atI:
  assumes "doubtful E m s"
    and "\<And>E a t. m E s = (Inr a, t) \<Longrightarrow>
      inv_db t = inv_db s \<or> env_commit E = CommitOk \<and> txn (inv_db s) (inv_db t)"
  shows "atomic_at E (m E) s"
proof -
  obtain r t where m: "m E s = (r, t)" by (cases "m E s")
  show ?thesis
  proof (cases r)
    case (Inl e)
    then show ?thesis using m assms(1) assms(2) [of "sound E"] by (fastforce simp: atomic_at_def doubtful_def)
  next
    case (Inr a)
    then show ?thesis using m assms(2) [of E a t] by (simp add: atomic_at_def)
  qed
qed

lemma transaction_sound:
  "in_transaction (sound E) body s =
     (case body s of (Inl e, t) \<Rightarrow> (Inl e, t\<lparr>inv_db := inv_db s\<rparr>) | (Inr a, t) \<Rightarrow> (Inr a, t))"
  "commit_and_refresh (sound E) body s = in_transaction (sound E) body s"
  by (auto simp: in_transaction_def commit_and_refresh_def bind_cmd_def session_read_def split: prod.splits sum.splits)

text \<open>The steps of the bodies do not depend on how the transaction ends.\<close>

lemma event_sound [simp]:
  "draw_uuid (sound E) = draw_uuid E" "event_cmd (sound E) = event_cmd E"
proof -
  show "draw_uuid (sound E) = draw_uuid E" by (intro ext) (simp add: draw_uuid_def)
  then show "event_cmd (sound E) = event_cmd E" by (intro ext) (simp add: event_cmd_def)
qed

lemma threshold_event_sound [simp]: "threshold_event (sound E) = threshold_event E"
  by (intro ext) (unfold threshold_event_def event_sound, rule refl)

lemma add_dispatches_sound [simp]:
  "add_dispatch (sound E) = add_dispatch E" "add_dispatches (sound E) = add_dispatches E"
proof -
  show one: "add_dispatch (sound E) = add_dispatch E" by (intro ext) (unfold add_dispatch_def threshold_event_sound sound_simps, rule refl)
  have "add_dispatches (sound E) c skus user rid items running s = add_dispatches E c skus user rid items running s"
    for c skus user rid items running s
  proof (induction items arbitrary: running s)
    case (Cons i items)
    then have "add_dispatches (sound E) c skus user rid items = add_dispatches E c skus user rid items"
      by (intro ext)
    then show ?case by (simp add: one)
  qed simp
  then show "add_dispatches (sound E) = add_dispatches E" by (intro ext)
qed

lemma bodies_sound [simp]:
  "stock_entry_body (sound E) = stock_entry_body E" "stock_exit_body (sound E) = stock_exit_body E"
  "physical_count_body (sound E) = physical_count_body E" "commercial_order_body (sound E) = commercial_order_body E"
  "add_order_dispatches (sound E) = add_order_dispatches E"
  "lock_idempotency_keys (sound E) = lock_idempotency_keys E"
proof -
  show a: "add_order_dispatches (sound E) = add_order_dispatches E"
    by (intro ext) (simp add: add_order_dispatches_def)
  show "lock_idempotency_keys (sound E) = lock_idempotency_keys E"
    by (intro ext) (simp add: lock_idempotency_keys_def)
  have ev: "inbound_event (sound E) = inbound_event E"
    by (intro ext) (unfold inbound_event_def event_sound, rule refl)
  have di: "discrepancy_event (sound E) = discrepancy_event E"
    by (intro ext) (unfold discrepancy_event_def event_sound sound_simps, rule refl)
  have out: "outbound_event (sound E) = outbound_event E"
    by (intro ext) (unfold outbound_event_def event_sound sound_simps, rule refl)
  show "stock_entry_body (sound E) = stock_entry_body E"
    by (intro ext) (unfold stock_entry_body_def ev sound_simps, rule refl)
  show "stock_exit_body (sound E) = stock_exit_body E"
    by (intro ext) (unfold stock_exit_body_def threshold_event_sound sound_simps, rule refl)
  show "physical_count_body (sound E) = physical_count_body E"
    by (intro ext) (unfold physical_count_body_def di sound_simps, rule refl)
  show "commercial_order_body (sound E) = commercial_order_body E"
    by (intro ext) (unfold commercial_order_body_def a out sound_simps, rule refl)
qed

lemma lock_skus_of:
  assumes "lock_skus ids s = (rows, t)" and "sku_of rows k = Some sku"
  shows "sku \<in> set (db_skus (inv_db s)) \<and> sku_id sku = k \<and> inv_db t = inv_db s"
  using assms lock_skus_rows [of ids s] inv_db_effects(7) [of ids s]
  by (auto dest!: sku_of_SomeD)

lemma lock_skus_db: "lock_skus ids s = (rows, t) \<Longrightarrow> inv_db t = inv_db s"
  using inv_db_effects(7) [of ids s] by simp

section \<open>Movements\<close>

lemma stock_entry_body_Inr:
  assumes "stock_entry_body E data sku before user rid s = (Inr (x, ev), t)"
  shows "\<exists>table e. en_sku_id x = sec_sku_id data \<and> en_quantity x = sec_quantity data \<and>
    en_warehouse x = warehouse_value (sec_warehouse data) \<and>
    en_id x \<notin> en_id ` set (db_entries (inv_db s)) \<and>
    inbound_outcome sku x (db_outbox (inv_db s)) table \<and>
    evaluation_of ''stockentry'' (en_id x) sku before (before + en_quantity x) None
      (en_created_at x) e \<and>
    eval_insertable (inv_db s) e \<and>
    inv_db t = (inv_db s)\<lparr>db_entries := db_entries (inv_db s) @ [x], db_outbox := table,
      db_evals := db_evals (inv_db s) @ [e]\<rparr>"
proof -
  from assms obtain s1 s2 e where
    ins: "insert_entry \<lparr>en_id = 0, en_sku_id = sec_sku_id data, en_quantity = sec_quantity data,
        en_reference = sec_reference data, en_warehouse = warehouse_value (sec_warehouse data),
        en_created_at = env_now E, en_user_uuid = user\<rparr> s = (Inr x, s1)"
    and out: "inbound_event E sku x user rid s1 = (Inr ev, s2)"
    and rec: "record_threshold_evaluation ''stockentry'' (en_id x) sku before
        (before + en_quantity x) None (env_now E) s2 = (Inr e, t)"
    by (auto simp: stock_entry_body_def bind_cmd_eq_Inr)
  from inbound_event_Inr [OF out] obtain table where
    "inbound_outcome sku x (db_outbox (inv_db s1)) table" "inv_db s2 = (inv_db s1)\<lparr>db_outbox := table\<rparr>"
    by blast
  then show ?thesis
    using insert_entry_Inr [OF ins] record_threshold_evaluation_Inr [OF rec]
    by (intro exI [of _ table] exI [of _ e]) (auto simp: eval_insertable_def)
qed

lemma create_stock_entry_doubtful: "doubtful E (\<lambda>E. create_stock_entry E data user rid) s"
  by (auto simp: doubtful_def create_stock_entry_def Let_def transaction_sound
      split: prod.splits option.splits if_splits sum.splits
      dest!: in_transaction_Inl commit_and_refresh_Inl lock_skus_db)

lemma create_stock_entry_atomic:
  assumes "check_stock_entry_create data = Inr ()"
  shows "atomic_at E (create_stock_entry E data user rid) s"
proof (rule atomic_atI [where m = "\<lambda>E. create_stock_entry E data user rid", OF create_stock_entry_doubtful])
  fix E x t assume "create_stock_entry E data user rid s = (Inr x, t)"
  then obtain rows s1 sku ev s2 where
    lock: "lock_skus [sec_sku_id data] s = (rows, s1)"
    and sku: "sku_of rows (sec_sku_id data) = Some sku"
    and wh: "warehouse_value (sec_warehouse data) = sku_warehouse sku"
    and body: "stock_entry_body E data sku
        (get_current_stock (inv_db s1) (sec_sku_id data) (sku_warehouse sku)) user rid s1 = (Inr (x, ev), s2)"
    and t: "inv_db t = inv_db s2" and commit: "env_commit E = CommitOk"
    by (auto simp: create_stock_entry_def Let_def in_transaction_Inr commit_and_refresh_Inr
        split: prod.splits option.splits if_splits sum.splits)
  note k = lock_skus_of [OF lock sku]
  have q: "0 < sec_quantity data"
    using assms by (auto simp: check_stock_entry_create_def split: if_splits)
  from stock_entry_body_Inr [OF body] obtain table e where
    b: "en_sku_id x = sec_sku_id data" "en_quantity x = sec_quantity data"
      "en_warehouse x = sku_warehouse sku" "en_id x \<notin> en_id ` set (db_entries (inv_db s1))"
      "inbound_outcome sku x (db_outbox (inv_db s1)) table"
      "evaluation_of ''stockentry'' (en_id x) sku
        (get_current_stock (inv_db s1) (sec_sku_id data) (sku_warehouse sku))
        (get_current_stock (inv_db s1) (sec_sku_id data) (sku_warehouse sku) + en_quantity x) None (en_created_at x) e"
      "eval_insertable (inv_db s1) e"
    and d: "inv_db s2 = (inv_db s1)\<lparr>db_entries := db_entries (inv_db s1) @ [x], db_outbox := table,
      db_evals := db_evals (inv_db s1) @ [e]\<rparr>"
    using wh by metis
  have "txn (inv_db s1) (inv_db s2)"
    unfolding d by (rule txn_receive [of sku, OF _ _ _ _ refl]) (use b k q in auto)
  then show "inv_db t = inv_db s \<or> env_commit E = CommitOk \<and> txn (inv_db s) (inv_db t)"
    using k t commit by simp
qed

text \<open>
  The steps a refused or accepted exit shares with the dispatches of an order: the insert, the
  threshold decision and its evaluation.
\<close>

lemma exit_steps:
  assumes ins: "insert_exit r s = (Inr x, s1)"
    and th: "threshold_event E sku (ex_id x) before (before - ex_quantity r) user rid (ex_created_at r) s1
      = (Inr ev, s2)"
    and rec: "record_threshold_evaluation ''stockexit'' (ex_id x) sku before (before - ex_quantity r) ev
      (ex_created_at r) s2 = (Inr e, t)"
    and sku: "sku \<in> set (db_skus (inv_db s))" "ex_sku_id r = sku_id sku" "ex_warehouse r = sku_warehouse sku"
    and q: "0 < ex_quantity r" "ex_quantity r \<le> before"
    and before: "before = get_current_stock (inv_db s) (sku_id sku) (sku_warehouse sku)"
  shows "issue_step (inv_db s) x (inv_db t)"
proof -
  from threshold_event_Inr [OF th] obtain table where
    tab: "threshold_outcome sku (ex_id x) before (before - ex_quantity r) (ex_created_at r)
       (map_option tv_eventId ev) (db_outbox (inv_db s1)) table"
    and s2: "inv_db s2 = (inv_db s1)\<lparr>db_outbox := table\<rparr>" by blast
  note i = insert_exit_Inr [OF ins] and c = record_threshold_evaluation_Inr [OF rec]
  have d: "inv_db t = (inv_db s)\<lparr>db_exits := db_exits (inv_db s) @ [x], db_outbox := table,
      db_evals := db_evals (inv_db s) @ [e]\<rparr>"
    using i s2 c by simp
  have x: "ex_sku_id x = ex_sku_id r" "ex_warehouse x = ex_warehouse r" "ex_quantity x = ex_quantity r"
    "ex_created_at x = ex_created_at r" "db_outbox (inv_db s1) = db_outbox (inv_db s)"
    using i by auto
  show ?thesis
    unfolding d
  proof (rule issue_stepI [where sku = sku and before = before and i = "map_option tv_eventId ev"])
    show "eval_insertable (inv_db s) e" using c s2 i by (auto simp: eval_insertable_def)
  qed (use i c x tab sku q before in \<open>auto simp del: One_nat_def\<close>)
qed

lemma create_stock_exit_doubtful: "doubtful E (\<lambda>E. create_stock_exit E data user rid) s"
proof -
  have tel: "inv_db (insufficient_stock_telemetry E sku w q a user rid v) = inv_db v" for sku w q a v
    by (auto simp: insufficient_stock_telemetry_def capture_telemetry_events_def event_cmd_def
        bind_cmd_def draw_uuid_def split: option.splits prod.splits sum.splits if_splits)
  show ?thesis
    by (auto simp: doubtful_def create_stock_exit_def Let_def transaction_sound tel
        split: prod.splits option.splits if_splits sum.splits
        dest!: in_transaction_Inl commit_and_refresh_Inl lock_skus_db)
qed

lemma create_stock_exit_atomic:
  assumes "check_stock_exit_create data = Inr ()"
  shows "atomic_at E (create_stock_exit E data user rid) s"
proof (rule atomic_atI [where m = "\<lambda>E. create_stock_exit E data user rid", OF create_stock_exit_doubtful])
  fix E x t assume "create_stock_exit E data user rid s = (Inr x, t)"
  then obtain rows s1 sku evs s2 where
    lock: "lock_skus [sxc_sku_id data] s = (rows, s1)"
    and sku: "sku_of rows (sxc_sku_id data) = Some sku"
    and wh: "warehouse_value (sxc_warehouse data) = sku_warehouse sku"
    and le: "sxc_quantity data \<le> get_current_stock (inv_db s1) (sku_id sku) (sku_warehouse sku)"
    and body: "stock_exit_body E data sku
        (get_current_stock (inv_db s1) (sku_id sku) (sku_warehouse sku)) user rid s1 = (Inr (x, evs), s2)"
    and t: "inv_db t = inv_db s2" and commit: "env_commit E = CommitOk"
    by (auto simp: create_stock_exit_def Let_def in_transaction_Inr commit_and_refresh_Inr not_less
        split: prod.splits option.splits if_splits sum.splits)
  note k = lock_skus_of [OF lock sku]
  let ?b = "get_current_stock (inv_db s1) (sku_id sku) (sku_warehouse sku)"
  let ?r = "\<lparr>ex_id = 0, ex_sku_id = sxc_sku_id data, ex_quantity = sxc_quantity data,
        ex_exit_type = exit_type_value (sxc_exit_type data),
        ex_tracking_number = sxc_tracking_number data,
        ex_warehouse = warehouse_value (sxc_warehouse data), ex_created_at = env_now E,
        ex_user_uuid = user, ex_commercial_order_id = None, ex_dispatch_id = None\<rparr>"
  from body obtain s3 s4 ev e where
    ins: "insert_exit ?r s1 = (Inr x, s3)"
    and th: "threshold_event E sku (ex_id x) ?b (?b - ex_quantity x) user rid (env_now E) s3 = (Inr ev, s4)"
    and rec: "record_threshold_evaluation ''stockexit'' (ex_id x) sku ?b (?b - ex_quantity x) ev
        (env_now E) s4 = (Inr e, s2)"
    by (auto simp: stock_exit_body_def bind_cmd_eq_Inr)
  have x: "ex_quantity x = ex_quantity ?r" "ex_commercial_order_id x = None"
    using insert_exit_Inr [OF ins] by simp_all
  have "0 < sxc_quantity data"
    using assms by (auto simp: check_stock_exit_create_def split: if_splits)
  then have "issue_step (inv_db s1) x (inv_db s2)"
    using exit_steps [OF ins, of E sku ?b user rid ev s4 e s2] th rec k wh le x(1) by simp
  then show "inv_db t = inv_db s \<or> env_commit E = CommitOk \<and> txn (inv_db s) (inv_db t)"
    using txn_issue x(2) k t commit by simp
qed

lemma update_sku_threshold_doubtful: "doubtful E (\<lambda>E. update_sku_threshold E k threshold) s"
  by (auto simp: doubtful_def update_sku_threshold_def Let_def transaction_sound
      split: prod.splits option.splits if_splits sum.splits
      dest!: in_transaction_Inl commit_and_refresh_Inl lock_skus_db)

lemma update_sku_threshold_atomic:
  assumes "check_sku_threshold_update threshold = Inr ()"
  shows "atomic_at E (update_sku_threshold E k threshold) s"
proof (rule atomic_atI [where m = "\<lambda>E. update_sku_threshold E k threshold", OF update_sku_threshold_doubtful])
  fix E x t assume "update_sku_threshold E k threshold s = (Inr x, t)"
  then have "inv_db t = (inv_db s)\<lparr>db_skus := sql_update (\<lambda>r. sku_id r = k)
      (\<lambda>r. r\<lparr>sku_minimum_stock_threshold := threshold\<rparr>) (db_skus (inv_db s))\<rparr> \<and> env_commit E = CommitOk"
    by (auto simp: update_sku_threshold_def Let_def in_transaction_Inr commit_and_refresh_Inr set_sku_threshold_def
        split: prod.splits option.splits sum.splits dest!: lock_skus_db)
  moreover have "\<forall>t. threshold = Some t \<longrightarrow> 0 \<le> t"
    using assms by (auto simp: check_sku_threshold_update_def split: option.splits if_splits)
  ultimately show "inv_db t = inv_db s \<or> env_commit E = CommitOk \<and> txn (inv_db s) (inv_db t)"
    using txn_threshold by simp
qed

section \<open>Physical counts\<close>

lemma physical_count_body_Inr:
  assumes "physical_count_body E data sku expected user rid s = (Inr (c, evs), t)"
  shows "\<exists>table. pc_count_id c = pcc_count_id data \<and> pc_sku_id c = pcc_sku_id data \<and>
    pc_client_id c = the (sku_client_id sku) \<and> pc_warehouse c = warehouse_value (pcc_warehouse data) \<and>
    pc_expected_quantity c = expected \<and> pc_observed_quantity c = pcc_observed_quantity data \<and>
    pc_user_uuid c = user \<and> physical_count_check c = None \<and>
    pc_id c \<notin> pc_id ` set (db_counts (inv_db s)) \<and>
    pc_count_id c \<notin> pc_count_id ` set (db_counts (inv_db s)) \<and>
    count_outcome sku c (db_outbox (inv_db s)) table \<and>
    inv_db t = (inv_db s)\<lparr>db_counts := db_counts (inv_db s) @ [c], db_outbox := table\<rparr>"
proof -
  from assms obtain s1 where
    ins: "insert_count \<lparr>pc_id = 0, pc_count_id = pcc_count_id data, pc_sku_id = pcc_sku_id data,
        pc_client_id = the (sku_client_id sku), pc_warehouse = warehouse_value (pcc_warehouse data),
        pc_expected_quantity = expected, pc_observed_quantity = pcc_observed_quantity data,
        pc_confirmed_at = env_now E, pc_user_uuid = user\<rparr> s = (Inr c, s1)"
    and out: "discrepancy_event E data sku c expected user rid s1 = (Inr evs, t)"
    by (auto simp: physical_count_body_def bind_cmd_eq_Inr)
  note i = insert_count_Inr [OF ins]
  then have "pc_expected_quantity c = expected" "pc_observed_quantity c = pcc_observed_quantity data"
    "pc_warehouse c = warehouse_value (pcc_warehouse data)" "pc_confirmed_at c = env_now E"
    by auto
  with discrepancy_event_Inr [of E data sku c user rid s1 evs t] out obtain table where
    "count_outcome sku c (db_outbox (inv_db s1)) table" "inv_db t = (inv_db s1)\<lparr>db_outbox := table\<rparr>"
    by blast
  then show ?thesis using i by (intro exI [of _ table]) auto
qed

lemma confirm_inventory_physical_count_doubtful: "doubtful E (\<lambda>E. confirm_inventory_physical_count E data user rid) s"
  by (auto simp: doubtful_def confirm_inventory_physical_count_def Let_def transaction_sound
      split: prod.splits option.splits if_splits sum.splits
      dest!: in_transaction_Inl commit_and_refresh_Inl lock_skus_db)

lemma confirm_count_atomic: "atomic_at E (confirm_inventory_physical_count E data user rid) s"
proof (rule atomic_atI [where m = "\<lambda>E. confirm_inventory_physical_count E data user rid", OF confirm_inventory_physical_count_doubtful])
  fix E c t assume run: "confirm_inventory_physical_count E data user rid s = (Inr c, t)"
  let ?s0 = "lock_idempotency_keys E [pcc_count_id data] s"
  show "inv_db t = inv_db s \<or> env_commit E = CommitOk \<and> txn (inv_db s) (inv_db t)"
  proof (cases "find (\<lambda>c. pc_count_id c = pcc_count_id data) (db_counts (inv_db s))")
    case (Some existing)
    then show ?thesis
      using run by (auto simp: confirm_inventory_physical_count_def Let_def split: if_splits)
  next
    case None
    with run obtain rows s1 sku evs s2 where
      lock: "lock_skus [pcc_sku_id data] ?s0 = (rows, s1)"
      and sku: "sku_of rows (pcc_sku_id data) = Some sku"
      and wh: "sku_warehouse sku = warehouse_value (pcc_warehouse data)"
      and cl: "truthy (sku_client_id sku)"
      and body: "physical_count_body E data sku (get_current_stock (inv_db s1) (pcc_sku_id data)
          (warehouse_value (pcc_warehouse data))) user rid s1 = (Inr (c, evs), s2)"
      and t: "inv_db t = inv_db s2" and commit: "env_commit E = CommitOk"
      by (auto simp: confirm_inventory_physical_count_def Let_def in_transaction_Inr commit_and_refresh_Inr
          split: prod.splits option.splits if_splits sum.splits)
    note k = lock_skus_of [OF lock sku]
    from physical_count_body_Inr [OF body] obtain table where
      c: "pc_sku_id c = pcc_sku_id data" "pc_client_id c = the (sku_client_id sku)"
        "pc_warehouse c = warehouse_value (pcc_warehouse data)" "physical_count_check c = None"
        "pc_expected_quantity c = get_current_stock (inv_db s1) (pcc_sku_id data)
          (warehouse_value (pcc_warehouse data))"
        "pc_id c \<notin> pc_id ` set (db_counts (inv_db s1))"
        "pc_count_id c \<notin> pc_count_id ` set (db_counts (inv_db s1))"
        "count_outcome sku c (db_outbox (inv_db s1)) table"
      and d: "inv_db s2 = (inv_db s1)\<lparr>db_counts := db_counts (inv_db s1) @ [c], db_outbox := table\<rparr>"
      by blast
    have "sku_client_id sku = Some (pc_client_id c)"
      using cl c(2) by (cases "sku_client_id sku") simp_all
    then have "txn (inv_db s1) (inv_db s2)"
      unfolding d by (intro txn_count [of sku]) (use c k wh in auto)
    then show ?thesis using k t commit by simp
  qed
qed

section \<open>Orders\<close>

text \<open>What is still asked of a product by the dispatches to come.\<close>

definition asked :: "int \<Rightarrow> dispatch_create list \<Rightarrow> int" where
  "asked k items = sum_list (map dc_quantity (filter (\<lambda>i. dc_sku_id i = k) items))"

lemma asked_simps [simp]:
  "asked k [] = 0"
  "asked k (i # items) = (if dc_sku_id i = k then dc_quantity i else 0) + asked k items"
  by (simp_all add: asked_def)

lemma asked_nonneg: "(\<And>i. i \<in> set items \<Longrightarrow> 0 < dc_quantity i) \<Longrightarrow> 0 \<le> asked k items"
  unfolding asked_def by (intro sum_list_nonneg) (auto simp: less_imp_le)

lemma asked_sort_key: "asked k (sort_key f items) = asked k items"
proof -
  have "sum_mset (image_mset dc_quantity (filter_mset (\<lambda>i. dc_sku_id i = k) (mset (sort_key f items)))) =
      sum_mset (image_mset dc_quantity (filter_mset (\<lambda>i. dc_sku_id i = k) (mset items)))"
    by simp
  then show ?thesis
    by (simp only: asked_def mset_filter [symmetric] mset_map [symmetric] sum_mset_sum_list)
qed

text \<open>
  The dictionaries of the loop: \<open>running\<close> holds the stock of each locked product, and each
  locked product is of the warehouse and the client of the order.
\<close>

definition loop_ok ::
  "inventory_db \<Rightarrow> commercial_order \<Rightarrow> sku_row list \<Rightarrow> (int \<rightharpoonup> int) \<Rightarrow> bool" where
  "loop_ok d order skus running \<longleftrightarrow>
     co_id order \<in> co_id ` set (db_orders d) \<and>
     (\<forall>r \<in> set skus. r \<in> set (db_skus d) \<and> sku_warehouse r = co_warehouse order \<and>
        sku_client_id r = Some (co_client_id order) \<and>
        running (sku_id r) = Some (get_current_stock d (sku_id r) (co_warehouse order)))"

lemma add_dispatch_Inr:
  assumes run: "add_dispatch E order skus user rid item running s = (Inr (x, evs, running'), t)"
    and ok: "loop_ok (inv_db s) order skus running"
    and q: "0 < dc_quantity item"
      "dc_quantity item \<le> get_current_stock (inv_db s) (dc_sku_id item) (co_warehouse order)"
  shows "issue_step (inv_db s) x (inv_db t) \<and> dispatch_of (inv_db s) order x \<and>
    ex_dispatch_id x = Some (dc_dispatch_id item) \<and> dispatch_matches x item (co_id order) \<and>
    ex_warehouse x = co_warehouse order \<and> loop_ok (inv_db t) order skus running'"
proof -
  let ?r = "\<lparr>ex_id = 0, ex_sku_id = dc_sku_id item, ex_quantity = dc_quantity item,
             ex_exit_type = ''dispatch'', ex_tracking_number = Some (dc_tracking_number item),
             ex_warehouse = co_warehouse order, ex_created_at = env_now E,
             ex_user_uuid = user, ex_commercial_order_id = Some (co_id order),
             ex_dispatch_id = Some (dc_dispatch_id item)\<rparr>"
  from run obtain before s1 sku s2 ev e where
    before: "running (dc_sku_id item) = Some before"
    and ins: "insert_exit ?r s = (Inr x, s1)"
    and sku: "sku_of skus (dc_sku_id item) = Some sku"
    and th: "threshold_event E sku (ex_id x) before (before - dc_quantity item) user rid (env_now E) s1
      = (Inr ev, s2)"
    and rec: "record_threshold_evaluation ''stockexit'' (ex_id x) sku before
        (before - dc_quantity item) ev (env_now E) s2 = (Inr e, t)"
    and run': "running' = running(dc_sku_id item \<mapsto> before - dc_quantity item)"
    by (auto simp: add_dispatch_def bind_cmd_eq_Inr Let_def split: option.splits)
  have k: "sku \<in> set skus" "sku_id sku = dc_sku_id item"
    using sku_of_SomeD [OF sku] by simp_all
  with ok before have sk: "sku \<in> set (db_skus (inv_db s))" "sku_warehouse sku = co_warehouse order"
    "sku_client_id sku = Some (co_client_id order)"
    "before = get_current_stock (inv_db s) (dc_sku_id item) (co_warehouse order)"
    by (auto simp: loop_ok_def)
  note i = insert_exit_Inr [OF ins]
  have step: "issue_step (inv_db s) x (inv_db t)"
    using exit_steps [OF ins, of E sku before user rid ev s2 e t] th rec sk k q by simp
  have fr: "db_orders (inv_db t) = db_orders (inv_db s)" "db_skus (inv_db t) = db_skus (inv_db s)"
    using step by (auto elim: issue_step_shape)
  have "loop_ok (inv_db t) order skus running'"
    using ok sk i by (auto simp: loop_ok_def fr run' issue_step_stock [OF step])
  moreover have "dispatch_of (inv_db s) order x"
    using i k sk by (auto simp: dispatch_of_def)
  ultimately show ?thesis
    using i step by (auto simp: dispatch_matches_def)
qed

lemma add_dispatches_Inr:
  assumes "add_dispatches E order skus user rid items running s = (Inr (created, evs), t)"
    and "loop_ok (inv_db s) order skus running"
    and "\<And>i. i \<in> set items \<Longrightarrow> 0 < dc_quantity i"
    and "\<And>k. k \<in> dc_sku_id ` set items \<Longrightarrow> asked k items \<le> get_current_stock (inv_db s) k (co_warehouse order)"
  shows "issue_all (inv_db s) created (inv_db t) \<and> (\<forall>x \<in> set created. dispatch_of (inv_db s) order x) \<and>
    list_all2 (\<lambda>x i. ex_dispatch_id x = Some (dc_dispatch_id i) \<and> dispatch_matches x i (co_id order))
      created items"
  using assms
proof (induction items arbitrary: running s created evs)
  case Nil
  then show ?case by (auto intro: issue_none)
next
  case (Cons i items)
  from Cons.prems(1) obtain x ev running' s1 xs evs' where
    head: "add_dispatch E order skus user rid i running s = (Inr (x, ev, running'), s1)"
    and tail: "add_dispatches E order skus user rid items running' s1 = (Inr (xs, evs'), t)"
    and created: "created = x # xs"
    by (auto simp: bind_cmd_eq_Inr split: prod.splits)
  have pos: "0 < dc_quantity j" if "j \<in> set items" for j using Cons.prems(3) that by simp
  have cover: "dc_quantity i \<le> get_current_stock (inv_db s) (dc_sku_id i) (co_warehouse order)"
    using Cons.prems(4) [of "dc_sku_id i"] asked_nonneg [OF pos, of items "dc_sku_id i"] by simp
  note h = add_dispatch_Inr [OF head Cons.prems(2) Cons.prems(3) [of i] cover, simplified]
  then have step: "issue_step (inv_db s) x (inv_db s1)" by simp
  have sku: "db_skus (inv_db s1) = db_skus (inv_db s)"
    using step by (auto elim: issue_step_shape)
  have x: "ex_sku_id x = dc_sku_id i" "ex_quantity x = dc_quantity i" "ex_warehouse x = co_warehouse order"
    using h by (simp_all add: dispatch_matches_def)
  have rest: "asked k items \<le> get_current_stock (inv_db s1) k (co_warehouse order)"
    if "k \<in> dc_sku_id ` set items" for k
    using Cons.prems(4) [of k] that x issue_step_stock [OF step, of k "co_warehouse order"] by auto
  have "issue_all (inv_db s1) xs (inv_db t) \<and> (\<forall>x \<in> set xs. dispatch_of (inv_db s1) order x) \<and>
    list_all2 (\<lambda>x i. ex_dispatch_id x = Some (dc_dispatch_id i) \<and> dispatch_matches x i (co_id order))
      xs items"
    by (rule Cons.IH [OF tail]) (use h pos rest in auto)
  then show ?case
    using h step by (auto simp: created dispatch_of_def sku intro: issue_more)
qed

lemma validate_order_skus_Inr:
  assumes "validate_order_skus items client w s = (Inr skus, t)"
  shows "inv_db t = inv_db s \<and>
    set skus = {r \<in> set (db_skus (inv_db s)). sku_id r \<in> dc_sku_id ` set items} \<and>
    (\<forall>i \<in> set items. dc_sku_id i \<in> sku_id ` set skus) \<and>
    (\<forall>r \<in> set skus. sku_client_id r = Some client \<and> sku_warehouse r = w) \<and>
    (\<forall>k \<in> dc_sku_id ` set items. asked k items \<le> get_current_stock (inv_db s) k w)"
proof -
  obtain rows s1 where lock: "lock_skus (map dc_sku_id items) s = (rows, s1)"
    by (cases "lock_skus (map dc_sku_id items) s")
  have rows: "set rows = {r \<in> set (db_skus (inv_db s)). sku_id r \<in> dc_sku_id ` set items}"
    using lock_skus_rows [of "map dc_sku_id items" s] lock by simp
  note db = lock_skus_db [OF lock]
  have "list_ex (\<lambda>(k, quantity). quantity > get_current_stock (inv_db s) k w) (required_quantities items)"
    if "k \<in> dc_sku_id ` set items" "\<not> asked k items \<le> get_current_stock (inv_db s) k w" for k
    using that by (force simp: required_quantities_def sql_group_sum_def list_ex_iff asked_def)
  then show ?thesis
    using assms rows db by (auto simp: validate_order_skus_def lock list_ex_iff split: if_splits)
qed

lemma add_order_dispatches_Inr:
  assumes run: "add_order_dispatches E order items skus user rid s = (Inr (created, evs), t)"
    and order: "co_id order \<in> co_id ` set (db_orders (inv_db s))"
    and skus: "set skus \<subseteq> set (db_skus (inv_db s))"
      "\<forall>r \<in> set skus. sku_client_id r = Some (co_client_id order) \<and> sku_warehouse r = co_warehouse order"
    and q: "\<And>i. i \<in> set items \<Longrightarrow> 0 < dc_quantity i"
      "\<And>k. k \<in> dc_sku_id ` set items \<Longrightarrow> asked k items \<le> get_current_stock (inv_db s) k (co_warehouse order)"
  shows "issue_all (inv_db s) created (inv_db t) \<and> (\<forall>x \<in> set created. dispatch_of (inv_db s) order x) \<and>
    list_all2 (\<lambda>x i. ex_dispatch_id x = Some (dc_dispatch_id i) \<and> dispatch_matches x i (co_id order))
      created (sort_key (\<lambda>item. uuid_str (dc_dispatch_id item)) items)"
proof (rule add_dispatches_Inr)
  let ?run = "map_of (map (\<lambda>r. (sku_id r, get_current_stock (inv_db s) (sku_id r) (co_warehouse order))) skus)"
  show "add_dispatches E order skus user rid (sort_key (\<lambda>item. uuid_str (dc_dispatch_id item)) items)
      ?run s = (Inr (created, evs), t)"
    using run by (simp add: add_order_dispatches_def)
  have "?run (sku_id r) = Some (get_current_stock (inv_db s) (sku_id r) (co_warehouse order))"
    if "r \<in> set skus" for r
  proof -
    have m: "?run = map_of (map (\<lambda>k. (k, get_current_stock (inv_db s) k (co_warehouse order))) (map sku_id skus))"
      by (simp add: comp_def)
    show ?thesis using that by (simp only: m map_of_map_self) simp
  qed
  then show "loop_ok (inv_db s) order skus ?run"
    using order skus by (auto simp: loop_ok_def)
qed (use q in \<open>auto simp: asked_sort_key\<close>)

lemma find_order_db: "find_order i s = (f, t) \<Longrightarrow> inv_db t = inv_db s"
  by (auto simp: find_order_def split: option.splits)

lemma find_order_Some:
  "find_order i s = (Some c, t) \<Longrightarrow> c \<in> set (db_orders (inv_db s)) \<and> co_order_id c = i"
  by (auto simp: find_order_def dest: find_SomeD split: option.splits)

lemma find_order_None:
  "find_order i s = (None, t) \<Longrightarrow> i \<notin> co_order_id ` set (db_orders (inv_db s))"
  by (auto simp: find_order_def dest: find_NoneD split: option.splits)

lemma validate_order_skus_db:
  "validate_order_skus items c w s = (r, t) \<Longrightarrow> inv_db t = inv_db s"
  by (auto simp: validate_order_skus_def Let_def split: prod.splits if_splits dest!: lock_skus_db)

lemma commercial_order_body_Inr:
  assumes body: "commercial_order_body E data skus user rid s = (Inr (c, created, evs), t)"
    and skus: "set skus \<subseteq> set (db_skus (inv_db s))"
      "\<forall>r \<in> set skus. sku_client_id r = Some (coc_client_id data) \<and>
        sku_warehouse r = warehouse_value (coc_warehouse data)"
    and q: "\<And>i. i \<in> set (coc_dispatches data) \<Longrightarrow> 0 < dc_quantity i"
      "\<And>k. k \<in> dc_sku_id ` set (coc_dispatches data) \<Longrightarrow> asked k (coc_dispatches data) \<le>
        get_current_stock (inv_db s) k (warehouse_value (coc_warehouse data))"
    and ne: "coc_dispatches data \<noteq> []"
  shows "txn (inv_db s) (inv_db t) \<and> co_order_id c = coc_order_id data \<and>
    co_client_id c = coc_client_id data \<and> co_warehouse c = warehouse_value (coc_warehouse data) \<and>
    db_orders (inv_db t) = db_orders (inv_db s) @ [c] \<and>
    db_exits (inv_db t) = db_exits (inv_db s) @ created \<and>
    list_all2 (\<lambda>x i. ex_dispatch_id x = Some (dc_dispatch_id i) \<and> dispatch_matches x i (co_id c))
      created (sort_key (\<lambda>item. uuid_str (dc_dispatch_id item)) (coc_dispatches data))"
proof -
  from body obtain s1 s2 th out where
    ins: "insert_order \<lparr>co_id = 0, co_order_id = coc_order_id data, co_client_id = coc_client_id data,
        co_warehouse = warehouse_value (coc_warehouse data), co_created_at = env_now E\<rparr> s = (Inr c, s1)"
    and add: "add_order_dispatches E c (coc_dispatches data) skus user rid s1 = (Inr (created, th), s2)"
    and out: "outbound_event E c user rid s2 = (Inr out, t)"
    by (auto simp: commercial_order_body_def bind_cmd_eq_Inr split: prod.splits)
  note i = insert_order_Inr [OF ins]
  then have c: "co_client_id c = coc_client_id data" "co_warehouse c = warehouse_value (coc_warehouse data)"
    "co_created_at c = env_now E" "co_order_id c = coc_order_id data"
    and s1: "inv_db s1 = (inv_db s)\<lparr>db_orders := db_orders (inv_db s) @ [c]\<rparr>"
    by auto
  have a: "issue_all (inv_db s1) created (inv_db s2) \<and> (\<forall>x \<in> set created. dispatch_of (inv_db s1) c x) \<and>
    list_all2 (\<lambda>x i. ex_dispatch_id x = Some (dc_dispatch_id i) \<and> dispatch_matches x i (co_id c))
      created (sort_key (\<lambda>item. uuid_str (dc_dispatch_id item)) (coc_dispatches data))"
  proof (rule add_order_dispatches_Inr [OF add])
    fix k assume "k \<in> dc_sku_id ` set (coc_dispatches data)"
    from q(2) [OF this] show "asked k (coc_dispatches data) \<le> get_current_stock (inv_db s1) k (co_warehouse c)"
      by (simp add: s1 c(2))
  next
    show "\<forall>r \<in> set skus. sku_client_id r = Some (co_client_id c) \<and> sku_warehouse r = co_warehouse c"
      using skus(2) by (simp add: c(1,2))
  qed (use skus(1) q(1) in \<open>simp_all add: s1\<close>)
  from outbound_event_Inr [OF out c(3)] obtain u table where
    o: "enqueue_inventory_event u (co_created_at c) ''commercial_order'' (co_id c)
      ''outbound_order_created'' (outbound_tags c) (db_outbox (inv_db s2)) = (Inr (), table)"
    and t: "inv_db t = (inv_db s2)\<lparr>db_outbox := table\<rparr>" by blast
  have "length created = length (coc_dispatches data)"
    using a by (auto dest: list_all2_lengthD)
  then have "created \<noteq> []" using ne by auto
  moreover have "dispatch_of (inv_db s) c x" if "x \<in> set created" for x
    using a that by (simp add: s1 dispatch_of_def)
  ultimately have "txn (inv_db s) (inv_db t)"
    unfolding t using a o i s1 by (intro txn_open_order [of c]) auto
  then show ?thesis
    using a c t s1 issue_all_frame [of "inv_db s1" created "inv_db s2"] by simp
qed

lemma create_commercial_order_Inr:
  assumes run: "create_commercial_order E data user rid s = (Inr (c, xs), t)"
    and chk: "check_commercial_order_create data = Inr ()"
  shows "(\<exists>s1. find_order (coc_order_id data)
        (lock_idempotency_keys E (coc_order_id data # map dc_dispatch_id (coc_dispatches data)) s)
        = (Some c, s1) \<and> retry_order (inv_db s) c data = Inr (c, xs) \<and> t = s1) \<or>
    env_commit E = CommitOk \<and> txn (inv_db s) (inv_db t) \<and> co_order_id c = coc_order_id data \<and>
    co_client_id c = coc_client_id data \<and> co_warehouse c = warehouse_value (coc_warehouse data) \<and>
    db_orders (inv_db t) = db_orders (inv_db s) @ [c] \<and> db_exits (inv_db t) = db_exits (inv_db s) @ xs \<and>
    coc_order_id data \<notin> co_order_id ` set (db_orders (inv_db s)) \<and>
    list_all2 (\<lambda>x i. ex_dispatch_id x = Some (dc_dispatch_id i) \<and> dispatch_matches x i (co_id c))
      xs (sort_key (\<lambda>item. uuid_str (dc_dispatch_id item)) (coc_dispatches data))"
proof -
  let ?ids = "map dc_dispatch_id (coc_dispatches data)"
  let ?s0 = "lock_idempotency_keys E (coc_order_id data # ?ids) s"
  obtain f s1 where fo: "find_order (coc_order_id data) ?s0 = (f, s1)"
    by (cases "find_order (coc_order_id data) ?s0")
  have db1: "inv_db s1 = inv_db s" using find_order_db [OF fo] by simp
  show ?thesis
  proof (cases f)
    case (Some o')
    have "retry_order (inv_db s) o' data = Inr (c, xs)" "t = s1"
      using run fo Some db1 by (auto simp: create_commercial_order_def Let_def split: if_splits)
    moreover from this have "o' = c" by (auto simp: retry_order_def Let_def split: if_splits)
    ultimately show ?thesis using fo Some by blast
  next
    case None
    with run fo obtain skus s2 evs s3 where
      val: "validate_order_skus (coc_dispatches data) (coc_client_id data)
        (warehouse_value (coc_warehouse data)) s1 = (Inr skus, s2)"
      and body: "commercial_order_body E data skus user rid s2 = (Inr (c, xs, evs), s3)"
      and t: "inv_db t = inv_db s3" and commit: "env_commit E = CommitOk"
      by (auto simp: create_commercial_order_def Let_def in_transaction_Inr commit_and_refresh_Inr
          split: prod.splits option.splits if_splits sum.splits)
    note v = validate_order_skus_Inr [OF val]
    have ck: "coc_dispatches data \<noteq> []" "\<And>i. i \<in> set (coc_dispatches data) \<Longrightarrow> 0 < dc_quantity i"
      using chk by (auto simp: check_commercial_order_create_Inr dispatch_ok_def)
    have "txn (inv_db s2) (inv_db s3) \<and> co_order_id c = coc_order_id data \<and>
      co_client_id c = coc_client_id data \<and> co_warehouse c = warehouse_value (coc_warehouse data) \<and>
      db_orders (inv_db s3) = db_orders (inv_db s2) @ [c] \<and>
      db_exits (inv_db s3) = db_exits (inv_db s2) @ xs \<and>
      list_all2 (\<lambda>x i. ex_dispatch_id x = Some (dc_dispatch_id i) \<and> dispatch_matches x i (co_id c))
        xs (sort_key (\<lambda>item. uuid_str (dc_dispatch_id item)) (coc_dispatches data))"
      by (rule commercial_order_body_Inr [OF body _ _ ck(2) _ ck(1)]) (use v in auto)
    moreover have "coc_order_id data \<notin> co_order_id ` set (db_orders (inv_db s))"
      using find_order_None fo None by fastforce
    ultimately show ?thesis using v db1 t commit by simp
  qed
qed

lemma create_commercial_order_doubtful: "doubtful E (\<lambda>E. create_commercial_order E data user rid) s"
  by (auto simp: doubtful_def create_commercial_order_def Let_def transaction_sound
      split: prod.splits option.splits if_splits sum.splits
      dest!: in_transaction_Inl commit_and_refresh_Inl lock_skus_db validate_order_skus_db find_order_db)

lemma create_commercial_order_atomic:
  assumes chk: "check_commercial_order_create data = Inr ()"
  shows "atomic_at E (create_commercial_order E data user rid) s"
proof (rule atomic_atI [where m = "\<lambda>E. create_commercial_order E data user rid", OF create_commercial_order_doubtful])
  fix E a t assume "create_commercial_order E data user rid s = (Inr a, t)"
  then show "inv_db t = inv_db s \<or> env_commit E = CommitOk \<and> txn (inv_db s) (inv_db t)"
    using create_commercial_order_Inr [OF _ chk] find_order_db by (cases a) fastforce
qed

lemma new_items_subset: "new_items existing k items = Inr rest \<Longrightarrow> set rest \<subseteq> set items"
  by (induction items arbitrary: rest) (auto split: option.splits sum.splits if_splits)

lemma append_dispatches_Inr:
  assumes run: "append_commercial_order_dispatches E data user rid s = (Inr (c, xs), t)"
    and chk: "check_dispatch_append data = Inr ()"
  shows "c \<in> set (db_orders (inv_db s)) \<and> co_order_id c = da_order_id data \<and>
    xs = order_dispatches (inv_db t) (co_id c) \<and>
    (\<exists>rest. new_items (py_dict (map (\<lambda>r. (ex_dispatch_id r, r))
          (exits_with_dispatch_ids (inv_db s) (map dc_dispatch_id (da_dispatches data)))))
        (co_id c) (da_dispatches data) = Inr rest \<and>
      (rest = [] \<and> inv_db t = inv_db s \<or>
       rest \<noteq> [] \<and> env_commit E = CommitOk \<and> txn (inv_db s) (inv_db t) \<and>
       (\<exists>created. db_exits (inv_db t) = db_exits (inv_db s) @ created \<and>
          list_all2 (\<lambda>x i. ex_dispatch_id x = Some (dc_dispatch_id i) \<and> dispatch_matches x i (co_id c))
            created (sort_key (\<lambda>item. uuid_str (dc_dispatch_id item)) rest))))"
proof -
  let ?ids = "map dc_dispatch_id (da_dispatches data)"
  let ?s0 = "lock_idempotency_keys E (da_order_id data # ?ids) s"
  let ?ex = "py_dict (map (\<lambda>r. (ex_dispatch_id r, r)) (exits_with_dispatch_ids (inv_db s) ?ids))"
  obtain f s1 where fo: "find_order (da_order_id data) ?s0 = (f, s1)"
    by (cases "find_order (da_order_id data) ?s0")
  have db1: "inv_db s1 = inv_db s" using find_order_db [OF fo] by simp
  obtain rest where f: "f = Some c" and new: "new_items ?ex (co_id c) (da_dispatches data) = Inr rest"
    using run fo db1 by (auto simp: append_commercial_order_dispatches_def Let_def
        split: prod.splits option.splits if_splits sum.splits list.splits)
  have c: "c \<in> set (db_orders (inv_db s))" "co_order_id c = da_order_id data"
    using find_order_Some fo f by fastforce+
  show ?thesis
  proof (cases rest)
    case Nil
    then show ?thesis
      using run fo db1 f new c by (auto simp: append_commercial_order_dispatches_def Let_def split: if_splits)
  next
    case (Cons item items)
    with run fo db1 f new obtain skus s2 created evs s3 where
      val: "validate_order_skus rest (co_client_id c) (co_warehouse c) s1 = (Inr skus, s2)"
      and body: "add_order_dispatches E c rest skus user rid s2 = (Inr (created, evs), s3)"
      and t: "inv_db t = inv_db s3" and xs: "xs = order_dispatches (inv_db t) (co_id c)"
      and commit: "env_commit E = CommitOk"
      by (auto simp: append_commercial_order_dispatches_def Let_def in_transaction_Inr commit_and_refresh_Inr
          split: prod.splits option.splits if_splits sum.splits)
    note v = validate_order_skus_Inr [OF val]
    have q: "0 < dc_quantity i" if "i \<in> set rest" for i
      using chk new_items_subset [OF new] that by (auto simp: check_dispatch_append_Inr dispatch_ok_def)
    have a: "issue_all (inv_db s2) created (inv_db s3) \<and> (\<forall>x \<in> set created. dispatch_of (inv_db s2) c x) \<and>
      list_all2 (\<lambda>x i. ex_dispatch_id x = Some (dc_dispatch_id i) \<and> dispatch_matches x i (co_id c))
        created (sort_key (\<lambda>item. uuid_str (dc_dispatch_id item)) rest)"
      by (rule add_order_dispatches_Inr [OF body]) (use v q c db1 in auto)
    then have "length created = length rest" by (auto dest: list_all2_lengthD)
    then have "created \<noteq> []" using Cons by auto
    then have "txn (inv_db s) (inv_db t)"
      using a c v db1 t by (intro txn_extend_order [of c _ created]) auto
    then show ?thesis
      using a c v db1 t xs new Cons commit issue_all_frame [of "inv_db s2" created "inv_db s3"] by auto
  qed
qed

lemma append_commercial_order_dispatches_doubtful: "doubtful E (\<lambda>E. append_commercial_order_dispatches E data user rid) s"
  by (auto simp: doubtful_def append_commercial_order_dispatches_def Let_def transaction_sound
      in_transaction_Inr commit_in_doubt_def split: prod.splits option.splits if_splits sum.splits list.splits
      dest!: in_transaction_Inl commit_and_refresh_Inl lock_skus_db validate_order_skus_db find_order_db)

lemma append_dispatches_atomic:
  assumes chk: "check_dispatch_append data = Inr ()"
  shows "atomic_at E (append_commercial_order_dispatches E data user rid) s"
proof (rule atomic_atI [where m = "\<lambda>E. append_commercial_order_dispatches E data user rid", OF append_commercial_order_dispatches_doubtful])
  fix E a t assume "append_commercial_order_dispatches E data user rid s = (Inr a, t)"
  then show "inv_db t = inv_db s \<or> env_commit E = CommitOk \<and> txn (inv_db s) (inv_db t)"
    using append_dispatches_Inr [OF _ chk] by (cases a) blast
qed

section \<open>Handlers\<close>

text \<open>
  A handler is atomic when its service operation is and its response changes no table and fails only
  in the queries after the commit.
\<close>

definition answers :: "env \<Rightarrow> 'a inv_cmd \<Rightarrow> inventory_state \<Rightarrow> bool" where
  "answers E m t \<longleftrightarrow> inv_db (snd (m t)) = inv_db t \<and>
     (\<forall>e. fst (m t) = Inl e \<longrightarrow> e = OperationalError \<and> \<not> env_reread_ok E)"

lemma answers_return [simp]: "answers E (return_cmd a) t" "answers E (lift_result (Inr a)) t"
  by (simp_all add: answers_def)

lemma answers_read: "(env_reread_ok E \<Longrightarrow> answers E (f a) t) \<Longrightarrow> answers E (bind_cmd (session_read (env_reread_ok E) a) f) t"
  by (auto simp: answers_def bind_cmd_def session_read_def)

lemma atomic_bind:
  assumes "atomic_at E m s" and "\<And>a t. m s = (Inr a, t) \<Longrightarrow> answers E (f a) t"
  shows "atomic_at E (bind_cmd m f) s"
proof (cases "m s")
  case (Pair r t)
  then show ?thesis
  proof (cases r)
    case (Inr a)
    obtain q u where q: "f a t = (q, u)" by (cases "f a t")
    then show ?thesis
      using assms Pair Inr by (cases q) (fastforce simp: atomic_at_def bind_cmd_def answers_def commit_in_doubt_def)+
  qed (use assms(1) in \<open>auto simp: atomic_at_def bind_cmd_def\<close>)
qed

lemma atomic_checked: "(c = Inr () \<Longrightarrow> atomic_at E m s) \<Longrightarrow> atomic_at E (checked c m) s"
  by (cases c) (auto simp: atomic_at_def checked_def bind_cmd_def)

lemma atomic_reply: "atomic_at E m s \<Longrightarrow> atomic_at E (reply f m) s"
  unfolding reply_def by (rule atomic_bind) auto

lemma sku_to_response_ok:
  "sku_ok r \<Longrightarrow> \<exists>v. sku_to_response r stocks = Inr v"
  by (auto simp: sku_ok_def sku_to_response_def)

lemma inventory_ok_skus: "inventory_ok d \<Longrightarrow> r \<in> set (db_skus d) \<Longrightarrow> sku_ok r"
  by (simp add: inventory_ok_def tables_ok_def)

lemma create_product_telemetry_db: "inv_db (product_created_telemetry E r user rid v) = inv_db v"
  by (auto simp: product_created_telemetry_def capture_telemetry_events_def event_cmd_def
      bind_cmd_def draw_uuid_def split: option.splits prod.splits sum.splits if_splits)

lemma create_product_doubtful: "doubtful E (\<lambda>E. create_product E p user rid) s"
proof -
  let ?r = "\<lparr>sku_id = 0, sku_name = sc_name p, sku_code = sc_sku p, sku_client_name = sc_client_name p,
          sku_category = category_value (sc_category p), sku_warehouse = warehouse_value (sc_warehouse p),
          sku_client_id = Some (sc_client_id p),
          sku_minimum_stock_threshold = sc_minimum_stock_threshold p\<rparr>"
  have resp: "\<exists>v. sku_to_response x [] = Inr v" if "insert_sku ?r s = (Inr x, t)" for x t
    using insert_sku_Inr [OF that] by (simp add: sku_to_response_def)
  obtain res t where tr: "commit_and_refresh E (insert_sku ?r) s = (res, t)"
    by (cases "commit_and_refresh E (insert_sku ?r) s")
  show ?thesis
  proof (cases res)
    case (Inl e)
    from commit_and_refresh_Inl [OF tr [unfolded Inl]] show ?thesis
    proof (elim disjE conjE exE)
      fix x assume x: "commit_in_doubt E" "e = OperationalError" "insert_sku ?r s = (Inr x, t)"
      from resp [OF x(3)] obtain v where "sku_to_response x [] = Inr v" by blast
      then have "\<exists>u. create_product (sound E) p user rid s = (Inr v, u) \<and> inv_db u = inv_db t"
        using x(3) by (simp add: create_product_def transaction_sound create_product_telemetry_db)
      then show ?thesis using tr Inl x(1,2) by (auto simp: doubtful_def create_product_def)
    qed (use tr Inl in \<open>simp add: doubtful_def create_product_def\<close>)
  next
    case (Inr x)
    then have "\<exists>v. sku_to_response x [] = Inr v" using tr resp by (simp add: commit_and_refresh_Inr)
    then show ?thesis using tr Inr by (auto simp: doubtful_def create_product_def)
  qed
qed

lemma create_product_atomic: "atomic_at E (create_product E p user rid) s"
proof (rule atomic_atI [where m = "\<lambda>E. create_product E p user rid", OF create_product_doubtful])
  fix E v t assume "create_product E p user rid s = (Inr v, t)"
  then obtain x u where ins: "insert_sku
         \<lparr>sku_id = 0, sku_name = sc_name p, sku_code = sc_sku p, sku_client_name = sc_client_name p,
          sku_category = category_value (sc_category p), sku_warehouse = warehouse_value (sc_warehouse p),
          sku_client_id = Some (sc_client_id p),
          sku_minimum_stock_threshold = sc_minimum_stock_threshold p\<rparr> s = (Inr x, u)"
    and t: "inv_db t = inv_db u" "env_commit E = CommitOk"
    by (auto simp: create_product_def Let_def commit_and_refresh_Inr create_product_telemetry_db
        split: prod.splits sum.splits)
  note i = insert_sku_Inr [OF ins]
  then have "parse_category (sku_category x) = Some (sc_category p)"
    "parse_warehouse (sku_warehouse x) = Some (sc_warehouse p)" by auto
  then have "txn (inv_db s) (inv_db u)"
    using i txn_product [of x "inv_db s"] by auto
  then show "inv_db t = inv_db s \<or> env_commit E = CommitOk \<and> txn (inv_db s) (inv_db t)" using t by simp
qed

lemma update_sku_threshold_row:
  assumes "update_sku_threshold E k threshold s = (Inr sku, t)" and "inventory_ok (inv_db s)"
  shows "parse_category (sku_category sku) \<noteq> None \<and> parse_warehouse (sku_warehouse sku) \<noteq> None"
proof -
  obtain rows s1 where lock: "lock_skus [k] s = (rows, s1)" by (cases "lock_skus [k] s")
  with assms obtain r where r: "sku_of rows k = Some r" "sku = r\<lparr>sku_minimum_stock_threshold := threshold\<rparr>"
    by (auto simp: update_sku_threshold_def Let_def in_transaction_Inr commit_and_refresh_Inr set_sku_threshold_def
        split: option.splits prod.splits sum.splits)
  then have "sku_ok r"
    using lock_skus_of [OF lock] inventory_ok_skus [OF assms(2)] by blast
  then show ?thesis using r(2) by (simp add: sku_ok_def)
qed

lemma configure_threshold_atomic:
  assumes "check_sku_threshold_update threshold = Inr ()" and "inventory_ok (inv_db s)"
  shows "atomic_at E (configure_product_threshold E k threshold) s"
proof -
  have run: "configure_product_threshold E k threshold = bind_cmd (update_sku_threshold E k threshold) (\<lambda>sku s.
      bind_cmd (session_read (env_reread_ok E) (get_current_stock (inv_db s) (sku_id sku) (sku_warehouse sku)))
        (\<lambda>stock. lift_result (sku_to_response sku [((sku_id sku, sku_warehouse sku), stock)])) s)"
    by (intro ext) (simp add: configure_product_threshold_def bind_cmd_def split: prod.splits sum.splits)
  show ?thesis
    unfolding run
  proof (rule atomic_bind [OF update_sku_threshold_atomic [OF assms(1)]])
    fix sku t assume "update_sku_threshold E k threshold s = (Inr sku, t)"
    from update_sku_threshold_row [OF this assms(2)]
    show "answers E (\<lambda>s. bind_cmd (session_read (env_reread_ok E) (get_current_stock (inv_db s) (sku_id sku) (sku_warehouse sku)))
        (\<lambda>stock. lift_result (sku_to_response sku [((sku_id sku, sku_warehouse sku), stock)])) s) t"
      by (auto simp: answers_def bind_cmd_def session_read_def sku_to_response_def)
  qed
qed

lemma order_response_ok:
  assumes "\<And>x. x \<in> set xs \<Longrightarrow> ex_dispatch_id x \<noteq> None"
  shows "\<exists>v. order_mutation_response_of c xs = Inr v"
proof -
  have "traverse (\<lambda>r. case ex_dispatch_id r of None \<Rightarrow> Inl (ValidationError ''dispatch_ids'')
      | Some u \<Rightarrow> Inr u) xs = Inr (map (the \<circ> ex_dispatch_id) xs)"
    using assms by (intro traverse_Inr) (fastforce split: option.splits)
  then show ?thesis by (simp add: order_mutation_response_of_def)
qed

lemma order_dispatches_linked:
  "links_ok d \<Longrightarrow> x \<in> set (order_dispatches d k) \<Longrightarrow> ex_dispatch_id x \<noteq> None"
  by (auto simp: order_dispatches_def links_ok_def exit_link_ok_def)

lemma order_dispatches_distinct:
  assumes "tables_ok d" and "links_ok d"
  shows "distinct (map ex_dispatch_id (order_dispatches d k))"
proof -
  let ?ys = "filter (\<lambda>r. ex_commercial_order_id r = Some k) (db_exits d)"
  have "?ys = filter (\<lambda>r. ex_commercial_order_id r = Some k)
      (filter (\<lambda>x. ex_dispatch_id x \<noteq> None) (db_exits d))"
    using assms(2) by (auto simp: links_ok_def exit_link_ok_def intro!: filter_cong)
  moreover have "distinct (map ex_dispatch_id (filter (\<lambda>x. ex_dispatch_id x \<noteq> None) (db_exits d)))"
    using assms(1) by (simp add: tables_ok_def keys_unique_def)
  ultimately have "distinct (map ex_dispatch_id ?ys)" by (metis distinct_map_filter)
  then have "inj_on ex_dispatch_id (set ?ys)" "distinct ?ys" by (auto simp: distinct_map)
  then show ?thesis by (simp add: order_dispatches_def distinct_map)
qed

lemma order_dict:
  assumes "tables_ok d" and "links_ok d"
  shows "py_dict (map (\<lambda>r. (ex_dispatch_id r, r)) (order_dispatches d k)) =
    map (\<lambda>r. (ex_dispatch_id r, r)) (order_dispatches d k)"
  by (rule py_dict_distinct) (simp add: comp_def order_dispatches_distinct [OF assms])

lemma create_order_handler_atomic:
  assumes chk: "check_commercial_order_create p = Inr ()" and ok: "inventory_ok (inv_db s)"
  shows "atomic_at E (create_order_with_dispatches E p user rid) s"
  unfolding create_order_with_dispatches_def
proof (rule atomic_bind [OF create_commercial_order_atomic [OF chk]])
  fix a t assume run: "create_commercial_order E p user rid s = (Inr a, t)"
  obtain c xs where a: "a = (c, xs)" by (cases a)
  have db: "tables_ok (inv_db s)" "links_ok (inv_db s)" using ok by (simp_all add: inventory_ok_def)
  have "ex_dispatch_id x \<noteq> None" if x: "x \<in> set xs" for x
    using create_commercial_order_Inr [OF run [unfolded a] chk]
  proof (elim disjE exE conjE)
    assume "retry_order (inv_db s) c p = Inr (c, xs)"
    then have "xs = order_dispatches (inv_db s) (co_id c)"
      by (auto simp: retry_order_def Let_def order_dict [OF db] comp_def split: if_splits)
    then show ?thesis using order_dispatches_linked [OF db(2)] x by blast
  next
    assume "list_all2 (\<lambda>x i. ex_dispatch_id x = Some (dc_dispatch_id i) \<and> dispatch_matches x i (co_id c))
        xs (sort_key (\<lambda>item. uuid_str (dc_dispatch_id item)) (coc_dispatches p))"
    then show ?thesis using x by (fastforce simp: list_all2_conv_all_nth in_set_conv_nth)
  qed
  then show "answers E (case a of (order, dispatches) \<Rightarrow> bind_cmd (session_read (env_reread_ok E) dispatches)
      (\<lambda>dispatches. lift_result (order_mutation_response_of order dispatches))) t"
    using order_response_ok [of xs c] by (auto simp: a intro!: answers_read)
qed

lemma append_handler_atomic:
  assumes chk: "check_dispatch_append p = Inr ()" and ok: "inventory_ok (inv_db s)"
  shows "atomic_at E (append_order_dispatches E i p user rid) s"
proof (cases "i = da_order_id p")
  case True
  have "atomic_at E (bind_cmd (append_commercial_order_dispatches E p user rid)
      (\<lambda>(order, dispatches). lift_result (order_mutation_response_of order dispatches))) s"
  proof (rule atomic_bind [OF append_dispatches_atomic [OF chk]])
    fix a t assume run: "append_commercial_order_dispatches E p user rid s = (Inr a, t)"
    obtain c xs where a: "a = (c, xs)" by (cases a)
    note r = append_dispatches_Inr [OF run [unfolded a] chk]
    then have "inventory_ok (inv_db t)" using ok txn_ok by auto
    then have "links_ok (inv_db t)" by (simp add: inventory_ok_def)
    then have "ex_dispatch_id x \<noteq> None" if "x \<in> set xs" for x
      using r order_dispatches_linked that by blast
    then show "answers E (case a of (order, dispatches) \<Rightarrow>
        lift_result (order_mutation_response_of order dispatches)) t"
      using order_response_ok [of xs c] by (auto simp: a)
  qed
  then show ?thesis using True by (simp add: append_order_dispatches_def)
qed (simp add: append_order_dispatches_def atomic_at_def)

lemma reads_atomic:
  "atomic_at E (list_products E) s" "atomic_at E (list_orders_endpoint E) s"
  "atomic_at E (\<lambda>s. (get_product (inv_db s) k, s)) s"
  by (auto simp: atomic_at_def list_products_def list_orders_endpoint_def Let_def
      split: prod.splits option.splits sum.splits)

lemma handle_atomic: "inventory_ok (inv_db s) \<Longrightarrow> atomic_at E (handle E user rid r) s"
proof (induction E user rid r rule: handle.induct)
qed (auto intro!: atomic_reply atomic_checked create_product_atomic configure_threshold_atomic
    confirm_count_atomic create_order_handler_atomic append_handler_atomic reads_atomic
    atomic_bind [OF create_stock_entry_atomic] atomic_bind [OF create_stock_exit_atomic]
    simp: create_inbound_order_def create_outbound_order_def)

lemma reachable_txns: "reachable s0 s \<Longrightarrow> inventory_ok (inv_db s0) \<Longrightarrow>
    txn\<^sup>*\<^sup>* (inv_db s0) (inv_db s) \<and> inventory_ok (inv_db s)"
proof (induction rule: reachable.induct)
  case (reach_step s E user rid r res t)
  then have "inv_db t = inv_db s \<or> txn (inv_db s) (inv_db t)"
    using handle_atomic [of s E user rid r] by (auto simp: atomic_at_def split: sum.splits)
  then show ?case using reach_step by (auto intro: rtranclp.rtrancl_into_rtrancl txn_ok)
qed simp

end
