(* ===== verification/InventoryFrames.thy ===== *)
theory InventoryFrames
  imports InventoryRefinement
begin

text \<open>
  What the operations do besides the tables: the bodies of the transactions touch neither the
  caches nor the locks, rows are only ever added, and every operation takes its locks in one
  global order.
\<close>

section \<open>Growth\<close>

text \<open>Orders, movements and counts are never changed or removed by a transaction.\<close>

definition grows :: "inventory_db \<Rightarrow> inventory_db \<Rightarrow> bool" where
  "grows d d' \<longleftrightarrow>
     (\<exists>xs. db_exits d' = db_exits d @ xs) \<and> (\<exists>es. db_entries d' = db_entries d @ es) \<and>
     (\<exists>cs. db_orders d' = db_orders d @ cs) \<and> (\<exists>ps. db_counts d' = db_counts d @ ps)"

lemma grows_refl: "grows d d"
  by (simp add: grows_def)

lemma grows_trans: "grows d d' \<Longrightarrow> grows d' d'' \<Longrightarrow> grows d d''"
  by (auto simp: grows_def)

lemma txn_grows: "txn d d' \<Longrightarrow> grows d d'"
proof (induction rule: txn.induct)
  case (txn_issue d x d')
  then show ?case by (auto simp: grows_def elim!: issue_step_shape)
next
  case (txn_open_order c d xs d' u table)
  then show ?case using issue_all_frame [OF txn_open_order(3)] by (simp add: grows_def)
next
  case (txn_extend_order c d xs d')
  then show ?case using issue_all_frame [OF txn_extend_order(2)] by (simp add: grows_def)
qed (simp_all add: grows_def)

lemma txns_grow: "txn\<^sup>*\<^sup>* d d' \<Longrightarrow> grows d d'"
  by (induction rule: rtranclp_induct) (auto intro: grows_refl grows_trans txn_grows)

section \<open>Caches and locks\<close>

text \<open>A command that leaves the caches and the lock log alone.\<close>

definition quiet :: "'a inv_cmd \<Rightarrow> bool" where
  "quiet m \<longleftrightarrow> (\<forall>s. products_cache (snd (m s)) = products_cache s \<and>
     orders_cache (snd (m s)) = orders_cache s \<and> lock_log (snd (m s)) = lock_log s)"

named_theorems quiet_intros \<open>commands that leave the caches and the lock log alone\<close>

lemma quiet_bind [quiet_intros]:
  "quiet m \<Longrightarrow> (\<And>a. quiet (f a)) \<Longrightarrow> quiet (bind_cmd m f)"
  by (auto simp: quiet_def snd_bind_cmd split: prod.splits sum.splits) (metis snd_conv)+

lemma quiet_return [quiet_intros]: "quiet (return_cmd a)" "quiet (raise_cmd e)" "quiet (lift_result r)"
  by (simp_all add: quiet_def)

lemma quiet_inserts [quiet_intros]:
  "quiet (insert_sku r1)" "quiet (insert_entry r2)" "quiet (insert_exit r3)" "quiet (insert_order r4)"
  "quiet (insert_count r5)" "quiet (insert_eval r6)" "quiet (draw_uuid E)"
  "quiet (enqueue_event i tm st pk et tgs)" "quiet (set_sku_threshold k threshold sku)"
  by (auto simp: quiet_def insert_sku_def insert_entry_def insert_exit_def insert_order_def
      insert_count_def insert_eval_def draw_uuid_def enqueue_event_def set_sku_threshold_def Let_def
      split: option.splits prod.splits)

lemma quiet_event_cmd [quiet_intros]: "quiet (event_cmd E ty user rid tm tgs)"
  by (auto simp: event_cmd_def intro!: quiet_intros)

lemma quiet_threshold_event [quiet_intros]: "quiet (threshold_event E sku pk b a user rid tm)"
  by (auto simp: threshold_event_def Let_def intro!: quiet_intros split: option.splits)

lemma quiet_record_evaluation [quiet_intros]: "quiet (record_threshold_evaluation st pk sku b a ev tm)"
  by (auto simp: record_threshold_evaluation_def intro!: quiet_intros)

lemma quiet_inbound_event [quiet_intros]: "quiet (inbound_event E sku x user rid)"
  by (auto simp: inbound_event_def Let_def intro!: quiet_intros split: option.splits)

lemma quiet_discrepancy_event [quiet_intros]: "quiet (discrepancy_event E data sku c k user rid)"
  by (auto simp: discrepancy_event_def Let_def intro!: quiet_intros split: option.splits)

lemma quiet_outbound_event [quiet_intros]: "quiet (outbound_event E c user rid)"
  by (auto simp: outbound_event_def Let_def intro!: quiet_intros split: option.splits)

lemma quiet_add_dispatch [quiet_intros]: "quiet (add_dispatch E c skus user rid item running)"
  by (auto simp: add_dispatch_def Let_def intro!: quiet_intros split: option.splits)

lemma quiet_add_dispatches [quiet_intros]: "quiet (add_dispatches E c skus user rid items running)"
  by (induction items arbitrary: running) (auto intro!: quiet_intros split: prod.splits)

lemma quiet_add_order_dispatches [quiet_intros]: "quiet (add_order_dispatches E c items skus user rid)"
  using quiet_add_dispatches by (simp add: quiet_def add_order_dispatches_def)

lemma quiet_bodies [quiet_intros]:
  "quiet (stock_entry_body E d1 sku before user rid)"
  "quiet (stock_exit_body E d2 sku before user rid)"
  "quiet (physical_count_body E d3 sku before user rid)"
  "quiet (commercial_order_body E d4 skus user rid)"
  by (auto simp: stock_entry_body_def stock_exit_body_def physical_count_body_def
      commercial_order_body_def intro!: quiet_intros split: prod.splits)

lemma quiet_in_transaction [quiet_intros]: "quiet m \<Longrightarrow> quiet (in_transaction E m)"
  by (auto simp: quiet_def in_transaction_def split: prod.splits sum.splits commit_outcome.splits) (metis snd_conv)+

lemma quiet_session_read [quiet_intros]: "quiet (session_read works a)"
  by (simp add: quiet_def)

lemma quiet_commit_and_refresh [quiet_intros]: "quiet m \<Longrightarrow> quiet (commit_and_refresh E m)"
  unfolding commit_and_refresh_def by (intro quiet_intros)

lemma quietD:
  "quiet m \<Longrightarrow> m s = (r, t) \<Longrightarrow>
   products_cache t = products_cache s \<and> orders_cache t = orders_cache s \<and> lock_log t = lock_log s"
  by (metis quiet_def snd_conv)

lemma quiet_effects [simp]:
  "products_cache (capture_after_commit E evs s) = products_cache s"
  "orders_cache (capture_after_commit E evs s) = orders_cache s"
  "lock_log (capture_after_commit E evs s) = lock_log s"
  "products_cache (snd (capture_telemetry_events E evs s)) = products_cache s"
  "orders_cache (snd (capture_telemetry_events E evs s)) = orders_cache s"
  "lock_log (snd (capture_telemetry_events E evs s)) = lock_log s"
  "lock_log (invalidate_inventory_cache E s) = lock_log s"
  "lock_log (invalidate_products_cache E s) = lock_log s"
  by (simp_all add: capture_after_commit_def capture_telemetry_events_def
      invalidate_inventory_cache_def invalidate_products_cache_def invalidate_orders_cache_def)

section \<open>Lock order\<close>

text \<open>
  The global order of the locks: advisory locks by the unsigned value of their key, then order
  rows, count rows and product rows by identity.
\<close>

fun lock_rank :: "db_lock \<Rightarrow> nat \<times> int" where
  "lock_rank (AdvisoryLock k) = (0, k mod 2 ^ 64)"
| "lock_rank (OrderRow k) = (1, k)"
| "lock_rank (CountRow k) = (2, k)"
| "lock_rank (SkuRow k) = (3, k)"

lemma advisory_rank: "advisory_key u mod 2 ^ 64 = uint u div 2 ^ 64"
proof -
  have "advisory_key u mod 2 ^ 64 = uint (ucast (drop_bit 64 u) :: 64 word)"
    unfolding advisory_key_def
    using uint_sint [of "ucast (drop_bit 64 u) :: 64 word"] by (simp add: take_bit_eq_mod)
  also have "\<dots> = (uint u div 2 ^ 64) mod 2 ^ 64"
    by (simp add: unsigned_ucast_eq take_bit_eq_mod unsigned_drop_bit_eq drop_bit_eq_div uint_div)
  also have "\<dots> = uint u div 2 ^ 64"
    using uint_lt2p [of u] by (intro mod_pos_pos_trivial) (simp_all add: div_less_iff_less_mult pos_imp_zdiv_nonneg_iff)
  finally show ?thesis .
qed

lemma advisory_rank_mono:
  "u \<le> v \<Longrightarrow> lock_rank (AdvisoryLock (advisory_key u)) \<le> lock_rank (AdvisoryLock (advisory_key v))"
  unfolding lock_rank.simps advisory_rank word_le_def
  by (simp only: less_eq_prod_simp) (auto intro: zdiv_mono1)

lemma sorted_advisory:
  "sorted (map (\<lambda>v. lock_rank (AdvisoryLock (advisory_key v))) (sort_key uuid_str us))"
proof -
  have "sorted (map uuid_str (sort_key uuid_str us))" by simp
  then have "sorted (sort_key uuid_str us)" by (simp only: sorted_map_uuid_str)
  then show ?thesis
    unfolding sorted_map by (rule sorted_wrt_mono_rel [rotated]) (rule advisory_rank_mono)
qed

lemma sorted_sku_locks: "sorted (map (\<lambda>r. lock_rank (SkuRow (sku_id r))) (sort_key sku_id rs))"
proof -
  have "sorted_wrt (\<lambda>x y. sku_id x \<le> sku_id y) (sort_key sku_id rs)"
    using sorted_sort_key [of sku_id rs] by (simp only: sorted_map)
  then show ?thesis
    unfolding sorted_map by (rule sorted_wrt_mono_rel [rotated]) simp
qed

lemma lock_skus_log:
  "lock_skus ids s = (rows, t) \<Longrightarrow>
     \<exists>rs :: sku_row list.
       lock_log t = lock_log s @ map (\<lambda>r. SkuRow (sku_id r)) (sort_key sku_id rs) \<and>
       products_cache t = products_cache s \<and> orders_cache t = orders_cache s"
  by (rule exI [of _ "filter (\<lambda>r. sku_id r \<in> set ids) (db_skus (inv_db s))"])
    (auto simp: lock_skus_def Let_def)

lemma lock_keys_log:
  "\<exists>us. lock_log (lock_idempotency_keys E values s) =
     lock_log s @ map (\<lambda>v. AdvisoryLock (advisory_key v)) (sort_key uuid_str us)"
  by (rule exI [of _ "if env_postgresql E then remdups values else []"])
    (simp add: lock_idempotency_keys_def)

text \<open>
  The log extended by locks in the global order, all of a class below \<open>n\<close>: a later lock of a
  higher class keeps the order.
\<close>

definition extends_by :: "inventory_state \<Rightarrow> inventory_state \<Rightarrow> nat \<Rightarrow> bool" where
  "extends_by s t n \<longleftrightarrow>
     (\<exists>new. lock_log t = lock_log s @ new \<and> sorted (map lock_rank new) \<and>
        (\<forall>l \<in> set new. fst (lock_rank l) < n))"

lemma extends_more:
  assumes "extends_by s t n" and "lock_log t' = lock_log t @ added"
    and "sorted (map lock_rank added)" and "\<And>l. l \<in> set added \<Longrightarrow> n \<le> fst (lock_rank l) \<and> fst (lock_rank l) < m"
    and "n \<le> m"
  shows "extends_by s t' m"
proof -
  from assms(1) obtain new where new: "lock_log t = lock_log s @ new" "sorted (map lock_rank new)"
    "\<And>l. l \<in> set new \<Longrightarrow> fst (lock_rank l) < n"
    by (auto simp: extends_by_def)
  have "lock_rank a \<le> lock_rank b" if "a \<in> set new" "b \<in> set added" for a b
    using new(3) [OF that(1)] assms(4) [OF that(2)] by (simp add: less_eq_prod_def)
  then have "sorted (map lock_rank (new @ added))"
    using new(2) assms(3) by (auto simp: sorted_append)
  moreover have "fst (lock_rank l) < m" if "l \<in> set (new @ added)" for l
    using that new(3) [of l] assms(4) [of l] assms(5) by auto
  ultimately show ?thesis
    unfolding extends_by_def using new(1) assms(2) by (intro exI [of _ "new @ added"]) simp
qed

lemma extends_refl: "extends_by s s 0"
  by (auto simp: extends_by_def)

lemma extends_mono: "extends_by s t m \<Longrightarrow> m \<le> n \<Longrightarrow> extends_by s t n"
  by (rule extends_more [of s t m t "[]"]) auto

lemma extends_keys: "extends_by s (lock_idempotency_keys E values s) 1"
proof -
  obtain us where "lock_log (lock_idempotency_keys E values s) =
      lock_log s @ map (\<lambda>v. AdvisoryLock (advisory_key v)) (sort_key uuid_str us)"
    using lock_keys_log by blast
  then show ?thesis
    by (rule extends_more [OF extends_refl])
      (use sorted_advisory [of us] in \<open>auto simp del: One_nat_def simp: comp_def\<close>)
qed

lemma extends_row:
  "extends_by s t n \<Longrightarrow> lock_log t' = lock_log t @ [l] \<Longrightarrow> n \<le> fst (lock_rank l) \<Longrightarrow>
   fst (lock_rank l) < m \<Longrightarrow> extends_by s t' m"
  by (rule extends_more [of s t n t' "[l]" m]) auto

lemma extends_skus:
  assumes "extends_by s t 3" and "lock_skus ids t = (rows, t')"
  shows "extends_by s t' 4"
proof -
  obtain rs :: "sku_row list" where
    "lock_log t' = lock_log t @ map (\<lambda>r. SkuRow (sku_id r)) (sort_key sku_id rs)"
    using lock_skus_log [OF assms(2)] by blast
  then show ?thesis
    by (rule extends_more [OF assms(1)])
      (use sorted_sku_locks [of rs] in \<open>auto simp: comp_def\<close>)
qed

lemma extends_same: "lock_log t' = lock_log t \<Longrightarrow> extends_by s t' n = extends_by s t n"
  by (simp add: extends_by_def)

section \<open>Locks and caches of each operation\<close>

text \<open>
  What an operation does to the two caches: nothing, or it drops the entries it is keyed by.
\<close>

definition caches_kept :: "inventory_state \<Rightarrow> inventory_state \<Rightarrow> bool" where
  "caches_kept s t \<longleftrightarrow> products_cache t = products_cache s \<and> orders_cache t = orders_cache s"

definition caches_dropped :: "env \<Rightarrow> inventory_state \<Rightarrow> inventory_state \<Rightarrow> bool" where
  "caches_dropped E s t \<longleftrightarrow>
     products_cache t =
       snd (cache_delete (inventory_cache_key ''products'' (env_bind_id E)) (products_cache s)) \<and>
     orders_cache t =
       snd (cache_delete (inventory_cache_key ''orders'' (env_bind_id E)) (orders_cache s))"

lemma invalidate_drops: "caches_kept s t \<Longrightarrow> caches_dropped E s (invalidate_inventory_cache E t)"
  by (simp add: caches_kept_def caches_dropped_def invalidate_inventory_cache_def
      invalidate_products_cache_def invalidate_orders_cache_def)

lemma lock_keys_caches [simp]:
  "products_cache (lock_idempotency_keys E values s) = products_cache s"
  "orders_cache (lock_idempotency_keys E values s) = orders_cache s"
  by (simp_all add: lock_idempotency_keys_def)

lemma transactionD:
  assumes "tx s = (r, t)" and "quiet tx"
  shows "caches_kept s t \<and> lock_log t = lock_log s"
  using quietD [OF assms(2,1)] by (simp add: caches_kept_def)

definition same_movements :: "inventory_db \<Rightarrow> inventory_db \<Rightarrow> bool" where
  "same_movements d d' \<longleftrightarrow>
     db_skus d' = db_skus d \<and> db_entries d' = db_entries d \<and> db_exits d' = db_exits d"

text \<open>
  Locks in the global order; after an error the caches are as before or the entries of the operation
  are gone; after a success they are as before with the products and the movements unchanged, or the
  entries of the operation are gone.
\<close>

definition disciplined :: "env \<Rightarrow> 'a inv_cmd \<Rightarrow> inventory_state \<Rightarrow> bool" where
  "disciplined E m s \<longleftrightarrow>
     (case m s of
        (Inl e, t) \<Rightarrow> extends_by s t 4 \<and> (caches_kept s t \<or> caches_dropped E s t)
      | (Inr a, t) \<Rightarrow> extends_by s t 4 \<and>
          (same_movements (inv_db s) (inv_db t) \<and> caches_kept s t \<or> caches_dropped E s t))"

lemma disciplined_Inl: "m s = (Inl e, t) \<Longrightarrow> extends_by s t 4 \<Longrightarrow> caches_kept s t \<Longrightarrow> disciplined E m s"
  by (simp add: disciplined_def)

lemma disciplined_drop: "m s = (r, t) \<Longrightarrow> extends_by s t 4 \<Longrightarrow> caches_dropped E s t \<Longrightarrow> disciplined E m s"
  by (cases r) (simp_all add: disciplined_def)

lemma disciplined_keep:
  "m s = (r, t) \<Longrightarrow> extends_by s t 4 \<Longrightarrow> caches_kept s t \<Longrightarrow> same_movements (inv_db s) (inv_db t) \<Longrightarrow>
   disciplined E m s"
  by (cases r) (simp_all add: disciplined_def)

text \<open>The common end of an operation: the transaction, then the invalidation.\<close>

lemma disciplined_transaction:
  assumes q: "quiet tx" and l: "extends_by s s1 4" "caches_kept s s1"
    and err: "\<And>e t. tx s1 = (Inl e, t) \<Longrightarrow> m s = (Inl e, t)"
    and res: "\<And>a t. tx s1 = (Inr a, t) \<Longrightarrow> \<exists>q. m s = (q, g a t)"
    and drop_g: "\<And>a t. lock_log (g a t) = lock_log t \<and> caches_dropped E t (g a t)"
  shows "disciplined E m s"
proof (cases "tx s1")
  case (Pair r t)
  have t: "caches_kept s1 t \<and> lock_log t = lock_log s1" by (rule transactionD [OF Pair q])
  then have st: "extends_by s t 4" "caches_kept s t"
    using l extends_same [of t s1] by (auto simp: caches_kept_def)
  show ?thesis
  proof (cases r)
    case (Inl e)
    then show ?thesis using err Pair st by (auto intro: disciplined_Inl)
  next
    case (Inr a)
    with res Pair obtain q where "m s = (q, g a t)" by blast
    moreover have "extends_by s (g a t) 4" "caches_dropped E s (g a t)"
      using st drop_g [of a t] extends_same [of "g a t" t] by (auto simp: caches_dropped_def caches_kept_def)
    ultimately show ?thesis by (rule disciplined_drop)
  qed
qed

lemma invalidate_dropped:
  "caches_dropped E t (invalidate_inventory_cache E t) \<and> lock_log (invalidate_inventory_cache E t) = lock_log t"
  using invalidate_drops [of t t E] by (simp add: caches_kept_def)

lemma dropped_effects:
  "caches_dropped E t (invalidate_inventory_cache E (capture_after_commit E evs t))"
  "caches_dropped E t (capture_after_commit E evs (invalidate_inventory_cache E t))"
  "caches_dropped E t (invalidate_inventory_cache E (snd (capture_telemetry_events E evs t)))"
  using invalidate_drops [of t t E] invalidate_drops [of t "capture_after_commit E evs t" E]
    invalidate_drops [of t "snd (capture_telemetry_events E evs t)" E]
  by (simp_all add: caches_kept_def caches_dropped_def)

lemma lock_skus_phase:
  assumes "lock_skus ids s = (rows, t)"
  shows "extends_by s t 4" "caches_kept s t" "same_movements (inv_db s) (inv_db t)"
  using extends_skus [OF extends_mono [OF extends_refl] assms] lock_skus_log [OF assms] lock_skus_db [OF assms]
  by (auto simp: caches_kept_def same_movements_def)

lemma stock_entry_disciplined: "disciplined E (create_stock_entry E data user rid) s"
proof -
  obtain rows s1 where lock: "lock_skus [sec_sku_id data] s = (rows, s1)"
    by (cases "lock_skus [sec_sku_id data] s")
  note l = lock_skus_phase [OF lock]
  show ?thesis
  proof (cases "sku_of rows (sec_sku_id data)")
    case None
    then show ?thesis
      by (intro disciplined_Inl [OF _ l(1,2)]) (simp add: create_stock_entry_def lock)
  next
    case (Some sku)
    show ?thesis
    proof (cases "warehouse_value (sec_warehouse data) = sku_warehouse sku")
      case False
      then show ?thesis
        by (intro disciplined_Inl [OF _ l(1,2)]) (simp add: create_stock_entry_def lock Some)
    next
      case True
      show ?thesis
        by (rule disciplined_transaction [where tx = "commit_and_refresh E (stock_entry_body E data sku
              (get_current_stock (inv_db s1) (sec_sku_id data) (sku_warehouse sku)) user rid)" and
              g = "\<lambda>(x, ev) t. invalidate_inventory_cache E (case ev of None \<Rightarrow> t
                | Some v \<Rightarrow> snd (capture_telemetry_events E [v] t))", OF quiet_commit_and_refresh [OF quiet_bodies(1)] l(1,2)])
          (use True in \<open>auto simp: create_stock_entry_def lock Some dropped_effects invalidate_dropped
            split: option.splits\<close>)
    qed
  qed
qed

lemma insufficient_stock_telemetry_frame:
  "lock_log (insufficient_stock_telemetry E sku w q a user rid s) = lock_log s \<and>
   caches_kept s (insufficient_stock_telemetry E sku w q a user rid s)"
proof -
  have ev: "products_cache t = products_cache s \<and> orders_cache t = orders_cache s \<and> lock_log t = lock_log s"
    if "event_cmd E ty user rid tm tgs s = (r, t)" for ty tm tgs r t
    using quietD [OF quiet_event_cmd that] .
  show ?thesis
    by (auto simp: insufficient_stock_telemetry_def caches_kept_def capture_telemetry_events_def
        split: option.splits prod.splits sum.splits if_splits dest: ev)
qed

lemma stock_exit_disciplined: "disciplined E (create_stock_exit E data user rid) s"
proof -
  obtain rows s1 where lock: "lock_skus [sxc_sku_id data] s = (rows, s1)"
    by (cases "lock_skus [sxc_sku_id data] s")
  note l = lock_skus_phase [OF lock]
  show ?thesis
  proof (cases "sku_of rows (sxc_sku_id data)")
    case None
    then show ?thesis
      by (intro disciplined_Inl [OF _ l(1,2)]) (simp add: create_stock_exit_def lock)
  next
    case (Some sku)
    let ?b = "get_current_stock (inv_db s1) (sku_id sku) (sku_warehouse sku)"
    consider (wh) "warehouse_value (sxc_warehouse data) \<noteq> sku_warehouse sku"
      | (lack) "warehouse_value (sxc_warehouse data) = sku_warehouse sku" "sxc_quantity data > ?b"
      | (go) "warehouse_value (sxc_warehouse data) = sku_warehouse sku" "\<not> sxc_quantity data > ?b"
      by blast
    then show ?thesis
    proof cases
      case wh
      then show ?thesis
        by (intro disciplined_Inl [OF _ l(1,2)]) (simp add: create_stock_exit_def lock Some)
    next
      case lack
      let ?t = "insufficient_stock_telemetry E sku (sku_warehouse sku) (sxc_quantity data) ?b user rid s1"
      have "extends_by s ?t 4" "caches_kept s ?t"
        using insufficient_stock_telemetry_frame [of E sku "sku_warehouse sku" "sxc_quantity data" ?b user rid s1]
          l extends_same [of ?t s1] by (auto simp: caches_kept_def)
      then show ?thesis
        using lack by (intro disciplined_Inl) (auto simp: create_stock_exit_def Let_def lock Some)
    next
      case go
      show ?thesis
        by (rule disciplined_transaction [where tx = "commit_and_refresh E (stock_exit_body E data sku ?b user rid)" and
              g = "\<lambda>(x, evs) t. invalidate_inventory_cache E (capture_after_commit E evs t)",
              OF quiet_commit_and_refresh [OF quiet_bodies(2)] l(1,2)])
          (use go in \<open>auto simp: create_stock_exit_def lock Some dropped_effects\<close>)
    qed
  qed
qed

lemma update_threshold_disciplined: "disciplined E (update_sku_threshold E k threshold) s"
proof -
  obtain rows s1 where lock: "lock_skus [k] s = (rows, s1)" by (cases "lock_skus [k] s")
  note l = lock_skus_phase [OF lock]
  show ?thesis
  proof (cases "sku_of rows k")
    case None
    then show ?thesis
      by (intro disciplined_Inl [OF _ l(1,2)]) (simp add: update_sku_threshold_def lock)
  next
    case (Some sku)
    show ?thesis
      by (rule disciplined_transaction [where tx = "commit_and_refresh E (set_sku_threshold k threshold sku)" and
            g = "\<lambda>_ t. invalidate_inventory_cache E t", OF quiet_commit_and_refresh [OF quiet_inserts(9)] l(1,2)])
        (auto simp: update_sku_threshold_def lock Some invalidate_dropped)
  qed
qed

lemma confirm_count_disciplined: "disciplined E (confirm_inventory_physical_count E data user rid) s"
proof -
  let ?s0 = "lock_idempotency_keys E [pcc_count_id data] s"
  note l0 = extends_keys [of s E "[pcc_count_id data]"]
  show ?thesis
  proof (cases "find (\<lambda>c. pc_count_id c = pcc_count_id data) (db_counts (inv_db s))")
    case (Some c)
    let ?s1 = "?s0\<lparr>lock_log := lock_log ?s0 @ [CountRow (pc_id c)]\<rparr>"
    have "extends_by s ?s1 4"
      by (rule extends_row [OF l0, of _ "CountRow (pc_id c)"]) auto
    then show ?thesis
      using Some
      by (cases "count_matches c data user")
        (auto intro!: disciplined_keep [of _ _ _ ?s1]
          simp: confirm_inventory_physical_count_def Let_def caches_kept_def same_movements_def)
  next
    case None
    obtain rows s1 where lock: "lock_skus [pcc_sku_id data] ?s0 = (rows, s1)"
      by (cases "lock_skus [pcc_sku_id data] ?s0")
    have l: "extends_by s s1 4" "caches_kept s s1" "same_movements (inv_db s) (inv_db s1)"
      using extends_skus [OF extends_mono [OF l0] lock] lock_skus_phase(2,3) [OF lock]
      by (auto simp: caches_kept_def)
    note run = confirm_inventory_physical_count_def None lock
    show ?thesis
    proof (cases "sku_of rows (pcc_sku_id data)")
      case None
      then show ?thesis
        by (intro disciplined_Inl [OF _ l(1,2)]) (simp add: run)
    next
      case (Some sku)
      consider (wh) "sku_warehouse sku \<noteq> warehouse_value (pcc_warehouse data)"
        | (client) "sku_warehouse sku = warehouse_value (pcc_warehouse data)" "\<not> truthy (sku_client_id sku)"
        | (go) "sku_warehouse sku = warehouse_value (pcc_warehouse data)" "truthy (sku_client_id sku)"
        by blast
      then show ?thesis
      proof cases
        case go
        let ?b = "physical_count_body E data sku (get_current_stock (inv_db s1) (pcc_sku_id data)
            (warehouse_value (pcc_warehouse data))) user rid"
        obtain r t where tr: "commit_and_refresh E ?b s1 = (r, t)" by (cases "commit_and_refresh E ?b s1")
        have t: "caches_kept s1 t \<and> lock_log t = lock_log s1"
          by (rule transactionD [where tx = "commit_and_refresh E ?b", OF tr]) (intro quiet_intros)
        then have st: "extends_by s t 4" "caches_kept s t"
          using l extends_same [of t s1] by (auto simp: caches_kept_def)
        show ?thesis
        proof (cases r)
          case (Inl e)
          then show ?thesis
            using go tr by (intro disciplined_Inl [OF _ st]) (simp add: run Some)
        next
          case (Inr a)
          obtain c evs where a: "a = (c, evs)" by (cases a)
          then have b: "?b s1 = (Inr (c, evs), t)" using tr Inr by (simp add: commit_and_refresh_Inr)
          have "same_movements (inv_db s1) (inv_db t)"
            using physical_count_body_Inr [OF b] by (auto simp: same_movements_def)
          then show ?thesis
            using go tr Inr a st l extends_same [of "capture_after_commit E evs t" t]
            by (intro disciplined_keep [of _ _ "Inr c" "capture_after_commit E evs t"])
              (auto simp: run Some caches_kept_def same_movements_def)
        qed
      next
        case wh
        then show ?thesis by (intro disciplined_Inl [OF _ l(1,2)]) (simp add: run Some)
      next
        case client
        then show ?thesis by (intro disciplined_Inl [OF _ l(1,2)]) (simp add: run Some)
      qed
    qed
  qed
qed

lemma find_order_phase:
  assumes "find_order i t = (f, t')" and "extends_by s t 1" and "caches_kept s t"
    and "same_movements (inv_db s) (inv_db t)"
  shows "extends_by s t' 2" "caches_kept s t'" "same_movements (inv_db s) (inv_db t')"
proof -
  have "extends_by s t' 2"
  proof (cases f)
    case None
    then have "t' = t" using assms(1) by (auto simp: find_order_def split: option.splits)
    then show ?thesis using extends_mono [OF assms(2)] by simp
  next
    case (Some c)
    then have "lock_log t' = lock_log t @ [OrderRow (co_id c)]"
      using assms(1) by (auto simp: find_order_def split: option.splits)
    then show ?thesis by (rule extends_row [OF assms(2)]) simp_all
  qed
  moreover have "products_cache t' = products_cache t \<and> orders_cache t' = orders_cache t"
    using assms(1) by (auto simp: find_order_def split: option.splits)
  then have "caches_kept s t' \<and> same_movements (inv_db s) (inv_db t')"
    using assms(3,4) find_order_db [OF assms(1)] by (simp add: caches_kept_def)
  ultimately show "extends_by s t' 2" "caches_kept s t'" "same_movements (inv_db s) (inv_db t')"
    by simp_all
qed

lemma validate_phase:
  assumes "validate_order_skus items c w t = (r, t')" and "extends_by s t 2" and "caches_kept s t"
  shows "extends_by s t' 4" "caches_kept s t'"
proof -
  obtain rows t1 where lock: "lock_skus (map dc_sku_id items) t = (rows, t1)"
    by (cases "lock_skus (map dc_sku_id items) t")
  then have "t' = t1" using assms(1) by (auto simp: validate_order_skus_def Let_def split: if_splits)
  then show "extends_by s t' 4" "caches_kept s t'"
    using extends_skus [OF extends_mono [OF assms(2)] lock] lock_skus_log [OF lock] assms(3)
    by (auto simp: caches_kept_def)
qed

lemma create_order_disciplined: "disciplined E (create_commercial_order E data user rid) s"
proof -
  let ?ids = "map dc_dispatch_id (coc_dispatches data)"
  let ?s0 = "lock_idempotency_keys E (coc_order_id data # ?ids) s"
  note run = create_commercial_order_def Let_def
  show ?thesis
  proof (cases "length ?ids = length (remdups ?ids)")
    case False
    then show ?thesis
      by (intro disciplined_Inl [of _ _ duplicate_dispatch_ids s])
        (auto simp: run caches_kept_def intro: extends_mono [OF extends_refl])
  next
    case True
    obtain f s1 where fo: "find_order (coc_order_id data) ?s0 = (f, s1)"
      by (cases "find_order (coc_order_id data) ?s0")
    have l: "extends_by s s1 2" "caches_kept s s1" "same_movements (inv_db s) (inv_db s1)"
      using find_order_phase [OF fo extends_keys] by (auto simp: caches_kept_def same_movements_def)
    have db1: "inv_db s1 = inv_db s" using find_order_db [OF fo] by simp
    note l4 = extends_mono [OF l(1), of 4, simplified]
    show ?thesis
    proof (cases f)
      case (Some c)
      then show ?thesis
        using True fo by (intro disciplined_keep [OF _ l4 l(2,3)]) (simp add: run)
    next
      case None
      show ?thesis
      proof (cases "exits_with_dispatch_ids (inv_db s1) ?ids = []")
        case False
        then show ?thesis
          using True fo None by (intro disciplined_Inl [OF _ l4 l(2)]) (simp add: run)
      next
        case free: True
        obtain r s2 where val: "validate_order_skus (coc_dispatches data) (coc_client_id data)
            (warehouse_value (coc_warehouse data)) s1 = (r, s2)"
          by (cases "validate_order_skus (coc_dispatches data) (coc_client_id data)
            (warehouse_value (coc_warehouse data)) s1")
        note v = validate_phase [OF val l(1,2)]
        show ?thesis
        proof (cases r)
          case (Inl e)
          then show ?thesis
            using True fo None free val by (intro disciplined_Inl [OF _ v]) (simp add: run)
        next
          case (Inr skus)
          show ?thesis
            by (rule disciplined_transaction [where tx = "commit_and_refresh E (commercial_order_body E data skus user rid)" and
                  g = "\<lambda>(c, xs, evs) t. capture_after_commit E evs (invalidate_inventory_cache E t)",
                  OF quiet_commit_and_refresh [OF quiet_bodies(4)] v])
              (use True fo None free val Inr in \<open>auto simp: run dropped_effects session_read_def\<close>)
        qed
      qed
    qed
  qed
qed

lemma append_disciplined: "disciplined E (append_commercial_order_dispatches E data user rid) s"
proof -
  let ?ids = "map dc_dispatch_id (da_dispatches data)"
  let ?s0 = "lock_idempotency_keys E (da_order_id data # ?ids) s"
  note run = append_commercial_order_dispatches_def Let_def
  show ?thesis
  proof (cases "length ?ids = length (remdups ?ids)")
    case False
    then show ?thesis
      by (intro disciplined_Inl [of _ _ duplicate_dispatch_ids s])
        (auto simp: run caches_kept_def intro: extends_mono [OF extends_refl])
  next
    case True
    obtain f s1 where fo: "find_order (da_order_id data) ?s0 = (f, s1)"
      by (cases "find_order (da_order_id data) ?s0")
    have l: "extends_by s s1 2" "caches_kept s s1" "same_movements (inv_db s) (inv_db s1)"
      using find_order_phase [OF fo extends_keys] by (auto simp: caches_kept_def same_movements_def)
    note l4 = extends_mono [OF l(1), of 4, simplified]
    show ?thesis
    proof (cases f)
      case None
      then show ?thesis
        using True fo by (intro disciplined_Inl [OF _ l4 l(2)]) (simp add: run)
    next
      case (Some c)
      let ?new = "new_items (py_dict (map (\<lambda>r. (ex_dispatch_id r, r))
          (exits_with_dispatch_ids (inv_db s1) ?ids))) (co_id c) (da_dispatches data)"
      show ?thesis
      proof (cases ?new)
        case (Inl e)
        then show ?thesis
          using True fo Some by (intro disciplined_Inl [OF _ l4 l(2)]) (simp add: run)
      next
        case (Inr items)
        show ?thesis
        proof (cases items)
          case Nil
          then show ?thesis
            using True fo Some Inr by (intro disciplined_keep [OF _ l4 l(2,3)]) (simp add: run)
        next
          case (Cons i rest)
          obtain r s2 where val: "validate_order_skus items (co_client_id c) (co_warehouse c) s1 = (r, s2)"
            by (cases "validate_order_skus items (co_client_id c) (co_warehouse c) s1")
          note v = validate_phase [OF val l(1,2)]
          show ?thesis
          proof (cases r)
            case (Inl e)
            then show ?thesis
              using True fo Some Inr Cons val by (intro disciplined_Inl [OF _ v]) (simp add: run)
          next
            case ok: (Inr skus)
            show ?thesis
              by (rule disciplined_transaction [where tx = "in_transaction E (add_order_dispatches E c items skus user rid)" and
                    g = "\<lambda>(xs, evs) t. capture_after_commit E evs (invalidate_inventory_cache E t)",
                    OF quiet_in_transaction [OF quiet_add_order_dispatches] v])
                (use True fo Some Inr Cons val ok in \<open>auto simp: run dropped_effects session_read_def\<close>)
          qed
        qed
      qed
    qed
  qed
qed

end
