(* ===== verification/InventoryCoherence.thy ===== *)
theory InventoryCoherence
  imports InventoryFrames
begin

text \<open>
  The two read projections against their caches: every request keeps the caches coherent with
  the tables, through the contract \<open>read_through\<close> of the TTL cache; and every request takes its
  locks in the global order.
\<close>

section \<open>Projections\<close>

lemma get_current_stocks_lookup:
  "or_else (map_of (get_current_stocks d) (k, w)) 0 = get_current_stock d k w"
proof -
  let ?en = "sql_group_sum (\<lambda>e. (en_sku_id e, en_warehouse e)) en_quantity (db_entries d)"
  let ?ex = "sql_group_sum (\<lambda>x. (ex_sku_id x, ex_warehouse x)) ex_quantity (db_exits d)"
  let ?keys = "remdups (map fst ?en @ map fst ?ex)"
  have keys: "kw \<in> set ?keys \<longleftrightarrow> map_of ?en kw \<noteq> None \<or> map_of ?ex kw \<noteq> None" for kw
    by (simp add: map_of_eq_None_iff)
  have en: "or_else (map_of ?en (k, w)) 0 =
      sum_list (map en_quantity (filter (\<lambda>e. en_sku_id e = k \<and> en_warehouse e = w) (db_entries d)))"
    by (simp add: or_else_group_sum)
  have ex: "or_else (map_of ?ex (k, w)) 0 =
      sum_list (map ex_quantity (filter (\<lambda>x. ex_sku_id x = k \<and> ex_warehouse x = w) (db_exits d)))"
    by (simp add: or_else_group_sum)
  have "map_of (get_current_stocks d) (k, w) =
      (if (k, w) \<in> set ?keys then Some (or_else (map_of ?en (k, w)) 0 - or_else (map_of ?ex (k, w)) 0) else None)"
    by (simp only: get_current_stocks_def Let_def map_of_map_self)
  moreover have "or_else (map_of ?en (k, w)) 0 - or_else (map_of ?ex (k, w)) 0 = get_current_stock d k w"
    by (simp only: en ex get_current_stock_sums)
  moreover have "or_else (map_of ?en (k, w)) 0 - or_else (map_of ?ex (k, w)) 0 = 0"
    if "(k, w) \<notin> set ?keys"
    using that unfolding keys by simp
  ultimately show ?thesis
    by (cases "(k, w) \<in> set ?keys") (simp_all only: or_else_simps if_True if_False not_False_eq_True simp_thms)
qed

lemma stocks_cong: "same_movements d d' \<Longrightarrow> get_current_stocks d' = get_current_stocks d"
  by (simp add: same_movements_def get_current_stocks_def)

lemma projections_cong:
  assumes "same_movements d d'"
  shows "products_projection d' = products_projection d" "orders_projection d' = orders_projection d"
proof -
  have d: "db_skus d' = db_skus d" "db_entries d' = db_entries d" "db_exits d' = db_exits d"
    using assms by (simp_all add: same_movements_def)
  show "products_projection d' = products_projection d"
    by (simp only: products_projection_def stocks_cong [OF assms] d)
  show "orders_projection d' = orders_projection d"
    by (simp only: orders_projection_def list_orders_def d)
qed

lemma orders_projection_add_sku:
  assumes "inventory_ok d" and "sku_id r \<notin> sku_id ` set (db_skus d)"
  shows "orders_projection (d\<lparr>db_skus := db_skus d @ [r]\<rparr>) = orders_projection d" (is "orders_projection ?d = _")
proof -
  have en: "en_sku_id e \<noteq> sku_id r" if "e \<in> set (db_entries d)" for e
  proof -
    have "(en_sku_id e, en_warehouse e) \<in> sku_warehouses d"
      using assms(1) that by (simp add: inventory_ok_def tables_ok_def movement_of_sku_def)
    then show ?thesis using assms(2) by (auto simp: sku_warehouses_def)
  qed
  have ex: "ex_sku_id x \<noteq> sku_id r" if "x \<in> set (db_exits d)" for x
  proof -
    have "(ex_sku_id x, ex_warehouse x) \<in> sku_warehouses d"
      using assms(1) that by (simp add: inventory_ok_def tables_ok_def movement_of_sku_def)
    then show ?thesis using assms(2) by (auto simp: sku_warehouses_def)
  qed
  let ?W = "set (map en_sku_id (db_entries d) @ map ex_sku_id (db_exits d))"
  have "sku_id r \<notin> ?W"
    using en ex by (simp add: image_iff) metis
  then have f: "filter (\<lambda>q. sku_id q \<in> ?W) (db_skus d @ [r]) = filter (\<lambda>q. sku_id q \<in> ?W) (db_skus d)"
    by simp
  have sel: "db_skus ?d = db_skus d @ [r]" "db_entries ?d = db_entries d" "db_exits ?d = db_exits d"
    by simp_all
  show ?thesis by (simp only: orders_projection_def list_orders_def sel Let_def f)
qed

section \<open>Coherence\<close>

definition coherent :: "int \<Rightarrow> inventory_state \<Rightarrow> bool" where
  "coherent b s \<longleftrightarrow>
     (\<forall>v. products_projection (inv_db s) = Inr v \<longrightarrow>
        cache_holds (products_cache s) (inventory_cache_key ''products'' b) v) \<and>
     (\<forall>v. orders_projection (inv_db s) = Inr v \<longrightarrow>
        cache_holds (orders_cache s) (inventory_cache_key ''orders'' b) v)"

lemma coherent_kept:
  "coherent b s \<Longrightarrow> caches_kept s t \<Longrightarrow> same_movements (inv_db s) (inv_db t) \<Longrightarrow> coherent b t"
  using projections_cong [of "inv_db s" "inv_db t"] by (simp add: coherent_def caches_kept_def)

lemma coherent_dropped: "caches_dropped E s t \<Longrightarrow> coherent (env_bind_id E) t"
  by (simp add: coherent_def caches_dropped_def ttl.holds_drop)

lemma same_movements_eq: "d' = d \<Longrightarrow> same_movements d d'"
  by (simp add: same_movements_def)

lemma coherent_op:
  assumes "disciplined E m s" and "atomic_at E m s" and "coherent (env_bind_id E) s" and "\<not> commit_in_doubt E"
  shows "coherent (env_bind_id E) (snd (m s))"
proof (cases "m s")
  case (Pair r t)
  then show ?thesis
    using assms
    by (cases r) (auto simp: disciplined_def atomic_at_def
        intro: coherent_kept coherent_dropped same_movements_eq)
qed

text \<open>A new product: its transaction, then its telemetry and the invalidation of the product list.\<close>

lemma create_product_frame:
  assumes run: "create_product E p user rid s = (res, t)"
  shows "lock_log t = lock_log s \<and> orders_cache t = orders_cache s \<and>
    (caches_kept s t \<and> (\<exists>e. res = Inl e) \<or>
     products_cache t = snd (cache_delete (inventory_cache_key ''products'' (env_bind_id E)) (products_cache s)) \<and>
     (\<exists>x. inv_db t = (inv_db s)\<lparr>db_skus := db_skus (inv_db s) @ [x]\<rparr> \<and> sku_id x \<notin> sku_id ` set (db_skus (inv_db s))))"
proof -
  let ?r = "\<lparr>sku_id = 0, sku_name = sc_name p, sku_code = sc_sku p, sku_client_name = sc_client_name p,
          sku_category = category_value (sc_category p), sku_warehouse = warehouse_value (sc_warehouse p),
          sku_client_id = Some (sc_client_id p),
          sku_minimum_stock_threshold = sc_minimum_stock_threshold p\<rparr>"
  obtain r u where tr: "commit_and_refresh E (insert_sku ?r) s = (r, u)"
    by (cases "commit_and_refresh E (insert_sku ?r) s")
  have u: "caches_kept s u" "lock_log u = lock_log s"
    using transactionD [where tx = "commit_and_refresh E (insert_sku ?r)", OF tr quiet_commit_and_refresh [OF quiet_inserts(1)]]
    by simp_all
  show ?thesis
  proof (cases r)
    case (Inl e)
    then show ?thesis using run tr u by (auto simp: create_product_def caches_kept_def)
  next
    case (Inr sku)
    let ?v = "product_created_telemetry E sku user rid u"
    have ev: "products_cache v = products_cache u \<and> orders_cache v = orders_cache u \<and>
        lock_log v = lock_log u \<and> inv_db v = inv_db u"
      if "event_cmd E ty user rid tm tgs u = (q, v)" for ty tm tgs q v
      using quietD [OF quiet_event_cmd that] that
      by (auto simp: event_cmd_def bind_cmd_def draw_uuid_def)
    have v: "caches_kept u ?v \<and> lock_log ?v = lock_log u \<and> inv_db ?v = inv_db u"
      by (auto simp: product_created_telemetry_def caches_kept_def
          split: option.splits prod.splits sum.splits dest: ev)
    have ins: "insert_sku ?r s = (Inr sku, u)" using tr Inr by (simp add: commit_and_refresh_Inr)
    have d: "inv_db u = (inv_db s)\<lparr>db_skus := db_skus (inv_db s) @ [sku]\<rparr> \<and> sku_id sku \<notin> sku_id ` set (db_skus (inv_db s))"
      using insert_sku_Inr [OF ins] by auto
    have "t = invalidate_products_cache E ?v" using run tr Inr by (simp add: create_product_def)
    then show ?thesis
      using u v d by (auto simp: invalidate_products_cache_def caches_kept_def)
  qed
qed

lemma coherent_create_product:
  assumes "inventory_ok (inv_db s)" and "coherent (env_bind_id E) s" and "\<not> commit_in_doubt E"
  shows "coherent (env_bind_id E) (snd (create_product E p user rid s))"
proof (cases "create_product E p user rid s")
  case (Pair res t)
  have unchanged: "inv_db t = inv_db s" if "\<exists>e. res = Inl e"
    using create_product_atomic [of E p user rid s] that assms(3) Pair by (auto simp: atomic_at_def)
  from create_product_frame [OF Pair] consider
      (kept) "caches_kept s t" "\<exists>e. res = Inl e"
    | (added) x where "orders_cache t = orders_cache s"
      "products_cache t = snd (cache_delete (inventory_cache_key ''products'' (env_bind_id E)) (products_cache s))"
      "inv_db t = (inv_db s)\<lparr>db_skus := db_skus (inv_db s) @ [x]\<rparr>" "sku_id x \<notin> sku_id ` set (db_skus (inv_db s))"
    by blast
  then show ?thesis
  proof cases
    case kept
    then show ?thesis using coherent_kept [OF assms(2) kept(1) same_movements_eq] unchanged Pair by simp
  next
    case (added x)
    then show ?thesis
      using orders_projection_add_sku [OF assms(1), of x] assms(2) Pair by (simp add: coherent_def ttl.holds_drop)
  qed
qed

text \<open>A read serves the current projection and leaves the caches coherent.\<close>

lemma list_products_fetch:
  assumes "products_projection (inv_db s) = Inr v"
  shows "list_products E s =
    (let (w, c) = ttl.fetch (env_clock E) (inventory_cache_key ''products'' (env_bind_id E)) v (products_cache s)
     in (Inr w, s\<lparr>products_cache := c\<rparr>))"
  using assms by (auto simp: list_products_def ttl.fetch_def Let_def split: prod.splits option.splits)

lemma list_orders_fetch:
  assumes "orders_projection (inv_db s) = Inr v"
  shows "list_orders_endpoint E s =
    (let (w, c) = ttl.fetch (env_clock E) (inventory_cache_key ''orders'' (env_bind_id E)) v (orders_cache s)
     in (Inr w, s\<lparr>orders_cache := c\<rparr>))"
  using assms by (auto simp: list_orders_endpoint_def ttl.fetch_def Let_def split: prod.splits option.splits)

lemma products_projection_ok:
  assumes "inventory_ok d"
  shows "\<exists>v. products_projection d = Inr v"
proof -
  have "\<forall>r \<in> set (db_skus d). \<exists>v. sku_to_response r (get_current_stocks d) = Inr v"
    using inventory_ok_skus [OF assms] sku_to_response_ok by blast
  then obtain g where "\<And>r. r \<in> set (db_skus d) \<Longrightarrow> sku_to_response r (get_current_stocks d) = Inr (g r)"
    by metis
  then have "products_projection d = Inr (map g (db_skus d))"
    unfolding products_projection_def by (rule traverse_Inr)
  then show ?thesis by blast
qed

section \<open>The movement list\<close>

text \<open>The joined movements, before sorting.\<close>

definition joined :: "inventory_db \<Rightarrow> movement list" where
  "joined d =
     [m. e \<leftarrow> db_entries d, m \<leftarrow> (case entry_movement (db_skus d) e of Inl _ \<Rightarrow> [] | Inr m \<Rightarrow> [m])] @
     [m. x \<leftarrow> db_exits d, m \<leftarrow> (case exit_movement (db_skus d) x of Inl _ \<Rightarrow> [] | Inr m \<Rightarrow> [m])]"

definition movement_skus :: "inventory_db \<Rightarrow> int set" where
  "movement_skus d = en_sku_id ` set (db_entries d) \<union> ex_sku_id ` set (db_exits d)"

lemma sku_of_filter:
  "k \<in> W \<Longrightarrow> sku_of (filter (\<lambda>r. sku_id r \<in> W) rows) k = sku_of rows k"
  by (induction rows) (auto simp: sku_of_def)

lemma traverse_concat:
  "(\<And>x. x \<in> set xs \<Longrightarrow> \<exists>y. f x = Inr y) \<Longrightarrow>
   traverse f xs = Inr (concat (map (\<lambda>x. case f x of Inl _ \<Rightarrow> [] | Inr y \<Rightarrow> [y]) xs))"
proof (induction xs)
  case (Cons x xs)
  then obtain y where "f x = Inr y" by auto
  then show ?case using Cons by simp
qed simp

lemma list_orders_joined:
  assumes "movement_skus d \<subseteq> sku_id ` set (db_skus d)"
  shows "list_orders d = Inr (sort_key movement_key (joined d))"
proof -
  let ?W = "set (map en_sku_id (db_entries d) @ map ex_sku_id (db_exits d))"
  let ?rows = "filter (\<lambda>r. sku_id r \<in> ?W) (db_skus d)"
  have "k \<in> set (map sku_id ?rows)" if k: "k \<in> ?W" for k
  proof -
    have "k \<in> movement_skus d" using k by (auto simp: movement_skus_def)
    then obtain r where "r \<in> set (db_skus d)" "sku_id r = k" using assms by auto
    then have "r \<in> set ?rows" "sku_id r = k" using k by auto
    then show ?thesis by (metis imageI list.set_map)
  qed
  then have miss: "?W - set (map sku_id ?rows) = {}" by blast
  have found: "\<exists>r. sku_of (db_skus d) k = Some r" if "k \<in> ?W" for k
    using assms that sku_of_None [of "db_skus d" k] by (cases "sku_of (db_skus d) k") (auto simp: movement_skus_def)
  have en: "entry_movement ?rows e = entry_movement (db_skus d) e \<and> (\<exists>m. entry_movement (db_skus d) e = Inr m)"
    if "e \<in> set (db_entries d)" for e
  proof -
    have "en_sku_id e \<in> ?W" using that by simp
    then obtain r where "sku_of (db_skus d) (en_sku_id e) = Some r"
      "sku_of ?rows (en_sku_id e) = Some r"
      using found [of "en_sku_id e"] sku_of_filter [of "en_sku_id e" ?W "db_skus d"] by metis
    then show ?thesis by (simp only: entry_movement_def option.case) blast
  qed
  have ex: "exit_movement ?rows x = exit_movement (db_skus d) x \<and> (\<exists>m. exit_movement (db_skus d) x = Inr m)"
    if "x \<in> set (db_exits d)" for x
  proof -
    have "ex_sku_id x \<in> ?W" using that by simp
    then obtain r where "sku_of (db_skus d) (ex_sku_id x) = Some r"
      "sku_of ?rows (ex_sku_id x) = Some r"
      using found [of "ex_sku_id x"] sku_of_filter [of "ex_sku_id x" ?W "db_skus d"] by metis
    then show ?thesis by (simp only: exit_movement_def option.case) blast
  qed
  have "traverse (entry_movement ?rows) (db_entries d) =
      Inr (concat (map (\<lambda>e. case entry_movement ?rows e of Inl _ \<Rightarrow> [] | Inr y \<Rightarrow> [y]) (db_entries d)))"
    by (rule traverse_concat) (use en in metis)
  also have "\<dots> = Inr (concat (map (\<lambda>e. case entry_movement (db_skus d) e of Inl _ \<Rightarrow> [] | Inr y \<Rightarrow> [y]) (db_entries d)))"
    using en by (simp cong: map_cong)
  finally have t1: "traverse (entry_movement ?rows) (db_entries d) = \<dots>" .
  have "traverse (exit_movement ?rows) (db_exits d) =
      Inr (concat (map (\<lambda>x. case exit_movement ?rows x of Inl _ \<Rightarrow> [] | Inr y \<Rightarrow> [y]) (db_exits d)))"
    by (rule traverse_concat) (use ex in metis)
  also have "\<dots> = Inr (concat (map (\<lambda>x. case exit_movement (db_skus d) x of Inl _ \<Rightarrow> [] | Inr y \<Rightarrow> [y]) (db_exits d)))"
    using ex by (simp cong: map_cong)
  finally have t2: "traverse (exit_movement ?rows) (db_exits d) = \<dots>" .
  show ?thesis
    unfolding list_orders_def Let_def t1 t2 miss joined_def
    by (simp add: map_concat)
qed

lemma movement_skus_known: "inventory_ok d \<Longrightarrow> movement_skus d \<subseteq> sku_id ` set (db_skus d)"
  by (fastforce simp: inventory_ok_def tables_ok_def movement_of_sku_def movement_skus_def sku_warehouses_def)

lemma joined_warehouse:
  assumes "inventory_ok d" and "m \<in> set (joined d)"
  shows "parse_warehouse (mv_warehouse m) \<noteq> None"
proof -
  have known: "parse_warehouse w \<noteq> None" if "(k, w) \<in> sku_warehouses d" for k w
    using inventory_ok_skus [OF assms(1)] that by (auto simp: sku_warehouses_def sku_ok_def)
  have "\<exists>k. (k, mv_warehouse m) \<in> sku_warehouses d"
    using assms unfolding joined_def inventory_ok_def tables_ok_def movement_of_sku_def
    by (auto simp: entry_movement_def exit_movement_def split: option.splits) blast+
  then show ?thesis using known by blast
qed

lemma orders_projection_ok:
  assumes "inventory_ok d"
  shows "\<exists>v. orders_projection d = Inr v"
proof -
  have l: "list_orders d = Inr (sort_key movement_key (joined d))"
    by (rule list_orders_joined [OF movement_skus_known [OF assms]])
  have "\<exists>v. order_item_of m = Inr v" if "m \<in> set (sort_key movement_key (joined d))" for m
    using joined_warehouse [OF assms, of m] that by (auto simp: order_item_of_def)
  then obtain g where "\<And>m. m \<in> set (sort_key movement_key (joined d)) \<Longrightarrow> order_item_of m = Inr (g m)"
    by metis
  then have "traverse order_item_of (sort_key movement_key (joined d)) = Inr (map g (sort_key movement_key (joined d)))"
    by (rule traverse_Inr)
  then show ?thesis by (simp add: orders_projection_def l order_items_to_response_def)
qed

section \<open>Requests\<close>

lemma snd_reply: "snd (reply f m s) = snd (m s)"
  by (simp add: reply_def snd_bind_cmd split: prod.splits sum.splits)

lemma snd_checked: "snd (checked c m s) = (case c of Inl _ \<Rightarrow> s | Inr _ \<Rightarrow> snd (m s))"
  by (simp add: checked_def snd_bind_cmd split: sum.splits)

lemma snd_bind_pure:
  "(\<And>a t. snd (f a t) = t) \<Longrightarrow> snd (bind_cmd m f s) = snd (m s)"
  by (simp add: snd_bind_cmd split: prod.splits sum.splits)

text \<open>The service operation behind each handler leaves the state the handler leaves.\<close>

lemma handler_states:
  "snd (configure_product_threshold E k th s) = snd (update_sku_threshold E k th s)"
  "snd (create_order_with_dispatches E p1 user rid s) = snd (create_commercial_order E p1 user rid s)"
  "snd (append_order_dispatches E i p2 user rid s) =
     (if i = da_order_id p2 then snd (append_commercial_order_dispatches E p2 user rid s) else s)"
  "snd (create_inbound_order E p3 user rid s) = snd (create_stock_entry E p3 user rid s)"
  "snd (create_outbound_order E p4 user rid s) = snd (create_stock_exit E p4 user rid s)"
  by (simp_all add: configure_product_threshold_def create_order_with_dispatches_def
      append_order_dispatches_def create_inbound_order_def create_outbound_order_def
      snd_bind_pure split_def Let_def split: prod.splits sum.splits)

lemma disciplined_locks: "disciplined E m s \<Longrightarrow> extends_by s (snd (m s)) 4"
  by (auto simp: disciplined_def split: prod.splits sum.splits)

lemma extends_self: "extends_by s s 4"
  using extends_mono [OF extends_refl] by simp

lemma reads_locks:
  "lock_log (snd (list_products E s)) = lock_log s"
  "lock_log (snd (list_orders_endpoint E s)) = lock_log s"
  by (auto simp: list_products_def list_orders_endpoint_def Let_def split: prod.splits option.splits sum.splits)

lemma handle_locks:
  assumes "inventory_ok (inv_db s)"
  shows "extends_by s (snd (handle E user rid r s)) 4"
proof -
  have same: "lock_log t = lock_log s \<Longrightarrow> extends_by s t 4" for t
    using extends_self extends_same by blast
  have prod: "lock_log (snd (create_product E p user rid s)) = lock_log s" for p
    using create_product_frame [of E p user rid s] by (metis prod.collapse)
  have reads: "extends_by s (snd (list_products E s)) 4" "extends_by s (snd (list_orders_endpoint E s)) 4"
    "extends_by s (snd (create_product E p user rid s)) 4" for p
    by (rule same, simp only: reads_locks prod)+
  show ?thesis
    by (cases r) (auto simp: snd_reply snd_checked handler_states reads extends_self
        intro!: disciplined_locks update_threshold_disciplined create_order_disciplined
          append_disciplined stock_entry_disciplined stock_exit_disciplined confirm_count_disciplined
        split: sum.splits)
qed

lemma handle_coherent:
  assumes ok: "inventory_ok (inv_db s)" and co: "coherent (env_bind_id E) s" and doubt: "\<not> commit_in_doubt E"
  shows "coherent (env_bind_id E) (snd (handle E user rid r s))"
proof -
  have products: "coherent (env_bind_id E) (snd (list_products E s))"
  proof -
    obtain v where v: "products_projection (inv_db s) = Inr v" using products_projection_ok [OF ok] by blast
    show ?thesis
      using co v ttl.fetch_holds [of "products_cache s" "inventory_cache_key ''products'' (env_bind_id E)"
          v "env_clock E"]
      by (auto simp: list_products_fetch [OF v] coherent_def split: prod.splits)
  qed
  have orders: "coherent (env_bind_id E) (snd (list_orders_endpoint E s))"
  proof -
    obtain v where v: "orders_projection (inv_db s) = Inr v" using orders_projection_ok [OF ok] by blast
    show ?thesis
      using co v ttl.fetch_holds [of "orders_cache s" "inventory_cache_key ''orders'' (env_bind_id E)"
          v "env_clock E"]
      by (auto simp: list_orders_fetch [OF v] coherent_def split: prod.splits)
  qed
  show ?thesis
    by (cases r) (auto simp: snd_reply snd_checked handler_states co products orders
        coherent_create_product [OF ok co doubt]
        intro!: coherent_op [OF _ _ co doubt] update_threshold_disciplined create_order_disciplined
          append_disciplined stock_entry_disciplined stock_exit_disciplined confirm_count_disciplined
          update_sku_threshold_atomic create_commercial_order_atomic append_dispatches_atomic
          create_stock_entry_atomic create_stock_exit_atomic confirm_count_atomic
        split: sum.splits)
qed

text \<open>
  The states reached by requests of one process, one after another, none of which is in doubt.
\<close>

inductive served :: "int \<Rightarrow> inventory_state \<Rightarrow> inventory_state \<Rightarrow> bool" for b s0 where
  served_init: "served b s0 s0"
| served_step: "served b s0 s \<Longrightarrow> env_bind_id E = b \<Longrightarrow> \<not> commit_in_doubt E \<Longrightarrow> handle E user rid r s = (res, t) \<Longrightarrow> served b s0 t"

lemma served_coherent:
  "served b s0 s \<Longrightarrow> inventory_ok (inv_db s0) \<Longrightarrow> coherent b s0 \<Longrightarrow>
   inventory_ok (inv_db s) \<and> coherent b s"
proof (induction rule: served.induct)
  case (served_step s E user rid r res t)
  then have ok: "inventory_ok (inv_db s)" and co: "coherent (env_bind_id E) s" by simp_all
  have "inv_db t = inv_db s \<or> txn (inv_db s) (inv_db t)"
    using handle_atomic [OF ok, of E user rid r] served_step(4)
    by (auto simp: atomic_at_def split: sum.splits)
  moreover have "coherent (env_bind_id E) t"
    using handle_coherent [OF ok co served_step(3), of user rid r] served_step(4) by simp
  ultimately show ?case using ok served_step(2) by (auto intro: txn_ok)
qed simp

lemma joined_entry:
  assumes "movement_skus d \<subseteq> sku_id ` set (db_skus d)" and "e \<in> set (db_entries d)"
  shows "\<exists>m. entry_movement (db_skus d) e = Inr m \<and> mv_movement_type m = ''inbound'' \<and> mv_id m = en_id e"
proof -
  have "en_sku_id e \<in> sku_id ` set (db_skus d)" using assms by (auto simp: movement_skus_def)
  then obtain r where "sku_of (db_skus d) (en_sku_id e) = Some r"
    using sku_of_None by (metis not_Some_eq)
  then show ?thesis by (simp add: entry_movement_def)
qed

lemma joined_exit:
  assumes "movement_skus d \<subseteq> sku_id ` set (db_skus d)" and "x \<in> set (db_exits d)"
  shows "\<exists>m. exit_movement (db_skus d) x = Inr m \<and> mv_movement_type m = ''outbound'' \<and> mv_id m = ex_id x"
proof -
  have "ex_sku_id x \<in> sku_id ` set (db_skus d)" using assms by (auto simp: movement_skus_def)
  then obtain r where "sku_of (db_skus d) (ex_sku_id x) = Some r"
    using sku_of_None by (metis not_Some_eq)
  then show ?thesis by (simp add: exit_movement_def)
qed

lemma concat_singletons:
  "(\<And>x. x \<in> set xs \<Longrightarrow> \<exists>y. f x = Inr y \<and> g y = h x) \<Longrightarrow>
   map g (concat (map (\<lambda>x. map (\<lambda>m. m) (case f x of Inl _ \<Rightarrow> [] | Inr y \<Rightarrow> [y])) xs)) = map h xs"
proof (induction xs)
  case (Cons x xs)
  then obtain y where "f x = Inr y" "g y = h x" by auto
  then show ?case using Cons by simp
qed simp

lemma joined_keys:
  assumes "movement_skus d \<subseteq> sku_id ` set (db_skus d)"
  shows "map (\<lambda>m. (mv_movement_type m, mv_id m)) (joined d) =
    map (\<lambda>e. (''inbound'', en_id e)) (db_entries d) @ map (\<lambda>x. (''outbound'', ex_id x)) (db_exits d)"
  unfolding joined_def map_append
  using joined_entry [OF assms] joined_exit [OF assms]
  by (intro arg_cong2 [of _ _ _ _ "(@)"] concat_singletons) force+

lemma joined_length:
  "movement_skus d \<subseteq> sku_id ` set (db_skus d) \<Longrightarrow>
   length (joined d) = length (db_entries d) + length (db_exits d)"
  using arg_cong [OF joined_keys, of d length] by simp

lemma joined_ids:
  "movement_skus d \<subseteq> sku_id ` set (db_skus d) \<Longrightarrow>
   (\<lambda>m. (mv_movement_type m, mv_id m)) ` set (joined d) =
     (\<lambda>e. (''inbound'', en_id e)) ` set (db_entries d) \<union> (\<lambda>x. (''outbound'', ex_id x)) ` set (db_exits d)"
  using arg_cong [OF joined_keys, of d set] by simp

lemma order_items_keys:
  assumes "order_items_to_response ms = Inr v"
  shows "map (\<lambda>i. (oi_created_at i, oi_movement_type i, oi_id i)) v = map movement_key ms"
proof -
  have "list_all2 (\<lambda>m i. order_item_of m = Inr i) ms v"
    using assms unfolding order_items_to_response_def by (rule traverse_InrD)
  then show ?thesis
    by (induction rule: list_all2_induct)
      (auto simp: order_item_of_def movement_key_def split: option.splits)
qed

end
