(* ===== verification/InventoryRaces.thy ===== *)
theory InventoryRaces
  imports InventoryCoherence
begin

text \<open>
  The cached lists of \<open>services/api/routes/inventory.py\<close> when requests overlap. One process of many is
  followed: a list request that misses the cache runs its three queries at different moments, each of
  which sees the tables committed by then, and stores its result at the end; in between, requests of
  this process are served, other sessions commit, and an invalidation of a commit comes late or never.
  The log keeps every state of the tables with the clock of the process, so that a list can be traced
  back to the tables it was computed from.
\<close>

section \<open>Runs of one process\<close>

text \<open>The tables as three queries saw them, products, receipts and issues each at its own moment.\<close>

definition mixed :: "inventory_db \<Rightarrow> inventory_db \<Rightarrow> inventory_db \<Rightarrow> inventory_db" where
  "mixed skus entries exits = skus\<lparr>db_entries := db_entries entries, db_exits := db_exits exits\<rparr>"

lemma mixed_same [simp]: "mixed d d d = d"
  by (simp add: mixed_def)

text \<open>
  The queries of the two lists in the order of the code: products, receipts, issues in
  \<open>list_products\<close> and \<open>get_current_stocks\<close>; receipts, issues, products in \<open>list_orders\<close>.
\<close>

definition products_read :: "inventory_db \<Rightarrow> inventory_db \<Rightarrow> inventory_db \<Rightarrow> api_error + sku_response list" where
  "products_read a b c = products_projection (mixed a b c)"

definition orders_read :: "inventory_db \<Rightarrow> inventory_db \<Rightarrow> inventory_db \<Rightarrow> api_error + order_item list" where
  "orders_read a b c = orders_projection (mixed c a b)"

datatype listing = ProductList | MovementList

record reading =
  rg_listing :: listing
  rg_began :: rat
  rg_tables :: "inventory_db list"

record race =
  rc_state :: inventory_state
  rc_clock :: rat
  rc_log :: "(rat \<times> inventory_db) list"
  rc_readings :: "reading list"

definition logged :: "race \<Rightarrow> race" where
  "logged r = r\<lparr>rc_log := rc_log r @ [(rc_clock r, inv_db (rc_state r))]\<rparr>"

definition miss :: "int \<Rightarrow> race \<Rightarrow> listing \<Rightarrow> inventory_state option" where
  "miss b r l =
     (let s = rc_state r in
      case l of
        ProductList \<Rightarrow>
          (case cache_get (rc_clock r) (inventory_cache_key ''products'' b) None (products_cache s) of
             (Some _, _) \<Rightarrow> None | (None, c) \<Rightarrow> Some (s\<lparr>products_cache := c\<rparr>))
      | MovementList \<Rightarrow>
          (case cache_get (rc_clock r) (inventory_cache_key ''orders'' b) None (orders_cache s) of
             (Some _, _) \<Rightarrow> None | (None, c) \<Rightarrow> Some (s\<lparr>orders_cache := c\<rparr>)))"

text \<open>The end of a read: the result of its three queries is stored; a result that raises is not.\<close>

definition store_reading :: "int \<Rightarrow> rat \<Rightarrow> reading \<Rightarrow> inventory_state \<Rightarrow> inventory_state" where
  "store_reading b now g s =
     (case rg_tables g of
        [x, y, z] \<Rightarrow>
          (case rg_listing g of
             ProductList \<Rightarrow>
               (case products_read x y z of
                  Inl _ \<Rightarrow> s
                | Inr v \<Rightarrow> s\<lparr>products_cache :=
                    cache_set now (inventory_cache_key ''products'' b) v (products_cache s)\<rparr>)
           | MovementList \<Rightarrow>
               (case orders_read x y z of
                  Inl _ \<Rightarrow> s
                | Inr v \<Rightarrow> s\<lparr>orders_cache :=
                    cache_set now (inventory_cache_key ''orders'' b) v (orders_cache s)\<rparr>))
      | _ \<Rightarrow> s)"

text \<open>
  The steps: time passes; a request of this process runs by itself; another session commits, or a
  request of this process whose invalidation is still to come; an invalidation comes; a list request
  begins after a miss, runs its next query, ends, or is given up. No read takes longer than \<open>D\<close>.
\<close>

inductive race_step :: "int \<Rightarrow> rat \<Rightarrow> race \<Rightarrow> race \<Rightarrow> bool" for b D where
  race_time: "rc_clock r \<le> now \<Longrightarrow> race_step b D r (logged (r\<lparr>rc_clock := now\<rparr>))"
| race_request: "env_bind_id E = b \<Longrightarrow> env_clock E = rc_clock r \<Longrightarrow>
    handle E user request_id q (rc_state r) = (res, t) \<Longrightarrow> race_step b D r (logged (r\<lparr>rc_state := t\<rparr>))"
| race_commit: "race_step b D r (logged (r\<lparr>rc_state := (rc_state r)\<lparr>inv_db := d\<rparr>\<rparr>))"
| race_invalidate: "env_bind_id E = b \<Longrightarrow>
    race_step b D r (r\<lparr>rc_state := invalidate_inventory_cache E (rc_state r)\<rparr>)"
| race_invalidate_products: "env_bind_id E = b \<Longrightarrow>
    race_step b D r (r\<lparr>rc_state := invalidate_products_cache E (rc_state r)\<rparr>)"
| race_begin: "miss b r l = Some s \<Longrightarrow>
    race_step b D r (r\<lparr>rc_state := s,
      rc_readings := \<lparr>rg_listing = l, rg_began = rc_clock r, rg_tables = []\<rparr> # rc_readings r\<rparr>)"
| race_query: "rc_readings r = gs @ g # hs \<Longrightarrow>
    race_step b D r (r\<lparr>rc_readings :=
      gs @ g\<lparr>rg_tables := rg_tables g @ [inv_db (rc_state r)]\<rparr> # hs\<rparr>)"
| race_end: "rc_readings r = gs @ g # hs \<Longrightarrow> rc_clock r \<le> rg_began g + D \<Longrightarrow>
    race_step b D r (r\<lparr>rc_state := store_reading b (rc_clock r) g (rc_state r), rc_readings := gs @ hs\<rparr>)"
| race_give_up: "rc_readings r = gs @ g # hs \<Longrightarrow> race_step b D r (r\<lparr>rc_readings := gs @ hs\<rparr>)"

definition race_start :: "race \<Rightarrow> bool" where
  "race_start r \<longleftrightarrow> rc_log r = [(rc_clock r, inv_db (rc_state r))] \<and> rc_readings r = [] \<and>
     cache_entries (products_cache (rc_state r)) = [] \<and> cache_entries (orders_cache (rc_state r)) = [] \<and>
     0 < ttl_seconds (products_cache (rc_state r)) \<and> 0 < ttl_seconds (orders_cache (rc_state r))"

section \<open>Tracing a list back to the log\<close>

text \<open>A value computed from three states of the log, in order, the first not before an instant.\<close>

definition traced :: "(rat \<times> inventory_db) list \<Rightarrow> (rat \<Rightarrow> bool) \<Rightarrow>
    (inventory_db \<Rightarrow> inventory_db \<Rightarrow> inventory_db \<Rightarrow> api_error + 'v) \<Rightarrow> 'v \<Rightarrow> bool" where
  "traced L since read v \<longleftrightarrow>
     (\<exists>i j k. i \<le> j \<and> j \<le> k \<and> k < length L \<and> since (fst (L ! i)) \<and>
        read (snd (L ! i)) (snd (L ! j)) (snd (L ! k)) = Inr v)"

lemma traced_append: "traced L since read v \<Longrightarrow> traced (L @ M) since read v"
  unfolding traced_def by (elim exE conjE, rule exI, rule exI, rule exI) (auto simp: nth_append)

lemma traced_mono: "traced L since read v \<Longrightarrow> (\<And>c. since c \<Longrightarrow> since' c) \<Longrightarrow> traced L since' read v"
  by (auto simp: traced_def)

lemma traced_now: "L \<noteq> [] \<Longrightarrow> last L = (c, d) \<Longrightarrow> since c \<Longrightarrow> read d d d = Inr v \<Longrightarrow> traced L since read v"
  unfolding traced_def
  by (rule exI [of _ "length L - 1"], rule exI [of _ "length L - 1"], rule exI [of _ "length L - 1"])
    (simp add: last_conv_nth)

text \<open>The entry of a key is traced: it expires at most \<open>age\<close> after the first state it was computed from.\<close>

definition dated :: "(rat \<times> inventory_db) list \<Rightarrow> rat \<Rightarrow>
    (inventory_db \<Rightarrow> inventory_db \<Rightarrow> inventory_db \<Rightarrow> api_error + 'v) \<Rightarrow> string \<Rightarrow> 'v ttl_cache \<Rightarrow> bool" where
  "dated L age read key c \<longleftrightarrow>
     (\<forall>e. map_of (cache_entries c) key = Some e \<longrightarrow> traced L (\<lambda>t. ce_expires_at e \<le> t + age) read (ce_value e))"

lemma dated_append: "dated L age read key c \<Longrightarrow> dated (L @ M) age read key c"
  by (auto simp: dated_def intro: traced_append)

lemma dated_get: "dated L age read key c \<Longrightarrow> dated L age read key (snd (cache_get now k dflt c))"
  by (auto simp: dated_def cache_get_def AList.delete_conv' split: option.splits if_splits)

lemma dated_delete: "dated L age read key c \<Longrightarrow> dated L age read key (snd (cache_delete k c))"
  by (auto simp: dated_def cache_delete_def AList.delete_conv' split: if_splits)

lemma dated_set:
  assumes "dated L age read key c" and "traced L (\<lambda>t. now + ttl_seconds c \<le> t + age) read v"
  shows "dated L age read key (cache_set now key v c)"
  using assms by (auto simp: dated_def cache_set_def AList.update_conv')

lemma dated_empty: "cache_entries c = [] \<Longrightarrow> dated L age read key c"
  by (simp add: dated_def)

lemma ttl_kept [simp]:
  "ttl_seconds (snd (cache_get now k dflt c)) = ttl_seconds c"
  "ttl_seconds (snd (cache_delete k c)) = ttl_seconds c"
  "ttl_seconds (cache_set now k v c) = ttl_seconds c"
  by (auto simp: cache_get_def cache_delete_def cache_set_def split: option.splits)

text \<open>What a reader finds is younger than \<open>age\<close>.\<close>

lemma dated_found:
  assumes "dated L age read key c" and "fst (cache_get now key None c) = Some v"
  shows "traced L (\<lambda>t. now - age < t) read v"
proof -
  from assms(2) obtain e where e: "map_of (cache_entries c) key = Some e" "now < ce_expires_at e" "v = ce_value e"
    by (auto simp: cache_get_def not_le split: option.splits if_splits)
  have "traced L (\<lambda>t. ce_expires_at e \<le> t + age) read v" using assms(1) e by (simp add: dated_def)
  then show ?thesis by (rule traced_mono) (use e(2) in simp)
qed

section \<open>The invariant of a run\<close>

definition reading_ok :: "race \<Rightarrow> reading \<Rightarrow> bool" where
  "reading_ok r g \<longleftrightarrow>
     (\<exists>is. sorted is \<and> rg_tables g = map (\<lambda>i. snd (rc_log r ! i)) is \<and>
        (\<forall>i \<in> set is. i < length (rc_log r) \<and> rg_began g \<le> fst (rc_log r ! i)))"

definition race_ok :: "int \<Rightarrow> rat \<Rightarrow> rat \<Rightarrow> rat \<Rightarrow> race \<Rightarrow> bool" where
  "race_ok b D p m r \<longleftrightarrow>
     (let s = rc_state r; L = rc_log r in
      L \<noteq> [] \<and> last L = (rc_clock r, inv_db s) \<and> sorted (map fst L) \<and>
      ttl_seconds (products_cache s) = p \<and> ttl_seconds (orders_cache s) = m \<and>
      dated L (p + D) products_read (inventory_cache_key ''products'' b) (products_cache s) \<and>
      dated L (m + D) orders_read (inventory_cache_key ''orders'' b) (orders_cache s) \<and>
      (\<forall>g \<in> set (rc_readings r). rg_began g \<le> rc_clock r \<and> reading_ok r g))"

lemma reading_ok_append:
  assumes "reading_ok r g" and "rc_log r' = rc_log r @ M"
  shows "reading_ok r' g"
proof -
  from assms(1) obtain "is" where "is": "sorted is" "rg_tables g = map (\<lambda>i. snd (rc_log r ! i)) is"
    "\<forall>i \<in> set is. i < length (rc_log r) \<and> rg_began g \<le> fst (rc_log r ! i)" by (auto simp: reading_ok_def)
  then show ?thesis
    unfolding reading_ok_def assms(2) by (intro exI [of _ "is"]) (auto simp: nth_append)
qed

lemma reading_ok_query:
  assumes "reading_ok r g" and "rg_began g \<le> rc_clock r" and "last (rc_log r) = (rc_clock r, d)" and "rc_log r \<noteq> []"
  shows "reading_ok r (g\<lparr>rg_tables := rg_tables g @ [d]\<rparr>)"
proof -
  let ?n = "length (rc_log r) - 1"
  from assms(1) obtain "is" where "is": "sorted is" "rg_tables g = map (\<lambda>i. snd (rc_log r ! i)) is"
    "\<forall>i \<in> set is. i < length (rc_log r) \<and> rg_began g \<le> fst (rc_log r ! i)" by (auto simp: reading_ok_def)
  have n: "rc_log r ! ?n = (rc_clock r, d)" "?n < length (rc_log r)" using assms(3,4) by (simp_all add: last_conv_nth)
  have "sorted (is @ [?n])" using "is"(1,3) by (fastforce simp: sorted_append)
  then show ?thesis
    unfolding reading_ok_def using "is" n assms(2) by (intro exI [of _ "is @ [?n]"]) auto
qed

text \<open>What a request does to the two caches.\<close>

lemma disciplined_caches: "disciplined E m s \<Longrightarrow> caches_kept s (snd (m s)) \<or> caches_dropped E s (snd (m s))"
  by (auto simp: disciplined_def split: prod.splits sum.splits)

lemma write_caches:
  "caches_kept s (snd (update_sku_threshold E k th s)) \<or> caches_dropped E s (snd (update_sku_threshold E k th s))"
  "caches_kept s (snd (confirm_inventory_physical_count E p1 user rid s)) \<or>
     caches_dropped E s (snd (confirm_inventory_physical_count E p1 user rid s))"
  "caches_kept s (snd (create_commercial_order E p2 user rid s)) \<or>
     caches_dropped E s (snd (create_commercial_order E p2 user rid s))"
  "caches_kept s (snd (append_commercial_order_dispatches E p3 user rid s)) \<or>
     caches_dropped E s (snd (append_commercial_order_dispatches E p3 user rid s))"
  "caches_kept s (snd (create_stock_entry E p4 user rid s)) \<or> caches_dropped E s (snd (create_stock_entry E p4 user rid s))"
  "caches_kept s (snd (create_stock_exit E p5 user rid s)) \<or> caches_dropped E s (snd (create_stock_exit E p5 user rid s))"
  by (intro disciplined_caches update_threshold_disciplined confirm_count_disciplined create_order_disciplined
      append_disciplined stock_entry_disciplined stock_exit_disciplined)+

text \<open>One cache after a request: kept, evicted, or filled with the projection of the current tables.\<close>

definition refilled :: "env \<Rightarrow> string \<Rightarrow> (inventory_db \<Rightarrow> api_error + 'v) \<Rightarrow> inventory_db \<Rightarrow> inventory_db \<Rightarrow>
    'v ttl_cache \<Rightarrow> 'v ttl_cache \<Rightarrow> bool" where
  "refilled E key proj d d' c c' \<longleftrightarrow>
     c' = c \<or> c' = snd (cache_delete key c) \<or> c' = snd (cache_get (env_clock E) key None c) \<or>
     d' = d \<and> (\<exists>v. proj d = Inr v \<and> c' = cache_set (env_clock E) key v (snd (cache_get (env_clock E) key None c)))"

lemma kept_refilled:
  "caches_kept s t \<or> caches_dropped E s t \<Longrightarrow>
   refilled E (inventory_cache_key ''products'' (env_bind_id E)) products_projection d d' (products_cache s) (products_cache t) \<and>
   refilled E (inventory_cache_key ''orders'' (env_bind_id E)) orders_projection d d' (orders_cache s) (orders_cache t)"
  by (auto simp: caches_kept_def caches_dropped_def refilled_def)

lemma list_products_refilled:
  "refilled E (inventory_cache_key ''products'' (env_bind_id E)) products_projection (inv_db s) (inv_db (snd (list_products E s)))
     (products_cache s) (products_cache (snd (list_products E s))) \<and> orders_cache (snd (list_products E s)) = orders_cache s"
  by (auto simp: list_products_def refilled_def Let_def split: prod.splits option.splits sum.splits)

lemma list_orders_refilled:
  "refilled E (inventory_cache_key ''orders'' (env_bind_id E)) orders_projection (inv_db s) (inv_db (snd (list_orders_endpoint E s)))
     (orders_cache s) (orders_cache (snd (list_orders_endpoint E s))) \<and>
   products_cache (snd (list_orders_endpoint E s)) = products_cache s"
  by (auto simp: list_orders_endpoint_def refilled_def Let_def split: prod.splits option.splits sum.splits)

lemma refilled_same: "refilled E key proj d d' c c"
  by (simp add: refilled_def)

lemma create_product_refilled:
  "refilled E (inventory_cache_key ''products'' (env_bind_id E)) products_projection d d'
     (products_cache s) (products_cache (snd (create_product E p user rid s))) \<and>
   orders_cache (snd (create_product E p user rid s)) = orders_cache s"
  using create_product_frame [of E p user rid s "fst (create_product E p user rid s)" "snd (create_product E p user rid s)"]
  by (auto simp: refilled_def caches_kept_def)

lemma handle_refilled:
  assumes "handle E user rid q s = (res, t)"
  shows "refilled E (inventory_cache_key ''products'' (env_bind_id E)) products_projection (inv_db s) (inv_db t)
      (products_cache s) (products_cache t) \<and>
    refilled E (inventory_cache_key ''orders'' (env_bind_id E)) orders_projection (inv_db s) (inv_db t)
      (orders_cache s) (orders_cache t)"
proof -
  have t: "t = snd (handle E user rid q s)" using assms by simp
  show ?thesis
    unfolding t
    by (cases q) (auto simp: snd_reply snd_checked handler_states refilled_same list_products_refilled list_orders_refilled
        create_product_refilled write_caches [THEN kept_refilled, THEN conjunct1]
        write_caches [THEN kept_refilled, THEN conjunct2] split: sum.splits)
qed

lemma refilled_dated:
  assumes "refilled E key proj d d' c c'" and "dated L (ttl_seconds c + D) read key c" and "0 \<le> D"
    and "\<And>d. read d d d = proj d"
  shows "dated (L @ [(env_clock E, d')]) (ttl_seconds c + D) read key c' \<and> ttl_seconds c' = ttl_seconds c"
proof -
  let ?L = "L @ [(env_clock E, d')]"
  note old = dated_append [OF assms(2), of "[(env_clock E, d')]"]
  have now: "traced ?L (\<lambda>t. env_clock E + ttl_seconds c \<le> t + (ttl_seconds c + D)) read v" if "proj d' = Inr v" for v
    by (rule traced_now [of _ "env_clock E" d']) (use that assms(3,4) in simp_all)
  from assms(1) show ?thesis
    unfolding refilled_def
    by (elim disjE exE conjE) (use old now in \<open>auto intro!: dated_get dated_delete dated_set\<close>)
qed

section \<open>Preservation\<close>

text \<open>A step that adds a state to the log: the caches are dated by the new log, the reads are as before.\<close>

lemma race_ok_logged:
  assumes ok: "race_ok b D p m r" and now: "rc_clock r \<le> rc_clock r'" and log: "rc_log r' = rc_log r"
    and reads: "rc_readings r' = rc_readings r"
    and caches: "dated (rc_log (logged r')) (p + D) products_read (inventory_cache_key ''products'' b) (products_cache (rc_state r'))"
      "dated (rc_log (logged r')) (m + D) orders_read (inventory_cache_key ''orders'' b) (orders_cache (rc_state r'))"
    and ttls: "ttl_seconds (products_cache (rc_state r')) = p" "ttl_seconds (orders_cache (rc_state r')) = m"
  shows "race_ok b D p m (logged r')"
proof -
  have last_log: "rc_log r \<noteq> []" "last (rc_log r) = (rc_clock r, inv_db (rc_state r))" "sorted (map fst (rc_log r))"
    using ok by (simp_all add: race_ok_def Let_def)
  have "c \<le> rc_clock r" if "c \<in> set (map fst (rc_log r))" for c
  proof -
    obtain xs where xs: "map fst (rc_log r) = xs @ [rc_clock r]"
      using last_log by (metis append_butlast_last_id fst_conv last_map map_is_Nil_conv)
    then show ?thesis using that last_log(3) by (auto simp: sorted_append)
  qed
  then have "sorted (map fst (rc_log (logged r')))"
    using last_log(3) now by (auto simp: logged_def log sorted_append intro: order_trans)
  moreover have "reading_ok (logged r') g \<and> rg_began g \<le> rc_clock r'" if "g \<in> set (rc_readings r)" for g
    using ok that now reading_ok_append [of r g "logged r'"] by (fastforce simp: race_ok_def Let_def logged_def log)
  ultimately show ?thesis
    using caches ttls reads by (auto simp: race_ok_def Let_def logged_def)
qed

text \<open>A step that keeps the log, the clock and the tables.\<close>

lemma race_ok_kept:
  assumes ok: "race_ok b D p m r" and same: "rc_log r' = rc_log r" "rc_clock r' = rc_clock r"
      "inv_db (rc_state r') = inv_db (rc_state r)"
    and reads: "\<And>g. g \<in> set (rc_readings r') \<Longrightarrow> rg_began g \<le> rc_clock r \<and> reading_ok r g"
    and caches: "dated (rc_log r) (p + D) products_read (inventory_cache_key ''products'' b) (products_cache (rc_state r'))"
      "dated (rc_log r) (m + D) orders_read (inventory_cache_key ''orders'' b) (orders_cache (rc_state r'))"
    and ttls: "ttl_seconds (products_cache (rc_state r')) = p" "ttl_seconds (orders_cache (rc_state r')) = m"
  shows "race_ok b D p m r'"
proof -
  have "reading_ok r' g" if "g \<in> set (rc_readings r')" for g
    using reading_ok_append [of r g r' "[]"] reads [OF that] same(1) by simp
  then show ?thesis using ok same reads caches ttls by (auto simp: race_ok_def Let_def)
qed

lemma stored_dated:
  assumes g: "reading_ok r g" "rg_tables g = [x, y, z]" and fresh: "rc_clock r \<le> rg_began g + D"
    and v: "read x y z = Inr v"
  shows "traced (rc_log r) (\<lambda>t. rc_clock r + ttl \<le> t + (ttl + D)) read v"
proof -
  from g(1) obtain "is" where "is": "sorted is" "rg_tables g = map (\<lambda>i. snd (rc_log r ! i)) is"
    "\<forall>i \<in> set is. i < length (rc_log r) \<and> rg_began g \<le> fst (rc_log r ! i)" by (auto simp: reading_ok_def)
  from "is"(2) have "map (\<lambda>i. snd (rc_log r ! i)) is = [x, y, z]" using g(2) by simp
  then obtain i j k where ijk: "is = [i, j, k]" by (auto simp: map_eq_Cons_conv)
  have "rc_clock r + ttl \<le> fst (rc_log r ! i) + (ttl + D)"
    using "is"(3) fresh by (simp add: ijk)
  then show ?thesis
    unfolding traced_def
    using "is" g(2) v by (intro exI [of _ i] exI [of _ j] exI [of _ k]) (auto simp: ijk)
qed

lemma store_reading_ok:
  assumes ok: "race_ok b D p m r" and g: "g \<in> set (rc_readings r)" and fresh: "rc_clock r \<le> rg_began g + D"
  shows "let s = store_reading b (rc_clock r) g (rc_state r) in
    inv_db s = inv_db (rc_state r) \<and> ttl_seconds (products_cache s) = p \<and> ttl_seconds (orders_cache s) = m \<and>
    dated (rc_log r) (p + D) products_read (inventory_cache_key ''products'' b) (products_cache s) \<and>
    dated (rc_log r) (m + D) orders_read (inventory_cache_key ''orders'' b) (orders_cache s)"
proof -
  let ?s = "rc_state r"
  have old: "ttl_seconds (products_cache ?s) = p" "ttl_seconds (orders_cache ?s) = m"
    "dated (rc_log r) (p + D) products_read (inventory_cache_key ''products'' b) (products_cache ?s)"
    "dated (rc_log r) (m + D) orders_read (inventory_cache_key ''orders'' b) (orders_cache ?s)" "reading_ok r g"
    using ok g by (simp_all add: race_ok_def Let_def)
  show ?thesis
  proof (cases "\<exists>x y z. rg_tables g = [x, y, z]")
    case True
    then obtain x y z where t: "rg_tables g = [x, y, z]" by blast
    note st = stored_dated [OF old(5) t fresh]
    show ?thesis
      using old t st [of products_read _ p] st [of orders_read _ m]
      by (cases "rg_listing g"; cases "products_read x y z"; cases "orders_read x y z")
        (auto simp: store_reading_def Let_def intro!: dated_set)
  next
    case False
    then have "store_reading b (rc_clock r) g ?s = ?s"
      by (auto simp: store_reading_def split: list.splits)
    then show ?thesis using old by simp
  qed
qed

lemma miss_caches:
  assumes "miss b r l = Some s"
  shows "inv_db s = inv_db (rc_state r) \<and>
    products_cache s \<in> {products_cache (rc_state r),
      snd (cache_get (rc_clock r) (inventory_cache_key ''products'' b) None (products_cache (rc_state r)))} \<and>
    orders_cache s \<in> {orders_cache (rc_state r),
      snd (cache_get (rc_clock r) (inventory_cache_key ''orders'' b) None (orders_cache (rc_state r)))}"
  using assms by (cases l) (auto simp: miss_def Let_def split: prod.splits option.splits)

lemma race_step_ok:
  assumes step: "race_step b D r r'" and ok: "race_ok b D p m r" and D: "0 \<le> D"
  shows "race_ok b D p m r'"
proof -
  let ?s = "rc_state r"
  have old: "ttl_seconds (products_cache ?s) = p" "ttl_seconds (orders_cache ?s) = m"
    "dated (rc_log r) (p + D) products_read (inventory_cache_key ''products'' b) (products_cache ?s)"
    "dated (rc_log r) (m + D) orders_read (inventory_cache_key ''orders'' b) (orders_cache ?s)"
    and reads: "\<And>g. g \<in> set (rc_readings r) \<Longrightarrow> rg_began g \<le> rc_clock r \<and> reading_ok r g"
    and log: "rc_log r \<noteq> []" "last (rc_log r) = (rc_clock r, inv_db ?s)"
    using ok by (simp_all add: race_ok_def Let_def)
  from step show ?thesis
  proof cases
    case (race_time now)
    show ?thesis
      unfolding race_time(1) by (rule race_ok_logged [OF ok]) (use race_time(2) old in \<open>auto simp: logged_def intro: dated_append\<close>)
  next
    case (race_request E user rid q res t)
    from handle_refilled [OF race_request(4)] have
      c: "refilled E (inventory_cache_key ''products'' b) products_projection (inv_db ?s) (inv_db t) (products_cache ?s) (products_cache t)"
        "refilled E (inventory_cache_key ''orders'' b) orders_projection (inv_db ?s) (inv_db t) (orders_cache ?s) (orders_cache t)"
      by (simp_all add: race_request(2))
    have "dated (rc_log r @ [(env_clock E, inv_db t)]) (p + D) products_read (inventory_cache_key ''products'' b) (products_cache t) \<and>
        ttl_seconds (products_cache t) = p"
      using refilled_dated [OF c(1), of "rc_log r" D products_read] old D by (simp add: products_read_def)
    moreover have "dated (rc_log r @ [(env_clock E, inv_db t)]) (m + D) orders_read (inventory_cache_key ''orders'' b) (orders_cache t) \<and>
        ttl_seconds (orders_cache t) = m"
      using refilled_dated [OF c(2), of "rc_log r" D orders_read] old D by (simp add: orders_read_def)
    ultimately show ?thesis
      unfolding race_request(1) by (intro race_ok_logged [OF ok]) (simp_all add: logged_def race_request(3))
  next
    case (race_commit d)
    show ?thesis
      unfolding race_commit by (rule race_ok_logged [OF ok]) (use old in \<open>auto simp: logged_def intro: dated_append\<close>)
  next
    case (race_invalidate E)
    show ?thesis
      unfolding race_invalidate(1)
      by (rule race_ok_kept [OF ok]) (use old reads in \<open>auto simp: invalidate_inventory_cache_def
          invalidate_products_cache_def invalidate_orders_cache_def intro!: dated_delete\<close>)
  next
    case (race_invalidate_products E)
    show ?thesis
      unfolding race_invalidate_products(1)
      by (rule race_ok_kept [OF ok]) (use old reads in \<open>auto simp: invalidate_products_cache_def intro!: dated_delete\<close>)
  next
    case (race_begin l s)
    note s = miss_caches [OF race_begin(2)]
    have "reading_ok r \<lparr>rg_listing = l, rg_began = rc_clock r, rg_tables = []\<rparr>"
      unfolding reading_ok_def by (rule exI [of _ "[]"]) simp
    then show ?thesis
      unfolding race_begin(1)
      by (intro race_ok_kept [OF ok]) (use s old reads in \<open>auto intro: dated_get\<close>)
  next
    case (race_query gs g hs)
    have "reading_ok r (g\<lparr>rg_tables := rg_tables g @ [inv_db ?s]\<rparr>)"
      by (rule reading_ok_query) (use reads log race_query(2) in auto)
    then show ?thesis
      unfolding race_query(1) by (intro race_ok_kept [OF ok]) (use old reads race_query(2) in auto)
  next
    case (race_end gs g hs)
    have g: "g \<in> set (rc_readings r)" "\<And>h. h \<in> set (gs @ hs) \<Longrightarrow> h \<in> set (rc_readings r)"
      using race_end(2) by auto
    note st = store_reading_ok [OF ok g(1) race_end(3), unfolded Let_def]
    show ?thesis
      unfolding race_end(1) by (rule race_ok_kept [OF ok]) (use st reads g(2) in simp_all)
  next
    case (race_give_up gs g hs)
    have "h \<in> set (rc_readings r)" if "h \<in> set (gs @ hs)" for h using that race_give_up(2) by auto
    then show ?thesis
      unfolding race_give_up(1) by (intro race_ok_kept [OF ok]) (use old reads in simp_all)
  qed
qed

lemma race_start_ok:
  "race_start r \<Longrightarrow> race_ok b D (ttl_seconds (products_cache (rc_state r))) (ttl_seconds (orders_cache (rc_state r))) r"
  by (simp add: race_start_def race_ok_def Let_def dated_empty)

lemma race_steps_ok:
  assumes "(race_step b D)\<^sup>*\<^sup>* r0 r" and "race_start r0" and "0 \<le> D"
  shows "race_ok b D (ttl_seconds (products_cache (rc_state r0))) (ttl_seconds (orders_cache (rc_state r0))) r"
  using assms(1)
proof (induction rule: rtranclp_induct)
  case base
  show ?case by (rule race_start_ok [OF assms(2)])
next
  case (step r r')
  then show ?case using race_step_ok assms(3) by blast
qed

section \<open>What a list shows\<close>

text \<open>
  A list shows the tables of the last \<open>age\<close> seconds: it was computed from three states of the tables,
  each read after the one before, the first of them younger than \<open>age\<close>.
\<close>

definition shows_recent :: "race \<Rightarrow> rat \<Rightarrow> (inventory_db \<Rightarrow> inventory_db \<Rightarrow> inventory_db \<Rightarrow> api_error + 'v) \<Rightarrow> 'v \<Rightarrow> bool" where
  "shows_recent r age read v \<longleftrightarrow> traced (rc_log r) (\<lambda>t. rc_clock r - age < t) read v"

lemma listed_recent:
  assumes ok: "race_ok b D p m r" and age: "0 < p + D" "0 < m + D"
    and E: "env_bind_id E = b" "env_clock E = rc_clock r"
  shows "fst (list_products E (rc_state r)) = Inr v \<Longrightarrow> shows_recent r (p + D) products_read v"
    and "fst (list_orders_endpoint E (rc_state r)) = Inr w \<Longrightarrow> shows_recent r (m + D) orders_read w"
proof -
  let ?s = "rc_state r"
  have d: "dated (rc_log r) (p + D) products_read (inventory_cache_key ''products'' b) (products_cache ?s)"
    "dated (rc_log r) (m + D) orders_read (inventory_cache_key ''orders'' b) (orders_cache ?s)"
    and log: "rc_log r \<noteq> []" "last (rc_log r) = (rc_clock r, inv_db ?s)"
    using ok by (simp_all add: race_ok_def Let_def)
  show "shows_recent r (p + D) products_read v" if run: "fst (list_products E ?s) = Inr v"
  proof (cases "fst (cache_get (rc_clock r) (inventory_cache_key ''products'' b) None (products_cache ?s))")
    case (Some w)
    then have "w = v" using run by (auto simp: list_products_def E Let_def split: prod.splits)
    then show ?thesis using dated_found [OF d(1) Some] by (simp add: shows_recent_def)
  next
    case None
    then have "products_projection (inv_db ?s) = Inr v"
      using run by (auto simp: list_products_def E Let_def split: prod.splits sum.splits)
    then show ?thesis
      unfolding shows_recent_def by (intro traced_now [OF log]) (use age in \<open>simp_all add: products_read_def\<close>)
  qed
  show "shows_recent r (m + D) orders_read w" if run: "fst (list_orders_endpoint E ?s) = Inr w"
  proof (cases "fst (cache_get (rc_clock r) (inventory_cache_key ''orders'' b) None (orders_cache ?s))")
    case (Some x)
    then have "x = w" using run by (auto simp: list_orders_endpoint_def E Let_def split: prod.splits)
    then show ?thesis using dated_found [OF d(2) Some] by (simp add: shows_recent_def)
  next
    case None
    then have "orders_projection (inv_db ?s) = Inr w"
      using run by (auto simp: list_orders_endpoint_def E Let_def split: prod.splits sum.splits)
    then show ?thesis
      unfolding shows_recent_def by (intro traced_now [OF log]) (use age in \<open>simp_all add: orders_read_def\<close>)
  qed
qed

end
