(* ===== verification/InventoryDemo.thy ===== *)
theory InventoryDemo
  imports InventoryRaces
begin

text \<open>
  A concrete run of the service, evaluated in the kernel: a product is created, five units are
  received, and an order of two dispatches (of two units and of one) is placed, the first of which
  crosses the threshold of three. The demonstration environment has a working clock, commits and
  sinks; its start state has empty tables. The states after the second and the third request are
  written out, and the lemmas say that the requests lead to them.
\<close>

definition demo_uuid :: "nat \<Rightarrow> uuid" where
  "demo_uuid n = 0x40008000000000000000 + word_of_nat n"

definition demo_client :: string where
  "demo_client = ''7f6e3d21-8c4a-4b92-a1d7-5e9f2c6b1048''"

definition demo_env :: env where
  "demo_env = \<lparr>env_now = 1000, env_clock = 10, env_uuid4 = demo_uuid, env_bind_id = 7,
     env_postgresql = True, env_commit = CommitOk, env_refresh_ok = True, env_reread_ok = True, env_capture_ok = True, env_telemetry_db_ok = True\<rparr>"

definition demo_start :: inventory_state where
  "demo_start = \<lparr>inv_db = \<lparr>db_skus = [], db_entries = [], db_exits = [], db_orders = [], db_counts = [],
     db_evals = [], db_outbox = []\<rparr>, seq_sku = 0, seq_entry = 0, seq_exit = 0, seq_order = 0,
     seq_count = 0, seq_eval = 0, uuids_drawn = 0, captured = [], telemetry_table = [],
     products_cache = \<lparr>ttl_seconds = 60, cache_entries = []\<rparr>,
     orders_cache = \<lparr>ttl_seconds = 60, cache_entries = []\<rparr>, lock_log = []\<rparr>"

definition demo_sku :: sku_create where
  "demo_sku = \<lparr>sc_name = ''Shoe'', sc_sku = ''S-1'',
     sc_client_id = demo_client, sc_client_name = ''PureStep Footwear'',
     sc_category = FASHION, sc_warehouse = LA, sc_minimum_stock_threshold = Some 3\<rparr>"

definition demo_entry :: stock_entry_create where
  "demo_entry = \<lparr>sec_sku_id = 1, sec_quantity = 5, sec_reference = ''r'', sec_warehouse = LA\<rparr>"

definition demo_order :: commercial_order_create where
  "demo_order = \<lparr>coc_order_id = demo_uuid 50, coc_client_id = demo_client,
     coc_warehouse = LA, coc_dispatches =
       [\<lparr>dc_dispatch_id = demo_uuid 61, dc_sku_id = 1, dc_quantity = 1, dc_tracking_number = ''t''\<rparr>,
        \<lparr>dc_dispatch_id = demo_uuid 60, dc_sku_id = 1, dc_quantity = 2, dc_tracking_number = ''t''\<rparr>]\<rparr>"

definition demo_step :: "request \<Rightarrow> inventory_state \<Rightarrow> inventory_state" where
  "demo_step r s = snd (handle demo_env ''u1'' None r s)"

definition demo_stocked :: inventory_state where
  "demo_stocked =
     \<lparr>inv_db = \<lparr>db_skus = [\<lparr>sku_id = 1, sku_name = ''Shoe'',
     sku_code = ''S-1'', sku_client_name = ''PureStep Footwear'', sku_category = ''fashion'',
     sku_warehouse = ''LA'', sku_client_id = Some demo_client,
     sku_minimum_stock_threshold = Some 3\<rparr>], db_entries = [\<lparr>en_id = 1,
     en_sku_id = 1, en_quantity = 5, en_reference = ''r'', en_warehouse = ''LA'',
     en_created_at = 1000, en_user_uuid = ''u1''\<rparr>], db_exits = [], db_orders = [],
     db_counts = [], db_evals = [\<lparr>te_id = 1, te_source_table = ''stockentry'',
     te_source_pk = 1, te_sku_id = 1, te_client_id = Some demo_client, te_warehouse = ''LA'',
     te_before_quantity = 0, te_after_quantity = 5, te_threshold_quantity = Some 3,
     te_crossed = False, te_event_id = None, te_evaluated_at = 1000\<rparr>],
     db_outbox = [\<lparr>ob_event_id = 302240678275694148452353, ob_occurred_at = 1000,
     ob_source_table = ''stockentry'', ob_source_pk = 1,
     ob_event_type = ''inbound_order_created'', ob_tags = [(''warehouse'', JStr ''los_angeles''),
     (''client_id'', JStr demo_client), (''product_id'', JStr ''1''), (''product_category'',
     JStr ''fashion''), (''quantity'', JInt 5), (''movement_id'', JStr ''1'')],
     ob_published_at = None, ob_attempt_count = 0, ob_last_attempt_at = None,
     ob_last_error = None, ob_created_at = 1000\<rparr>]\<rparr>, seq_sku = 1, seq_entry = 1,
     seq_exit = 0, seq_order = 0, seq_count = 0, seq_eval = 1, uuids_drawn = 2,
     captured = [\<lparr>tv_eventId = 302240678275694148452352, tv_timestamp = 1000,
     tv_sessionId = None, tv_userId = Some ''u1'', tv_event_type = ''inventory_product_created'',
     tv_schemaVersion = ''1.0'', tv_requestId = None, tv_properties = [(''warehouse'',
     JStr ''los_angeles''), (''client_id'', JStr demo_client), (''product_id'', JStr ''1''),
     (''product_category'', JStr ''fashion'')]\<rparr>,
     \<lparr>tv_eventId = 302240678275694148452353, tv_timestamp = 1000, tv_sessionId = None,
     tv_userId = Some ''u1'', tv_event_type = ''inbound_order_created'',
     tv_schemaVersion = ''1.0'', tv_requestId = None, tv_properties = [(''warehouse'',
     JStr ''los_angeles''), (''client_id'', JStr demo_client), (''product_id'', JStr ''1''),
     (''product_category'', JStr ''fashion''), (''quantity'', JInt 5), (''movement_id'',
     JStr ''1'')]\<rparr>], telemetry_table = [], products_cache = \<lparr>ttl_seconds = 60,
     cache_entries = []\<rparr>, orders_cache = \<lparr>ttl_seconds = 60,
     cache_entries = []\<rparr>, lock_log = [SkuRow 1]\<rparr>"

definition demo_ordered :: inventory_state where
  "demo_ordered =
     \<lparr>inv_db = \<lparr>db_skus = [\<lparr>sku_id = 1, sku_name = ''Shoe'',
     sku_code = ''S-1'', sku_client_name = ''PureStep Footwear'', sku_category = ''fashion'',
     sku_warehouse = ''LA'', sku_client_id = Some demo_client,
     sku_minimum_stock_threshold = Some 3\<rparr>], db_entries = [\<lparr>en_id = 1,
     en_sku_id = 1, en_quantity = 5, en_reference = ''r'', en_warehouse = ''LA'',
     en_created_at = 1000, en_user_uuid = ''u1''\<rparr>], db_exits = [\<lparr>ex_id = 1,
     ex_sku_id = 1, ex_quantity = 2, ex_exit_type = ''dispatch'', ex_tracking_number = Some ''t'',
     ex_warehouse = ''LA'', ex_created_at = 1000, ex_user_uuid = ''u1'',
     ex_commercial_order_id = Some 1, ex_dispatch_id = Some 302240678275694148452412\<rparr>,
     \<lparr>ex_id = 2, ex_sku_id = 1, ex_quantity = 1, ex_exit_type = ''dispatch'',
     ex_tracking_number = Some ''t'', ex_warehouse = ''LA'', ex_created_at = 1000,
     ex_user_uuid = ''u1'', ex_commercial_order_id = Some 1,
     ex_dispatch_id = Some 302240678275694148452413\<rparr>], db_orders = [\<lparr>co_id = 1,
     co_order_id = 302240678275694148452402, co_client_id = demo_client, co_warehouse = ''LA'',
     co_created_at = 1000\<rparr>], db_counts = [], db_evals = [\<lparr>te_id = 1,
     te_source_table = ''stockentry'', te_source_pk = 1, te_sku_id = 1,
     te_client_id = Some demo_client, te_warehouse = ''LA'', te_before_quantity = 0,
     te_after_quantity = 5, te_threshold_quantity = Some 3, te_crossed = False,
     te_event_id = None, te_evaluated_at = 1000\<rparr>, \<lparr>te_id = 2,
     te_source_table = ''stockexit'', te_source_pk = 1, te_sku_id = 1,
     te_client_id = Some demo_client, te_warehouse = ''LA'', te_before_quantity = 5,
     te_after_quantity = 3, te_threshold_quantity = Some 3, te_crossed = True,
     te_event_id = Some 302240678275694148452354, te_evaluated_at = 1000\<rparr>,
     \<lparr>te_id = 3, te_source_table = ''stockexit'', te_source_pk = 2, te_sku_id = 1,
     te_client_id = Some demo_client, te_warehouse = ''LA'', te_before_quantity = 3,
     te_after_quantity = 2, te_threshold_quantity = Some 3, te_crossed = False,
     te_event_id = None, te_evaluated_at = 1000\<rparr>],
     db_outbox = [\<lparr>ob_event_id = 302240678275694148452353, ob_occurred_at = 1000,
     ob_source_table = ''stockentry'', ob_source_pk = 1,
     ob_event_type = ''inbound_order_created'', ob_tags = [(''warehouse'', JStr ''los_angeles''),
     (''client_id'', JStr demo_client), (''product_id'', JStr ''1''), (''product_category'',
     JStr ''fashion''), (''quantity'', JInt 5), (''movement_id'', JStr ''1'')],
     ob_published_at = None, ob_attempt_count = 0, ob_last_attempt_at = None,
     ob_last_error = None, ob_created_at = 1000\<rparr>,
     \<lparr>ob_event_id = 302240678275694148452354, ob_occurred_at = 1000,
     ob_source_table = ''stockexit'', ob_source_pk = 1,
     ob_event_type = ''stock_threshold_triggered'', ob_tags = [(''warehouse'',
     JStr ''los_angeles''), (''client_id'', JStr demo_client), (''product_id'', JStr ''1''),
     (''product_category'', JStr ''fashion''), (''quantity'', JInt 3), (''threshold_quantity'',
     JInt 3), (''movement_id'', JStr ''1'')], ob_published_at = None, ob_attempt_count = 0,
     ob_last_attempt_at = None, ob_last_error = None, ob_created_at = 1000\<rparr>,
     \<lparr>ob_event_id = 302240678275694148452355, ob_occurred_at = 1000,
     ob_source_table = ''commercial_order'', ob_source_pk = 1,
     ob_event_type = ''outbound_order_created'', ob_tags = [(''order_id'',
     JStr ''00000000-0000-4000-8000-000000000032''), (''warehouse'', JStr ''los_angeles''),
     (''client_id'', JStr demo_client)], ob_published_at = None, ob_attempt_count = 0,
     ob_last_attempt_at = None, ob_last_error = None, ob_created_at = 1000\<rparr>]\<rparr>,
     seq_sku = 1, seq_entry = 1, seq_exit = 2, seq_order = 1, seq_count = 0, seq_eval = 3,
     uuids_drawn = 4, captured = [\<lparr>tv_eventId = 302240678275694148452352,
     tv_timestamp = 1000, tv_sessionId = None, tv_userId = Some ''u1'',
     tv_event_type = ''inventory_product_created'', tv_schemaVersion = ''1.0'',
     tv_requestId = None, tv_properties = [(''warehouse'', JStr ''los_angeles''), (''client_id'',
     JStr demo_client), (''product_id'', JStr ''1''), (''product_category'',
     JStr ''fashion'')]\<rparr>, \<lparr>tv_eventId = 302240678275694148452353,
     tv_timestamp = 1000, tv_sessionId = None, tv_userId = Some ''u1'',
     tv_event_type = ''inbound_order_created'', tv_schemaVersion = ''1.0'', tv_requestId = None,
     tv_properties = [(''warehouse'', JStr ''los_angeles''), (''client_id'', JStr demo_client),
     (''product_id'', JStr ''1''), (''product_category'', JStr ''fashion''), (''quantity'',
     JInt 5), (''movement_id'', JStr ''1'')]\<rparr>,
     \<lparr>tv_eventId = 302240678275694148452355, tv_timestamp = 1000, tv_sessionId = None,
     tv_userId = Some ''u1'', tv_event_type = ''outbound_order_created'',
     tv_schemaVersion = ''1.0'', tv_requestId = None, tv_properties = [(''order_id'',
     JStr ''00000000-0000-4000-8000-000000000032''), (''warehouse'', JStr ''los_angeles''),
     (''client_id'', JStr demo_client)]\<rparr>, \<lparr>tv_eventId = 302240678275694148452354,
     tv_timestamp = 1000, tv_sessionId = None, tv_userId = Some ''u1'',
     tv_event_type = ''stock_threshold_triggered'', tv_schemaVersion = ''1.0'',
     tv_requestId = None, tv_properties = [(''warehouse'', JStr ''los_angeles''), (''client_id'',
     JStr demo_client), (''product_id'', JStr ''1''), (''product_category'', JStr ''fashion''),
     (''quantity'', JInt 3), (''threshold_quantity'', JInt 3), (''movement_id'',
     JStr ''1'')]\<rparr>], telemetry_table = [], products_cache = \<lparr>ttl_seconds = 60,
     cache_entries = []\<rparr>, orders_cache = \<lparr>ttl_seconds = 60,
     cache_entries = []\<rparr>, lock_log = [SkuRow 1, AdvisoryLock 16384, AdvisoryLock 16384,
     AdvisoryLock 16384, SkuRow 1]\<rparr>"

definition demo_count :: physical_count_create where
  "demo_count = \<lparr>pcc_count_id = demo_uuid 70, pcc_sku_id = 1, pcc_observed_quantity = 6, pcc_warehouse = LA\<rparr>"

definition demo_counted :: inventory_state where
  "demo_counted = demo_step (PostCount demo_count) demo_stocked"

lemma demo_run_counted:
  "db_counts (inv_db demo_counted) =
     [\<lparr>pc_id = 1, pc_count_id = demo_uuid 70, pc_sku_id = 1, pc_client_id = demo_client,
       pc_warehouse = ''LA'', pc_expected_quantity = 5, pc_observed_quantity = 6,
       pc_confirmed_at = 1000, pc_user_uuid = ''u1''\<rparr>]"
  by code_simp

definition demo_order_row :: commercial_order where
  "demo_order_row = hd (db_orders (inv_db demo_ordered))"

definition demo_dispatches :: "stock_exit list" where
  "demo_dispatches = db_exits (inv_db demo_ordered)"

definition demo_append :: dispatch_append where
  "demo_append = \<lparr>da_order_id = demo_uuid 50, da_dispatches =
     [\<lparr>dc_dispatch_id = demo_uuid 60, dc_sku_id = 1, dc_quantity = 2, dc_tracking_number = ''t''\<rparr>,
      \<lparr>dc_dispatch_id = demo_uuid 62, dc_sku_id = 1, dc_quantity = 1, dc_tracking_number = ''t''\<rparr>]\<rparr>"

definition demo_appended :: inventory_state where
  "demo_appended = snd (append_commercial_order_dispatches demo_env demo_append ''u1'' None demo_ordered)"

definition demo_exit :: stock_exit_create where
  "demo_exit = \<lparr>sxc_sku_id = 1, sxc_quantity = 9, sxc_exit_type = LOSS, sxc_tracking_number = None,
     sxc_warehouse = LA\<rparr>"

lemma demo_order_fst:
  "fst (create_commercial_order demo_env demo_order ''u1'' None demo_stocked) = Inr (demo_order_row, demo_dispatches)"
  by code_simp

lemma demo_append_fst:
  "(case fst (append_commercial_order_dispatches demo_env demo_append ''u1'' None demo_ordered) of
      Inl _ \<Rightarrow> False | Inr (c, xs) \<Rightarrow> c = demo_order_row \<and> map ex_quantity xs = [2, 1, 1])"
  by code_simp

lemma demo_checks:
  "check_commercial_order_create demo_order = Inr ()" "check_dispatch_append demo_append = Inr ()"
  "check_physical_count_create demo_count = Inr ()" "check_stock_exit_create demo_exit = Inr ()"
  by code_simp+

lemma demo_exit_lookup:
  "get_sku_or_none (inv_db demo_stocked) (sxc_sku_id demo_exit) = Some (hd (db_skus (inv_db demo_stocked)))"
  "sku_warehouse (hd (db_skus (inv_db demo_stocked))) = warehouse_value (sxc_warehouse demo_exit)"
  "get_current_stock (inv_db demo_stocked) (sxc_sku_id demo_exit) (warehouse_value (sxc_warehouse demo_exit)) = 5"
  "sxc_quantity demo_exit = 9"
  by code_simp+

lemma demo_count_fst:
  "fst (confirm_inventory_physical_count demo_env demo_count ''u1'' None demo_stocked) =
     Inr (hd (db_counts (inv_db demo_counted)))"
  by code_simp

lemma demo_run_stocked:
  "demo_step (PostInbound demo_entry) (demo_step (PostProduct demo_sku) demo_start) = demo_stocked"
  by code_simp

lemma demo_run_ordered: "demo_step (PostOrder demo_order) demo_stocked = demo_ordered"
  by code_simp

lemma demo_reach: "reachable s0 s \<Longrightarrow> reachable s0 (demo_step r s)"
  unfolding demo_step_def by (rule reach_step) (assumption, rule prod.collapse [symmetric])

lemma demo_start_ok: "inventory_ok (inv_db demo_start)"
  by (simp add: demo_start_def inventory_ok_def tables_ok_def links_ok_def stock_nonneg_def
      evals_ok_def outbox_wf_def crossings_published_def orders_published_def counts_published_def
      entries_published_def tags_ok_def rows_of_def get_current_stock_sums)

lemma demo_reachable: "reachable demo_start demo_stocked" "reachable demo_start demo_ordered"
  "reachable demo_start demo_counted"
proof -
  show s: "reachable demo_start demo_stocked"
    unfolding demo_run_stocked [symmetric] by (intro demo_reach reach_init)
  show "reachable demo_start demo_ordered"
    unfolding demo_run_ordered [symmetric] using s by (rule demo_reach)
  show "reachable demo_start demo_counted"
    unfolding demo_counted_def using s by (rule demo_reach)
qed

lemma demo_ok: "inventory_ok (inv_db demo_stocked)" "inventory_ok (inv_db demo_ordered)"
  using reachable_txns [OF demo_reachable(1) demo_start_ok]
    reachable_txns [OF demo_reachable(2) demo_start_ok] by simp_all

lemma demo_settled_env: "\<not> commit_in_doubt demo_env"
  by (simp add: commit_in_doubt_def demo_env_def)

lemma demo_served: "served (env_bind_id demo_env) demo_start demo_ordered"
proof -
  have step: "served (env_bind_id demo_env) demo_start (demo_step r s)"
    if "served (env_bind_id demo_env) demo_start s" for r s
    unfolding demo_step_def using that refl demo_settled_env by (rule served_step) (rule prod.collapse [symmetric])
  show ?thesis
    unfolding demo_run_ordered [symmetric] demo_run_stocked [symmetric] by (intro step served_init)
qed

lemma demo_start_coherent: "coherent (env_bind_id demo_env) demo_start"
  by (simp add: coherent_def demo_start_def cache_holds_def)

lemma demo_order_run:
  "create_commercial_order demo_env demo_order ''u1'' None demo_stocked =
     (Inr (demo_order_row, demo_dispatches), demo_ordered)"
proof (rule prod_eqI)
  show "snd (create_commercial_order demo_env demo_order ''u1'' None demo_stocked) =
      snd (Inr (demo_order_row, demo_dispatches), demo_ordered)"
    using demo_run_ordered demo_checks(1)
    by (simp add: demo_step_def snd_reply snd_checked handler_states)
qed (simp add: demo_order_fst)

lemma demo_append_run:
  obtains xs where "append_commercial_order_dispatches demo_env demo_append ''u1'' None demo_ordered =
     (Inr (demo_order_row, xs), demo_appended)" and "map ex_quantity xs = [2, 1, 1]"
  using demo_append_fst that
  by (cases "append_commercial_order_dispatches demo_env demo_append ''u1'' None demo_ordered")
    (auto simp: demo_appended_def split: sum.splits)

lemma demo_count_run:
  "confirm_inventory_physical_count demo_env demo_count ''u1'' None demo_stocked =
     (Inr (hd (db_counts (inv_db demo_counted))), demo_counted)"
proof (rule prod_eqI)
  show "snd (confirm_inventory_physical_count demo_env demo_count ''u1'' None demo_stocked) =
      snd (Inr (hd (db_counts (inv_db demo_counted))), demo_counted)"
    using demo_checks(3) by (simp add: demo_counted_def demo_step_def snd_reply snd_checked)
qed (simp add: demo_count_fst)

lemma demo_append_txn: "txn\<^sup>*\<^sup>* (inv_db demo_ordered) (inv_db demo_appended)"
proof -
  obtain xs where run: "append_commercial_order_dispatches demo_env demo_append ''u1'' None demo_ordered =
      (Inr (demo_order_row, xs), demo_appended)" by (rule demo_append_run)
  show ?thesis
    using append_dispatches_atomic [OF demo_checks(2), of demo_env "''u1''" None demo_ordered]
    by (auto simp: atomic_at_def run)
qed

lemma demo_order_grows:
  "order_dispatches (inv_db demo_ordered) (co_id demo_order_row) = demo_dispatches"
  "order_dispatches (inv_db demo_appended) (co_id demo_order_row) \<noteq> demo_dispatches"
  by code_simp+

section \<open>A commit in doubt and a race\<close>

definition demo_lost_env :: env where
  "demo_lost_env = demo_env\<lparr>env_commit := CommitLost\<rparr>"

lemma demo_lost_run:
  "fst (handle demo_lost_env ''u1'' None (PostOrder demo_order) demo_stocked) = Inl OperationalError"
  "length (db_exits (inv_db (snd (handle demo_lost_env ''u1'' None (PostOrder demo_order) demo_stocked)))) = 2"
  by code_simp+

text \<open>
  A read of the product list misses the cache, runs its three queries, then the order is placed, and
  then the read ends: the list it stores is the one from before the order.
\<close>

definition demo_race_start :: race where
  "demo_race_start = \<lparr>rc_state = demo_stocked, rc_clock = 10, rc_log = [(10, inv_db demo_stocked)], rc_readings = []\<rparr>"

definition demo_reading :: "inventory_db list \<Rightarrow> reading" where
  "demo_reading ts = \<lparr>rg_listing = ProductList, rg_began = 10, rg_tables = ts\<rparr>"

definition demo_race_end :: race where
  "demo_race_end = \<lparr>rc_state = store_reading 7 10 (demo_reading (replicate 3 (inv_db demo_stocked))) demo_ordered,
     rc_clock = 10, rc_log = [(10, inv_db demo_stocked), (10, inv_db demo_ordered)], rc_readings = []\<rparr>"

lemma demo_race_starts: "race_start demo_race_start" "(0 :: rat) \<le> 1"
  by (simp_all add: race_start_def demo_race_start_def demo_stocked_def)

lemma demo_race_steps: "(race_step 7 1)\<^sup>*\<^sup>* demo_race_start demo_race_end"
proof -
  let ?d = "inv_db demo_stocked"
  let ?r = "\<lambda>ts. demo_race_start\<lparr>rc_readings := [demo_reading ts]\<rparr>"
  let ?o = "\<lparr>rc_state = demo_ordered, rc_clock = 10, rc_log = [(10, ?d), (10, inv_db demo_ordered)],
      rc_readings = [demo_reading [?d, ?d, ?d]]\<rparr>"
  have "miss 7 demo_race_start ProductList = Some demo_stocked"
    by (simp add: miss_def demo_race_start_def demo_stocked_def cache_get_def)
  from race_begin [OF this] have 1: "race_step 7 1 demo_race_start (?r [])"
    by (simp add: demo_race_start_def demo_reading_def)
  have query: "race_step 7 1 (?r ts) (?r (ts @ [?d]))" for ts
    using race_query [of "?r ts" "[]" "demo_reading ts" "[]"] by (simp add: demo_race_start_def demo_reading_def)
  have "handle demo_env ''u1'' None (PostOrder demo_order) demo_stocked =
      (fst (handle demo_env ''u1'' None (PostOrder demo_order) demo_stocked), demo_ordered)"
    using demo_run_ordered by (simp add: demo_step_def prod_eq_iff)
  then have 2: "race_step 7 1 (?r [?d, ?d, ?d]) ?o"
    using race_request [of demo_env 7 "?r [?d, ?d, ?d]" "''u1''" None "PostOrder demo_order"]
    by (simp add: demo_race_start_def demo_env_def logged_def)
  have 3: "race_step 7 1 ?o demo_race_end"
    using race_end [of ?o "[]" "demo_reading [?d, ?d, ?d]" "[]" 1 7]
    by (simp add: demo_race_end_def demo_reading_def numeral_3_eq_3)
  show ?thesis
    using 1 query [of "[]"] query [of "[?d]"] query [of "[?d, ?d]"] 2 3 by (simp add: rtranclp.rtrancl_into_rtrancl)
qed

lemma demo_race_list:
  "(case fst (list_products demo_env (rc_state demo_race_end)) of Inl _ \<Rightarrow> False | Inr v \<Rightarrow> map sr_current_stock v = [5])"
  by code_simp

lemma demo_race_stock: "get_current_stock (inv_db (rc_state demo_race_end)) 1 ''LA'' = 2"
  by code_simp

end
