(* ===== verification/InventoryRetries.thy ===== *)
theory InventoryRetries
  imports InventoryCoherence
begin

text \<open>
  Repeated commands: what a later command finds of an earlier one, for orders, appended
  dispatches and physical counts.
\<close>

section \<open>Finding what was written\<close>

lemma find_unique:
  assumes "keys_unique key rows" and "r \<in> set rows"
  shows "find (\<lambda>x. key x = key r) rows = Some r"
  by (rule keys_unique_find [OF assms])

lemma created_ids:
  assumes "list_all2 (\<lambda>x i. ex_dispatch_id x = Some (dc_dispatch_id i) \<and> dispatch_matches x i k) xs items"
  shows "map ex_dispatch_id xs = map (\<lambda>i. Some (dc_dispatch_id i)) items"
  using assms by (induction rule: list_all2_induct) auto

lemma created_item:
  assumes "list_all2 (\<lambda>x i. ex_dispatch_id x = Some (dc_dispatch_id i) \<and> dispatch_matches x i k) xs items"
    and "i \<in> set items"
  shows "\<exists>x \<in> set xs. ex_dispatch_id x = Some (dc_dispatch_id i) \<and> dispatch_matches x i k"
  using assms by (induction rule: list_all2_induct) auto

lemma created_linked:
  assumes "list_all2 (\<lambda>x i. ex_dispatch_id x = Some (dc_dispatch_id i) \<and> dispatch_matches x i k) xs items"
    and "x \<in> set xs"
  shows "ex_commercial_order_id x = Some k"
  using assms by (induction rule: list_all2_induct) (auto simp: dispatch_matches_def)

lemma sorted_dispatch_ids:
  "sorted (map dc_dispatch_id (sort_key (\<lambda>item. uuid_str (dc_dispatch_id item)) items))"
proof -
  have "sorted (map uuid_str (map dc_dispatch_id (sort_key (\<lambda>item. uuid_str (dc_dispatch_id item)) items)))"
    using sorted_sort_key [of "\<lambda>item. uuid_str (dc_dispatch_id item)" items] by (simp add: comp_def)
  then show ?thesis by (simp only: sorted_map_uuid_str)
qed

text \<open>The dispatches of a new order are read back in the order they were written.\<close>

lemma order_dispatches_created:
  assumes created: "list_all2 (\<lambda>x i. ex_dispatch_id x = Some (dc_dispatch_id i) \<and> dispatch_matches x i k) xs
      (sort_key (\<lambda>item. uuid_str (dc_dispatch_id item)) items)"
    and exits: "db_exits d' = db_exits d @ xs"
    and fresh: "\<And>x. x \<in> set (db_exits d) \<Longrightarrow> ex_commercial_order_id x \<noteq> Some k"
  shows "order_dispatches d' k = xs"
proof -
  let ?items = "sort_key (\<lambda>item. uuid_str (dc_dispatch_id item)) items"
  have "filter (\<lambda>r. ex_commercial_order_id r = Some k) (db_exits d) = []"
    using fresh by (simp add: filter_empty_conv)
  moreover have "filter (\<lambda>r. ex_commercial_order_id r = Some k) xs = xs"
    using created_linked [OF created] by (simp add: filter_id_conv)
  ultimately have f: "filter (\<lambda>r. ex_commercial_order_id r = Some k) (db_exits d') = xs"
    using exits by simp
  have "map dispatch_rank xs = map (\<lambda>i. (0, dc_dispatch_id i)) ?items"
    using created by (induction rule: list_all2_induct) (auto simp: dispatch_rank_def)
  moreover have "sorted (map (\<lambda>i. (0 :: nat, dc_dispatch_id i)) ?items)"
    using sorted_dispatch_ids [of items] by (simp add: sorted_map less_eq_prod_def)
  ultimately have "sorted (map dispatch_rank xs)" by simp
  then show ?thesis
    by (simp add: order_dispatches_def f sort_key_id_if_sorted)
qed

lemma dispatch_lookup:
  assumes "distinct (map ex_dispatch_id xs)" and "x \<in> set xs" and "ex_dispatch_id x = Some u"
  shows "map_of (map (\<lambda>r. (ex_dispatch_id r, r)) xs) (Some u) = Some x"
proof (rule map_of_is_SomeI)
  show "distinct (map fst (map (\<lambda>r. (ex_dispatch_id r, r)) xs))" using assms(1) by (simp add: comp_def)
  show "(Some u, x) \<in> set (map (\<lambda>r. (ex_dispatch_id r, r)) xs)" using assms(2,3) by force
qed

section \<open>Orders\<close>

lemma retry_order_created:
  assumes ok: "tables_ok d" "links_ok d"
    and disp: "order_dispatches d (co_id c) = xs"
    and created: "list_all2 (\<lambda>x i. ex_dispatch_id x = Some (dc_dispatch_id i) \<and> dispatch_matches x i (co_id c)) xs
      (sort_key (\<lambda>item. uuid_str (dc_dispatch_id item)) (coc_dispatches data))"
    and c: "co_client_id c = coc_client_id data" "co_warehouse c = warehouse_value (coc_warehouse data)"
  shows "retry_order d c data = Inr (c, xs)"
proof -
  let ?dict = "map (\<lambda>r. (ex_dispatch_id r, r)) xs"
  have dict: "py_dict (map (\<lambda>r. (ex_dispatch_id r, r)) (order_dispatches d (co_id c))) = ?dict"
    using order_dict [OF ok, of "co_id c"] by (simp add: disp)
  have dist: "distinct (map ex_dispatch_id xs)"
    using order_dispatches_distinct [OF ok, of "co_id c"] by (simp add: disp)
  have keys: "set (map fst ?dict) = Some ` set (map dc_dispatch_id (coc_dispatches data))"
    using arg_cong [OF created_ids [OF created], of set] by (simp add: comp_def image_image)
  have "map_of ?dict (Some (dc_dispatch_id i)) = Some x"
    if "x \<in> set xs" "ex_dispatch_id x = Some (dc_dispatch_id i)" for x i
    using dispatch_lookup [OF dist that] .
  moreover have "\<exists>x \<in> set xs. ex_dispatch_id x = Some (dc_dispatch_id i) \<and> dispatch_matches x i (co_id c)"
    if "i \<in> set (coc_dispatches data)" for i
    using created_item [OF created, of i] that by simp
  ultimately have "list_all (\<lambda>item. case map_of ?dict (Some (dc_dispatch_id item)) of
      None \<Rightarrow> False | Some r \<Rightarrow> dispatch_matches r item (co_id c)) (coc_dispatches data)"
    by (fastforce simp: list_all_iff)
  then show ?thesis
    unfolding retry_order_def Let_def dict using keys c by (simp add: comp_def)
qed

text \<open>A successful command leaves an order its retry recognises.\<close>

lemma order_recorded:
  assumes ok: "inventory_ok (inv_db s)" and chk: "check_commercial_order_create data = Inr ()"
    and run: "create_commercial_order E data user rid s = (Inr (c, xs), t)"
  shows "inventory_ok (inv_db t) \<and> c \<in> set (db_orders (inv_db t)) \<and> co_order_id c = coc_order_id data \<and>
    retry_order (inv_db t) c data = Inr (c, xs)"
proof -
  from create_commercial_order_Inr [OF run chk] show ?thesis
  proof (elim disjE exE conjE)
    fix s1 assume fo: "find_order (coc_order_id data)
        (lock_idempotency_keys E (coc_order_id data # map dc_dispatch_id (coc_dispatches data)) s) = (Some c, s1)"
      and re: "retry_order (inv_db s) c data = Inr (c, xs)" and t: "t = s1"
    have "inv_db t = inv_db s" using t find_order_db [OF fo] by simp
    then show ?thesis using re ok find_order_Some [OF fo] by simp
  next
    assume a: "txn (inv_db s) (inv_db t)" "co_order_id c = coc_order_id data"
      "co_client_id c = coc_client_id data" "co_warehouse c = warehouse_value (coc_warehouse data)"
      "db_orders (inv_db t) = db_orders (inv_db s) @ [c]" "db_exits (inv_db t) = db_exits (inv_db s) @ xs"
      "list_all2 (\<lambda>x i. ex_dispatch_id x = Some (dc_dispatch_id i) \<and> dispatch_matches x i (co_id c))
        xs (sort_key (\<lambda>item. uuid_str (dc_dispatch_id item)) (coc_dispatches data))"
    have okt: "inventory_ok (inv_db t)" using txn_ok [OF a(1) ok] .
    then have tok: "tables_ok (inv_db t)" "links_ok (inv_db t)" by (simp_all add: inventory_ok_def)
    have fresh: "co_id c \<notin> co_id ` set (db_orders (inv_db s))"
      using tok(1) a(5) by (simp add: tables_ok_def)
    have links: "links_ok (inv_db s)" using ok by (simp add: inventory_ok_def)
    have "ex_commercial_order_id x \<noteq> Some (co_id c)" if x: "x \<in> set (db_exits (inv_db s))" for x
    proof
      assume "ex_commercial_order_id x = Some (co_id c)"
      then obtain k where "k \<in> set (db_orders (inv_db s))" "co_id k = co_id c"
        using links x unfolding links_ok_def exit_link_ok_def by blast
      then show False using fresh by (metis imageI)
    qed
    then have disp: "order_dispatches (inv_db t) (co_id c) = xs"
      by (rule order_dispatches_created [OF a(7,6)])
    show ?thesis using okt a(2,5) retry_order_created [OF tok disp a(7,3,4)] by simp
  qed
qed

text \<open>
  What the retry of a recognised order says after the exits have grown: the same, or a conflict as
  soon as the order has one more dispatch.
\<close>

lemma retry_order_grown:
  assumes re: "retry_order d c data = Inr (c, xs)" and ok: "tables_ok d" "links_ok d"
    and ok': "tables_ok d'" "links_ok d'" and grown: "db_exits d' = db_exits d @ ys"
  shows "retry_order d' c data =
    (if order_dispatches d' (co_id c) = xs then Inr (c, xs)
     else Inl (conflict ''order_id already exists with different dispatches''))"
proof -
  let ?k = "co_id c" and ?of = "\<lambda>zs. filter (\<lambda>r. ex_commercial_order_id r = Some (co_id c)) zs"
  note unfold = retry_order_def Let_def order_dict [OF ok] order_dict [OF ok']
  from re have same: "co_client_id c = coc_client_id data" "co_warehouse c = warehouse_value (coc_warehouse data)"
    and ids: "ex_dispatch_id ` set (order_dispatches d ?k) = Some ` set (map dc_dispatch_id (coc_dispatches data))"
    and xs: "xs = order_dispatches d ?k"
    by (auto simp: unfold comp_def image_image split: if_splits)
  show ?thesis
  proof (cases "?of ys = []")
    case True
    then have "order_dispatches d' ?k = order_dispatches d ?k" by (simp add: order_dispatches_def grown)
    then have "retry_order d' c data = retry_order d c data" by (simp add: retry_order_def)
    then show ?thesis using re xs \<open>order_dispatches d' ?k = order_dispatches d ?k\<close> by simp
  next
    case False
    then obtain y where y: "y \<in> set (?of ys)" by (meson last_in_set)
    have "distinct (map ex_dispatch_id (?of (db_exits d) @ ?of ys))"
    proof -
      have "mset (order_dispatches d' ?k) = mset (?of (db_exits d) @ ?of ys)"
        by (simp add: order_dispatches_def grown)
      then have "mset (map ex_dispatch_id (order_dispatches d' ?k)) = mset (map ex_dispatch_id (?of (db_exits d) @ ?of ys))"
        by (metis mset_map)
      then show ?thesis using order_dispatches_distinct [OF ok', of ?k] by (metis mset_eq_imp_distinct_iff)
    qed
    then have "ex_dispatch_id y \<notin> ex_dispatch_id ` set (order_dispatches d ?k)"
      using y by (auto simp: order_dispatches_def)
    moreover have "y \<in> set (order_dispatches d' ?k)" using y by (simp add: order_dispatches_def grown)
    ultimately have "ex_dispatch_id ` set (order_dispatches d' ?k) \<noteq> ex_dispatch_id ` set (order_dispatches d ?k)"
      by blast
    then have "order_dispatches d' ?k \<noteq> xs \<and>
        ex_dispatch_id ` set (order_dispatches d' ?k) \<noteq> Some ` set (map dc_dispatch_id (coc_dispatches data))"
      unfolding xs by (metis ids)
    then show ?thesis using same by (simp add: unfold comp_def image_image)
  qed
qed

lemma order_retry:
  assumes ok: "inventory_ok (inv_db s)" and chk: "check_commercial_order_create data = Inr ()"
    and run: "create_commercial_order E data user rid s = (Inr (c, xs), t)"
    and later: "txn\<^sup>*\<^sup>* (inv_db t) (inv_db s')"
  shows "\<exists>t'. create_commercial_order E' data user' rid' s' =
      ((if order_dispatches (inv_db s') (co_id c) = xs then Inr (c, xs)
        else Inl (conflict ''order_id already exists with different dispatches'')), t') \<and> inv_db t' = inv_db s'"
proof -
  note r = order_recorded [OF ok chk run]
  have ok': "inventory_ok (inv_db s')" using txns_ok [OF later] r by simp
  obtain ys where ys: "db_exits (inv_db s') = db_exits (inv_db t) @ ys"
    and orders: "set (db_orders (inv_db t)) \<subseteq> set (db_orders (inv_db s'))"
    using txns_grow [OF later] by (auto simp: grows_def)
  have re: "retry_order (inv_db s') c data = (if order_dispatches (inv_db s') (co_id c) = xs then Inr (c, xs)
      else Inl (conflict ''order_id already exists with different dispatches''))"
    by (rule retry_order_grown [OF _ _ _ _ _ ys]) (use r ok' in \<open>simp_all add: inventory_ok_def\<close>)
  have "find (\<lambda>k. co_order_id k = co_order_id c) (db_orders (inv_db s')) = Some c"
    using ok' r orders by (intro find_unique) (auto simp: inventory_ok_def tables_ok_def)
  then have "find (\<lambda>k. co_order_id k = coc_order_id data) (db_orders (inv_db s')) = Some c" using r by simp
  moreover have "distinct (map dc_dispatch_id (coc_dispatches data))"
    using chk by (simp add: check_commercial_order_create_Inr)
  ultimately show ?thesis
    by (simp add: create_commercial_order_def find_order_def distinct_remdups_id Let_def re)
qed

section \<open>Appended dispatches\<close>

lemma new_items_split:
  "new_items existing k items = Inr rest \<Longrightarrow> i \<in> set items \<Longrightarrow>
   i \<in> set rest \<or> (\<exists>r. map_of existing (Some (dc_dispatch_id i)) = Some r \<and> dispatch_matches r i k)"
  by (induction items arbitrary: rest) (auto split: option.splits sum.splits if_splits)

lemma new_items_none:
  "(\<And>i. i \<in> set items \<Longrightarrow> \<exists>r. map_of existing (Some (dc_dispatch_id i)) = Some r \<and> dispatch_matches r i k) \<Longrightarrow>
   new_items existing k items = Inr []"
proof (induction items)
  case (Cons i items)
  from Cons.prems [of i] obtain r where "map_of existing (Some (dc_dispatch_id i)) = Some r" "dispatch_matches r i k"
    by auto
  then show ?case using Cons by simp
qed simp

lemma existing_dict:
  assumes "tables_ok d"
  shows "py_dict (map (\<lambda>r. (ex_dispatch_id r, r)) (exits_with_dispatch_ids d ids)) =
      map (\<lambda>r. (ex_dispatch_id r, r)) (exits_with_dispatch_ids d ids)"
    and "distinct (map ex_dispatch_id (exits_with_dispatch_ids d ids))"
proof -
  let ?xs = "exits_with_dispatch_ids d ids"
  have eq: "?xs = filter (\<lambda>r. \<exists>u \<in> set ids. ex_dispatch_id r = Some u)
      (filter (\<lambda>x. ex_dispatch_id x \<noteq> None) (db_exits d))"
    unfolding exits_with_dispatch_ids_def filter_filter by (rule filter_cong) auto
  have "distinct (map ex_dispatch_id (filter (\<lambda>x. ex_dispatch_id x \<noteq> None) (db_exits d)))"
    using assms by (simp add: tables_ok_def keys_unique_def)
  then show dist: "distinct (map ex_dispatch_id ?xs)" unfolding eq by (rule distinct_map_filter)
  then show "py_dict (map (\<lambda>r. (ex_dispatch_id r, r)) ?xs) = map (\<lambda>r. (ex_dispatch_id r, r)) ?xs"
    by (intro py_dict_distinct) (simp add: comp_def)
qed

lemma existing_lookup:
  assumes "tables_ok d" and "x \<in> set (db_exits d)" and "ex_dispatch_id x = Some u" and "u \<in> set ids"
  shows "map_of (map (\<lambda>r. (ex_dispatch_id r, r)) (exits_with_dispatch_ids d ids)) (Some u) = Some x"
proof (rule dispatch_lookup [OF existing_dict(2) [OF assms(1)]])
  show "x \<in> set (exits_with_dispatch_ids d ids)"
    using assms(2-4) by (simp add: exits_with_dispatch_ids_def)
qed (rule assms(3))

lemma append_retry:
  assumes ok: "inventory_ok (inv_db s)" and chk: "check_dispatch_append data = Inr ()"
    and run: "append_commercial_order_dispatches E data user rid s = (Inr (c, xs), t)"
    and later: "txn\<^sup>*\<^sup>* (inv_db t) (inv_db s')"
  shows "\<exists>t'. append_commercial_order_dispatches E' data user' rid' s' =
      (Inr (c, order_dispatches (inv_db s') (co_id c)), t') \<and> inv_db t' = inv_db s'"
proof -
  let ?ids = "map dc_dispatch_id (da_dispatches data)"
  note r = append_dispatches_Inr [OF run chk]
  then have okt: "inventory_ok (inv_db t)" using ok txn_ok by metis
  have ok': "tables_ok (inv_db s')" using txns_ok [OF later okt] by (simp add: inventory_ok_def)
  have grow: "grows (inv_db s) (inv_db s')"
    using r txns_grow [OF later] txn_grows grows_trans by metis
  have growt: "grows (inv_db t) (inv_db s')" by (rule txns_grow [OF later])
  have dist: "distinct ?ids" using chk by (simp add: check_dispatch_append_Inr)
  have tok: "tables_ok (inv_db s)" using ok by (simp add: inventory_ok_def)
  have found: "find (\<lambda>k. co_order_id k = da_order_id data) (db_orders (inv_db s')) = Some c"
  proof -
    have "c \<in> set (db_orders (inv_db s'))" using r grow by (auto simp: grows_def)
    moreover have "keys_unique co_order_id (db_orders (inv_db s'))" using ok' by (simp add: tables_ok_def)
    ultimately have "find (\<lambda>k. co_order_id k = co_order_id c) (db_orders (inv_db s')) = Some c"
      by (intro find_unique)
    then show ?thesis using r by simp
  qed
  have written: "\<exists>x \<in> set (db_exits (inv_db s')). ex_dispatch_id x = Some (dc_dispatch_id i) \<and>
      dispatch_matches x i (co_id c)" if i: "i \<in> set (da_dispatches data)" for i
  proof -
    let ?ex = "map (\<lambda>r. (ex_dispatch_id r, r)) (exits_with_dispatch_ids (inv_db s) ?ids)"
    from r obtain rest where new: "new_items ?ex (co_id c) (da_dispatches data) = Inr rest"
      and rest: "rest = [] \<or> (\<exists>created. db_exits (inv_db t) = db_exits (inv_db s) @ created \<and>
          list_all2 (\<lambda>x i. ex_dispatch_id x = Some (dc_dispatch_id i) \<and> dispatch_matches x i (co_id c))
            created (sort_key (\<lambda>item. uuid_str (dc_dispatch_id item)) rest))"
      unfolding existing_dict(1) [OF tok] by blast
    from new_items_split [OF new i] show ?thesis
    proof
      assume "i \<in> set rest"
      with rest obtain created where c: "db_exits (inv_db t) = db_exits (inv_db s) @ created"
        and l: "list_all2 (\<lambda>x i. ex_dispatch_id x = Some (dc_dispatch_id i) \<and> dispatch_matches x i (co_id c))
            created (sort_key (\<lambda>item. uuid_str (dc_dispatch_id item)) rest)" by auto
      from created_item [OF l, of i] \<open>i \<in> set rest\<close> show ?thesis
        using c growt by (auto simp: grows_def)
    next
      assume "\<exists>x. map_of ?ex (Some (dc_dispatch_id i)) = Some x \<and> dispatch_matches x i (co_id c)"
      then obtain x where "map_of ?ex (Some (dc_dispatch_id i)) = Some x" "dispatch_matches x i (co_id c)"
        by blast
      then have "x \<in> set (db_exits (inv_db s)) \<and> ex_dispatch_id x = Some (dc_dispatch_id i)"
        by (auto dest!: map_of_SomeD simp: exits_with_dispatch_ids_def)
      then show ?thesis using \<open>dispatch_matches x i (co_id c)\<close> grow by (auto simp: grows_def)
    qed
  qed
  have "new_items (map (\<lambda>r. (ex_dispatch_id r, r)) (exits_with_dispatch_ids (inv_db s') ?ids)) (co_id c)
      (da_dispatches data) = Inr []"
  proof (rule new_items_none)
    fix i assume i: "i \<in> set (da_dispatches data)"
    from written [OF i] obtain x where x: "x \<in> set (db_exits (inv_db s'))"
      "ex_dispatch_id x = Some (dc_dispatch_id i)" "dispatch_matches x i (co_id c)" by blast
    then show "\<exists>r. map_of (map (\<lambda>r. (ex_dispatch_id r, r)) (exits_with_dispatch_ids (inv_db s') ?ids))
        (Some (dc_dispatch_id i)) = Some r \<and> dispatch_matches r i (co_id c)"
      using existing_lookup [OF ok' x(1,2), of ?ids] i by auto
  qed
  then show ?thesis
    using dist found
    by (simp add: append_commercial_order_dispatches_def find_order_def distinct_remdups_id Let_def
        existing_dict(1) [OF ok'])
qed

section \<open>Counts\<close>

lemma count_written:
  assumes "confirm_inventory_physical_count E data user rid s = (Inr c, t)"
  shows "c \<in> set (db_counts (inv_db t)) \<and> pc_count_id c = pcc_count_id data \<and> count_matches c data user"
proof (cases "find (\<lambda>c. pc_count_id c = pcc_count_id data) (db_counts (inv_db s))")
  case (Some existing)
  then show ?thesis
    using assms find_SomeD [OF Some]
    by (auto simp: confirm_inventory_physical_count_def Let_def split: if_splits)
next
  case None
  with assms obtain sku s1 evs s2 where
    body: "physical_count_body E data sku (get_current_stock (inv_db s1) (pcc_sku_id data)
        (warehouse_value (pcc_warehouse data))) user rid s1 = (Inr (c, evs), s2)"
    and t: "inv_db t = inv_db s2"
    by (auto simp: confirm_inventory_physical_count_def Let_def commit_and_refresh_Inr
        split: prod.splits option.splits if_splits sum.splits)
  show ?thesis
    using physical_count_body_Inr [OF body] t by (auto simp: count_matches_def)
qed

lemma count_retry:
  assumes ok: "inventory_ok (inv_db s)"
    and run: "confirm_inventory_physical_count E data user rid s = (Inr c, t)"
    and later: "txn\<^sup>*\<^sup>* (inv_db t) (inv_db s')" and id: "pcc_count_id data' = pcc_count_id data"
  shows "\<exists>t'. confirm_inventory_physical_count E' data' user' rid' s' =
      ((if count_matches c data' user' then Inr c
        else Inl (conflict ''count_id already exists with different content'')), t') \<and> inv_db t' = inv_db s'"
proof -
  note c = count_written [OF run]
  have "inventory_ok (inv_db t)"
    using confirm_count_atomic [of E data user rid s] run ok txn_ok by (auto simp: atomic_at_def)
  then have ok': "keys_unique pc_count_id (db_counts (inv_db s'))"
    using txns_ok [OF later] by (simp add: inventory_ok_def tables_ok_def)
  have "c \<in> set (db_counts (inv_db s'))"
    using c txns_grow [OF later] by (auto simp: grows_def)
  then have "find (\<lambda>k. pc_count_id k = pc_count_id c) (db_counts (inv_db s')) = Some c"
    by (rule find_unique [OF ok'])
  then have "find (\<lambda>k. pc_count_id k = pcc_count_id data') (db_counts (inv_db s')) = Some c"
    using c id by simp
  then show ?thesis by (simp add: confirm_inventory_physical_count_def Let_def)
qed

end
