(* ===== verification/InventoryOutcomes.thy ===== *)
theory InventoryOutcomes
  imports InventoryFrames
begin

text \<open>
  How an exit ends: once the guards have passed, the steps of its transaction fail only for a crossing
  of a product without a client, for sequences ahead of the stored identities and a fresh event
  identifier. And what a batch of
  dispatches does to the threshold evaluations of a product.
\<close>

section \<open>Success of an exit\<close>

text \<open>The identity sequences are ahead of every identity in use.\<close>

definition identities_ahead :: "inventory_state \<Rightarrow> bool" where
  "identities_ahead s \<longleftrightarrow>
     0 \<le> seq_exit s \<and> (\<forall>x \<in> set (db_exits (inv_db s)). ex_id x \<le> seq_exit s) \<and>
     (\<forall>e \<in> set (db_evals (inv_db s)). te_id e \<le> seq_eval s)"

text \<open>The next identifier is a UUID v4 no outbox row has.\<close>

definition fresh_uuid :: "env \<Rightarrow> inventory_state \<Rightarrow> bool" where
  "fresh_uuid E s \<longleftrightarrow>
     uuid_version (env_uuid4 E (uuids_drawn s)) = Some 4 \<and>
     env_uuid4 E (uuids_drawn s) \<notin> ob_event_id ` set (db_outbox (inv_db s))"

lemma locked_sku:
  assumes "keys_unique sku_id (db_skus (inv_db s))" and "lock_skus ids s = (rows, t)" and "k \<in> set ids"
  shows "sku_of rows k = get_sku_or_none (inv_db s) k"
proof (cases "sku_of rows k")
  case None
  have "sku_id r \<noteq> k" if "r \<in> set (db_skus (inv_db s))" for r
  proof
    assume "sku_id r = k"
    then have "r \<in> set rows" using lock_skus_rows [of ids s] assms(2,3) that by simp
    then show False using None \<open>sku_id r = k\<close> by (auto simp: sku_of_None)
  qed
  then have "find (\<lambda>r. sku_id r = k) (db_skus (inv_db s)) = None"
    by (auto simp: find_None_iff)
  then show ?thesis using None by (simp add: get_sku_or_none_def)
next
  case (Some r)
  then have "r \<in> set (db_skus (inv_db s))" "sku_id r = k"
    using lock_skus_of [OF assms(2)] by blast+
  then show ?thesis
    using keys_unique_find [OF assms(1), of r] Some by (simp add: get_sku_or_none_def)
qed

lemma insert_exit_ok:
  assumes "seq_exit s + 1 \<notin> ex_id ` set (db_exits (inv_db s))"
    and "ex_commercial_order_id r = None" and "ex_dispatch_id r = None"
    and "ex_sku_id r \<in> sku_id ` set (db_skus (inv_db s))"
  shows "insert_exit r s = (Inr (r\<lparr>ex_id := seq_exit s + 1\<rparr>),
    s\<lparr>seq_exit := seq_exit s + 1, inv_db := (inv_db s)\<lparr>db_exits := db_exits (inv_db s) @ [r\<lparr>ex_id := seq_exit s + 1\<rparr>]\<rparr>\<rparr>)"
  using assms by (simp add: insert_exit_def stock_exit_check_def Let_def)

lemma event_cmd_ok:
  assumes "uuid_version (env_uuid4 E (uuids_drawn s)) = Some 4" and "user \<noteq> []" and "rid \<noteq> Some []"
    and "ty \<noteq> []" and "\<not> blank ty"
  shows "\<exists>ev. event_cmd E ty user rid tm tgs s = (Inr ev, s\<lparr>uuids_drawn := Suc (uuids_drawn s)\<rparr>) \<and>
    tv_eventId ev = env_uuid4 E (uuids_drawn s) \<and> tv_event_type ev = ty"
  using assms by (simp add: event_cmd_def bind_cmd_def draw_uuid_def TelemetryEvent_def)

lemma threshold_event_ok:
  assumes fresh: "fresh_uuid E s" and user: "user \<noteq> []" "rid \<noteq> Some []"
    and sku: "crosses sku before after \<Longrightarrow> truthy (sku_client_id sku)"
      "canonical_telemetry_warehouse (sku_warehouse sku) \<noteq> None"
    and pk: "0 < pk" "(''stockexit'', pk, ''stock_threshold_triggered'') \<notin> ob_source ` set (db_outbox (inv_db s))"
  shows "\<exists>ev t. threshold_event E sku pk before after user rid tm s = (Inr ev, t) \<and>
    (ev \<noteq> None \<longleftrightarrow> crosses sku before after) \<and>
    seq_eval t = seq_eval s \<and> db_evals (inv_db t) = db_evals (inv_db s) \<and> db_skus (inv_db t) = db_skus (inv_db s)"
proof (cases "crosses sku before after")
  case False
  then show ?thesis
    by (auto simp: threshold_event_def crosses_def split: option.splits)
next
  case True
  then obtain threshold where th: "sku_minimum_stock_threshold sku = Some threshold"
    "before > threshold" "after \<le> threshold"
    by (auto simp: crosses_def split: option.splits)
  obtain w where w: "canonical_telemetry_warehouse (sku_warehouse sku) = Some w" using sku(2) by blast
  let ?s = "s\<lparr>uuids_drawn := Suc (uuids_drawn s)\<rparr>"
  from event_cmd_ok [of E s user rid "''stock_threshold_triggered''" tm "threshold_tags sku w after threshold pk"]
  obtain ev where ev: "event_cmd E ''stock_threshold_triggered'' user rid tm
      (threshold_tags sku w after threshold pk) s = (Inr ev, ?s)"
    "tv_eventId ev = env_uuid4 E (uuids_drawn s)" "tv_event_type ev = ''stock_threshold_triggered''"
    using fresh user by (auto simp: fresh_uuid_def blank_def py_space_def)
  let ?table = "db_outbox (inv_db s) @ [new_outbox_row (tv_eventId ev) tm ''stockexit'' pk
      ''stock_threshold_triggered'' (threshold_tags sku w after threshold pk)]"
  have "enqueue_inventory_event (tv_eventId ev) tm ''stockexit'' pk ''stock_threshold_triggered''
      (threshold_tags sku w after threshold pk) (db_outbox (inv_db s)) = (Inr (), ?table)"
    using fresh pk ev(2) by (simp add: enqueue_Inr fresh_uuid_def OUTBOX_SOURCE_EVENT_TYPES_def)
  then have enq: "enqueue_event (tv_eventId ev) tm ''stockexit'' pk (tv_event_type ev)
      (threshold_tags sku w after threshold pk) ?s = (Inr (), ?s\<lparr>inv_db := (inv_db s)\<lparr>db_outbox := ?table\<rparr>\<rparr>)"
    by (simp add: enqueue_event_def ev(3))
  have "threshold_event E sku pk before after user rid tm s =
      (Inr (Some ev), ?s\<lparr>inv_db := (inv_db s)\<lparr>db_outbox := ?table\<rparr>\<rparr>)"
    using ev(1) enq by (simp add: threshold_event_def th w sku(1) [OF True] threshold_tags_def Let_def bind_cmd_def)
  then show ?thesis using True by simp
qed

lemma threshold_event_refused:
  assumes "crosses sku before after" and "\<not> truthy (sku_client_id sku)"
    and "canonical_telemetry_warehouse (sku_warehouse sku) \<noteq> None"
  shows "threshold_event E sku pk before after user rid tm s = (Inl (InventoryDataIntegrityError {sku_id sku}), s)"
  using assms by (auto simp: threshold_event_def crosses_def split: option.splits)

lemma record_evaluation_ok:
  assumes "st = ''stockexit''" and "0 \<le> before" and "0 \<le> after"
    and "\<forall>t. sku_minimum_stock_threshold sku = Some t \<longrightarrow> 0 \<le> t"
    and "seq_eval s + 1 \<notin> te_id ` set (db_evals (inv_db s))"
    and "(st, pk) \<notin> te_source ` set (db_evals (inv_db s))"
    and "sku_id sku \<in> sku_id ` set (db_skus (inv_db s))"
  shows "\<exists>e t. record_threshold_evaluation st pk sku before after ev tm s = (Inr e, t)"
  using assms
  by (auto simp: record_threshold_evaluation_def insert_eval_def te_source_def Let_def
      threshold_evaluation_check_None split: option.splits)

lemma stock_exit_body_ok:
  assumes ok: "inventory_ok (inv_db s)" and ids: "identities_ahead s" and fresh: "fresh_uuid E s"
    and user: "user \<noteq> []" "rid \<noteq> Some []"
    and sku: "sku \<in> set (db_skus (inv_db s))" "sku_id sku = sxc_sku_id data"
      "crosses sku available (available - sxc_quantity data) \<Longrightarrow> truthy (sku_client_id sku)"
      "warehouse_value (sxc_warehouse data) = sku_warehouse sku"
    and q: "0 < sxc_quantity data" "sxc_quantity data \<le> available" "0 \<le> available"
  shows "\<exists>evs t. stock_exit_body E data sku available user rid s =
    (Inr (\<lparr>ex_id = seq_exit s + 1, ex_sku_id = sxc_sku_id data, ex_quantity = sxc_quantity data,
        ex_exit_type = exit_type_value (sxc_exit_type data), ex_tracking_number = sxc_tracking_number data,
        ex_warehouse = warehouse_value (sxc_warehouse data), ex_created_at = env_now E,
        ex_user_uuid = user, ex_commercial_order_id = None, ex_dispatch_id = None\<rparr>, evs), t)"
proof -
  let ?r = "\<lparr>ex_id = 0, ex_sku_id = sxc_sku_id data, ex_quantity = sxc_quantity data,
        ex_exit_type = exit_type_value (sxc_exit_type data), ex_tracking_number = sxc_tracking_number data,
        ex_warehouse = warehouse_value (sxc_warehouse data), ex_created_at = env_now E,
        ex_user_uuid = user, ex_commercial_order_id = None, ex_dispatch_id = None\<rparr>"
  let ?x = "?r\<lparr>ex_id := seq_exit s + 1\<rparr>"
  let ?s1 = "s\<lparr>seq_exit := seq_exit s + 1, inv_db := (inv_db s)\<lparr>db_exits := db_exits (inv_db s) @ [?x]\<rparr>\<rparr>"
  have new: "seq_exit s + 1 \<notin> ex_id ` set (db_exits (inv_db s))"
    using ids by (auto simp: identities_ahead_def)
  have newe: "seq_eval s + 1 \<notin> te_id ` set (db_evals (inv_db s))"
    using ids by (auto simp: identities_ahead_def)
  have src: "(''stockexit'', seq_exit s + 1) \<notin> te_source ` set (db_evals (inv_db s))"
    using ok new by (auto simp: inventory_ok_def evals_ok_def)
  have ins: "insert_exit ?r s = (Inr ?x, ?s1)"
    by (rule insert_exit_ok [OF new]) (use sku in \<open>auto intro: image_eqI [of _ _ sku]\<close>)
  have pub: "(''stockexit'', seq_exit s + 1, ''stock_threshold_triggered'') \<notin> ob_source ` set (db_outbox (inv_db s))"
  proof
    assume "(''stockexit'', seq_exit s + 1, ''stock_threshold_triggered'') \<in> ob_source ` set (db_outbox (inv_db s))"
    then obtain r where r: "r \<in> set (db_outbox (inv_db s))" "ob_source_table r = ''stockexit''"
      "ob_source_pk r = seq_exit s + 1" by (auto simp: ob_source_def)
    then have "((''stockexit'', seq_exit s + 1), ob_event_id r) \<in>
        (\<lambda>r. ((''stockexit'', ob_source_pk r), ob_event_id r)) ` set (rows_of ''stockexit'' (inv_db s))"
      by (intro image_eqI [of _ _ r]) (simp_all add: rows_of_def)
    then have "((''stockexit'', seq_exit s + 1), ob_event_id r) \<in>
        {(te_source e, u) |e u. e \<in> set (db_evals (inv_db s)) \<and> te_event_id e = Some u}"
      using ok by (simp only: inventory_ok_def crossings_published_def)
    then have "(''stockexit'', seq_exit s + 1) \<in> te_source ` set (db_evals (inv_db s))" by force
    with src show False by simp
  qed
  have parsed: "sku_ok sku" using inventory_ok_skus [OF ok sku(1)] .
  then have wh: "canonical_telemetry_warehouse (sku_warehouse sku) \<noteq> None"
    using sku_warehouse_known by (auto simp: sku_ok_def)
  have "fresh_uuid E ?s1" using fresh by (simp add: fresh_uuid_def)
  from threshold_event_ok [where pk = "seq_exit s + 1" and before = available and
      after = "available - sxc_quantity data" and tm = "env_now E", OF this user sku(3) wh]
  obtain ev s2 where th: "threshold_event E sku (seq_exit s + 1) available (available - sxc_quantity data)
      user rid (env_now E) ?s1 = (Inr ev, s2)"
    and s2: "seq_eval s2 = seq_eval s" "db_evals (inv_db s2) = db_evals (inv_db s)"
      "db_skus (inv_db s2) = db_skus (inv_db s)"
    using ids pub by (auto simp: identities_ahead_def)
  have "\<exists>e t. record_threshold_evaluation ''stockexit'' (seq_exit s + 1) sku available
      (available - sxc_quantity data) ev (env_now E) s2 = (Inr e, t)"
    by (rule record_evaluation_ok)
      (use parsed newe src sku q s2 in \<open>auto simp: sku_ok_def sku_check_None intro: image_eqI [of _ _ sku]\<close>)
  then show ?thesis
    using ins th by (auto simp: stock_exit_body_def bind_cmd_def)
qed

text \<open>A crossing of a product without a client stops the transaction after its insert.\<close>

lemma stock_exit_body_refused:
  assumes ok: "inventory_ok (inv_db s)" and ids: "identities_ahead s"
    and sku: "sku \<in> set (db_skus (inv_db s))" "sku_id sku = sxc_sku_id data" "\<not> truthy (sku_client_id sku)"
      "crosses sku available (available - sxc_quantity data)"
  shows "\<exists>t. stock_exit_body E data sku available user rid s = (Inl (InventoryDataIntegrityError {sxc_sku_id data}), t)"
proof -
  let ?r = "\<lparr>ex_id = 0, ex_sku_id = sxc_sku_id data, ex_quantity = sxc_quantity data,
        ex_exit_type = exit_type_value (sxc_exit_type data), ex_tracking_number = sxc_tracking_number data,
        ex_warehouse = warehouse_value (sxc_warehouse data), ex_created_at = env_now E,
        ex_user_uuid = user, ex_commercial_order_id = None, ex_dispatch_id = None\<rparr>"
  have new: "seq_exit s + 1 \<notin> ex_id ` set (db_exits (inv_db s))"
    using ids by (auto simp: identities_ahead_def)
  have "sxc_sku_id data \<in> sku_id ` set (db_skus (inv_db s))" using sku(1,2) by (metis imageI)
  note ins = insert_exit_ok [OF new, of ?r, simplified, OF this]
  have wh: "canonical_telemetry_warehouse (sku_warehouse sku) \<noteq> None"
    using inventory_ok_skus [OF ok sku(1)] sku_warehouse_known by (auto simp: sku_ok_def)
  then show ?thesis
    using ins threshold_event_refused [OF sku(4,3) wh]
    by (simp add: stock_exit_body_def bind_cmd_def sku(2))
qed

text \<open>The answer of an exit, as a function of the tables and of how its commit ends.\<close>

lemma stock_exit_answer:
  assumes ok: "inventory_ok (inv_db s)" and ids: "identities_ahead s" and fresh: "fresh_uuid E s"
    and user: "user \<noteq> []" "rid \<noteq> Some []"
    and chk: "check_stock_exit_create data = Inr ()"
  shows "fst (create_stock_exit E data user rid s) =
    (case get_sku_or_none (inv_db s) (sxc_sku_id data) of
       None \<Rightarrow> Inl unknown_product
     | Some sku \<Rightarrow>
         let w = warehouse_value (sxc_warehouse data);
             available = get_current_stock (inv_db s) (sxc_sku_id data) w
         in if w \<noteq> sku_warehouse sku then Inl (warehouse_mismatch sku w)
            else if sxc_quantity data > available
            then Inl (insufficient_stock sku available (sxc_quantity data))
            else if crosses sku available (available - sxc_quantity data) \<and> \<not> truthy (sku_client_id sku)
            then Inl (InventoryDataIntegrityError {sxc_sku_id data})
            else if env_commit E \<noteq> CommitOk \<or> \<not> env_refresh_ok E then Inl OperationalError
            else Inr \<lparr>ex_id = seq_exit s + 1, ex_sku_id = sxc_sku_id data, ex_quantity = sxc_quantity data,
              ex_exit_type = exit_type_value (sxc_exit_type data),
              ex_tracking_number = sxc_tracking_number data, ex_warehouse = w, ex_created_at = env_now E,
              ex_user_uuid = user, ex_commercial_order_id = None, ex_dispatch_id = None\<rparr>)"
proof -
  obtain rows s1 where lock: "lock_skus [sxc_sku_id data] s = (rows, s1)"
    by (cases "lock_skus [sxc_sku_id data] s")
  have uniq: "keys_unique sku_id (db_skus (inv_db s))" using ok by (simp add: inventory_ok_def tables_ok_def)
  have found: "sku_of rows (sxc_sku_id data) = get_sku_or_none (inv_db s) (sxc_sku_id data)"
    using locked_sku [OF uniq lock] by simp
  have s1: "inv_db s1 = inv_db s" "seq_exit s1 = seq_exit s" "seq_eval s1 = seq_eval s" "uuids_drawn s1 = uuids_drawn s"
    using lock by (auto simp: lock_skus_def Let_def)
  show ?thesis
  proof (cases "get_sku_or_none (inv_db s) (sxc_sku_id data)")
    case None
    then show ?thesis by (simp add: create_stock_exit_def lock found)
  next
    case (Some sku)
    have sku: "sku \<in> set (db_skus (inv_db s))" "sku_id sku = sxc_sku_id data"
      using find_SomeD [of "\<lambda>r. sku_id r = sxc_sku_id data"] Some by (auto simp: get_sku_or_none_def)
    let ?b = "get_current_stock (inv_db s) (sxc_sku_id data) (sku_warehouse sku)"
    show ?thesis
    proof (cases "warehouse_value (sxc_warehouse data) = sku_warehouse sku \<and> sxc_quantity data \<le> ?b")
      case False
      then show ?thesis
        by (auto simp: create_stock_exit_def lock found Some s1 sku(2) Let_def)
    next
      case True
      have q: "0 < sxc_quantity data" "0 \<le> ?b"
        using chk ok by (auto simp: check_stock_exit_create_def inventory_ok_def stock_nonneg_def split: if_splits)
      show ?thesis
      proof (cases "crosses sku ?b (?b - sxc_quantity data) \<and> \<not> truthy (sku_client_id sku)")
        case refused: True
        obtain t where "stock_exit_body E data sku ?b user rid s1 = (Inl (InventoryDataIntegrityError {sxc_sku_id data}), t)"
          using stock_exit_body_refused [of s1 sku data ?b E user rid] ok ids sku refused
          by (auto simp: s1 identities_ahead_def)
        then show ?thesis
          using True refused by (simp add: create_stock_exit_def lock found Some s1 sku(2) Let_def
              commit_and_refresh_def bind_cmd_def in_transaction_def)
      next
        case False
        obtain evs t where "stock_exit_body E data sku ?b user rid s1 =
          (Inr (\<lparr>ex_id = seq_exit s1 + 1, ex_sku_id = sxc_sku_id data, ex_quantity = sxc_quantity data,
            ex_exit_type = exit_type_value (sxc_exit_type data), ex_tracking_number = sxc_tracking_number data,
            ex_warehouse = warehouse_value (sxc_warehouse data), ex_created_at = env_now E,
            ex_user_uuid = user, ex_commercial_order_id = None, ex_dispatch_id = None\<rparr>, evs), t)"
          using stock_exit_body_ok [of s1 E user rid sku data ?b] ok ids fresh user sku False True q
          by (auto simp: s1 identities_ahead_def fresh_uuid_def)
        then show ?thesis
          using True False
          by (cases "env_commit E") (auto simp: create_stock_exit_def lock found Some s1 sku(2) Let_def
              commit_and_refresh_def bind_cmd_def in_transaction_def session_read_def)
      qed
    qed
  qed
qed

section \<open>Thresholds in a batch\<close>

text \<open>
  The evaluations a batch of dispatches adds for one product, and how many of them say that the
  threshold was crossed.
\<close>

lemma issue_all_crossings:
  assumes "issue_all d xs d'" and "keys_unique sku_id (db_skus d)"
    and "sku \<in> set (db_skus d)" and "sku_minimum_stock_threshold sku = Some threshold"
  shows "\<exists>es. db_evals d' = db_evals d @ es \<and>
    length (filter (\<lambda>e. te_sku_id e = sku_id sku \<and> te_crossed e) es) =
      crossings threshold (get_current_stock d (sku_id sku) (sku_warehouse sku))
        (map ex_quantity (filter (\<lambda>x. ex_sku_id x = sku_id sku) xs))"
  using assms
proof (induction rule: issue_all.induct)
  case (issue_more d x d' xs d'')
  from issue_more.hyps(1) show ?case
  proof cases
    case (issue_stepI k before i table e)
    let ?w = "sku_warehouse sku"
    have k: "k = sku" if "ex_sku_id x = sku_id sku"
      using keys_uniqueD [OF issue_more.prems(1) issue_stepI(2) issue_more.prems(2)] issue_stepI(3) that by simp
    have stock: "get_current_stock d' (sku_id sku) ?w = get_current_stock d (sku_id sku) ?w -
        (if ex_sku_id x = sku_id sku then ex_quantity x else 0)"
      using issue_step_stock [OF issue_more.hyps(1), of "sku_id sku" ?w] k issue_stepI(4) by auto
    from issue_more.IH issue_more.prems obtain es where
      es: "db_evals d'' = db_evals d' @ es"
        "length (filter (\<lambda>e. te_sku_id e = sku_id sku \<and> te_crossed e) es) =
          crossings threshold (get_current_stock d' (sku_id sku) ?w)
            (map ex_quantity (filter (\<lambda>x. ex_sku_id x = sku_id sku) xs))"
      by (auto simp: issue_stepI(1))
    have crossed: "te_crossed e \<longleftrightarrow> crosses k before (before - ex_quantity x)" "te_sku_id e = ex_sku_id x"
      using issue_stepI(3,12,13) by (auto simp: evaluation_of_def threshold_outcome_def split: if_splits)
    show ?thesis
    proof (cases "ex_sku_id x = sku_id sku")
      case True
      have "crosses k before (before - ex_quantity x) \<longleftrightarrow>
          get_current_stock d (sku_id sku) ?w > threshold \<and> get_current_stock d (sku_id sku) ?w - ex_quantity x \<le> threshold"
        using k [OF True] issue_stepI(4,6) True issue_more.prems(3) by (simp add: crosses_def)
      then show ?thesis
        using es stock crossed True by (intro exI [of _ "e # es"]) (simp add: issue_stepI(1))
    next
      case False
      then show ?thesis
        using es stock crossed by (intro exI [of _ "e # es"]) (simp add: issue_stepI(1))
    qed
  qed
qed simp

lemma txn_opens_order:
  assumes "txn d d'" and "db_orders d' = db_orders d @ [c]"
  shows "\<exists>xs d1 table. issue_all (d\<lparr>db_orders := db_orders d @ [c]\<rparr>) xs d1 \<and> d' = d1\<lparr>db_outbox := table\<rparr>"
  using assms(1)
proof cases
  case (txn_issue x)
  then show ?thesis using assms(2) by (auto elim!: issue_step_shape)
next
  case (txn_open_order k xs d1 u table)
  then show ?thesis using issue_all_frame [OF txn_open_order(4)] assms(2) by auto
next
  case (txn_extend_order k xs)
  then show ?thesis using issue_all_frame [OF txn_extend_order(2)] assms(2) by simp
qed (use assms(2) in auto)

lemma created_asked:
  assumes "list_all2 (\<lambda>x i. ex_dispatch_id x = Some (dc_dispatch_id i) \<and> dispatch_matches x i k) xs items"
  shows "sum_list (map ex_quantity (filter (\<lambda>x. ex_sku_id x = j) xs)) = asked j items \<and>
    (\<forall>x \<in> set xs. \<exists>i \<in> set items. ex_quantity x = dc_quantity i)"
  using assms by (induction rule: list_all2_induct) (auto simp: dispatch_matches_def)

lemma order_crossings:
  assumes ok: "inventory_ok (inv_db s)" and chk: "check_commercial_order_create data = Inr ()"
    and run: "create_commercial_order E data user rid s = (Inr (c, xs), t)"
    and new: "coc_order_id data \<notin> co_order_id ` set (db_orders (inv_db s))"
    and sku: "sku \<in> set (db_skus (inv_db s))" "sku_minimum_stock_threshold sku = Some threshold"
  shows "\<exists>es. db_evals (inv_db t) = db_evals (inv_db s) @ es \<and>
    length (filter (\<lambda>e. te_sku_id e = sku_id sku \<and> te_crossed e) es) =
      (let before = get_current_stock (inv_db s) (sku_id sku) (sku_warehouse sku);
           after = before - asked (sku_id sku) (coc_dispatches data)
       in if before > threshold \<and> after \<le> threshold then 1 else 0)"
proof -
  let ?items = "sort_key (\<lambda>item. uuid_str (dc_dispatch_id item)) (coc_dispatches data)"
  have no: False if "find_order (coc_order_id data) u = (Some c, v)" "db_orders (inv_db u) = db_orders (inv_db s)"
    for u v using find_order_Some [OF that(1)] that(2) new by force
  from create_commercial_order_Inr [OF run chk] have
    r: "txn (inv_db s) (inv_db t)" "db_orders (inv_db t) = db_orders (inv_db s) @ [c]"
      "db_exits (inv_db t) = db_exits (inv_db s) @ xs"
      "list_all2 (\<lambda>x i. ex_dispatch_id x = Some (dc_dispatch_id i) \<and> dispatch_matches x i (co_id c)) xs ?items"
    using no by (elim disjE; (elim exE conjE)?; force)+
  let ?d = "(inv_db s)\<lparr>db_orders := db_orders (inv_db s) @ [c]\<rparr>"
  from txn_opens_order [OF r(1,2)] obtain ys d1 table where
    iss: "issue_all ?d ys d1" and t: "inv_db t = d1\<lparr>db_outbox := table\<rparr>" by blast
  have "ys = xs" using issue_all_frame [OF iss] r(3) t by simp
  moreover have "keys_unique sku_id (db_skus ?d)" "sku \<in> set (db_skus ?d)"
    using ok sku by (simp_all add: inventory_ok_def tables_ok_def)
  ultimately obtain es where es: "db_evals d1 = db_evals ?d @ es"
    "length (filter (\<lambda>e. te_sku_id e = sku_id sku \<and> te_crossed e) es) =
      crossings threshold (get_current_stock ?d (sku_id sku) (sku_warehouse sku))
        (map ex_quantity (filter (\<lambda>x. ex_sku_id x = sku_id sku) xs))"
    using issue_all_crossings [OF iss _ _ sku(2)] by blast
  have nonneg: "0 \<le> q" if "q \<in> set (map ex_quantity (filter (\<lambda>x. ex_sku_id x = sku_id sku) xs))" for q
    using that created_asked [OF r(4)] chk
    by (fastforce simp: check_commercial_order_create_Inr dispatch_ok_def)
  show ?thesis
    using crossings_once [OF nonneg, of "map ex_quantity (filter (\<lambda>x. ex_sku_id x = sku_id sku) xs)"
        threshold "get_current_stock (inv_db s) (sku_id sku) (sku_warehouse sku)"] es t created_asked [OF r(4), of "sku_id sku"]
    by (intro exI [of _ es]) (simp add: asked_sort_key Let_def)
qed

end
