(* ===== verification/InventoryProperties.thy ===== *)
theory InventoryProperties
  imports InventoryDemo InventoryRetries InventoryOutcomes InventoryRaces
begin

text \<open>
  The properties of the inventory service, each with a witness on the concrete run of
  \<open>InventoryDemo\<close>.
\<close>

section \<open>Safety and atomicity\<close>

text \<open>
  C4. Stock never becomes negative: in every state the service reaches from consistent tables, by
  any sequence of requests (accepted or refused, with any clock, identifiers and failures of the
  environment), the recorded receipts of a product in a warehouse cover its recorded issues.
\<close>

theorem stock_never_negative:
  assumes "reachable s0 s" and "inventory_ok (inv_db s0)"
  shows "0 \<le> get_current_stock (inv_db s) k w"
  using reachable_txns [OF assms] by (simp add: inventory_ok_def stock_nonneg_def)

theorem stock_never_negative_witness:
  "0 \<le> get_current_stock (inv_db demo_ordered) 1 ''LA'' \<and> get_current_stock (inv_db demo_ordered) 1 ''LA'' = 2"
proof
  show "0 \<le> get_current_stock (inv_db demo_ordered) 1 ''LA''"
    by (rule stock_never_negative [OF demo_reachable(2) demo_start_ok])
  show "get_current_stock (inv_db demo_ordered) 1 ''LA'' = 2" by code_simp
qed

text \<open>
  C5. Every request refines the abstract ledger: it leaves the tables as they were, or changes them by
  exactly one business transaction \<open>txn\<close>. When it answers and has changed them, its commit was confirmed.
  When it raises it has changed nothing, except that its commit took effect and then its confirmation
  was lost or a statement after it failed; in that case it raises the database error.
\<close>

theorem request_refines_txn:
  assumes "reachable s0 s" and "inventory_ok (inv_db s0)"
  shows "case handle E user request_id r s of
      (Inl e, t) \<Rightarrow> inv_db t = inv_db s \<or>
        e = OperationalError \<and> txn (inv_db s) (inv_db t) \<and>
        (env_commit E = CommitLost \<or> env_commit E = CommitOk \<and> \<not> (env_refresh_ok E \<and> env_reread_ok E))
    | (Inr v, t) \<Rightarrow> inv_db t = inv_db s \<or> env_commit E = CommitOk \<and> txn (inv_db s) (inv_db t)"
  using handle_atomic [of s E user request_id r] reachable_txns [OF assms]
  by (auto simp: atomic_at_def commit_in_doubt_def split: prod.splits sum.splits)

theorem request_refines_txn_witness:
  "\<exists>t. handle demo_lost_env ''u1'' None (PostOrder demo_order) demo_stocked = (Inl OperationalError, t) \<and>
     length (db_exits (inv_db t)) = 2 \<and> txn (inv_db demo_stocked) (inv_db t)"
proof -
  obtain t where t: "handle demo_lost_env ''u1'' None (PostOrder demo_order) demo_stocked = (Inl OperationalError, t)"
    "length (db_exits (inv_db t)) = 2"
    using demo_lost_run by (cases "handle demo_lost_env ''u1'' None (PostOrder demo_order) demo_stocked") auto
  have "inv_db t \<noteq> inv_db demo_stocked" using t(2) by (auto simp: demo_stocked_def)
  then show ?thesis
    using request_refines_txn [OF demo_reachable(1) demo_start_ok, of demo_lost_env "''u1''" None "PostOrder demo_order"] t
    by auto
qed

section \<open>Published events and evaluations\<close>

text \<open>
  C7. Every movement has exactly one threshold evaluation, recorded with non-negative quantities,
  and an evaluation says \<open>crossed\<close> exactly when an outbox event of that movement carries its
  event id.
\<close>

theorem movements_evaluated_once:
  assumes "reachable s0 s" and "inventory_ok (inv_db s0)"
  shows "distinct (map te_source (db_evals (inv_db s))) \<and>
    te_source ` set (db_evals (inv_db s)) =
      (\<lambda>e. (''stockentry'', en_id e)) ` set (db_entries (inv_db s)) \<union>
      (\<lambda>x. (''stockexit'', ex_id x)) ` set (db_exits (inv_db s)) \<and>
    (\<forall>e \<in> set (db_evals (inv_db s)). 0 \<le> te_before_quantity e \<and> 0 \<le> te_after_quantity e \<and>
      (te_crossed e \<longleftrightarrow> (\<exists>r \<in> set (db_outbox (inv_db s)). te_source e = (ob_source_table r, ob_source_pk r) \<and>
        te_event_id e = Some (ob_event_id r))))"
proof -
  let ?d = "inv_db s"
  have ok: "evals_ok ?d" "crossings_published ?d"
    using reachable_txns [OF assms] by (simp_all add: inventory_ok_def)
  let ?A = "{(te_source e, u) |e u. e \<in> set (db_evals ?d) \<and> te_event_id e = Some u}"
  have pub: "?A = (\<lambda>r. ((''stockexit'', ob_source_pk r), ob_event_id r)) ` set (rows_of ''stockexit'' ?d)"
    using ok(2) by (simp add: crossings_published_def)
  have row: "\<exists>r \<in> set (db_outbox ?d). te_source e = (ob_source_table r, ob_source_pk r) \<and>
      te_event_id e = Some (ob_event_id r)" if "e \<in> set (db_evals ?d)" "te_event_id e = Some u" for e u
  proof -
    have "(te_source e, u) \<in> ?A" using that by blast
    then obtain r where "r \<in> set (rows_of ''stockexit'' ?d)"
      "(te_source e, u) = ((''stockexit'', ob_source_pk r), ob_event_id r)"
      unfolding pub by blast
    then show ?thesis using that by (intro bexI [of _ r]) (simp_all add: rows_of_def)
  qed
  have "0 \<le> te_before_quantity e \<and> 0 \<le> te_after_quantity e \<and>
      (te_crossed e \<longleftrightarrow> (\<exists>r \<in> set (db_outbox ?d). te_source e = (ob_source_table r, ob_source_pk r) \<and>
        te_event_id e = Some (ob_event_id r)))" if e: "e \<in> set (db_evals ?d)" for e
  proof -
    have "0 \<le> te_before_quantity e \<and> 0 \<le> te_after_quantity e" "te_crossed e \<longleftrightarrow> te_event_id e \<noteq> None"
      using ok(1) e by (auto simp: evals_ok_def threshold_evaluation_check_None)
    then show ?thesis using row [OF e] by auto
  qed
  then show ?thesis using ok(1) by (simp add: evals_ok_def keys_unique_def)
qed

theorem movements_evaluated_once_witness:
  "(\<exists>e \<in> set (db_evals (inv_db demo_ordered)). te_crossed e) \<and>
   list_all (\<lambda>e. te_crossed e = (\<exists>r \<in> set (db_outbox (inv_db demo_ordered)).
      te_source e = (ob_source_table r, ob_source_pk r) \<and> te_event_id e = Some (ob_event_id r)))
     (db_evals (inv_db demo_ordered))"
  using movements_evaluated_once [OF demo_reachable(2) demo_start_ok]
  by (simp add: demo_ordered_def te_source_def)

text \<open>
  C8. A commercial order is announced exactly once: for every order row there is exactly one
  outbox row of source \<open>commercial_order\<close> with its primary key, of type
  \<open>outbound_order_created\<close>, however many dispatches are appended and however often it is retried.
\<close>

theorem order_announced_once:
  assumes "reachable s0 s" and "inventory_ok (inv_db s0)" and "c \<in> set (db_orders (inv_db s))"
  shows "\<exists>r. filter (\<lambda>r. ob_source_table r = ''commercial_order'' \<and> ob_source_pk r = co_id c)
      (db_outbox (inv_db s)) = [r] \<and> ob_event_type r = ''outbound_order_created''"
proof -
  let ?d = "inv_db s"
  let ?f = "filter (\<lambda>r. ob_source_table r = ''commercial_order'' \<and> ob_source_pk r = co_id c) (db_outbox ?d)"
  have ok: "outbox_wf (db_outbox ?d)" "orders_published ?d"
    using reachable_txns [OF assms(1,2)] by (simp_all add: inventory_ok_def)
  have et: "ob_event_type r = ''outbound_order_created''"
    if "r \<in> set (db_outbox ?d)" "ob_source_table r = ''commercial_order''" for r
    using ok(1) that by (auto simp: outbox_wf_def OUTBOX_SOURCE_EVENT_TYPES_def)
  have "co_id c \<in> ob_source_pk ` set (rows_of ''commercial_order'' ?d)"
    using ok(2) assms(3) by (simp add: orders_published_def)
  then have ne: "?f \<noteq> []" by (auto simp: rows_of_def filter_empty_conv)
  have "distinct (map ob_source ?f)"
    using ok(1) by (simp add: outbox_wf_def keys_unique_def distinct_map_filter)
  moreover have "ob_source r = (''commercial_order'', co_id c, ''outbound_order_created'')" if "r \<in> set ?f" for r
    using et that by (auto simp: ob_source_def)
  ultimately have "length ?f \<le> 1"
    by (rule distinct_constant)
  then obtain r where r: "?f = [r]" using ne by (cases ?f) auto
  have "r \<in> set ?f" unfolding r by simp
  then have "r \<in> set (db_outbox ?d) \<and> ob_source_table r = ''commercial_order''" by simp
  then show ?thesis using et r by blast
qed

theorem order_announced_once_witness:
  "\<exists>c \<in> set (db_orders (inv_db demo_ordered)). \<exists>r.
     filter (\<lambda>r. ob_source_table r = ''commercial_order'' \<and> ob_source_pk r = co_id c)
       (db_outbox (inv_db demo_ordered)) = [r] \<and> ob_event_type r = ''outbound_order_created''"
proof -
  have "hd (db_orders (inv_db demo_ordered)) \<in> set (db_orders (inv_db demo_ordered))"
    by (simp add: demo_ordered_def)
  then show ?thesis
    using order_announced_once [OF demo_reachable(2) demo_start_ok] by blast
qed

text \<open>
  A physical count publishes a discrepancy event exactly when the counted quantity differs
  from the expected one, and never more than once.
\<close>

theorem discrepancy_published_iff:
  assumes "reachable s0 s" and "inventory_ok (inv_db s0)" and "c \<in> set (db_counts (inv_db s))"
  shows "(\<exists>r \<in> set (db_outbox (inv_db s)). ob_source_table r = ''inventory_physical_count'' \<and>
      ob_source_pk r = pc_id c) \<longleftrightarrow> pc_observed_quantity c \<noteq> pc_expected_quantity c"
proof -
  let ?d = "inv_db s"
  have ok: "tables_ok ?d" "counts_published ?d"
    using reachable_txns [OF assms(1,2)] by (simp_all add: inventory_ok_def)
  have uniq: "keys_unique pc_id (db_counts ?d)" using ok(1) by (simp add: tables_ok_def)
  have "(\<exists>r \<in> set (db_outbox ?d). ob_source_table r = ''inventory_physical_count'' \<and>
      ob_source_pk r = pc_id c) \<longleftrightarrow> pc_id c \<in> ob_source_pk ` set (rows_of ''inventory_physical_count'' ?d)"
    by (auto simp: rows_of_def image_iff)
  also have "\<dots> \<longleftrightarrow> pc_id c \<in> pc_id ` {c \<in> set (db_counts ?d). pc_observed_quantity c \<noteq> pc_expected_quantity c}"
    using ok(2) by (simp add: counts_published_def)
  also have "\<dots> \<longleftrightarrow> pc_observed_quantity c \<noteq> pc_expected_quantity c"
    using keys_uniqueD [OF uniq] assms(3) by auto
  finally show ?thesis .
qed

theorem discrepancy_published_iff_witness:
  "\<exists>c \<in> set (db_counts (inv_db demo_counted)). pc_observed_quantity c = 6 \<and> pc_expected_quantity c = 5 \<and>
     (\<exists>r \<in> set (db_outbox (inv_db demo_counted)). ob_source_table r = ''inventory_physical_count'' \<and>
        ob_source_pk r = pc_id c)"
proof -
  have c: "hd (db_counts (inv_db demo_counted)) \<in> set (db_counts (inv_db demo_counted))"
    by (simp add: demo_run_counted)
  show ?thesis
    using discrepancy_published_iff [OF demo_reachable(3) demo_start_ok c] c
    by (intro bexI [OF _ c]) (simp add: demo_run_counted)
qed

text \<open>
  Every event in the outbox carries only properties of its allowlist, so the mapping to the
  telemetry row drops none of them.
\<close>

theorem outbox_tags_survive:
  assumes "reachable s0 s" and "inventory_ok (inv_db s0)" and "r \<in> set (db_outbox (inv_db s))"
  shows "tr_tags (map_outbox_event_to_row (ob_event_id r) (ob_occurred_at r) (ob_event_type r) (ob_tags r)) =
    ob_tags r"
  using reachable_txns [OF assms(1,2)] assms(3)
  by (simp add: inventory_ok_def tags_ok_def map_outbox_event_to_row_def)

theorem outbox_tags_survive_witness:
  "\<exists>r \<in> set (db_outbox (inv_db demo_ordered)). ob_tags r \<noteq> [] \<and>
     tr_tags (map_outbox_event_to_row (ob_event_id r) (ob_occurred_at r) (ob_event_type r) (ob_tags r)) =
     ob_tags r"
proof -
  have r: "hd (db_outbox (inv_db demo_ordered)) \<in> set (db_outbox (inv_db demo_ordered))"
    "ob_tags (hd (db_outbox (inv_db demo_ordered))) \<noteq> []"
    by (simp_all add: demo_ordered_def)
  show ?thesis
    using outbox_tags_survive [OF demo_reachable(2) demo_start_ok r(1)] r by blast
qed

section \<open>Reads\<close>

text \<open>
  The bulk stock query agrees with the query of one product: the product list and the product
  page show the same stock for every product.
\<close>

theorem bulk_stock_agrees:
  "or_else (map_of (get_current_stocks d) (k, w)) 0 = get_current_stock d k w"
  by (rule get_current_stocks_lookup)

text \<open>
  C11. What the two cached lists show is bounded in age, whatever overlaps. In a process among others,
  while list requests run their queries at different moments, requests of the process and commits of
  other sessions come in between, invalidations come late or never, and commits are in doubt, a list
  that is served was computed from states the tables really had, read in the order of its queries, the
  first of them less than the time to live of the cache and the longest read ago. It may be stale: it
  need not be the projection of the current tables.
\<close>

theorem cached_lists_recent:
  assumes "(race_step b D)\<^sup>*\<^sup>* r0 r" and "race_start r0" and "0 \<le> D"
    and "env_bind_id E = b" and "env_clock E = rc_clock r"
  shows "(\<forall>v. fst (list_products E (rc_state r)) = Inr v \<longrightarrow>
      shows_recent r (ttl_seconds (products_cache (rc_state r0)) + D) products_read v) \<and>
    (\<forall>v. fst (list_orders_endpoint E (rc_state r)) = Inr v \<longrightarrow>
      shows_recent r (ttl_seconds (orders_cache (rc_state r0)) + D) orders_read v)"
proof -
  have "0 < ttl_seconds (products_cache (rc_state r0)) + D" "0 < ttl_seconds (orders_cache (rc_state r0)) + D"
    using assms(2,3) by (simp_all add: race_start_def)
  then show ?thesis using listed_recent [OF race_steps_ok [OF assms(1-3)] _ _ assms(4,5)] by blast
qed

theorem cached_lists_recent_witness:
  "\<exists>v. fst (list_products demo_env (rc_state demo_race_end)) = Inr v \<and> map sr_current_stock v = [5] \<and>
     get_current_stock (inv_db (rc_state demo_race_end)) 1 ''LA'' = 2 \<and> shows_recent demo_race_end 61 products_read v"
proof -
  obtain v where v: "fst (list_products demo_env (rc_state demo_race_end)) = Inr v" "map sr_current_stock v = [5]"
    using demo_race_list by (auto split: sum.splits)
  have "ttl_seconds (products_cache (rc_state demo_race_start)) = 60" "env_bind_id demo_env = 7"
    "env_clock demo_env = rc_clock demo_race_end"
    by (simp_all add: demo_race_start_def demo_race_end_def demo_stocked_def demo_env_def)
  with cached_lists_recent [OF demo_race_steps demo_race_starts, of demo_env] v(1)
  have "shows_recent demo_race_end 61 products_read v" by simp
  with v demo_race_stock show ?thesis by (intro exI conjI)
qed

text \<open>A served product list is current when requests come one after another and none is in doubt.\<close>

lemma products_current:
  assumes "served (env_bind_id E) s0 s" and "inventory_ok (inv_db s0)" and "coherent (env_bind_id E) s0"
  shows "\<exists>v. products_projection (inv_db s) = Inr v \<and> fst (list_products E s) = Inr v"
proof -
  have s: "inventory_ok (inv_db s)" "coherent (env_bind_id E) s"
    using served_coherent [OF assms] by simp_all
  then obtain v where v: "products_projection (inv_db s) = Inr v" using products_projection_ok by blast
  then have "fst (list_products E s) = Inr v"
    using s(2) ttl.fetch_fresh [of "products_cache s" "inventory_cache_key ''products'' (env_bind_id E)" v
        "env_clock E"]
    by (simp add: list_products_fetch coherent_def split_def Let_def)
  then show ?thesis using v by blast
qed

text \<open>
  C12. In one process that serves requests one after another, each commit of which is answered and
  followed by working reads, the cached lists are current: the product list is the projection of the
  current tables, and the movement list shows every receipt and every issue once, ordered by instant,
  then kind, then identity.
\<close>

theorem serial_lists_current:
  assumes "served (env_bind_id E) s0 s" and "inventory_ok (inv_db s0)" and "coherent (env_bind_id E) s0"
  shows "(\<exists>v. products_projection (inv_db s) = Inr v \<and> fst (list_products E s) = Inr v) \<and>
    (\<exists>v ms. fst (list_orders_endpoint E s) = Inr v \<and> list_orders (inv_db s) = Inr ms \<and>
      order_items_to_response ms = Inr v \<and>
      sorted (map movement_key ms) \<and> length ms = length (db_entries (inv_db s)) + length (db_exits (inv_db s)) \<and>
      set (map (\<lambda>m. (mv_movement_type m, mv_id m)) ms) =
        (\<lambda>e. (''inbound'', en_id e)) ` set (db_entries (inv_db s)) \<union>
        (\<lambda>x. (''outbound'', ex_id x)) ` set (db_exits (inv_db s)))"
proof -
  have s: "inventory_ok (inv_db s)" "coherent (env_bind_id E) s"
    using served_coherent [OF assms] by simp_all
  obtain v where v: "orders_projection (inv_db s) = Inr v" using orders_projection_ok [OF s(1)] by blast
  then have "fst (list_orders_endpoint E s) = Inr v"
    using s(2) ttl.fetch_fresh [of "orders_cache s" "inventory_cache_key ''orders'' (env_bind_id E)" v
        "env_clock E"]
    by (simp add: list_orders_fetch coherent_def split_def Let_def)
  moreover have known: "movement_skus (inv_db s) \<subseteq> sku_id ` set (db_skus (inv_db s))"
    using s(1) by (rule movement_skus_known)
  moreover have "order_items_to_response (sort_key movement_key (joined (inv_db s))) = Inr v"
    using v by (simp add: orders_projection_def list_orders_joined [OF known])
  ultimately show ?thesis
    using list_orders_joined [OF known] joined_length [OF known] joined_ids [OF known] products_current [OF assms]
    by (intro conjI exI [of _ v] exI [of _ "sort_key movement_key (joined (inv_db s))"]) simp_all
qed

theorem serial_lists_current_witness:
  "\<exists>v ms. fst (list_orders_endpoint demo_env demo_ordered) = Inr v \<and>
     list_orders (inv_db demo_ordered) = Inr ms \<and> sorted (map movement_key ms) \<and> length ms = 3"
  using serial_lists_current [OF demo_served demo_start_ok demo_start_coherent]
  by (auto simp: demo_ordered_def)

section \<open>Locks\<close>

text \<open>
  C13. Every request takes its locks in one global order (advisory locks by the unsigned value of
  their key, then order rows, count rows and product rows by identity), so two requests never
  wait for each other in a cycle over these locks.
\<close>

theorem locks_in_global_order:
  assumes "reachable s0 s" and "inventory_ok (inv_db s0)"
  shows "\<exists>new. lock_log (snd (handle E user request_id r s)) = lock_log s @ new \<and> sorted (map lock_rank new)"
  using handle_locks [of s E user request_id r] reachable_txns [OF assms] by (auto simp: extends_by_def)

theorem locks_in_global_order_witness:
  "\<exists>new. lock_log (snd (handle demo_env ''u1'' None (PostOrder demo_order) demo_stocked)) =
     lock_log demo_stocked @ new \<and> sorted (map lock_rank new)"
  by (rule locks_in_global_order [OF demo_reachable(1) demo_start_ok])

section \<open>Repeated commands\<close>

text \<open>
  C14. An order can be placed once only. After the command has succeeded and any later transactions,
  the same command by any user changes no table: it returns the same order with the same dispatches in
  the same order as long as no dispatch has been appended to the order, and 409 once one has.
\<close>

theorem order_idempotent:
  assumes "inventory_ok (inv_db s)" and "check_commercial_order_create data = Inr ()"
    and "create_commercial_order E data user rid s = (Inr (c, xs), t)" and "txn\<^sup>*\<^sup>* (inv_db t) (inv_db s')"
  shows "\<exists>t'. create_commercial_order E' data user' rid' s' =
    ((if order_dispatches (inv_db s') (co_id c) = xs then Inr (c, xs)
      else Inl (conflict ''order_id already exists with different dispatches'')), t') \<and> inv_db t' = inv_db s'"
  by (rule order_retry [OF assms])

theorem order_idempotent_witness:
  "(\<exists>t'. create_commercial_order demo_env demo_order ''u2'' None demo_ordered =
     (Inr (demo_order_row, demo_dispatches), t') \<and> inv_db t' = inv_db demo_ordered) \<and>
   (\<exists>t'. create_commercial_order demo_env demo_order ''u2'' None demo_appended =
     (Inl (conflict ''order_id already exists with different dispatches''), t') \<and> inv_db t' = inv_db demo_appended)"
proof -
  note again = order_idempotent [OF demo_ok(1) demo_checks(1) demo_order_run, where E' = demo_env and user' = "''u2''" and rid' = None]
  have "order_dispatches (inv_db demo_ordered) (co_id demo_order_row) = demo_dispatches"
    "order_dispatches (inv_db demo_appended) (co_id demo_order_row) \<noteq> demo_dispatches"
    by (rule demo_order_grows)+
  then show ?thesis using again [of demo_ordered] again [of demo_appended] demo_append_txn by auto
qed

text \<open>
  Appending dispatches is idempotent forever: once the command has succeeded, repeating it
  after any later transactions returns the order with its current dispatches and changes no table.
\<close>

theorem append_idempotent:
  assumes "inventory_ok (inv_db s)" and "check_dispatch_append data = Inr ()"
    and "append_commercial_order_dispatches E data user rid s = (Inr (c, xs), t)"
    and "txn\<^sup>*\<^sup>* (inv_db t) (inv_db s')"
  shows "\<exists>t'. append_commercial_order_dispatches E' data user' rid' s' =
    (Inr (c, order_dispatches (inv_db s') (co_id c)), t') \<and> inv_db t' = inv_db s'"
  by (rule append_retry [OF assms])

theorem append_idempotent_witness:
  "\<exists>t'. append_commercial_order_dispatches demo_env demo_append ''u2'' None demo_appended =
     (Inr (demo_order_row, order_dispatches (inv_db demo_appended) (co_id demo_order_row)), t') \<and>
     inv_db t' = inv_db demo_appended"
proof -
  obtain xs where "append_commercial_order_dispatches demo_env demo_append ''u1'' None demo_ordered =
      (Inr (demo_order_row, xs), demo_appended)" by (rule demo_append_run)
  then show ?thesis
    by (rule append_idempotent [OF demo_ok(2) demo_checks(2) _ rtranclp.rtrancl_refl])
qed

text \<open>
  C16. A count identifier is bound to its content forever: after any later transactions, a command
  with the same identifier returns the recorded count if its content and user match, and is refused
  with 409 otherwise; either way no table changes.
\<close>

theorem count_identifier_bound:
  assumes "inventory_ok (inv_db s)"
    and "confirm_inventory_physical_count E data user rid s = (Inr c, t)"
    and "txn\<^sup>*\<^sup>* (inv_db t) (inv_db s')" and "pcc_count_id data' = pcc_count_id data"
  shows "\<exists>t'. confirm_inventory_physical_count E' data' user' rid' s' =
    ((if count_matches c data' user' then Inr c
      else Inl (conflict ''count_id already exists with different content'')), t') \<and> inv_db t' = inv_db s'"
  by (rule count_retry [OF assms])

theorem count_identifier_bound_witness:
  "\<exists>t'. confirm_inventory_physical_count demo_env demo_count ''u2'' None demo_counted =
     (Inl (conflict ''count_id already exists with different content''), t') \<and>
     inv_db t' = inv_db demo_counted"
  using count_identifier_bound [OF demo_ok(1) demo_count_run rtranclp.rtrancl_refl refl,
      of demo_env "''u2''" None]
  by (simp add: demo_run_counted count_matches_def)

section \<open>Outcomes\<close>

text \<open>
  C17. The answer of a valid outbound movement is a function of the tables and of how its commit ends,
  when the identity sequences are ahead of the stored identities, the next event identifier is fresh
  and the user and the request id are not empty: unknown product; then warehouse mismatch; then
  insufficient stock exactly when more is asked than is there; then the integrity error of a movement
  that crosses the threshold of a product without a client; then the database error of a commit or a
  refresh that fails; and otherwise the recorded exit.
\<close>

theorem stock_exit_outcome:
  assumes "inventory_ok (inv_db s)" and "identities_ahead s" and "fresh_uuid E s"
    and "user \<noteq> []" and "rid \<noteq> Some []" and "check_stock_exit_create data = Inr ()"
  shows "fst (create_stock_exit E data user rid s) =
    (case get_sku_or_none (inv_db s) (sxc_sku_id data) of
       None \<Rightarrow> Inl unknown_product
     | Some sku \<Rightarrow>
         let w = warehouse_value (sxc_warehouse data);
             available = get_current_stock (inv_db s) (sxc_sku_id data) w
         in if w \<noteq> sku_warehouse sku then Inl (warehouse_mismatch sku w)
            else if sxc_quantity data > available
            then Inl (insufficient_stock sku available (sxc_quantity data))
            else if crosses sku available (available - sxc_quantity data) \<and> \<not> truthy (sku_client_id sku)
            then Inl (InventoryDataIntegrityError {sxc_sku_id data})
            else if env_commit E \<noteq> CommitOk \<or> \<not> env_refresh_ok E then Inl OperationalError
            else Inr \<lparr>ex_id = seq_exit s + 1, ex_sku_id = sxc_sku_id data, ex_quantity = sxc_quantity data,
              ex_exit_type = exit_type_value (sxc_exit_type data),
              ex_tracking_number = sxc_tracking_number data, ex_warehouse = w, ex_created_at = env_now E,
              ex_user_uuid = user, ex_commercial_order_id = None, ex_dispatch_id = None\<rparr>)"
  by (rule stock_exit_answer [OF assms])

theorem stock_exit_outcome_witness:
  "\<exists>sku. fst (create_stock_exit demo_env demo_exit ''u1'' None demo_stocked) =
     Inl (insufficient_stock sku 5 9)"
proof -
  have ids: "identities_ahead demo_stocked" "fresh_uuid demo_env demo_stocked"
    by (simp_all add: identities_ahead_def fresh_uuid_def demo_stocked_def demo_env_def demo_uuid_def
        uuid_version_def)
  from stock_exit_outcome [OF demo_ok(1) ids _ _ demo_checks(4), of "''u1''" None]
  show ?thesis
    by (simp add: demo_exit_lookup Let_def exI [of _ "hd (db_skus (inv_db demo_stocked))"])
qed

text \<open>
  C18. However an order is split into dispatches, and in whatever order they are written, it
  crosses the threshold of a product at most once, and exactly when the stock was above the
  threshold before the order and is not above it after.
\<close>

theorem order_crosses_threshold_once:
  assumes "inventory_ok (inv_db s)" and "check_commercial_order_create data = Inr ()"
    and "create_commercial_order E data user rid s = (Inr (c, xs), t)"
    and "coc_order_id data \<notin> co_order_id ` set (db_orders (inv_db s))"
    and "sku \<in> set (db_skus (inv_db s))" and "sku_minimum_stock_threshold sku = Some threshold"
  shows "\<exists>es. db_evals (inv_db t) = db_evals (inv_db s) @ es \<and>
    length (filter (\<lambda>e. te_sku_id e = sku_id sku \<and> te_crossed e) es) =
      (let before = get_current_stock (inv_db s) (sku_id sku) (sku_warehouse sku);
           after = before - asked (sku_id sku) (coc_dispatches data)
       in if before > threshold \<and> after \<le> threshold then 1 else 0)"
  by (rule order_crossings [OF assms])

theorem order_crosses_threshold_once_witness:
  "\<exists>es. db_evals (inv_db demo_ordered) = db_evals (inv_db demo_stocked) @ es \<and>
     length (filter (\<lambda>e. te_sku_id e = 1 \<and> te_crossed e) es) = 1"
proof -
  let ?sku = "hd (db_skus (inv_db demo_stocked))"
  have sku: "?sku \<in> set (db_skus (inv_db demo_stocked))" "sku_minimum_stock_threshold ?sku = Some 3"
    and new: "coc_order_id demo_order \<notin> co_order_id ` set (db_orders (inv_db demo_stocked))"
    by (simp_all add: demo_stocked_def)
  from order_crosses_threshold_once [OF demo_ok(1) demo_checks(1) demo_order_run new sku]
  show ?thesis
    by (simp add: demo_stocked_def get_current_stock_sums asked_def demo_order_def)
qed

end
