(* ===== verification/StatusTables.thy ===== *)
theory StatusTables
  imports Prelude
begin

text \<open>
  The contract shared by the operational tables (publication runs, job runs, tasks): a row is
  never deleted, its key never changes, and its status moves only by compare-and-set along the
  allowed transitions, so that a row in a final status is history. \<open>cas_table\<close> states it of the
  steps of a component, \<open>ranked_table\<close> adds a rank that every transition lowers.
\<close>

locale cas_table =
  fixes rows :: "'d \<Rightarrow> 'r list"
    and key :: "'r \<Rightarrow> 'k"
    and status :: "'r \<Rightarrow> 'st"
    and step :: "'d \<Rightarrow> 'd \<Rightarrow> bool"
    and allowed :: "'st \<Rightarrow> 'st \<Rightarrow> bool"
    and final :: "'st \<Rightarrow> bool"
  assumes row_kept: "step d d' \<Longrightarrow> r \<in> set (rows d) \<Longrightarrow> \<exists>r' \<in> set (rows d'). key r' = key r \<and>
      (r' = r \<or> \<not> final (status r) \<and> (status r' = status r \<or> allowed (status r) (status r')))"
    and final_stuck: "final s \<Longrightarrow> \<not> allowed s s'"
begin

lemma final_kept:
  "step\<^sup>*\<^sup>* d d' \<Longrightarrow> r \<in> set (rows d) \<Longrightarrow> final (status r) \<Longrightarrow> r \<in> set (rows d')"
proof (induction rule: rtranclp_induct)
  case (step d' d'')
  then show ?case using row_kept [OF step.hyps(2), of r] by auto
qed

lemma status_path:
  "step\<^sup>*\<^sup>* d d' \<Longrightarrow> r \<in> set (rows d) \<Longrightarrow>
   \<exists>r' \<in> set (rows d'). key r' = key r \<and> allowed\<^sup>*\<^sup>* (status r) (status r')"
proof (induction rule: rtranclp_induct)
  case (step d' d'')
  then obtain r' where r': "r' \<in> set (rows d')" "key r' = key r" "allowed\<^sup>*\<^sup>* (status r) (status r')"
    by blast
  from row_kept [OF step.hyps(2) r'(1)] obtain r'' where
    "r'' \<in> set (rows d'')" "key r'' = key r'"
    "r'' = r' \<or> status r'' = status r' \<or> allowed (status r') (status r'')" by blast
  then show ?case using r' by (metis rtranclp.rtrancl_into_rtrancl)
qed auto

end

locale ranked_table = cas_table +
  fixes rank :: "'b \<Rightarrow> nat"
  assumes rank_less: "allowed s s' \<Longrightarrow> rank s' < rank s"
begin

lemma path_rank: "allowed\<^sup>*\<^sup>* s s' \<Longrightarrow> s' = s \<or> rank s' < rank s"
  by (induction rule: rtranclp_induct) (auto dest: rank_less)

lemma path_bounded: "(allowed ^^ n) s s' \<Longrightarrow> n \<le> rank s"
proof (induction n arbitrary: s')
  case (Suc n)
  have "(allowed ^^ k) s s'' \<Longrightarrow> rank s'' + k \<le> rank s" for k s''
    by (induction k arbitrary: s'') (auto dest!: rank_less elim!: relcompp.cases, fastforce)
  then show ?case using Suc.prems by (meson add_leE)
qed simp

lemma never_returns:
  assumes "step\<^sup>*\<^sup>* d d'" and "r \<in> set (rows d)"
  shows "\<exists>r' \<in> set (rows d'). key r' = key r \<and> (status r' = status r \<or> rank (status r') < rank (status r))"
  using status_path [OF assms] path_rank by blast

end

end
