(* ===== verification/RunStore.thy ===== *)
theory RunStore
  imports StatusTables
begin

text \<open>
  The operational store of weekly publication runs, \<open>pipelines/run_store.py\<close>: the run history
  and the week-control rows of \<open>infra/sql/reporting_pipeline_control.sql\<close>. Every function runs in
  the transaction of its caller. A connection carries what the code asks of it (autocommit,
  dialect, open transaction), the server clock, which every reading advances, and the database
  errors of the statements, each named by the \<open>op\<close> comment of its text. The checks on the Python
  types of the arguments hold by the types of the model; \<open>updated_at\<close>, which no statement of these
  modules reads, is left out.
\<close>

section \<open>Statuses\<close>

definition RUN_STATUSES :: "string list" where
  "RUN_STATUSES = [''pending'', ''running'', ''succeeded'', ''succeeded_noop'', ''failed_retryable'',
     ''blocked_quality'', ''superseded'', ''skipped_in_progress'']"

definition RUN_TRANSITIONS :: "(string \<times> string list) list" where
  "RUN_TRANSITIONS =
     [(''pending'', [''running'', ''skipped_in_progress'', ''superseded'', ''blocked_quality'', ''failed_retryable'']),
      (''running'', [''succeeded'', ''succeeded_noop'', ''failed_retryable'', ''blocked_quality'', ''superseded''])]"

definition TERMINAL_STATUSES :: "string list" where
  "TERMINAL_STATUSES = filter (\<lambda>s. s \<notin> fst ` set RUN_TRANSITIONS) RUN_STATUSES"

definition COMMIT_RESULTS :: "string list" where
  "COMMIT_RESULTS = [''not_attempted'', ''uncommitted'', ''uncertain'', ''rolled_back'', ''technically_observed'']"

definition SECRET_MARKERS :: "string list" where
  "SECRET_MARKERS = [''postgres://'', ''postgresql://'', ''bearer '', ''password='', ''api_key='']"

definition WEEKLY_PIPELINE_NAME :: string where
  "WEEKLY_PIPELINE_NAME = ''weekly_warehouse_client_performance''"

definition POSTGRES_INTEGER_MAX :: int where
  "POSTGRES_INTEGER_MAX = 2147483647"

section \<open>Rows\<close>

record run_record =
  rr_run_id :: uuid
  rr_pipeline_name :: string
  rr_target_week_start :: date
  rr_trigger_type :: string
  rr_status :: string
  rr_started_at :: time
  rr_finished_at :: "time option"
  rr_stage_reached :: "string option"
  rr_records_processed :: "int option"
  rr_aggregates_calculated :: "int option"
  rr_rows_inserted :: "int option"
  rr_rows_updated :: "int option"
  rr_rows_unchanged :: "int option"
  rr_error_code :: "string option"
  rr_error_message :: "string option"
  rr_block_reason :: "string option"
  rr_commit_result :: string
  rr_prefect_flow_run_id :: "string option"
  rr_prefect_task_run_id :: "string option"

record week_control =
  wc_week_start :: date
  wc_owner_run_id :: "uuid option"
  wc_lease_acquired_at :: "time option"
  wc_lease_expires_at :: "time option"
  wc_fencing_token :: int
  wc_last_valid_publication_run_id :: "uuid option"
  wc_last_valid_published_at :: "time option"
  wc_dependency_fingerprint :: "string option"
  wc_published_row_count :: "int option"
  wc_rules_version :: "string option"

record valid_publication =
  vp_week_start :: date
  vp_run_id :: uuid
  vp_published_at :: time
  vp_published_row_count :: int
  vp_dependency_fingerprint :: "string option"
  vp_rules_version :: "string option"
  vp_fencing_token :: int

record run_db =
  rd_runs :: "run_record list"
  rd_controls :: "week_control list"
  rd_ticks :: nat

text \<open>
  A statement the server does not run: a connection or operational error leaves its outcome
  uncertain, any other database error does not.
\<close>

datatype sql_failure = Uncertain string | Failed string

record conn =
  cn_autocommit :: bool
  cn_dialect :: "string option"
  cn_in_transaction :: bool
  cn_clock :: "nat \<Rightarrow> time"
  cn_error :: "string \<Rightarrow> sql_failure option"

text \<open>
  A \<open>RunStoreError\<close> with its code and message; the one of a failed statement keeps its cause.
\<close>

datatype store_error = RunStoreError string string | RunWriteError sql_failure

fun store_code :: "store_error \<Rightarrow> string" where
  "store_code (RunStoreError code message) = code"
| "store_code (RunWriteError f) = ''write_error''"

fun store_message :: "store_error \<Rightarrow> string" where
  "store_message (RunStoreError code message) = message"
| "store_message (RunWriteError (Uncertain m)) = m"
| "store_message (RunWriteError (Failed m)) = m"

type_synonym 'a run_cmd = "(run_db, store_error, 'a) cmd"

section \<open>Guards\<close>

definition require_transaction :: "conn \<Rightarrow> store_error + unit" where
  "require_transaction C =
     (if cn_autocommit C
      then Inl (RunStoreError ''autocommit_forbidden'' ''autocommit cannot store a weekly control atomically'')
      else if cn_dialect C \<noteq> Some ''postgresql''
      then Inl (RunStoreError ''postgresql_required'' ''operational persistence requires PostgreSQL'')
      else if \<not> cn_in_transaction C
      then Inl (RunStoreError ''transaction_required'' ''an open transaction is required'')
      else Inr ())"

text \<open>A statement that the server refuses changes nothing.\<close>

definition execute :: "conn \<Rightarrow> string \<Rightarrow> (run_db \<Rightarrow> 'a \<times> run_db) \<Rightarrow> 'a run_cmd" where
  "execute C op stmt s =
     (case cn_error C op of
        Some failure \<Rightarrow> (Inl (RunWriteError failure), s)
      | None \<Rightarrow> (case stmt s of (a, t) \<Rightarrow> (Inr a, t)))"

definition read_clock :: "conn \<Rightarrow> run_db \<Rightarrow> time \<times> run_db" where
  "read_clock C s = (cn_clock C (rd_ticks s), s\<lparr>rd_ticks := Suc (rd_ticks s)\<rparr>)"

text \<open>\<open>date.weekday\<close>: day 0 of the model, 1970-01-01, was a Thursday.\<close>

definition weekday :: "date \<Rightarrow> int" where
  "weekday d = (d + 3) mod 7"

definition week_guard :: "date \<Rightarrow> store_error + date" where
  "week_guard d =
     (if weekday d \<noteq> 0 then Inl (RunStoreError ''invalid_week_start'' ''week_start must be a Monday'') else Inr d)"

definition carries_secret :: "string \<Rightarrow> bool" where
  "carries_secret v \<longleftrightarrow> list_ex (\<lambda>m. occurs_in m (py_lower v)) SECRET_MARKERS"

definition reject_secret :: "string \<Rightarrow> string \<Rightarrow> store_error + unit" where
  "reject_secret v field =
     guard (\<not> carries_secret v) (RunStoreError ''secret_rejected'' (field @ '' must not contain credentials''))"

definition label_guard :: "string \<Rightarrow> string \<Rightarrow> store_error + string" where
  "label_guard v field =
     (if py_strip v = [] \<or> length v > 128
      then Inl (RunStoreError ''invalid_text'' (field @ '' must be a short non-empty string''))
      else bind_result (reject_secret v field) (\<lambda>_. Inr v))"

definition optional_label :: "string option \<Rightarrow> string \<Rightarrow> store_error + string option" where
  "optional_label v field =
     (case v of None \<Rightarrow> Inr None | Some x \<Rightarrow> bind_result (label_guard x field) (\<lambda>y. Inr (Some y)))"

definition optional_text :: "string option \<Rightarrow> string \<Rightarrow> store_error + string option" where
  "optional_text v field =
     (case v of
        None \<Rightarrow> Inr None
      | Some x \<Rightarrow>
          if py_strip x = [] \<or> length x > 500
          then Inl (RunStoreError ''invalid_text'' (field @ '' must be short descriptive text''))
          else bind_result (reject_secret x field) (\<lambda>_. Inr (Some x)))"

definition count_guard :: "int option \<Rightarrow> string \<Rightarrow> store_error + int option" where
  "count_guard v field =
     (case v of
        None \<Rightarrow> Inr None
      | Some n \<Rightarrow>
          if n < 0 \<or> n > POSTGRES_INTEGER_MAX
          then Inl (RunStoreError ''invalid_count'' (field @ '' must be a non-negative PostgreSQL integer''))
          else Inr (Some n))"

definition token_guard :: "int \<Rightarrow> store_error + int" where
  "token_guard n =
     (if n < 0 \<or> n > 2 ^ 63 - 1
      then Inl (RunStoreError ''invalid_fencing_token'' ''fencing_token must be a non-negative bigint'')
      else Inr n)"

definition allowed_transition :: "string \<Rightarrow> string \<Rightarrow> bool" where
  "allowed_transition current proposed \<longleftrightarrow> proposed \<in> set (or_else (map_of RUN_TRANSITIONS current) [])"

definition transition :: "string \<Rightarrow> string \<Rightarrow> store_error + unit" where
  "transition current proposed =
     (if proposed \<notin> set RUN_STATUSES
      then Inl (RunStoreError ''invalid_status'' ''status is not a publication-run status'')
      else guard (allowed_transition current proposed)
        (RunStoreError ''invalid_transition'' (current @ '' cannot transition to '' @ proposed)))"

lemma label_guard_Inr [simp]:
  "label_guard v f = Inr w \<longleftrightarrow> w = v \<and> \<not> blank v \<and> length v \<le> 128 \<and> \<not> carries_secret v"
  by (auto simp: label_guard_def reject_secret_def bind_result_Inr py_strip_Nil_iff)

lemma optional_label_Inr [simp]:
  "optional_label v f = Inr w \<longleftrightarrow>
     w = v \<and> (\<forall>x. v = Some x \<longrightarrow> \<not> blank x \<and> length x \<le> 128 \<and> \<not> carries_secret x)"
  by (auto simp: optional_label_def bind_result_Inr split: option.splits)

lemma optional_text_Inr [simp]:
  "optional_text v f = Inr w \<longleftrightarrow>
     w = v \<and> (\<forall>x. v = Some x \<longrightarrow> \<not> blank x \<and> length x \<le> 500 \<and> \<not> carries_secret x)"
  by (auto simp: optional_text_def reject_secret_def bind_result_Inr py_strip_Nil_iff split: option.splits)

lemma count_guard_Inr [simp]:
  "count_guard v f = Inr w \<longleftrightarrow> w = v \<and> (\<forall>n. v = Some n \<longrightarrow> 0 \<le> n \<and> n \<le> POSTGRES_INTEGER_MAX)"
  by (auto simp: count_guard_def split: option.splits)

lemma token_guard_Inr [simp]: "token_guard n = Inr m \<longleftrightarrow> m = n \<and> 0 \<le> n \<and> n \<le> 2 ^ 63 - 1"
  by (auto simp: token_guard_def)

lemma week_guard_Inr [simp]: "week_guard d = Inr w \<longleftrightarrow> w = d \<and> weekday d = 0"
  by (auto simp: week_guard_def)

lemma transition_Inr [simp]:
  "transition a b = Inr u \<longleftrightarrow> b \<in> set RUN_STATUSES \<and> allowed_transition a b"
  by (auto simp: transition_def)

lemma execute_Inr:
  "execute C op stmt s = (Inr a, t) \<longleftrightarrow> cn_error C op = None \<and> stmt s = (a, t)"
  by (auto simp: execute_def split: option.splits prod.splits)

lemma execute_Inl: "execute C op stmt s = (Inl e, t) \<Longrightarrow> t = s"
  by (auto simp: execute_def split: option.splits prod.splits)

section \<open>Operations\<close>

definition find_run :: "run_db \<Rightarrow> uuid \<Rightarrow> run_record option" where
  "find_run s i = find (\<lambda>r. rr_run_id r = i) (rd_runs s)"

definition find_control :: "run_db \<Rightarrow> date \<Rightarrow> week_control option" where
  "find_control s w = find (\<lambda>c. wc_week_start c = w) (rd_controls s)"

definition get_run :: "conn \<Rightarrow> uuid \<Rightarrow> run_record option run_cmd" where
  "get_run C i =
     bind_cmd (lift_result (require_transaction C)) (\<lambda>_.
     execute C ''select_run'' (\<lambda>s. (find_run s i, s)))"

definition require_run :: "conn \<Rightarrow> uuid \<Rightarrow> run_record run_cmd" where
  "require_run C i =
     bind_cmd (execute C ''select_run'' (\<lambda>s. (find_run s i, s))) (\<lambda>row.
     case row of
       None \<Rightarrow> raise_cmd (RunStoreError ''run_not_found'' ''run_id was not found'')
     | Some r \<Rightarrow> return_cmd r)"

text \<open>
  \<open>CREATE_RUN_SQL\<close>: \<open>started_at\<close> defaults to the server clock; a second row with the same key
  violates the primary key.
\<close>

definition insert_run :: "conn \<Rightarrow> time option \<Rightarrow> (time \<Rightarrow> run_record) \<Rightarrow> run_db \<Rightarrow> run_record option \<times> run_db" where
  "insert_run C started_at row s =
     (let (now, t) = read_clock C s; r = row (or_else started_at now)
      in if rr_run_id r \<in> rr_run_id ` set (rd_runs s) then (None, t)
         else (Some r, t\<lparr>rd_runs := rd_runs s @ [r]\<rparr>))"

text \<open>
  \<open>create_run\<close> with its arguments in order, \<open>new_id\<close> being the value of \<open>uuid4()\<close>. The primary
  key is the only constraint the guarded values can violate.
\<close>

definition create_run ::
  "conn \<Rightarrow> uuid \<Rightarrow> date \<Rightarrow> string \<Rightarrow> string \<Rightarrow> uuid option \<Rightarrow> time option \<Rightarrow> string option \<Rightarrow>
   string option \<Rightarrow> string option \<Rightarrow> run_record run_cmd" where
  "create_run C new_id target_week_start trigger_type pipeline_name run_id started_at stage_reached
     prefect_flow_run_id prefect_task_run_id =
     bind_cmd (lift_result (require_transaction C)) (\<lambda>_.
     bind_cmd (lift_result (week_guard target_week_start)) (\<lambda>week.
     bind_cmd (lift_result (label_guard pipeline_name ''pipeline_name'')) (\<lambda>name.
     bind_cmd (lift_result (label_guard trigger_type ''trigger_type'')) (\<lambda>trigger.
     bind_cmd (lift_result (optional_label stage_reached ''stage_reached'')) (\<lambda>stage.
     bind_cmd (lift_result (optional_label prefect_flow_run_id ''prefect_flow_run_id'')) (\<lambda>flow.
     bind_cmd (lift_result (optional_label prefect_task_run_id ''prefect_task_run_id'')) (\<lambda>task.
     bind_cmd (execute C ''create_run'' (insert_run C started_at (\<lambda>started.
       \<lparr>rr_run_id = or_else run_id new_id, rr_pipeline_name = name,
        rr_target_week_start = week, rr_trigger_type = trigger, rr_status = ''pending'',
        rr_started_at = started, rr_finished_at = None, rr_stage_reached = stage,
        rr_records_processed = None, rr_aggregates_calculated = None, rr_rows_inserted = None,
        rr_rows_updated = None, rr_rows_unchanged = None, rr_error_code = None,
        rr_error_message = None, rr_block_reason = None, rr_commit_result = ''not_attempted'',
        rr_prefect_flow_run_id = flow, rr_prefect_task_run_id = task\<rparr>))) (\<lambda>inserted.
     case inserted of
       None \<Rightarrow> raise_cmd (RunStoreError ''duplicate_run_id'' ''run_id already exists'')
     | Some row \<Rightarrow> return_cmd row))))))))"

text \<open>The keyword arguments of \<open>update_run\<close> that default to \<open>None\<close>.\<close>

record run_changes =
  ch_finished_at :: "time option"
  ch_stage_reached :: "string option"
  ch_records_processed :: "int option"
  ch_aggregates_calculated :: "int option"
  ch_rows_inserted :: "int option"
  ch_rows_updated :: "int option"
  ch_rows_unchanged :: "int option"
  ch_error_code :: "string option"
  ch_error_message :: "string option"
  ch_block_reason :: "string option"
  ch_commit_result :: "string option"
  ch_prefect_flow_run_id :: "string option"
  ch_prefect_task_run_id :: "string option"

definition no_changes :: run_changes where
  "no_changes = \<lparr>ch_finished_at = None, ch_stage_reached = None, ch_records_processed = None,
     ch_aggregates_calculated = None, ch_rows_inserted = None, ch_rows_updated = None,
     ch_rows_unchanged = None, ch_error_code = None, ch_error_message = None, ch_block_reason = None,
     ch_commit_result = None, ch_prefect_flow_run_id = None, ch_prefect_task_run_id = None\<rparr>"

text \<open>Python's \<open>x or y\<close> on optional strings.\<close>

definition str_or :: "string option \<Rightarrow> string option \<Rightarrow> string option" where
  "str_or x y = (if truthy x then x else y)"

definition update_guards :: "run_record \<Rightarrow> string \<Rightarrow> string \<Rightarrow> run_changes \<Rightarrow> store_error + unit" where
  "update_guards current expected status ch =
     bind_result (guard (rr_status current = expected)
       (RunStoreError ''status_conflict'' ''run status no longer matches expected_status'')) (\<lambda>_.
     bind_result (transition expected status) (\<lambda>_.
     bind_result (guard (\<not> (status \<in> set TERMINAL_STATUSES \<and> ch_finished_at ch = None))
       (RunStoreError ''finished_at_required'' ''a terminal run requires finished_at'')) (\<lambda>_.
     bind_result (guard (\<not> (status = ''running'' \<and> ch_finished_at ch \<noteq> None))
       (RunStoreError ''finished_at_forbidden'' ''running runs cannot be finished'')) (\<lambda>_.
     bind_result (guard (\<not> (case ch_finished_at ch of None \<Rightarrow> False | Some f \<Rightarrow> f < rr_started_at current))
       (RunStoreError ''invalid_timestamp'' ''finished_at cannot precede started_at'')) (\<lambda>_.
     bind_result (guard (\<not> (status = ''blocked_quality'' \<and> \<not> truthy (ch_block_reason ch)))
       (RunStoreError ''block_reason_required'' ''blocked_quality requires block_reason'')) (\<lambda>_.
     bind_result (guard (\<not> (status = ''failed_retryable'' \<and> \<not> truthy (ch_error_code ch)))
       (RunStoreError ''error_code_required'' ''failed_retryable requires error_code'')) (\<lambda>_.
     guard (or_else (ch_commit_result ch) (rr_commit_result current) \<in> set COMMIT_RESULTS)
       (RunStoreError ''invalid_commit_result'' ''commit_result is not an operational result''))))))))"

definition update_parameters :: "run_record \<Rightarrow> string \<Rightarrow> run_changes \<Rightarrow> store_error + run_record" where
  "update_parameters current status ch =
     bind_result (optional_label (ch_stage_reached ch) ''stage_reached'') (\<lambda>stage.
     bind_result (count_guard (ch_records_processed ch) ''records_processed'') (\<lambda>records.
     bind_result (count_guard (ch_aggregates_calculated ch) ''aggregates_calculated'') (\<lambda>aggregates.
     bind_result (count_guard (ch_rows_inserted ch) ''rows_inserted'') (\<lambda>inserted.
     bind_result (count_guard (ch_rows_updated ch) ''rows_updated'') (\<lambda>updated.
     bind_result (count_guard (ch_rows_unchanged ch) ''rows_unchanged'') (\<lambda>unchanged.
     bind_result (optional_label (ch_error_code ch) ''error_code'') (\<lambda>code.
     bind_result (optional_text (ch_error_message ch) ''error_message'') (\<lambda>message.
     bind_result (optional_text (ch_block_reason ch) ''block_reason'') (\<lambda>reason.
     bind_result (optional_label (ch_prefect_flow_run_id ch) ''prefect_flow_run_id'') (\<lambda>flow.
     bind_result (optional_label (ch_prefect_task_run_id ch) ''prefect_task_run_id'') (\<lambda>task.
     Inr (current\<lparr>rr_status := status, rr_stage_reached := str_or stage (rr_stage_reached current),
       rr_finished_at := ch_finished_at ch, rr_records_processed := records,
       rr_aggregates_calculated := aggregates, rr_rows_inserted := inserted, rr_rows_updated := updated,
       rr_rows_unchanged := unchanged, rr_error_code := code, rr_error_message := message,
       rr_block_reason := reason,
       rr_commit_result := or_else (ch_commit_result ch) (rr_commit_result current),
       rr_prefect_flow_run_id := str_or flow (rr_prefect_flow_run_id current),
       rr_prefect_task_run_id := str_or task (rr_prefect_task_run_id current)\<rparr>))))))))))))"

text \<open>The columns \<open>UPDATE_RUN_SQL\<close> sets, from the parameters \<open>p\<close>.\<close>

definition set_run_columns :: "run_record \<Rightarrow> run_record \<Rightarrow> run_record" where
  "set_run_columns p r =
     r\<lparr>rr_status := rr_status p, rr_stage_reached := rr_stage_reached p, rr_finished_at := rr_finished_at p,
       rr_records_processed := rr_records_processed p, rr_aggregates_calculated := rr_aggregates_calculated p,
       rr_rows_inserted := rr_rows_inserted p, rr_rows_updated := rr_rows_updated p,
       rr_rows_unchanged := rr_rows_unchanged p, rr_error_code := rr_error_code p,
       rr_error_message := rr_error_message p, rr_block_reason := rr_block_reason p,
       rr_commit_result := rr_commit_result p, rr_prefect_flow_run_id := rr_prefect_flow_run_id p,
       rr_prefect_task_run_id := rr_prefect_task_run_id p\<rparr>"

definition update_run_rows ::
  "conn \<Rightarrow> string \<Rightarrow> (run_record \<Rightarrow> bool) \<Rightarrow> (run_record \<Rightarrow> run_record) \<Rightarrow> string \<Rightarrow> run_record run_cmd" where
  "update_run_rows C op p f conflict =
     bind_cmd (execute C op (\<lambda>s.
       (sql_returning p f (rd_runs s), s\<lparr>rd_runs := sql_update p f (rd_runs s)\<rparr>))) (\<lambda>rows.
     case rows of
       [] \<Rightarrow> raise_cmd (RunStoreError ''status_conflict'' conflict)
     | row # _ \<Rightarrow> return_cmd row)"

definition update_run :: "conn \<Rightarrow> uuid \<Rightarrow> string \<Rightarrow> string \<Rightarrow> run_changes \<Rightarrow> run_record run_cmd" where
  "update_run C run_id expected status ch =
     bind_cmd (lift_result (require_transaction C)) (\<lambda>_.
     bind_cmd (require_run C run_id) (\<lambda>current.
     bind_cmd (lift_result (update_guards current expected status ch)) (\<lambda>_.
     bind_cmd (lift_result (update_parameters current status ch)) (\<lambda>parameters.
     update_run_rows C ''update_run'' (\<lambda>r. rr_run_id r = run_id \<and> rr_status r = expected)
       (set_run_columns parameters) ''run status changed before the update''))))"

definition correlate_pending_run :: "conn \<Rightarrow> uuid \<Rightarrow> string \<Rightarrow> string \<Rightarrow> run_record run_cmd" where
  "correlate_pending_run C run_id prefect_flow_run_id prefect_task_run_id =
     bind_cmd (lift_result (require_transaction C)) (\<lambda>_.
     bind_cmd (lift_result (label_guard prefect_flow_run_id ''prefect_flow_run_id'')) (\<lambda>flow.
     bind_cmd (lift_result (label_guard prefect_task_run_id ''prefect_task_run_id'')) (\<lambda>task.
     update_run_rows C ''correlate_pending_run''
       (\<lambda>r. rr_run_id r = run_id \<and> rr_status r = ''pending'')
       (\<lambda>r. r\<lparr>rr_prefect_flow_run_id := Some flow, rr_prefect_task_run_id := Some task,
              rr_stage_reached := Some ''prefect''\<rparr>)
       ''accepted run is no longer pending'')))"

text \<open>\<open>ORDER BY started_at DESC, run_id DESC LIMIT 1\<close>.\<close>

definition newest_run :: "string \<Rightarrow> date option \<Rightarrow> run_db \<Rightarrow> run_record option" where
  "newest_run name week s =
     (let rows = sort_key (\<lambda>r. (rr_started_at r, rr_run_id r))
        (filter (\<lambda>r. rr_pipeline_name r = name \<and> (week = None \<or> week = Some (rr_target_week_start r)))
          (rd_runs s))
      in if rows = [] then None else Some (last rows))"

definition latest_run :: "conn \<Rightarrow> string \<Rightarrow> date option \<Rightarrow> run_record option run_cmd" where
  "latest_run C pipeline_name target_week_start =
     bind_cmd (lift_result (require_transaction C)) (\<lambda>_.
     bind_cmd (lift_result (case target_week_start of
         None \<Rightarrow> Inr None | Some w \<Rightarrow> bind_result (week_guard w) (\<lambda>w. Inr (Some w)))) (\<lambda>week.
     bind_cmd (lift_result (label_guard pipeline_name ''pipeline_name'')) (\<lambda>name.
     execute C ''latest_run'' (\<lambda>s. (newest_run name week s, s)))))"

definition get_week_control :: "conn \<Rightarrow> date \<Rightarrow> week_control option run_cmd" where
  "get_week_control C w =
     bind_cmd (lift_result (require_transaction C)) (\<lambda>_.
     bind_cmd (lift_result (week_guard w)) (\<lambda>week.
     bind_cmd (execute C ''select_control'' (\<lambda>s. (find_control s week, s))) (\<lambda>row.
     case row of
       None \<Rightarrow> return_cmd None
     | Some c \<Rightarrow> bind_cmd (lift_result (token_guard (wc_fencing_token c))) (\<lambda>_. return_cmd (Some c)))))"

definition new_control :: "date \<Rightarrow> week_control" where
  "new_control w = \<lparr>wc_week_start = w, wc_owner_run_id = None, wc_lease_acquired_at = None,
     wc_lease_expires_at = None, wc_fencing_token = 0, wc_last_valid_publication_run_id = None,
     wc_last_valid_published_at = None, wc_dependency_fingerprint = None, wc_published_row_count = None,
     wc_rules_version = None\<rparr>"

definition ensure_week_control :: "conn \<Rightarrow> date \<Rightarrow> week_control run_cmd" where
  "ensure_week_control C w =
     bind_cmd (lift_result (require_transaction C)) (\<lambda>_.
     bind_cmd (lift_result (week_guard w)) (\<lambda>week.
     bind_cmd (execute C ''ensure_control'' (\<lambda>s.
       ((), if week \<in> wc_week_start ` set (rd_controls s) then s
            else s\<lparr>rd_controls := rd_controls s @ [new_control week]\<rparr>))) (\<lambda>_.
     bind_cmd (get_week_control C week) (\<lambda>control.
     case control of
       None \<Rightarrow> raise_cmd (RunStoreError ''control_not_found'' ''week control could not be read after insert'')
     | Some c \<Rightarrow> return_cmd c))))"

definition latest_valid_publication :: "conn \<Rightarrow> date \<Rightarrow> valid_publication option run_cmd" where
  "latest_valid_publication C w =
     bind_cmd (lift_result (require_transaction C)) (\<lambda>_.
     bind_cmd (lift_result (week_guard w)) (\<lambda>week.
     bind_cmd (execute C ''latest_valid_publication'' (\<lambda>s. (find_control s week, s))) (\<lambda>row.
     case row of
       None \<Rightarrow> return_cmd None
     | Some c \<Rightarrow>
         (case (wc_last_valid_publication_run_id c, wc_last_valid_published_at c) of
            (None, _) \<Rightarrow> return_cmd None
          | (Some i, None) \<Rightarrow>
              raise_cmd (RunStoreError ''invalid_timestamp'' ''published_at must be timezone-aware'')
          | (Some i, Some published) \<Rightarrow>
              bind_cmd (lift_result (count_guard (wc_published_row_count c) ''published_row_count'')) (\<lambda>n.
              bind_cmd (lift_result (token_guard (wc_fencing_token c))) (\<lambda>token.
              return_cmd (Some \<lparr>vp_week_start = wc_week_start c, vp_run_id = i, vp_published_at = published,
                vp_published_row_count = or_else n 0,
                vp_dependency_fingerprint = wc_dependency_fingerprint c,
                vp_rules_version = wc_rules_version c, vp_fencing_token = token\<rparr>)))))))"

definition publish_row ::
  "uuid \<Rightarrow> time \<Rightarrow> int option \<Rightarrow> string option \<Rightarrow> string option \<Rightarrow> week_control \<Rightarrow> week_control" where
  "publish_row run_id published_at n fp rules c =
     c\<lparr>wc_last_valid_publication_run_id := Some run_id, wc_last_valid_published_at := Some published_at,
       wc_published_row_count := n, wc_dependency_fingerprint := fp, wc_rules_version := rules\<rparr>"

definition record_valid_publication ::
  "conn \<Rightarrow> date \<Rightarrow> uuid \<Rightarrow> time \<Rightarrow> int \<Rightarrow> string option \<Rightarrow> string option \<Rightarrow> week_control run_cmd" where
  "record_valid_publication C week_start run_id published_at published_row_count
     dependency_fingerprint rules_version =
     bind_cmd (lift_result (require_transaction C)) (\<lambda>_.
     bind_cmd (lift_result (week_guard week_start)) (\<lambda>week.
     bind_cmd (require_run C run_id) (\<lambda>run.
     bind_cmd (lift_result (guard (rr_target_week_start run = week)
       (RunStoreError ''week_mismatch'' ''run target week does not match the control week''))) (\<lambda>_.
     bind_cmd (ensure_week_control C week) (\<lambda>_.
     bind_cmd (lift_result (count_guard (Some published_row_count) ''published_row_count'')) (\<lambda>n.
     bind_cmd (lift_result (optional_text dependency_fingerprint ''dependency_fingerprint'')) (\<lambda>fp.
     bind_cmd (lift_result (optional_label rules_version ''rules_version'')) (\<lambda>rules.
     bind_cmd (execute C ''record_valid_publication'' (\<lambda>s.
       let f = publish_row run_id published_at n fp rules
       in (sql_returning (\<lambda>c. wc_week_start c = week) f (rd_controls s),
           s\<lparr>rd_controls := sql_update (\<lambda>c. wc_week_start c = week) f (rd_controls s)\<rparr>))) (\<lambda>rows.
     case rows of
       [] \<Rightarrow> raise_cmd (RunStoreError ''control_not_found'' ''week control was not updated'')
     | c # _ \<Rightarrow> bind_cmd (lift_result (token_guard (wc_fencing_token c))) (\<lambda>_. return_cmd c))))))))))"

definition record_commit_observation ::
  "conn \<Rightarrow> uuid \<Rightarrow> string \<Rightarrow> string \<Rightarrow> string \<Rightarrow> string \<Rightarrow> run_record run_cmd" where
  "record_commit_observation C run_id commit_result stage_reached error_code error_message =
     bind_cmd (lift_result (require_transaction C)) (\<lambda>_.
     bind_cmd (lift_result (guard (commit_result \<in> {''uncertain'', ''uncommitted'', ''rolled_back''})
       (RunStoreError ''invalid_commit_result''
          ''an unresolved observation cannot be recorded as a successful commit''))) (\<lambda>_.
     bind_cmd (require_run C run_id) (\<lambda>current.
     bind_cmd (lift_result (guard (rr_status current = ''running'')
       (RunStoreError ''status_conflict'' ''only a running run can record an unresolved commit''))) (\<lambda>_.
     bind_cmd (lift_result (label_guard stage_reached ''stage_reached'')) (\<lambda>stage.
     bind_cmd (lift_result (label_guard error_code ''error_code'')) (\<lambda>code.
     bind_cmd (lift_result (optional_text (Some error_message) ''error_message'')) (\<lambda>message.
     bind_cmd (update_run_rows C ''record_commit_observation''
       (\<lambda>r. rr_run_id r = run_id \<and> rr_status r = ''running'')
       (\<lambda>r. r\<lparr>rr_commit_result := commit_result, rr_stage_reached := Some stage,
              rr_error_code := Some code, rr_error_message := message\<rparr>)
       ''run status changed before the commit observation'') (\<lambda>observed.
     bind_cmd (lift_result (guard (rr_status observed = ''running'' \<and> rr_commit_result observed = commit_result)
       (RunStoreError ''write_error'' ''commit observation changed the run outcome''))) (\<lambda>_.
     return_cmd observed)))))))))"

text \<open>The store refuses every change of a lease or of the fencing token.\<close>

definition record_fencing_advance :: "unit run_cmd" where
  "record_fencing_advance = raise_cmd (RunStoreError ''lease_authority_forbidden''
     ''lease ownership and fencing changes must go through acquire_week_lease'')"

end
