(* ===== verification/WeekLease.thy ===== *)
theory WeekLease
  imports RunStore
begin

text \<open>
  The week leases of \<open>pipelines/concurrency.py\<close>. Each function runs in its caller's transaction
  and locks the control row until that transaction ends, so the operations on one week are
  serial; \<open>clock_timestamp()\<close> is read afresh each time it occurs. A lease instant is in
  microseconds.
\<close>

section \<open>Decisions and errors\<close>

datatype lease_status = Acquired | Recovered | Occupied | AlreadyHeld | Verified | Renewed | Released | Rejected

datatype lease_error = Store store_error | ConcurrencyError string string

record lease_decision =
  ld_week_start :: date
  ld_status :: lease_status
  ld_run_id :: "uuid option"
  ld_owner_run_id :: "uuid option"
  ld_fencing_token :: "int option"
  ld_lease_expires_at :: "time option"
  ld_lock_held :: bool
  ld_durable :: bool

definition granted :: "lease_decision \<Rightarrow> bool" where
  "granted d \<longleftrightarrow> ld_status d \<in> {Acquired, Recovered}"

definition lease_verified :: "lease_decision \<Rightarrow> bool" where
  "lease_verified d \<longleftrightarrow> ld_status d = Verified \<and> ld_lock_held d \<and> \<not> ld_durable d"

type_synonym 'a lease_cmd = "(run_db, lease_error, 'a) cmd"

fun from_store :: "store_error \<Rightarrow> lease_error" where
  "from_store (RunWriteError (Uncertain m)) =
     ConcurrencyError ''transaction_uncertain'' ''lease transaction outcome is uncertain''"
| "from_store e = ConcurrencyError (store_code e) (store_message e)"

fun statement_error :: "sql_failure \<Rightarrow> lease_error" where
  "statement_error (Uncertain m) =
     ConcurrencyError ''transaction_uncertain'' ''lease statement outcome is uncertain; the week is not free''"
| "statement_error (Failed m) = ConcurrencyError ''query_failed'' ''lease statement failed''"

section \<open>Guards\<close>

definition MAX_LEASE_SECONDS :: int where
  "MAX_LEASE_SECONDS = 24 * 60 * 60"

definition lease_seconds_guard :: "int \<Rightarrow> lease_error + int" where
  "lease_seconds_guard n =
     (if n < 1 \<or> n > MAX_LEASE_SECONDS
      then Inl (ConcurrencyError ''invalid_lease_ttl'' ''lease_seconds is outside the allowed window'')
      else Inr n)"

definition lease_token_guard :: "int \<Rightarrow> lease_error + int" where
  "lease_token_guard n =
     (if n < 0
      then Inl (ConcurrencyError ''invalid_fencing_token'' ''fencing_token must be a non-negative integer'')
      else Inr n)"

definition prepared :: "conn \<Rightarrow> date \<Rightarrow> date lease_cmd" where
  "prepared C w =
     map_error Store (bind_cmd (lift_result (require_transaction C)) (\<lambda>_. lift_result (week_guard w)))"

definition run_for_week :: "conn \<Rightarrow> uuid \<Rightarrow> date \<Rightarrow> unit lease_cmd" where
  "run_for_week C run_id week =
     bind_cmd (map_error from_store (require_run C run_id)) (\<lambda>run.
     lift_result (guard (rr_target_week_start run = week)
       (ConcurrencyError ''week_mismatch'' ''run target week does not match the lease week'')))"

text \<open>
  \<open>_one\<close> over \<open>_rows\<close>: a statement with its rows, at most one of them, or the failure of a
  statement whose new values the table refuses.
\<close>

definition one :: "conn \<Rightarrow> string \<Rightarrow> (run_db \<Rightarrow> (lease_error + 'r list) \<times> run_db) \<Rightarrow> 'r option lease_cmd" where
  "one C op stmt s =
     (case cn_error C op of
        Some failure \<Rightarrow> (Inl (statement_error failure), s)
      | None \<Rightarrow>
          (case stmt s of
             (Inl e, t) \<Rightarrow> (Inl e, t)
           | (Inr [], t) \<Rightarrow> (Inr None, t)
           | (Inr [r], t) \<Rightarrow> (Inr (Some r), t)
           | (Inr (r # r' # rs), t) \<Rightarrow>
               (Inl (ConcurrencyError ''query_failed'' ''lease statement returned more than one week''), t)))"

definition lease_check_failed :: lease_error where
  "lease_check_failed = ConcurrencyError ''integrity_error'' ''lease write violated a constraint''"

section \<open>Statements\<close>

definition set_controls :: "week_control list \<Rightarrow> run_db \<Rightarrow> run_db" where
  "set_controls cs s = s\<lparr>rd_controls := cs\<rparr>"

definition controls_of :: "run_db \<Rightarrow> date \<Rightarrow> week_control list" where
  "controls_of s w = filter (\<lambda>c. wc_week_start c = w) (rd_controls s)"

definition expired :: "week_control \<Rightarrow> time \<Rightarrow> bool" where
  "expired c now \<longleftrightarrow> (case wc_lease_expires_at c of None \<Rightarrow> False | Some e \<Rightarrow> e \<le> now)"

definition unexpired :: "week_control \<Rightarrow> time \<Rightarrow> bool" where
  "unexpired c now \<longleftrightarrow> (case wc_lease_expires_at c of None \<Rightarrow> False | Some e \<Rightarrow> e > now)"

record locked_control =
  lk_row :: week_control
  lk_is_free :: bool
  lk_is_owner :: bool
  lk_is_expired :: bool

definition lock_control_sql :: "conn \<Rightarrow> date \<Rightarrow> uuid \<Rightarrow> run_db \<Rightarrow> (lease_error + locked_control list) \<times> run_db" where
  "lock_control_sql C week run_id s =
     (let (now, t) = read_clock C s
      in (Inr (map (\<lambda>c. \<lparr>lk_row = c, lk_is_free = wc_owner_run_id c = None,
            lk_is_owner = wc_owner_run_id c = Some run_id, lk_is_expired = expired c now\<rparr>)
          (controls_of s week)), t))"

definition grantable :: "date \<Rightarrow> int \<Rightarrow> time \<Rightarrow> week_control \<Rightarrow> bool" where
  "grantable week token now c \<longleftrightarrow> wc_week_start c = week \<and> wc_fencing_token c = token \<and>
     (wc_owner_run_id c = None \<or> expired c now)"

definition grant_row :: "uuid \<Rightarrow> time \<Rightarrow> time \<Rightarrow> week_control \<Rightarrow> week_control" where
  "grant_row run_id acquired expires c =
     c\<lparr>wc_owner_run_id := Some run_id, wc_lease_acquired_at := Some acquired,
       wc_lease_expires_at := Some expires, wc_fencing_token := wc_fencing_token c + 1\<rparr>"

definition grant_lease_sql ::
  "conn \<Rightarrow> date \<Rightarrow> uuid \<Rightarrow> int \<Rightarrow> int \<Rightarrow> run_db \<Rightarrow> (lease_error + week_control list) \<times> run_db" where
  "grant_lease_sql C week run_id seconds token s =
     (let (now, t) = read_clock C s; (acquired, t) = read_clock C t; (base, t) = read_clock C t;
          expires = base + seconds * 1000000;
          p = grantable week token now; f = grant_row run_id acquired expires
      in if list_ex (\<lambda>c. p c \<and> wc_fencing_token c = 2 ^ 63 - 1) (rd_controls s)
         then (Inl (statement_error (Failed ''bigint out of range'')), t)
         else if list_ex p (rd_controls s) \<and> expires \<le> acquired then (Inl lease_check_failed, t)
         else (Inr (sql_returning p f (rd_controls s)), set_controls (sql_update p f (rd_controls s)) t))"

definition verify_lease_sql ::
  "conn \<Rightarrow> date \<Rightarrow> uuid \<Rightarrow> int \<Rightarrow> run_db \<Rightarrow> (lease_error + (week_control \<times> bool) list) \<times> run_db" where
  "verify_lease_sql C week run_id token s =
     (let (now, t) = read_clock C s
      in (Inr (map (\<lambda>c. (c, wc_owner_run_id c = Some run_id \<and> wc_fencing_token c = token \<and> unexpired c now))
            (controls_of s week)), t))"

definition held :: "date \<Rightarrow> uuid \<Rightarrow> int \<Rightarrow> week_control \<Rightarrow> bool" where
  "held week run_id token c \<longleftrightarrow>
     wc_week_start c = week \<and> wc_owner_run_id c = Some run_id \<and> wc_fencing_token c = token"

definition ends_before_start :: "week_control \<Rightarrow> time \<Rightarrow> bool" where
  "ends_before_start c expires \<longleftrightarrow>
     (case wc_lease_acquired_at c of None \<Rightarrow> False | Some a \<Rightarrow> expires \<le> a)"

definition renew_lease_sql ::
  "conn \<Rightarrow> date \<Rightarrow> uuid \<Rightarrow> int \<Rightarrow> int \<Rightarrow> run_db \<Rightarrow> (lease_error + week_control list) \<times> run_db" where
  "renew_lease_sql C week run_id token seconds s =
     (let (now, t) = read_clock C s; (base, t) = read_clock C t;
          expires = base + seconds * 1000000;
          p = (\<lambda>c. held week run_id token c \<and> unexpired c now);
          f = (\<lambda>c. c\<lparr>wc_lease_expires_at := Some expires\<rparr>)
      in if list_ex (\<lambda>c. p c \<and> ends_before_start c expires) (rd_controls s)
         then (Inl lease_check_failed, t)
         else (Inr (sql_returning p f (rd_controls s)), set_controls (sql_update p f (rd_controls s)) t))"

definition release_row :: "week_control \<Rightarrow> week_control" where
  "release_row c = c\<lparr>wc_owner_run_id := None, wc_lease_acquired_at := None, wc_lease_expires_at := None\<rparr>"

definition release_lease_sql ::
  "conn \<Rightarrow> date \<Rightarrow> uuid \<Rightarrow> int \<Rightarrow> run_db \<Rightarrow> (lease_error + week_control list) \<times> run_db" where
  "release_lease_sql C week run_id token s =
     (Inr (sql_returning (held week run_id token) release_row (rd_controls s)),
      set_controls (sql_update (held week run_id token) release_row (rd_controls s)) s)"

section \<open>Operations\<close>

definition decision :: "date \<Rightarrow> lease_status \<Rightarrow> uuid \<Rightarrow> week_control \<Rightarrow> lease_decision" where
  "decision week st run_id c = \<lparr>ld_week_start = week, ld_status = st, ld_run_id = Some run_id,
     ld_owner_run_id = wc_owner_run_id c, ld_fencing_token = Some (wc_fencing_token c),
     ld_lease_expires_at = wc_lease_expires_at c, ld_lock_held = True, ld_durable = False\<rparr>"

definition rejected :: "date \<Rightarrow> uuid \<Rightarrow> lease_decision" where
  "rejected week run_id = \<lparr>ld_week_start = week, ld_status = Rejected, ld_run_id = Some run_id,
     ld_owner_run_id = None, ld_fencing_token = None, ld_lease_expires_at = None, ld_lock_held = False,
     ld_durable = False\<rparr>"

definition acquire_week_lease :: "conn \<Rightarrow> date \<Rightarrow> uuid \<Rightarrow> int \<Rightarrow> lease_decision lease_cmd" where
  "acquire_week_lease C week_start run_id lease_seconds =
     bind_cmd (prepared C week_start) (\<lambda>week.
     bind_cmd (lift_result (lease_seconds_guard lease_seconds)) (\<lambda>seconds.
     bind_cmd (run_for_week C run_id week) (\<lambda>_.
     bind_cmd (map_error from_store (ensure_week_control C week)) (\<lambda>_.
     bind_cmd (one C ''lock_control'' (lock_control_sql C week run_id)) (\<lambda>locked.
     case locked of
       None \<Rightarrow> raise_cmd (ConcurrencyError ''query_failed'' ''week control disappeared after ensure'')
     | Some l \<Rightarrow>
         if \<not> lk_is_free l \<and> \<not> lk_is_expired l
         then return_cmd (decision week (if lk_is_owner l then AlreadyHeld else Occupied) run_id (lk_row l))
         else
           bind_cmd (one C ''grant_lease''
             (grant_lease_sql C week run_id seconds (wc_fencing_token (lk_row l)))) (\<lambda>row.
           case row of
             None \<Rightarrow> raise_cmd (ConcurrencyError ''transaction_uncertain''
               ''locked lease row was not updated; not treating the week as free'')
           | Some c \<Rightarrow> return_cmd (decision week (if lk_is_free l then Acquired else Recovered) run_id c)))))))"

definition verify_week_lease :: "conn \<Rightarrow> date \<Rightarrow> uuid \<Rightarrow> int \<Rightarrow> lease_decision lease_cmd" where
  "verify_week_lease C week_start run_id fencing_token =
     bind_cmd (prepared C week_start) (\<lambda>week.
     bind_cmd (lift_result (lease_token_guard fencing_token)) (\<lambda>token.
     bind_cmd (one C ''verify_lease'' (verify_lease_sql C week run_id token)) (\<lambda>locked.
     return_cmd (case locked of
         None \<Rightarrow> rejected week run_id
       | Some (c, verified) \<Rightarrow> decision week (if verified then Verified else Rejected) run_id c))))"

definition renew_week_lease :: "conn \<Rightarrow> date \<Rightarrow> uuid \<Rightarrow> int \<Rightarrow> int \<Rightarrow> lease_decision lease_cmd" where
  "renew_week_lease C week_start run_id fencing_token lease_seconds =
     bind_cmd (prepared C week_start) (\<lambda>week.
     bind_cmd (lift_result (lease_seconds_guard lease_seconds)) (\<lambda>seconds.
     bind_cmd (lift_result (lease_token_guard fencing_token)) (\<lambda>token.
     bind_cmd (one C ''renew_lease'' (renew_lease_sql C week run_id token seconds)) (\<lambda>row.
     return_cmd (case row of
         None \<Rightarrow> rejected week run_id
       | Some c \<Rightarrow> decision week Renewed run_id c)))))"

definition release_week_lease :: "conn \<Rightarrow> date \<Rightarrow> uuid \<Rightarrow> int \<Rightarrow> lease_decision lease_cmd" where
  "release_week_lease C week_start run_id fencing_token =
     bind_cmd (prepared C week_start) (\<lambda>week.
     bind_cmd (lift_result (lease_token_guard fencing_token)) (\<lambda>token.
     bind_cmd (one C ''release_lease'' (release_lease_sql C week run_id token)) (\<lambda>row.
     return_cmd (case row of
         None \<Rightarrow> rejected week run_id
       | Some c \<Rightarrow> (decision week Released run_id c)\<lparr>ld_owner_run_id := None, ld_lease_expires_at := None\<rparr>))))"

definition record_lease_run_status :: "conn \<Rightarrow> uuid \<Rightarrow> string \<Rightarrow> time \<Rightarrow> string \<Rightarrow> run_record lease_cmd" where
  "record_lease_run_status C run_id status finished_at reason =
     bind_cmd (map_error Store (lift_result (require_transaction C))) (\<lambda>_.
     bind_cmd (lift_result (guard (status \<in> {''skipped_in_progress'', ''superseded''})
       (ConcurrencyError ''success_forbidden'' ''a lease conflict is not a successful publication''))) (\<lambda>_.
     bind_cmd (map_error from_store (require_run C run_id)) (\<lambda>current.
     bind_cmd (map_error from_store (update_run C run_id (rr_status current) status
       (no_changes\<lparr>ch_finished_at := Some finished_at, ch_block_reason := Some reason,
          ch_stage_reached := Some ''lease''\<rparr>))) (\<lambda>updated.
     if rr_status updated \<in> {''succeeded'', ''succeeded_noop''}
     then raise_cmd (ConcurrencyError ''success_forbidden'' ''lease handling must not mark a run succeeded'')
     else return_cmd updated))))"

end
