(* ===== verification/RunChanges.thy ===== *)
theory RunChanges
  imports WeekLease
begin

text \<open>
  The abstract specification of the operational store: its invariant \<open>store_ok\<close> and the single-row
  changes a committed statement may make. Every operation of \<open>RunStore\<close> and \<open>WeekLease\<close>, whether
  it returns or raises, is a sequence of such changes.
\<close>

section \<open>The invariant\<close>

definition text_ok :: "nat \<Rightarrow> string option \<Rightarrow> bool" where
  "text_ok n v \<longleftrightarrow> (\<forall>x. v = Some x \<longrightarrow> \<not> blank x \<and> length x \<le> n \<and> \<not> carries_secret x)"

definition count_ok :: "int option \<Rightarrow> bool" where
  "count_ok v \<longleftrightarrow> (\<forall>n. v = Some n \<longrightarrow> 0 \<le> n \<and> n \<le> POSTGRES_INTEGER_MAX)"

definition run_texts_ok :: "run_record \<Rightarrow> bool" where
  "run_texts_ok r \<longleftrightarrow> text_ok 128 (Some (rr_pipeline_name r)) \<and> text_ok 128 (Some (rr_trigger_type r)) \<and>
     text_ok 128 (rr_stage_reached r) \<and> text_ok 128 (rr_error_code r) \<and> text_ok 500 (rr_error_message r) \<and>
     text_ok 500 (rr_block_reason r) \<and> text_ok 128 (rr_prefect_flow_run_id r) \<and>
     text_ok 128 (rr_prefect_task_run_id r)"

definition run_row_ok :: "run_record \<Rightarrow> bool" where
  "run_row_ok r \<longleftrightarrow> weekday (rr_target_week_start r) = 0 \<and> rr_status r \<in> set RUN_STATUSES \<and>
     rr_commit_result r \<in> set COMMIT_RESULTS \<and>
     (rr_finished_at r \<noteq> None \<longleftrightarrow> rr_status r \<in> set TERMINAL_STATUSES) \<and>
     (\<forall>f. rr_finished_at r = Some f \<longrightarrow> rr_started_at r \<le> f) \<and>
     count_ok (rr_records_processed r) \<and> count_ok (rr_aggregates_calculated r) \<and>
     count_ok (rr_rows_inserted r) \<and> count_ok (rr_rows_updated r) \<and> count_ok (rr_rows_unchanged r) \<and>
     (rr_status r = ''blocked_quality'' \<longrightarrow> rr_block_reason r \<noteq> None) \<and>
     (rr_status r = ''failed_retryable'' \<longrightarrow> rr_error_code r \<noteq> None) \<and> run_texts_ok r"

definition run_weeks :: "run_db \<Rightarrow> (uuid \<times> date) set" where
  "run_weeks s = (\<lambda>r. (rr_run_id r, rr_target_week_start r)) ` set (rd_runs s)"

definition control_row_ok :: "(uuid \<times> date) set \<Rightarrow> week_control \<Rightarrow> bool" where
  "control_row_ok W c \<longleftrightarrow> weekday (wc_week_start c) = 0 \<and> 0 \<le> wc_fencing_token c \<and>
     wc_fencing_token c \<le> 2 ^ 63 - 1 \<and>
     (case (wc_owner_run_id c, wc_lease_acquired_at c, wc_lease_expires_at c) of
        (None, None, None) \<Rightarrow> True
      | (Some i, Some a, Some e) \<Rightarrow> a < e \<and> (i, wc_week_start c) \<in> W
      | _ \<Rightarrow> False) \<and>
     (case (wc_last_valid_publication_run_id c, wc_last_valid_published_at c) of
        (None, None) \<Rightarrow> True
      | (Some i, Some _) \<Rightarrow> (i, wc_week_start c) \<in> W
      | _ \<Rightarrow> False) \<and>
     count_ok (wc_published_row_count c) \<and> text_ok 500 (wc_dependency_fingerprint c) \<and>
     text_ok 128 (wc_rules_version c)"

definition store_ok :: "run_db \<Rightarrow> bool" where
  "store_ok s \<longleftrightarrow> keys_unique rr_run_id (rd_runs s) \<and> keys_unique wc_week_start (rd_controls s) \<and>
     (\<forall>r \<in> set (rd_runs s). run_row_ok r) \<and> (\<forall>c \<in> set (rd_controls s). control_row_ok (run_weeks s) c)"

lemma text_ok_simps [simp]: "text_ok n None"
  "text_ok n (Some x) \<longleftrightarrow> \<not> blank x \<and> length x \<le> n \<and> \<not> carries_secret x"
  by (auto simp: text_ok_def)

lemma count_ok_None [simp]: "count_ok None"
  by (simp add: count_ok_def)

lemma text_ok_mono: "text_ok m v \<Longrightarrow> m \<le> n \<Longrightarrow> text_ok n v"
  by (auto simp: text_ok_def)

lemma text_ok_str_or: "text_ok n x \<Longrightarrow> text_ok n y \<Longrightarrow> text_ok n (str_or x y)"
  by (simp add: str_or_def)

lemma control_row_ok_mono: "control_row_ok W c \<Longrightarrow> W \<subseteq> W' \<Longrightarrow> control_row_ok W' c"
  by (auto simp: control_row_ok_def split: option.splits)

lemma terminal_statuses: "TERMINAL_STATUSES =
    [''succeeded'', ''succeeded_noop'', ''failed_retryable'', ''blocked_quality'', ''superseded'', ''skipped_in_progress'']"
  by (simp add: TERMINAL_STATUSES_def RUN_STATUSES_def RUN_TRANSITIONS_def)

lemma allowed_transition_cases: "allowed_transition a b \<longleftrightarrow>
    a = ''pending'' \<and> b \<in> {''running'', ''skipped_in_progress'', ''superseded'', ''blocked_quality'', ''failed_retryable''} \<or>
    a = ''running'' \<and> b \<in> {''succeeded'', ''succeeded_noop'', ''failed_retryable'', ''blocked_quality'', ''superseded''}"
  by (auto simp: allowed_transition_def RUN_TRANSITIONS_def)

lemma allowed_from: "allowed_transition a b \<Longrightarrow> a \<notin> set TERMINAL_STATUSES"
  unfolding allowed_transition_cases terminal_statuses by (elim disjE conjE) simp_all

lemma allowed_to: "allowed_transition a b \<Longrightarrow> b \<noteq> ''running'' \<Longrightarrow> b \<in> set TERMINAL_STATUSES"
  unfolding allowed_transition_cases terminal_statuses by auto

section \<open>Changes\<close>

text \<open>A run row keeps what identifies it, and leaves a status only along the transitions.\<close>

definition moves :: "run_record \<Rightarrow> run_record \<Rightarrow> bool" where
  "moves r r' \<longleftrightarrow> rr_run_id r' = rr_run_id r \<and> rr_pipeline_name r' = rr_pipeline_name r \<and>
     rr_target_week_start r' = rr_target_week_start r \<and> rr_trigger_type r' = rr_trigger_type r \<and>
     rr_started_at r' = rr_started_at r \<and> rr_status r \<notin> set TERMINAL_STATUSES \<and>
     (rr_status r' = rr_status r \<or> allowed_transition (rr_status r) (rr_status r')) \<and>
     (run_row_ok r \<longrightarrow> run_row_ok r')"

inductive change :: "(nat \<Rightarrow> time) \<Rightarrow> run_db \<Rightarrow> run_db \<Rightarrow> bool" for clk where
  tick: "rd_ticks s \<le> n \<Longrightarrow> change clk s (s\<lparr>rd_ticks := n\<rparr>)"
| new_run: "rr_run_id r \<notin> rr_run_id ` set (rd_runs s) \<Longrightarrow> rr_status r = ''pending'' \<Longrightarrow> run_row_ok r \<Longrightarrow>
    change clk s (s\<lparr>rd_runs := rd_runs s @ [r]\<rparr>)"
| move_run: "r \<in> set (rd_runs s) \<Longrightarrow> moves r r' \<Longrightarrow>
    change clk s (s\<lparr>rd_runs := put_row rr_run_id r' (rd_runs s)\<rparr>)"
| new_week: "w \<notin> wc_week_start ` set (rd_controls s) \<Longrightarrow> weekday w = 0 \<Longrightarrow>
    change clk s (set_controls (rd_controls s @ [new_control w]) s)"
| grant: "c \<in> set (rd_controls s) \<Longrightarrow> wc_owner_run_id c = None \<or> expired c (clk (rd_ticks s)) \<Longrightarrow>
    (i, wc_week_start c) \<in> run_weeks s \<Longrightarrow> a < e \<Longrightarrow> wc_fencing_token c < 2 ^ 63 - 1 \<Longrightarrow>
    change clk s (set_controls (put_row wc_week_start (grant_row i a e c) (rd_controls s)) s)"
| renew: "c \<in> set (rd_controls s) \<Longrightarrow> wc_owner_run_id c \<noteq> None \<Longrightarrow> unexpired c (clk (rd_ticks s)) \<Longrightarrow>
    (\<forall>a. wc_lease_acquired_at c = Some a \<longrightarrow> a < e) \<Longrightarrow>
    change clk s (set_controls (put_row wc_week_start (c\<lparr>wc_lease_expires_at := Some e\<rparr>) (rd_controls s)) s)"
| release: "c \<in> set (rd_controls s) \<Longrightarrow>
    change clk s (set_controls (put_row wc_week_start (release_row c) (rd_controls s)) s)"
| publish: "c \<in> set (rd_controls s) \<Longrightarrow> (i, wc_week_start c) \<in> run_weeks s \<Longrightarrow> count_ok n \<Longrightarrow>
    text_ok 500 fp \<Longrightarrow> text_ok 128 rules \<Longrightarrow>
    change clk s (set_controls (put_row wc_week_start (publish_row i pub n fp rules c) (rd_controls s)) s)"

lemmas change_intros = change.intros

lemma set_controls_simps [simp]:
  "rd_runs (set_controls cs s) = rd_runs s" "rd_controls (set_controls cs s) = cs"
  "rd_ticks (set_controls cs s) = rd_ticks s" "run_weeks (set_controls cs s) = run_weeks s"
  by (simp_all add: set_controls_def run_weeks_def)

lemma control_rows_week [simp]: "wc_week_start (release_row c) = wc_week_start c"
  "wc_week_start (grant_row i a e c) = wc_week_start c"
  "wc_week_start (publish_row i pub n fp rules c) = wc_week_start c"
  by (simp_all add: release_row_def grant_row_def publish_row_def)

lemma run_weeks_simps [simp]:
  "run_weeks (s\<lparr>rd_ticks := n\<rparr>) = run_weeks s" "run_weeks (s\<lparr>rd_controls := cs\<rparr>) = run_weeks s"
  by (simp_all add: run_weeks_def)

lemma put_control_ok:
  assumes "store_ok s" and "c \<in> set (rd_controls s)" and "wc_week_start c' = wc_week_start c"
    and "control_row_ok (run_weeks s) c \<Longrightarrow> control_row_ok (run_weeks s) c'"
  shows "store_ok (set_controls (put_row wc_week_start c' (rd_controls s)) s)"
  using assms by (auto simp: store_ok_def set_put_row)

lemma move_run_weeks:
  assumes "store_ok s" and "r \<in> set (rd_runs s)" and "moves r r'"
  shows "run_weeks (s\<lparr>rd_runs := put_row rr_run_id r' (rd_runs s)\<rparr>) = run_weeks s"
proof -
  have "map (\<lambda>r. (rr_run_id r, rr_target_week_start r)) (put_row rr_run_id r' (rd_runs s)) =
      map (\<lambda>r. (rr_run_id r, rr_target_week_start r)) (rd_runs s)"
    using assms by (intro put_row_image) (auto simp: moves_def store_ok_def dest: keys_uniqueD)
  from arg_cong [where f = set, OF this] show ?thesis by (simp add: run_weeks_def)
qed

lemma change_store_ok: "change clk s t \<Longrightarrow> store_ok s \<Longrightarrow> store_ok t"
proof (induction rule: change.induct)
  case (new_run r s)
  have "run_weeks s \<subseteq> run_weeks (s\<lparr>rd_runs := rd_runs s @ [r]\<rparr>)" by (auto simp: run_weeks_def)
  then show ?case using new_run by (auto simp: store_ok_def intro: control_row_ok_mono)
next
  case (move_run r s r')
  then show ?case using move_run_weeks [of s r r'] by (auto simp: store_ok_def set_put_row moves_def)
next
  case (new_week w s)
  then show ?case by (auto simp: store_ok_def control_row_ok_def new_control_def)
next
  case (grant c s i a e)
  then show ?case
    by (intro put_control_ok) (auto simp: grant_row_def control_row_ok_def split: option.splits)
next
  case (renew c s e)
  then show ?case by (intro put_control_ok) (auto simp: control_row_ok_def split: option.splits)
next
  case (release c s)
  then show ?case by (intro put_control_ok) (auto simp: release_row_def control_row_ok_def split: option.splits)
next
  case (publish c s i n fp rules pub)
  then show ?case
    by (intro put_control_ok) (auto simp: publish_row_def control_row_ok_def split: option.splits)
qed (auto simp: store_ok_def)

lemma changes_store_ok: "(change clk)\<^sup>*\<^sup>* s t \<Longrightarrow> store_ok s \<Longrightarrow> store_ok t"
  by (induction rule: rtranclp_induct) (auto intro: change_store_ok)

end
