(* ===== verification/Refinement.thy ===== *)
theory Refinement
  imports Prelude
begin

text \<open>
  Commands that refine a step relation: whatever they return or raise, the state they leave is
  reached by steps of the relation. The composition lemmas are shared by the run store, the leases
  and the task queue.
\<close>

definition refines :: "('s \<Rightarrow> 's \<Rightarrow> bool) \<Rightarrow> ('s, 'e, 'a) cmd \<Rightarrow> 's \<Rightarrow> bool" where
  "refines step m s \<longleftrightarrow> (\<forall>res t. m s = (res, t) \<longrightarrow> step\<^sup>*\<^sup>* s t)"

lemma refinesD: "refines step m s \<Longrightarrow> m s = (res, t) \<Longrightarrow> step\<^sup>*\<^sup>* s t"
  by (simp add: refines_def)

lemma refines_basic: "refines step (lift_result r) s" "refines step (return_cmd a) s"
  "refines step (raise_cmd e) s"
  by (simp_all add: refines_def)

lemma refines_bind:
  assumes "refines step m s" and "\<And>a t. m s = (Inr a, t) \<Longrightarrow> step\<^sup>*\<^sup>* s t \<Longrightarrow> refines step (f a) t"
  shows "refines step (bind_cmd m f) s"
  unfolding refines_def
proof (intro allI impI)
  fix res t assume run: "bind_cmd m f s = (res, t)"
  obtain r u where m: "m s = (r, u)" by (cases "m s")
  have u: "step\<^sup>*\<^sup>* s u" using refinesD [OF assms(1) m] .
  show "step\<^sup>*\<^sup>* s t"
  proof (cases r)
    case (Inr a)
    then have "step\<^sup>*\<^sup>* u t" using run m assms(2) [of a u] u by (auto simp: bind_cmd_def refines_def)
    then show ?thesis using u by simp
  qed (use run m u in \<open>auto simp: bind_cmd_def\<close>)
qed

lemma refines_guard: "(\<And>a. r = Inr a \<Longrightarrow> refines step (f a) s) \<Longrightarrow> refines step (bind_cmd (lift_result r) f) s"
  by (rule refines_bind) (auto simp: refines_basic)

lemma refines_map_error: "refines step m s \<Longrightarrow> refines step (map_error f m) s"
  unfolding refines_def map_error_def by (auto split: prod.splits sum.splits)

lemma refines_if:
  "(c \<Longrightarrow> refines step m s) \<Longrightarrow> (\<not> c \<Longrightarrow> refines step n s) \<Longrightarrow> refines step (if c then m else n) s"
  by simp

lemma refines_mono:
  assumes "refines step m s" and "\<And>a b. step a b \<Longrightarrow> step' a b"
  shows "refines step' m s"
proof -
  have "step\<^sup>*\<^sup>* a b \<Longrightarrow> step'\<^sup>*\<^sup>* a b" for a b using assms(2) by (rule mono_rtranclp [rule_format])
  then show ?thesis using assms(1) unfolding refines_def by blast
qed

lemma refines_path: "refines step m s \<Longrightarrow> step\<^sup>*\<^sup>* s (snd (m s))"
  by (cases "m s") (simp add: refines_def)

end
