(* ===== verification/RunRefinement.thy ===== *)
theory RunRefinement
  imports RunChanges Refinement
begin

text \<open>
  Every operation of the store and of the leases refines the abstract changes, from any state
  that satisfies the invariant, whether it returns or raises; and what the run operations
  guarantee when they return.
\<close>

abbreviation within :: "(nat \<Rightarrow> time) \<Rightarrow> (run_db, 'e, 'a) cmd \<Rightarrow> run_db \<Rightarrow> bool" where
  "within clk \<equiv> refines (change clk)"

named_theorems within_intros \<open>composition of commands that refine the abstract changes\<close>

declare refines_basic [within_intros] refines_guard [within_intros] refines_map_error [within_intros]

lemmas withinD = refinesD [where step = "change clk" for clk]
lemmas within_basic = refines_basic [where step = "change clk" for clk]
lemmas within_bind = refines_bind [where step = "change clk" for clk]
lemmas within_guard = refines_guard [where step = "change clk" for clk]
lemmas within_map_error = refines_map_error [where step = "change clk" for clk]

lemma within_execute:
  "(\<And>a t. stmt s = (a, t) \<Longrightarrow> (change clk)\<^sup>*\<^sup>* s t) \<Longrightarrow> within clk (execute C op stmt) s"
  unfolding refines_def execute_def by (auto split: option.splits prod.splits)

lemma within_one:
  "(\<And>a t. stmt s = (a, t) \<Longrightarrow> (change clk)\<^sup>*\<^sup>* s t) \<Longrightarrow> within clk (one C op stmt) s"
  unfolding refines_def one_def by (auto split: option.splits prod.splits sum.splits list.splits)

lemma change_ticks: "rd_ticks s \<le> n \<Longrightarrow> change clk s (s\<lparr>rd_ticks := n\<rparr>)"
  by (rule change.tick)

section \<open>Reads\<close>

lemma require_run_within [within_intros]: "within clk (require_run C i) s"
  unfolding require_run_def
  by (intro within_bind within_execute) (auto simp: within_basic split: option.splits)

lemma require_run_Inr:
  "require_run C i s = (Inr r, t) \<longleftrightarrow> t = s \<and> find_run s i = Some r \<and> cn_error C ''select_run'' = None"
  by (auto simp: require_run_def bind_cmd_eq_Inr execute_Inr split: option.splits)

lemma find_run_Some: "find_run s i = Some r \<Longrightarrow> r \<in> set (rd_runs s) \<and> rr_run_id r = i"
  by (auto simp: find_run_def dest: find_SomeD)

lemma find_control_Some: "find_control s w = Some c \<Longrightarrow> c \<in> set (rd_controls s) \<and> wc_week_start c = w"
  by (auto simp: find_control_def dest: find_SomeD)

lemma reads_within [within_intros]:
  "within clk (get_run C i) s" "within clk (latest_run C p v) s" "within clk (get_week_control C w) s"
  "within clk (latest_valid_publication C w) s"
  unfolding get_run_def latest_run_def get_week_control_def latest_valid_publication_def
  by (intro within_guard within_bind within_execute;
      auto intro: within_intros simp: Let_def split: option.splits prod.splits)+

section \<open>The run history\<close>

lemma insert_run_changes:
  assumes stmt: "insert_run C st row s = (a, t)"
    and row: "\<And>started. rr_status (row started) = ''pending'' \<and> run_row_ok (row started)"
  shows "(change clk)\<^sup>*\<^sup>* s t"
proof -
  let ?s = "s\<lparr>rd_ticks := Suc (rd_ticks s)\<rparr>"
  have tick: "change clk s ?s" by (intro change_ticks) simp
  show ?thesis
  proof (cases a)
    case None
    then show ?thesis using stmt tick by (auto simp: insert_run_def read_clock_def Let_def split: if_splits)
  next
    case (Some r)
    then obtain started where "t = ?s\<lparr>rd_runs := rd_runs ?s @ [r]\<rparr>" "r = row started"
      "rr_run_id r \<notin> rr_run_id ` set (rd_runs ?s)"
      using stmt by (auto simp: insert_run_def read_clock_def Let_def split: if_splits)
    then have "change clk ?s t" using row new_run [of r ?s clk] by simp
    then show ?thesis using tick by simp
  qed
qed

lemma create_run_within:
  "within clk (create_run C new_id w trigger p i st stage flow task) s"
  unfolding create_run_def
  by (intro within_guard within_bind within_execute)
    (auto intro: within_intros elim!: insert_run_changes simp: run_row_ok_def run_texts_ok_def
      RUN_STATUSES_def COMMIT_RESULTS_def terminal_statuses text_ok_def split: option.splits)

text \<open>A compare-and-set on the run table that only moves the rows it matches.\<close>

lemma update_run_rows_within:
  assumes ok: "store_ok s" and key: "\<And>r. p r \<Longrightarrow> rr_run_id r = i"
    and moves: "\<And>r. r \<in> set (rd_runs s) \<Longrightarrow> p r \<Longrightarrow> moves r (f r)"
    and kept: "\<And>r. rr_run_id (f r) = rr_run_id r"
  shows "within clk (update_run_rows C op p f conflict) s"
  unfolding update_run_rows_def
proof (intro within_bind within_execute)
  fix a t assume stmt: "(sql_returning p f (rd_runs s), s\<lparr>rd_runs := sql_update p f (rd_runs s)\<rparr>) = (a, t)"
  have uniq: "keys_unique rr_run_id (rd_runs s)" using ok by (simp add: store_ok_def)
  have key': "rr_run_id (f r) = i" if "p r" for r using key [OF that] kept by simp
  show "(change clk)\<^sup>*\<^sup>* s t"
  proof (rule cas_update [of rr_run_id "rd_runs s" p i f, OF uniq key key'])
    assume "sql_update p f (rd_runs s) = rd_runs s"
    then show ?thesis using stmt by (cases s) auto
  next
    fix r assume hit: "r \<in> set (rd_runs s)" "p r" "sql_update p f (rd_runs s) = put_row rr_run_id (f r) (rd_runs s)"
    then show ?thesis using stmt move_run [OF hit(1) moves [OF hit(1,2)], of clk] by auto
  qed
qed (auto intro: within_intros split: list.splits)

lemma update_run_rows_Inr:
  "update_run_rows C op p f conflict s = (Inr r, t) \<Longrightarrow>
   t = s\<lparr>rd_runs := sql_update p f (rd_runs s)\<rparr> \<and> (\<exists>x \<in> set (rd_runs s). p x \<and> r = f x)"
  by (auto simp: update_run_rows_def bind_cmd_eq_Inr execute_Inr sql_returning_def filter_eq_Cons_iff
      split: list.splits)

lemma update_guards_Inr:
  "update_guards current expected status ch = Inr u \<longleftrightarrow>
     rr_status current = expected \<and> status \<in> set RUN_STATUSES \<and> allowed_transition expected status \<and>
     (status \<in> set TERMINAL_STATUSES \<longrightarrow> ch_finished_at ch \<noteq> None) \<and>
     (status = ''running'' \<longrightarrow> ch_finished_at ch = None) \<and>
     (\<forall>f. ch_finished_at ch = Some f \<longrightarrow> rr_started_at current \<le> f) \<and>
     (status = ''blocked_quality'' \<longrightarrow> truthy (ch_block_reason ch)) \<and>
     (status = ''failed_retryable'' \<longrightarrow> truthy (ch_error_code ch)) \<and>
     or_else (ch_commit_result ch) (rr_commit_result current) \<in> set COMMIT_RESULTS"
  by (auto simp: update_guards_def bind_result_Inr not_less split: option.splits)

lemma update_parameters_Inr:
  "update_parameters current status ch = Inr p \<Longrightarrow>
     p = current\<lparr>rr_status := status, rr_stage_reached := str_or (ch_stage_reached ch) (rr_stage_reached current),
       rr_finished_at := ch_finished_at ch, rr_records_processed := ch_records_processed ch,
       rr_aggregates_calculated := ch_aggregates_calculated ch, rr_rows_inserted := ch_rows_inserted ch,
       rr_rows_updated := ch_rows_updated ch, rr_rows_unchanged := ch_rows_unchanged ch,
       rr_error_code := ch_error_code ch, rr_error_message := ch_error_message ch,
       rr_block_reason := ch_block_reason ch,
       rr_commit_result := or_else (ch_commit_result ch) (rr_commit_result current),
       rr_prefect_flow_run_id := str_or (ch_prefect_flow_run_id ch) (rr_prefect_flow_run_id current),
       rr_prefect_task_run_id := str_or (ch_prefect_task_run_id ch) (rr_prefect_task_run_id current)\<rparr> \<and>
     text_ok 128 (ch_stage_reached ch) \<and> count_ok (ch_records_processed ch) \<and>
     count_ok (ch_aggregates_calculated ch) \<and> count_ok (ch_rows_inserted ch) \<and> count_ok (ch_rows_updated ch) \<and>
     count_ok (ch_rows_unchanged ch) \<and> text_ok 128 (ch_error_code ch) \<and> text_ok 500 (ch_error_message ch) \<and>
     text_ok 500 (ch_block_reason ch) \<and> text_ok 128 (ch_prefect_flow_run_id ch) \<and>
     text_ok 128 (ch_prefect_task_run_id ch)"
  unfolding update_parameters_def
  by (clarsimp simp: bind_result_Inr text_ok_def [symmetric] count_ok_def [symmetric])

lemma truthy_not_None: "truthy x \<Longrightarrow> \<exists>y. x = Some y"
  by (cases x) simp_all

lemma set_run_columns_self: "rr_run_id (set_run_columns p r) = rr_run_id r"
  by (simp add: set_run_columns_def)

lemma update_run_moves:
  assumes ok: "run_row_ok current" and g: "update_guards current expected status ch = Inr u"
    and p: "update_parameters current status ch = Inr p"
  shows "moves current (set_run_columns p current)"
proof -
  note p' = update_parameters_Inr [OF p]
  from g [unfolded update_guards_Inr] have
    st: "rr_status current = expected" "status \<in> set RUN_STATUSES" "allowed_transition expected status" and
    fin: "status \<in> set TERMINAL_STATUSES \<longrightarrow> ch_finished_at ch \<noteq> None" "status = ''running'' \<longrightarrow> ch_finished_at ch = None"
      "\<forall>f. ch_finished_at ch = Some f \<longrightarrow> rr_started_at current \<le> f" and
    need: "status = ''blocked_quality'' \<longrightarrow> truthy (ch_block_reason ch)"
      "status = ''failed_retryable'' \<longrightarrow> truthy (ch_error_code ch)" and
    cr: "or_else (ch_commit_result ch) (rr_commit_result current) \<in> set COMMIT_RESULTS"
    by - (elim conjE, assumption)+
  have live: "rr_status current \<notin> set TERMINAL_STATUSES" using allowed_from [OF st(3)] st(1) by simp
  have fin': "ch_finished_at ch \<noteq> None \<longleftrightarrow> status \<in> set TERMINAL_STATUSES"
    using allowed_to [OF st(3)] fin(1,2) by (cases "status = ''running''") (simp_all add: terminal_statuses)
  have "run_row_ok (set_run_columns p current)"
    using p' st(2) fin' fin(3) need cr ok
    by (simp add: run_row_ok_def run_texts_ok_def set_run_columns_def text_ok_str_or truthy_not_None)
  then show ?thesis
    using live st p' by (simp add: moves_def set_run_columns_def)
qed

lemma update_run_within:
  assumes ok: "store_ok s"
  shows "within clk (update_run C i expected status ch) s"
  unfolding update_run_def
proof (rule within_guard, rule within_bind [OF require_run_within])
  fix u current t assume "require_run C i s = (Inr current, t)"
  then have cur: "t = s" "current \<in> set (rd_runs s)" "rr_run_id current = i"
    by (auto simp: require_run_Inr dest!: find_run_Some)
  have same: "r = current" if "r \<in> set (rd_runs s)" "rr_run_id r = i" for r
    using ok cur that by (auto simp: store_ok_def dest: keys_uniqueD)
  have "run_row_ok current" using ok cur by (simp add: store_ok_def)
  note moves = update_run_moves [OF this]
  show "within clk (bind_cmd (lift_result (update_guards current expected status ch)) (\<lambda>_.
     bind_cmd (lift_result (update_parameters current status ch)) (\<lambda>parameters.
     update_run_rows C ''update_run'' (\<lambda>r. rr_run_id r = i \<and> rr_status r = expected)
       (set_run_columns parameters) ''run status changed before the update''))) t"
    unfolding cur(1)
    by (intro within_guard update_run_rows_within [OF ok, of _ i])
      (auto simp: set_run_columns_self dest!: same intro: moves)
qed

lemma correlate_within:
  assumes ok: "store_ok s"
  shows "within clk (correlate_pending_run C i flow task) s"
  unfolding correlate_pending_run_def
  by (intro within_guard update_run_rows_within [OF ok, of _ i])
    (auto simp: moves_def terminal_statuses run_row_ok_def run_texts_ok_def carries_secret_def
      SECRET_MARKERS_def py_lower_def blank_def py_space_def)

lemma observation_within:
  assumes ok: "store_ok s"
  shows "within clk (record_commit_observation C i cr stage code msg) s"
  unfolding record_commit_observation_def
  by (intro within_guard within_bind require_run_within)
    (auto intro: within_intros intro!: update_run_rows_within [OF ok, of _ i] simp: require_run_Inr moves_def
      terminal_statuses run_row_ok_def run_texts_ok_def COMMIT_RESULTS_def text_ok_def)

end
