(* ===== verification/LeaseRefinement.thy ===== *)
theory LeaseRefinement
  imports RunRefinement
begin

text \<open>
  The operations on the week-control rows refine the abstract changes, and what a granted,
  verified, renewed or released decision says of the control row.
\<close>

section \<open>Facts on changes\<close>

lemma change_grows: "change clk s t \<Longrightarrow> store_ok s \<Longrightarrow> run_weeks s \<subseteq> run_weeks t \<and> rd_ticks s \<le> rd_ticks t"
proof (induction rule: change.induct)
  case (move_run r s r')
  then show ?case using move_run_weeks [of s r r'] by simp
qed (auto simp: run_weeks_def set_controls_def)

lemma changes_grow:
  "(change clk)\<^sup>*\<^sup>* s t \<Longrightarrow> store_ok s \<Longrightarrow> run_weeks s \<subseteq> run_weeks t \<and> rd_ticks s \<le> rd_ticks t"
proof (induction rule: rtranclp_induct)
  case (step t u)
  then show ?case using change_grows [of clk t u] changes_store_ok [of clk s t] by fastforce
qed simp

lemma update_controls_changes:
  assumes ok: "store_ok s" and ticks: "rd_ticks s \<le> n"
    and key: "\<And>c. p c \<Longrightarrow> wc_week_start c = w" "\<And>c. wc_week_start (f c) = wc_week_start c"
    and hit: "\<And>c. c \<in> set (rd_controls s) \<Longrightarrow> p c \<Longrightarrow>
      change clk s (set_controls (put_row wc_week_start (f c) (rd_controls s)) s)"
  shows "(change clk)\<^sup>*\<^sup>* s (set_controls (sql_update p f (rd_controls s)) (s\<lparr>rd_ticks := n\<rparr>))"
proof -
  have uniq: "keys_unique wc_week_start (rd_controls s)" using ok by (simp add: store_ok_def)
  have key': "wc_week_start (f c) = w" if "p c" for c using key [of c] that by simp
  show ?thesis
  proof (rule cas_update [of wc_week_start "rd_controls s" p w f, OF uniq key(1) key'])
    assume "sql_update p f (rd_controls s) = rd_controls s"
    then show ?thesis using change_ticks [OF ticks, of clk] by (simp add: set_controls_def)
  next
    fix c assume c: "c \<in> set (rd_controls s)" "p c"
      "sql_update p f (rd_controls s) = put_row wc_week_start (f c) (rd_controls s)"
    let ?t = "set_controls (put_row wc_week_start (f c) (rd_controls s)) s"
    have "change clk s ?t" using hit c by simp
    moreover have "change clk ?t (?t\<lparr>rd_ticks := n\<rparr>)" using ticks by (intro change_ticks) simp
    moreover have "?t\<lparr>rd_ticks := n\<rparr> = set_controls (sql_update p f (rd_controls s)) (s\<lparr>rd_ticks := n\<rparr>)"
      using c(3) by (simp add: set_controls_def)
    ultimately show ?thesis by (metis r_into_rtranclp rtranclp.rtrancl_into_rtrancl)
  qed
qed

lemma run_for_week_within [within_intros]: "within clk (run_for_week C i w) s"
  unfolding run_for_week_def by (intro within_bind within_map_error) (auto intro: within_intros)

lemma run_for_week_Inr: "run_for_week C i w s = (Inr u, t) \<Longrightarrow> t = s \<and> (i, w) \<in> run_weeks s"
  by (auto simp: run_for_week_def bind_cmd_eq_Inr require_run_Inr run_weeks_def dest!: find_run_Some)

lemma prepared_within [within_intros]: "within clk (prepared C w) s"
  unfolding prepared_def by (intro within_intros)

lemma prepared_Inr: "prepared C w s = (Inr v, t) \<longleftrightarrow> t = s \<and> v = w \<and> weekday w = 0 \<and> require_transaction C = Inr ()"
  by (auto simp: prepared_def bind_cmd_eq_Inr)

section \<open>The operations\<close>

lemma ensure_week_control_within [within_intros]: "within clk (ensure_week_control C w) s"
  unfolding ensure_week_control_def
proof (rule within_guard, rule within_guard, rule within_bind [OF within_execute])
  fix u v a t
  assume week: "week_guard w = Inr v"
    and stmt: "((), if v \<in> wc_week_start ` set (rd_controls s) then s
            else s\<lparr>rd_controls := rd_controls s @ [new_control v]\<rparr>) = (a, t)"
  show "(change clk)\<^sup>*\<^sup>* s t"
  proof (cases "v \<in> wc_week_start ` set (rd_controls s)")
    case False
    then have "change clk s t" using stmt week new_week [of v s clk] by (auto simp: set_controls_def)
    then show ?thesis by simp
  qed (use stmt in simp)
qed (auto intro!: within_bind intro: within_intros split: option.splits)

lemma ensure_week_control_Inr:
  "ensure_week_control C w s = (Inr c, t) \<Longrightarrow> find_control t w = Some c \<and>
    (t = s \<or> w \<notin> wc_week_start ` set (rd_controls s) \<and> t = set_controls (rd_controls s @ [new_control w]) s)"
  by (auto simp: ensure_week_control_def get_week_control_def bind_cmd_eq_Inr execute_Inr set_controls_def
      split: option.splits if_splits)

lemma record_valid_publication_within:
  assumes ok: "store_ok s"
  shows "within clk (record_valid_publication C w i pub n fp rules) s"
  unfolding record_valid_publication_def
proof (rule within_guard, rule within_guard, rule within_bind [OF require_run_within], rule within_guard,
    rule within_bind [OF ensure_week_control_within], (rule within_guard)+, rule within_bind [OF within_execute])
  fix u v run s1 g c s2 m fp' rules' a t
  assume guards: "week_guard w = Inr v" "count_guard (Some n) ''published_row_count'' = Inr m"
      "optional_text fp ''dependency_fingerprint'' = Inr fp'" "optional_label rules ''rules_version'' = Inr rules'"
    and run: "require_run C i s = (Inr run, s1)"
      "guard (rr_target_week_start run = v)
       (RunStoreError ''week_mismatch'' ''run target week does not match the control week'') = Inr g"
    and ch: "(change clk)\<^sup>*\<^sup>* s s1" "(change clk)\<^sup>*\<^sup>* s1 s2"
    and stmt: "(let f = publish_row i pub m fp' rules'
       in (sql_returning (\<lambda>c. wc_week_start c = v) f (rd_controls s2),
           s2\<lparr>rd_controls := sql_update (\<lambda>c. wc_week_start c = v) f (rd_controls s2)\<rparr>)) = (a, t)"
  have "(i, v) \<in> run_weeks s"
    using run by (auto simp: require_run_Inr run_weeks_def dest!: find_run_Some)
  moreover have "s1 = s" using run by (simp add: require_run_Inr)
  ultimately have iv: "(i, v) \<in> run_weeks s2" and ok2: "store_ok s2"
    using changes_grow [of clk s s2] changes_store_ok [of clk s s2] ch ok by auto
  have t: "t = set_controls (sql_update (\<lambda>c. wc_week_start c = v) (publish_row i pub m fp' rules') (rd_controls s2))
      (s2\<lparr>rd_ticks := rd_ticks s2\<rparr>)"
    using stmt by (simp add: Let_def set_controls_def)
  show "(change clk)\<^sup>*\<^sup>* s2 t"
    unfolding t
    by (rule update_controls_changes [OF ok2, of _ _ v], simp_all, rule publish)
      (use iv guards in \<open>simp_all add: count_ok_def text_ok_def\<close>)
next
  fix rows t
  show "within clk (case rows of
       [] \<Rightarrow> raise_cmd (RunStoreError ''control_not_found'' ''week control was not updated'')
     | c # _ \<Rightarrow> bind_cmd (lift_result (token_guard (wc_fencing_token c))) (\<lambda>_. return_cmd c)) t"
    by (cases rows) (auto intro: within_intros)
qed

lemma grant_lease_changes:
  assumes ok: "store_ok s" and run: "(i, w) \<in> run_weeks s"
    and stmt: "grant_lease_sql C w i seconds token s = (res, t)" and clk: "cn_clock C = clk"
  shows "(change clk)\<^sup>*\<^sup>* s t"
proof -
  let ?n = "rd_ticks s"
  let ?a = "clk (Suc ?n)" and ?e = "clk (Suc (Suc ?n)) + seconds * 1000000"
  let ?p = "grantable w token (clk ?n)"
  have tick: "(change clk)\<^sup>*\<^sup>* s (s\<lparr>rd_ticks := Suc (Suc (Suc ?n))\<rparr>)"
    by (intro r_into_rtranclp change_ticks) simp
  show ?thesis
  proof (cases res)
    case (Inl e)
    then show ?thesis
      using stmt tick clk by (auto simp: grant_lease_sql_def read_clock_def Let_def split: if_splits)
  next
    case (Inr rows)
    then have no: "\<not> list_ex (\<lambda>c. ?p c \<and> wc_fencing_token c = 2 ^ 63 - 1) (rd_controls s)"
      "\<not> (list_ex ?p (rd_controls s) \<and> ?e \<le> ?a)"
      "t = set_controls (sql_update ?p (grant_row i ?a ?e) (rd_controls s)) (s\<lparr>rd_ticks := Suc (Suc (Suc ?n))\<rparr>)"
      using stmt clk by (auto simp: grant_lease_sql_def read_clock_def Let_def split: if_splits)
    have "change clk s (set_controls (put_row wc_week_start (grant_row i ?a ?e c) (rd_controls s)) s)"
      if c: "c \<in> set (rd_controls s)" "?p c" for c
    proof (rule grant [OF c(1)])
      have "wc_fencing_token c \<le> 2 ^ 63 - 1" using ok c(1) by (simp add: store_ok_def control_row_ok_def)
      moreover have "wc_fencing_token c \<noteq> 2 ^ 63 - 1" using no(1) c by (auto simp: list_ex_iff)
      ultimately show "wc_fencing_token c < 2 ^ 63 - 1" by simp
      show "?a < ?e" using no(2) c by (auto simp: list_ex_iff)
    qed (use c run in \<open>auto simp: grantable_def\<close>)
    then show ?thesis
      unfolding no(3) by (intro update_controls_changes [OF ok, of _ _ w]) (auto simp: grantable_def grant_row_def)
  qed
qed

lemma lock_control_changes: "lock_control_sql C w i s = (res, t) \<Longrightarrow> (change clk)\<^sup>*\<^sup>* s t"
  by (auto simp: lock_control_sql_def read_clock_def intro!: r_into_rtranclp change_ticks)

lemma verify_lease_changes: "verify_lease_sql C w i k s = (res, t) \<Longrightarrow> (change clk)\<^sup>*\<^sup>* s t"
  by (auto simp: verify_lease_sql_def read_clock_def intro!: r_into_rtranclp change_ticks)

lemma acquire_within:
  assumes ok: "store_ok s" and clk: "cn_clock C = clk"
  shows "within clk (acquire_week_lease C w i seconds) s"
  unfolding acquire_week_lease_def
proof (rule within_bind [OF prepared_within], rule within_guard, rule within_bind [OF run_for_week_within],
    rule within_bind [OF within_map_error [OF ensure_week_control_within]],
    rule within_bind [OF within_one [OF lock_control_changes]])
  fix v s1 n u s2 c s3 locked s4
  assume "prepared C w s = (Inr v, s1)" and "run_for_week C i v s1 = (Inr u, s2)"
    and ch: "(change clk)\<^sup>*\<^sup>* s2 s3" "(change clk)\<^sup>*\<^sup>* s3 s4"
  then have iv: "s2 = s" "(i, v) \<in> run_weeks s" by (auto simp: prepared_Inr dest: run_for_week_Inr)
  then have s4: "(change clk)\<^sup>*\<^sup>* s s4" using ch by (metis rtranclp_trans)
  have "(i, v) \<in> run_weeks s4" "store_ok s4"
    using changes_grow [OF s4 ok] changes_store_ok [OF s4 ok] iv by auto
  note grant_lease_changes [OF this(2,1) _ clk]
  then show "within clk (case locked of
       None \<Rightarrow> raise_cmd (ConcurrencyError ''query_failed'' ''week control disappeared after ensure'')
     | Some l \<Rightarrow>
         if \<not> lk_is_free l \<and> \<not> lk_is_expired l
         then return_cmd (decision v (if lk_is_owner l then AlreadyHeld else Occupied) i (lk_row l))
         else
           bind_cmd (one C ''grant_lease''
             (grant_lease_sql C v i n (wc_fencing_token (lk_row l)))) (\<lambda>row.
           case row of
             None \<Rightarrow> raise_cmd (ConcurrencyError ''transaction_uncertain''
               ''locked lease row was not updated; not treating the week as free'')
           | Some c \<Rightarrow> return_cmd (decision v (if lk_is_free l then Acquired else Recovered) i c))) s4"
    by (auto intro!: within_bind within_one intro: within_intros split: option.splits)
qed

lemma verify_within: "within clk (verify_week_lease C w i k) s"
  unfolding verify_week_lease_def
  by (intro within_bind prepared_within within_guard within_one verify_lease_changes) (auto intro: within_intros)

lemma renew_within:
  assumes ok: "store_ok s" and clk: "cn_clock C = clk"
  shows "within clk (renew_week_lease C w i k seconds) s"
  unfolding renew_week_lease_def
proof (rule within_bind [OF prepared_within], rule within_guard, rule within_guard,
    rule within_bind [OF within_one])
  fix v s1 n token res t
  assume s1: "prepared C w s = (Inr v, s1)" and stmt: "renew_lease_sql C v i token n s1 = (res, t)"
  have s: "s1 = s" using s1 by (simp add: prepared_Inr)
  let ?n = "rd_ticks s" and ?e = "clk (Suc (rd_ticks s)) + n * 1000000"
  let ?p = "\<lambda>c. held v i token c \<and> unexpired c (clk (rd_ticks s))"
  have tick: "(change clk)\<^sup>*\<^sup>* s (s\<lparr>rd_ticks := Suc (Suc ?n)\<rparr>)" by (intro r_into_rtranclp change_ticks) simp
  show "(change clk)\<^sup>*\<^sup>* s1 t"
  proof (cases res)
    case (Inl e)
    then show ?thesis using stmt tick clk s by (auto simp: renew_lease_sql_def read_clock_def Let_def split: if_splits)
  next
    case (Inr rows)
    then have no: "\<not> list_ex (\<lambda>c. ?p c \<and> ends_before_start c ?e) (rd_controls s)"
      "t = set_controls (sql_update ?p (\<lambda>c. c\<lparr>wc_lease_expires_at := Some ?e\<rparr>) (rd_controls s)) (s\<lparr>rd_ticks := Suc (Suc ?n)\<rparr>)"
      using stmt clk s by (auto simp: renew_lease_sql_def read_clock_def Let_def split: if_splits)
    have "change clk s (set_controls (put_row wc_week_start (c\<lparr>wc_lease_expires_at := Some ?e\<rparr>) (rd_controls s)) s)"
      if "c \<in> set (rd_controls s)" "?p c" for c
      using that no(1) by (intro renew) (auto simp: held_def list_ex_iff ends_before_start_def)
    then show ?thesis
      unfolding no(2) s by (intro update_controls_changes [OF ok, of _ _ v]) (auto simp: held_def)
  qed
qed (auto intro: within_intros)

lemma release_within:
  assumes ok: "store_ok s"
  shows "within clk (release_week_lease C w i k) s"
  unfolding release_week_lease_def
proof (rule within_bind [OF prepared_within], rule within_guard, rule within_bind [OF within_one])
  fix v s1 token res t
  assume s1: "prepared C w s = (Inr v, s1)" and stmt: "release_lease_sql C v i token s1 = (res, t)"
  have s: "s1 = s" using s1 by (simp add: prepared_Inr)
  have t: "t = set_controls (sql_update (held v i token) release_row (rd_controls s)) (s\<lparr>rd_ticks := rd_ticks s\<rparr>)"
    using stmt s by (simp add: release_lease_sql_def)
  show "(change clk)\<^sup>*\<^sup>* s1 t"
    unfolding t s
    by (intro update_controls_changes [OF ok, of _ _ v]) (auto simp: held_def intro: release)
qed (auto intro: within_intros)

lemma lease_run_status_within:
  assumes ok: "store_ok s"
  shows "within clk (record_lease_run_status C i status fin reason) s"
  unfolding record_lease_run_status_def
  by (intro within_bind within_map_error require_run_within within_basic)
    (auto intro!: within_bind within_map_error update_run_within intro: within_intros ok simp: require_run_Inr)

end
