(* ===== verification/Fencing.thy ===== *)
theory Fencing
  imports Prelude
begin

text \<open>
  The contract of a fencing token. Each resource has a token that never decreases and at most one
  owner, and the owner changes hands only together with a larger token: under one token the owner
  can only leave. Whoever checks owner and token before it writes is then protected against every
  earlier owner.
\<close>

locale fenced =
  fixes step :: "'d \<Rightarrow> 'd \<Rightarrow> bool"
    and ok :: "'d \<Rightarrow> bool"
    and token :: "'d \<Rightarrow> 'k \<Rightarrow> int"
    and owner :: "'d \<Rightarrow> 'k \<Rightarrow> 'o option"
  assumes ok_step: "step d d' \<Longrightarrow> ok d \<Longrightarrow> ok d'"
    and token_mono: "step d d' \<Longrightarrow> ok d \<Longrightarrow> token d k \<le> token d' k"
    and owner_kept: "step d d' \<Longrightarrow> ok d \<Longrightarrow> token d' k = token d k \<Longrightarrow>
      owner d' k = owner d k \<or> owner d' k = None"
begin

lemma ok_steps: "step\<^sup>*\<^sup>* d d' \<Longrightarrow> ok d \<Longrightarrow> ok d'"
  by (induction rule: rtranclp_induct) (auto intro: ok_step)

lemma token_le: "step\<^sup>*\<^sup>* d d' \<Longrightarrow> ok d \<Longrightarrow> token d k \<le> token d' k"
proof (induction rule: rtranclp_induct)
  case (step d' d'')
  then show ?case using token_mono [of d' d'' k] ok_steps [of d d'] by fastforce
qed simp

lemma same_token_owner:
  "step\<^sup>*\<^sup>* d d' \<Longrightarrow> ok d \<Longrightarrow> token d' k = token d k \<Longrightarrow> owner d' k = owner d k \<or> owner d' k = None"
proof (induction rule: rtranclp_induct)
  case (step d' d'')
  have ok': "ok d'" using ok_steps step by blast
  have "token d k \<le> token d' k" "token d' k \<le> token d'' k"
    using token_le [OF step.hyps(1) step.prems(1)] token_mono [OF step.hyps(2) ok'] by blast+
  then have "token d' k = token d k" "token d'' k = token d' k" using step.prems(2) by simp_all
  then show ?case using step.IH [OF step.prems(1)] owner_kept [OF step.hyps(2) ok', of k] by auto
qed simp

lemma stale_fenced:
  assumes "step\<^sup>*\<^sup>* d d'" and "ok d" and "owner d k = Some a" and "owner d' k = Some b"
  shows "token d k < token d' k \<or> token d k = token d' k \<and> a = b"
  using token_le [OF assms(1,2), of k] same_token_owner [OF assms(1,2), of k] assms(3,4) by force

end

end
