(* ===== verification/RunLeases.thy ===== *)
theory RunLeases
  imports LeaseRefinement Fencing
begin

text \<open>
  The steps of the operational store, one committed operation of any session after another, and
  what they guarantee: the table contract of the run history, the fencing contract of the week
  leases, and the outcome of each lease operation.
\<close>

section \<open>Steps\<close>

text \<open>Every session reads the one server clock \<open>clk\<close>.\<close>

inductive store_step :: "(nat \<Rightarrow> time) \<Rightarrow> run_db \<Rightarrow> run_db \<Rightarrow> bool" for clk where
  st_create: "cn_clock C = clk \<Longrightarrow> create_run C new_id w trig p i start stage flow task s = (res_run, t) \<Longrightarrow>
    store_step clk s t"
| st_update: "cn_clock C = clk \<Longrightarrow> update_run C i expected status ch s = (res_run, t) \<Longrightarrow> store_step clk s t"
| st_correlate: "cn_clock C = clk \<Longrightarrow> correlate_pending_run C i flow_id task_id s = (res_run, t) \<Longrightarrow> store_step clk s t"
| st_observe: "cn_clock C = clk \<Longrightarrow> record_commit_observation C i cr stg code msg s = (res_run, t) \<Longrightarrow>
    store_step clk s t"
| st_ensure: "cn_clock C = clk \<Longrightarrow> ensure_week_control C w s = (res_control, t) \<Longrightarrow> store_step clk s t"
| st_publish: "cn_clock C = clk \<Longrightarrow> record_valid_publication C w i pub n fp rules s = (res_control, t) \<Longrightarrow>
    store_step clk s t"
| st_acquire: "cn_clock C = clk \<Longrightarrow> acquire_week_lease C w i secs s = (res_lease, t) \<Longrightarrow> store_step clk s t"
| st_verify: "cn_clock C = clk \<Longrightarrow> verify_week_lease C w i k s = (res_lease, t) \<Longrightarrow> store_step clk s t"
| st_renew: "cn_clock C = clk \<Longrightarrow> renew_week_lease C w i k secs s = (res_lease, t) \<Longrightarrow> store_step clk s t"
| st_release: "cn_clock C = clk \<Longrightarrow> release_week_lease C w i k s = (res_lease, t) \<Longrightarrow> store_step clk s t"
| st_status: "cn_clock C = clk \<Longrightarrow> record_lease_run_status C i status fin reason s = (res_status, t) \<Longrightarrow>
    store_step clk s t"

lemma store_step_changes: "store_step clk s t \<Longrightarrow> store_ok s \<Longrightarrow> (change clk)\<^sup>*\<^sup>* s t"
  by (cases rule: store_step.cases, assumption)
    (blast intro: withinD create_run_within update_run_within correlate_within observation_within
      ensure_week_control_within record_valid_publication_within acquire_within verify_within renew_within
      release_within lease_run_status_within)+

lemma store_steps_changes: "(store_step clk)\<^sup>*\<^sup>* s t \<Longrightarrow> store_ok s \<Longrightarrow> (change clk)\<^sup>*\<^sup>* s t"
proof (induction rule: rtranclp_induct)
  case (step t u)
  then have "store_ok t" using changes_store_ok by blast
  then show ?case using step store_step_changes by (metis rtranclp_trans)
qed simp

lemma store_steps_ok: "(store_step clk)\<^sup>*\<^sup>* s t \<Longrightarrow> store_ok s \<Longrightarrow> store_ok t"
  using store_steps_changes changes_store_ok by blast

section \<open>The run history\<close>

fun status_rank :: "string \<Rightarrow> nat" where
  "status_rank status = (if status = ''pending'' then 2 else if status = ''running'' then 1 else 0)"

declare status_rank.simps [simp del]

lemma change_row_kept:
  assumes "change clk s t" and "store_ok s" and "r \<in> set (rd_runs s)"
  shows "\<exists>r' \<in> set (rd_runs t). rr_run_id r' = rr_run_id r \<and>
    (r' = r \<or> rr_status r \<notin> set TERMINAL_STATUSES \<and>
      (rr_status r' = rr_status r \<or> allowed_transition (rr_status r) (rr_status r')))"
  using assms
proof (induction rule: change.induct)
  case (move_run x s x')
  then have x: "rr_run_id x' = rr_run_id x" "x \<in> set (rd_runs s)" by (simp_all add: moves_def)
  show ?case
  proof (cases "rr_run_id r = rr_run_id x")
    case True
    then have "r = x" using move_run x by (auto simp: store_ok_def dest: keys_uniqueD)
    then show ?thesis using move_run x by (auto simp: set_put_row moves_def intro!: bexI [of _ x'])
  qed (use move_run x in \<open>auto simp: set_put_row\<close>)
qed auto

interpretation run_history: ranked_table rd_runs rr_run_id rr_status
  "\<lambda>s t. store_ok s \<and> change clk s t" allowed_transition "\<lambda>st. st \<in> set TERMINAL_STATUSES" status_rank for clk
proof
  show "\<not> allowed_transition a b" if "a \<in> set TERMINAL_STATUSES" for a b
    using that allowed_from by blast
  show "status_rank b < status_rank a" if "allowed_transition a b" for a b
    using that by (auto simp: allowed_transition_cases status_rank.simps)
qed (use change_row_kept in blast)

lemma guarded_steps:
  "(store_step clk)\<^sup>*\<^sup>* s t \<Longrightarrow> store_ok s \<Longrightarrow> (\<lambda>s t. store_ok s \<and> change clk s t)\<^sup>*\<^sup>* s t"
proof -
  have "(change clk)\<^sup>*\<^sup>* s t \<Longrightarrow> store_ok s \<Longrightarrow> (\<lambda>s t. store_ok s \<and> change clk s t)\<^sup>*\<^sup>* s t"
  proof (induction rule: rtranclp_induct)
    case (step t u)
    then show ?case using changes_store_ok [OF step.hyps(1)] by (metis (mono_tags) rtranclp.rtrancl_into_rtrancl)
  qed simp
  then show "(store_step clk)\<^sup>*\<^sup>* s t \<Longrightarrow> store_ok s \<Longrightarrow> (\<lambda>s t. store_ok s \<and> change clk s t)\<^sup>*\<^sup>* s t"
    using store_steps_changes by blast
qed

lemma terminal_runs_kept:
  "(store_step clk)\<^sup>*\<^sup>* s t \<Longrightarrow> store_ok s \<Longrightarrow> r \<in> set (rd_runs s) \<Longrightarrow> rr_status r \<in> set TERMINAL_STATUSES \<Longrightarrow>
   r \<in> set (rd_runs t)"
  using run_history.final_kept [OF guarded_steps] by blast

lemma run_status_path:
  assumes "(store_step clk)\<^sup>*\<^sup>* s t" and "store_ok s" and "r \<in> set (rd_runs s)"
  shows "\<exists>r' \<in> set (rd_runs t). rr_run_id r' = rr_run_id r \<and>
    (\<exists>n \<le> status_rank (rr_status r). (allowed_transition ^^ n) (rr_status r) (rr_status r'))"
proof -
  obtain r' where r': "r' \<in> set (rd_runs t)" "rr_run_id r' = rr_run_id r"
    "allowed_transition\<^sup>*\<^sup>* (rr_status r) (rr_status r')"
    using run_history.status_path [OF guarded_steps [OF assms(1,2)] assms(3)] by blast
  then obtain n where n: "(allowed_transition ^^ n) (rr_status r) (rr_status r')"
    by (auto simp: rtranclp_power)
  have "n \<le> status_rank (rr_status r)" using run_history.path_bounded [OF n] .
  then show ?thesis using r' n by blast
qed

section \<open>The leases\<close>

definition week_token :: "run_db \<Rightarrow> date \<Rightarrow> int" where
  "week_token s w = (case find_control s w of None \<Rightarrow> 0 | Some c \<Rightarrow> wc_fencing_token c)"

definition week_owner :: "run_db \<Rightarrow> date \<Rightarrow> uuid option" where
  "week_owner s w = (case find_control s w of None \<Rightarrow> None | Some c \<Rightarrow> wc_owner_run_id c)"

lemma find_control_iff:
  "store_ok s \<Longrightarrow> find_control s w = Some c \<longleftrightarrow> c \<in> set (rd_controls s) \<and> wc_week_start c = w"
  using keys_unique_find [of wc_week_start "rd_controls s" c]
  by (auto simp: find_control_def store_ok_def dest: find_SomeD)

lemma find_control_put:
  "c' \<in> set (rd_controls s) \<Longrightarrow> wc_week_start c = wc_week_start c' \<Longrightarrow>
   find_control (set_controls (put_row wc_week_start c (rd_controls s)) s) w =
     (if wc_week_start c = w then Some c else find_control s w)"
  by (auto simp: find_control_def find_put_row)

lemma find_control_append:
  "find_control (set_controls (rd_controls s @ [c]) s) w =
     (case find_control s w of None \<Rightarrow> if wc_week_start c = w then Some c else None | Some x \<Rightarrow> Some x)"
proof -
  have "find p (xs @ [c]) = (case find p xs of None \<Rightarrow> if p c then Some c else None | Some x \<Rightarrow> Some x)" for p xs
    by (induction xs) auto
  then show ?thesis by (simp add: find_control_def)
qed

lemma find_control_other [simp]:
  "find_control (s\<lparr>rd_ticks := n\<rparr>) w = find_control s w" "find_control (s\<lparr>rd_runs := rs\<rparr>) w = find_control s w"
  by (simp_all add: find_control_def)

lemma put_control_fenced:
  assumes "store_ok s" and "c \<in> set (rd_controls s)" and "wc_week_start c' = wc_week_start c"
    and "wc_fencing_token c \<le> wc_fencing_token c'"
    and "wc_fencing_token c' = wc_fencing_token c \<Longrightarrow> wc_owner_run_id c' \<in> {wc_owner_run_id c, None}"
  shows "week_token s w \<le> week_token (set_controls (put_row wc_week_start c' (rd_controls s)) s) w \<and>
    (week_token (set_controls (put_row wc_week_start c' (rd_controls s)) s) w = week_token s w \<longrightarrow>
     week_owner (set_controls (put_row wc_week_start c' (rd_controls s)) s) w \<in> {week_owner s w, None})"
proof -
  have "find_control s (wc_week_start c) = Some c" using assms(1,2) by (simp add: find_control_iff)
  then show ?thesis
    using assms by (cases "w = wc_week_start c") (auto simp: week_token_def week_owner_def find_control_put)
qed

lemma change_fenced:
  assumes "change clk s t" and "store_ok s"
  shows "week_token s w \<le> week_token t w \<and>
    (week_token t w = week_token s w \<longrightarrow> week_owner t w \<in> {week_owner s w, None})"
  using assms
proof (induction rule: change.induct)
  case (new_week v s)
  then have "find_control s v = None" by (force simp: find_control_def find_None_iff)
  then show ?case by (auto simp: week_token_def week_owner_def find_control_append new_control_def split: option.splits)
next
  case (grant c s i a e)
  have "wc_fencing_token (grant_row i a e c) = wc_fencing_token c + 1" by (simp add: grant_row_def)
  then show ?case using put_control_fenced [OF grant.prems grant.hyps(1), of "grant_row i a e c" w] by simp
next
  case (renew c s e)
  show ?case
    using put_control_fenced [OF renew.prems renew.hyps(1), of "c\<lparr>wc_lease_expires_at := Some e\<rparr>" w] by simp
next
  case (release c s)
  show ?case
    using put_control_fenced [OF release.prems release.hyps(1), of "release_row c" w]
    by (simp add: release_row_def)
next
  case (publish c s i n fp rules pub)
  show ?case
    using put_control_fenced [OF publish.prems publish.hyps(1), of "publish_row i pub n fp rules c" w]
    by (simp add: publish_row_def)
qed (auto simp: week_token_def week_owner_def)

interpretation week_lease: fenced "change clk" store_ok week_token week_owner for clk
  using change_store_ok change_fenced by unfold_locales (blast, blast, fastforce)

end
