(* ===== verification/LeaseOutcomes.thy ===== *)
theory LeaseOutcomes
  imports RunLeases
begin

text \<open>
  What the lease operations answer: the complete outcome of an acquisition and of a verification
  on a healthy connection, and what a granted or verified decision says of the control row
  whatever the connection does.
\<close>

section \<open>Healthy connections\<close>

definition healthy :: "conn \<Rightarrow> bool" where
  "healthy C \<longleftrightarrow> require_transaction C = Inr () \<and> cn_error C = (\<lambda>_. None)"

lemma healthyD: "healthy C \<Longrightarrow> require_transaction C = Inr ()" "healthy C \<Longrightarrow> cn_error C op = None"
  by (simp_all add: healthy_def)

lemma healthy_execute: "healthy C \<Longrightarrow> execute C op stmt s = (Inr (fst (stmt s)), snd (stmt s))"
  by (simp add: execute_def healthy_def split: prod.splits)

lemma bind_lift: "bind_cmd (lift_result (Inr a)) f = f a"
  by (rule ext) (simp add: bind_cmd_def)

lemma bind_guard: "b \<Longrightarrow> bind_cmd (lift_result (guard b e)) f = f ()"
  by (rule ext) (simp add: bind_cmd_def)

lemma controls_of_found:
  "store_ok s \<Longrightarrow> controls_of s w = (case find_control s w of None \<Rightarrow> [] | Some c \<Rightarrow> [c])"
  using keys_unique_filter [of wc_week_start "rd_controls s" w]
  by (simp add: controls_of_def find_control_def store_ok_def)

lemma find_run_week:
  assumes "store_ok s" and "(i, w) \<in> run_weeks s"
  obtains r where "find_run s i = Some r" and "rr_target_week_start r = w"
proof -
  obtain r where r: "r \<in> set (rd_runs s)" "rr_run_id r = i" "rr_target_week_start r = w"
    using assms(2) by (auto simp: run_weeks_def)
  then have "find_run s i = Some r"
    using keys_unique_find [of rr_run_id "rd_runs s" r] assms(1) by (simp add: find_run_def store_ok_def)
  then show thesis using r(3) that by blast
qed

lemma run_for_week_healthy:
  assumes "healthy C" and "store_ok s" and "(i, w) \<in> run_weeks s"
  shows "run_for_week C i w s = (Inr (), s)"
proof -
  obtain r where "find_run s i = Some r" "rr_target_week_start r = w"
    using find_run_week [OF assms(2,3)] .
  then show ?thesis
    using assms(1) by (simp add: run_for_week_def bind_cmd_eq_Inr require_run_Inr healthyD)
qed

text \<open>The control row of a week and the table after \<open>ensure_week_control\<close>.\<close>

definition control_or_new :: "run_db \<Rightarrow> date \<Rightarrow> week_control" where
  "control_or_new s w = or_else (find_control s w) (new_control w)"

definition ensured :: "run_db \<Rightarrow> date \<Rightarrow> run_db" where
  "ensured s w = (case find_control s w of
     None \<Rightarrow> set_controls (rd_controls s @ [new_control w]) s | Some _ \<Rightarrow> s)"

lemma find_control_ensured: "find_control (ensured s w) w = Some (control_or_new s w)"
  by (auto simp: ensured_def control_or_new_def find_control_append new_control_def split: option.splits)

lemma ensured_simps [simp]: "rd_ticks (ensured s w) = rd_ticks s" "run_weeks (ensured s w) = run_weeks s"
  by (simp_all add: ensured_def split: option.splits)

lemma ensured_ok: "store_ok s \<Longrightarrow> weekday w = 0 \<Longrightarrow> store_ok (ensured s w)"
  using change_store_ok [OF new_week, of w s]
  by (auto simp: ensured_def find_control_def find_None_iff split: option.splits)

lemma ensure_healthy:
  assumes "healthy C" and "store_ok s" and w: "weekday w = 0"
  shows "ensure_week_control C w s = (Inr (control_or_new s w), ensured s w)"
proof -
  have known: "w \<in> wc_week_start ` set (rd_controls s) \<longleftrightarrow> find_control s w \<noteq> None"
    by (auto simp: find_control_def find_None_iff image_iff dest: find_SomeD)
  have "control_row_ok (run_weeks (ensured s w)) (control_or_new s w)"
    using ensured_ok [OF assms(2) w] find_control_ensured [of s w]
    by (auto simp: store_ok_def dest!: find_control_Some)
  then have tok: "token_guard (wc_fencing_token (control_or_new s w)) = Inr (wc_fencing_token (control_or_new s w))"
    by (simp add: control_row_ok_def)
  have "(if w \<in> wc_week_start ` set (rd_controls s) then s
      else s\<lparr>rd_controls := rd_controls s @ [new_control w]\<rparr>) = ensured s w"
    by (auto simp: known ensured_def set_controls_def)
  then show ?thesis
    unfolding ensure_week_control_def get_week_control_def
    by (simp add: bind_cmd_def healthy_execute [OF assms(1)] healthyD [OF assms(1)] w week_guard_def
        find_control_ensured tok)
qed

section \<open>Acquisition\<close>

lemma expired_later: "expired c now \<Longrightarrow> now \<le> later \<Longrightarrow> expired c later"
  by (auto simp: expired_def split: option.splits)

lemma grant_healthy:
  fixes C s defines "clk \<equiv> cn_clock C" and "n \<equiv> rd_ticks s"
  assumes h: "healthy C" and ok: "store_ok s" and c: "find_control s w = Some c"
    and free: "wc_owner_run_id c = None \<or> expired c (clk n)" and top: "wc_fencing_token c < 2 ^ 63 - 1"
    and mono: "mono clk" and secs: "1 \<le> seconds"
  shows "one C ''grant_lease'' (grant_lease_sql C w i seconds (wc_fencing_token c)) s =
    (Inr (Some (grant_row i (clk (Suc n)) (clk (Suc (Suc n)) + seconds * 1000000) c)),
     set_controls (put_row wc_week_start (grant_row i (clk (Suc n)) (clk (Suc (Suc n)) + seconds * 1000000) c)
       (rd_controls s)) (s\<lparr>rd_ticks := Suc (Suc (Suc n))\<rparr>))"
proof -
  let ?e = "clk (Suc (Suc n)) + seconds * 1000000"
  let ?p = "grantable w (wc_fencing_token c) (clk n)" and ?f = "grant_row i (clk (Suc n)) ?e"
  have uniq: "keys_unique wc_week_start (rd_controls s)" using ok by (simp add: store_ok_def)
  have mem: "c \<in> set (rd_controls s)" "wc_week_start c = w" using find_control_Some [OF c] by simp_all
  then have hit: "?p c" using free by (auto simp: grantable_def)
  have same: "x = c" if "x \<in> set (rd_controls s)" "?p x" for x
    using keys_uniqueD [OF uniq that(1) mem(1)] that(2) mem(2) by (simp add: grantable_def)
  have "clk (Suc n) \<le> clk (Suc (Suc n))" using mono by (simp add: mono_def)
  then have "\<not> ?e \<le> clk (Suc n)" using secs by simp
  moreover have "\<not> list_ex (\<lambda>x. ?p x \<and> wc_fencing_token x = 2 ^ 63 - 1) (rd_controls s)"
    using same top by (force simp: list_ex_iff)
  moreover have "sql_update ?p ?f (rd_controls s) = put_row wc_week_start (?f c) (rd_controls s) \<and>
      sql_returning ?p ?f (rd_controls s) = [?f c]"
  proof (rule cas_update [of wc_week_start "rd_controls s" ?p w ?f, OF uniq])
    show "\<And>r. ?p r \<Longrightarrow> wc_week_start r = w" "\<And>r. ?p r \<Longrightarrow> wc_week_start (?f r) = w"
      by (simp_all add: grantable_def)
  qed (use same hit mem in blast)+
  ultimately show ?thesis
    using healthyD(2) [OF h, of "''grant_lease''"]
    by (simp add: one_def grant_lease_sql_def read_clock_def Let_def clk_def n_def)
qed

lemma lock_healthy:
  assumes "healthy C" and "store_ok s" and "find_control s w = Some c"
  shows "one C ''lock_control'' (lock_control_sql C w i) s =
    (Inr (Some \<lparr>lk_row = c, lk_is_free = wc_owner_run_id c = None, lk_is_owner = wc_owner_run_id c = Some i,
        lk_is_expired = expired c (cn_clock C (rd_ticks s))\<rparr>), s\<lparr>rd_ticks := Suc (rd_ticks s)\<rparr>)"
  using assms healthyD(2) [OF assms(1), of "''lock_control''"]
  by (simp add: one_def lock_control_sql_def read_clock_def controls_of_found)

lemma acquire_outcome:
  fixes C s defines "now \<equiv> \<lambda>n. cn_clock C (rd_ticks s + n)"
  assumes h: "healthy C" and ok: "store_ok s" and w: "weekday w = 0"
    and secs: "1 \<le> seconds" "seconds \<le> MAX_LEASE_SECONDS" and run: "(i, w) \<in> run_weeks s"
    and top: "week_token s w < 2 ^ 63 - 1" and mono: "mono (cn_clock C)"
  shows "fst (acquire_week_lease C w i seconds s) = Inr
    (let c = control_or_new s w; c' = grant_row i (now 2) (now 3 + seconds * 1000000) c
     in if wc_owner_run_id c = None then decision w Acquired i c'
        else if expired c (now 0) then decision w Recovered i c'
        else decision w (if wc_owner_run_id c = Some i then AlreadyHeld else Occupied) i c)"
proof -
  let ?c = "control_or_new s w" and ?s = "ensured s w"
  let ?t = "?s\<lparr>rd_ticks := Suc (rd_ticks s)\<rparr>"
  have prep: "prepared C w s = (Inr w, s)" using h w by (simp add: prepared_Inr healthyD)
  have sec: "lease_seconds_guard seconds = Inr seconds" using secs by (simp add: lease_seconds_guard_def)
  have ens: "map_error from_store (ensure_week_control C w) s = (Inr ?c, ?s)"
    using ensure_healthy [OF h ok w] by simp
  note lock = lock_healthy [OF h ensured_ok [OF ok w] find_control_ensured, of i, simplified]
  note start = acquire_week_lease_def bind_cmd_Inr [where m = "prepared C w" and s = s, OF prep] bind_lift sec
    bind_cmd_Inr [where m = "run_for_week C i w" and s = s, OF run_for_week_healthy [OF h ok run]]
    bind_cmd_Inr [where m = "map_error from_store (ensure_week_control C w)" and s = s, OF ens]
  note locked = bind_cmd_Inr [where m = "one C ''lock_control'' (lock_control_sql C w i)" and s = ?s, OF lock]
  have ok': "store_ok ?t" using ensured_ok [OF ok w] by (simp add: store_ok_def)
  have found: "find_control ?t w = Some ?c" by (simp add: find_control_ensured)
  have top': "wc_fencing_token ?c < 2 ^ 63 - 1"
    using top by (simp add: control_or_new_def week_token_def new_control_def split: option.splits)
  show ?thesis
  proof (cases "wc_owner_run_id ?c = None \<or> expired ?c (now 0)")
    case True
    then have "wc_owner_run_id ?c = None \<or> expired ?c (cn_clock C (rd_ticks ?t))"
      using mono expired_later [of ?c "now 0" "cn_clock C (Suc (rd_ticks s))"] by (auto simp: now_def mono_def)
    note grant = grant_healthy [OF h ok' found this top' mono secs(1), of i]
    note granted = bind_cmd_Inr [where m = "one C ''grant_lease'' (grant_lease_sql C w i seconds (wc_fencing_token ?c))"
        and s = ?t, OF grant]
    show ?thesis
      unfolding start using True
      by (auto simp: locked granted now_def Let_def numeral_3_eq_3 numeral_2_eq_2)
  next
    case False
    then show ?thesis unfolding start by (auto simp: locked now_def Let_def)
  qed
qed

text \<open>A grant, on any connection: the row names the run and carries the token of the decision.\<close>

lemma grant_sql_row:
  assumes ok: "store_ok s" and stmt: "grant_lease_sql C w i seconds token s = (Inr rows, t)" and row: "c \<in> set rows"
  shows "find_control t w = Some c \<and> wc_owner_run_id c = Some i"
proof -
  let ?n = "rd_ticks s"
  let ?p = "grantable w token (cn_clock C ?n)"
  let ?f = "grant_row i (cn_clock C (Suc ?n)) (cn_clock C (Suc (Suc ?n)) + seconds * 1000000)"
  have res: "rows = sql_returning ?p ?f (rd_controls s)"
    "t = set_controls (sql_update ?p ?f (rd_controls s)) (s\<lparr>rd_ticks := Suc (Suc (Suc ?n))\<rparr>)"
    using stmt by (auto simp: grant_lease_sql_def read_clock_def Let_def split: if_splits)
  have uniq: "keys_unique wc_week_start (rd_controls s)" using ok by (simp add: store_ok_def)
  show ?thesis
  proof (rule cas_update [of wc_week_start "rd_controls s" ?p w ?f, OF uniq])
    show "\<And>r. ?p r \<Longrightarrow> wc_week_start r = w" "\<And>r. ?p r \<Longrightarrow> wc_week_start (?f r) = w"
      by (simp_all add: grantable_def)
    assume "sql_returning ?p ?f (rd_controls s) = []"
    then show ?thesis using row res(1) by simp
  next
    fix r assume r: "r \<in> set (rd_controls s)" "wc_week_start r = w"
      "sql_update ?p ?f (rd_controls s) = put_row wc_week_start (?f r) (rd_controls s)"
      "sql_returning ?p ?f (rd_controls s) = [?f r]"
    then have "c = ?f r" using row res(1) by simp
    moreover have "find_control t w = Some (?f r)"
      using r unfolding res(2) r(3) by (auto simp: find_control_def find_put_row set_controls_def)
    ultimately show ?thesis by (simp add: grant_row_def)
  qed
qed

lemma acquire_granted:
  assumes ok: "store_ok s" and run: "acquire_week_lease C w i seconds s = (Inr d, t)" and g: "granted d"
  shows "week_owner t w = Some i \<and> ld_fencing_token d = Some (week_token t w)"
proof -
  from run obtain v s1 u s2 c s3 l s4 where
    steps: "prepared C w s = (Inr v, s1)" "run_for_week C i v s1 = (Inr u, s2)"
      "ensure_week_control C v s2 = (Inr c, s3)" "one C ''lock_control'' (lock_control_sql C v i) s3 = (Inr (Some l), s4)"
    and last: "(if \<not> lk_is_free l \<and> \<not> lk_is_expired l
         then return_cmd (decision v (if lk_is_owner l then AlreadyHeld else Occupied) i (lk_row l))
         else
           bind_cmd (one C ''grant_lease'' (grant_lease_sql C v i seconds (wc_fencing_token (lk_row l)))) (\<lambda>row.
           case row of
             None \<Rightarrow> raise_cmd (ConcurrencyError ''transaction_uncertain''
               ''locked lease row was not updated; not treating the week as free'')
           | Some c \<Rightarrow> return_cmd (decision v (if lk_is_free l then Acquired else Recovered) i c))) s4 = (Inr d, t)"
    by (auto simp: acquire_week_lease_def bind_cmd_eq_Inr lease_seconds_guard_def split: option.splits if_splits)
  have s1: "s1 = s" "v = w" "s2 = s" using steps by (auto simp: prepared_Inr dest: run_for_week_Inr)
  have "(change clk)\<^sup>*\<^sup>* s s3" for clk
    using withinD [OF ensure_week_control_within steps(3)] s1 by simp
  moreover have "(change clk)\<^sup>*\<^sup>* s3 s4" for clk
    using withinD [OF within_one [OF lock_control_changes] steps(4)] .
  ultimately have ok4: "store_ok s4" using changes_store_ok ok by blast
  from last g obtain row where
    grant: "one C ''grant_lease'' (grant_lease_sql C w i seconds (wc_fencing_token (lk_row l))) s4 = (Inr (Some row), t)"
    and d: "d = decision w (if lk_is_free l then Acquired else Recovered) i row"
    using s1 by (auto simp: granted_def decision_def bind_cmd_eq_Inr split: if_splits option.splits)
  from grant obtain rows where "grant_lease_sql C w i seconds (wc_fencing_token (lk_row l)) s4 = (Inr rows, t)"
    "row \<in> set rows"
    by (auto simp: one_def split: option.splits prod.splits sum.splits list.splits)
  from grant_sql_row [OF ok4 this] show ?thesis
    using d by (simp add: week_owner_def week_token_def decision_def)
qed

section \<open>Verification\<close>

lemma verify_outcome:
  assumes h: "healthy C" and ok: "store_ok s" and w: "weekday w = 0" and k: "0 \<le> k"
  shows "fst (verify_week_lease C w i k s) = Inr
    (case find_control s w of
       None \<Rightarrow> rejected w i
     | Some c \<Rightarrow> decision w
         (if wc_owner_run_id c = Some i \<and> wc_fencing_token c = k \<and> unexpired c (cn_clock C (rd_ticks s))
          then Verified else Rejected) i c)"
proof -
  have "prepared C w s = (Inr w, s)" using h w by (simp add: prepared_Inr healthyD)
  then show ?thesis
    using k healthyD(2) [OF h, of "''verify_lease''"] controls_of_found [OF ok, of w]
    by (auto simp: verify_week_lease_def bind_cmd_def lease_token_guard_def one_def verify_lease_sql_def
        read_clock_def split: option.splits)
qed

lemma verify_verified:
  assumes ok: "store_ok s" and run: "verify_week_lease C w i k s = (Inr d, t)" and v: "lease_verified d"
  shows "week_owner s w = Some i \<and> week_token s w = k \<and>
    (\<exists>c. find_control s w = Some c \<and> unexpired c (cn_clock C (rd_ticks s)))"
  using run v controls_of_found [OF ok, of w]
  by (auto simp: verify_week_lease_def bind_cmd_eq_Inr prepared_Inr lease_token_guard_def one_def
      verify_lease_sql_def read_clock_def lease_verified_def rejected_def decision_def week_owner_def
      week_token_def split: option.splits prod.splits sum.splits list.splits if_splits)

lemma lease_fencing:
  assumes "store_ok s" and "acquire_week_lease C w a seconds s = (Inr d, s1)" and "granted d"
    and "cn_clock C = clk" and "(store_step clk)\<^sup>*\<^sup>* s1 t"
    and "verify_week_lease C' w b k t = (Inr v, t')" and "lease_verified v"
  shows "\<exists>n. ld_fencing_token d = Some n \<and> (n < k \<or> n = k \<and> a = b)"
proof -
  have s1: "store_ok s1"
    using withinD [OF acquire_within [OF assms(1,4)] assms(2)] changes_store_ok assms(1) by blast
  have steps: "(change clk)\<^sup>*\<^sup>* s1 t" using store_steps_changes [OF assms(5) s1] .
  have t: "store_ok t" using changes_store_ok [OF steps s1] .
  have own: "week_owner s1 w = Some a" "ld_fencing_token d = Some (week_token s1 w)"
    using acquire_granted [OF assms(1-3)] by simp_all
  have ver: "week_owner t w = Some b" "week_token t w = k" using verify_verified [OF t assms(6,7)] by simp_all
  show ?thesis using week_lease.stale_fenced [OF steps s1 own(1) ver(1)] own(2) ver(2) by simp
qed

end
