(* ===== verification/RunOutcomes.thy ===== *)
theory RunOutcomes
  imports LeaseOutcomes
begin

text \<open>
  What the run operations answer: compare-and-set at most once, publications read back, and the
  newest run.
\<close>

lemma update_run_Inr:
  assumes ok: "store_ok s" and run: "update_run C i expected status ch s = (Inr r, t)"
  shows "\<exists>cur. find_run s i = Some cur \<and> rr_status cur = expected \<and> allowed_transition expected status \<and>
    r \<in> set (rd_runs t) \<and> rr_run_id r = i \<and> rr_status r = status \<and> rd_controls t = rd_controls s"
proof -
  from run obtain cur u p where cur: "find_run s i = Some cur"
    and g: "update_guards cur expected status ch = Inr u" and p: "update_parameters cur status ch = Inr p"
    and rows: "update_run_rows C ''update_run'' (\<lambda>r. rr_run_id r = i \<and> rr_status r = expected)
       (set_run_columns p) ''run status changed before the update'' s = (Inr r, t)"
    by (auto simp: update_run_def bind_cmd_eq_Inr require_run_Inr)
  have "rr_status p = status" using update_parameters_Inr [OF p] by simp
  then show ?thesis
    using cur g [unfolded update_guards_Inr] update_run_rows_Inr [OF rows]
    by (auto simp: set_run_columns_def sql_update_def)
qed

lemma update_run_rows_controls: "update_run_rows C op p f m s = (x, t) \<Longrightarrow> rd_controls t = rd_controls s"
  by (auto simp: update_run_rows_def bind_cmd_def execute_def split: option.splits list.splits prod.splits)

lemma require_run_state: "require_run C i s = (x, t) \<Longrightarrow> t = s"
  by (auto simp: require_run_def bind_cmd_def execute_def split: option.splits prod.splits)

lemma update_run_controls: "update_run C i expected status ch s = (x, t) \<Longrightarrow> rd_controls t = rd_controls s"
  by (auto simp: update_run_def bind_cmd_def dest!: update_run_rows_controls require_run_state split: prod.splits sum.splits)

lemma observation_controls: "record_commit_observation C i cr stage code msg s = (x, t) \<Longrightarrow> rd_controls t = rd_controls s"
  by (auto simp: record_commit_observation_def bind_cmd_def dest!: update_run_rows_controls require_run_state
      split: prod.splits sum.splits)

lemma update_run_conflict:
  assumes "healthy C" and "find_run s i = Some cur" and "rr_status cur \<noteq> expected"
  shows "update_run C i expected status ch s =
    (Inl (RunStoreError ''status_conflict'' ''run status no longer matches expected_status''), s)"
  using assms
  by (simp add: update_run_def bind_cmd_def require_run_def execute_def healthyD update_guards_def)

lemma update_once:
  assumes ok: "store_ok s" and first: "update_run C i expected status ch s = (Inr r, t)"
    and clk: "cn_clock C = clk" and later: "(store_step clk)\<^sup>*\<^sup>* t u" and h: "healthy C'"
  shows "fst (update_run C' i expected status' ch' u) =
    Inl (RunStoreError ''status_conflict'' ''run status no longer matches expected_status'')"
proof -
  have t: "store_ok t"
    using withinD [OF update_run_within [OF ok] first] changes_store_ok ok by blast
  from update_run_Inr [OF ok first] have r: "r \<in> set (rd_runs t)" "rr_run_id r = i" "rr_status r = status"
    "allowed_transition expected status" by auto
  obtain r' where r': "r' \<in> set (rd_runs u)" "rr_run_id r' = i"
    "rr_status r' = status \<or> status_rank (rr_status r') < status_rank status"
    using run_history.never_returns [OF guarded_steps [OF later t] r(1)] r(2,3) by auto
  have "status_rank status < status_rank expected" using r(4) by (rule run_history.rank_less)
  then have "rr_status r' \<noteq> expected" using r'(3) by auto
  moreover have "find_run u i = Some r'"
    using keys_unique_find [of rr_run_id "rd_runs u" r'] store_steps_ok [OF later t] r'
    by (simp add: find_run_def store_ok_def)
  ultimately show ?thesis using update_run_conflict [OF h] by simp
qed

section \<open>Publications\<close>

lemma latest_valid_publication_healthy:
  assumes h: "healthy C" and w: "weekday w = 0" and c: "find_control s w = Some c"
    and p: "wc_last_valid_publication_run_id c = Some i" "wc_last_valid_published_at c = Some pub"
    and n: "wc_published_row_count c = Some n" "0 \<le> n" "n \<le> POSTGRES_INTEGER_MAX"
    and tok: "0 \<le> wc_fencing_token c" "wc_fencing_token c \<le> 2 ^ 63 - 1"
  shows "fst (latest_valid_publication C w s) = Inr (Some \<lparr>vp_week_start = w, vp_run_id = i,
    vp_published_at = pub, vp_published_row_count = n, vp_dependency_fingerprint = wc_dependency_fingerprint c,
    vp_rules_version = wc_rules_version c, vp_fencing_token = wc_fencing_token c\<rparr>)"
  using find_control_Some [OF c] h w c p n tok
  by (simp add: latest_valid_publication_def bind_cmd_def execute_def healthyD week_guard_def count_guard_def
      token_guard_def)

lemma find_control_cong: "rd_controls t = rd_controls s \<Longrightarrow> find_control t w = find_control s w"
  by (simp add: find_control_def)

lemma record_valid_publication_step:
  assumes run: "record_valid_publication C w i pub n fp rules s = (Inr c, t)"
  obtains c0 s1 cs where "weekday w = 0" and "0 \<le> n" and "n \<le> POSTGRES_INTEGER_MAX"
    and "ensure_week_control C w s = (Inr c0, s1)"
    and "sql_returning (\<lambda>c. wc_week_start c = w) (publish_row i pub (Some n) fp rules) (rd_controls s1) = c # cs"
    and "t = s1\<lparr>rd_controls := sql_update (\<lambda>c. wc_week_start c = w) (publish_row i pub (Some n) fp rules) (rd_controls s1)\<rparr>"
proof -
  let ?f = "publish_row i pub (Some n) fp rules"
  from run obtain c0 s1 rows where
    w: "weekday w = 0" and n: "0 \<le> n" "n \<le> POSTGRES_INTEGER_MAX" and
    ens: "ensure_week_control C w s = (Inr c0, s1)" and
    rows: "rows = sql_returning (\<lambda>c. wc_week_start c = w) ?f (rd_controls s1)" and
    last: "(case rows of
       [] \<Rightarrow> raise_cmd (RunStoreError ''control_not_found'' ''week control was not updated'')
     | c # _ \<Rightarrow> bind_cmd (lift_result (token_guard (wc_fencing_token c))) (\<lambda>_. return_cmd c))
       (s1\<lparr>rd_controls := sql_update (\<lambda>c. wc_week_start c = w) ?f (rd_controls s1)\<rparr>) = (Inr c, t)"
    by (auto simp: record_valid_publication_def bind_cmd_eq_Inr require_run_Inr execute_Inr Let_def)
  obtain cs where "rows = c # cs" and
    "t = s1\<lparr>rd_controls := sql_update (\<lambda>c. wc_week_start c = w) ?f (rd_controls s1)\<rparr>"
    using last by (cases rows) (auto simp: bind_cmd_eq_Inr)
  then show thesis using that [OF w n ens] rows by simp
qed

lemma record_valid_publication_Inr:
  assumes ok: "store_ok s" and run: "record_valid_publication C w i pub n fp rules s = (Inr c, t)"
  shows "find_control t w = Some c \<and> weekday w = 0 \<and> wc_last_valid_publication_run_id c = Some i \<and>
    wc_last_valid_published_at c = Some pub \<and> wc_published_row_count c = Some n \<and> 0 \<le> n \<and>
    n \<le> POSTGRES_INTEGER_MAX \<and> wc_dependency_fingerprint c = fp \<and> wc_rules_version c = rules"
proof -
  obtain c0 s1 cs where w: "weekday w = 0" and n: "0 \<le> n" "n \<le> POSTGRES_INTEGER_MAX" and
    ens: "ensure_week_control C w s = (Inr c0, s1)" and
    rows: "sql_returning (\<lambda>c. wc_week_start c = w) (publish_row i pub (Some n) fp rules) (rd_controls s1) = c # cs" and
    t: "t = s1\<lparr>rd_controls := sql_update (\<lambda>c. wc_week_start c = w) (publish_row i pub (Some n) fp rules) (rd_controls s1)\<rparr>"
    by (rule record_valid_publication_step [OF run])
  have "store_ok s1" for clk :: "nat \<Rightarrow> time"
    using withinD [OF ensure_week_control_within ens, of clk] changes_store_ok ok by blast
  then have uniq: "keys_unique wc_week_start (rd_controls s1)" by (simp add: store_ok_def)
  show ?thesis
  proof (rule cas_update [of wc_week_start "rd_controls s1" "\<lambda>c. wc_week_start c = w" w
        "publish_row i pub (Some n) fp rules", OF uniq])
    fix x assume x: "x \<in> set (rd_controls s1)" "wc_week_start x = w"
      "sql_update (\<lambda>c. wc_week_start c = w) (publish_row i pub (Some n) fp rules) (rd_controls s1) =
        put_row wc_week_start (publish_row i pub (Some n) fp rules x) (rd_controls s1)"
      "sql_returning (\<lambda>c. wc_week_start c = w) (publish_row i pub (Some n) fp rules) (rd_controls s1) =
        [publish_row i pub (Some n) fp rules x]"
    then have "c = publish_row i pub (Some n) fp rules x" using rows by simp
    moreover have "find_control t w = Some (publish_row i pub (Some n) fp rules x)"
      unfolding t x(3) find_control_def using x(1,2) by (auto simp: find_put_row)
    ultimately show ?thesis using w n by (simp add: publish_row_def)
  qed (use rows in simp_all)
qed

text \<open>The operations on the week controls leave the run history alone.\<close>

lemma ensure_week_control_state:
  "ensure_week_control C w s = (x, t) \<Longrightarrow> rd_runs t = rd_runs s \<and>
   (find_control s w \<noteq> None \<longrightarrow> rd_controls t = rd_controls s)"
  by (auto simp: ensure_week_control_def get_week_control_def bind_cmd_def execute_def find_control_def find_None_iff
      week_guard_def split: option.splits prod.splits sum.splits if_splits)

lemma record_valid_publication_runs: "record_valid_publication C w i pub n fp rules s = (x, t) \<Longrightarrow> rd_runs t = rd_runs s"
  by (auto simp: record_valid_publication_def bind_cmd_def execute_def Let_def
      dest!: ensure_week_control_state require_run_state split: option.splits prod.splits sum.splits list.splits)

lemma one_runs: "one C op stmt s = (x, t) \<Longrightarrow> (\<And>a u. stmt s = (a, u) \<Longrightarrow> rd_runs u = rd_runs s) \<Longrightarrow> rd_runs t = rd_runs s"
  by (auto simp: one_def split: option.splits prod.splits sum.splits list.splits)

lemma one_Some: "one C op stmt s = (Inr (Some r), t) \<longleftrightarrow> cn_error C op = None \<and> stmt s = (Inr [r], t)"
  by (auto simp: one_def split: option.splits prod.splits sum.splits list.splits)

lemma prepared_state: "prepared C w s = (x, t) \<Longrightarrow> t = s"
  by (auto simp: prepared_def map_error_def bind_cmd_def split: prod.splits sum.splits)

lemma verify_week_lease_runs: "verify_week_lease C w i k s = (x, t) \<Longrightarrow> rd_runs t = rd_runs s \<and> rd_controls t = rd_controls s"
  by (auto simp: verify_week_lease_def bind_cmd_def one_def verify_lease_sql_def read_clock_def
      dest!: prepared_state split: option.splits prod.splits sum.splits list.splits)

lemma release_week_lease_runs: "release_week_lease C w i k s = (x, t) \<Longrightarrow> rd_runs t = rd_runs s"
  by (auto simp: release_week_lease_def bind_cmd_def one_def release_lease_sql_def set_controls_def
      dest!: prepared_state split: option.splits prod.splits sum.splits list.splits)

lemma record_valid_publication_row:
  assumes ok: "store_ok s" and c: "find_control s w = Some c"
    and run: "record_valid_publication C w i pub n fp rules s = (Inr x, t)"
  shows "rd_controls t = put_row wc_week_start (publish_row i pub (Some n) fp rules c) (rd_controls s)"
proof -
  let ?f = "publish_row i pub (Some n) fp rules"
  obtain c0 s1 where ens: "ensure_week_control C w s = (Inr c0, s1)" and
    t: "t = s1\<lparr>rd_controls := sql_update (\<lambda>c. wc_week_start c = w) ?f (rd_controls s1)\<rparr>"
    by (rule record_valid_publication_step [OF run])
  have s1: "rd_controls s1 = rd_controls s" using ensure_week_control_state [OF ens] c by simp
  have uniq: "keys_unique wc_week_start (rd_controls s)" using ok by (simp add: store_ok_def)
  have "sql_update (\<lambda>c. wc_week_start c = w) ?f (rd_controls s) = put_row wc_week_start (?f c) (rd_controls s)"
  proof (rule cas_update [of wc_week_start "rd_controls s" "\<lambda>c. wc_week_start c = w" w ?f, OF uniq])
    fix r assume "r \<in> set (rd_controls s)" "wc_week_start r = w"
      "sql_update (\<lambda>c. wc_week_start c = w) ?f (rd_controls s) = put_row wc_week_start (?f r) (rd_controls s)"
    then show ?thesis using find_control_iff [OF ok, of w r] c by simp
  qed (use find_control_Some [OF c] in auto)
  then show ?thesis using t s1 by simp
qed

lemma release_week_lease_row:
  assumes ok: "store_ok s" and c: "find_control s w = Some c"
    and run: "release_week_lease C w i k s = (Inr d, t)" and d: "ld_status d = Released"
  shows "rd_controls t = put_row wc_week_start (release_row c) (rd_controls s) \<and> held w i k c"
proof -
  from run obtain row where row: "one C ''release_lease'' (release_lease_sql C w i k) s = (Inr row, t)"
    and res: "d = (case row of None \<Rightarrow> rejected w i
       | Some c \<Rightarrow> (decision w Released i c)\<lparr>ld_owner_run_id := None, ld_lease_expires_at := None\<rparr>)"
    by (auto simp: release_week_lease_def bind_cmd_eq_Inr prepared_Inr lease_token_guard_def split: if_splits)
  then obtain x where "row = Some x" using d by (cases row) (auto simp: rejected_def)
  with row have "sql_returning (held w i k) release_row (rd_controls s) = [x]"
    and t: "rd_controls t = sql_update (held w i k) release_row (rd_controls s)"
    by (auto simp: one_Some release_lease_sql_def set_controls_def)
  moreover have uniq: "keys_unique wc_week_start (rd_controls s)" using ok by (simp add: store_ok_def)
  ultimately obtain r where r: "r \<in> set (rd_controls s)" "held w i k r"
      "sql_update (held w i k) release_row (rd_controls s) = put_row wc_week_start (release_row r) (rd_controls s)"
    using cas_update [of wc_week_start "rd_controls s" "held w i k" w release_row]
    by (metis control_rows_week(1) held_def list.distinct(1))
  then have "r = c" using find_control_iff [OF ok, of w r] c by (simp add: held_def)
  then show ?thesis using r t by simp
qed

lemma publication_kept:
  assumes ok: "store_ok s" and rec: "record_valid_publication C w i pub n fp rules s = (Inr c, t)"
    and upd: "update_run C1 j expected status ch t = (res, u)" and h: "healthy C2"
  shows "fst (latest_valid_publication C2 w u) = Inr (Some \<lparr>vp_week_start = w, vp_run_id = i,
    vp_published_at = pub, vp_published_row_count = n, vp_dependency_fingerprint = fp,
    vp_rules_version = rules, vp_fencing_token = wc_fencing_token c\<rparr>)"
proof -
  note r = record_valid_publication_Inr [OF ok rec]
  have t: "store_ok t" for clk :: "nat \<Rightarrow> time"
    using withinD [OF record_valid_publication_within [OF ok] rec, of clk] changes_store_ok ok by blast
  have "rd_controls u = rd_controls t" using update_run_controls [OF upd] .
  then have c: "find_control u w = Some c" using r find_control_cong [of u t w] by simp
  have "control_row_ok (run_weeks t) c" using t r by (auto simp: store_ok_def dest!: find_control_Some)
  then have "0 \<le> wc_fencing_token c" "wc_fencing_token c \<le> 2 ^ 63 - 1" by (simp_all add: control_row_ok_def)
  from latest_valid_publication_healthy [OF h _ c _ _ _ _ _ this] r show ?thesis by auto
qed

section \<open>The newest run\<close>

lemma sort_key_last:
  assumes "sort_key f rows \<noteq> []" and "x \<in> set rows"
  shows "f x \<le> f (last (sort_key f rows))"
proof -
  have "sorted (map f (sort_key f rows))" by simp
  moreover have "f x \<in> set (map f (sort_key f rows))" using assms(2) by simp
  ultimately have "f x \<le> last (map f (sort_key f rows))"
    by (metis append_butlast_last_id empty_iff in_set_conv_nth last_conv_nth length_map less_Suc_eq_le
        list.set(1) One_nat_def Suc_pred length_greater_0_conv sorted_nth_mono diff_less zero_less_one)
  then show ?thesis using assms(1) by (simp add: last_map)
qed

lemma if_SomeD: "(if b then None else Some x) = Some y \<Longrightarrow> \<not> b \<and> y = x"
  by (simp split: if_splits)

lemma latest_run_max:
  assumes "latest_run C name week s = (Inr (Some r), t)"
  shows "r \<in> set (rd_runs s) \<and> rr_pipeline_name r = name \<and> (week = None \<or> week = Some (rr_target_week_start r)) \<and>
    (\<forall>x \<in> set (rd_runs s). rr_pipeline_name x = name \<longrightarrow> (week = None \<or> week = Some (rr_target_week_start x)) \<longrightarrow>
      (rr_started_at x, rr_run_id x) \<le> (rr_started_at r, rr_run_id r))"
proof -
  let ?q = "\<lambda>r. rr_pipeline_name r = name \<and> (week = None \<or> week = Some (rr_target_week_start r))"
  let ?rows = "sort_key (\<lambda>r. (rr_started_at r, rr_run_id r)) (filter ?q (rd_runs s))"
  have "newest_run name week s = Some r"
    using assms
    by (cases week) (clarsimp simp: latest_run_def bind_cmd_eq_Inr execute_Inr bind_result_Inr)+
  note newest = this [unfolded newest_run_def Let_def, THEN if_SomeD]
  note ne = newest [THEN conjunct1] and r = newest [THEN conjunct2]
  have "r \<in> set ?rows" unfolding r by (rule last_in_set [OF ne])
  then have "r \<in> set (rd_runs s) \<and> ?q r" by (simp only: set_sort set_filter mem_Collect_eq)
  moreover have "(rr_started_at x, rr_run_id x) \<le> (rr_started_at r, rr_run_id r)"
    if "x \<in> set (rd_runs s)" "?q x" for x
    unfolding r using that by (intro sort_key_last [OF ne]) (simp only: set_filter mem_Collect_eq simp_thms)
  ultimately show ?thesis by blast
qed

end
