(* ===== verification/RunDemo.thy ===== *)
theory RunDemo
  imports RunOutcomes
begin

text \<open>
  A concrete run of the operational store: two runs of one week, the first of which takes the
  lease, publishes and finishes. The clock gives one second to each reading.
\<close>

definition demo_conn :: conn where
  "demo_conn = \<lparr>cn_autocommit = False, cn_dialect = Some ''postgresql'', cn_in_transaction = True,
     cn_clock = (\<lambda>n. int n * 1000000), cn_error = (\<lambda>_. None)\<rparr>"

definition demo_clk :: "nat \<Rightarrow> time" where
  "demo_clk = cn_clock demo_conn"

definition empty_store :: run_db where
  "empty_store = \<lparr>rd_runs = [], rd_controls = [], rd_ticks = 0\<rparr>"

definition demo_run :: "uuid \<Rightarrow> run_db \<Rightarrow> run_db" where
  "demo_run i s = snd (create_run demo_conn i 4 ''manual'' WEEKLY_PIPELINE_NAME None None None None None s)"

definition demo_two :: run_db where
  "demo_two = demo_run 2 (demo_run 1 empty_store)"

definition demo_running :: run_db where
  "demo_running = snd (update_run demo_conn 1 ''pending'' ''running'' no_changes demo_two)"

definition demo_held :: run_db where
  "demo_held = snd (acquire_week_lease demo_conn 4 1 60 demo_running)"

definition demo_published :: run_db where
  "demo_published = snd (record_valid_publication demo_conn 4 1 9000000 3 None (Some ''v1'') demo_held)"

definition demo_finish :: run_changes where
  "demo_finish = no_changes\<lparr>ch_finished_at := Some 99000000, ch_commit_result := Some ''technically_observed''\<rparr>"

definition demo_finished :: run_db where
  "demo_finished = snd (update_run demo_conn 1 ''running'' ''succeeded'' demo_finish demo_published)"

lemma demo_weeks: "weekday 4 = 0" "demo_clk 0 = 0"
  by code_simp+

lemma demo_two_runs: "map (\<lambda>r. (rr_run_id r, rr_status r)) (rd_runs demo_two) = [(1, ''pending''), (2, ''pending'')]"
  by code_simp

lemma demo_running_runs:
  "map (\<lambda>r. (rr_run_id r, rr_target_week_start r, rr_status r)) (rd_runs demo_running) =
     [(1, 4, ''running''), (2, 4, ''pending'')]"
  "rd_controls demo_running = []"
  by code_simp+

lemma demo_update_fst:
  "(case fst (update_run demo_conn 1 ''pending'' ''running'' no_changes demo_two) of
      Inl _ \<Rightarrow> False | Inr r \<Rightarrow> rr_run_id r = 1 \<and> rr_status r = ''running'')"
  by code_simp

lemma demo_acquire_fst:
  "(case fst (acquire_week_lease demo_conn 4 1 60 demo_running) of
      Inl _ \<Rightarrow> False | Inr d \<Rightarrow> granted d \<and> ld_fencing_token d = Some 1)"
  by code_simp

lemma demo_held_row:
  "map (\<lambda>c. (wc_week_start c, wc_owner_run_id c, wc_fencing_token c)) (rd_controls demo_held) = [(4, Some 1, 1)]"
  by code_simp

lemma demo_held_runs:
  "map (\<lambda>r. (rr_run_id r, rr_target_week_start r)) (rd_runs demo_held) = [(1, 4), (2, 4)]"
  by code_simp

lemma demo_occupied:
  "wc_owner_run_id (control_or_new demo_held 4) = Some 1" "wc_fencing_token (control_or_new demo_held 4) = 1"
  "expired (control_or_new demo_held 4) (cn_clock demo_conn (rd_ticks demo_held)) = False"
  "week_token demo_held 4 = 1"
  by code_simp+

lemma demo_verify_fst:
  "(case fst (verify_week_lease demo_conn 4 1 1 demo_held) of Inl _ \<Rightarrow> False | Inr d \<Rightarrow> lease_verified d)"
  by code_simp

lemma demo_publish_fst:
  "(case fst (record_valid_publication demo_conn 4 1 9000000 3 None (Some ''v1'') demo_held) of
      Inl _ \<Rightarrow> False | Inr c \<Rightarrow> wc_fencing_token c = 1)"
  by code_simp

lemma demo_finished_runs:
  "map (\<lambda>r. (rr_run_id r, rr_status r, rr_finished_at r)) (rd_runs demo_finished) =
     [(1, ''succeeded'', Some 99000000), (2, ''pending'', None)]"
  by code_simp

lemma demo_latest_fst:
  "(case fst (latest_run demo_conn WEEKLY_PIPELINE_NAME None demo_finished) of
      Inr (Some r) \<Rightarrow> rr_run_id r = 2 | _ \<Rightarrow> False)"
  by code_simp

lemma demo_healthy: "healthy demo_conn"
  by (simp add: healthy_def demo_conn_def require_transaction_def)

lemma demo_clock: "cn_clock demo_conn = demo_clk" "mono demo_clk"
  by (simp_all add: demo_clk_def demo_conn_def mono_def)

lemma demo_held_weeks: "run_weeks demo_held = {(1, 4), (2, 4)}"
proof -
  have "run_weeks demo_held = set (map (\<lambda>r. (rr_run_id r, rr_target_week_start r)) (rd_runs demo_held))"
    by (simp add: run_weeks_def)
  then show ?thesis unfolding demo_held_runs by simp
qed

lemma empty_store_ok: "store_ok empty_store"
  by (simp add: empty_store_def store_ok_def)

lemma demo_run_step: "store_step demo_clk s (demo_run i s)"
  unfolding demo_run_def by (rule st_create [OF demo_clock(1)], rule prod.collapse [symmetric])

lemma demo_steps:
  "(store_step demo_clk)\<^sup>*\<^sup>* empty_store demo_two" "(store_step demo_clk)\<^sup>*\<^sup>* empty_store demo_running"
  "(store_step demo_clk)\<^sup>*\<^sup>* empty_store demo_held" "(store_step demo_clk)\<^sup>*\<^sup>* empty_store demo_published"
  "(store_step demo_clk)\<^sup>*\<^sup>* demo_published demo_finished"
proof -
  show two: "(store_step demo_clk)\<^sup>*\<^sup>* empty_store demo_two"
    unfolding demo_two_def by (rule rtranclp.rtrancl_into_rtrancl, rule r_into_rtranclp) (rule demo_run_step)+
  have "store_step demo_clk demo_two demo_running"
    unfolding demo_running_def by (rule st_update [OF demo_clock(1)], rule prod.collapse [symmetric])
  then show running: "(store_step demo_clk)\<^sup>*\<^sup>* empty_store demo_running"
    using two by (rule rtranclp.rtrancl_into_rtrancl [rotated])
  have "store_step demo_clk demo_running demo_held"
    unfolding demo_held_def by (rule st_acquire [OF demo_clock(1)], rule prod.collapse [symmetric])
  then show held: "(store_step demo_clk)\<^sup>*\<^sup>* empty_store demo_held"
    using running by (rule rtranclp.rtrancl_into_rtrancl [rotated])
  have "store_step demo_clk demo_held demo_published"
    unfolding demo_published_def by (rule st_publish [OF demo_clock(1)], rule prod.collapse [symmetric])
  then show "(store_step demo_clk)\<^sup>*\<^sup>* empty_store demo_published"
    using held by (rule rtranclp.rtrancl_into_rtrancl [rotated])
  have "store_step demo_clk demo_published demo_finished"
    unfolding demo_finished_def by (rule st_update [OF demo_clock(1)], rule prod.collapse [symmetric])
  then show "(store_step demo_clk)\<^sup>*\<^sup>* demo_published demo_finished" by simp
qed

lemma demo_forward: "(store_step demo_clk)\<^sup>*\<^sup>* demo_running demo_finished"
proof -
  have "store_step demo_clk demo_running demo_held"
    unfolding demo_held_def by (rule st_acquire [OF demo_clock(1)], rule prod.collapse [symmetric])
  moreover have "store_step demo_clk demo_held demo_published"
    unfolding demo_published_def by (rule st_publish [OF demo_clock(1)], rule prod.collapse [symmetric])
  ultimately show ?thesis using demo_steps(5) by (meson converse_rtranclp_into_rtranclp)
qed

lemma demo_stores_ok: "store_ok demo_two" "store_ok demo_running" "store_ok demo_held" "store_ok demo_published"
  using store_steps_ok [OF _ empty_store_ok] demo_steps by blast+

lemma fst_caseE:
  assumes "(case fst p of Inl _ \<Rightarrow> False | Inr v \<Rightarrow> P v)"
  obtains v where "p = (Inr v, snd p)" and "P v"
  using assms that by (cases p) (auto split: sum.splits)

end
