(* ===== verification/RunProperties.thy ===== *)
theory RunProperties
  imports RunDemo
begin

text \<open>
  The properties of the operational store and of the week leases, each with a witness on the run of
  \<open>RunDemo\<close>.
\<close>

section \<open>The run history\<close>

text \<open>
  C19. Every state of the operational store that sessions reach from an empty one, by any sequence
  of operations, accepted or refused, on any connections, is well formed: keys are unique, a run is
  finished exactly in a terminal status, a blocked run has its reason and a failed one its code,
  counters are PostgreSQL integers, and every lease and publication pointer names a run of its week.
\<close>

theorem run_store_wellformed:
  assumes "(store_step clk)\<^sup>*\<^sup>* empty_store s"
  shows "store_ok s"
  using store_steps_ok [OF assms empty_store_ok] .

theorem run_store_wellformed_witness: "store_ok demo_held \<and> rd_controls demo_held \<noteq> []"
  using run_store_wellformed [OF demo_steps(3)] demo_held_row by auto

text \<open>
  C20. Terminal history is immutable: a run in a terminal status keeps its row, column for column,
  whatever operations follow.
\<close>

theorem terminal_run_immutable:
  assumes "(store_step clk)\<^sup>*\<^sup>* s t" and "store_ok s" and "r \<in> set (rd_runs s)"
    and "rr_status r \<in> set TERMINAL_STATUSES"
  shows "r \<in> set (rd_runs t)"
  by (rule terminal_runs_kept [OF assms])

theorem terminal_run_immutable_witness:
  "\<exists>r. rr_status r = ''succeeded'' \<and> r \<in> set (rd_runs (demo_run 3 demo_finished))"
proof -
  have r: "hd (rd_runs demo_finished) \<in> set (rd_runs demo_finished)"
    "rr_status (hd (rd_runs demo_finished)) = ''succeeded''"
    using demo_finished_runs by (cases "rd_runs demo_finished"; auto)+
  have step: "(store_step demo_clk)\<^sup>*\<^sup>* demo_finished (demo_run 3 demo_finished)" using demo_run_step by blast
  have ok: "store_ok demo_finished" using store_steps_ok [OF demo_steps(5) demo_stores_ok(4)] .
  show ?thesis
    using terminal_run_immutable [OF step ok r(1)] r(2) by (auto simp: terminal_statuses)
qed

text \<open>
  C21. A run changes status along the allowed transitions only, and at most twice from pending and
  once from running, so every run settles.
\<close>

theorem run_status_changes_bounded:
  assumes "(store_step clk)\<^sup>*\<^sup>* s t" and "store_ok s" and "r \<in> set (rd_runs s)"
  shows "\<exists>r' \<in> set (rd_runs t). rr_run_id r' = rr_run_id r \<and>
    (\<exists>n \<le> status_rank (rr_status r). (allowed_transition ^^ n) (rr_status r) (rr_status r'))"
  by (rule run_status_path [OF assms])

theorem run_status_changes_bounded_witness:
  "\<exists>r' \<in> set (rd_runs demo_finished). rr_run_id r' = 1 \<and>
     (\<exists>n \<le> 1. (allowed_transition ^^ n) ''running'' (rr_status r'))"
proof -
  have r: "hd (rd_runs demo_running) \<in> set (rd_runs demo_running)"
    "rr_run_id (hd (rd_runs demo_running)) = 1" "rr_status (hd (rd_runs demo_running)) = ''running''"
    using demo_running_runs by (cases "rd_runs demo_running"; auto)+
  have "(store_step demo_clk)\<^sup>*\<^sup>* demo_running demo_finished"
    using demo_forward .
  from run_status_changes_bounded [OF this demo_stores_ok(2) r(1)] show ?thesis
    unfolding r(2,3) by (simp add: status_rank.simps)
qed

text \<open>
  A status is left once: after an update of a run from a status has succeeded, no later update
  from the same status can succeed, by whatever session and after whatever operations; it is told
  that the status no longer matches.
\<close>

theorem status_left_once:
  assumes "store_ok s" and "update_run C i expected status ch s = (Inr r, t)" and "cn_clock C = clk"
    and "(store_step clk)\<^sup>*\<^sup>* t u" and "healthy C'"
  shows "fst (update_run C' i expected status' ch' u) =
    Inl (RunStoreError ''status_conflict'' ''run status no longer matches expected_status'')"
  by (rule update_once [OF assms])

theorem status_left_once_witness:
  "fst (update_run demo_conn 1 ''pending'' ''superseded'' demo_finish demo_held) =
     Inl (RunStoreError ''status_conflict'' ''run status no longer matches expected_status'')"
proof -
  obtain r where "update_run demo_conn 1 ''pending'' ''running'' no_changes demo_two = (Inr r, demo_running)"
    using demo_update_fst unfolding demo_running_def by (rule fst_caseE)
  moreover have "(store_step demo_clk)\<^sup>*\<^sup>* demo_running demo_held"
    unfolding demo_held_def
    by (intro r_into_rtranclp st_acquire [OF demo_clock(1)]) (rule prod.collapse [symmetric])
  ultimately show ?thesis
    by (rule status_left_once [OF demo_stores_ok(1) _ demo_clock(1) _ demo_healthy])
qed

text \<open>
  No credential is stored: in every reachable state the texts a run row holds contain none of
  the secret markers, in any letter case, are not blank and stay within their length.
\<close>

theorem no_secret_stored:
  assumes "(store_step clk)\<^sup>*\<^sup>* empty_store s" and "r \<in> set (rd_runs s)"
    and "v \<in> {rr_stage_reached r, rr_error_code r, rr_error_message r, rr_block_reason r,
      rr_prefect_flow_run_id r, rr_prefect_task_run_id r, Some (rr_trigger_type r)}" and "v = Some x"
  shows "list_all (\<lambda>m. \<not> occurs_in m (py_lower x)) SECRET_MARKERS \<and> \<not> blank x \<and> length x \<le> 500"
proof -
  have "run_texts_ok r"
    using store_steps_ok [OF assms(1) empty_store_ok] assms(2) by (simp add: store_ok_def run_row_ok_def)
  then have "text_ok 128 v \<or> text_ok 500 v" using assms(3) by (auto simp: run_texts_ok_def simp del: text_ok_simps)
  then have "text_ok 500 v" by (auto intro: text_ok_mono)
  then show ?thesis using assms(4) by (auto simp: carries_secret_def list_all_iff list_ex_iff)
qed

theorem no_secret_stored_witness:
  "list_all (\<lambda>m. \<not> occurs_in m (py_lower (rr_trigger_type (hd (rd_runs demo_held))))) SECRET_MARKERS"
proof -
  have "hd (rd_runs demo_held) \<in> set (rd_runs demo_held)" using demo_held_runs by (cases "rd_runs demo_held") auto
  from no_secret_stored [OF demo_steps(3) this _ refl] show ?thesis by simp
qed

text \<open>
  C23. A recorded publication is read back as it was recorded, and an update of any run, such as a
  later failure, leaves it in place.
\<close>

theorem publication_read_back:
  assumes "store_ok s" and "record_valid_publication C w i pub n fp rules s = (Inr c, t)"
    and "update_run C1 j expected status ch t = (res, u)" and "healthy C2"
  shows "fst (latest_valid_publication C2 w u) = Inr (Some \<lparr>vp_week_start = w, vp_run_id = i,
    vp_published_at = pub, vp_published_row_count = n, vp_dependency_fingerprint = fp,
    vp_rules_version = rules, vp_fencing_token = wc_fencing_token c\<rparr>)"
  by (rule publication_kept [OF assms])

theorem publication_read_back_witness:
  "fst (latest_valid_publication demo_conn 4 demo_finished) = Inr (Some \<lparr>vp_week_start = 4, vp_run_id = 1,
     vp_published_at = 9000000, vp_published_row_count = 3, vp_dependency_fingerprint = None,
     vp_rules_version = Some ''v1'', vp_fencing_token = 1\<rparr>)"
proof -
  obtain c where c: "record_valid_publication demo_conn 4 1 9000000 3 None (Some ''v1'') demo_held = (Inr c, demo_published)"
    "wc_fencing_token c = 1"
    using demo_publish_fst unfolding demo_published_def by (rule fst_caseE)
  have "update_run demo_conn 1 ''running'' ''succeeded'' demo_finish demo_published =
      (fst (update_run demo_conn 1 ''running'' ''succeeded'' demo_finish demo_published), demo_finished)"
    by (simp add: demo_finished_def)
  from publication_read_back [OF demo_stores_ok(3) c(1) this demo_healthy] show ?thesis using c(2) by simp
qed

section \<open>The week leases\<close>

text \<open>
  C25. The answer of an acquisition is a function of the control row: a week without owner is
  acquired, an expired lease is recovered, each under a new token and a new expiry, and a live lease
  is left as it is and reported as already held or occupied.
\<close>

theorem acquire_answer:
  assumes "healthy C" and "store_ok s" and "weekday w = 0" and "1 \<le> seconds" and "seconds \<le> MAX_LEASE_SECONDS"
    and "(i, w) \<in> run_weeks s" and "week_token s w < 2 ^ 63 - 1" and "mono (cn_clock C)"
  shows "fst (acquire_week_lease C w i seconds s) = Inr
    (let c = control_or_new s w; now = (\<lambda>n. cn_clock C (rd_ticks s + n));
         c' = grant_row i (now 2) (now 3 + seconds * 1000000) c
     in if wc_owner_run_id c = None then decision w Acquired i c'
        else if expired c (now 0) then decision w Recovered i c'
        else decision w (if wc_owner_run_id c = Some i then AlreadyHeld else Occupied) i c)"
  using acquire_outcome [OF assms] by (simp add: Let_def)

theorem acquire_answer_witness:
  "\<exists>d. fst (acquire_week_lease demo_conn 4 2 60 demo_held) = Inr d \<and> ld_status d = Occupied \<and>
     ld_owner_run_id d = Some 1 \<and> ld_fencing_token d = Some 1"
proof -
  have "(2, 4) \<in> run_weeks demo_held" by (simp add: demo_held_weeks)
  from acquire_answer [OF demo_healthy demo_stores_ok(3) demo_weeks(1) _ _ this, of 60] show ?thesis
    using demo_occupied demo_clock by (simp add: MAX_LEASE_SECONDS_def decision_def Let_def)
qed

text \<open>
  C26. Fencing: whoever is verified after a grant holds a larger token than that grant, or the same
  token and is its run. A holder that lost its week, even one that never noticed, is never verified
  again with its old token.
\<close>

theorem stale_holder_fenced:
  assumes "store_ok s" and "acquire_week_lease C w a seconds s = (Inr d, s1)" and "granted d"
    and "cn_clock C = clk" and "(store_step clk)\<^sup>*\<^sup>* s1 t"
    and "verify_week_lease C' w b k t = (Inr v, t')" and "lease_verified v"
  shows "\<exists>n. ld_fencing_token d = Some n \<and> (n < k \<or> n = k \<and> a = b)"
  by (rule lease_fencing [OF assms])

theorem stale_holder_fenced_witness:
  "\<exists>d n. fst (acquire_week_lease demo_conn 4 1 60 demo_running) = Inr d \<and> ld_fencing_token d = Some n \<and>
     (n < 1 \<or> n = 1 \<and> (1 :: uuid) = 1)"
proof -
  obtain d where d: "acquire_week_lease demo_conn 4 1 60 demo_running = (Inr d, demo_held)"
    "granted d \<and> ld_fencing_token d = Some 1"
    using demo_acquire_fst unfolding demo_held_def by (rule fst_caseE)
  obtain v where v: "verify_week_lease demo_conn 4 1 1 demo_held =
      (Inr v, snd (verify_week_lease demo_conn 4 1 1 demo_held))" "lease_verified v"
    using demo_verify_fst by (rule fst_caseE)
  from stale_holder_fenced [OF demo_stores_ok(2) d(1) _ demo_clock(1) rtranclp.rtrancl_refl v] d show ?thesis by auto
qed

end
