(* ===== verification/Regex.thy ===== *)
theory Regex
  imports Prelude
begin

text \<open>
  The part of Python's \<open>re\<close> the diagnostics code uses: backtracking matching of classes,
  sequences, alternatives, greedy repetition, word boundaries and one capture group, \<open>search\<close>,
  \<open>fullmatch\<close> and \<open>sub\<close> for patterns that never match the empty string. The results of a match
  are listed in the order the backtracking tries them, each with the text consumed, the capture and
  the rest.
\<close>

datatype rx =
    Cls "char \<Rightarrow> bool"
  | Eps
  | Cat rx rx
  | Or rx rx
  | Many rx
  | Boundary
  | Group rx

text \<open>\<open>\w\<close> of a \<open>str\<close> pattern: \<open>isalnum\<close> and the underscore, over the characters below 256.\<close>

definition py_word :: "char \<Rightarrow> bool" where
  "py_word c \<longleftrightarrow>
     (let n = of_char c :: int in
      48 \<le> n \<and> n \<le> 57 \<or> 65 \<le> n \<and> n \<le> 90 \<or> n = 95 \<or> 97 \<le> n \<and> n \<le> 122 \<or>
      n \<in> {170, 178, 179, 181, 185, 186, 188, 189, 190} \<or> 192 \<le> n \<and> n \<noteq> 215 \<and> n \<noteq> 247)"

definition at_boundary :: "char option \<Rightarrow> string \<Rightarrow> bool" where
  "at_boundary p s \<longleftrightarrow>
     (case p of None \<Rightarrow> False | Some c \<Rightarrow> py_word c) \<noteq> (case s of [] \<Rightarrow> False | c # _ \<Rightarrow> py_word c)"

definition last_char :: "char option \<Rightarrow> string \<Rightarrow> char option" where
  "last_char p u = (if u = [] then p else Some (last u))"

function rx_match :: "rx \<Rightarrow> char option \<Rightarrow> string \<Rightarrow> (string \<times> string option \<times> string) list" where
  "rx_match (Cls P) p s = (case s of [] \<Rightarrow> [] | c # t \<Rightarrow> if P c then [([c], None, t)] else [])"
| "rx_match Eps p s = [([], None, s)]"
| "rx_match (Cat a b) p s = concat (map (\<lambda>(u, g, t).
     map (\<lambda>(v, h, t'). (u @ v, if h = None then g else h, t')) (rx_match b (last_char p u) t)) (rx_match a p s))"
| "rx_match (Or a b) p s = rx_match a p s @ rx_match b p s"
| "rx_match (Many a) p s = concat (map (\<lambda>(u, g, t).
     if length t < length s
     then map (\<lambda>(v, h, t'). (u @ v, if h = None then g else h, t')) (rx_match (Many a) (last_char p u) t)
     else []) (rx_match a p s)) @ [([], None, s)]"
| "rx_match Boundary p s = (if at_boundary p s then [([], None, s)] else [])"
| "rx_match (Group a) p s = map (\<lambda>(u, g, t). (u, Some u, t)) (rx_match a p s)"
  by pat_completeness auto
termination by (relation "measures [\<lambda>(r, p, s). size r, \<lambda>(r, p, s). length s]") auto

fun rx_search :: "rx \<Rightarrow> char option \<Rightarrow> string \<Rightarrow> bool" where
  "rx_search r p [] \<longleftrightarrow> rx_match r p [] \<noteq> []"
| "rx_search r p (c # s) \<longleftrightarrow> rx_match r p (c # s) \<noteq> [] \<or> rx_search r (Some c) s"

definition rx_fullmatch :: "rx \<Rightarrow> string \<Rightarrow> bool" where
  "rx_fullmatch r s \<longleftrightarrow> list_ex (\<lambda>(u, g, t). t = []) (rx_match r None s)"

function rx_sub :: "rx \<Rightarrow> (string \<Rightarrow> string option \<Rightarrow> string) \<Rightarrow> char option \<Rightarrow> string \<Rightarrow> string" where
  "rx_sub r f p [] = []"
| "rx_sub r f p (c # s) =
     (case rx_match r p (c # s) of
        (u, g, t) # _ \<Rightarrow>
          if length t < length (c # s) then f u g @ rx_sub r f (last_char p u) t
          else c # rx_sub r f (Some c) s
      | [] \<Rightarrow> c # rx_sub r f (Some c) s)"
  by pat_completeness auto
termination by (relation "measure (\<lambda>(r, f, p, s). length s)") auto

declare rx_match.simps(5) [simp del] rx_sub.simps(2) [simp del]

section \<open>Building patterns\<close>

fun rx_seq :: "rx list \<Rightarrow> rx" where
  "rx_seq [] = Eps"
| "rx_seq (r # rs) = Cat r (rx_seq rs)"

fun rx_alt :: "rx list \<Rightarrow> rx" where
  "rx_alt [] = Cls (\<lambda>_. False)"
| "rx_alt (r # rs) = Or r (rx_alt rs)"

definition rx_some :: "rx \<Rightarrow> rx" where
  "rx_some r = Cat r (Many r)"

definition rx_opt :: "rx \<Rightarrow> rx" where
  "rx_opt r = Or r Eps"

text \<open>A literal, and the same under \<open>(?i)\<close>; the members of a class.\<close>

definition rx_lit :: "string \<Rightarrow> rx" where
  "rx_lit cs = rx_seq (map (\<lambda>c. Cls (\<lambda>d. d = c)) cs)"

definition rx_word :: "string \<Rightarrow> rx" where
  "rx_word cs = rx_seq (map (\<lambda>c. Cls (\<lambda>d. py_lower [d] = [c])) cs)"

definition one_of :: "string \<Rightarrow> char \<Rightarrow> bool" where
  "one_of cs c \<longleftrightarrow> c \<in> set cs"

definition is_digit :: "char \<Rightarrow> bool" where
  "is_digit c \<longleftrightarrow> (let n = of_char c :: int in 48 \<le> n \<and> n \<le> 57)"

definition is_lower :: "char \<Rightarrow> bool" where
  "is_lower c \<longleftrightarrow> (let n = of_char c :: int in 97 \<le> n \<and> n \<le> 122)"

definition is_upper :: "char \<Rightarrow> bool" where
  "is_upper c \<longleftrightarrow> (let n = of_char c :: int in 65 \<le> n \<and> n \<le> 90)"

definition is_letter :: "char \<Rightarrow> bool" where
  "is_letter c \<longleftrightarrow> is_lower c \<or> is_upper c"

section \<open>Facts\<close>

text \<open>A result splits the input, and a class consumes one character of it.\<close>

lemma rx_match_splits: "(u, g, t) \<in> set (rx_match r p s) \<Longrightarrow> s = u @ t"
proof (induction r p s arbitrary: u g t rule: rx_match.induct)
  case (1 P p s)
  then show ?case by (auto split: list.splits if_splits)
next
  case (3 a b p s)
  then show ?case by (auto split: if_splits)
next
  case (5 a p s)
  from "5.prems" consider "u = []" "t = s"
    | u' g' t' v h where "(u', g', t') \<in> set (rx_match a p s)" "length t' < length s"
        "(v, h, t) \<in> set (rx_match (Many a) (last_char p u') t')" "u = u' @ v"
    by (auto simp: rx_match.simps(5) [of a p s] split: if_splits)
  then show ?case
  proof cases
    case 2
    then have "s = u' @ t'" "t' = v @ t" using "5.IH"(1) "5.IH"(2) [OF 2(1) refl refl] by simp_all
    then show ?thesis using 2 by simp
  qed simp
qed (auto split: if_splits)

text \<open>Replacing the runs of a class leaves its characters only in the replacement.\<close>

lemma rx_some_class: "rx_match (rx_some (Cls P)) p (c # s) = [] \<longleftrightarrow> \<not> P c"
  by (simp add: rx_some_def rx_match.simps(5))


lemma rx_some_class_shorter:
  "(u, g, t) \<in> set (rx_match (rx_some (Cls P)) p s) \<Longrightarrow> length t < length s"
  by (auto simp: rx_some_def dest: rx_match_splits split: list.splits if_splits)

lemma rx_sub_class:
  "r = rx_some (Cls P) \<Longrightarrow> f = (\<lambda>_ _. w) \<Longrightarrow> c \<in> set (rx_sub r f p s) \<Longrightarrow> c \<in> set w \<or> \<not> P c"
proof (induction r f p s rule: rx_sub.induct)
  case (2 r f p d s)
  show ?case
  proof (cases "rx_match r p (d # s)")
    case Nil
    then have "\<not> P d" using 2(4) rx_some_class by simp
    then show ?thesis using 2 Nil by (auto simp: rx_sub.simps(2))
  next
    case (Cons m ms)
    obtain u g t where m: "m = (u, g, t)" by (cases m)
    have less: "length t < length (d # s)"
      using rx_some_class_shorter [of u g t P p "d # s"] Cons m 2(4) by simp
    have "c \<in> set w \<or> \<not> P c" if "c \<in> set (rx_sub r f (last_char p u) t)"
      using "2.IH"(2) [OF Cons m [symmetric] refl less "2.prems"(1,2) that] .
    then show ?thesis using "2.prems" Cons m less by (auto simp: rx_sub.simps(2))
  qed
qed simp

end
