(* ===== verification/JobRuns.thy ===== *)
theory JobRuns
  imports StatusTables Regex
begin

text \<open>
  The control of background jobs, \<open>services/job_runner/service.py\<close>, over the table of
  \<open>infra/sql/job_runs.sql\<close>. Its two partial unique indexes are the only ownership mechanism: the
  second statement of an acquisition either holds them or fails. A transaction is atomic; its commit
  succeeds, is rolled back, or takes effect although its confirmation is lost. After a conflict the
  winner is read in a new transaction, before which other sessions may run.
\<close>

section \<open>Rows and constraints\<close>

record job_run =
  jr_id :: uuid
  jr_job_name :: string
  jr_target_date :: date
  jr_status :: string
  jr_started_at :: "time option"
  jr_finished_at :: "time option"
  jr_error_message :: "string option"
  jr_created_at :: time

type_synonym job_table = "job_run list"

definition JOB_RUN_STATUSES :: "string list" where
  "JOB_RUN_STATUSES = [''pending'', ''processing'', ''completed'', ''failed'']"

definition JOB_TERMINAL_STATUSES :: "string list" where
  "JOB_TERMINAL_STATUSES = [''completed'', ''failed'']"

definition VALID_STATUS_TRANSITIONS :: "(string \<times> string) list" where
  "VALID_STATUS_TRANSITIONS =
     [(''pending'', ''processing''), (''processing'', ''completed''), (''processing'', ''failed'')]"

definition is_valid_status_transition :: "string \<Rightarrow> string \<Rightarrow> bool" where
  "is_valid_status_transition current next_status \<longleftrightarrow>
     (if current \<notin> set JOB_RUN_STATUSES \<or> next_status \<notin> set JOB_RUN_STATUSES then False
      else (current, next_status) \<in> set VALID_STATUS_TRANSITIONS)"

text \<open>\<open>job_runs_state_shape_valid\<close> and the checks on the instants.\<close>

definition job_shape_ok :: "job_run \<Rightarrow> bool" where
  "job_shape_ok r \<longleftrightarrow>
     (jr_status r = ''pending'' \<and> jr_started_at r = None \<and> jr_finished_at r = None \<and> jr_error_message r = None \<or>
      jr_status r = ''processing'' \<and> jr_started_at r \<noteq> None \<and> jr_finished_at r = None \<and> jr_error_message r = None \<or>
      jr_status r = ''completed'' \<and> jr_started_at r \<noteq> None \<and> jr_finished_at r \<noteq> None \<and> jr_error_message r = None \<or>
      jr_status r = ''failed'' \<and> jr_started_at r \<noteq> None \<and> jr_finished_at r \<noteq> None \<and> jr_error_message r \<noteq> None) \<and>
     (case (jr_started_at r, jr_finished_at r) of (Some a, Some b) \<Rightarrow> a \<le> b | _ \<Rightarrow> True) \<and>
     (case jr_started_at r of Some a \<Rightarrow> jr_created_at r \<le> a | None \<Rightarrow> True)"

text \<open>The violated unique index when the row \<open>r\<close> is to become \<open>r'\<close>.\<close>

definition job_conflict :: "job_table \<Rightarrow> job_run \<Rightarrow> string option" where
  "job_conflict table r' =
     (let others = filter (\<lambda>x. jr_id x \<noteq> jr_id r') table
      in if jr_status r' = ''processing'' \<and>
            list_ex (\<lambda>x. jr_job_name x = jr_job_name r' \<and> jr_status x = ''processing'') others
         then Some ''job_runs_one_processing_per_job_idx''
         else if jr_status r' \<in> {''processing'', ''completed''} \<and>
            list_ex (\<lambda>x. jr_job_name x = jr_job_name r' \<and> jr_target_date x = jr_target_date r' \<and>
              jr_status x \<in> {''processing'', ''completed''}) others
         then Some ''job_runs_target_claim_idx''
         else None)"

definition EXPECTED_ACQUISITION_CONSTRAINTS :: "string list" where
  "EXPECTED_ACQUISITION_CONSTRAINTS = [''job_runs_one_processing_per_job_idx'', ''job_runs_target_claim_idx'']"

section \<open>Results\<close>

datatype job_error = JobRunValidationError string | JobRunPersistenceError string

datatype acquisition_status = JobAcquired | SkippedProcessing | SkippedCompleted | SkippedConflict

record acquisition_result =
  aq_status :: acquisition_status
  aq_run :: job_run

record transition_result =
  tr_changed :: bool
  tr_run :: job_run

datatype db_failure = IntegrityViolation string | DatabaseFailure

record job_env =
  je_uuid4 :: uuid
  je_now :: time
  je_fails :: "string \<Rightarrow> bool"
  je_commit :: commit_outcome

type_synonym 'a job_cmd = "(job_table, job_error, 'a) cmd"

section \<open>Guards and diagnostics\<close>

definition job_name_guard :: "string \<Rightarrow> job_error + string" where
  "job_name_guard v =
     (if v \<noteq> py_strip v \<or> v = [] then Inl (JobRunValidationError ''job_name must be non-empty and trimmed'')
      else if length v > 100 then Inl (JobRunValidationError ''job_name is too long'') else Inr v)"

definition or_now :: "job_env \<Rightarrow> time option \<Rightarrow> time" where
  "or_now E now = or_else now (je_now E)"

text \<open>An error is an exception, with the name of its type, or a message.\<close>

datatype job_failure = Raised string string | Reported string

fun failure_text :: "job_failure \<Rightarrow> string" where
  "failure_text (Raised type_name message) = message"
| "failure_text (Reported message) = message"

fun failure_kind :: "job_failure \<Rightarrow> string" where
  "failure_kind (Raised type_name message) = type_name"
| "failure_kind (Reported message) = ''job''"

definition quote_class :: rx where
  "quote_class = rx_opt (Cls (\<lambda>c. c = CHR 0x22 \<or> c = CHR 0x27))"

definition dash_class :: rx where
  "dash_class = rx_opt (Cls (one_of ''_-''))"

definition SENSITIVE_ERROR_HINT :: rx where
  "SENSITIVE_ERROR_HINT = rx_alt
     [rx_seq [Boundary,
        rx_alt [rx_seq [rx_word ''postgres'', rx_opt (rx_word ''ql'')], rx_word ''mysql'', rx_word ''mariadb'',
          rx_seq [rx_word ''mongodb'', rx_opt (rx_word ''+srv'')], rx_word ''redis''],
        rx_opt (rx_seq [rx_word ''+'', rx_some (Cls (\<lambda>c. is_letter c \<or> is_digit c \<or> c = CHR ''_''))]),
        rx_word ''://''],
      rx_seq [Boundary, rx_word ''bearer'', rx_some (Cls py_space), rx_some (Cls (\<lambda>c. \<not> py_space c))],
      rx_seq [quote_class,
        rx_alt [rx_word ''password'', rx_word ''passwd'', rx_word ''token'',
          rx_seq [rx_word ''access'', dash_class, rx_word ''token''],
          rx_seq [rx_word ''refresh'', dash_class, rx_word ''token''],
          rx_seq [rx_word ''api'', dash_class, rx_word ''key''], rx_word ''secret'', rx_word ''authorization''],
        quote_class, Many (Cls py_space), Cls (one_of '':='')]]"

definition MAX_ERROR_MESSAGE_LENGTH :: nat where
  "MAX_ERROR_MESSAGE_LENGTH = 500"

definition sanitize_error_message :: "job_failure \<Rightarrow> string" where
  "sanitize_error_message err =
     (let raw = failure_text err in
      if rx_search SENSITIVE_ERROR_HINT None raw
      then failure_kind err @ '' failed; sensitive details redacted''
      else
        let message = py_strip (rx_sub (rx_some (Cls py_space)) (\<lambda>_ _. '' '') None raw);
            message = (if message = [] then ''background job failed'' else message)
        in take MAX_ERROR_MESSAGE_LENGTH message)"

section \<open>Acquisition\<close>

text \<open>
  The two statements of the transaction: the insert of a pending row, refused when its key exists,
  and its update to \<open>processing\<close>, refused by the unique indexes.
\<close>

definition acquire_rows :: "job_env \<Rightarrow> string \<Rightarrow> date \<Rightarrow> time \<Rightarrow> job_table \<Rightarrow> db_failure + job_run \<times> job_table" where
  "acquire_rows E name target started table =
     (if je_fails E ''insert_pending'' then Inl DatabaseFailure
      else if je_uuid4 E \<in> jr_id ` set table then Inl (IntegrityViolation ''job_runs_pkey'')
      else
        let pending = \<lparr>jr_id = je_uuid4 E, jr_job_name = name, jr_target_date = target, jr_status = ''pending'',
              jr_started_at = None, jr_finished_at = None, jr_error_message = None, jr_created_at = started\<rparr>;
            processing = pending\<lparr>jr_status := ''processing'', jr_started_at := Some started\<rparr>
        in if je_fails E ''start_processing'' then Inl DatabaseFailure
           else case job_conflict (table @ [pending]) processing of
             Some c \<Rightarrow> Inl (IntegrityViolation c)
           | None \<Rightarrow> Inr (processing, table @ [processing]))"

text \<open>\<open>ORDER BY created_at DESC, id DESC LIMIT 1\<close>, and \<open>ORDER BY created_at, id LIMIT 1\<close>.\<close>

definition newest_job :: "(job_run \<Rightarrow> bool) \<Rightarrow> job_table \<Rightarrow> job_run option" where
  "newest_job p table =
     (let rows = sort_key (\<lambda>r. (jr_created_at r, jr_id r)) (filter p table)
      in if rows = [] then None else Some (last rows))"

definition oldest_job :: "(job_run \<Rightarrow> bool) \<Rightarrow> job_table \<Rightarrow> job_run option" where
  "oldest_job p table =
     (case sort_key (\<lambda>r. (jr_created_at r, jr_id r)) (filter p table) of [] \<Rightarrow> None | r # _ \<Rightarrow> Some r)"

definition for_key :: "string \<Rightarrow> date \<Rightarrow> job_run \<Rightarrow> bool" where
  "for_key name target r \<longleftrightarrow> jr_job_name r = name \<and> jr_target_date r = target"

definition read_conflict :: "job_env \<Rightarrow> string \<Rightarrow> date \<Rightarrow> job_table \<Rightarrow> job_error + acquisition_result" where
  "read_conflict E name target table =
     (if je_fails E ''read_conflict''
      then Inl (JobRunPersistenceError ''job-run conflict occurred but the winning state could not be read'')
      else
        case newest_job (\<lambda>r. for_key name target r \<and> jr_status r = ''completed'') table of
          Some r \<Rightarrow> Inr \<lparr>aq_status = SkippedCompleted, aq_run = r\<rparr>
        | None \<Rightarrow>
          (case oldest_job (\<lambda>r. jr_job_name r = name \<and> jr_status r = ''processing'') table of
             Some r \<Rightarrow> Inr \<lparr>aq_status = SkippedProcessing, aq_run = r\<rparr>
           | None \<Rightarrow>
             (case newest_job (for_key name target) table of
                Some r \<Rightarrow> Inr \<lparr>aq_status = SkippedConflict, aq_run = r\<rparr>
              | None \<Rightarrow> Inl (JobRunPersistenceError
                  ''job-run conflict cleared before its owner could be identified; retry acquisition''))))"

definition commit_rows :: "job_env \<Rightarrow> string \<Rightarrow> 'a \<Rightarrow> job_table \<Rightarrow> job_table \<Rightarrow> (job_error + 'a) \<times> job_table" where
  "commit_rows E message a before after =
     (case je_commit E of
        CommitOk \<Rightarrow> (Inr a, after)
      | CommitRolledBack \<Rightarrow> (Inl (JobRunPersistenceError message), before)
      | CommitLost \<Rightarrow> (Inl (JobRunPersistenceError message), after))"

text \<open>\<open>others\<close> is what the other sessions do between the rollback and the read of the winner.\<close>

definition acquire_job_run ::
  "job_env \<Rightarrow> (job_table \<Rightarrow> job_table) \<Rightarrow> string \<Rightarrow> date \<Rightarrow> time option \<Rightarrow> acquisition_result job_cmd" where
  "acquire_job_run E others job_name target now table =
     (case job_name_guard job_name of
        Inl e \<Rightarrow> (Inl e, table)
      | Inr name \<Rightarrow>
          (case acquire_rows E name target (or_now E now) table of
             Inr (run, after) \<Rightarrow>
               commit_rows E ''job-run acquisition failed'' \<lparr>aq_status = JobAcquired, aq_run = run\<rparr> table after
           | Inl DatabaseFailure \<Rightarrow> (Inl (JobRunPersistenceError ''job-run acquisition failed''), table)
           | Inl (IntegrityViolation c) \<Rightarrow>
               if c \<notin> set EXPECTED_ACQUISITION_CONSTRAINTS
               then (Inl (JobRunPersistenceError ''job-run acquisition violated an unexpected constraint''), table)
               else (read_conflict E name target (others table), others table)))"

section \<open>Terminal transitions\<close>

definition terminal_row :: "string \<Rightarrow> time \<Rightarrow> string option \<Rightarrow> job_run \<Rightarrow> job_run" where
  "terminal_row status finished message r =
     r\<lparr>jr_status := status,
       jr_finished_at := Some (case jr_started_at r of None \<Rightarrow> finished | Some s \<Rightarrow> max finished s),
       jr_error_message := message\<rparr>"

definition terminal_transition ::
  "job_env \<Rightarrow> uuid \<Rightarrow> string \<Rightarrow> time \<Rightarrow> string option \<Rightarrow> transition_result job_cmd" where
  "terminal_transition E run_id status finished message table =
     (if status \<notin> set JOB_TERMINAL_STATUSES
      then (Inl (JobRunValidationError ''terminal status must be completed or failed''), table)
      else if je_fails E ''terminal'' then (Inl (JobRunPersistenceError ''terminal transition failed''), table)
      else
        let p = (\<lambda>r. jr_id r = run_id \<and> jr_status r = ''processing''); f = terminal_row status finished message
        in case sql_returning p f table of
             row # _ \<Rightarrow>
               commit_rows E ''terminal transition failed'' \<lparr>tr_changed = True, tr_run = row\<rparr>
                 table (sql_update p f table)
           | [] \<Rightarrow>
               (case find (\<lambda>r. jr_id r = run_id) table of
                  None \<Rightarrow> (Inl (JobRunValidationError ''job run was not found''), table)
                | Some current \<Rightarrow>
                    commit_rows E ''terminal transition failed'' \<lparr>tr_changed = False, tr_run = current\<rparr>
                      table table))"

definition complete_job_run :: "job_env \<Rightarrow> uuid \<Rightarrow> time option \<Rightarrow> transition_result job_cmd" where
  "complete_job_run E run_id now = terminal_transition E run_id ''completed'' (or_now E now) None"

definition fail_job_run :: "job_env \<Rightarrow> uuid \<Rightarrow> job_failure \<Rightarrow> time option \<Rightarrow> transition_result job_cmd" where
  "fail_job_run E run_id err now =
     terminal_transition E run_id ''failed'' (or_now E now) (Some (sanitize_error_message err))"

section \<open>Reads\<close>

definition get_job_run :: "job_env \<Rightarrow> uuid \<Rightarrow> job_run option job_cmd" where
  "get_job_run E run_id table =
     (if je_fails E ''select_by_id'' then (Inl (JobRunPersistenceError ''job-run lookup failed''), table)
      else (Inr (find (\<lambda>r. jr_id r = run_id) table), table))"

definition get_latest_job_run :: "job_env \<Rightarrow> string \<Rightarrow> date \<Rightarrow> job_run option job_cmd" where
  "get_latest_job_run E job_name target table =
     (case job_name_guard job_name of
        Inl e \<Rightarrow> (Inl e, table)
      | Inr name \<Rightarrow>
          if je_fails E ''select_latest'' then (Inl (JobRunPersistenceError ''job-run key lookup failed''), table)
          else (Inr (newest_job (for_key name target) table), table))"

end
