(* ===== verification/JobControl.thy ===== *)
theory JobControl
  imports JobRuns
begin

text \<open>
  The guarantees of the job control: the table invariant, the two changes its operations make, the
  table contract, exclusive ownership of a job, a date that completed once, and the diagnostics that
  may be stored.
\<close>

section \<open>The invariant\<close>

definition claims :: "job_run \<Rightarrow> bool" where
  "claims r \<longleftrightarrow> jr_status r \<in> {''processing'', ''completed''}"

definition jobs_ok :: "job_table \<Rightarrow> bool" where
  "jobs_ok t \<longleftrightarrow> keys_unique jr_id t \<and> (\<forall>r \<in> set t. job_shape_ok r) \<and>
     (\<forall>r \<in> set t. \<forall>r' \<in> set t. jr_job_name r = jr_job_name r' \<longrightarrow>
        jr_status r = ''processing'' \<longrightarrow> jr_status r' = ''processing'' \<longrightarrow> r = r') \<and>
     (\<forall>r \<in> set t. \<forall>r' \<in> set t. for_key (jr_job_name r) (jr_target_date r) r' \<longrightarrow> claims r \<longrightarrow> claims r' \<longrightarrow> r = r')"

inductive job_change :: "job_table \<Rightarrow> job_table \<Rightarrow> bool" where
  claim: "jr_id r \<notin> jr_id ` set t \<Longrightarrow> jr_status r = ''processing'' \<Longrightarrow> job_shape_ok r \<Longrightarrow>
    job_conflict t r = None \<Longrightarrow> job_change t (t @ [r])"
| settle: "r \<in> set t \<Longrightarrow> jr_status r = ''processing'' \<Longrightarrow> st \<in> set JOB_TERMINAL_STATUSES \<Longrightarrow>
    (msg = None \<longleftrightarrow> st = ''completed'') \<Longrightarrow> job_change t (put_row jr_id (terminal_row st fin msg r) t)"

lemma terminal_row_simps [simp]:
  "jr_id (terminal_row st fin msg r) = jr_id r" "jr_job_name (terminal_row st fin msg r) = jr_job_name r"
  "jr_target_date (terminal_row st fin msg r) = jr_target_date r" "jr_status (terminal_row st fin msg r) = st"
  by (simp_all add: terminal_row_def)

lemma terminal_row_shape:
  "job_shape_ok r \<Longrightarrow> jr_status r = ''processing'' \<Longrightarrow> st \<in> set JOB_TERMINAL_STATUSES \<Longrightarrow>
   (msg = None \<longleftrightarrow> st = ''completed'') \<Longrightarrow> job_shape_ok (terminal_row st fin msg r)"
  by (auto simp: job_shape_ok_def terminal_row_def JOB_TERMINAL_STATUSES_def)

lemma job_conflict_None:
  "jr_status r = ''processing'' \<Longrightarrow> job_conflict t r = None \<longleftrightarrow>
    (\<forall>x \<in> set t. jr_id x \<noteq> jr_id r \<longrightarrow> jr_job_name x = jr_job_name r \<longrightarrow>
      jr_status x \<noteq> ''processing'' \<and> (jr_target_date x = jr_target_date r \<longrightarrow> \<not> claims x))"
  by (auto simp: job_conflict_def list_ex_iff claims_def Let_def)

lemma job_conflict_NoneD:
  "job_conflict t r = None \<Longrightarrow> jr_status r = ''processing'' \<Longrightarrow> x \<in> set t \<Longrightarrow> jr_id x \<noteq> jr_id r \<Longrightarrow>
   jr_job_name x = jr_job_name r \<Longrightarrow>
   jr_status x \<noteq> ''processing'' \<and> (jr_target_date x = jr_target_date r \<longrightarrow> \<not> claims x)"
  using job_conflict_None by blast

lemma jobs_ok_keyD:
  "jobs_ok t \<Longrightarrow> x \<in> set t \<Longrightarrow> y \<in> set t \<Longrightarrow> for_key (jr_job_name x) (jr_target_date x) y \<Longrightarrow>
   claims x \<Longrightarrow> claims y \<Longrightarrow> x = y"
  unfolding jobs_ok_def by (elim conjE) (drule bspec, assumption, drule bspec, assumption, simp)

lemma job_change_ok: "job_change t t' \<Longrightarrow> jobs_ok t \<Longrightarrow> jobs_ok t'"
proof (induction rule: job_change.induct)
  case (claim r t)
  have new: "\<And>x. x \<in> set t \<Longrightarrow> jr_job_name x = jr_job_name r \<Longrightarrow>
      jr_status x \<noteq> ''processing'' \<and> (jr_target_date x = jr_target_date r \<longrightarrow> \<not> claims x)"
    using claim(1,2,4) by (intro job_conflict_NoneD) (auto simp: image_iff)
  have ok: "keys_unique jr_id t" "\<forall>r \<in> set t. job_shape_ok r"
    "\<And>x y. x \<in> set t \<Longrightarrow> y \<in> set t \<Longrightarrow> jr_job_name x = jr_job_name y \<Longrightarrow> jr_status x = ''processing'' \<Longrightarrow>
       jr_status y = ''processing'' \<Longrightarrow> x = y"
    "\<And>x y. x \<in> set t \<Longrightarrow> y \<in> set t \<Longrightarrow> for_key (jr_job_name x) (jr_target_date x) y \<Longrightarrow> claims x \<Longrightarrow> claims y \<Longrightarrow> x = y"
    using claim.prems unfolding jobs_ok_def by blast+
  show ?case
    unfolding jobs_ok_def
  proof (intro conjI ballI impI)
    show "keys_unique jr_id (t @ [r])" using ok(1) claim(1) by simp
    show "job_shape_ok x" if "x \<in> set (t @ [r])" for x using that ok(2) claim(3) by auto
    show "x = y" if "x \<in> set (t @ [r])" "y \<in> set (t @ [r])" "jr_job_name x = jr_job_name y"
      "jr_status x = ''processing''" "jr_status y = ''processing''" for x y
      using that ok(3) new by (metis Un_iff empty_iff insert_iff list.set set_append)
    show "x = y" if "x \<in> set (t @ [r])" "y \<in> set (t @ [r])" "for_key (jr_job_name x) (jr_target_date x) y"
      "claims x" "claims y" for x y
      using that ok(4) new unfolding for_key_def by (metis Un_iff empty_iff insert_iff list.set set_append)
  qed
next
  case (settle r t st msg fin)
  let ?r = "terminal_row st fin msg r"
  have cl: "claims ?r \<Longrightarrow> claims r" using settle(2) by (simp add: claims_def)
  have np: "jr_status ?r \<noteq> ''processing''" using settle(3) by (auto simp: JOB_TERMINAL_STATUSES_def)
  have shape: "job_shape_ok ?r" using settle by (intro terminal_row_shape) (auto simp: jobs_ok_def)
  have src: "\<exists>x \<in> set t. jr_id x = jr_id y \<and> jr_job_name x = jr_job_name y \<and> jr_target_date x = jr_target_date y \<and>
      (claims y \<longrightarrow> claims x) \<and> (jr_status y = ''processing'' \<longrightarrow> y = x)"
    if "y \<in> set (put_row jr_id ?r t)" for y
  proof (cases "jr_id y = jr_id r")
    case True
    then have "y = ?r" using that by (auto simp: set_put_row split: if_splits)
    then show ?thesis using settle(1) cl np by (intro bexI [of _ r]) auto
  qed (use that in \<open>auto simp: set_put_row split: if_splits\<close>)
  have uniq: "keys_unique jr_id (put_row jr_id ?r t)" using settle.prems by (simp add: jobs_ok_def)
  have one: "x = y" if xy: "x \<in> set (put_row jr_id ?r t)" "y \<in> set (put_row jr_id ?r t)"
      "jr_job_name x = jr_job_name y" and st: "jr_status x = ''processing''" "jr_status y = ''processing''" for x y
  proof -
    have "x \<in> set t" "y \<in> set t" using src [OF xy(1)] src [OF xy(2)] st by blast+
    then show ?thesis using settle.prems xy(3) st unfolding jobs_ok_def by blast
  qed
  have key: "x = y" if xy: "x \<in> set (put_row jr_id ?r t)" "y \<in> set (put_row jr_id ?r t)"
      "for_key (jr_job_name x) (jr_target_date x) y" "claims x" "claims y" for x y
  proof -
    obtain x' where x': "x' \<in> set t" "jr_id x' = jr_id x" "jr_job_name x' = jr_job_name x" "jr_target_date x' = jr_target_date x" "claims x'"
      using src [OF xy(1)] xy(4) by blast
    obtain y' where y': "y' \<in> set t" "jr_id y' = jr_id y" "jr_job_name y' = jr_job_name y" "jr_target_date y' = jr_target_date y" "claims y'"
      using src [OF xy(2)] xy(5) by blast
    have "for_key (jr_job_name x') (jr_target_date x') y'" using x' y' xy(3) by (simp add: for_key_def)
    then have "x' = y'" by (rule jobs_ok_keyD [OF settle.prems x'(1) y'(1) _ x'(5) y'(5)])
    then have "jr_id x = jr_id y" using x'(2) y'(2) by metis
    then show ?thesis by (rule keys_uniqueD [OF uniq xy(1,2)])
  qed
  have shapes: "job_shape_ok x" if "x \<in> set (put_row jr_id ?r t)" for x
    using that shape settle.prems by (auto simp: set_put_row jobs_ok_def split: if_splits)
  show ?case unfolding jobs_ok_def by (intro conjI ballI impI uniq shapes one key)
qed

section \<open>The operations make these changes only\<close>

lemma commit_rows_cases:
  "commit_rows E m a before after = (res, t) \<Longrightarrow> (t = before \<or> t = after) \<and> (\<forall>x. res = Inr x \<longrightarrow> x = a \<and> t = after)"
  by (auto simp: commit_rows_def split: commit_outcome.splits)

lemma acquire_rows_Inr:
  assumes "acquire_rows E name target started t = Inr (r, t')"
  shows "job_change t t' \<and> t' = t @ [r] \<and> jr_job_name r = name \<and> jr_target_date r = target \<and>
    jr_status r = ''processing'' \<and> jr_id r \<notin> jr_id ` set t \<and> job_conflict t r = None"
proof -
  have r: "t' = t @ [r]" "jr_id r = je_uuid4 E" "je_uuid4 E \<notin> jr_id ` set t" "jr_status r = ''processing''"
    "jr_job_name r = name" "jr_target_date r = target" "job_shape_ok r"
    using assms by (auto simp: acquire_rows_def job_shape_ok_def Let_def split: if_splits option.splits)
  have "job_conflict t r = None"
    using assms by (auto simp: acquire_rows_def job_conflict_def Let_def split: if_splits option.splits)
  then show ?thesis using r claim [of r t] by simp
qed

lemma acquire_effect:
  assumes "acquire_job_run E others name target now t = (res, t')"
  shows "t' = t \<or> job_change t t' \<or> t' = others t"
proof (cases "job_name_guard name")
  case (Inr n)
  show ?thesis
  proof (cases "acquire_rows E n target (or_now E now) t")
    case (Inl e)
    then show ?thesis using assms Inr by (cases e) (auto simp: acquire_job_run_def split: if_splits)
  next
    case rows: (Inr x)
    obtain r t1 where x: "x = (r, t1)" by (cases x)
    have "job_change t t1" using acquire_rows_Inr rows x by blast
    moreover have "t' = t \<or> t' = t1"
      using assms Inr rows x by (auto simp: acquire_job_run_def dest!: commit_rows_cases)
    ultimately show ?thesis by blast
  qed
qed (use assms in \<open>simp add: acquire_job_run_def\<close>)

lemma read_conflict_skips: "read_conflict E name target t = Inr a \<Longrightarrow> aq_status a \<noteq> JobAcquired"
  by (auto simp: read_conflict_def split: if_splits option.splits)

lemma job_name_guard_Inr: "job_name_guard v = Inr n \<Longrightarrow> n = v"
  by (simp add: job_name_guard_def split: if_splits)

lemma acquire_acquired:
  assumes "acquire_job_run E others name target now t = (Inr a, t')" and "aq_status a = JobAcquired"
  shows "t' = t @ [aq_run a] \<and> job_change t t' \<and> jr_job_name (aq_run a) = name \<and>
    jr_target_date (aq_run a) = target \<and> jr_status (aq_run a) = ''processing'' \<and>
    jr_id (aq_run a) \<notin> jr_id ` set t \<and> job_conflict t (aq_run a) = None"
proof -
  obtain n where n: "job_name_guard name = Inr n"
    using assms(1) by (cases "job_name_guard name") (auto simp: acquire_job_run_def)
  then have name: "n = name" by (rule job_name_guard_Inr)
  show ?thesis
  proof (cases "acquire_rows E name target (or_now E now) t")
    case (Inl e)
    then show ?thesis
      using assms n name by (cases e) (auto simp: acquire_job_run_def split: if_splits dest: read_conflict_skips)
  next
    case (Inr x)
    obtain r t1 where x: "x = (r, t1)" by (cases x)
    then have "aq_run a = r" "t' = t1"
      using assms n name Inr by (auto simp: acquire_job_run_def dest!: commit_rows_cases)
    then show ?thesis using acquire_rows_Inr Inr x by blast
  qed
qed

lemma terminal_effect:
  assumes ok: "jobs_ok t" and run: "terminal_transition E i st fin msg t = (res, t')"
    and msg: "msg = None \<longleftrightarrow> st = ''completed''"
  shows "(t' = t \<or> job_change t t') \<and>
    (\<forall>x. res = Inr x \<longrightarrow> tr_run x \<in> set t' \<and> jr_id (tr_run x) = i \<and>
      (tr_changed x \<longrightarrow> jr_status (tr_run x) = st \<and> st \<in> set JOB_TERMINAL_STATUSES) \<and>
      (\<not> tr_changed x \<longrightarrow> t' = t \<and> jr_status (tr_run x) \<noteq> ''processing''))"
proof -
  let ?p = "\<lambda>r. jr_id r = i \<and> jr_status r = ''processing''" and ?f = "terminal_row st fin msg"
  have uniq: "keys_unique jr_id t" using ok by (simp add: jobs_ok_def)
  show ?thesis
  proof (rule cas_update [of jr_id t ?p i ?f, OF uniq])
    assume no: "sql_returning ?p ?f t = []" "\<forall>r \<in> set t. \<not> ?p r"
    show ?thesis
      using run no by (auto simp: terminal_transition_def Let_def split: if_splits option.splits
          dest!: commit_rows_cases find_SomeD)
  next
    fix r assume r: "r \<in> set t" "?p r" "sql_update ?p ?f t = put_row jr_id (?f r) t" "sql_returning ?p ?f t = [?f r]"
    show ?thesis
    proof (cases "st \<in> set JOB_TERMINAL_STATUSES")
      case True
      have "job_change t (put_row jr_id (?f r) t)" using True r(1,2) msg by (intro settle) simp_all
      moreover have "?f r \<in> set (put_row jr_id (?f r) t)" using r(1) by (auto simp: set_put_row)
      moreover have "jr_id (?f r) = i" "jr_status (?f r) = st" using r(2) by simp_all
      moreover have "(t' = t \<or> t' = put_row jr_id (?f r) t) \<and>
          (\<forall>x. res = Inr x \<longrightarrow> x = \<lparr>tr_changed = True, tr_run = ?f r\<rparr> \<and> t' = put_row jr_id (?f r) t)"
      proof (cases "je_fails E ''terminal''")
        case True
        then show ?thesis using run \<open>st \<in> set JOB_TERMINAL_STATUSES\<close> by (auto simp: terminal_transition_def)
      next
        case False
        then have "commit_rows E ''terminal transition failed'' \<lparr>tr_changed = True, tr_run = ?f r\<rparr> t
            (put_row jr_id (?f r) t) = (res, t')"
          using run True r(3,4) by (simp add: terminal_transition_def Let_def)
        from commit_rows_cases [OF this] show ?thesis by simp
      qed
      ultimately show ?thesis using True by (intro conjI allI impI) (fastforce+)
    qed (use run in \<open>auto simp: terminal_transition_def\<close>)
  qed auto
qed

section \<open>Steps\<close>

inductive job_step :: "job_table \<Rightarrow> job_table \<Rightarrow> bool" where
  js_acquire: "acquire_job_run E (\<lambda>t. t) name target now t = (res_a, t') \<Longrightarrow> job_step t t'"
| js_complete: "complete_job_run E i now t = (res_t, t') \<Longrightarrow> job_step t t'"
| js_fail: "fail_job_run E i err now t = (res_t, t') \<Longrightarrow> job_step t t'"

inductive_cases job_stepE: "job_step t t'"

lemma job_step_change: "job_step t t' \<Longrightarrow> jobs_ok t \<Longrightarrow> t' = t \<or> job_change t t'"
proof (elim job_stepE)
  assume ok: "jobs_ok t"
  { fix E i now res assume "complete_job_run E i now t = (res, t')"
    then show ?thesis using terminal_effect [OF ok, of E i "''completed''" _ None res t'] by (auto simp: complete_job_run_def) }
  { fix E i err now res assume "fail_job_run E i err now t = (res, t')"
    then show ?thesis using terminal_effect [OF ok, of E i "''failed''" _ _ res t'] by (auto simp: fail_job_run_def) }
qed (use acquire_effect in blast)

lemma job_steps_ok: "job_step\<^sup>*\<^sup>* t t' \<Longrightarrow> jobs_ok t \<Longrightarrow> jobs_ok t'"
  by (induction rule: rtranclp_induct) (auto dest!: job_step_change intro: job_change_ok)

lemma jobs_ok_Nil: "jobs_ok []"
  by (simp add: jobs_ok_def)

lemma job_change_row:
  assumes "job_change t t'" and "jobs_ok t" and "r \<in> set t"
  shows "\<exists>r' \<in> set t'. jr_id r' = jr_id r \<and>
    (r' = r \<or> jr_status r \<notin> set JOB_TERMINAL_STATUSES \<and>
      (jr_status r' = jr_status r \<or> is_valid_status_transition (jr_status r) (jr_status r')))"
  using assms
proof (induction rule: job_change.induct)
  case (settle x t st msg fin)
  show ?case
  proof (cases "jr_id r = jr_id x")
    case True
    then have "r = x" using settle by (auto simp: jobs_ok_def dest: keys_uniqueD)
    then show ?thesis
      using settle
      by (intro bexI [of _ "terminal_row st fin msg x"])
        (auto simp: set_put_row JOB_TERMINAL_STATUSES_def is_valid_status_transition_def JOB_RUN_STATUSES_def
          VALID_STATUS_TRANSITIONS_def)
  qed (use settle in \<open>auto simp: set_put_row\<close>)
qed auto

definition job_rank :: "string \<Rightarrow> nat" where
  "job_rank st = (if st = ''pending'' then 2 else if st = ''processing'' then 1 else 0)"

interpretation job_history: ranked_table "\<lambda>t. t" jr_id jr_status "\<lambda>t t'. jobs_ok t \<and> job_change t t'"
  is_valid_status_transition "\<lambda>st. st \<in> set JOB_TERMINAL_STATUSES" job_rank
proof
  show "\<not> is_valid_status_transition a b" if "a \<in> set JOB_TERMINAL_STATUSES" for a b
    using that by (auto simp: is_valid_status_transition_def VALID_STATUS_TRANSITIONS_def JOB_TERMINAL_STATUSES_def)
  show "job_rank b < job_rank a" if "is_valid_status_transition a b" for a b
    using that by (auto simp: is_valid_status_transition_def VALID_STATUS_TRANSITIONS_def job_rank_def split: if_splits)
qed (use job_change_row in blast)

lemma guarded_job_steps: "job_step\<^sup>*\<^sup>* t t' \<Longrightarrow> jobs_ok t \<Longrightarrow> (\<lambda>t t'. jobs_ok t \<and> job_change t t')\<^sup>*\<^sup>* t t'"
proof (induction rule: rtranclp_induct)
  case (step t' t'')
  then have ok: "jobs_ok t'" using job_steps_ok by blast
  from job_step_change [OF step.hyps(2) ok] show ?case
  proof
    assume "job_change t' t''"
    then show ?thesis using step ok by (intro rtranclp.rtrancl_into_rtrancl [OF step.IH]) auto
  qed (use step in simp)
qed simp

lemma terminal_jobs_kept:
  "job_step\<^sup>*\<^sup>* t t' \<Longrightarrow> jobs_ok t \<Longrightarrow> r \<in> set t \<Longrightarrow> jr_status r \<in> set JOB_TERMINAL_STATUSES \<Longrightarrow> r \<in> set t'"
  using job_history.final_kept [OF guarded_job_steps] by blast

section \<open>Ownership\<close>

lemma newest_job_Some: "newest_job p t = Some r \<Longrightarrow> r \<in> set t \<and> p r"
proof -
  assume a: "newest_job p t = Some r"
  then have "sort_key (\<lambda>r. (jr_created_at r, jr_id r)) (filter p t) \<noteq> []"
    "r = last (sort_key (\<lambda>r. (jr_created_at r, jr_id r)) (filter p t))"
    by (simp_all add: newest_job_def Let_def split: if_splits)
  then have "r \<in> set (sort_key (\<lambda>r. (jr_created_at r, jr_id r)) (filter p t))" by (metis last_in_set)
  then show ?thesis by simp
qed

lemma newest_job_None:
  assumes "newest_job p t = None"
  shows "x \<in> set t \<Longrightarrow> \<not> p x"
proof -
  have "sort_key (\<lambda>r. (jr_created_at r, jr_id r)) (filter p t) = []"
    using assms by (simp add: newest_job_def Let_def split: if_splits)
  then have "set (filter p t) = {}" by (metis list.set(1) set_sort)
  then show "x \<in> set t \<Longrightarrow> \<not> p x" by auto
qed

text \<open>A date that completed cannot be claimed again: the second unique index refuses it.\<close>

lemma acquire_rows_completed:
  assumes "r \<in> set t" "for_key name target r" "claims r"
  shows "acquire_rows E name target started t \<noteq> Inr x"
proof
  assume x: "acquire_rows E name target started t = Inr x"
  obtain q t1 where q: "x = (q, t1)" by (cases x)
  note c = acquire_rows_Inr [OF x [unfolded q]]
  have "jr_id q \<notin> jr_id ` set t" using c by (elim conjE)
  then have "jr_id r \<noteq> jr_id q" using assms(1) by (metis image_eqI)
  moreover have "jr_job_name r = jr_job_name q" "jr_target_date r = jr_target_date q"
    using c assms(2) unfolding for_key_def by auto
  moreover have "job_conflict t q = None" using c by (elim conjE)
  moreover have "jr_status q = ''processing''" using c by (elim conjE)
  ultimately have "\<not> claims r" using job_conflict_NoneD [of t q r] assms(1) by simp
  then show False using assms(3) by contradiction
qed

lemma read_conflict_completed:
  assumes "read_conflict E name target t = Inr a" and "r \<in> set t" "for_key name target r" "jr_status r = ''completed''"
  shows "aq_status a = SkippedCompleted \<and> for_key name target (aq_run a) \<and> jr_status (aq_run a) = ''completed''"
proof (cases "newest_job (\<lambda>r. for_key name target r \<and> jr_status r = ''completed'') t")
  case None
  then show ?thesis using newest_job_None [OF None assms(2)] assms(3,4) by simp
next
  case (Some q)
  then show ?thesis using assms(1) newest_job_Some [OF Some] by (simp add: read_conflict_def split: if_splits) auto
qed

lemma completed_not_rerun:
  assumes ok: "jobs_ok s" and r: "r \<in> set s" "for_key name target r" "jr_status r = ''completed''"
    and steps: "job_step\<^sup>*\<^sup>* s t" "job_step\<^sup>*\<^sup>* t (others t)"
    and run: "acquire_job_run E others name target now t = (Inr a, u)"
  shows "aq_status a = SkippedCompleted \<and> for_key name target (aq_run a) \<and> jr_status (aq_run a) = ''completed''"
proof -
  have fin: "jr_status r \<in> set JOB_TERMINAL_STATUSES" using r(3) by (simp add: JOB_TERMINAL_STATUSES_def)
  have t: "r \<in> set t" "jobs_ok t" using terminal_jobs_kept [OF steps(1) ok r(1) fin] job_steps_ok steps(1) ok by auto
  have o: "r \<in> set (others t)" using terminal_jobs_kept [OF steps(2) t(2,1) fin] .
  have no: "acquire_rows E name target (or_now E now) t \<noteq> Inr x" for x
    using r(2,3) by (intro acquire_rows_completed [OF t(1)]) (simp_all add: claims_def)
  obtain n where n: "job_name_guard name = Inr n"
    using run by (cases "job_name_guard name") (auto simp: acquire_job_run_def)
  obtain e where e: "acquire_rows E name target (or_now E now) t = Inl e" using no by (meson sum.exhaust)
  have "read_conflict E name target (others t) = Inr a"
    using run n job_name_guard_Inr [OF n] e by (cases e) (auto simp: acquire_job_run_def split: if_splits)
  then show ?thesis using read_conflict_completed o r(2,3) by blast
qed

lemma acquired_alone:
  assumes ok: "jobs_ok s" and first: "acquire_job_run E others name target now s = (Inr a, t)" "aq_status a = JobAcquired"
    and steps: "job_step\<^sup>*\<^sup>* t u"
    and second: "acquire_job_run E' others' name target' now' u = (Inr b, v)" "aq_status b = JobAcquired"
  shows "\<exists>r \<in> set u. jr_id r = jr_id (aq_run a) \<and> jr_status r \<in> set JOB_TERMINAL_STATUSES"
proof -
  note a = acquire_acquired [OF first] and b = acquire_acquired [OF second]
  have t: "jobs_ok t" using a job_change_ok ok by blast
  have mem: "aq_run a \<in> set t" using a by simp
  obtain r where r: "r \<in> set u" "jr_id r = jr_id (aq_run a)" "is_valid_status_transition\<^sup>*\<^sup>* (jr_status (aq_run a)) (jr_status r)"
    using job_history.status_path [OF guarded_job_steps [OF steps t] mem] by blast
  have name: "jr_job_name r = name"
  proof -
    have "\<exists>r' \<in> set u. jr_id r' = jr_id (aq_run a) \<and> jr_job_name r' = name"
      using steps t mem
    proof (induction rule: rtranclp_induct)
      case base
      then show ?case using a by blast
    next
      case (step x y)
      then have okx: "jobs_ok x" using job_steps_ok by blast
      from step.IH [OF step.prems] obtain r' where r': "r' \<in> set x" "jr_id r' = jr_id (aq_run a)" "jr_job_name r' = name" by blast
      from job_step_change [OF step.hyps(2) okx] show ?case
      proof
        assume "job_change x y"
        then show ?thesis
          using r' okx by cases (auto simp: set_put_row jobs_ok_def dest: keys_uniqueD)
      qed (use r' in blast)
    qed
    moreover have "keys_unique jr_id u" using job_steps_ok [OF steps t] by (simp add: jobs_ok_def)
    ultimately show ?thesis using r by (auto dest: keys_uniqueD)
  qed
  have "jr_status r \<noteq> ''processing''"
  proof
    assume "jr_status r = ''processing''"
    moreover have "jr_id r \<noteq> jr_id (aq_run b)" using b r(1) by (metis image_eqI)
    ultimately show False using job_conflict_NoneD [of u "aq_run b" r] b name r(1) by simp
  qed
  moreover have "jr_status r = ''processing'' \<or> jr_status r \<in> set JOB_TERMINAL_STATUSES"
    using r(3) a by (induction rule: rtranclp_induct)
      (auto simp: is_valid_status_transition_def VALID_STATUS_TRANSITIONS_def JOB_TERMINAL_STATUSES_def split: if_splits)
  ultimately show ?thesis using r by blast
qed

lemma terminal_once:
  assumes ok: "jobs_ok s" and first: "terminal_transition E i st fin msg s = (Inr x, t)" "msg = None \<longleftrightarrow> st = ''completed''"
    and changed: "tr_changed x" and steps: "job_step\<^sup>*\<^sup>* t u"
    and second: "terminal_transition E' i st' fin' msg' u = (Inr y, v)" "msg' = None \<longleftrightarrow> st' = ''completed''"
  shows "\<not> tr_changed y \<and> tr_run y = tr_run x \<and> v = u"
proof -
  note f = terminal_effect [OF ok first]
  have t: "jobs_ok t" using f job_change_ok ok by blast
  have x: "tr_run x \<in> set t" "jr_id (tr_run x) = i" "jr_status (tr_run x) \<in> set JOB_TERMINAL_STATUSES"
    using f changed by auto
  have u: "tr_run x \<in> set u" "jobs_ok u" using terminal_jobs_kept [OF steps t x(1,3)] job_steps_ok [OF steps t] by auto
  then have uniq: "r = tr_run x" if "r \<in> set u" "jr_id r = i" for r
    using that x(2) by (auto simp: jobs_ok_def dest: keys_uniqueD)
  have np: "jr_status (tr_run x) \<noteq> ''processing''" using x(3) by (auto simp: JOB_TERMINAL_STATUSES_def)
  have "sql_returning (\<lambda>r. jr_id r = i \<and> jr_status r = ''processing'') (terminal_row st' fin' msg') u = []"
    using uniq np by (auto simp: sql_returning_Nil_iff)
  then have "\<not> tr_changed y"
    using second(1) by (auto simp: terminal_transition_def Let_def split: if_splits option.splits dest!: commit_rows_cases)
  then show ?thesis using terminal_effect [OF u(2) second] uniq by auto
qed

section \<open>Diagnostics\<close>

lemma set_py_strip: "set (py_strip s) \<subseteq> set s"
  unfolding py_strip_def by (auto dest!: set_dropWhileD)

lemma py_strip_head: "py_strip s = c # t \<Longrightarrow> \<not> py_space c"
proof -
  assume s: "py_strip s = c # t"
  let ?u = "dropWhile py_space s"
  have u: "py_strip s = rev (dropWhile py_space (rev ?u))" by (simp add: py_strip_def)
  obtain w where w: "rev ?u = w @ dropWhile py_space (rev ?u)" by (metis takeWhile_dropWhile_id)
  then have "?u = rev (dropWhile py_space (rev ?u)) @ rev w" by (metis rev_append rev_rev_ident)
  then have "?u = (c # t) @ rev w" using s u by simp
  then show ?thesis using hd_dropWhile [of py_space s] by (metis append_Cons list.distinct(1) list.sel(1))
qed

lemma collapse_spaces:
  "c \<in> set (rx_sub (rx_some (Cls py_space)) (\<lambda>_ _. '' '') None s) \<Longrightarrow> py_space c \<Longrightarrow> c = CHR '' ''"
  using rx_sub_class [OF refl refl, of c py_space "'' ''" None s] by simp

lemma sanitize_bounds:
  assumes kind: "failure_kind err \<noteq> []" "length (failure_kind err) \<le> 464" "\<not> list_ex py_space (failure_kind err)"
  shows "length (sanitize_error_message err) \<le> 500 \<and> \<not> blank (sanitize_error_message err) \<and>
    (\<forall>c \<in> set (sanitize_error_message err). py_space c \<longrightarrow> c = CHR '' '')"
proof (cases "rx_search SENSITIVE_ERROR_HINT None (failure_text err)")
  case True
  obtain k ks where k: "failure_kind err = k # ks" using kind(1) by (cases "failure_kind err") auto
  let ?s = "'' failed; sensitive details redacted''"
  have res: "sanitize_error_message err = failure_kind err @ ?s"
    using True by (simp add: sanitize_error_message_def)
  have suffix: "list_all (\<lambda>c. py_space c \<longrightarrow> c = CHR '' '') ?s" by (simp add: py_space_def)
  have "length (failure_kind err @ ?s) \<le> 500" using kind(2) by simp
  moreover have "\<not> blank (failure_kind err @ ?s)" using k kind(3) by (simp add: blank_def)
  moreover have "\<forall>c \<in> set (failure_kind err @ ?s). py_space c \<longrightarrow> c = CHR '' ''"
    using kind(3) suffix unfolding set_append list_all_iff list_ex_iff by blast
  ultimately show ?thesis unfolding res by blast
next
  case False
  let ?m = "py_strip (rx_sub (rx_some (Cls py_space)) (\<lambda>_ _. '' '') None (failure_text err))"
  show ?thesis
  proof (cases ?m)
    case Nil
    then show ?thesis
      using False by (simp add: sanitize_error_message_def Let_def MAX_ERROR_MESSAGE_LENGTH_def blank_def py_space_def)
  next
    case (Cons c cs)
    then have res: "sanitize_error_message err = take 500 (c # cs)"
      using False by (simp add: sanitize_error_message_def Let_def MAX_ERROR_MESSAGE_LENGTH_def)
    have "set (take 500 (c # cs)) \<subseteq> set ?m" unfolding Cons by (rule set_take_subset)
    then have "\<forall>d \<in> set (take 500 (c # cs)). py_space d \<longrightarrow> d = CHR '' ''"
      using set_py_strip collapse_spaces by blast
    moreover have "\<not> blank (take 500 (c # cs))"
      using py_strip_head [OF Cons] by (simp add: blank_def)
    ultimately show ?thesis unfolding res by simp
  qed
qed

end
