(* ===== verification/JobProperties.thy ===== *)
theory JobProperties
  imports JobControl
begin

text \<open>
  A concrete run of the job control, and its properties: exclusive ownership, a completed date that
  is not run again, one terminal transition for each run, and what a diagnostic may hold.
\<close>

section \<open>A run of the job control\<close>

definition demo_job_env :: "uuid \<Rightarrow> job_env" where
  "demo_job_env i = \<lparr>je_uuid4 = i, je_now = 5000, je_fails = (\<lambda>_. False), je_commit = CommitOk\<rparr>"

definition demo_acquire :: "uuid \<Rightarrow> date \<Rightarrow> job_table \<Rightarrow> (job_error + acquisition_result) \<times> job_table" where
  "demo_acquire i day = acquire_job_run (demo_job_env i) (\<lambda>t. t) ''nightly_export'' day None"

definition demo_claimed :: job_table where
  "demo_claimed = snd (demo_acquire 1 20 [])"

definition demo_completed :: job_table where
  "demo_completed = snd (complete_job_run (demo_job_env 0) 1 (Some 9000) demo_claimed)"

definition demo_reacquired :: job_table where
  "demo_reacquired = snd (demo_acquire 2 21 demo_completed)"

definition demo_job :: "uuid \<Rightarrow> date \<Rightarrow> string \<Rightarrow> time option \<Rightarrow> job_run" where
  "demo_job i day st fin = \<lparr>jr_id = i, jr_job_name = ''nightly_export'', jr_target_date = day, jr_status = st,
     jr_started_at = Some 5000, jr_finished_at = fin, jr_error_message = None, jr_created_at = 5000\<rparr>"

lemma demo_job_rows:
  "demo_claimed = [demo_job 1 20 ''processing'' None]" "demo_completed = [demo_job 1 20 ''completed'' (Some 9000)]"
  "demo_reacquired = [demo_job 1 20 ''completed'' (Some 9000), demo_job 2 21 ''processing'' None]"
  by code_simp+

lemma demo_job_runs:
  "demo_acquire 1 20 [] = (Inr \<lparr>aq_status = JobAcquired, aq_run = demo_job 1 20 ''processing'' None\<rparr>, demo_claimed)"
  "complete_job_run (demo_job_env 0) 1 (Some 9000) demo_claimed =
     (Inr \<lparr>tr_changed = True, tr_run = demo_job 1 20 ''completed'' (Some 9000)\<rparr>, demo_completed)"
  "demo_acquire 2 21 demo_completed =
     (Inr \<lparr>aq_status = JobAcquired, aq_run = demo_job 2 21 ''processing'' None\<rparr>, demo_reacquired)"
  "demo_acquire 3 20 demo_reacquired =
     (Inr \<lparr>aq_status = SkippedCompleted, aq_run = demo_job 1 20 ''completed'' (Some 9000)\<rparr>, demo_reacquired)"
  "fail_job_run (demo_job_env 0) 1 (Reported ''late'') None demo_reacquired =
     (Inr \<lparr>tr_changed = False, tr_run = demo_job 1 20 ''completed'' (Some 9000)\<rparr>, demo_reacquired)"
  by code_simp+

lemma demo_job_steps:
  "job_step [] demo_claimed" "job_step demo_claimed demo_completed" "job_step demo_completed demo_reacquired"
  using js_acquire demo_job_runs(1,3) js_complete [OF demo_job_runs(2)] unfolding demo_acquire_def by blast+

lemma demo_job_paths: "job_step\<^sup>*\<^sup>* demo_claimed demo_completed" "job_step\<^sup>*\<^sup>* demo_completed demo_reacquired"
  using demo_job_steps(2,3) by (simp_all add: r_into_rtranclp)

lemma demo_jobs_ok: "jobs_ok demo_claimed" "jobs_ok demo_completed" "jobs_ok demo_reacquired"
  using demo_job_steps jobs_ok_Nil job_steps_ok by (meson r_into_rtranclp)+

section \<open>Ownership\<close>

text \<open>
  C27. Whatever acquisitions and terminal transitions follow each other from an empty table, with
  any failure and any outcome of a commit, no job has two processing runs, no date of a job has two
  runs that are processing or completed, identifiers are unique and every row has the shape of its
  status.
\<close>

theorem job_ownership_exclusive:
  assumes "job_step\<^sup>*\<^sup>* [] t"
  shows "jobs_ok t"
  using job_steps_ok [OF assms jobs_ok_Nil] .

theorem job_ownership_exclusive_witness: "jobs_ok demo_reacquired \<and> length demo_reacquired = 2"
  using job_ownership_exclusive [of demo_reacquired] demo_job_steps
  by (simp add: demo_job_rows(3)) (meson converse_rtranclp_into_rtranclp r_into_rtranclp)

text \<open>
  Once a date completed, no later acquisition of it succeeds, whatever happens in between and
  during its own rollback: the answer is the completed run.
\<close>

theorem completed_date_not_rerun:
  assumes "jobs_ok s" and "r \<in> set s" "for_key name target r" "jr_status r = ''completed''"
    and "job_step\<^sup>*\<^sup>* s t" "job_step\<^sup>*\<^sup>* t (others t)"
    and "acquire_job_run E others name target now t = (Inr a, u)"
  shows "aq_status a = SkippedCompleted \<and> for_key name target (aq_run a) \<and> jr_status (aq_run a) = ''completed''"
  by (rule completed_not_rerun [OF assms])

theorem completed_date_not_rerun_witness:
  "\<exists>a u. demo_acquire 3 20 demo_reacquired = (Inr a, u) \<and> aq_status a = SkippedCompleted"
proof -
  let ?r = "demo_job 1 20 ''completed'' (Some 9000)"
  have r: "?r \<in> set demo_completed" "for_key ''nightly_export'' 20 ?r" "jr_status ?r = ''completed''"
    by (simp_all add: demo_job_rows(2) for_key_def demo_job_def)
  show ?thesis
    using completed_date_not_rerun [OF demo_jobs_ok(2) r demo_job_paths(2) rtranclp.rtrancl_refl
      demo_job_runs(4) [unfolded demo_acquire_def]] demo_job_runs(4) by blast
qed

text \<open>
  Two acquisitions of one job both succeed only if the run of the first was settled in between:
  a job never runs twice at the same time.
\<close>

theorem job_acquired_alone:
  assumes "jobs_ok s" and "acquire_job_run E others name target now s = (Inr a, t)" "aq_status a = JobAcquired"
    and "job_step\<^sup>*\<^sup>* t u"
    and "acquire_job_run E' others' name target' now' u = (Inr b, v)" "aq_status b = JobAcquired"
  shows "\<exists>r \<in> set u. jr_id r = jr_id (aq_run a) \<and> jr_status r \<in> set JOB_TERMINAL_STATUSES"
  by (rule acquired_alone [OF assms])

theorem job_acquired_alone_witness:
  "\<exists>r \<in> set demo_completed. jr_id r = 1 \<and> jr_status r \<in> set JOB_TERMINAL_STATUSES"
  using job_acquired_alone [OF jobs_ok_Nil demo_job_runs(1) [unfolded demo_acquire_def] _
      demo_job_paths(1) demo_job_runs(3) [unfolded demo_acquire_def]]
  by (simp add: demo_job_def)

text \<open>
  A run is settled once: after a completion or a failure that changed it, every later
  completion or failure of it that answers reports no change, shows the row of the first and leaves
  the table alone.
\<close>

theorem job_settled_once:
  assumes "jobs_ok s" and "complete_job_run E i now s = (Inr x, t) \<or> fail_job_run E i err now s = (Inr x, t)"
    and "tr_changed x" and "job_step\<^sup>*\<^sup>* t u"
    and "complete_job_run E' i now' u = (Inr y, v) \<or> fail_job_run E' i err' now' u = (Inr y, v)"
  shows "\<not> tr_changed y \<and> tr_run y = tr_run x \<and> v = u"
  using assms(2,5) unfolding complete_job_run_def fail_job_run_def
  by (elim disjE) (rule terminal_once [OF assms(1) _ _ assms(3,4)], assumption, simp, assumption, simp)+

theorem job_settled_once_witness:
  "\<exists>y. fail_job_run (demo_job_env 0) 1 (Reported ''late'') None demo_reacquired = (Inr y, demo_reacquired) \<and> \<not> tr_changed y"
  using job_settled_once [OF demo_jobs_ok(1) disjI1 [OF demo_job_runs(2)] _ demo_job_paths(2)
      disjI2 [OF demo_job_runs(5)]] demo_job_runs(5) by simp

section \<open>Diagnostics\<close>

text \<open>
  A sanitised diagnostic is bounded: it has at most 500 characters, is not blank and holds
  no white space other than single blanks, so no line of it can forge another, when the type name of
  the exception leaves room for the notice of redaction.
\<close>

theorem sanitized_error_fits:
  assumes "failure_kind err \<noteq> []" "length (failure_kind err) \<le> 464" "\<not> list_ex py_space (failure_kind err)"
  shows "length (sanitize_error_message err) \<le> 500 \<and> \<not> blank (sanitize_error_message err) \<and>
    (\<forall>c \<in> set (sanitize_error_message err). py_space c \<longrightarrow> c = CHR '' '')"
  by (rule sanitize_bounds [OF assms])

theorem sanitized_error_fits_witness:
  "\<not> blank (sanitize_error_message (Raised ''ValueError'' ''token: 42'')) \<and>
   sanitize_error_message (Raised ''ValueError'' ''token: 42'') = ''ValueError failed; sensitive details redacted''"
proof
  show "\<not> blank (sanitize_error_message (Raised ''ValueError'' ''token: 42''))"
    using sanitized_error_fits [of "Raised ''ValueError'' ''token: 42''"] by (simp add: py_space_def)
  show "sanitize_error_message (Raised ''ValueError'' ''token: 42'') = ''ValueError failed; sensitive details redacted''"
    by code_simp
qed

end
