(* ===== verification/DatabaseIdentity.thy ===== *)
theory DatabaseIdentity
  imports Prelude
begin

text \<open>
  The effective identity of a database, \<open>pipelines/database_identity.py\<close>: two engines are accepted
  as source and destination only when the servers themselves answer with different identities. An
  engine carries what the code asks of it; the answer of the identity query is \<open>None\<close> when the query
  fails.
\<close>

definition sqlalchemy_postgresql_url :: "string \<Rightarrow> string" where
  "sqlalchemy_postgresql_url url =
     (if starts_with ''postgresql://'' url
      then ''postgresql+psycopg2://'' @ drop (length ''postgresql://'') url else url)"

record database_identity =
  di_server_address :: string
  di_server_port :: int
  di_database_name :: string
  di_database_oid :: int

record engine =
  en_object :: nat
  en_dialect :: "string option"
  en_url :: "string option"
  en_answer :: "database_identity option"

datatype isolation_error = DatabaseIsolationError string

definition postgresql_database_identity :: "engine \<Rightarrow> isolation_error + database_identity" where
  "postgresql_database_identity e =
     (if en_dialect e \<noteq> Some ''postgresql''
      then Inl (DatabaseIsolationError ''database identity requires PostgreSQL'')
      else case en_answer e of
        None \<Rightarrow> Inl (DatabaseIsolationError ''effective PostgreSQL database identity could not be verified'')
      | Some i \<Rightarrow> Inr i)"

definition same_databases :: isolation_error where
  "same_databases = DatabaseIsolationError ''source and reporting databases must be distinct''"

definition ensure_distinct_postgresql_databases :: "engine \<Rightarrow> engine \<Rightarrow> isolation_error + unit" where
  "ensure_distinct_postgresql_databases source reporting =
     (if en_object source = en_object reporting then Inl same_databases
      else if en_dialect source \<noteq> None \<or> en_dialect reporting \<noteq> None
      then
        if en_dialect source \<noteq> Some ''postgresql'' \<or> en_dialect reporting \<noteq> Some ''postgresql''
        then Inl (DatabaseIsolationError ''source and reporting databases must be PostgreSQL'')
        else
          bind_result (postgresql_database_identity source) (\<lambda>i.
          bind_result (postgresql_database_identity reporting) (\<lambda>j.
          guard (i \<noteq> j) same_databases))
      else guard (en_url source = None \<or> en_url reporting = None \<or> en_url source \<noteq> en_url reporting) same_databases)"

text \<open>Two PostgreSQL engines are accepted exactly when both servers answer, and differently.\<close>

lemma distinct_databases:
  assumes "en_dialect a \<noteq> None \<or> en_dialect b \<noteq> None"
  shows "ensure_distinct_postgresql_databases a b = Inr u \<longleftrightarrow>
    en_object a \<noteq> en_object b \<and> en_dialect a = Some ''postgresql'' \<and> en_dialect b = Some ''postgresql'' \<and>
    (\<exists>i j. en_answer a = Some i \<and> en_answer b = Some j \<and> i \<noteq> j)"
  using assms
  by (auto simp: ensure_distinct_postgresql_databases_def postgresql_database_identity_def bind_result_Inr
      split: option.splits if_splits)

end
