(* ===== verification/OutboxRelay.thy ===== *)
theory OutboxRelay
  imports InventoryOutbox DatabaseIdentity
begin

text \<open>
  The relay from the operational outbox to telemetry, \<open>pipelines/outbox_relay.py\<close>. The two tables
  live in two databases, so a delivery is two transactions: the insert in the destination, then the
  acknowledgement in the source. The row stays locked in between, so what other sessions commit there concerns other rows
  and is placed before or after the iteration. Each iteration has its own environment: whether its
  read fails, which rows other sessions have locked, how its transactions end, and what the hook
  between the two commits raises. The instants of the rows are UTC.
\<close>

record relay_db =
  rl_outbox :: "outbox_row list"
  rl_events :: "telemetry_row list"

record relay_result =
  rs_delivered :: nat
  rs_failed :: nat
  rs_error_codes :: "string list"

text \<open>
  How the destination transaction ends besides by itself: an exception with the name of its type,
  raised before the commit, or by a commit that nevertheless took effect. The same for the source
  transaction.
\<close>

datatype tx_outcome = TxOk | TxFails string | TxLost string

record relay_env =
  rv_read_fails :: "string option"
  rv_locked :: "uuid \<Rightarrow> bool"
  rv_destination :: tx_outcome
  rv_hook :: "string option"
  rv_published_at :: time
  rv_attempt_at :: time
  rv_source :: tx_outcome

datatype relay_error = RelayValueError string | RelayIsolation isolation_error | RelayRaised string

definition safe_error_code :: "string \<Rightarrow> string" where
  "safe_error_code type_name = take 120 (''destination_'' @ py_lower type_name)"

section \<open>The destination\<close>

text \<open>Python's equality of the two dicts, whatever the order of their keys.\<close>

definition same_dict :: "tags \<Rightarrow> tags \<Rightarrow> bool" where
  "same_dict a b \<longleftrightarrow> list_all (\<lambda>(k, _). map_of a k = map_of b k) (a @ b)"

definition same_destination :: "telemetry_row \<Rightarrow> telemetry_row \<Rightarrow> bool" where
  "same_destination a b \<longleftrightarrow> a\<lparr>tr_tags := []\<rparr> = b\<lparr>tr_tags := []\<rparr> \<and> same_dict (tr_tags a) (tr_tags b)"

datatype persist_outcome = Persisted | EventConflict

text \<open>\<open>INSERT ... ON CONFLICT (id) DO NOTHING\<close>, then the row that is there.\<close>

definition persist_destination_event :: "telemetry_row \<Rightarrow> telemetry_row list \<Rightarrow> persist_outcome \<times> telemetry_row list" where
  "persist_destination_event expected table =
     (case find (\<lambda>e. tr_id e = tr_id expected) table of
        None \<Rightarrow> (Persisted, table @ [expected])
      | Some actual \<Rightarrow> (if same_destination actual expected then Persisted else EventConflict, table))"

section \<open>One iteration\<close>

definition pending :: "outbox_row \<Rightarrow> bool" where
  "pending r \<longleftrightarrow> ob_published_at r = None"

text \<open>\<open>ORDER BY occurred_at, event_id FOR UPDATE SKIP LOCKED LIMIT 1\<close>.\<close>

definition next_pending :: "relay_env \<Rightarrow> outbox_row list \<Rightarrow> outbox_row option" where
  "next_pending E table =
     (case sort_key (\<lambda>r. (ob_occurred_at r, ob_event_id r))
        (filter (\<lambda>r. pending r \<and> \<not> rv_locked E (ob_event_id r)) table) of
        [] \<Rightarrow> None | r # _ \<Rightarrow> Some r)"

definition outbox_to_row :: "outbox_row \<Rightarrow> telemetry_row" where
  "outbox_to_row r = map_outbox_event_to_row (ob_event_id r) (ob_occurred_at r) (ob_event_type r) (ob_tags r)"

definition record_attempt :: "time \<Rightarrow> string \<Rightarrow> outbox_row \<Rightarrow> outbox_row" where
  "record_attempt now code r =
     r\<lparr>ob_attempt_count := ob_attempt_count r + 1, ob_last_attempt_at := Some now, ob_last_error := Some code\<rparr>"

definition acknowledge :: "time \<Rightarrow> time \<Rightarrow> outbox_row \<Rightarrow> outbox_row" where
  "acknowledge published now r =
     r\<lparr>ob_published_at := Some published, ob_attempt_count := ob_attempt_count r + 1,
       ob_last_attempt_at := Some now, ob_last_error := None\<rparr>"

text \<open>The destination transaction: \<open>None\<close> when it commits, or the code of the failure.\<close>

definition destination_transaction :: "relay_env \<Rightarrow> telemetry_row \<Rightarrow> telemetry_row list \<Rightarrow> string option \<times> telemetry_row list" where
  "destination_transaction E expected table =
     (case rv_destination E of
        TxFails type_name \<Rightarrow> (Some (safe_error_code type_name), table)
      | outcome \<Rightarrow>
         (case persist_destination_event expected table of
            (EventConflict, _) \<Rightarrow> (Some ''destination_event_conflict'', table)
          | (Persisted, table') \<Rightarrow>
              ((case outcome of TxLost type_name \<Rightarrow> Some (safe_error_code type_name) | _ \<Rightarrow> None), table')))"

definition source_transaction :: "relay_env \<Rightarrow> 'a \<Rightarrow> outbox_row list \<Rightarrow> relay_db \<Rightarrow> (relay_error + 'a) \<times> relay_db" where
  "source_transaction E a table s =
     (case rv_source E of
        TxOk \<Rightarrow> (Inr a, s\<lparr>rl_outbox := table\<rparr>)
      | TxFails type_name \<Rightarrow> (Inl (RelayRaised type_name), s)
      | TxLost type_name \<Rightarrow> (Inl (RelayRaised type_name), s\<lparr>rl_outbox := table\<rparr>))"

datatype iteration = NothingPending | Delivered | NotDelivered string

definition relay_iteration :: "relay_env \<Rightarrow> relay_db \<Rightarrow> (relay_error + iteration) \<times> relay_db" where
  "relay_iteration E s =
     (case (rv_read_fails E, next_pending E (rl_outbox s)) of
        (Some type_name, _) \<Rightarrow> (Inl (RelayRaised type_name), s)
      | (None, None) \<Rightarrow> source_transaction E NothingPending (rl_outbox s) s
      | (None, Some item) \<Rightarrow>
         (case destination_transaction E (outbox_to_row item) (rl_events s) of
            (Some code, events) \<Rightarrow>
              source_transaction E (NotDelivered code)
                (sql_update (\<lambda>r. ob_event_id r = ob_event_id item) (record_attempt (rv_attempt_at E) code) (rl_outbox s))
                (s\<lparr>rl_events := events\<rparr>)
          | (None, events) \<Rightarrow>
             (case rv_hook E of
                Some type_name \<Rightarrow> (Inl (RelayRaised type_name), s\<lparr>rl_events := events\<rparr>)
              | None \<Rightarrow>
                  source_transaction E Delivered
                    (sql_update (\<lambda>r. ob_event_id r = ob_event_id item \<and> ob_published_at r = None)
                      (acknowledge (rv_published_at E) (rv_attempt_at E)) (rl_outbox s))
                    (s\<lparr>rl_events := events\<rparr>))))"

section \<open>The loop\<close>

text \<open>
  \<open>E n\<close> is the environment of iteration \<open>n\<close>, and \<open>others n\<close> what other sessions committed before
  it.
\<close>

fun relay_loop ::
  "(nat \<Rightarrow> relay_env) \<Rightarrow> (nat \<Rightarrow> relay_db \<Rightarrow> relay_db) \<Rightarrow> nat \<Rightarrow> nat \<Rightarrow> nat \<Rightarrow> relay_db \<Rightarrow>
   (relay_error + relay_result) \<times> relay_db" where
  "relay_loop E others n 0 delivered s = (Inr \<lparr>rs_delivered = delivered, rs_failed = 0, rs_error_codes = []\<rparr>, s)"
| "relay_loop E others n (Suc k) delivered s =
     (case relay_iteration (E n) (others n s) of
        (Inl e, t) \<Rightarrow> (Inl e, t)
      | (Inr NothingPending, t) \<Rightarrow> (Inr \<lparr>rs_delivered = delivered, rs_failed = 0, rs_error_codes = []\<rparr>, t)
      | (Inr (NotDelivered code), t) \<Rightarrow>
          (Inr \<lparr>rs_delivered = delivered, rs_failed = 1, rs_error_codes = [code]\<rparr>, t)
      | (Inr Delivered, t) \<Rightarrow> relay_loop E others (Suc n) k (Suc delivered) t)"

definition relay_inventory_outbox ::
  "(nat \<Rightarrow> relay_env) \<Rightarrow> (nat \<Rightarrow> relay_db \<Rightarrow> relay_db) \<Rightarrow> engine \<Rightarrow> engine \<Rightarrow> int \<Rightarrow> relay_db \<Rightarrow>
   (relay_error + relay_result) \<times> relay_db" where
  "relay_inventory_outbox E others source reporting limit s =
     (if limit \<le> 0 then (Inl (RelayValueError ''relay limit must be a positive integer''), s)
      else case ensure_distinct_postgresql_databases source reporting of
        Inl e \<Rightarrow> (Inl (RelayIsolation e), s)
      | Inr _ \<Rightarrow> relay_loop E others 0 (nat limit) 0 s)"

end
