(* ===== verification/RelayDelivery.thy ===== *)
theory RelayDelivery
  imports OutboxRelay
begin

text \<open>
  What the relay guarantees: an acknowledged event is in telemetry, once and as the outbox has it,
  whatever failed and in whatever order producers and relays took turns; a run without failures
  empties the outbox in order; an event whose identity is taken blocks the ones behind it.
\<close>

section \<open>The invariant\<close>

definition event_ids :: "telemetry_row list \<Rightarrow> uuid list" where
  "event_ids table = concat (map (\<lambda>e. case tr_id e of None \<Rightarrow> [] | Some i \<Rightarrow> [i]) table)"

definition in_telemetry :: "telemetry_row list \<Rightarrow> outbox_row \<Rightarrow> bool" where
  "in_telemetry table r \<longleftrightarrow> (\<exists>e \<in> set table. tr_id e = Some (ob_event_id r) \<and> same_destination e (outbox_to_row r))"

definition relay_ok :: "relay_db \<Rightarrow> bool" where
  "relay_ok s \<longleftrightarrow> outbox_wf (rl_outbox s) \<and> distinct (event_ids (rl_events s)) \<and>
     (\<forall>r \<in> set (rl_outbox s). \<not> pending r \<longrightarrow> in_telemetry (rl_events s) r)"

text \<open>Producers, relays and the telemetry of the API, in any order.\<close>

inductive relay_step :: "relay_db \<Rightarrow> relay_db \<Rightarrow> bool" where
  rl_iterate: "relay_iteration E s = (res, t) \<Longrightarrow> relay_step s t"
| rl_enqueue: "enqueue_inventory_event i tm st pk et tgs (rl_outbox s) = (res_u, table) \<Longrightarrow>
    relay_step s (s\<lparr>rl_outbox := table\<rparr>)"
| rl_telemetry: "persist_backend_telemetry db_ok evs (rl_events s) = (res_u, table) \<Longrightarrow>
    relay_step s (s\<lparr>rl_events := table\<rparr>)"

lemma outbox_to_row_simps [simp]: "tr_id (outbox_to_row r) = Some (ob_event_id r)"
  by (simp add: outbox_to_row_def map_outbox_event_to_row_def)

lemma set_event_ids: "i \<in> set (event_ids table) \<longleftrightarrow> (\<exists>e \<in> set table. tr_id e = Some i)"
  unfolding event_ids_def by (induction table) (auto split: option.splits)

lemma event_ids_append [simp]: "event_ids (a @ b) = event_ids a @ event_ids b"
  "event_ids [e] = (case tr_id e of None \<Rightarrow> [] | Some i \<Rightarrow> [i])"
  by (simp_all add: event_ids_def)

lemma same_destination_refl [simp]: "same_destination e e"
  by (auto simp: same_destination_def same_dict_def list_all_iff)

lemma in_telemetry_mono: "in_telemetry a r \<Longrightarrow> set a \<subseteq> set b \<Longrightarrow> in_telemetry b r"
  by (auto simp: in_telemetry_def)

text \<open>The columns of an outbox row that no relay writes.\<close>

lemma row_updates [simp]:
  "ob_event_id (record_attempt now code r) = ob_event_id r" "ob_event_id (acknowledge pub now r) = ob_event_id r"
  "outbox_to_row (record_attempt now code r) = outbox_to_row r" "outbox_to_row (acknowledge pub now r) = outbox_to_row r"
  "ob_source (record_attempt now code r) = ob_source r" "ob_source (acknowledge pub now r) = ob_source r"
  "pending (record_attempt now code r) = pending r" "\<not> pending (acknowledge pub now r)"
  by (simp_all add: record_attempt_def acknowledge_def outbox_to_row_def ob_source_def pending_def)

lemma in_telemetry_updates [simp]:
  "in_telemetry table (record_attempt now code r) = in_telemetry table r"
  "in_telemetry table (acknowledge pub now r) = in_telemetry table r"
  by (simp_all add: in_telemetry_def)

lemma update_outbox_wf:
  assumes "outbox_wf table" and "f \<in> {record_attempt now code, acknowledge pub now}"
  shows "outbox_wf (sql_update p f table)"
proof -
  have f: "ob_event_id (f r) = ob_event_id r" "ob_source (f r) = ob_source r"
    "ob_source_table (f r) = ob_source_table r" "ob_event_type (f r) = ob_event_type r"
    "ob_source_pk (f r) = ob_source_pk r" "ob_attempt_count (f r) = ob_attempt_count r + 1" for r
    using assms(2) by (auto simp: record_attempt_def acknowledge_def ob_source_def)
  show ?thesis
    using assms(1) unfolding outbox_wf_def
    by (auto simp: keys_unique_update f set_sql_update)
qed

lemma next_pending_Some:
  assumes "next_pending E table = Some r"
  shows "r \<in> set table \<and> pending r \<and> \<not> rv_locked E (ob_event_id r)"
proof -
  let ?rows = "sort_key (\<lambda>r. (ob_occurred_at r, ob_event_id r)) (filter (\<lambda>r. pending r \<and> \<not> rv_locked E (ob_event_id r)) table)"
  obtain rs where "?rows = r # rs" using assms by (auto simp: next_pending_def split: list.splits)
  then have "r \<in> set ?rows" by (metis list.set_intros(1))
  then show ?thesis by simp
qed

lemma persist_Persisted:
  assumes "persist_destination_event x table = (Persisted, table')" and "distinct (event_ids table)"
  shows "distinct (event_ids table') \<and> set table \<subseteq> set table' \<and> (\<exists>e \<in> set table'. tr_id e = tr_id x \<and> same_destination e x)"
proof (cases "find (\<lambda>e. tr_id e = tr_id x) table")
  case None
  then have "table' = table @ [x]" using assms(1) by (simp add: persist_destination_event_def)
  moreover have "i \<notin> set (event_ids table)" if "tr_id x = Some i" for i
    using that find_NoneD [OF None] by (auto simp: set_event_ids)
  ultimately show ?thesis using assms(2) by (auto split: option.splits)
next
  case (Some e)
  then show ?thesis
    using assms find_SomeD [OF Some] by (auto simp: persist_destination_event_def split: if_splits)
qed

lemma destination_grows:
  assumes "destination_transaction E x table = (code, table')" and "distinct (event_ids table)"
  shows "distinct (event_ids table') \<and> set table \<subseteq> set table' \<and>
    (code = None \<longrightarrow> (\<exists>e \<in> set table'. tr_id e = tr_id x \<and> same_destination e x))"
proof (cases "persist_destination_event x table")
  case (Pair o' t1)
  show ?thesis
  proof (cases o')
    case Persisted
    then show ?thesis
      using assms persist_Persisted [OF Pair [unfolded Persisted] assms(2)] Pair
      by (auto simp: destination_transaction_def split: tx_outcome.splits)
  next
    case EventConflict
    then show ?thesis
      using assms Pair by (auto simp: destination_transaction_def split: tx_outcome.splits)
  qed
qed

lemma source_transaction_outbox:
  "source_transaction E a table s = (res, t) \<Longrightarrow> rl_events t = rl_events s \<and> rl_outbox t \<in> {rl_outbox s, table}"
  by (auto simp: source_transaction_def split: tx_outcome.splits)

lemma relay_ok_events:
  "relay_ok s \<Longrightarrow> set (rl_events s) \<subseteq> set ev \<Longrightarrow> distinct (event_ids ev) \<Longrightarrow> relay_ok (s\<lparr>rl_events := ev\<rparr>)"
  by (auto simp: relay_ok_def intro: in_telemetry_mono)

lemma relay_iteration_ok:
  assumes ok: "relay_ok s" and run: "relay_iteration E s = (res, t)"
  shows "relay_ok t"
proof (cases "rv_read_fails E = None \<and> next_pending E (rl_outbox s) \<noteq> None")
  case False
  then have "t = s"
    using run by (auto simp: relay_iteration_def source_transaction_def split: option.splits tx_outcome.splits)
  then show ?thesis using ok by simp
next
  case True
  then obtain r where r: "next_pending E (rl_outbox s) = Some r" by blast
  obtain code ev where d: "destination_transaction E (outbox_to_row r) (rl_events s) = (code, ev)" by fastforce
  have wf: "outbox_wf (rl_outbox s)" "distinct (event_ids (rl_events s))" using ok by (simp_all add: relay_ok_def)
  note g = destination_grows [OF d wf(2)]
  have mid: "relay_ok (s\<lparr>rl_events := ev\<rparr>)" using relay_ok_events [OF ok] g by blast
  have swap: "relay_ok (s\<lparr>rl_events := ev, rl_outbox := table\<rparr>)"
    if "outbox_wf table" "\<And>x. x \<in> set table \<Longrightarrow> \<not> pending x \<Longrightarrow> in_telemetry ev x" for table
    using that mid by (simp add: relay_ok_def)
  show ?thesis
  proof (cases code)
    case (Some c)
    let ?f = "record_attempt (rv_attempt_at E) c"
    let ?table = "sql_update (\<lambda>x. ob_event_id x = ob_event_id r) ?f (rl_outbox s)"
    have "relay_ok (s\<lparr>rl_events := ev, rl_outbox := ?table\<rparr>)"
    proof (rule swap)
      show "outbox_wf ?table" by (rule update_outbox_wf [OF wf(1)]) (rule insertI1)
      show "in_telemetry ev x" if "x \<in> set ?table" "\<not> pending x" for x
        using that mid by (auto simp: set_sql_update relay_ok_def)
    qed
    moreover have "t = s\<lparr>rl_events := ev\<rparr> \<or> t = s\<lparr>rl_events := ev, rl_outbox := ?table\<rparr>"
      using run True r d Some
      by (auto simp: relay_iteration_def source_transaction_def split: tx_outcome.splits)
    ultimately show ?thesis using mid by auto
  next
    case None
    let ?f = "acknowledge (rv_published_at E) (rv_attempt_at E)"
    let ?p = "\<lambda>x. ob_event_id x = ob_event_id r \<and> ob_published_at x = None"
    let ?table = "sql_update ?p ?f (rl_outbox s)"
    have "relay_ok (s\<lparr>rl_events := ev, rl_outbox := ?table\<rparr>)"
    proof (rule swap)
      show "outbox_wf ?table" by (rule update_outbox_wf [OF wf(1)]) (rule insertI2, rule insertI1)
      show "in_telemetry ev x" if x: "x \<in> set ?table" "\<not> pending x" for x
      proof -
        from x(1) consider "x \<in> set (rl_outbox s)" | y where "y \<in> set (rl_outbox s)" "?p y" "x = ?f y"
          by (auto simp: set_sql_update)
        then show ?thesis
        proof cases
          case 1
          then show ?thesis using mid x(2) by (simp add: relay_ok_def)
        next
          case 2
          have "y = r" using 2 wf(1) next_pending_Some [OF r] by (auto simp: outbox_wf_def dest: keys_uniqueD)
          then show ?thesis using g None 2(3) by (simp add: in_telemetry_def)
        qed
      qed
    qed
    moreover have "t = s\<lparr>rl_events := ev\<rparr> \<or> t = s\<lparr>rl_events := ev, rl_outbox := ?table\<rparr>"
      using run True r d None
      by (auto simp: relay_iteration_def source_transaction_def split: tx_outcome.splits option.splits)
    ultimately show ?thesis using mid by auto
  qed
qed

lemma relay_step_ok: "relay_step s t \<Longrightarrow> relay_ok s \<Longrightarrow> relay_ok t"
proof (induction rule: relay_step.induct)
  case (rl_iterate E s res t)
  then show ?case using relay_iteration_ok by blast
next
  case (rl_enqueue i tm st pk et tgs s res_u table)
  have wf: "outbox_wf table"
    using enqueue_wf [of "rl_outbox s" i tm st pk et tgs] rl_enqueue by (simp add: relay_ok_def)
  have "x \<in> set (rl_outbox s) \<or> pending x" if "x \<in> set table" for x
  proof (cases res_u)
    case (Inl e)
    then show ?thesis using that rl_enqueue.hyps enqueue_Inl by blast
  next
    case (Inr u)
    then show ?thesis using that rl_enqueue.hyps by (auto simp: enqueue_Inr pending_def)
  qed
  then show ?case using wf rl_enqueue.prems by (auto simp: relay_ok_def)
next
  case (rl_telemetry db_ok evs s res_u table)
  obtain rows where rows: "table = rl_events s @ rows" "\<forall>e \<in> set rows. tr_id e = None"
    using rl_telemetry.hyps
    by (auto simp: persist_backend_telemetry_def bulk_insert_telemetry_def map_event_to_row_def split: if_splits)
  have "event_ids rows = []" using rows(2) by (simp add: event_ids_def)
  then show ?case using relay_ok_events [OF rl_telemetry.prems, of table] rows(1) rl_telemetry.prems by (simp add: relay_ok_def)
qed

lemma relay_steps_ok: "relay_step\<^sup>*\<^sup>* s t \<Longrightarrow> relay_ok s \<Longrightarrow> relay_ok t"
  by (induction rule: rtranclp_induct) (auto dest: relay_step_ok)

text \<open>An event is in telemetry at most once.\<close>

lemma in_telemetry_once:
  assumes "distinct (event_ids table)" and "in_telemetry table r"
  shows "\<exists>e. filter (\<lambda>e. tr_id e = Some (ob_event_id r)) table = [e] \<and> same_destination e (outbox_to_row r)"
  using assms
proof (induction table)
  case (Cons x table)
  show ?case
  proof (cases "tr_id x = Some (ob_event_id r)")
    case True
    then have "filter (\<lambda>e. tr_id e = Some (ob_event_id r)) table = []"
      using Cons.prems(1) set_event_ids [of "ob_event_id r" table] by (auto simp: event_ids_def filter_empty_conv)
    moreover have "same_destination x (outbox_to_row r)"
      using Cons.prems True calculation by (auto simp: in_telemetry_def filter_empty_conv)
    ultimately show ?thesis using True by simp
  next
    case False
    then have "in_telemetry table r" using Cons.prems(2) by (auto simp: in_telemetry_def)
    moreover have "distinct (event_ids table)" using Cons.prems(1) by (simp add: event_ids_def split: option.splits)
    ultimately show ?thesis using Cons.IH False by simp
  qed
qed (simp add: in_telemetry_def)

section \<open>A run without failures\<close>

definition calm :: "relay_env \<Rightarrow> bool" where
  "calm E \<longleftrightarrow> rv_read_fails E = None \<and> rv_locked E = (\<lambda>_. False) \<and> rv_destination E = TxOk \<and>
     rv_hook E = None \<and> rv_source E = TxOk"

text \<open>The pending rows in the order of delivery.\<close>

definition backlog :: "relay_db \<Rightarrow> outbox_row list" where
  "backlog s = sort_key (\<lambda>r. (ob_occurred_at r, ob_event_id r)) (filter pending (rl_outbox s))"

text \<open>Whether the identity of an event is free in telemetry, or holds the event itself.\<close>

definition deliverable :: "telemetry_row list \<Rightarrow> outbox_row \<Rightarrow> bool" where
  "deliverable table r \<longleftrightarrow>
     (\<forall>e \<in> set table. tr_id e = Some (ob_event_id r) \<longrightarrow> same_destination e (outbox_to_row r))"

definition absent :: "telemetry_row list \<Rightarrow> outbox_row \<Rightarrow> bool" where
  "absent table r \<longleftrightarrow> Some (ob_event_id r) \<notin> tr_id ` set table"

lemma next_pending_calm: "calm E \<Longrightarrow> next_pending E (rl_outbox s) = (case backlog s of [] \<Rightarrow> None | r # _ \<Rightarrow> Some r)"
  by (simp add: next_pending_def calm_def backlog_def)

lemma set_backlog: "r \<in> set (backlog s) \<longleftrightarrow> r \<in> set (rl_outbox s) \<and> pending r"
  by (auto simp: backlog_def)

lemma backlog_distinct: "keys_unique ob_event_id (rl_outbox s) \<Longrightarrow> keys_unique ob_event_id (backlog s)"
  unfolding keys_unique_def backlog_def
  by (auto simp: distinct_map distinct_sort inj_on_def)

lemma filter_acknowledged:
  "filter pending (sql_update (\<lambda>x. ob_event_id x = i \<and> ob_published_at x = None) (acknowledge pub now) table) =
   filter (\<lambda>x. ob_event_id x \<noteq> i) (filter pending table)"
  unfolding sql_update_def by (induction table) (auto simp: pending_def acknowledge_def)

lemma acknowledge_pending:
  assumes uniq: "keys_unique ob_event_id (rl_outbox s)" and r: "backlog s = r # rs"
    and t: "rl_outbox t = sql_update (\<lambda>x. ob_event_id x = ob_event_id r \<and> ob_published_at x = None) (acknowledge pub now) (rl_outbox s)"
  shows "backlog t = rs"
proof -
  have "filter pending (rl_outbox t) = filter (\<lambda>x. ob_event_id x \<noteq> ob_event_id r) (filter pending (rl_outbox s))"
    unfolding t by (rule filter_acknowledged)
  then have "backlog t = filter (\<lambda>x. ob_event_id x \<noteq> ob_event_id r) (backlog s)"
    by (simp add: backlog_def filter_sort)
  moreover have "filter (\<lambda>x. ob_event_id x \<noteq> ob_event_id r) rs = rs"
    using backlog_distinct [OF uniq] r by (intro filter_True) (auto simp: image_iff)
  ultimately show ?thesis using r by simp
qed

lemma persist_deliverable:
  assumes "deliverable table r"
  shows "persist_destination_event (outbox_to_row r) table =
    (Persisted, table @ (if absent table r then [outbox_to_row r] else []))"
proof (cases "find (\<lambda>e. tr_id e = tr_id (outbox_to_row r)) table")
  case None
  then have "absent table r" unfolding absent_def using find_NoneD [OF None] by (metis imageE outbox_to_row_simps)
  then show ?thesis using None by (simp add: persist_destination_event_def)
next
  case (Some e)
  then have e: "e \<in> set table" "tr_id e = Some (ob_event_id r)" using find_SomeD [OF Some] by simp_all
  then have "\<not> absent table r" unfolding absent_def by (metis imageI)
  moreover have "same_destination e (outbox_to_row r)" using assms e by (simp add: deliverable_def)
  ultimately show ?thesis using Some by (simp add: persist_destination_event_def)
qed

lemma calm_iteration:
  assumes calm: "calm E" and uniq: "keys_unique ob_event_id (rl_outbox s)" and r: "backlog s = r # rs"
    and d: "deliverable (rl_events s) r"
  obtains t where "relay_iteration E s = (Inr Delivered, t)" "backlog t = rs" "keys_unique ob_event_id (rl_outbox t)"
    "rl_events t = rl_events s @ (if absent (rl_events s) r then [outbox_to_row r] else [])"
    "\<And>x. x \<in> set (rl_outbox s) \<Longrightarrow> \<not> pending x \<Longrightarrow> x \<in> set (rl_outbox t)"
proof
  let ?f = "acknowledge (rv_published_at E) (rv_attempt_at E)"
  let ?p = "\<lambda>x. ob_event_id x = ob_event_id r \<and> ob_published_at x = None"
  let ?t = "s\<lparr>rl_events := rl_events s @ (if absent (rl_events s) r then [outbox_to_row r] else []),
    rl_outbox := sql_update ?p ?f (rl_outbox s)\<rparr>"
  show "relay_iteration E s = (Inr Delivered, ?t)"
    using calm next_pending_calm [OF calm, of s] r persist_deliverable [OF d]
    by (simp add: relay_iteration_def destination_transaction_def source_transaction_def calm_def)
  show "backlog ?t = rs" by (rule acknowledge_pending [OF uniq r]) simp
  show "keys_unique ob_event_id (rl_outbox ?t)" using uniq by (simp add: keys_unique_update)
  show "x \<in> set (rl_outbox ?t)" if "x \<in> set (rl_outbox s)" "\<not> pending x" for x
    using that by (force simp: set_sql_update pending_def)
qed simp

lemma absent_append:
  "absent (table @ (if b then [outbox_to_row r] else [])) x \<longleftrightarrow> absent table x \<and> (b \<longrightarrow> ob_event_id x \<noteq> ob_event_id r)"
  by (auto simp: absent_def)

lemma calm_relay_loop:
  assumes "\<And>n. calm (E n)" and "keys_unique ob_event_id (rl_outbox s)"
    and "\<forall>r \<in> set (backlog s). deliverable (rl_events s) r"
  shows "\<exists>t. relay_loop E (\<lambda>_ u. u) n k d s =
      (Inr \<lparr>rs_delivered = d + min k (length (backlog s)), rs_failed = 0, rs_error_codes = []\<rparr>, t) \<and>
    backlog t = drop k (backlog s) \<and>
    rl_events t = rl_events s @ map outbox_to_row (filter (absent (rl_events s)) (take k (backlog s))) \<and>
    (\<forall>x \<in> set (rl_outbox s). \<not> pending x \<longrightarrow> x \<in> set (rl_outbox t))"
  using assms
proof (induction k arbitrary: s n d)
  case (Suc k)
  show ?case
  proof (cases "backlog s")
    case Nil
    then have "relay_iteration (E n) s = (Inr NothingPending, s)"
      using next_pending_calm [OF Suc.prems(1) [of n], of s] Suc.prems(1) [of n]
      by (simp add: relay_iteration_def source_transaction_def calm_def)
    then show ?thesis using Nil by simp
  next
    case (Cons r rs)
    have "deliverable (rl_events s) r" using Suc.prems(3) Cons by simp
    then obtain t where t: "relay_iteration (E n) s = (Inr Delivered, t)" "backlog t = rs"
      "keys_unique ob_event_id (rl_outbox t)"
      "rl_events t = rl_events s @ (if absent (rl_events s) r then [outbox_to_row r] else [])"
      "\<And>x. x \<in> set (rl_outbox s) \<Longrightarrow> \<not> pending x \<Longrightarrow> x \<in> set (rl_outbox t)"
      using calm_iteration [OF Suc.prems(1) Suc.prems(2) Cons] by blast
    have new: "ob_event_id x \<noteq> ob_event_id r" if "x \<in> set rs" for x
      using backlog_distinct [OF Suc.prems(2)] Cons that by (auto simp: image_iff)
    have "deliverable (rl_events t) x" if "x \<in> set (backlog t)" for x
      using Suc.prems(3) that new [of x] Cons unfolding t(2,4) deliverable_def by (auto split: if_splits)
    then have "\<forall>x \<in> set (backlog t). deliverable (rl_events t) x" by blast
    from Suc.IH [OF Suc.prems(1) t(3) this, of "Suc n" "Suc d"] obtain u where
      u: "relay_loop E (\<lambda>_ u. u) (Suc n) k (Suc d) t =
        (Inr \<lparr>rs_delivered = Suc d + min k (length rs), rs_failed = 0, rs_error_codes = []\<rparr>, u)"
      "backlog u = drop k rs"
      "rl_events u = rl_events t @ map outbox_to_row (filter (absent (rl_events t)) (take k rs))"
      "\<forall>x \<in> set (rl_outbox t). \<not> pending x \<longrightarrow> x \<in> set (rl_outbox u)"
      unfolding t(2) by blast
    have "filter (absent (rl_events t)) (take k rs) = filter (absent (rl_events s)) (take k rs)"
      using new by (intro filter_cong) (auto simp: t(4) absent_append dest: in_set_takeD)
    then show ?thesis
      using u t Cons by (intro exI [of _ u]) (auto simp: min_def)
  qed
qed simp

section \<open>A conflict\<close>

lemma conflict_blocks:
  assumes calm: "calm (E 0)" and r: "backlog s = r # rs"
    and e: "find (\<lambda>e. tr_id e = Some (ob_event_id r)) (rl_events s) = Some e" "\<not> same_destination e (outbox_to_row r)"
    and k: "0 < k"
  shows "relay_loop E (\<lambda>_ u. u) 0 k 0 s =
    (Inr \<lparr>rs_delivered = 0, rs_failed = 1, rs_error_codes = [''destination_event_conflict'']\<rparr>,
     s\<lparr>rl_outbox := sql_update (\<lambda>x. ob_event_id x = ob_event_id r)
       (record_attempt (rv_attempt_at (E 0)) ''destination_event_conflict'') (rl_outbox s)\<rparr>)"
proof -
  have "relay_iteration (E 0) s = (Inr (NotDelivered ''destination_event_conflict''),
     s\<lparr>rl_outbox := sql_update (\<lambda>x. ob_event_id x = ob_event_id r)
       (record_attempt (rv_attempt_at (E 0)) ''destination_event_conflict'') (rl_outbox s)\<rparr>)"
    using calm next_pending_calm [OF calm, of s] r e
    by (simp add: relay_iteration_def destination_transaction_def source_transaction_def calm_def
        persist_destination_event_def)
  then show ?thesis using k by (cases k) simp_all
qed

text \<open>Whatever happens, an answer reports at most one failure, with a bounded code.\<close>

lemma iteration_code:
  "relay_iteration E s = (Inr (NotDelivered code), t) \<Longrightarrow> length code \<le> 120"
  by (auto simp: relay_iteration_def source_transaction_def destination_transaction_def safe_error_code_def
      split: option.splits tx_outcome.splits prod.splits persist_outcome.splits)

lemma relay_loop_bounds:
  "relay_loop E others n k d s = (Inr a, t) \<Longrightarrow> rs_failed a = length (rs_error_codes a) \<and> rs_failed a \<le> 1 \<and>
     d \<le> rs_delivered a \<and> rs_delivered a + rs_failed a \<le> d + k \<and> (\<forall>c \<in> set (rs_error_codes a). length c \<le> 120)"
proof (induction k arbitrary: n d s)
  case (Suc k)
  show ?case
  proof (cases "relay_iteration (E n) (others n s)")
    case (Pair res u)
    show ?thesis
    proof (cases res)
      case (Inr it)
      show ?thesis
      proof (cases it)
        case Delivered
        then show ?thesis using Suc.IH [of "Suc n" "Suc d" u] Suc.prems Pair Inr by auto
      next
        case (NotDelivered code)
        then show ?thesis using Suc.prems Pair Inr iteration_code [of "E n" "others n s" code u] by auto
      qed (use Suc.prems Pair Inr in auto)
    qed (use Suc.prems Pair in simp)
  qed
qed auto

end
