(* ===== verification/RelayProperties.thy ===== *)
theory RelayProperties
  imports RelayDelivery
begin

text \<open>
  The properties of the relay, with a run of two events: the relay delivers the first, stops after
  its delivery of the second but before the acknowledgement, and is run again.
\<close>

section \<open>A run of the relay\<close>

definition demo_event :: "nat \<Rightarrow> uuid" where
  "demo_event n = 0x40008000000000000000 + word_of_nat n"

definition demo_engine :: "nat \<Rightarrow> engine" where
  "demo_engine n = \<lparr>en_object = n, en_dialect = Some ''postgresql'', en_url = None,
     en_answer = Some \<lparr>di_server_address = ''db'', di_server_port = 5432, di_database_name = ''d'', di_database_oid = int n\<rparr>\<rparr>"

definition demo_relay_env :: "nat \<Rightarrow> relay_env" where
  "demo_relay_env n = \<lparr>rv_read_fails = None, rv_locked = (\<lambda>_. False), rv_destination = TxOk, rv_hook = None,
     rv_published_at = 100, rv_attempt_at = 101, rv_source = TxOk\<rparr>"

definition demo_crash_env :: "nat \<Rightarrow> relay_env" where
  "demo_crash_env n = (demo_relay_env n)\<lparr>rv_hook := (if n = 1 then Some ''Crash'' else None)\<rparr>"

definition demo_outbox_row :: "nat \<Rightarrow> outbox_row" where
  "demo_outbox_row n = new_outbox_row (demo_event n) (int n) ''stockentry'' (int n) ''inbound_order_created''
     [(''quantity'', JInt 5), (''secret'', JInt 1)]"

definition demo_queue :: relay_db where
  "demo_queue = \<lparr>rl_outbox = [demo_outbox_row 2, demo_outbox_row 1], rl_events = []\<rparr>"

definition demo_crashed :: relay_db where
  "demo_crashed = snd (relay_inventory_outbox demo_crash_env (\<lambda>_ u. u) (demo_engine 1) (demo_engine 2) 100 demo_queue)"

definition demo_taken :: relay_db where
  "demo_taken = demo_queue\<lparr>rl_events := [(outbox_to_row (demo_outbox_row 1))\<lparr>tr_service := ''web''\<rparr>]\<rparr>"

lemma demo_crash_run:
  "demo_crashed = \<lparr>rl_outbox = [demo_outbox_row 2, acknowledge 100 101 (demo_outbox_row 1)],
     rl_events = [outbox_to_row (demo_outbox_row 1), outbox_to_row (demo_outbox_row 2)]\<rparr>"
  by code_simp

lemma demo_iterations:
  "fst (relay_iteration (demo_crash_env 0) demo_queue) = Inr Delivered"
  "relay_iteration (demo_crash_env 1) (snd (relay_iteration (demo_crash_env 0) demo_queue)) = (Inl (RelayRaised ''Crash''), demo_crashed)"
  by code_simp+

lemma demo_calm [simp]: "calm (demo_relay_env n)"
  by (simp add: calm_def demo_relay_env_def)

lemma demo_backlogs:
  "backlog demo_crashed = [demo_outbox_row 2]" "backlog demo_taken = [demo_outbox_row 1, demo_outbox_row 2]"
  by code_simp+

lemma demo_crashed_unique: "keys_unique ob_event_id (rl_outbox demo_crashed)"
  by (simp add: demo_crash_run demo_outbox_row_def new_outbox_row_def acknowledge_def demo_event_def)

section \<open>Properties\<close>

text \<open>
  C30. An acknowledged event has been delivered, once: whatever producers, relays and other
  telemetry writers do, in any order and with any failure of a statement, a commit or the process
  between the two commits, each outbox row that is marked as published has exactly one telemetry row
  with its identity, and that row is the projection of the event.
\<close>

theorem relay_acknowledges_delivered:
  assumes "relay_step\<^sup>*\<^sup>* \<lparr>rl_outbox = [], rl_events = []\<rparr> t"
    and "r \<in> set (rl_outbox t)" and "ob_published_at r \<noteq> None"
  shows "\<exists>e. filter (\<lambda>e. tr_id e = Some (ob_event_id r)) (rl_events t) = [e] \<and> same_destination e (outbox_to_row r)"
proof -
  have "relay_ok \<lparr>rl_outbox = [], rl_events = []\<rparr>" by (simp add: relay_ok_def outbox_wf_def event_ids_def)
  then have "relay_ok t" using relay_steps_ok [OF assms(1)] by blast
  then show ?thesis using assms(2,3) by (intro in_telemetry_once) (simp_all add: relay_ok_def pending_def)
qed

text \<open>
  C31. A run of the relay in which nothing fails delivers the oldest pending events first, as many
  as its limit allows: each is written to telemetry in that order unless it is already there, the
  rest of the backlog is untouched, and what was published stays published.
\<close>

theorem relay_drains_backlog:
  assumes "\<And>n. calm (E n)" and "ensure_distinct_postgresql_databases source reporting = Inr ()" and "0 < limit"
    and "keys_unique ob_event_id (rl_outbox s)" and "\<forall>r \<in> set (backlog s). deliverable (rl_events s) r"
  shows "\<exists>t. relay_inventory_outbox E (\<lambda>_ u. u) source reporting limit s =
      (Inr \<lparr>rs_delivered = min (nat limit) (length (backlog s)), rs_failed = 0, rs_error_codes = []\<rparr>, t) \<and>
    backlog t = drop (nat limit) (backlog s) \<and>
    rl_events t = rl_events s @ map outbox_to_row (filter (absent (rl_events s)) (take (nat limit) (backlog s))) \<and>
    (\<forall>x \<in> set (rl_outbox s). ob_published_at x \<noteq> None \<longrightarrow> x \<in> set (rl_outbox t))"
  using calm_relay_loop [OF assms(1,4,5), where n = 0 and k = "nat limit" and d = 0] assms(2,3)
  by (simp add: relay_inventory_outbox_def pending_def)

text \<open>
  C32. A conflict blocks the relay. When the oldest pending event has an identity that telemetry holds
  with another content, and nothing else fails, a run stops at it, counts the attempt, names the
  conflict, and delivers neither it nor any of the events behind it.
\<close>

theorem relay_conflict_blocks:
  assumes "calm (E 0)" and "ensure_distinct_postgresql_databases source reporting = Inr ()" and "0 < limit"
    and "backlog s = r # rs"
    and "find (\<lambda>e. tr_id e = Some (ob_event_id r)) (rl_events s) = Some e" "\<not> same_destination e (outbox_to_row r)"
  shows "relay_inventory_outbox E (\<lambda>_ u. u) source reporting limit s =
    (Inr \<lparr>rs_delivered = 0, rs_failed = 1, rs_error_codes = [''destination_event_conflict'']\<rparr>,
     s\<lparr>rl_outbox := sql_update (\<lambda>x. ob_event_id x = ob_event_id r)
       (record_attempt (rv_attempt_at (E 0)) ''destination_event_conflict'') (rl_outbox s)\<rparr>)"
  using conflict_blocks [of E s r rs e "nat limit"] assms by (simp add: relay_inventory_outbox_def)

section \<open>Witnesses\<close>

lemma demo_enqueued:
  "enqueue_inventory_event (demo_event 2) 2 ''stockentry'' 2 ''inbound_order_created''
     [(''quantity'', JInt 5), (''secret'', JInt 1)] [] = (Inr (), [demo_outbox_row 2])"
  "enqueue_inventory_event (demo_event 1) 1 ''stockentry'' 1 ''inbound_order_created''
     [(''quantity'', JInt 5), (''secret'', JInt 1)] [demo_outbox_row 2] = (Inr (), rl_outbox demo_queue)"
  by code_simp+

lemma demo_relay_steps: "relay_step\<^sup>*\<^sup>* \<lparr>rl_outbox = [], rl_events = []\<rparr> demo_crashed"
proof -
  have "relay_step \<lparr>rl_outbox = [], rl_events = []\<rparr> \<lparr>rl_outbox = [demo_outbox_row 2], rl_events = []\<rparr>"
    using rl_enqueue [of _ _ _ _ _ _ "\<lparr>rl_outbox = [], rl_events = []\<rparr>"] demo_enqueued(1) by fastforce
  moreover have "relay_step \<lparr>rl_outbox = [demo_outbox_row 2], rl_events = []\<rparr> demo_queue"
    using rl_enqueue [of _ _ _ _ _ _ "\<lparr>rl_outbox = [demo_outbox_row 2], rl_events = []\<rparr>"] demo_enqueued(2)
    by (fastforce simp: demo_queue_def)
  moreover have "relay_step demo_queue (snd (relay_iteration (demo_crash_env 0) demo_queue))"
    by (rule rl_iterate) (rule surjective_pairing)
  moreover have "relay_step (snd (relay_iteration (demo_crash_env 0) demo_queue)) demo_crashed"
    by (rule rl_iterate, rule demo_iterations(2))
  ultimately show ?thesis by (meson converse_rtranclp_into_rtranclp rtranclp.rtrancl_refl)
qed

theorem relay_acknowledges_delivered_witness:
  "\<exists>e. filter (\<lambda>e. tr_id e = Some (demo_event 1)) (rl_events demo_crashed) = [e] \<and> tr_tags e = [(''quantity'', JInt 5)]"
proof -
  let ?r = "acknowledge 100 101 (demo_outbox_row 1)"
  have r: "?r \<in> set (rl_outbox demo_crashed)" "ob_published_at ?r \<noteq> None"
    by (simp_all add: demo_crash_run acknowledge_def)
  have i: "ob_event_id ?r = demo_event 1" by (simp add: demo_outbox_row_def)
  have e: "filter (\<lambda>e. tr_id e = Some (demo_event 1)) (rl_events demo_crashed) = [outbox_to_row (demo_outbox_row 1)]"
    by (simp add: demo_crash_run demo_outbox_row_def demo_event_def)
  have tg: "tr_tags (outbox_to_row (demo_outbox_row 1)) = [(''quantity'', JInt 5)]" by code_simp
  show ?thesis using relay_acknowledges_delivered [OF demo_relay_steps r] unfolding i e using tg by blast
qed

theorem relay_drains_backlog_witness:
  "\<exists>t. relay_inventory_outbox demo_relay_env (\<lambda>_ u. u) (demo_engine 1) (demo_engine 2) 100 demo_crashed =
      (Inr \<lparr>rs_delivered = 1, rs_failed = 0, rs_error_codes = []\<rparr>, t) \<and>
    backlog t = [] \<and> rl_events t = rl_events demo_crashed"
proof -
  have d: "ensure_distinct_postgresql_databases (demo_engine 1) (demo_engine 2) = Inr ()" by code_simp
  have ok: "\<forall>r \<in> set (backlog demo_crashed). deliverable (rl_events demo_crashed) r"
    unfolding demo_backlogs by code_simp
  have here: "filter (absent (rl_events demo_crashed)) [demo_outbox_row 2] = []"
    by (simp add: absent_def demo_crash_run)
  show ?thesis
    using relay_drains_backlog [of demo_relay_env "demo_engine 1" "demo_engine 2" 100 demo_crashed]
      d demo_crashed_unique ok here by (auto simp: demo_backlogs(1))
qed

theorem relay_conflict_blocks_witness:
  "fst (relay_inventory_outbox demo_relay_env (\<lambda>_ u. u) (demo_engine 1) (demo_engine 2) 100 demo_taken) =
     Inr \<lparr>rs_delivered = 0, rs_failed = 1, rs_error_codes = [''destination_event_conflict'']\<rparr>"
proof -
  have d: "ensure_distinct_postgresql_databases (demo_engine 1) (demo_engine 2) = Inr ()" by code_simp
  let ?e = "(outbox_to_row (demo_outbox_row 1))\<lparr>tr_service := ''web''\<rparr>"
  have e: "find (\<lambda>e. tr_id e = Some (ob_event_id (demo_outbox_row 1))) (rl_events demo_taken) = Some ?e"
    by (simp add: demo_taken_def)
  have c: "\<not> same_destination ?e (outbox_to_row (demo_outbox_row 1))"
    by (simp add: same_destination_def outbox_to_row_def map_outbox_event_to_row_def)
  show ?thesis using relay_conflict_blocks [of demo_relay_env "demo_engine 1" "demo_engine 2" 100 demo_taken "demo_outbox_row 1" "[demo_outbox_row 2]" ?e]
      d demo_backlogs(2) e c by simp
qed

end
