(* ===== verification/Weeks.thy ===== *)
theory Weeks
  imports RunStore
begin

text \<open>
  ISO weeks: the week a request may name, \<open>parse_closed_week\<close> of \<open>pipelines/pipeline.py\<close>, and the text
  of a date. A request's week is absent, or the result of \<open>date.fromisoformat\<close>, \<open>None\<close> when that
  raises; the clock is an aware instant.
\<close>

definition utc_date :: "time \<Rightarrow> date" where
  "utc_date t = t div 86400000000"

definition latest_closed_iso_week :: "time \<Rightarrow> date" where
  "latest_closed_iso_week now =
     (let today = utc_date now; current_monday = today - weekday today in current_monday - 7)"

definition parse_closed_week :: "date option option \<Rightarrow> time \<Rightarrow> string + date" where
  "parse_closed_week value now =
     (let current_monday = latest_closed_iso_week now + 7
      in case value of
           None \<Rightarrow> Inr (current_monday - 7)
         | Some None \<Rightarrow> Inl ''week_start must use YYYY-MM-DD''
         | Some (Some selected) \<Rightarrow>
             if weekday selected \<noteq> 0 then Inl ''week_start must be an ISO Monday''
             else if selected \<ge> current_monday then Inl ''week_start must identify a fully closed ISO UTC week''
             else Inr selected)"

lemma weekday_bounds: "0 \<le> weekday d" "weekday d < 7"
  by (simp_all add: weekday_def)

lemma monday_of: "weekday (d - weekday d) = 0"
  unfolding weekday_def by presburger

text \<open>A week that is accepted is a Monday, and its seven days are over.\<close>

lemma closed_week:
  assumes "parse_closed_week v now = Inr w"
  shows "weekday w = 0 \<and> w + 7 \<le> utc_date now"
proof -
  let ?m = "utc_date now - weekday (utc_date now)"
  have le: "?m \<le> utc_date now" using weekday_bounds by simp
  have m: "weekday ?m = 0" by (rule monday_of)
  have shift: "weekday (x - 7) = weekday x" for x by (simp add: weekday_def) presburger
  from assms consider "w = ?m - 7" | "weekday w = 0" "w < ?m"
    by (auto simp: parse_closed_week_def latest_closed_iso_week_def Let_def split: option.splits if_splits)
  then show ?thesis
  proof cases
    case 1
    then show ?thesis using m le shift by simp
  next
    case 2
    have "weekday w = 0 \<Longrightarrow> w < ?m \<Longrightarrow> w + 7 \<le> ?m" using m unfolding weekday_def by presburger
    then show ?thesis using 2 le by simp
  qed
qed

section \<open>The text of a date\<close>

text \<open>The proleptic Gregorian year, month and day of a day number.\<close>

definition civil :: "date \<Rightarrow> int \<times> int \<times> int" where
  "civil d =
     (let z = d + 719468; era = z div 146097; doe = z mod 146097;
          yoe = (doe - doe div 1460 + doe div 36524 - doe div 146096) div 365;
          doy = doe - (365 * yoe + yoe div 4 - yoe div 100);
          mp = (5 * doy + 2) div 153;
          day = doy - (153 * mp + 2) div 5 + 1;
          month = (if mp < 10 then mp + 3 else mp - 9);
          year = yoe + era * 400 + (if month \<le> 2 then 1 else 0)
      in (year, month, day))"

definition padded :: "nat \<Rightarrow> int \<Rightarrow> string" where
  "padded n k = (let s = str_int k in replicate (n - length s) (CHR ''0'') @ s)"

definition iso_date :: "date \<Rightarrow> string" where
  "iso_date d = (case civil d of (y, m, dd) \<Rightarrow> padded 4 y @ ''-'' @ padded 2 m @ ''-'' @ padded 2 dd)"

end
