(* ===== verification/Diagnostics.thy ===== *)
theory Diagnostics
  imports Regex
begin

text \<open>
  The diagnostics the task queue stores and logs, \<open>services/task_queue/sanitization.py\<close>: stable
  codes and redacted, bounded messages. An exception is the name of its type, the \<open>code\<close> attribute
  it may have, and its message.
\<close>

section \<open>Definitions\<close>

record raised =
  ex_type :: string
  ex_code :: "string option"
  ex_message :: string

definition code_char :: "char \<Rightarrow> bool" where
  "code_char c \<longleftrightarrow> is_lower c \<or> is_digit c \<or> c = CHR ''_''"

text \<open>\<open>^[a-z][a-z0-9_]{0,127}$\<close> on the whole text.\<close>

definition SAFE_CODE :: "string \<Rightarrow> bool" where
  "SAFE_CODE v \<longleftrightarrow> (case v of [] \<Rightarrow> False | c # cs \<Rightarrow> is_lower c \<and> list_all code_char cs \<and> length cs \<le> 127)"

definition safe_code_or :: "string \<Rightarrow> string option \<Rightarrow> string" where
  "safe_code_or fallback v = (case v of None \<Rightarrow> fallback | Some c \<Rightarrow> if SAFE_CODE c then c else fallback)"

definition safe_code :: "string \<Rightarrow> string" where
  "safe_code v = safe_code_or ''internal_error'' (Some v)"

definition letter_or :: "(char \<Rightarrow> bool) \<Rightarrow> rx" where
  "letter_or P = Cls (\<lambda>c. is_letter c \<or> is_digit c \<or> P c)"

definition URL_CREDENTIALS :: rx where
  "URL_CREDENTIALS = rx_seq
     [Group (rx_seq [Cls is_letter, Many (letter_or (one_of ''+.-'')), rx_lit ''://'']),
      rx_some (Cls (\<lambda>c. \<not> py_space c \<and> \<not> one_of ''/@:'' c)),
      rx_opt (rx_seq [rx_lit '':'', Many (Cls (\<lambda>c. \<not> py_space c \<and> \<not> one_of ''/@'' c))]),
      rx_lit ''@'']"

definition BEARER :: rx where
  "BEARER = rx_seq [Boundary, rx_word ''bearer'', rx_some (Cls py_space), rx_some (letter_or (one_of ''._~+/=-''))]"

definition JWT :: rx where
  "JWT =
     (let part = rx_some (letter_or (one_of ''_-''))
      in rx_seq [Boundary, rx_lit ''eyJ'', part, rx_lit ''.'', part, rx_lit ''.'', part, Boundary])"

definition SECRET_ASSIGNMENT :: rx where
  "SECRET_ASSIGNMENT = rx_seq
     [Boundary,
      Group (rx_alt [rx_seq [rx_word ''api'', rx_opt (Cls (one_of ''_-'')), rx_word ''key''], rx_word ''token'',
        rx_word ''secret'', rx_word ''password'', rx_word ''passwd'', rx_word ''pwd'']),
      Boundary, Many (Cls py_space), Cls (one_of '':=''), Many (Cls py_space),
      rx_some (Cls (\<lambda>c. \<not> py_space c \<and> \<not> one_of '',;'' c))]"

definition group_then :: "string \<Rightarrow> string \<Rightarrow> string option \<Rightarrow> string" where
  "group_then suffix u g = or_else g [] @ suffix"

definition line_breaks :: "char \<Rightarrow> char" where
  "line_breaks c = (if c = CHR 0x0D \<or> c = CHR 0x0A then CHR '' '' else c)"

definition sanitize_message :: "string \<Rightarrow> string" where
  "sanitize_message value =
     (let t = map line_breaks value;
          t = rx_sub URL_CREDENTIALS (group_then ''[redacted]@'') None t;
          t = rx_sub BEARER (\<lambda>_ _. ''Bearer [redacted]'') None t;
          t = rx_sub JWT (\<lambda>_ _. ''[redacted-jwt]'') None t;
          t = rx_sub SECRET_ASSIGNMENT (group_then ''=[redacted]'') None t
      in take 500 t)"

definition public_exception :: "raised \<Rightarrow> string \<times> string" where
  "public_exception ex =
     (safe_code_or (py_lower (ex_type ex)) (ex_code ex), ''operation failed ('' @ ex_type ex @ '')'')"

section \<open>Bounds\<close>

lemma SAFE_CODE_length: "SAFE_CODE v \<Longrightarrow> 1 \<le> length v \<and> length v \<le> 128"
  by (cases v) (auto simp: SAFE_CODE_def)

lemma safe_code_safe: "SAFE_CODE (safe_code v)"
proof -
  have "SAFE_CODE ''internal_error''" by (simp add: SAFE_CODE_def code_char_def is_lower_def is_digit_def)
  then show ?thesis by (simp add: safe_code_def safe_code_or_def)
qed

lemma sanitize_message_length: "length (sanitize_message v) \<le> 500"
  by (simp add: sanitize_message_def Let_def)

text \<open>A capture is part of the text matched, so a replacement adds only its own characters.\<close>

lemma rx_match_group: "(u, Some g, t) \<in> set (rx_match r p s) \<Longrightarrow> set g \<subseteq> set s"
proof (induction r p s arbitrary: u g t rule: rx_match.induct)
  case (1 P p s)
  then show ?case by (auto split: list.splits if_splits)
next
  case (3 a b p s)
  then obtain u1 g1 t1 v h where m: "(u1, g1, t1) \<in> set (rx_match a p s)"
    "(v, h, t) \<in> set (rx_match b (last_char p u1) t1)" "Some g = (if h = None then g1 else h)"
    by auto
  have "set t1 \<subseteq> set s" using rx_match_splits [OF m(1)] by simp
  then show ?case
    using "3.IH"(1) [of u1 g t1] "3.IH"(2) [OF m(1) refl refl, of v g t] m by (auto split: if_splits)
next
  case (5 a p s)
  then obtain u1 g1 t1 v h where m: "(u1, g1, t1) \<in> set (rx_match a p s)" "length t1 < length s"
    "(v, h, t) \<in> set (rx_match (Many a) (last_char p u1) t1)" "Some g = (if h = None then g1 else h)"
    by (auto simp: rx_match.simps(5) [of a p s] split: if_splits)
  have "set t1 \<subseteq> set s" using rx_match_splits [OF m(1)] by simp
  then show ?case
    using "5.IH"(1) [of u1 g t1] "5.IH"(2) [OF m(1) refl refl m(2), of v g t] m by (auto split: if_splits)
next
  case (4 a b p s)
  then show ?case by (simp add: Un_iff) blast
next
  case (7 a p s)
  then show ?case using rx_match_splits by fastforce
qed (auto split: if_splits)

lemma rx_sub_chars:
  assumes "\<And>u g. set (f u g) \<subseteq> A \<union> (case g of None \<Rightarrow> {} | Some v \<Rightarrow> set v)" and "set s \<subseteq> A"
  shows "set (rx_sub r f p s) \<subseteq> A"
  using assms
proof (induction r f p s rule: rx_sub.induct)
  case (2 r f p c s)
  show ?case
  proof (cases "rx_match r p (c # s)")
    case Nil
    then show ?thesis using 2 by (auto simp: rx_sub.simps(2))
  next
    case (Cons m ms)
    obtain u g t where m: "m = (u, g, t)" by (cases m)
    have split: "c # s = u @ t" using Cons m by (intro rx_match_splits [of u g t r p]) simp
    have "set (u @ t) \<subseteq> A" using "2.prems"(2) unfolding split .
    then have sub: "set t \<subseteq> A" by simp
    have cs: "set s \<subseteq> A" "c \<in> A" using "2.prems"(2) by simp_all
    have "set v \<subseteq> A" if "g = Some v" for v
      using rx_match_group [of u v t r p "c # s"] Cons m that "2.prems"(2) by auto
    then have "set (f u g) \<subseteq> A" using "2.prems"(1) [of u g] by (cases g) auto
    then show ?thesis
      using "2.IH"(2) [OF Cons m [symmetric] refl] "2.IH"(3) [OF Cons m [symmetric] refl] "2.prems"(1) sub cs Cons m
      by (auto simp: rx_sub.simps(2))
  qed
qed simp

lemma sanitize_message_lines: "c \<in> set (sanitize_message v) \<Longrightarrow> c \<noteq> CHR 0x0D \<and> c \<noteq> CHR 0x0A"
proof -
  let ?A = "{c. c \<noteq> CHR 0x0D \<and> c \<noteq> CHR 0x0A}"
  have "set (map line_breaks v) \<subseteq> ?A" by (auto simp: line_breaks_def)
  moreover have "set (rx_sub r (group_then w) p t) \<subseteq> ?A" if "set t \<subseteq> ?A" "set w \<subseteq> ?A" for r w p t
    using that by (intro rx_sub_chars) (auto simp: group_then_def split: option.splits)
  moreover have "set (rx_sub r (\<lambda>_ _. w) p t) \<subseteq> ?A" if "set t \<subseteq> ?A" "set w \<subseteq> ?A" for r w p t
    using that by (intro rx_sub_chars) auto
  ultimately have "set (sanitize_message v) \<subseteq> ?A"
    unfolding sanitize_message_def Let_def by (intro order_trans [OF set_take_subset]) auto
  then show "c \<in> set (sanitize_message v) \<Longrightarrow> c \<noteq> CHR 0x0D \<and> c \<noteq> CHR 0x0A" by blast
qed

end
