(* ===== verification/TaskStore.thy ===== *)
theory TaskStore
  imports RunStore Weeks Diagnostics
begin

text \<open>
  The durable task queue, \<open>services/task_queue/store.py\<close>, over the tables of
  \<open>infra/sql/reporting_async_tasks.sql\<close>: tasks, their dispatch outbox and the dead letters, beside
  the run history. Each operation runs in the transaction of its caller. \<open>te_clock\<close> gives the
  reading of \<open>clock_timestamp()\<close> that a statement makes for a row at one place of its text, so two
  readings of one statement may differ; \<open>te_fails\<close> says which statements raise.
\<close>

section \<open>Tables\<close>

record async_task =
  at_task_id :: uuid
  at_run_id :: uuid
  at_user_id :: string
  at_task_name :: string
  at_week_start :: date
  at_execution_state :: string
  at_dispatch_status :: string
  at_celery_state :: "string option"
  at_attempt_count :: int
  at_result_summary :: "json option"
  at_error_code :: "string option"
  at_error_message :: "string option"
  at_pipeline_status :: "string option"
  at_published :: "bool option"
  at_attempt_id :: "uuid option"
  at_attempt_number :: "int option"
  at_claim_token :: "uuid option"
  at_execution_epoch :: int
  at_execution_phase :: string
  at_claim_expires_at :: "time option"
  at_heartbeat_at :: "time option"
  at_next_attempt_at :: "time option"
  at_created_at :: time
  at_updated_at :: time
  at_finished_at :: "time option"

record dispatch_row =
  dr_task_id :: uuid
  dr_payload :: tags
  dr_dispatch_status :: string
  dr_publish_attempts :: int
  dr_next_attempt_at :: time
  dr_relay_owner :: "string option"
  dr_relay_token :: "uuid option"
  dr_relay_lease_expires_at :: "time option"
  dr_last_error_code :: "string option"
  dr_created_at :: time
  dr_updated_at :: time
  dr_published_at :: "time option"

record dead_letter =
  dl_task_id :: uuid
  dl_run_id :: uuid
  dl_attempt_number :: int
  dl_terminal_reason :: string
  dl_error_code :: string
  dl_error_message :: string
  dl_failed_at :: time

record task_db =
  td_store :: run_db
  td_tasks :: "async_task list"
  td_outbox :: "dispatch_row list"
  td_dead :: "dead_letter list"

definition EXECUTION_STATES :: "string list" where
  "EXECUTION_STATES = [''accepted'', ''queued'', ''claimed'', ''running'', ''retry_wait'', ''succeeded'', ''failed'',
     ''dead_lettered'', ''failure_pending_dlq'', ''reconciliation_required'']"

definition DISPATCH_STATUSES :: "string list" where
  "DISPATCH_STATUSES = [''pending'', ''publishing'', ''retry_wait'', ''published'', ''publication_uncertain'',
     ''reconciliation_required'']"

definition CELERY_STATES :: "string list" where
  "CELERY_STATES = [''PENDING'', ''RECEIVED'', ''STARTED'', ''RETRY'', ''SUCCESS'', ''FAILURE'', ''REVOKED'']"

definition EXECUTION_PHASES :: "string list" where
  "EXECUTION_PHASES = [''none'', ''accepted'', ''preflight'', ''prefect_started'', ''commit'', ''terminal'']"

definition TASK_NAME :: string where
  "TASK_NAME = ''trackflow.run_weekly_pipeline''"

definition CONTRACT_VERSION :: int where
  "CONTRACT_VERSION = 1"

definition MAX_FAILED_EXECUTIONS :: int where
  "MAX_FAILED_EXECUTIONS = 3"

text \<open>The CHECK constraints of \<open>async_tasks\<close> and the range of \<open>bigint\<close>.\<close>

definition claim_complete :: "string \<Rightarrow> async_task \<Rightarrow> bool" where
  "claim_complete st t \<longleftrightarrow> at_execution_state t = st \<and> at_attempt_id t \<noteq> None \<and> at_claim_token t \<noteq> None \<and>
     at_claim_expires_at t \<noteq> None \<and> at_heartbeat_at t \<noteq> None"

definition task_row_ok :: "async_task \<Rightarrow> bool" where
  "task_row_ok t \<longleftrightarrow> at_task_name t = TASK_NAME \<and> at_execution_state t \<in> set EXECUTION_STATES \<and>
     at_dispatch_status t \<in> set DISPATCH_STATUSES \<and>
     list_all (\<lambda>c. c \<in> set CELERY_STATES) (case at_celery_state t of None \<Rightarrow> [] | Some c \<Rightarrow> [c]) \<and>
     0 \<le> at_attempt_count t \<and> at_attempt_count t \<le> 3 \<and>
     (case at_attempt_number t of None \<Rightarrow> True | Some n \<Rightarrow> 1 \<le> n \<and> n \<le> 3) \<and>
     0 \<le> at_execution_epoch t \<and> at_execution_epoch t < 2 ^ 63 \<and> at_execution_phase t \<in> set EXECUTION_PHASES \<and>
     (at_execution_phase t = ''preflight'' \<longrightarrow> claim_complete ''claimed'' t) \<and>
     (at_execution_phase t = ''prefect_started'' \<longrightarrow> claim_complete ''running'' t) \<and>
     (case at_result_summary t of None \<Rightarrow> True | Some (JObj _) \<Rightarrow> True | _ \<Rightarrow> False) \<and>
     (case at_error_code t of None \<Rightarrow> True | Some c \<Rightarrow> length c \<le> 128) \<and>
     (case at_error_message t of None \<Rightarrow> True | Some m \<Rightarrow> length m \<le> 512) \<and>
     (case at_finished_at t of None \<Rightarrow> True | Some f \<Rightarrow> at_created_at t \<le> f)"

text \<open>The CHECK constraints of \<open>task_dispatch_outbox\<close> and \<open>task_dead_letters\<close>.\<close>

definition dispatch_row_ok :: "dispatch_row \<Rightarrow> bool" where
  "dispatch_row_ok r \<longleftrightarrow> dr_dispatch_status r \<in> set DISPATCH_STATUSES \<and> 0 \<le> dr_publish_attempts r \<and>
     (dr_relay_owner r = None \<longleftrightarrow> dr_relay_token r = None) \<and>
     (dr_relay_token r = None \<longleftrightarrow> dr_relay_lease_expires_at r = None) \<and>
     (case dr_last_error_code r of None \<Rightarrow> True | Some c \<Rightarrow> length c \<le> 128) \<and>
     (dr_published_at r \<noteq> None \<longrightarrow> dr_dispatch_status r = ''published'')"

definition dead_letter_ok :: "dead_letter \<Rightarrow> bool" where
  "dead_letter_ok l \<longleftrightarrow> 1 \<le> dl_attempt_number l \<and> dl_attempt_number l \<le> 3 \<and>
     dl_terminal_reason l \<in> {''retries_exhausted'', ''non_retryable'', ''pipeline_terminal''} \<and>
     1 \<le> length (dl_error_code l) \<and> length (dl_error_code l) \<le> 128 \<and>
     1 \<le> length (dl_error_message l) \<and> length (dl_error_message l) \<le> 512"

section \<open>Statements\<close>

datatype task_error =
    TaskStoreError store_error
  | TaskValueError string
  | TaskIntegrityError
  | TaskDatabaseError

record task_env =
  te_conn :: conn
  te_clock :: "string \<Rightarrow> uuid \<Rightarrow> time"
  te_uuid4 :: "nat \<Rightarrow> uuid"
  te_fails :: "string \<Rightarrow> bool"
  te_commit :: commit_outcome

type_synonym 'a task_cmd = "(task_db, task_error, 'a) cmd"

definition statement :: "task_env \<Rightarrow> string \<Rightarrow> (task_db \<Rightarrow> (task_error + 'a) \<times> task_db) \<Rightarrow> 'a task_cmd" where
  "statement E op stmt s = (if te_fails E op then (Inl TaskDatabaseError, s) else stmt s)"

definition update_tasks ::
  "task_env \<Rightarrow> string \<Rightarrow> (async_task \<Rightarrow> bool) \<Rightarrow> (async_task \<Rightarrow> async_task) \<Rightarrow> async_task list task_cmd" where
  "update_tasks E op p f = statement E op (\<lambda>s.
     if list_ex (\<lambda>t. p t \<and> \<not> task_row_ok (f t)) (td_tasks s) then (Inl TaskIntegrityError, s)
     else (Inr (sql_returning p f (td_tasks s)), s\<lparr>td_tasks := sql_update p f (td_tasks s)\<rparr>))"

definition update_dispatch ::
  "task_env \<Rightarrow> string \<Rightarrow> (dispatch_row \<Rightarrow> bool) \<Rightarrow> (dispatch_row \<Rightarrow> dispatch_row) \<Rightarrow> dispatch_row list task_cmd" where
  "update_dispatch E op p f = statement E op (\<lambda>s.
     if list_ex (\<lambda>r. p r \<and> \<not> dispatch_row_ok (f r)) (td_outbox s) then (Inl TaskIntegrityError, s)
     else (Inr (sql_returning p f (td_outbox s)), s\<lparr>td_outbox := sql_update p f (td_outbox s)\<rparr>))"

text \<open>A command on the run history, and a transaction: it commits as a whole or not at all.\<close>

definition on_store :: "'a run_cmd \<Rightarrow> 'a task_cmd" where
  "on_store m s =
     (case m (td_store s) of
        (Inl e, t) \<Rightarrow> (Inl (TaskStoreError e), s\<lparr>td_store := t\<rparr>)
      | (Inr a, t) \<Rightarrow> (Inr a, s\<lparr>td_store := t\<rparr>))"

definition begin_task :: "task_env \<Rightarrow> 'a task_cmd \<Rightarrow> 'a task_cmd" where
  "begin_task E m s =
     (case m s of
        (Inl e, _) \<Rightarrow> (Inl e, s)
      | (Inr a, t) \<Rightarrow>
         (case te_commit E of
            CommitOk \<Rightarrow> (Inr a, t)
          | CommitRolledBack \<Rightarrow> (Inl TaskDatabaseError, s)
          | CommitLost \<Rightarrow> (Inl TaskDatabaseError, t)))"

section \<open>Acceptance\<close>

text \<open>
  \<open>ORDER BY started_at DESC LIMIT 1\<close>; of runs that started at one instant the last one stored. The
  advisory lock of the week makes the acceptances of one week serial, as they are here.
\<close>

definition active_run :: "date \<Rightarrow> run_db \<Rightarrow> run_record option" where
  "active_run week s =
     (let rows = sort_key rr_started_at (filter (\<lambda>r. rr_target_week_start r = week \<and>
        rr_status r \<in> {''pending'', ''running''}) (rd_runs s))
      in if rows = [] then None else Some (last rows))"

definition insert_task :: "task_env \<Rightarrow> async_task \<Rightarrow> unit task_cmd" where
  "insert_task E t = statement E ''insert_task'' (\<lambda>s.
     if at_task_id t \<in> at_task_id ` set (td_tasks s) \<or> at_run_id t \<in> at_run_id ` set (td_tasks s) \<or>
        at_run_id t \<notin> rr_run_id ` set (rd_runs (td_store s)) \<or> \<not> task_row_ok t
     then (Inl TaskIntegrityError, s)
     else (Inr (), s\<lparr>td_tasks := td_tasks s @ [t]\<rparr>))"

definition insert_dispatch :: "task_env \<Rightarrow> dispatch_row \<Rightarrow> unit task_cmd" where
  "insert_dispatch E r = statement E ''insert_outbox'' (\<lambda>s.
     if dr_task_id r \<in> dr_task_id ` set (td_outbox s) \<or> dr_task_id r \<notin> at_task_id ` set (td_tasks s) \<or>
        \<not> dispatch_row_ok r
     then (Inl TaskIntegrityError, s)
     else (Inr (), s\<lparr>td_outbox := td_outbox s @ [r]\<rparr>))"

definition new_task :: "task_env \<Rightarrow> uuid \<Rightarrow> uuid \<Rightarrow> string \<Rightarrow> date \<Rightarrow> async_task" where
  "new_task E task_id run_id user_id week =
     \<lparr>at_task_id = task_id, at_run_id = run_id, at_user_id = user_id, at_task_name = TASK_NAME,
      at_week_start = week, at_execution_state = ''accepted'', at_dispatch_status = ''pending'',
      at_celery_state = None, at_attempt_count = 0, at_result_summary = None, at_error_code = None,
      at_error_message = None, at_pipeline_status = None, at_published = None, at_attempt_id = None,
      at_attempt_number = None, at_claim_token = None, at_execution_epoch = 0,
      at_execution_phase = ''none'', at_claim_expires_at = None, at_heartbeat_at = None,
      at_next_attempt_at = None, at_created_at = te_clock E ''task.created_at'' task_id,
      at_updated_at = te_clock E ''task.updated_at'' task_id, at_finished_at = None\<rparr>"

definition dispatch_payload :: "uuid \<Rightarrow> uuid \<Rightarrow> date \<Rightarrow> tags" where
  "dispatch_payload task_id run_id week =
     [(''contract_version'', JInt CONTRACT_VERSION), (''task_id'', JStr (uuid_str task_id)),
      (''run_id'', JStr (uuid_str run_id)), (''week_start'', JStr (iso_date week))]"

definition new_dispatch :: "task_env \<Rightarrow> uuid \<Rightarrow> tags \<Rightarrow> dispatch_row" where
  "new_dispatch E task_id payload =
     \<lparr>dr_task_id = task_id, dr_payload = payload, dr_dispatch_status = ''pending'', dr_publish_attempts = 0,
      dr_next_attempt_at = te_clock E ''outbox.next_attempt_at'' task_id, dr_relay_owner = None,
      dr_relay_token = None, dr_relay_lease_expires_at = None, dr_last_error_code = None,
      dr_created_at = te_clock E ''outbox.created_at'' task_id,
      dr_updated_at = te_clock E ''outbox.updated_at'' task_id, dr_published_at = None\<rparr>"

definition accept_async_task :: "task_env \<Rightarrow> date \<Rightarrow> string \<Rightarrow> (uuid \<times> uuid \<times> bool) task_cmd" where
  "accept_async_task E week_start requested_by_user_id =
     bind_cmd (statement E ''week_lock'' (\<lambda>s. (Inr (), s))) (\<lambda>_.
     bind_cmd (statement E ''active_run'' (\<lambda>s. (Inr (active_run week_start (td_store s)), s))) (\<lambda>existing.
     case existing of
       Some r \<Rightarrow>
         bind_cmd (statement E ''task_of_run'' (\<lambda>s. (Inr (find (\<lambda>t. at_run_id t = rr_run_id r) (td_tasks s)), s))) (\<lambda>row.
         return_cmd (rr_run_id r, case row of None \<Rightarrow> te_uuid4 E 0 | Some t \<Rightarrow> at_task_id t, False))
     | None \<Rightarrow>
         bind_cmd (on_store (create_run (te_conn E) (te_uuid4 E 0) week_start ''http'' WEEKLY_PIPELINE_NAME
           None None (Some ''accepted'') None None)) (\<lambda>run.
         bind_cmd (insert_task E (new_task E (te_uuid4 E 1) (rr_run_id run) requested_by_user_id week_start)) (\<lambda>_.
         bind_cmd (insert_dispatch E (new_dispatch E (te_uuid4 E 1)
           (dispatch_payload (te_uuid4 E 1) (rr_run_id run) week_start))) (\<lambda>_.
         return_cmd (rr_run_id run, te_uuid4 E 1, True))))))"

text \<open>The join with the run of the task.\<close>

definition get_async_task :: "task_env \<Rightarrow> uuid \<Rightarrow> (async_task \<times> run_record) option task_cmd" where
  "get_async_task E task_id = statement E ''get_task'' (\<lambda>s.
     (Inr (case find (\<lambda>t. at_task_id t = task_id) (td_tasks s) of
        None \<Rightarrow> None
      | Some t \<Rightarrow> (case find_run (td_store s) (at_run_id t) of None \<Rightarrow> None | Some r \<Rightarrow> Some (t, r))), s))"

section \<open>Claims\<close>

definition passed :: "time option \<Rightarrow> time \<Rightarrow> bool" where
  "passed instant now \<longleftrightarrow> (case instant of None \<Rightarrow> False | Some x \<Rightarrow> x \<le> now)"

definition claimable :: "task_env \<Rightarrow> uuid \<Rightarrow> async_task \<Rightarrow> bool" where
  "claimable E task_id t \<longleftrightarrow> at_task_id t = task_id \<and> at_attempt_count t < MAX_FAILED_EXECUTIONS \<and>
     (at_execution_state t \<in> {''accepted'', ''queued''} \<or>
      at_execution_state t = ''retry_wait'' \<and> passed (at_next_attempt_at t) (te_clock E ''claim.retry'' task_id) \<or>
      at_execution_state t = ''claimed'' \<and> at_execution_phase t = ''preflight'' \<and>
        passed (at_claim_expires_at t) (te_clock E ''claim.expired'' task_id))"

definition lease_end :: "time \<Rightarrow> int \<Rightarrow> time" where
  "lease_end now seconds = now + seconds * 1000000"

definition claim_row :: "task_env \<Rightarrow> int \<Rightarrow> async_task \<Rightarrow> async_task" where
  "claim_row E lease_seconds t =
     t\<lparr>at_execution_state := ''claimed'', at_attempt_count := at_attempt_count t + 1,
       at_attempt_number := Some (at_attempt_count t + 1), at_attempt_id := Some (te_uuid4 E 1),
       at_celery_state := Some ''STARTED'', at_claim_token := Some (te_uuid4 E 0),
       at_execution_epoch := at_execution_epoch t + 1, at_execution_phase := ''preflight'',
       at_claim_expires_at := Some (lease_end (te_clock E ''claim.expires'' (at_task_id t)) lease_seconds),
       at_heartbeat_at := Some (te_clock E ''claim.heartbeat'' (at_task_id t)),
       at_updated_at := te_clock E ''claim.updated'' (at_task_id t)\<rparr>"

fun first_row :: "'r list \<Rightarrow> 'r option" where
  "first_row [] = None"
| "first_row (r # _) = Some r"

definition claim_execution :: "task_env \<Rightarrow> uuid \<Rightarrow> int \<Rightarrow> async_task option task_cmd" where
  "claim_execution E task_id lease_seconds =
     (if lease_seconds < 1 then raise_cmd (TaskValueError ''lease_seconds must be positive'')
      else bind_cmd (update_tasks E ''claim'' (claimable E task_id) (claim_row E lease_seconds)) (\<lambda>rows.
        return_cmd (first_row rows)))"

text \<open>The fencing identity every later statement of a claim checks.\<close>

definition owns :: "uuid \<Rightarrow> uuid \<Rightarrow> int \<Rightarrow> string \<Rightarrow> string \<Rightarrow> async_task \<Rightarrow> bool" where
  "owns task_id claim_token epoch st phase t \<longleftrightarrow> at_task_id t = task_id \<and> at_execution_state t = st \<and>
     at_execution_phase t = phase \<and> at_claim_token t = Some claim_token \<and> at_execution_epoch t = epoch"

definition changed_row :: "'r list task_cmd \<Rightarrow> bool task_cmd" where
  "changed_row m = bind_cmd m (\<lambda>rows. return_cmd (rows \<noteq> []))"

definition start_prefect :: "task_env \<Rightarrow> uuid \<Rightarrow> uuid \<Rightarrow> int \<Rightarrow> int \<Rightarrow> bool task_cmd" where
  "start_prefect E task_id claim_token epoch lease_seconds = changed_row (update_tasks E ''start_prefect''
     (\<lambda>t. owns task_id claim_token epoch ''claimed'' ''preflight'' t \<and>
        (case at_claim_expires_at t of None \<Rightarrow> False | Some x \<Rightarrow> x > te_clock E ''start.unexpired'' task_id))
     (\<lambda>t. t\<lparr>at_execution_state := ''running'', at_execution_phase := ''prefect_started'',
        at_heartbeat_at := Some (te_clock E ''start.heartbeat'' task_id),
        at_claim_expires_at := Some (lease_end (te_clock E ''start.expires'' task_id) lease_seconds),
        at_updated_at := te_clock E ''start.updated'' task_id\<rparr>))"

definition heartbeat_execution :: "task_env \<Rightarrow> uuid \<Rightarrow> uuid \<Rightarrow> int \<Rightarrow> int \<Rightarrow> bool task_cmd" where
  "heartbeat_execution E task_id claim_token epoch lease_seconds = changed_row (update_tasks E ''heartbeat''
     (owns task_id claim_token epoch ''running'' ''prefect_started'')
     (\<lambda>t. t\<lparr>at_heartbeat_at := Some (te_clock E ''heartbeat.at'' task_id),
        at_claim_expires_at := Some (lease_end (te_clock E ''heartbeat.expires'' task_id) lease_seconds),
        at_updated_at := te_clock E ''heartbeat.updated'' task_id\<rparr>))"

definition finish_execution ::
  "task_env \<Rightarrow> uuid \<Rightarrow> uuid \<Rightarrow> int \<Rightarrow> string \<Rightarrow> string \<Rightarrow> bool option \<Rightarrow> json \<Rightarrow> string option \<Rightarrow>
   string option \<Rightarrow> bool task_cmd" where
  "finish_execution E task_id claim_token epoch st pipeline_status published result error_code error_message =
     changed_row (update_tasks E ''finish'' (owns task_id claim_token epoch ''running'' ''prefect_started'')
       (\<lambda>t. t\<lparr>at_execution_state := st, at_execution_phase := ''terminal'',
          at_celery_state := Some (if st = ''succeeded'' \<or>
              st = ''reconciliation_required'' \<and> pipeline_status = ''commit_uncertain''
            then ''SUCCESS'' else ''FAILURE''),
          at_pipeline_status := Some pipeline_status, at_published := published, at_result_summary := Some result,
          at_error_code := map_option safe_code error_code,
          at_error_message := map_option sanitize_message error_message,
          at_finished_at := Some (te_clock E ''finish.at'' task_id),
          at_heartbeat_at := Some (te_clock E ''finish.heartbeat'' task_id), at_claim_expires_at := None,
          at_updated_at := te_clock E ''finish.updated'' task_id\<rparr>))"

definition schedule_retry ::
  "task_env \<Rightarrow> uuid \<Rightarrow> uuid \<Rightarrow> int \<Rightarrow> time \<Rightarrow> string \<Rightarrow> string \<Rightarrow> bool task_cmd" where
  "schedule_retry E task_id claim_token epoch next_attempt_at error_code error_message =
     changed_row (update_tasks E ''retry'' (owns task_id claim_token epoch ''claimed'' ''preflight'')
       (\<lambda>t. t\<lparr>at_execution_state := ''retry_wait'', at_execution_phase := ''none'', at_celery_state := Some ''RETRY'',
          at_error_code := Some (safe_code error_code), at_error_message := Some (sanitize_message error_message),
          at_next_attempt_at := Some next_attempt_at, at_claim_token := None, at_claim_expires_at := None,
          at_updated_at := te_clock E ''retry.updated'' task_id\<rparr>))"

text \<open>
  \<open>INSERT ... ON CONFLICT (task_id) DO UPDATE ... WHERE run_id = EXCLUDED.run_id RETURNING\<close>: the
  letter is there for this run afterwards, or no row comes back.
\<close>

definition insert_dead_letter ::
  "task_env \<Rightarrow> uuid \<Rightarrow> uuid \<Rightarrow> int \<Rightarrow> string \<Rightarrow> string \<Rightarrow> string \<Rightarrow> bool task_cmd" where
  "insert_dead_letter E task_id run_id attempt_number reason error_code error_message =
     statement E ''insert_dead_letter'' (\<lambda>s.
       let l = \<lparr>dl_task_id = task_id, dl_run_id = run_id, dl_attempt_number = attempt_number,
             dl_terminal_reason = safe_code reason, dl_error_code = safe_code error_code,
             dl_error_message = sanitize_message error_message,
             dl_failed_at = te_clock E ''dead_letter.at'' task_id\<rparr>
       in if \<not> dead_letter_ok l then (Inl TaskIntegrityError, s)
          else case find (\<lambda>x. dl_task_id x = task_id) (td_dead s) of
            Some x \<Rightarrow> (Inr (dl_run_id x = run_id), s)
          | None \<Rightarrow>
              if run_id \<in> dl_run_id ` set (td_dead s) \<or> task_id \<notin> at_task_id ` set (td_tasks s) \<or>
                 run_id \<notin> rr_run_id ` set (rd_runs (td_store s))
              then (Inl TaskIntegrityError, s)
              else (Inr True, s\<lparr>td_dead := td_dead s @ [l]\<rparr>))"

definition fail_claim ::
  "task_env \<Rightarrow> uuid \<Rightarrow> uuid \<Rightarrow> int \<Rightarrow> string \<Rightarrow> string \<Rightarrow> string \<Rightarrow> bool task_cmd" where
  "fail_claim E task_id claim_token epoch st error_code error_message =
     changed_row (update_tasks E ''fail_claim'' (owns task_id claim_token epoch ''claimed'' ''preflight'')
       (\<lambda>t. t\<lparr>at_execution_state := st, at_execution_phase := ''terminal'', at_celery_state := Some ''FAILURE'',
          at_published := Some False, at_error_code := Some (safe_code error_code),
          at_error_message := Some (sanitize_message error_message), at_claim_expires_at := None,
          at_finished_at := Some (te_clock E ''fail.at'' task_id),
          at_updated_at := te_clock E ''fail.updated'' task_id\<rparr>))"

end
