(* ===== verification/TaskRelay.thy ===== *)
theory TaskRelay
  imports TaskStore
begin

text \<open>
  The relay from the dispatch outbox to the broker, \<open>services/task_queue/relay.py\<close>. One call is a
  transaction that claims a row, the publication, and a transaction that records its outcome; the
  messages the broker took are part of the state. The loop of the process, its signals and its
  environment variables are left out.
\<close>

section \<open>The broker\<close>

record broker_message =
  bm_task_id :: string
  bm_contract_version :: int
  bm_run_id :: string
  bm_week_start :: string

record dispatch_world =
  dw_db :: task_db
  dw_sent :: "broker_message list"

text \<open>
  Sending a message: it is taken, it raises before it is taken, or it raises although it was taken.
\<close>

datatype send_outcome = Sent | NotSent raised | SentUnconfirmed raised

text \<open>
  \<open>_publish\<close> reads four keys of the payload, which the acceptance writes with these types; a missing
  one raises.
\<close>

definition message_of :: "tags \<Rightarrow> broker_message option" where
  "message_of payload =
     (case (map_of payload ''task_id'', map_of payload ''contract_version'', map_of payload ''run_id'',
        map_of payload ''week_start'') of
        (Some (JStr i), Some (JInt v), Some (JStr r), Some (JStr w)) \<Rightarrow>
          Some \<lparr>bm_task_id = i, bm_contract_version = v, bm_run_id = r, bm_week_start = w\<rparr>
      | _ \<Rightarrow> None)"

definition missing_key :: raised where
  "missing_key = \<lparr>ex_type = ''KeyError'', ex_code = None, ex_message = []\<rparr>"

definition publish :: "send_outcome \<Rightarrow> tags \<Rightarrow> broker_message list \<Rightarrow> raised option \<times> broker_message list" where
  "publish outcome payload sent =
     (case message_of payload of
        None \<Rightarrow> (Some missing_key, sent)
      | Some m \<Rightarrow>
         (case outcome of
            Sent \<Rightarrow> (None, sent @ [m])
          | NotSent ex \<Rightarrow> (Some ex, sent)
          | SentUnconfirmed ex \<Rightarrow> (Some ex, sent @ [m])))"

section \<open>The claim\<close>

definition WAITING :: "string list" where
  "WAITING = [''pending'', ''retry_wait'', ''publication_uncertain'']"

definition expire_leases :: "task_env \<Rightarrow> unit task_cmd" where
  "expire_leases E = bind_cmd (update_dispatch E ''expire_leases''
     (\<lambda>r. dr_dispatch_status r = ''publishing'' \<and>
        passed (dr_relay_lease_expires_at r) (te_clock E ''relay.expired'' (dr_task_id r)))
     (\<lambda>r. r\<lparr>dr_dispatch_status := ''publication_uncertain'', dr_last_error_code := Some ''publication_uncertain'',
        dr_updated_at := te_clock E ''relay.expired_at'' (dr_task_id r)\<rparr>)) (\<lambda>_. return_cmd ())"

definition give_up :: "task_env \<Rightarrow> int \<Rightarrow> unit task_cmd" where
  "give_up E max_attempts = bind_cmd (update_dispatch E ''give_up''
     (\<lambda>r. dr_dispatch_status r \<in> set WAITING \<and> dr_publish_attempts r \<ge> max_attempts)
     (\<lambda>r. r\<lparr>dr_dispatch_status := ''reconciliation_required'', dr_last_error_code := Some ''publish_attempts_exhausted'',
        dr_updated_at := te_clock E ''relay.gave_up_at'' (dr_task_id r)\<rparr>)) (\<lambda>_. return_cmd ())"

definition unresolved :: "dispatch_row list \<Rightarrow> uuid \<Rightarrow> bool" where
  "unresolved rows i \<longleftrightarrow> list_ex (\<lambda>r. dr_task_id r = i \<and> dr_dispatch_status r = ''reconciliation_required'') rows"

definition flag_tasks :: "task_env \<Rightarrow> unit task_cmd" where
  "flag_tasks E s = bind_cmd (update_tasks E ''flag_tasks''
     (\<lambda>t. unresolved (td_outbox s) (at_task_id t) \<and> at_dispatch_status t \<noteq> ''reconciliation_required'')
     (\<lambda>t. t\<lparr>at_dispatch_status := ''reconciliation_required'',
        at_updated_at := te_clock E ''relay.flagged_at'' (at_task_id t)\<rparr>)) (\<lambda>_. return_cmd ()) s"

text \<open>\<open>ORDER BY next_attempt_at, created_at FOR UPDATE SKIP LOCKED LIMIT 1\<close>.\<close>

definition next_dispatch :: "task_env \<Rightarrow> (uuid \<Rightarrow> bool) \<Rightarrow> int \<Rightarrow> dispatch_row list \<Rightarrow> dispatch_row option" where
  "next_dispatch E locked max_attempts rows =
     first_row (sort_key (\<lambda>r. (dr_next_attempt_at r, dr_created_at r))
       (filter (\<lambda>r. \<not> locked (dr_task_id r) \<and> dr_dispatch_status r \<in> set WAITING \<and>
          dr_publish_attempts r < max_attempts \<and> dr_next_attempt_at r \<le> te_clock E ''relay.due'' (dr_task_id r) \<and>
          (dr_relay_lease_expires_at r = None \<or>
           passed (dr_relay_lease_expires_at r) (te_clock E ''relay.free'' (dr_task_id r)))) rows))"

definition claim_dispatch_row :: "task_env \<Rightarrow> string \<Rightarrow> uuid \<Rightarrow> int \<Rightarrow> dispatch_row \<Rightarrow> dispatch_row" where
  "claim_dispatch_row E owner token lease_seconds r =
     r\<lparr>dr_dispatch_status := ''publishing'', dr_relay_owner := Some owner, dr_relay_token := Some token,
       dr_relay_lease_expires_at := Some (lease_end (te_clock E ''relay.lease'' (dr_task_id r)) lease_seconds),
       dr_publish_attempts := dr_publish_attempts r + 1,
       dr_updated_at := te_clock E ''relay.claimed_at'' (dr_task_id r)\<rparr>"

definition claim_one ::
  "task_env \<Rightarrow> (uuid \<Rightarrow> bool) \<Rightarrow> string \<Rightarrow> uuid \<Rightarrow> int \<Rightarrow> int \<Rightarrow> dispatch_row option task_cmd" where
  "claim_one E locked owner token lease_seconds max_attempts =
     bind_cmd (expire_leases E) (\<lambda>_.
     bind_cmd (give_up E max_attempts) (\<lambda>_.
     bind_cmd (flag_tasks E) (\<lambda>_.
     bind_cmd (statement E ''next_dispatch'' (\<lambda>s. (Inr (next_dispatch E locked max_attempts (td_outbox s)), s))) (\<lambda>row.
     case row of
       None \<Rightarrow> return_cmd None
     | Some r \<Rightarrow>
         bind_cmd (update_dispatch E ''claim_dispatch'' (\<lambda>x. dr_task_id x = dr_task_id r)
           (claim_dispatch_row E owner token lease_seconds)) (\<lambda>rows.
         return_cmd (first_row rows))))))"

section \<open>The outcome\<close>

definition holds :: "uuid \<Rightarrow> uuid \<Rightarrow> dispatch_row \<Rightarrow> bool" where
  "holds task_id token r \<longleftrightarrow>
     dr_task_id r = task_id \<and> dr_relay_token r = Some token \<and> dr_dispatch_status r = ''publishing''"

definition record_failure :: "task_env \<Rightarrow> uuid \<Rightarrow> dispatch_row \<Rightarrow> string \<Rightarrow> int \<Rightarrow> int \<Rightarrow> unit task_cmd" where
  "record_failure E token claimed code max_backoff_seconds max_publish_attempts =
     (let delay = min max_backoff_seconds (2 ^ nat (min (dr_publish_attempts claimed) 8)) in
      bind_cmd (update_dispatch E ''publish_failed'' (holds (dr_task_id claimed) token)
        (\<lambda>r. r\<lparr>dr_dispatch_status := (if dr_publish_attempts r \<ge> max_publish_attempts
             then ''reconciliation_required'' else ''retry_wait''),
           dr_next_attempt_at := lease_end (te_clock E ''relay.next'' (dr_task_id r)) delay,
           dr_relay_owner := None, dr_relay_token := None, dr_relay_lease_expires_at := None,
           dr_last_error_code := Some code, dr_updated_at := te_clock E ''relay.failed_at'' (dr_task_id r)\<rparr>)) (\<lambda>_.
      if dr_publish_attempts claimed \<ge> max_publish_attempts
      then bind_cmd (update_tasks E ''task_unpublished'' (\<lambda>t. at_task_id t = dr_task_id claimed)
          (\<lambda>t. t\<lparr>at_dispatch_status := ''reconciliation_required'',
             at_updated_at := te_clock E ''relay.unpublished_at'' (at_task_id t)\<rparr>)) (\<lambda>_. return_cmd ())
      else return_cmd ()))"

definition record_success :: "task_env \<Rightarrow> uuid \<Rightarrow> dispatch_row \<Rightarrow> unit task_cmd" where
  "record_success E token claimed =
     bind_cmd (update_dispatch E ''published'' (holds (dr_task_id claimed) token)
       (\<lambda>r. r\<lparr>dr_dispatch_status := ''published'',
          dr_published_at := Some (te_clock E ''relay.published_at'' (dr_task_id r)), dr_relay_owner := None,
          dr_relay_token := None, dr_relay_lease_expires_at := None, dr_last_error_code := None,
          dr_updated_at := te_clock E ''relay.updated_at'' (dr_task_id r)\<rparr>)) (\<lambda>rows.
     if rows = [] then return_cmd ()
     else bind_cmd (update_tasks E ''task_published'' (\<lambda>t. at_task_id t = dr_task_id claimed)
       (\<lambda>t. t\<lparr>at_dispatch_status := ''published'',
          at_execution_state := (if at_execution_state t = ''accepted'' then ''queued'' else at_execution_state t),
          at_updated_at := te_clock E ''relay.task_at'' (at_task_id t)\<rparr>)) (\<lambda>_. return_cmd ()))"

section \<open>One call\<close>

text \<open>
  \<open>E\<close> and \<open>F\<close> are the environments of the two transactions, \<open>others\<close> what other sessions commit
  between them.
\<close>

record relay_config =
  rc_owner :: string
  rc_lease_seconds :: int
  rc_max_backoff_seconds :: int
  rc_max_publish_attempts :: int

definition on_db :: "'a task_cmd \<Rightarrow> dispatch_world \<Rightarrow> (task_error + 'a) \<times> dispatch_world" where
  "on_db m w = (case m (dw_db w) of (r, t) \<Rightarrow> (r, w\<lparr>dw_db := t\<rparr>))"

definition relay_once ::
  "task_env \<Rightarrow> task_env \<Rightarrow> (uuid \<Rightarrow> bool) \<Rightarrow> send_outcome \<Rightarrow> (dispatch_world \<Rightarrow> dispatch_world) \<Rightarrow>
   relay_config \<Rightarrow> dispatch_world \<Rightarrow> (task_error + bool) \<times> dispatch_world" where
  "relay_once E F locked outcome others K w =
     (let token = te_uuid4 E 0 in
      case on_db (begin_task E (claim_one E locked (rc_owner K) token (rc_lease_seconds K) (rc_max_publish_attempts K))) w of
        (Inl e, w1) \<Rightarrow> (Inl e, w1)
      | (Inr None, w1) \<Rightarrow> (Inr False, w1)
      | (Inr (Some claimed), w1) \<Rightarrow>
         (case publish outcome (dr_payload claimed) (dw_sent w1) of
            (Some ex, sent) \<Rightarrow>
              (case on_db (begin_task F (record_failure F token claimed (fst (public_exception ex))
                     (rc_max_backoff_seconds K) (rc_max_publish_attempts K))) (others (w1\<lparr>dw_sent := sent\<rparr>)) of
                 (Inl e, w2) \<Rightarrow> (Inl e, w2) | (Inr _, w2) \<Rightarrow> (Inr True, w2))
          | (None, sent) \<Rightarrow>
              (case on_db (begin_task F (record_success F token claimed)) (others (w1\<lparr>dw_sent := sent\<rparr>)) of
                 (Inl e, w2) \<Rightarrow> (Inl e, w2) | (Inr _, w2) \<Rightarrow> (Inr True, w2))))"

end
