(* ===== verification/TaskReconciliation.thy ===== *)
theory TaskReconciliation
  imports TaskStore
begin

text \<open>
  Repair of tasks from the run history, \<open>services/task_queue/reconciliation.py\<close>, and the public
  projection of a task's state, \<open>services/task_queue/router.py\<close>. Nothing here executes a task again.
\<close>

section \<open>Dead letters in a savepoint\<close>

definition nested :: "bool task_cmd \<Rightarrow> bool task_cmd" where
  "nested m s = (case m s of (Inl _, _) \<Rightarrow> (Inr False, s) | (Inr b, t) \<Rightarrow> (Inr b, t))"

section \<open>One task\<close>

definition run_outcome :: "run_record \<Rightarrow> json" where
  "run_outcome r = JObj
     [(''pipeline_status'', JStr (rr_status r)), (''commit_result'', JStr (rr_commit_result r)),
      (''counts'', JObj [(''inserted'', JInt (or_else (rr_rows_inserted r) 0)),
         (''updated'', JInt (or_else (rr_rows_updated r) 0)), (''unchanged'', JInt (or_else (rr_rows_unchanged r) 0))])]"

text \<open>The state and the publication the run history decides, when it decides them.\<close>

definition decided :: "run_record \<Rightarrow> (string \<times> bool option) option" where
  "decided r =
     (if rr_commit_result r = ''uncertain'' then Some (''reconciliation_required'', None)
      else if rr_status r \<in> {''succeeded'', ''succeeded_noop''} \<and> rr_commit_result r = ''technically_observed''
      then Some (''succeeded'', Some True)
      else if rr_status r = ''blocked_quality'' then Some (''succeeded'', Some False)
      else if rr_status r \<in> {''superseded'', ''skipped_in_progress'', ''failed_retryable''} then Some (''failed'', Some False)
      else None)"

definition settle_row :: "task_env \<Rightarrow> string \<Rightarrow> string \<Rightarrow> bool option \<Rightarrow> json \<Rightarrow> async_task \<Rightarrow> async_task" where
  "settle_row E st status published result t =
     t\<lparr>at_execution_state := st, at_execution_phase := ''terminal'', at_pipeline_status := Some status,
       at_published := published, at_result_summary := Some result, at_claim_token := None,
       at_claim_expires_at := None, at_finished_at := Some (te_clock E ''reconcile.finished'' (at_task_id t)),
       at_updated_at := te_clock E ''reconcile.updated'' (at_task_id t)\<rparr>"

definition abandon_row :: "task_env \<Rightarrow> async_task \<Rightarrow> async_task" where
  "abandon_row E t =
     t\<lparr>at_execution_state := ''reconciliation_required'', at_execution_phase := ''terminal'',
       at_pipeline_status := Some ''execution_abandoned'', at_published := None,
       at_error_code := Some ''execution_abandoned'',
       at_error_message := Some ''worker heartbeat expired after Prefect started'',
       at_claim_expires_at := None, at_finished_at := Some (te_clock E ''abandon.finished'' (at_task_id t)),
       at_updated_at := te_clock E ''abandon.updated'' (at_task_id t)\<rparr>"

definition SETTLED_STATES :: "string list" where
  "SETTLED_STATES = [''succeeded'', ''dead_lettered'', ''failed'', ''reconciliation_required'']"

definition str_default :: "string option \<Rightarrow> string \<Rightarrow> string" where
  "str_default v d = (case v of None \<Rightarrow> d | Some x \<Rightarrow> if x = [] then d else x)"

definition letter_pending :: "task_env \<Rightarrow> async_task \<Rightarrow> string task_cmd" where
  "letter_pending E t =
     bind_cmd (nested (insert_dead_letter E (at_task_id t) (at_run_id t) (max 1 (at_attempt_count t))
       (if at_attempt_count t \<ge> 3 then ''retries_exhausted'' else ''non_retryable'')
       (str_default (at_error_code t) ''terminal_failure'')
       (str_default (at_error_message t) ''terminal task failure''))) (\<lambda>confirmed.
     if confirmed
     then bind_cmd (update_tasks E ''confirm_dead_letter''
         (\<lambda>x. at_task_id x = at_task_id t \<and> at_execution_state x = ''failure_pending_dlq'')
         (\<lambda>x. x\<lparr>at_execution_state := ''dead_lettered'', at_celery_state := Some ''FAILURE'',
            at_updated_at := te_clock E ''dead_lettered.updated'' (at_task_id x)\<rparr>))
       (\<lambda>_. return_cmd ''dead_lettered'')
     else return_cmd ''failure_pending_dlq'')"

definition reconcile_task :: "task_env \<Rightarrow> uuid \<Rightarrow> string task_cmd" where
  "reconcile_task E task_id =
     bind_cmd (get_async_task E task_id) (\<lambda>row.
     case row of
       None \<Rightarrow> return_cmd ''not_found''
     | Some (t, r) \<Rightarrow>
         if at_execution_state t = ''failure_pending_dlq'' then letter_pending E t
         else if at_execution_state t \<in> set SETTLED_STATES then return_cmd ''unchanged''
         else case decided r of
           Some (st, published) \<Rightarrow>
             bind_cmd (update_tasks E ''reconcile'' (\<lambda>x. at_task_id x = task_id)
               (settle_row E st (rr_status r) published (run_outcome r))) (\<lambda>_. return_cmd st)
         | None \<Rightarrow>
             if at_execution_state t = ''running'' \<and> at_execution_phase t = ''prefect_started'' \<and>
                passed (at_claim_expires_at t) (te_clock E ''reconcile.expired'' task_id)
             then
               bind_cmd (update_tasks E ''abandon''
                 (\<lambda>x. at_task_id x = task_id \<and> at_execution_state x = ''running'' \<and>
                    at_execution_phase x = ''prefect_started'' \<and>
                    passed (at_claim_expires_at x) (te_clock E ''abandon.expired'' task_id))
                 (abandon_row E)) (\<lambda>_. return_cmd ''reconciliation_required'')
             else return_cmd ''ambiguous'')"

section \<open>The next task\<close>

definition repairable :: "task_env \<Rightarrow> run_record \<Rightarrow> async_task \<Rightarrow> bool" where
  "repairable E r t \<longleftrightarrow>
     at_execution_state t = ''failure_pending_dlq'' \<or>
     at_execution_state t = ''running'' \<and> at_execution_phase t = ''prefect_started'' \<and>
       passed (at_claim_expires_at t) (te_clock E ''repair.abandoned'' (at_task_id t)) \<or>
     at_execution_state t \<in> {''claimed'', ''running''} \<and>
       passed (at_claim_expires_at t) (te_clock E ''repair.decided'' (at_task_id t)) \<and>
       rr_status r \<in> {''succeeded'', ''succeeded_noop'', ''blocked_quality'', ''failed_retryable'', ''superseded'',
         ''skipped_in_progress''}"

text \<open>\<open>ORDER BY t.updated_at, t.task_id FOR UPDATE OF t SKIP LOCKED LIMIT 1\<close>.\<close>

definition next_repair :: "task_env \<Rightarrow> (uuid \<Rightarrow> bool) \<Rightarrow> task_db \<Rightarrow> uuid option" where
  "next_repair E locked s =
     first_row (map at_task_id (sort_key (\<lambda>t. (at_updated_at t, at_task_id t))
       (filter (\<lambda>t. \<not> locked (at_task_id t) \<and>
          (case find_run (td_store s) (at_run_id t) of None \<Rightarrow> False | Some r \<Rightarrow> repairable E r t)) (td_tasks s))))"

definition reconcile_one :: "task_env \<Rightarrow> (uuid \<Rightarrow> bool) \<Rightarrow> bool task_cmd" where
  "reconcile_one E locked = begin_task E
     (bind_cmd (statement E ''next_repair'' (\<lambda>s. (Inr (next_repair E locked s), s))) (\<lambda>row.
      case row of
        None \<Rightarrow> return_cmd False
      | Some task_id \<Rightarrow> bind_cmd (reconcile_task E task_id) (\<lambda>_. return_cmd True)))"

section \<open>The public state\<close>

definition public_task_status :: "string \<Rightarrow> string" where
  "public_task_status execution_state =
     (if execution_state \<in> {''accepted'', ''queued'', ''retry_wait''} then ''pending''
      else if execution_state \<in> {''claimed'', ''running''} then ''started''
      else if execution_state \<in> {''succeeded''} then ''success''
      else ''failure'')"

end
