(* ===== verification/PublicationResult.thy ===== *)
theory PublicationResult
  imports RunStore
begin

text \<open>
  \<open>CoordinatorResult\<close> of \<open>pipelines/coordinator.py\<close>, the outcome of a weekly publication that its
  callers read.
\<close>

record coordinator_result =
  cr_week_start :: date
  cr_run_id :: "uuid option"
  cr_status :: string
  cr_errors :: "string list"
  cr_inserted :: int
  cr_updated :: int
  cr_unchanged :: int
  cr_commit_result :: string
  cr_publication_recorded :: bool
  cr_recovered :: bool
  cr_evidence_inconclusive :: bool
  cr_coverage_source :: "string option"

definition production_certified :: "coordinator_result \<Rightarrow> bool" where
  "production_certified r = False"

definition business_publication_valid :: "coordinator_result \<Rightarrow> bool" where
  "business_publication_valid r \<longleftrightarrow> cr_publication_recorded r \<and>
     cr_status r \<in> {''succeeded'', ''succeeded_noop''} \<and> cr_commit_result r = ''technically_observed'' \<and>
     \<not> cr_evidence_inconclusive r"

end
