(* ===== verification/TaskWorker.thy ===== *)
theory TaskWorker
  imports TaskReconciliation PublicationResult
begin

text \<open>
  The Celery task around the weekly pipeline, \<open>services/task_queue/tasks.py\<close>. A delivery is a
  sequence of transactions, between which other sessions, the heartbeat thread among them, run. The
  pipeline, the broker's retry and the parsing of the delivery's texts are arguments: their outcomes
  are fields of the delivery.
\<close>

section \<open>A delivery\<close>

datatype preflight = Ready | Unavailable raised | Broken raised

record delivery =
  dv_eager :: bool
  dv_id :: string
  dv_task_id :: "uuid option"
  dv_run_id :: "uuid option"
  dv_week_start :: "date option"
  dv_contract_version :: int
  dv_now :: time
  dv_engine_ok :: bool
  dv_timing :: "(int \<times> int \<times> int) option"
  dv_preflight :: preflight
  dv_pipeline :: "raised + coordinator_result"
  dv_retry_now :: time
  dv_retries_left :: bool

text \<open>
  How a delivery ends besides with a result: the broker is asked to deliver again after some
  seconds, or the task fails with a \<open>TaskExecutionError\<close>.
\<close>

datatype worker_end = RetryIn int | ExecutionError

type_synonym 'a worker_cmd = "(task_db, worker_end, 'a) cmd"

definition REDACTED_DIAGNOSTIC :: string where
  "REDACTED_DIAGNOSTIC = ''redacted_diagnostic''"

definition safe_result_errors :: "string list \<Rightarrow> string list" where
  "safe_result_errors errors = map (\<lambda>v. if SAFE_CODE v then v else REDACTED_DIAGNOSTIC) errors"

definition result_payload :: "string \<Rightarrow> uuid \<Rightarrow> coordinator_result \<Rightarrow> json option" where
  "result_payload task_id requested_run_id r =
     (if cr_run_id r \<noteq> Some requested_run_id then None
      else Some (JObj
        [(''task_id'', JStr task_id), (''run_id'', JStr (uuid_str requested_run_id)),
         (''week_start'', JStr (iso_date (cr_week_start r))), (''status'', JStr (cr_status r)),
         (''counts'', JObj [(''inserted'', JInt (cr_inserted r)), (''updated'', JInt (cr_updated r)),
            (''unchanged'', JInt (cr_unchanged r))]),
         (''commit_result'', JStr (cr_commit_result r)),
         (''publication_recorded'', JBool (cr_publication_recorded r)),
         (''recovered'', JBool (cr_recovered r)),
         (''evidence_inconclusive'', JBool (cr_evidence_inconclusive r)),
         (''coverage_source'', case cr_coverage_source r of None \<Rightarrow> JNull | Some c \<Rightarrow> JStr c),
         (''errors'', JList (map JStr (safe_result_errors (cr_errors r)))),
         (''production_certified'', JBool (production_certified r))]))"

text \<open>The state of the task and what it says of the publication, from the result of the pipeline.\<close>

definition terminal_state :: "coordinator_result \<Rightarrow> string \<times> bool option" where
  "terminal_state r =
     (if cr_status r = ''commit_uncertain'' \<or> cr_commit_result r = ''uncertain'' then (''reconciliation_required'', None)
      else if cr_status r = ''blocked_quality'' then (''succeeded'', Some False)
      else if cr_status r \<in> {''succeeded'', ''succeeded_noop''} then (''succeeded'', Some (cr_publication_recorded r))
      else if cr_status r \<in> {''superseded'', ''skipped_in_progress''} then (''failed'', Some False)
      else (''failed'', Some False))"

section \<open>Transactions\<close>

text \<open>Transaction \<open>n\<close> of the delivery, after what other sessions committed before it.\<close>

definition worker_tx ::
  "(nat \<Rightarrow> task_env) \<Rightarrow> (nat \<Rightarrow> task_db \<Rightarrow> task_db) \<Rightarrow> nat \<Rightarrow> (task_env \<Rightarrow> 'a task_cmd) \<Rightarrow> 'a worker_cmd" where
  "worker_tx E others n m s = map_error (\<lambda>_. ExecutionError) (begin_task (E n) (m (E n))) (others n s)"

definition try_dead_letter ::
  "task_env \<Rightarrow> uuid \<Rightarrow> uuid \<Rightarrow> int \<Rightarrow> string \<Rightarrow> string \<Rightarrow> string \<Rightarrow> bool task_cmd" where
  "try_dead_letter E task_id run_id attempt reason code message =
     nested (insert_dead_letter E task_id run_id attempt reason code message)"

definition letter_state :: "bool \<Rightarrow> string" where
  "letter_state inserted = (if inserted then ''dead_lettered'' else ''failure_pending_dlq'')"

definition bury_claim :: "uuid \<Rightarrow> uuid \<Rightarrow> async_task \<Rightarrow> uuid \<Rightarrow> string \<Rightarrow> raised \<Rightarrow> task_env \<Rightarrow> unit task_cmd" where
  "bury_claim task_id run_id claim token reason ex E =
     (case public_exception ex of (code, message) \<Rightarrow>
        bind_cmd (try_dead_letter E task_id run_id (at_attempt_count claim) reason code message) (\<lambda>inserted.
        bind_cmd (fail_claim E task_id token (at_execution_epoch claim) (letter_state inserted) code message) (\<lambda>_.
        return_cmd ())))"

definition look_again :: "uuid \<Rightarrow> task_env \<Rightarrow> (async_task \<times> run_record) option task_cmd" where
  "look_again task_id E = bind_cmd (reconcile_task E task_id) (\<lambda>_. get_async_task E task_id)"

definition stored_result :: "(async_task \<times> run_record) option \<Rightarrow> json worker_cmd" where
  "stored_result existing =
     (case existing of
        Some (t, _) \<Rightarrow>
          if at_execution_state t = ''succeeded'' then return_cmd (or_else (at_result_summary t) (JObj []))
          else raise_cmd ExecutionError
      | None \<Rightarrow> raise_cmd ExecutionError)"

section \<open>The phases\<close>

definition run_and_finish ::
  "delivery \<Rightarrow> (nat \<Rightarrow> task_env) \<Rightarrow> (nat \<Rightarrow> task_db \<Rightarrow> task_db) \<Rightarrow> uuid \<Rightarrow> uuid \<Rightarrow> async_task \<Rightarrow> uuid \<Rightarrow> json worker_cmd" where
  "run_and_finish D E others task_id run_id claim token =
     (case dv_pipeline D of
        Inl ex \<Rightarrow>
          bind_cmd (worker_tx E others 3 (\<lambda>e. finish_execution e task_id token (at_execution_epoch claim)
            ''reconciliation_required'' ''execution_uncertain'' None (JObj [])
            (Some (fst (public_exception ex))) (Some (snd (public_exception ex))))) (\<lambda>_.
          raise_cmd ExecutionError)
      | Inr r \<Rightarrow>
         (case result_payload (dv_id D) run_id r of
            None \<Rightarrow> raise_cmd ExecutionError
          | Some payload \<Rightarrow>
             (case terminal_state r of (st, published) \<Rightarrow>
                if st = ''failed''
                then
                  bind_cmd (worker_tx E others 3 (\<lambda>e.
                    bind_cmd (try_dead_letter e task_id run_id (at_attempt_count claim) ''pipeline_terminal'' (cr_status r)
                      ''pipeline returned a terminal failure'') (\<lambda>inserted.
                    finish_execution e task_id token (at_execution_epoch claim) (letter_state inserted) (cr_status r)
                      published payload (Some (cr_status r)) (Some ''pipeline returned a terminal failure'')))) (\<lambda>_.
                  raise_cmd ExecutionError)
                else
                  bind_cmd (worker_tx E others 3 (\<lambda>e. finish_execution e task_id token (at_execution_epoch claim)
                    st (cr_status r) published payload None None)) (\<lambda>finished.
                  if finished then return_cmd payload else raise_cmd ExecutionError))))"

definition execute_claim ::
  "delivery \<Rightarrow> (nat \<Rightarrow> task_env) \<Rightarrow> (nat \<Rightarrow> task_db \<Rightarrow> task_db) \<Rightarrow> int \<Rightarrow> int \<Rightarrow> uuid \<Rightarrow> uuid \<Rightarrow> async_task \<Rightarrow> uuid \<Rightarrow>
   json worker_cmd" where
  "execute_claim D E others lease_seconds retry_max_backoff task_id run_id claim token =
     (case dv_preflight D of
        Unavailable ex \<Rightarrow>
          if at_attempt_count claim < MAX_FAILED_EXECUTIONS
          then
            let delay = min retry_max_backoff (2 ^ nat (at_attempt_count claim - 1)) in
            bind_cmd (worker_tx E others 1 (\<lambda>e. schedule_retry e task_id token (at_execution_epoch claim)
              (dv_retry_now D + delay * 1000000) (fst (public_exception ex)) (snd (public_exception ex)))) (\<lambda>_.
            raise_cmd (if dv_retries_left D then RetryIn delay else ExecutionError))
          else
            bind_cmd (worker_tx E others 1 (bury_claim task_id run_id claim token ''retries_exhausted'' ex)) (\<lambda>_.
            raise_cmd ExecutionError)
      | Broken ex \<Rightarrow>
          bind_cmd (worker_tx E others 1 (bury_claim task_id run_id claim token ''non_retryable'' ex)) (\<lambda>_.
          raise_cmd ExecutionError)
      | Ready \<Rightarrow>
          bind_cmd (worker_tx E others 2 (\<lambda>e. start_prefect e task_id token (at_execution_epoch claim) lease_seconds)) (\<lambda>started.
          if \<not> started then raise_cmd ExecutionError
          else run_and_finish D E others task_id run_id claim token))"

definition legacy_eager_execution :: "delivery \<Rightarrow> json worker_cmd" where
  "legacy_eager_execution D =
     (case (dv_run_id D, parse_closed_week (Some (dv_week_start D)) (dv_now D), dv_pipeline D) of
        (Some run_id, Inr _, Inr r) \<Rightarrow>
          (case result_payload (dv_id D) run_id r of None \<Rightarrow> raise_cmd ExecutionError | Some p \<Rightarrow> return_cmd p)
      | _ \<Rightarrow> raise_cmd ExecutionError)"

definition timing_ok :: "int \<Rightarrow> int \<Rightarrow> int \<Rightarrow> bool" where
  "timing_ok lease_seconds heartbeat_seconds retry_max_backoff \<longleftrightarrow>
     \<not> (lease_seconds \<le> 0 \<or> heartbeat_seconds \<le> 0 \<or> heartbeat_seconds \<ge> lease_seconds \<or> retry_max_backoff \<le> 0)"

definition claimed_delivery ::
  "delivery \<Rightarrow> (nat \<Rightarrow> task_env) \<Rightarrow> (nat \<Rightarrow> task_db \<Rightarrow> task_db) \<Rightarrow> int \<Rightarrow> int \<Rightarrow> uuid \<Rightarrow> uuid \<Rightarrow> date \<Rightarrow> json worker_cmd" where
  "claimed_delivery D E others lease_seconds retry_max_backoff task_id run_id week =
     bind_cmd (worker_tx E others 0 (\<lambda>e. claim_execution e task_id lease_seconds)) (\<lambda>claimed.
     case claimed of
       None \<Rightarrow> bind_cmd (worker_tx E others 1 (look_again task_id)) stored_result
     | Some claim \<Rightarrow>
         if at_run_id claim \<noteq> run_id \<or> at_week_start claim \<noteq> week then raise_cmd ExecutionError
         else case at_claim_token claim of
           None \<Rightarrow> raise_cmd ExecutionError
         | Some token \<Rightarrow> execute_claim D E others lease_seconds retry_max_backoff task_id run_id claim token)"

definition run_weekly_pipeline_task ::
  "delivery \<Rightarrow> (nat \<Rightarrow> task_env) \<Rightarrow> (nat \<Rightarrow> task_db \<Rightarrow> task_db) \<Rightarrow> json worker_cmd" where
  "run_weekly_pipeline_task D E others =
     (if dv_eager D then legacy_eager_execution D
      else if dv_contract_version D \<noteq> CONTRACT_VERSION then raise_cmd ExecutionError
      else case (dv_task_id D, dv_run_id D, parse_closed_week (Some (dv_week_start D)) (dv_now D), dv_timing D) of
        (Some task_id, Some run_id, Inr week, Some (lease_seconds, heartbeat_seconds, retry_max_backoff)) \<Rightarrow>
          if \<not> dv_engine_ok D \<or> \<not> timing_ok lease_seconds heartbeat_seconds retry_max_backoff
          then raise_cmd ExecutionError
          else claimed_delivery D E others lease_seconds retry_max_backoff task_id run_id week
      | _ \<Rightarrow> raise_cmd ExecutionError)"

end
