(* ===== verification/TaskChanges.thy ===== *)
theory TaskChanges
  imports TaskRelay TaskWorker LeaseRefinement StatusTables Fencing
begin

text \<open>
  The abstract specification of the task queue: its invariant \<open>tasks_ok\<close> and the changes a committed
  statement may make. A task leaves its state only along \<open>task_allowed\<close>, every claim takes the next
  attempt and the next epoch, and a settled task keeps everything but its dispatch status.
\<close>

section \<open>The invariant\<close>

definition phase_ok :: "async_task \<Rightarrow> bool" where
  "phase_ok t \<longleftrightarrow> (at_execution_state t = ''claimed'' \<longleftrightarrow> at_execution_phase t = ''preflight'') \<and>
     (at_execution_state t = ''running'' \<longleftrightarrow> at_execution_phase t = ''prefect_started'') \<and>
     at_execution_epoch t = at_attempt_count t"

definition tasks_ok :: "task_db \<Rightarrow> bool" where
  "tasks_ok s \<longleftrightarrow> store_ok (td_store s) \<and>
     keys_unique at_task_id (td_tasks s) \<and> keys_unique at_run_id (td_tasks s) \<and>
     (\<forall>t \<in> set (td_tasks s). task_row_ok t \<and> phase_ok t \<and> (at_run_id t, at_week_start t) \<in> run_weeks (td_store s)) \<and>
     keys_unique dr_task_id (td_outbox s) \<and>
     (\<forall>r \<in> set (td_outbox s). dispatch_row_ok r \<and> dr_task_id r \<in> at_task_id ` set (td_tasks s)) \<and>
     keys_unique dl_task_id (td_dead s) \<and>
     (\<forall>l \<in> set (td_dead s). dead_letter_ok l \<and> dl_task_id l \<in> at_task_id ` set (td_tasks s))"

section \<open>States of a task\<close>

definition FINAL_STATES :: "string list" where
  "FINAL_STATES = [''succeeded'', ''failed'', ''dead_lettered'', ''reconciliation_required'']"

definition OPEN_STATES :: "string list" where
  "OPEN_STATES = [''accepted'', ''queued'', ''claimed'', ''retry_wait'', ''running'']"

definition task_allowed :: "int \<times> string \<Rightarrow> int \<times> string \<Rightarrow> bool" where
  "task_allowed a b \<longleftrightarrow>
     (if snd b = ''claimed''
      then fst b = fst a + 1 \<and> fst b \<le> 3 \<and>
        snd a \<in> {''accepted'', ''queued'', ''retry_wait'', ''claimed''}
      else fst b = fst a \<and>
       (snd a = ''accepted'' \<and> snd b = ''queued'' \<or> snd a = ''claimed'' \<and> snd b \<in> {''running'', ''retry_wait''} \<or>
        snd a \<in> {''claimed'', ''running''} \<and> snd b \<in> {''failure_pending_dlq'', ''dead_lettered''} \<or>
        snd a = ''failure_pending_dlq'' \<and> snd b = ''dead_lettered'' \<or>
        snd a \<in> set OPEN_STATES \<and> snd b \<in> {''succeeded'', ''failed'', ''reconciliation_required''}))"

definition state_rank :: "string \<Rightarrow> nat" where
  "state_rank st =
     (if st = ''accepted'' then 5 else if st = ''queued'' then 4 else if st = ''claimed'' then 3
      else if st \<in> {''running'', ''retry_wait''} then 2 else if st = ''failure_pending_dlq'' then 1 else 0)"

definition task_rank :: "int \<times> string \<Rightarrow> nat" where
  "task_rank a = 6 * nat (3 - fst a) + state_rank (snd a)"

lemma final_not_allowed: "snd a \<in> set FINAL_STATES \<Longrightarrow> \<not> task_allowed a b"
proof -
  have "list_all (\<lambda>st. \<not> task_allowed (n, st) b) FINAL_STATES" for n
    by (simp add: FINAL_STATES_def task_allowed_def OPEN_STATES_def)
  then show "snd a \<in> set FINAL_STATES \<Longrightarrow> \<not> task_allowed a b"
    by (cases a) (simp add: list_all_iff)
qed

lemma allowed_rank: "task_allowed a b \<Longrightarrow> task_rank b < task_rank a"
proof -
  assume "task_allowed a b"
  then consider "snd b = ''claimed''" "fst b = fst a + 1" "fst b \<le> 3"
    | "fst b = fst a" "state_rank (snd b) < state_rank (snd a)"
    by (cases "snd b = ''claimed''") (auto simp: task_allowed_def state_rank_def OPEN_STATES_def)
  then show ?thesis
  proof cases
    case 1
    then have "nat (3 - fst a) = Suc (nat (3 - fst b))" by simp
    moreover have "state_rank (snd b) = 3" using 1(1) by (simp add: state_rank_def)
    ultimately show ?thesis by (simp add: task_rank_def)
  qed (simp add: task_rank_def)
qed

definition progress :: "async_task \<Rightarrow> int \<times> string" where
  "progress t = (at_attempt_count t, at_execution_state t)"

text \<open>What a settled task keeps: everything but the dispatch of its message.\<close>

definition settled_part :: "async_task \<Rightarrow> async_task" where
  "settled_part t = t\<lparr>at_dispatch_status := [], at_updated_at := 0\<rparr>"

section \<open>Changes\<close>

definition same_task :: "async_task \<Rightarrow> async_task \<Rightarrow> bool" where
  "same_task t t' \<longleftrightarrow> at_task_id t' = at_task_id t \<and> at_run_id t' = at_run_id t \<and> at_user_id t' = at_user_id t \<and>
     at_task_name t' = at_task_name t \<and> at_week_start t' = at_week_start t \<and> at_created_at t' = at_created_at t"

definition advances :: "async_task \<Rightarrow> async_task \<Rightarrow> bool" where
  "advances t t' \<longleftrightarrow> at_execution_state t \<notin> set FINAL_STATES \<and>
     (at_execution_state t' = ''claimed'' \<and> at_execution_epoch t' = at_execution_epoch t + 1 \<and>
        task_allowed (progress t) (progress t') \<or>
      at_execution_epoch t' = at_execution_epoch t \<and>
        (at_claim_token t' = at_claim_token t \<or> at_claim_token t' = None) \<and>
        (progress t' = progress t \<or> at_execution_state t' \<noteq> ''claimed'' \<and> task_allowed (progress t) (progress t')))"

definition edits :: "async_task \<Rightarrow> async_task \<Rightarrow> bool" where
  "edits t t' \<longleftrightarrow> same_task t t' \<and> task_row_ok t' \<and> (phase_ok t \<longrightarrow> phase_ok t') \<and>
     (settled_part t' = settled_part t \<or> advances t t')"

definition redispatches :: "dispatch_row \<Rightarrow> dispatch_row \<Rightarrow> bool" where
  "redispatches r r' \<longleftrightarrow> dr_task_id r' = dr_task_id r \<and> dr_payload r' = dr_payload r \<and> dispatch_row_ok r' \<and>
     dr_publish_attempts r \<le> dr_publish_attempts r' \<and> dr_dispatch_status r \<noteq> ''published'' \<and>
     dr_dispatch_status r' \<noteq> ''published''"

definition row_wise :: "('r \<Rightarrow> 'r \<Rightarrow> bool) \<Rightarrow> 'r list \<Rightarrow> 'r list \<Rightarrow> bool" where
  "row_wise p xs ys \<longleftrightarrow> list_all2 (\<lambda>x y. y = x \<or> p x y) xs ys"

inductive task_change :: "task_db \<Rightarrow> task_db \<Rightarrow> bool" where
  history: "(change clk)\<^sup>*\<^sup>* (td_store s) u \<Longrightarrow> task_change s (s\<lparr>td_store := u\<rparr>)"
| new_task: "at_task_id t \<notin> at_task_id ` set (td_tasks s) \<Longrightarrow> at_run_id t \<notin> at_run_id ` set (td_tasks s) \<Longrightarrow>
    (at_run_id t, at_week_start t) \<in> run_weeks (td_store s) \<Longrightarrow> task_row_ok t \<Longrightarrow>
    at_execution_state t = ''accepted'' \<Longrightarrow> at_execution_phase t = ''none'' \<Longrightarrow> at_attempt_count t = 0 \<Longrightarrow>
    at_execution_epoch t = 0 \<Longrightarrow> at_claim_token t = None \<Longrightarrow> task_change s (s\<lparr>td_tasks := td_tasks s @ [t]\<rparr>)"
| edit: "row_wise edits (td_tasks s) ts \<Longrightarrow> task_change s (s\<lparr>td_tasks := ts\<rparr>)"
| new_dispatch: "dr_task_id r \<notin> dr_task_id ` set (td_outbox s) \<Longrightarrow> dr_task_id r \<in> at_task_id ` set (td_tasks s) \<Longrightarrow>
    dispatch_row_ok r \<Longrightarrow> dr_dispatch_status r = ''pending'' \<Longrightarrow> task_change s (s\<lparr>td_outbox := td_outbox s @ [r]\<rparr>)"
| redispatch: "row_wise redispatches (td_outbox s) rs \<Longrightarrow> task_change s (s\<lparr>td_outbox := rs\<rparr>)"
| bury: "dl_task_id l \<notin> dl_task_id ` set (td_dead s) \<Longrightarrow> dl_task_id l \<in> at_task_id ` set (td_tasks s) \<Longrightarrow>
    dead_letter_ok l \<Longrightarrow> task_change s (s\<lparr>td_dead := td_dead s @ [l]\<rparr>)"

section \<open>Rows of a change\<close>

lemma row_wise_map:
  assumes "row_wise p xs ys" and "\<And>x y. p x y \<Longrightarrow> key y = key x"
  shows "map key ys = map key xs"
  using assms(1) unfolding row_wise_def
proof (induction rule: list_all2_induct)
  case (Cons x xs y ys)
  then have "key y = key x" using assms(2) by blast
  then show ?case using Cons by simp
qed simp

lemma row_wise_keys:
  assumes "row_wise p xs ys" and "\<And>x y. p x y \<Longrightarrow> key y = key x"
  shows "keys_unique key ys = keys_unique key xs \<and> key ` set ys = key ` set xs"
proof -
  have same: "map key ys = map key xs" by (rule row_wise_map [OF assms])
  have "set (map key ys) = set (map key xs)" unfolding same ..
  then have "key ` set ys = key ` set xs" by simp
  then show ?thesis by (simp add: keys_unique_def same)
qed

lemma row_wise_forward: "row_wise p xs ys \<Longrightarrow> x \<in> set xs \<Longrightarrow> \<exists>y \<in> set ys. y = x \<or> p x y"
  unfolding row_wise_def by (induction rule: list_all2_induct) auto

lemma row_wise_backward: "row_wise p xs ys \<Longrightarrow> y \<in> set ys \<Longrightarrow> \<exists>x \<in> set xs. y = x \<or> p x y"
  unfolding row_wise_def by (induction rule: list_all2_induct) auto

lemma row_wise_update:
  "(\<And>x. x \<in> set xs \<Longrightarrow> q x \<Longrightarrow> p x (f x)) \<Longrightarrow> row_wise p xs (sql_update q f xs)"
  unfolding row_wise_def by (induction xs) auto

lemma edits_keys: "edits t t' \<Longrightarrow> at_task_id t' = at_task_id t" "edits t t' \<Longrightarrow> at_run_id t' = at_run_id t"
  "edits t t' \<Longrightarrow> at_week_start t' = at_week_start t"
  by (simp_all add: edits_def same_task_def)

lemma redispatches_key: "redispatches r r' \<Longrightarrow> dr_task_id r' = dr_task_id r"
  by (simp add: redispatches_def)

lemma find_snoc: "find p (xs @ [x]) = (case find p xs of Some y \<Rightarrow> Some y | None \<Rightarrow> if p x then Some x else None)"
  by (induction xs) auto

section \<open>The invariant is kept\<close>

lemma edited_row_ok: "edits t t' \<Longrightarrow> phase_ok t \<Longrightarrow> task_row_ok t' \<and> phase_ok t'"
  by (simp add: edits_def)

lemma task_change_ok: "task_change s s' \<Longrightarrow> tasks_ok s \<Longrightarrow> tasks_ok s'"
proof (induction rule: task_change.induct)
  case (history clk s u)
  have "store_ok (td_store s)" using history by (simp add: tasks_ok_def)
  then have "store_ok u" "run_weeks (td_store s) \<subseteq> run_weeks u"
    using history changes_store_ok changes_grow by blast+
  then show ?case using history by (auto simp: tasks_ok_def)
next
  case (new_task t s)
  have "phase_ok t" using new_task by (simp add: phase_ok_def)
  then show ?case using new_task unfolding tasks_ok_def by auto
next
  case (edit s ts)
  note keys = row_wise_keys [OF edit.hyps edits_keys(1)] row_wise_keys [OF edit.hyps edits_keys(2)]
  have "task_row_ok t \<and> phase_ok t \<and> (at_run_id t, at_week_start t) \<in> run_weeks (td_store s)" if "t \<in> set ts" for t
  proof -
    obtain x where x: "x \<in> set (td_tasks s)" "t = x \<or> edits x t"
      using row_wise_backward [OF edit.hyps \<open>t \<in> set ts\<close>] by blast
    have "task_row_ok x" "phase_ok x" "(at_run_id x, at_week_start x) \<in> run_weeks (td_store s)"
      using edit.prems x(1) by (simp_all add: tasks_ok_def)
    then show ?thesis using x(2) edited_row_ok [of x t] edits_keys [of x t] by metis
  qed
  then show ?case using edit.prems keys by (simp add: tasks_ok_def)
next
  case (redispatch s rs)
  note keys = row_wise_keys [OF redispatch.hyps redispatches_key]
  have "dispatch_row_ok r \<and> dr_task_id r \<in> at_task_id ` set (td_tasks s)" if "r \<in> set rs" for r
    using row_wise_backward [OF redispatch.hyps that] redispatch.prems
    by (auto simp: tasks_ok_def redispatches_def)
  then show ?case using redispatch.prems keys by (simp add: tasks_ok_def)
qed (auto simp: tasks_ok_def)

section \<open>Tasks as a table of statuses\<close>

lemma settled_part_simps [simp]: "at_task_id (settled_part t) = at_task_id t"
  "progress (settled_part t) = progress t" "at_execution_state (settled_part t) = at_execution_state t"
  "at_claim_token (settled_part t) = at_claim_token t" "at_execution_epoch (settled_part t) = at_execution_epoch t"
  by (simp_all add: settled_part_def progress_def)

lemma settled_part_progress: "settled_part t' = settled_part t \<Longrightarrow> progress t' = progress t"
  using settled_part_simps(2) by metis

lemma edits_row:
  assumes "edits t t'"
  shows "settled_part t' = settled_part t \<or>
    at_execution_state t \<notin> set FINAL_STATES \<and> (progress t' = progress t \<or> task_allowed (progress t) (progress t'))"
  using assms unfolding edits_def advances_def by blast

interpretation task_table: ranked_table "\<lambda>s. map settled_part (td_tasks s)" at_task_id progress task_change task_allowed
  "\<lambda>a. snd a \<in> set FINAL_STATES" task_rank
proof unfold_locales
  fix s s' r assume change: "task_change s s'" and r: "r \<in> set (map settled_part (td_tasks s))"
  then obtain t where t: "t \<in> set (td_tasks s)" "r = settled_part t" by auto
  have "\<exists>t' \<in> set (td_tasks s'). at_task_id t' = at_task_id t \<and> (settled_part t' = settled_part t \<or>
      at_execution_state t \<notin> set FINAL_STATES \<and> (progress t' = progress t \<or> task_allowed (progress t) (progress t')))"
    using change
  proof (cases rule: task_change.cases)
    case (edit ts)
    obtain t' where "t' \<in> set ts" "t' = t \<or> edits t t'" using row_wise_forward [OF edit(2) t(1)] by (elim bexE)
    then have "t' \<in> set (td_tasks s')" "at_task_id t' = at_task_id t" "t' = t \<or> edits t t'"
      using edits_keys(1) [of t t'] edit(1) by auto
    then show ?thesis using edits_row [of t t'] by blast
  qed (use t in auto)
  then obtain t' where t': "t' \<in> set (td_tasks s')" "at_task_id t' = at_task_id t"
    "settled_part t' = settled_part t \<or>
      at_execution_state t \<notin> set FINAL_STATES \<and> (progress t' = progress t \<or> task_allowed (progress t) (progress t'))"
    by blast
  show "\<exists>r' \<in> set (map settled_part (td_tasks s')). at_task_id r' = at_task_id r \<and>
      (r' = r \<or> snd (progress r) \<notin> set FINAL_STATES \<and>
        (progress r' = progress r \<or> task_allowed (progress r) (progress r')))"
    using t' t(2) by (intro bexI [of _ "settled_part t'"]) (auto simp: progress_def settled_part_def)
qed (simp_all add: final_not_allowed allowed_rank)

section \<open>Claims as fencing tokens\<close>

definition task_epoch :: "task_db \<Rightarrow> uuid \<Rightarrow> int" where
  "task_epoch s i = (case find (\<lambda>t. at_task_id t = i) (td_tasks s) of None \<Rightarrow> 0 | Some t \<Rightarrow> at_execution_epoch t)"

definition task_claim :: "task_db \<Rightarrow> uuid \<Rightarrow> uuid option" where
  "task_claim s i = (case find (\<lambda>t. at_task_id t = i) (td_tasks s) of None \<Rightarrow> None | Some t \<Rightarrow> at_claim_token t)"

lemma edits_fence:
  assumes "edits t t'"
  shows "at_execution_epoch t < at_execution_epoch t' \<or> at_execution_epoch t' = at_execution_epoch t \<and>
    (at_claim_token t' = at_claim_token t \<or> at_claim_token t' = None)"
proof -
  have "at_execution_epoch t' = at_execution_epoch t \<and> at_claim_token t' = at_claim_token t"
    if "settled_part t' = settled_part t"
    using arg_cong [OF that, of at_execution_epoch] arg_cong [OF that, of at_claim_token] by simp
  then show ?thesis using assms unfolding edits_def advances_def by fastforce
qed

lemma row_wise_find:
  assumes "row_wise edits ts ts'"
  shows "case find (\<lambda>t. at_task_id t = i) ts of
     None \<Rightarrow> find (\<lambda>t. at_task_id t = i) ts' = None
   | Some t \<Rightarrow> \<exists>t'. find (\<lambda>t. at_task_id t = i) ts' = Some t' \<and> (t' = t \<or> edits t t')"
  using assms unfolding row_wise_def
  by (induction rule: list_all2_induct) (auto dest: edits_keys split: option.splits)

lemma change_fence:
  assumes "task_change s s'"
  shows "task_epoch s i < task_epoch s' i \<or>
    task_epoch s' i = task_epoch s i \<and> (task_claim s' i = task_claim s i \<or> task_claim s' i = None)"
  using assms
proof (cases rule: task_change.cases)
  case (new_task t)
  then have "find (\<lambda>t. at_task_id t = i) (td_tasks s') =
      (case find (\<lambda>t. at_task_id t = i) (td_tasks s) of
         Some u \<Rightarrow> Some u | None \<Rightarrow> if at_task_id t = i then Some t else None)" for i
    by (simp add: find_snoc)
  then show ?thesis using new_task by (simp add: task_epoch_def task_claim_def split: option.splits)
next
  case (edit ts)
  then show ?thesis using row_wise_find [OF edit(2), of i] edits_fence
    by (fastforce simp: task_epoch_def task_claim_def split: option.splits)
qed (simp_all add: task_epoch_def task_claim_def)

interpretation task_fence: fenced task_change tasks_ok task_epoch task_claim
proof unfold_locales
  fix s s' k assume "task_change s s'"
  note fence = change_fence [OF this, of k]
  show "task_epoch s k \<le> task_epoch s' k" using fence by linarith
  show "task_claim s' k = task_claim s k \<or> task_claim s' k = None" if "task_epoch s' k = task_epoch s k"
    using fence that by simp
qed (rule task_change_ok)

end
