(* ===== verification/TaskRefinement.thy ===== *)
theory TaskRefinement
  imports TaskChanges
begin

text \<open>
  Every operation of the task store, of the reconciliation and of the worker refines the abstract
  changes of \<open>TaskChanges\<close>, whether it returns or raises and whatever its commit does.
\<close>

named_theorems task_intros \<open>composition of commands that refine the changes of the task queue\<close>

declare refines_basic [task_intros] refines_guard [task_intros] refines_map_error [task_intros]

section \<open>Statements and transactions\<close>

lemma statement_refines:
  "(\<And>res t. stmt s = (res, t) \<Longrightarrow> step\<^sup>*\<^sup>* s t) \<Longrightarrow> refines step (statement E op stmt) s"
  by (auto simp: refines_def statement_def split: if_splits)

lemma read_refines [task_intros]: "refines task_change (statement E op (\<lambda>s. (f s, s))) s"
  by (rule statement_refines) simp

lemma update_tasks_refines:
  assumes "\<And>t. t \<in> set (td_tasks s) \<Longrightarrow> p t \<Longrightarrow> task_row_ok (f t) \<Longrightarrow> edits t (f t)"
  shows "refines task_change (update_tasks E op p f) s"
  unfolding update_tasks_def
proof (rule statement_refines)
  fix res t
  assume stmt: "(if list_ex (\<lambda>t. p t \<and> \<not> task_row_ok (f t)) (td_tasks s) then (Inl TaskIntegrityError, s)
     else (Inr (sql_returning p f (td_tasks s)), s\<lparr>td_tasks := sql_update p f (td_tasks s)\<rparr>)) = (res, t)"
  show "task_change\<^sup>*\<^sup>* s t"
  proof (cases "list_ex (\<lambda>t. p t \<and> \<not> task_row_ok (f t)) (td_tasks s)")
    case False
    then have "row_wise edits (td_tasks s) (sql_update p f (td_tasks s))"
      by (intro row_wise_update assms) (auto simp: list_ex_iff)
    then have "task_change s t" using stmt False by (auto intro: task_change.edit)
    then show ?thesis by blast
  qed (use stmt in simp)
qed

lemma update_dispatch_refines:
  assumes "\<And>r. r \<in> set (td_outbox s) \<Longrightarrow> p r \<Longrightarrow> dispatch_row_ok (f r) \<Longrightarrow> redispatches r (f r)"
  shows "refines task_change (update_dispatch E op p f) s"
  unfolding update_dispatch_def
proof (rule statement_refines)
  fix res t
  assume stmt: "(if list_ex (\<lambda>r. p r \<and> \<not> dispatch_row_ok (f r)) (td_outbox s) then (Inl TaskIntegrityError, s)
     else (Inr (sql_returning p f (td_outbox s)), s\<lparr>td_outbox := sql_update p f (td_outbox s)\<rparr>)) = (res, t)"
  show "task_change\<^sup>*\<^sup>* s t"
  proof (cases "list_ex (\<lambda>r. p r \<and> \<not> dispatch_row_ok (f r)) (td_outbox s)")
    case False
    then have "row_wise redispatches (td_outbox s) (sql_update p f (td_outbox s))"
      by (intro row_wise_update assms) (auto simp: list_ex_iff)
    then have "task_change s t" using stmt False by (auto intro: task_change.redispatch)
    then show ?thesis by blast
  qed (use stmt in simp)
qed

lemma changed_row_refines [task_intros]: "refines task_change m s \<Longrightarrow> refines task_change (changed_row m) s"
  unfolding changed_row_def by (intro refines_bind refines_basic)

lemma begin_task_refines [task_intros]: "refines step m s \<Longrightarrow> refines step (begin_task E m) s"
  by (auto simp: refines_def begin_task_def split: prod.splits sum.splits commit_outcome.splits)

lemma nested_refines [task_intros]: "refines task_change m s \<Longrightarrow> refines task_change (nested m) s"
  by (auto simp: refines_def nested_def split: prod.splits sum.splits)

lemma on_store_refines:
  assumes "within clk m (td_store s)"
  shows "refines task_change (on_store m) s"
  unfolding refines_def
proof (intro allI impI)
  fix res t assume run: "on_store m s = (res, t)"
  obtain r u where m: "m (td_store s) = (r, u)" by (cases "m (td_store s)")
  have t: "t = s\<lparr>td_store := u\<rparr>" using run m by (auto simp: on_store_def split: sum.splits)
  show "task_change\<^sup>*\<^sup>* s t" unfolding t by (rule r_into_rtranclp) (rule task_change.history [OF withinD [OF assms m]])
qed

lemma task_changes_ok: "task_change\<^sup>*\<^sup>* s t \<Longrightarrow> tasks_ok s \<Longrightarrow> tasks_ok t"
  by (rule task_fence.ok_steps)

lemma refines_tasks_ok: "refines task_change m s \<Longrightarrow> tasks_ok s \<Longrightarrow> tasks_ok (snd (m s))"
  by (rule task_changes_ok [OF refines_path])

section \<open>Edits of a task\<close>

lemma edit_moveI:
  assumes "same_task t t'" and "task_row_ok t'" and "phase_ok t \<Longrightarrow> phase_ok t'"
    and "at_execution_epoch t' = at_execution_epoch t" and "at_attempt_count t' = at_attempt_count t"
    and "at_claim_token t' = at_claim_token t \<or> at_claim_token t' = None"
    and "at_execution_state t \<notin> set FINAL_STATES"
    and "at_execution_state t' = at_execution_state t \<or>
      at_execution_state t' \<noteq> ''claimed'' \<and> task_allowed (progress t) (progress t')"
  shows "edits t t'"
  using assms by (auto simp: edits_def advances_def progress_def)

lemma edit_dispatchI:
  assumes "settled_part t' = settled_part t" and "task_row_ok t'"
  shows "edits t t'"
proof -
  have same: "at_user_id t' = at_user_id t" "at_run_id t' = at_run_id t" "at_task_id t' = at_task_id t"
    "at_task_name t' = at_task_name t" "at_week_start t' = at_week_start t" "at_created_at t' = at_created_at t"
    "at_execution_phase t' = at_execution_phase t" "at_execution_state t' = at_execution_state t"
    "at_execution_epoch t' = at_execution_epoch t" "at_attempt_count t' = at_attempt_count t"
    using assms(1) by (auto simp: settled_part_def intro: async_task.equality dest: arg_cong [of _ _ at_user_id]
        arg_cong [of _ _ at_run_id] arg_cong [of _ _ at_task_id] arg_cong [of _ _ at_task_name]
        arg_cong [of _ _ at_week_start] arg_cong [of _ _ at_created_at] arg_cong [of _ _ at_execution_phase]
        arg_cong [of _ _ at_execution_state] arg_cong [of _ _ at_execution_epoch] arg_cong [of _ _ at_attempt_count])
  then show ?thesis using assms by (simp add: edits_def same_task_def phase_ok_def)
qed

lemmas state_simps = FINAL_STATES_def OPEN_STATES_def task_allowed_def progress_def phase_ok_def same_task_def

section \<open>The operations of the store\<close>

lemma insert_task_refines:
  assumes "(at_run_id t, at_week_start t) \<in> run_weeks (td_store s)" and "at_execution_state t = ''accepted''"
    and "at_execution_phase t = ''none''" and "at_attempt_count t = 0" and "at_execution_epoch t = 0"
    and "at_claim_token t = None"
  shows "refines task_change (insert_task E t) s"
  unfolding insert_task_def
  by (rule statement_refines) (use assms in \<open>auto intro!: task_change.new_task split: if_splits\<close>)

lemma insert_dispatch_refines:
  "dr_dispatch_status r = ''pending'' \<Longrightarrow> refines task_change (insert_dispatch E r) s"
  unfolding insert_dispatch_def
  by (rule statement_refines) (auto intro!: task_change.new_dispatch split: if_splits)

lemma insert_dead_letter_refines [task_intros]:
  "refines task_change (insert_dead_letter E i run n reason code msg) s"
  unfolding insert_dead_letter_def Let_def
proof (rule statement_refines, goal_cases)
  case (1 res t)
  let ?l = "\<lparr>dl_task_id = i, dl_run_id = run, dl_attempt_number = n, dl_terminal_reason = safe_code reason,
     dl_error_code = safe_code code, dl_error_message = sanitize_message msg,
     dl_failed_at = te_clock E ''dead_letter.at'' i\<rparr>"
  have "dl_task_id ?l \<notin> dl_task_id ` set (td_dead s)" if "find (\<lambda>x. dl_task_id x = i) (td_dead s) = None"
    using that by (auto simp: find_None_iff)
  then show ?case
    using 1 task_change.bury [of ?l s] by (auto split: if_splits option.splits)
qed

lemma claim_execution_refines [task_intros]: "refines task_change (claim_execution E i secs) s"
proof -
  have "edits t (claim_row E secs t)" if "claimable E i t" "task_row_ok (claim_row E secs t)" for t
  proof -
    have "at_execution_state t \<in> {''accepted'', ''queued'', ''retry_wait'', ''claimed''}"
      using that(1) unfolding claimable_def by blast
    moreover from this have "at_execution_state t \<notin> set FINAL_STATES"
      by (elim insertE emptyE) (simp_all add: FINAL_STATES_def)
    moreover have "at_attempt_count t + 1 \<le> 3" using that(2) by (simp add: task_row_ok_def claim_row_def)
    ultimately show ?thesis using that
      by (simp add: edits_def advances_def claim_row_def task_allowed_def progress_def phase_ok_def same_task_def)
  qed
  then show ?thesis unfolding claim_execution_def
    by (auto intro!: refines_bind update_tasks_refines refines_basic split: if_splits)
qed

lemma owned_edit:
  assumes "owns i token epoch st phase t" and "st \<notin> set FINAL_STATES"
  shows "at_execution_state t = st \<and> at_execution_phase t = phase \<and> at_execution_state t \<notin> set FINAL_STATES"
  using assms by (simp add: owns_def)

lemma start_prefect_refines [task_intros]: "refines task_change (start_prefect E i token epoch secs) s"
  unfolding start_prefect_def
  by (intro changed_row_refines update_tasks_refines edit_moveI) (simp_all add: state_simps owns_def)

lemma heartbeat_refines [task_intros]: "refines task_change (heartbeat_execution E i token epoch secs) s"
  unfolding heartbeat_execution_def
  by (intro changed_row_refines update_tasks_refines edit_moveI) (simp_all add: state_simps owns_def)

lemma finish_execution_refines:
  assumes "st \<in> {''succeeded'', ''failed'', ''reconciliation_required'', ''dead_lettered'', ''failure_pending_dlq''}"
  shows "refines task_change (finish_execution E i token epoch st ps pub result code msg) s"
  unfolding finish_execution_def using assms
  by (intro changed_row_refines update_tasks_refines edit_moveI) (auto simp: state_simps owns_def)

lemma schedule_retry_refines [task_intros]: "refines task_change (schedule_retry E i token epoch next code msg) s"
  unfolding schedule_retry_def
  by (intro changed_row_refines update_tasks_refines edit_moveI) (simp_all add: state_simps owns_def)

lemma fail_claim_refines:
  assumes "st \<in> {''dead_lettered'', ''failure_pending_dlq''}"
  shows "refines task_change (fail_claim E i token epoch st code msg) s"
  unfolding fail_claim_def using assms
  by (intro changed_row_refines update_tasks_refines edit_moveI) (auto simp: state_simps owns_def)

text \<open>Acceptance: the run is in the history before the task and its message refer to it.\<close>

lemma create_run_stored:
  assumes "create_run C i w trigger p parent started stage flow task s = (Inr r, t)"
  shows "(rr_run_id r, w) \<in> run_weeks t"
proof -
  obtain week row u where ins: "week_guard w = Inr week" "execute C ''create_run'' (insert_run C started row) s = (Inr (Some r), t)"
    "\<And>n. rr_target_week_start (row n) = week"
    using assms by (auto simp: create_run_def bind_cmd_eq_Inr lift_result_def split: option.splits)
  then show ?thesis
    by (auto simp: execute_Inr insert_run_def read_clock_def Let_def run_weeks_def week_guard_def split: if_splits)
qed

lemma accept_refines [task_intros]: "refines task_change (accept_async_task E week user) s"
  unfolding accept_async_task_def
proof (rule refines_bind [OF read_refines], rule refines_bind [OF read_refines], goal_cases)
  case (1 _ t existing u)
  show ?case
  proof (cases existing)
    case None
    show ?thesis unfolding None option.case
    proof (rule refines_bind, rule on_store_refines [OF create_run_within], goal_cases)
      case (1 run v)
      have stored: "(rr_run_id run, week) \<in> run_weeks (td_store v)"
        using 1(1) by (auto simp: on_store_def dest: create_run_stored split: prod.splits sum.splits)
      show ?case
        by (intro refines_bind insert_task_refines insert_dispatch_refines refines_basic)
          (simp_all add: stored new_task_def new_dispatch_def)
    qed
  qed (auto intro!: refines_bind read_refines refines_basic)
qed

section \<open>Reconciliation\<close>

lemma get_async_task_refines [task_intros]: "refines task_change (get_async_task E i) s"
  unfolding get_async_task_def by (rule read_refines)

lemma get_async_task_Inr:
  assumes "get_async_task E i s = (Inr (Some (t, r)), u)"
  shows "u = s \<and> t \<in> set (td_tasks s) \<and> at_task_id t = i \<and> find_run (td_store s) (at_run_id t) = Some r"
  using assms by (auto simp: get_async_task_def statement_def split: if_splits option.splits dest!: find_SomeD)

lemma letter_pending_refines [task_intros]: "refines task_change (letter_pending E t) s"
  unfolding letter_pending_def
  by (intro refines_bind nested_refines insert_dead_letter_refines)
    (auto intro!: refines_bind refines_basic update_tasks_refines edit_moveI simp: state_simps split: if_splits)

lemma decided_states: "decided r = Some (st, published) \<Longrightarrow>
    st \<in> {''succeeded'', ''failed'', ''reconciliation_required''}"
  by (auto simp: decided_def split: if_splits)

lemma open_state:
  assumes "task_row_ok t" and "at_execution_state t \<noteq> ''failure_pending_dlq''"
    and "at_execution_state t \<notin> set SETTLED_STATES"
  shows "at_execution_state t \<in> set OPEN_STATES"
proof -
  have "list_all (\<lambda>st. st = ''failure_pending_dlq'' \<or> st \<in> set SETTLED_STATES \<or> st \<in> set OPEN_STATES) EXECUTION_STATES"
    by (simp add: EXECUTION_STATES_def SETTLED_STATES_def OPEN_STATES_def)
  then show ?thesis using assms by (auto simp: task_row_ok_def list_all_iff)
qed

lemma settle_edit:
  assumes open_state: "at_execution_state t \<in> set OPEN_STATES"
    and st: "st \<in> {''succeeded'', ''failed'', ''reconciliation_required''}" "task_row_ok (settle_row E st status published result t)"
  shows "edits t (settle_row E st status published result t)"
proof -
  have "at_execution_state t \<notin> set FINAL_STATES"
    using open_state by (auto simp: OPEN_STATES_def FINAL_STATES_def)
  moreover have "st \<noteq> ''claimed''" "st \<noteq> ''running''" using st(1) by auto
  ultimately show ?thesis using assms
    by (intro edit_moveI)
      (simp_all add: settle_row_def same_task_def phase_ok_def task_allowed_def progress_def)
qed

lemma reconcile_task_refines:
  assumes ok: "tasks_ok s"
  shows "refines task_change (reconcile_task E i) s"
  unfolding reconcile_task_def
proof (rule refines_bind [OF get_async_task_refines], goal_cases)
  case (1 row u)
  show ?case
  proof (cases row)
    case (Some p)
    then obtain t r where row: "row = Some (t, r)" by (cases p) auto
    note got = get_async_task_Inr [OF 1(1) [unfolded row]]
    have only: "x = t" if "x \<in> set (td_tasks s)" "at_task_id x = i" for x
      using ok got that by (auto simp: tasks_ok_def dest: keys_uniqueD)
    have "task_row_ok t" using ok got by (simp add: tasks_ok_def)
    then have t_open: "at_execution_state t \<in> set OPEN_STATES"
      if "at_execution_state t \<noteq> ''failure_pending_dlq''" "at_execution_state t \<notin> set SETTLED_STATES"
      using that by (intro open_state)
    have settle: "refines task_change (update_tasks E ''reconcile'' (\<lambda>x. at_task_id x = i)
        (settle_row E st (rr_status r) published (run_outcome r))) s"
      if "decided r = Some (st, published)" "at_execution_state t \<in> set OPEN_STATES" for st published
      using that by (intro update_tasks_refines settle_edit decided_states) (auto dest!: only)
    have abandon: "refines task_change (update_tasks E ''abandon'' (\<lambda>x. at_task_id x = i \<and>
        at_execution_state x = ''running'' \<and> at_execution_phase x = ''prefect_started'' \<and>
        passed (at_claim_expires_at x) (te_clock E ''abandon.expired'' i)) (abandon_row E)) s"
      by (intro update_tasks_refines edit_moveI) (auto simp: abandon_row_def state_simps)
    have u: "u = s" using got ..
    show ?thesis unfolding row u using t_open
      by (auto intro!: refines_bind refines_basic letter_pending_refines settle abandon split: option.splits)
  qed (simp add: refines_basic)
qed

lemma reconcile_one_refines:
  assumes "tasks_ok s"
  shows "refines task_change (reconcile_one E locked) s"
  unfolding reconcile_one_def
  using assms
  by (intro begin_task_refines refines_bind read_refines)
    (auto simp: statement_def split: option.splits if_splits intro!: refines_bind refines_basic reconcile_task_refines)

end
