(* ===== verification/TaskOutcomes.thy ===== *)
theory TaskOutcomes
  imports TaskDelivery
begin

text \<open>
  What the operations of the queue promise: a task is started at most once, an overtaken claim
  changes nothing, a delivery that returns has stored what it returns, and an acceptance creates a
  run, its task and its message together.
\<close>

section \<open>Compare-and-set on one task\<close>

lemma update_tasks_miss:
  assumes "\<And>t. t \<in> set (td_tasks s) \<Longrightarrow> \<not> p t" and "changed_row (update_tasks E op p f) s = (res, u)"
  shows "u = s \<and> res \<noteq> Inr True"
proof -
  have "\<not> list_ex (\<lambda>t. p t \<and> \<not> task_row_ok (f t)) (td_tasks s)" using assms(1) by (auto simp: list_ex_iff)
  then have "update_tasks E op p f s \<in> {(Inl TaskDatabaseError, s), (Inr [], s)}"
    using assms(1) by (cases s) (simp add: update_tasks_def statement_def sql_update_id sql_returning_Nil_iff)
  then show ?thesis using assms(2) by (auto simp: changed_row_def bind_cmd_def return_cmd_def)
qed

lemma update_tasks_fenced:
  "(\<And>t. t \<in> set (td_tasks s) \<Longrightarrow> \<not> p t) \<Longrightarrow>
   snd (changed_row (update_tasks E op p f) s) = s \<and> fst (changed_row (update_tasks E op p f) s) \<noteq> Inr True"
  using update_tasks_miss [of s p E op f] by (metis prod.collapse)

lemma update_tasks_hit:
  assumes "changed_row (update_tasks E op p f) s = (Inr True, u)"
  shows "\<exists>t \<in> set (td_tasks s). p t \<and> f t \<in> set (td_tasks u)"
proof -
  have "sql_returning p f (td_tasks s) \<noteq> []" "u = s\<lparr>td_tasks := sql_update p f (td_tasks s)\<rparr>"
    using assms by (auto simp: changed_row_def bind_cmd_eq_Inr return_cmd_def update_tasks_def statement_def
        split: if_splits)
  then show ?thesis by (auto simp: sql_returning_Nil_iff set_sql_update)
qed

section \<open>A task is started at most once\<close>

definition STARTED_STATES :: "string list" where
  "STARTED_STATES = ''running'' # ''failure_pending_dlq'' # FINAL_STATES"

lemma started_closed: "task_allowed\<^sup>*\<^sup>* a b \<Longrightarrow> snd a \<in> set STARTED_STATES \<Longrightarrow> snd b \<in> set STARTED_STATES"
proof (induction rule: rtranclp_induct)
  case (step b c)
  have "list_all (\<lambda>st. \<forall>n. task_allowed (n, st) c \<longrightarrow> snd c \<in> set STARTED_STATES) STARTED_STATES"
    by (auto simp: STARTED_STATES_def FINAL_STATES_def task_allowed_def OPEN_STATES_def)
  then show ?case using step by (cases b) (auto simp: list_all_iff)
qed simp

lemma started_stays:
  assumes "task_change\<^sup>*\<^sup>* s s'" and "t \<in> set (td_tasks s)" and "at_execution_state t \<in> set STARTED_STATES"
  shows "\<exists>t' \<in> set (td_tasks s'). at_task_id t' = at_task_id t \<and> at_execution_state t' \<in> set STARTED_STATES"
proof -
  have "settled_part t \<in> set (map settled_part (td_tasks s))" using assms(2) by simp
  from task_table.status_path [OF assms(1) this] obtain t' where
    "t' \<in> set (td_tasks s')" "at_task_id t' = at_task_id t" "task_allowed\<^sup>*\<^sup>* (progress t) (progress t')" by auto
  then show ?thesis using started_closed [of "progress t" "progress t'"] assms(3) by (auto simp: progress_def)
qed

lemma started_once:
  assumes ok: "tasks_ok s" and first: "start_prefect E i token epoch secs s = (Inr True, s1)"
    and path: "task_change\<^sup>*\<^sup>* s1 s2" and again: "start_prefect F i token' epoch' secs' s2 = (res, s3)"
  shows "s3 = s2 \<and> res \<noteq> Inr True"
proof -
  obtain t where t: "t \<in> set (td_tasks s1)" "at_task_id t = i" "at_execution_state t = ''running''"
    using update_tasks_hit [OF first [unfolded start_prefect_def]] by (auto simp: owns_def)
  have "at_execution_state t \<in> set STARTED_STATES" using t by (simp add: STARTED_STATES_def)
  then obtain t' where t': "t' \<in> set (td_tasks s2)" "at_task_id t' = i" "at_execution_state t' \<in> set STARTED_STATES"
    using started_stays [OF path t(1)] t(2) by blast
  have "task_change\<^sup>*\<^sup>* s s1" using refinesD [OF start_prefect_refines first] .
  then have "tasks_ok s2" using task_changes_ok ok path by blast
  then have only: "x = t'" if "x \<in> set (td_tasks s2)" "at_task_id x = i" for x
    using that t' by (auto simp: tasks_ok_def dest: keys_uniqueD)
  have "''claimed'' \<notin> set STARTED_STATES" by (simp add: STARTED_STATES_def FINAL_STATES_def)
  then have "\<not> owns i token' epoch' ''claimed'' ''preflight'' x" if "x \<in> set (td_tasks s2)" for x
    using only [OF that] t'(3) by (auto simp: owns_def)
  then show ?thesis by (intro update_tasks_miss [OF _ again [unfolded start_prefect_def]]) blast
qed

section \<open>Overtaken claims\<close>

lemma claim_Some:
  assumes "tasks_ok s" and "claim_execution E i secs s = (Inr (Some c), u)"
  shows "\<exists>t \<in> set (td_tasks s). at_task_id t = i \<and> claimable E i t \<and> c = claim_row E secs t \<and> c \<in> set (td_tasks u)"
proof -
  let ?rows = "sql_returning (claimable E i) (claim_row E secs) (td_tasks s)"
  have "first_row ?rows = Some c" and u: "u = s\<lparr>td_tasks := sql_update (claimable E i) (claim_row E secs) (td_tasks s)\<rparr>"
    using assms(2) by (auto simp: claim_execution_def raise_cmd_def bind_cmd_eq_Inr return_cmd_def update_tasks_def
        statement_def split: if_splits)
  then have "c \<in> set ?rows" by (cases ?rows) auto
  then show ?thesis unfolding u by (auto simp: sql_returning_def set_sql_update claimable_def)
qed

lemma task_epoch_row:
  assumes "tasks_ok s" and "t \<in> set (td_tasks s)"
  shows "task_epoch s (at_task_id t) = at_execution_epoch t"
  using assms keys_unique_find [of at_task_id "td_tasks s" t] by (simp add: tasks_ok_def task_epoch_def)

lemma overtaken:
  assumes ok: "tasks_ok s" and first: "claim_execution E i secs s = (Inr (Some c), s1)"
    and p1: "task_change\<^sup>*\<^sup>* s1 s2" and next_claim: "claim_execution F i secs' s2 = (Inr (Some c'), s3)"
    and p2: "task_change\<^sup>*\<^sup>* s3 s4"
  shows "at_execution_epoch c < at_execution_epoch c' \<and>
    (\<forall>t \<in> set (td_tasks s4). at_task_id t = i \<longrightarrow> at_execution_epoch c < at_execution_epoch t)"
proof -
  have ok1: "tasks_ok s1" by (rule task_changes_ok [OF refinesD [OF claim_execution_refines first] ok])
  have ok2: "tasks_ok s2" by (rule task_changes_ok [OF p1 ok1])
  have ok3: "tasks_ok s3" by (rule task_changes_ok [OF refinesD [OF claim_execution_refines next_claim] ok2])
  have ok4: "tasks_ok s4" by (rule task_changes_ok [OF p2 ok3])
  obtain t where "at_task_id t = i" "c = claim_row E secs t" "c \<in> set (td_tasks s1)"
    using claim_Some [OF ok first] by blast
  then have e1: "task_epoch s1 i = at_execution_epoch c"
    using task_epoch_row [OF ok1, of c] by (simp add: claim_row_def)
  obtain t' where t': "t' \<in> set (td_tasks s2)" "at_task_id t' = i" "c' = claim_row F secs' t'" "c' \<in> set (td_tasks s3)"
    using claim_Some [OF ok2 next_claim] by blast
  then have e2: "task_epoch s2 i + 1 = at_execution_epoch c'" "task_epoch s3 i = at_execution_epoch c'"
    using task_epoch_row [OF ok2, of t'] task_epoch_row [OF ok3, of c'] by (simp_all add: claim_row_def)
  have le: "task_epoch s1 i \<le> task_epoch s2 i" "task_epoch s3 i \<le> task_epoch s4 i"
    using task_fence.token_le [OF p1 ok1] task_fence.token_le [OF p2 ok3] by blast+
  have "at_execution_epoch c < at_execution_epoch t" if "t \<in> set (td_tasks s4)" "at_task_id t = i" for t
    using task_epoch_row [OF ok4 that(1)] that(2) e1 e2 le by simp
  then show ?thesis using e1 e2 le by simp
qed

section \<open>What a delivery returns\<close>

definition stored_as :: "task_db \<Rightarrow> uuid \<Rightarrow> json \<Rightarrow> bool" where
  "stored_as s i p \<longleftrightarrow> (\<exists>t \<in> set (td_tasks s). at_task_id t = i \<and>
     at_execution_state t \<in> {''succeeded'', ''reconciliation_required''} \<and> or_else (at_result_summary t) (JObj []) = p)"

lemma stored_asI:
  "t \<in> set (td_tasks s) \<Longrightarrow> at_task_id t = i \<Longrightarrow> at_execution_state t \<in> {''succeeded'', ''reconciliation_required''} \<Longrightarrow>
   or_else (at_result_summary t) (JObj []) = p \<Longrightarrow> stored_as s i p"
  unfolding stored_as_def by blast

lemma worker_tx_Inr:
  "worker_tx E others n m s = (Inr a, t) \<Longrightarrow> m (E n) (others n s) = (Inr a, t)"
  by (auto simp: worker_tx_def begin_task_def split: prod.splits sum.splits commit_outcome.splits)

lemma finish_stored:
  assumes "finish_execution E i token epoch st ps pub result code msg s = (Inr True, u)"
    and "st \<in> {''succeeded'', ''reconciliation_required''}"
  shows "stored_as u i result"
proof -
  from update_tasks_hit [OF assms(1) [unfolded finish_execution_def]] show ?thesis
  proof (elim bexE conjE, goal_cases)
    case (1 t)
    show ?case by (rule stored_asI [OF 1(3)]) (use 1(2) assms(2) in \<open>auto simp: owns_def\<close>)
  qed
qed

lemma look_again_stored:
  assumes "look_again i E s = (Inr existing, u)" and "stored_result existing u = (Inr p, v)"
  shows "v = u \<and> stored_as u i p"
proof -
  obtain w where got: "get_async_task E i w = (Inr existing, u)"
    using assms(1) by (auto simp: look_again_def bind_cmd_eq_Inr)
  obtain t r where ex: "existing = Some (t, r)" and st: "at_execution_state t = ''succeeded''"
    and p: "p = or_else (at_result_summary t) (JObj [])" and v: "v = u"
    using assms(2) by (auto simp: stored_result_def return_cmd_def raise_cmd_def split: option.splits if_splits)
  then show ?thesis using get_async_task_Inr [OF got [unfolded ex]] by (auto simp: stored_as_def)
qed

lemma run_and_finish_stored:
  assumes "run_and_finish D E others i run claim token s = (Inr p, u)"
  shows "stored_as u i p"
proof -
  obtain r where pipe: "dv_pipeline D = Inr r"
    using assms by (cases "dv_pipeline D") (auto simp: run_and_finish_def bind_cmd_eq_Inr raise_cmd_def)
  obtain payload where payload: "result_payload (dv_id D) run r = Some payload"
    using assms by (cases "result_payload (dv_id D) run r") (auto simp: run_and_finish_def pipe raise_cmd_def)
  obtain st published where st: "terminal_state r = (st, published)" by (cases "terminal_state r")
  have good: "st \<noteq> ''failed''"
    using assms by (auto simp: run_and_finish_def pipe payload st bind_cmd_eq_Inr raise_cmd_def)
  then have "st \<in> {''succeeded'', ''reconciliation_required''}"
    using st by (auto simp: terminal_state_def split: if_splits)
  moreover have run: "run_and_finish D E others i run claim token =
      bind_cmd (worker_tx E others 3 (\<lambda>e. finish_execution e i token (at_execution_epoch claim)
        st (cr_status r) published payload None None)) (\<lambda>finished.
      if finished then return_cmd payload else raise_cmd ExecutionError)"
    using good by (simp add: run_and_finish_def pipe payload st)
  obtain finished v where tx: "worker_tx E others 3 (\<lambda>e. finish_execution e i token (at_execution_epoch claim)
      st (cr_status r) published payload None None) s = (Inr finished, v)"
    and rest: "(if finished then return_cmd payload else raise_cmd ExecutionError) v = (Inr p, u)"
    using assms [unfolded run bind_cmd_eq_Inr] by blast
  have "finished" "p = payload" "v = u" using rest by (simp_all add: return_cmd_def raise_cmd_def split: if_splits)
  ultimately show ?thesis using worker_tx_Inr [OF tx] finish_stored by simp
qed

lemma execute_claim_stored:
  assumes "execute_claim D E others secs backoff i run claim token s = (Inr p, u)"
  shows "stored_as u i p"
  using assms run_and_finish_stored
  by (auto simp: execute_claim_def bind_cmd_eq_Inr raise_cmd_def Let_def split: preflight.splits if_splits)

lemma claimed_delivery_stored:
  assumes "claimed_delivery D E others secs backoff i run week s = (Inr p, u)"
  shows "stored_as u i p"
proof -
  obtain claimed v where rest: "(case claimed of
       None \<Rightarrow> bind_cmd (worker_tx E others 1 (look_again i)) stored_result
     | Some claim \<Rightarrow>
         if at_run_id claim \<noteq> run \<or> at_week_start claim \<noteq> week then raise_cmd ExecutionError
         else case at_claim_token claim of
           None \<Rightarrow> raise_cmd ExecutionError
         | Some token \<Rightarrow> execute_claim D E others secs backoff i run claim token) v = (Inr p, u)"
    using assms by (auto simp: claimed_delivery_def bind_cmd_eq_Inr)
  show ?thesis
  proof (cases claimed)
    case None
    then show ?thesis using rest
      by (auto simp: bind_cmd_eq_Inr dest!: worker_tx_Inr dest: look_again_stored)
  next
    case (Some claim)
    then show ?thesis using rest
      by (auto simp: raise_cmd_def split: if_splits option.splits intro: execute_claim_stored)
  qed
qed

lemma delivery_stored:
  assumes "\<not> dv_eager D" and "run_weekly_pipeline_task D E others s = (Inr p, u)"
  shows "\<exists>i. dv_task_id D = Some i \<and> stored_as u i p"
  using assms claimed_delivery_stored
  by (fastforce simp: run_weekly_pipeline_task_def raise_cmd_def split: if_splits option.splits sum.splits prod.splits)

lemma settled_kept:
  assumes "task_change\<^sup>*\<^sup>* s s'" and "t \<in> set (td_tasks s)" and "at_execution_state t \<in> set FINAL_STATES"
  shows "\<exists>t' \<in> set (td_tasks s'). settled_part t' = settled_part t"
proof -
  have "settled_part t \<in> set (map settled_part (td_tasks s))" "snd (progress (settled_part t)) \<in> set FINAL_STATES"
    using assms(2,3) by (simp_all add: progress_def)
  from task_table.final_kept [OF assms(1) this] show ?thesis by force
qed

section \<open>Acceptance\<close>

lemma accept_existing:
  assumes "accept_async_task E week user s = (Inr (run, task, created), u)" and "active_run week (td_store s) = Some r"
  shows "u = s \<and> run = rr_run_id r \<and> \<not> created"
  using assms by (auto simp: accept_async_task_def bind_cmd_eq_Inr statement_def return_cmd_def split: if_splits)

lemma create_run_row:
  assumes "create_run C i w trigger p parent started stage flow task s = (Inr r, t)"
  shows "rd_runs t = rd_runs s @ [r] \<and> rr_target_week_start r = w \<and> rr_status r = ''pending'' \<and>
    rr_run_id r = or_else parent i \<and> rr_run_id r \<notin> rr_run_id ` set (rd_runs s)"
proof -
  obtain week row where ins: "week_guard w = Inr week" "execute C ''create_run'' (insert_run C started row) s = (Inr (Some r), t)"
    "\<And>n. rr_target_week_start (row n) = week" "\<And>n. rr_status (row n) = ''pending''"
    "\<And>n. rr_run_id (row n) = or_else parent i"
    using assms by (auto simp: create_run_def bind_cmd_eq_Inr lift_result_def split: option.splits)
  then show ?thesis
    by (auto simp: execute_Inr insert_run_def read_clock_def Let_def week_guard_def split: if_splits)
qed

lemma insert_task_Inr: "insert_task E t s = (Inr x, u) \<Longrightarrow>
    u = s\<lparr>td_tasks := td_tasks s @ [t]\<rparr> \<and> at_task_id t \<notin> at_task_id ` set (td_tasks s)"
  by (auto simp: insert_task_def statement_def split: if_splits)

lemma insert_dispatch_Inr: "insert_dispatch E r s = (Inr x, u) \<Longrightarrow> u = s\<lparr>td_outbox := td_outbox s @ [r]\<rparr>"
  by (auto simp: insert_dispatch_def statement_def split: if_splits)

lemma on_store_Inr: "on_store m s = (Inr a, u) \<Longrightarrow> \<exists>v. m (td_store s) = (Inr a, v) \<and> u = s\<lparr>td_store := v\<rparr>"
  by (auto simp: on_store_def split: prod.splits sum.splits)

definition active :: "date \<Rightarrow> run_record \<Rightarrow> bool" where
  "active week r \<longleftrightarrow> rr_target_week_start r = week \<and> rr_status r \<in> {''pending'', ''running''}"

lemma active_run_None: "active_run week s = None \<longleftrightarrow> filter (active week) (rd_runs s) = []"
  by (simp add: active_run_def active_def Let_def flip: set_empty)

lemma active_run_only: "filter (active week) (rd_runs s) = [r] \<Longrightarrow> active_run week s = Some r"
  by (simp add: active_run_def active_def [abs_def] Let_def)

definition accepted_as :: "task_db \<Rightarrow> task_db \<Rightarrow> date \<Rightarrow> string \<Rightarrow> uuid \<Rightarrow> uuid \<Rightarrow> bool" where
  "accepted_as s u week user run task \<longleftrightarrow> (\<exists>r t d.
     rd_runs (td_store u) = rd_runs (td_store s) @ [r] \<and> rr_run_id r = run \<and> rr_target_week_start r = week \<and>
     rr_status r = ''pending'' \<and> active_run week (td_store u) = Some r \<and>
     td_tasks u = td_tasks s @ [t] \<and> at_task_id t = task \<and> at_run_id t = run \<and> at_week_start t = week \<and>
     at_user_id t = user \<and> at_execution_state t = ''accepted'' \<and> at_attempt_count t = 0 \<and>
     td_outbox u = td_outbox s @ [d] \<and> dr_task_id d = task \<and> dr_dispatch_status d = ''pending'' \<and>
     message_of (dr_payload d) = Some \<lparr>bm_task_id = uuid_str task, bm_contract_version = CONTRACT_VERSION,
       bm_run_id = uuid_str run, bm_week_start = iso_date week\<rparr> \<and> td_dead u = td_dead s)"

lemma accept_created:
  assumes "accept_async_task E week user s = (Inr (run, task, created), u)" and none: "active_run week (td_store s) = None"
  shows "created \<and> accepted_as s u week user run task"
proof -
  obtain r s1 s2 where run: "on_store (create_run (te_conn E) (te_uuid4 E 0) week ''http'' WEEKLY_PIPELINE_NAME
        None None (Some ''accepted'') None None) s = (Inr r, s1)"
    and task: "insert_task E (new_task E (te_uuid4 E 1) (rr_run_id r) user week) s1 = (Inr (), s2)"
    and row: "insert_dispatch E (new_dispatch E (te_uuid4 E 1) (dispatch_payload (te_uuid4 E 1) (rr_run_id r) week)) s2 = (Inr (), u)"
    and ids: "run = rr_run_id r" "task = te_uuid4 E 1" "created"
    using assms by (auto simp: accept_async_task_def bind_cmd_eq_Inr statement_def return_cmd_def split: if_splits)
  obtain v where v: "create_run (te_conn E) (te_uuid4 E 0) week ''http'' WEEKLY_PIPELINE_NAME None None
      (Some ''accepted'') None None (td_store s) = (Inr r, v)" and s1: "s1 = s\<lparr>td_store := v\<rparr>"
    using on_store_Inr [OF run] by blast
  note r = create_run_row [OF v]
  have u: "u = s1\<lparr>td_tasks := td_tasks s1 @ [new_task E (te_uuid4 E 1) (rr_run_id r) user week],
      td_outbox := td_outbox s1 @ [new_dispatch E (te_uuid4 E 1) (dispatch_payload (te_uuid4 E 1) (rr_run_id r) week)]\<rparr>"
    using insert_task_Inr [OF task] insert_dispatch_Inr [OF row] by simp
  have "filter (active week) (rd_runs v) = [r]" using none r by (simp add: active_run_None active_def)
  then have "active_run week v = Some r" by (rule active_run_only)
  then show ?thesis
    unfolding accepted_as_def using r ids
    by (intro conjI exI [of _ r] exI [of _ "new_task E (te_uuid4 E 1) (rr_run_id r) user week"]
        exI [of _ "new_dispatch E (te_uuid4 E 1) (dispatch_payload (te_uuid4 E 1) (rr_run_id r) week)"])
      (simp_all add: u s1 new_task_def new_dispatch_def message_of_def dispatch_payload_def)
qed

end
