(* ===== verification/DispatchRefinement.thy ===== *)
theory DispatchRefinement
  imports TaskDelivery
begin

text \<open>
  The relay as a client of the queue: the changes of the database and of the broker together, the
  invariant that a message marked as published is in the broker, and the refinement of
  \<open>relay_once\<close>. Only the relay that sent a message marks its row.
\<close>

section \<open>Changes of database and broker\<close>

definition sent_for :: "broker_message list \<Rightarrow> dispatch_row \<Rightarrow> bool" where
  "sent_for sent r \<longleftrightarrow> (\<exists>m \<in> set sent. message_of (dr_payload r) = Some m)"

definition confirms :: "broker_message list \<Rightarrow> dispatch_row \<Rightarrow> dispatch_row \<Rightarrow> bool" where
  "confirms sent r r' \<longleftrightarrow> dr_task_id r' = dr_task_id r \<and> dr_payload r' = dr_payload r \<and> dispatch_row_ok r' \<and>
     dr_dispatch_status r = ''publishing'' \<and> sent_for sent r"

inductive world_change :: "dispatch_world \<Rightarrow> dispatch_world \<Rightarrow> bool" where
  db: "task_change (dw_db w) d \<Longrightarrow> world_change w (w\<lparr>dw_db := d\<rparr>)"
| send: "world_change w (w\<lparr>dw_sent := dw_sent w @ [m]\<rparr>)"
| confirm: "row_wise (confirms (dw_sent w)) (td_outbox (dw_db w)) rs \<Longrightarrow>
    world_change w (w\<lparr>dw_db := dw_db w\<lparr>td_outbox := rs\<rparr>\<rparr>)"

definition world_ok :: "dispatch_world \<Rightarrow> bool" where
  "world_ok w \<longleftrightarrow> tasks_ok (dw_db w) \<and>
     (\<forall>r \<in> set (td_outbox (dw_db w)). dr_dispatch_status r = ''published'' \<longrightarrow> sent_for (dw_sent w) r)"

lemma sent_for_mono: "sent_for sent r \<Longrightarrow> sent_for (sent @ more_sent) r"
  by (auto simp: sent_for_def)

lemma confirms_key: "confirms sent r r' \<Longrightarrow> dr_task_id r' = dr_task_id r"
  by (simp add: confirms_def)

lemma task_change_outbox:
  assumes "task_change s s'" and "r' \<in> set (td_outbox s')" and "dr_dispatch_status r' = ''published''"
  shows "r' \<in> set (td_outbox s)"
  using assms(1)
proof (cases rule: task_change.cases)
  case (new_dispatch r)
  then show ?thesis using assms(2,3) by auto
next
  case (redispatch rs)
  then show ?thesis using assms(2,3) row_wise_backward [OF redispatch(2), of r']
    by (auto simp: redispatches_def)
qed (use assms(2) in auto)

lemma world_change_ok: "world_change w w' \<Longrightarrow> world_ok w \<Longrightarrow> world_ok w'"
proof (induction rule: world_change.induct)
  case (db w d)
  then show ?case using task_change_ok task_change_outbox by (fastforce simp: world_ok_def)
next
  case (send w m)
  then show ?case by (auto simp: world_ok_def intro: sent_for_mono)
next
  case (confirm w rs)
  note keys = row_wise_keys [OF confirm.hyps confirms_key]
  have row: "dispatch_row_ok r \<and> dr_task_id r \<in> at_task_id ` set (td_tasks (dw_db w)) \<and>
      (dr_dispatch_status r = ''published'' \<longrightarrow> sent_for (dw_sent w) r)" if r: "r \<in> set rs" for r
  proof -
    obtain x where x: "x \<in> set (td_outbox (dw_db w))" "r = x \<or> confirms (dw_sent w) x r"
      using row_wise_backward [OF confirm.hyps r] by (elim bexE)
    have "dispatch_row_ok x" "dr_task_id x \<in> at_task_id ` set (td_tasks (dw_db w))"
      "dr_dispatch_status x = ''published'' \<longrightarrow> sent_for (dw_sent w) x"
      using confirm.prems x(1) by (simp_all add: world_ok_def tasks_ok_def)
    then show ?thesis using x(2) by (auto simp: confirms_def sent_for_def)
  qed
  then show ?case using confirm.prems keys by (simp add: world_ok_def tasks_ok_def)
qed

lemma world_changes_ok: "world_change\<^sup>*\<^sup>* w w' \<Longrightarrow> world_ok w \<Longrightarrow> world_ok w'"
  by (induction rule: rtranclp_induct) (auto intro: world_change_ok)

text \<open>The changes of the database while the broker holds \<open>sent\<close>.\<close>

definition db_change :: "broker_message list \<Rightarrow> task_db \<Rightarrow> task_db \<Rightarrow> bool" where
  "db_change sent s s' \<longleftrightarrow> world_change \<lparr>dw_db = s, dw_sent = sent\<rparr> \<lparr>dw_db = s', dw_sent = sent\<rparr>"

lemma db_change_task: "task_change s s' \<Longrightarrow> db_change sent s s'"
  using world_change.db [of "\<lparr>dw_db = s, dw_sent = sent\<rparr>" s'] by (simp add: db_change_def)

lemma db_path: "(db_change sent)\<^sup>*\<^sup>* s d \<Longrightarrow> world_change\<^sup>*\<^sup>* \<lparr>dw_db = s, dw_sent = sent\<rparr> \<lparr>dw_db = d, dw_sent = sent\<rparr>"
  by (induction rule: rtranclp_induct) (auto simp: db_change_def)

lemma on_db_path:
  assumes "refines (db_change (dw_sent w)) m (dw_db w)" and "on_db m w = (res, w')"
  shows "world_change\<^sup>*\<^sup>* w w'"
proof -
  obtain r d where m: "m (dw_db w) = (r, d)" by (cases "m (dw_db w)")
  have "w' = w\<lparr>dw_db := d\<rparr>" using assms(2) m by (simp add: on_db_def)
  then show ?thesis using db_path [OF refinesD [OF assms(1) m]] by (cases w) simp
qed

section \<open>A published row keeps its key, its payload and its message\<close>

lemma row_followed:
  assumes "world_change w w'" and "r \<in> set (td_outbox (dw_db w))"
  shows "\<exists>r' \<in> set (td_outbox (dw_db w')). dr_task_id r' = dr_task_id r \<and> dr_payload r' = dr_payload r"
  using assms(1)
proof (cases rule: world_change.cases)
  case (db d)
  show ?thesis using db(2)
  proof (cases rule: task_change.cases)
    case (redispatch rs)
    then show ?thesis using row_wise_forward [OF redispatch(2) assms(2)] db(1) by (auto simp: redispatches_def)
  qed (use assms(2) db(1) in auto)
next
  case (confirm rs)
  then show ?thesis using row_wise_forward [OF confirm(2) assms(2)] by (auto simp: confirms_def)
qed (use assms(2) in auto)

lemma row_followed_path:
  "world_change\<^sup>*\<^sup>* w w' \<Longrightarrow> r \<in> set (td_outbox (dw_db w)) \<Longrightarrow>
   \<exists>r' \<in> set (td_outbox (dw_db w')). dr_task_id r' = dr_task_id r \<and> dr_payload r' = dr_payload r"
proof (induction rule: rtranclp_induct)
  case (step v w')
  then show ?case using row_followed [OF step.hyps(2)] by fastforce
qed blast

lemma sent_grows: "world_change w w' \<Longrightarrow> set (dw_sent w) \<subseteq> set (dw_sent w')"
  by (auto elim!: world_change.cases)

lemma sent_grows_path: "world_change\<^sup>*\<^sup>* w w' \<Longrightarrow> set (dw_sent w) \<subseteq> set (dw_sent w')"
  by (induction rule: rtranclp_induct) (auto dest: sent_grows)

section \<open>The transactions of the relay\<close>

lemma waiting_unpublished: "st \<in> set WAITING \<Longrightarrow> st \<noteq> ''published'' \<and> st \<noteq> ''publishing''"
  by (auto simp: WAITING_def)

lemma expire_leases_refines: "refines task_change (expire_leases E) s"
  unfolding expire_leases_def
  by (intro refines_bind refines_basic update_dispatch_refines) (auto simp: redispatches_def)

lemma give_up_refines: "refines task_change (give_up E n) s"
  unfolding give_up_def
  by (intro refines_bind refines_basic update_dispatch_refines) (auto simp: redispatches_def dest: waiting_unpublished)

lemma flag_tasks_refines: "refines task_change (flag_tasks E) s"
proof -
  have "refines task_change (bind_cmd (update_tasks E ''flag_tasks''
     (\<lambda>t. unresolved (td_outbox s) (at_task_id t) \<and> at_dispatch_status t \<noteq> ''reconciliation_required'')
     (\<lambda>t. t\<lparr>at_dispatch_status := ''reconciliation_required'',
        at_updated_at := te_clock E ''relay.flagged_at'' (at_task_id t)\<rparr>)) (\<lambda>_. return_cmd ())) s"
    by (intro refines_bind refines_basic update_tasks_refines edit_dispatchI) (simp_all add: settled_part_def)
  then show ?thesis by (simp add: refines_def flag_tasks_def)
qed

lemma first_row_in: "first_row xs = Some x \<Longrightarrow> x \<in> set xs"
  by (cases xs) auto

lemma next_dispatch_row:
  "next_dispatch E locked n rows = Some r \<Longrightarrow> r \<in> set rows \<and> dr_dispatch_status r \<in> set WAITING"
  using first_row_in [of "sort_key _ _" r] unfolding next_dispatch_def by fastforce

lemma claim_statement_refines:
  assumes "tasks_ok s" and "r \<in> set (td_outbox s)" and "dr_dispatch_status r \<in> set WAITING"
  shows "refines task_change (update_dispatch E op (\<lambda>x. dr_task_id x = dr_task_id r)
    (claim_dispatch_row E owner token secs)) s"
proof (rule update_dispatch_refines)
  fix x assume x: "x \<in> set (td_outbox s)" "dr_task_id x = dr_task_id r"
    "dispatch_row_ok (claim_dispatch_row E owner token secs x)"
  then have "x = r" using assms(1,2) by (auto simp: tasks_ok_def dest: keys_uniqueD)
  then show "redispatches x (claim_dispatch_row E owner token secs x)"
    using x(3) waiting_unpublished [OF assms(3)] by (simp add: redispatches_def claim_dispatch_row_def)
qed

lemma claim_one_refines:
  assumes ok: "tasks_ok s"
  shows "refines task_change (claim_one E locked owner token secs n) s"
  unfolding claim_one_def
proof (rule refines_bind [OF expire_leases_refines], rule refines_bind [OF give_up_refines],
    rule refines_bind [OF flag_tasks_refines], rule refines_bind [OF read_refines], goal_cases)
  case (1 _ s1 _ s2 _ s3 row u)
  then have "tasks_ok s3" using task_changes_ok ok by blast
  moreover have "u = s3" "row = next_dispatch E locked n (td_outbox s3)"
    using 1(7) by (auto simp: statement_def split: if_splits)
  ultimately show ?case
    by (auto intro!: refines_basic refines_bind claim_statement_refines dest: next_dispatch_row
        split: option.splits)
qed

lemma claim_one_claimed:
  assumes "claim_one E locked owner token secs n s = (Inr (Some c), u)"
  shows "c \<in> set (td_outbox u)"
proof -
  obtain r :: dispatch_row and v rows where upd: "update_dispatch E ''claim_dispatch'' (\<lambda>x. dr_task_id x = dr_task_id r)
      (claim_dispatch_row E owner token secs) v = (Inr rows, u)" and c: "first_row rows = Some c"
    using assms by (auto simp: claim_one_def bind_cmd_eq_Inr return_cmd_def split: option.splits)
  have "c \<in> set rows" using c by (rule first_row_in)
  then show ?thesis using upd
    by (auto simp: update_dispatch_def statement_def sql_returning_def set_sql_update split: if_splits)
qed

lemma record_failure_refines: "refines task_change (record_failure E token c code backoff n) s"
  unfolding record_failure_def Let_def
  by (intro refines_bind refines_if refines_basic update_dispatch_refines update_tasks_refines edit_dispatchI)
    (auto simp: redispatches_def holds_def settled_part_def)

lemma record_success_refines:
  assumes sent: "\<And>r. r \<in> set (td_outbox s) \<Longrightarrow> dr_task_id r = dr_task_id c \<Longrightarrow> sent_for sent r"
  shows "refines (db_change sent) (record_success E token c) s"
proof -
  let ?f = "\<lambda>r. r\<lparr>dr_dispatch_status := ''published'',
          dr_published_at := Some (te_clock E ''relay.published_at'' (dr_task_id r)), dr_relay_owner := None,
          dr_relay_token := None, dr_relay_lease_expires_at := None, dr_last_error_code := None,
          dr_updated_at := te_clock E ''relay.updated_at'' (dr_task_id r)\<rparr>"
  have confirm: "refines (db_change sent) (update_dispatch E ''published'' (holds (dr_task_id c) token) ?f) s"
    unfolding update_dispatch_def
  proof (rule statement_refines, goal_cases)
    case (1 res t)
    show ?case
    proof (cases "list_ex (\<lambda>r. holds (dr_task_id c) token r \<and> \<not> dispatch_row_ok (?f r)) (td_outbox s)")
      case False
      have "row_wise (confirms sent) (td_outbox s) (sql_update (holds (dr_task_id c) token) ?f (td_outbox s))"
        by (rule row_wise_update) (use False sent in \<open>auto simp: confirms_def holds_def list_ex_iff\<close>)
      then have "db_change sent s (s\<lparr>td_outbox := sql_update (holds (dr_task_id c) token) ?f (td_outbox s)\<rparr>)"
        using world_change.confirm [of "\<lparr>dw_db = s, dw_sent = sent\<rparr>"] by (simp add: db_change_def)
      then show ?thesis using 1 False by (simp add: r_into_rtranclp)
    qed (use 1 in simp)
  qed
  let ?g = "\<lambda>t. t\<lparr>at_dispatch_status := ''published'',
         at_execution_state := (if at_execution_state t = ''accepted'' then ''queued'' else at_execution_state t),
         at_updated_at := te_clock E ''relay.task_at'' (at_task_id t)\<rparr>"
  have queued: "edits t (?g t)" if "task_row_ok (?g t)" for t
  proof (cases "at_execution_state t = ''accepted''")
    case True
    then show ?thesis using that by (intro edit_moveI) (simp_all add: state_simps)
  next
    case False
    then show ?thesis using that by (intro edit_dispatchI) (simp_all add: settled_part_def)
  qed
  show ?thesis unfolding record_success_def
    by (intro refines_bind refines_if refines_basic confirm refines_mono [OF update_tasks_refines] db_change_task
        queued)
qed

section \<open>One call\<close>

lemma on_db_task_path:
  "refines task_change m (dw_db w) \<Longrightarrow> on_db m w = (res, w') \<Longrightarrow> world_change\<^sup>*\<^sup>* w w'"
  using on_db_path refines_mono [of task_change m "dw_db w"] db_change_task by metis

lemma publish_path: "publish outcome payload (dw_sent w) = (ex, sent) \<Longrightarrow> world_change\<^sup>*\<^sup>* w (w\<lparr>dw_sent := sent\<rparr>)"
proof -
  assume "publish outcome payload (dw_sent w) = (ex, sent)"
  then consider "sent = dw_sent w" | m where "sent = dw_sent w @ [m]"
    by (auto simp: publish_def split: option.splits send_outcome.splits)
  then show ?thesis by cases (simp_all add: r_into_rtranclp world_change.send)
qed

lemma publish_sent: "publish outcome payload sent0 = (None, sent) \<Longrightarrow> \<exists>m \<in> set sent. message_of payload = Some m"
  by (auto simp: publish_def split: option.splits send_outcome.splits)

lemma record_success_path:
  assumes ok: "world_ok w" and c: "c \<in> set (td_outbox (dw_db w))" and m: "m \<in> set (dw_sent w)" "message_of (dr_payload c) = Some m"
    and path: "world_change\<^sup>*\<^sup>* w v" and run: "on_db (begin_task F (record_success F token c)) v = (res, v')"
  shows "world_change\<^sup>*\<^sup>* v v'"
proof (rule on_db_path [OF _ run], intro begin_task_refines record_success_refines)
  fix r assume r: "r \<in> set (td_outbox (dw_db v))" "dr_task_id r = dr_task_id c"
  have "tasks_ok (dw_db v)" using world_changes_ok [OF path ok] by (simp add: world_ok_def)
  then have "dr_payload r = dr_payload c"
    using row_followed_path [OF path c] r by (auto simp: tasks_ok_def dest: keys_uniqueD)
  then show "sent_for (dw_sent v) r" using sent_grows_path [OF path] m by (auto simp: sent_for_def)
qed

lemma relay_refines:
  assumes ok: "world_ok w" and others: "\<And>v. world_ok v \<Longrightarrow> world_change\<^sup>*\<^sup>* v (others v)"
    and run: "relay_once E F locked outcome others K w = (res, w')"
  shows "world_change\<^sup>*\<^sup>* w w'"
proof -
  let ?claim = "begin_task E (claim_one E locked (rc_owner K) (te_uuid4 E 0) (rc_lease_seconds K) (rc_max_publish_attempts K))"
  obtain r1 w1 where claim: "on_db ?claim w = (r1, w1)" by (cases "on_db ?claim w")
  have p1: "world_change\<^sup>*\<^sup>* w w1"
    using ok by (intro on_db_task_path [OF _ claim] begin_task_refines claim_one_refines) (simp add: world_ok_def)
  show ?thesis
  proof (cases "\<exists>c. r1 = Inr (Some c)")
    case False
    then show ?thesis using run claim p1 by (auto simp: relay_once_def Let_def split: sum.splits option.splits)
  next
    case True
    then obtain c where c: "r1 = Inr (Some c)" by blast
    obtain ex sent where pub: "publish outcome (dr_payload c) (dw_sent w1) = (ex, sent)"
      by (cases "publish outcome (dr_payload c) (dw_sent w1)")
    let ?w2 = "w1\<lparr>dw_sent := sent\<rparr>"
    have p2: "world_change\<^sup>*\<^sup>* w1 ?w2" by (rule publish_path [OF pub])
    have "world_ok ?w2" using world_changes_ok [OF rtranclp_trans [OF p1 p2] ok] .
    note ok2 = this and p3 = others [OF this]
    have c_in: "c \<in> set (td_outbox (dw_db w1))"
      using claim c claim_one_claimed
      by (fastforce simp: on_db_def begin_task_def split: prod.splits sum.splits commit_outcome.splits)
    have p4: "world_change\<^sup>*\<^sup>* (others ?w2) w'"
    proof (cases ex)
      case None
      obtain m where m: "m \<in> set sent" "message_of (dr_payload c) = Some m" using publish_sent [OF pub [unfolded None]] by blast
      obtain r2 where "on_db (begin_task F (record_success F (te_uuid4 E 0) c)) (others ?w2) = (r2, w')"
        using run claim c pub None by (auto simp: relay_once_def Let_def split: sum.splits prod.splits)
      then show ?thesis using record_success_path [OF ok2 _ _ m(2) p3] c_in m(1) by simp
    next
      case (Some e)
      obtain r2 where "on_db (begin_task F (record_failure F (te_uuid4 E 0) c (fst (public_exception e))
          (rc_max_backoff_seconds K) (rc_max_publish_attempts K))) (others ?w2) = (r2, w')"
        using run claim c pub Some by (auto simp: relay_once_def Let_def split: sum.splits prod.splits)
      then show ?thesis by (rule on_db_task_path [OF begin_task_refines [OF record_failure_refines]])
    qed
    show ?thesis using p1 p2 p3 p4 by (meson rtranclp_trans)
  qed
qed

end
