(* ===== verification/TaskDemo.thy ===== *)
theory TaskDemo
  imports TaskOutcomes DispatchRefinement RunDemo
begin

text \<open>
  A concrete run of the task queue: one week is accepted, its message is relayed, and a worker
  executes it; and the same task claimed, left to expire and claimed again.
\<close>

definition demo_env :: "nat \<Rightarrow> task_env" where
  "demo_env n = \<lparr>te_conn = demo_conn, te_clock = (\<lambda>_ _. int n * 1000000),
     te_uuid4 = (\<lambda>k. 0x40008000000000000000 + word_of_nat (10 * n + k)), te_fails = (\<lambda>_. False),
     te_commit = CommitOk\<rparr>"

definition demo_task :: uuid where
  "demo_task = te_uuid4 (demo_env 0) 1"

definition no_tasks :: task_db where
  "no_tasks = \<lparr>td_store = empty_store, td_tasks = [], td_outbox = [], td_dead = []\<rparr>"

definition demo_accepted :: task_db where
  "demo_accepted = snd (begin_task (demo_env 0) (accept_async_task (demo_env 0) 4 ''user'') no_tasks)"

definition demo_relay :: relay_config where
  "demo_relay = \<lparr>rc_owner = ''relay'', rc_lease_seconds = 30, rc_max_backoff_seconds = 60, rc_max_publish_attempts = 5\<rparr>"

definition demo_relayed :: dispatch_world where
  "demo_relayed = snd (relay_once (demo_env 1) (demo_env 2) (\<lambda>_. False) Sent (\<lambda>w. w) demo_relay
     \<lparr>dw_db = demo_accepted, dw_sent = []\<rparr>)"

definition demo_result :: coordinator_result where
  "demo_result = \<lparr>cr_week_start = 4, cr_run_id = Some (te_uuid4 (demo_env 0) 0), cr_status = ''succeeded'', cr_errors = [],
     cr_inserted = 3, cr_updated = 0, cr_unchanged = 0, cr_commit_result = ''technically_observed'',
     cr_publication_recorded = True, cr_recovered = False, cr_evidence_inconclusive = False,
     cr_coverage_source = None\<rparr>"

definition demo_delivery :: delivery where
  "demo_delivery = \<lparr>dv_eager = False, dv_id = ''delivery'', dv_task_id = Some demo_task,
     dv_run_id = Some (te_uuid4 (demo_env 0) 0), dv_week_start = Some 4, dv_contract_version = 1,
     dv_now = 30 * 86400000000, dv_engine_ok = True, dv_timing = Some (60, 20, 300), dv_preflight = Ready,
     dv_pipeline = Inr demo_result, dv_retry_now = 0, dv_retries_left = True\<rparr>"

definition demo_worker :: "nat \<Rightarrow> task_env" where
  "demo_worker n = demo_env (10 + n)"

definition demo_first :: "(worker_end + json) \<times> task_db" where
  "demo_first = run_weekly_pipeline_task demo_delivery demo_worker (\<lambda>_ s. s) (dw_db demo_relayed)"

definition demo_second :: "(worker_end + json) \<times> task_db" where
  "demo_second = run_weekly_pipeline_task demo_delivery (\<lambda>n. demo_env (20 + n)) (\<lambda>_ s. s) (snd demo_first)"

text \<open>The claim that expires, and the one that overtakes it.\<close>

definition demo_claimed :: task_db where
  "demo_claimed = snd (claim_execution (demo_env 3) demo_task 60 demo_accepted)"

definition demo_reclaimed :: task_db where
  "demo_reclaimed = snd (claim_execution (demo_env 100) demo_task 60 demo_claimed)"

definition demo_started :: task_db where
  "demo_started = snd (start_prefect (demo_env 101) demo_task (te_uuid4 (demo_env 100) 0) 2 60 demo_reclaimed)"

definition demo_claim :: "nat \<Rightarrow> async_task" where
  "demo_claim n = claim_row (demo_env n) 60 (hd (td_tasks (if n = 3 then demo_accepted else demo_claimed)))"

lemma demo_accept_run:
  "fst (begin_task (demo_env 0) (accept_async_task (demo_env 0) 4 ''user'') no_tasks) =
     Inr (te_uuid4 (demo_env 0) 0, demo_task, True)"
  by code_simp

lemma demo_nothing_active: "active_run 4 (td_store no_tasks) = None"
  by code_simp

lemma demo_first_claim:
  "fst (claim_execution (demo_env 3) demo_task 60 demo_accepted) = Inr (Some (demo_claim 3))"
  by code_simp

lemma demo_second_claim:
  "fst (claim_execution (demo_env 100) demo_task 60 demo_claimed) = Inr (Some (demo_claim 100))"
  by code_simp

lemma demo_start:
  "fst (start_prefect (demo_env 101) demo_task (te_uuid4 (demo_env 100) 0) 2 60 demo_reclaimed) = Inr True"
  by code_simp

lemma demo_restart:
  "fst (start_prefect (demo_env 101) demo_task (te_uuid4 (demo_env 100) 0) 2 60 demo_started) = Inr False"
  by code_simp

lemma demo_deliveries:
  "(case fst demo_first of Inl _ \<Rightarrow> False | Inr p \<Rightarrow> fst demo_second = Inr p)"
  by code_simp

lemma demo_finished_task:
  "map (\<lambda>t. (at_task_id t, at_execution_state t, at_attempt_count t)) (td_tasks (snd demo_first)) =
     [(demo_task, ''succeeded'', 1)]"
  by code_simp

lemma demo_published:
  "map dr_dispatch_status (td_outbox (dw_db demo_relayed)) = [''published'']" "length (dw_sent demo_relayed) = 1"
  by code_simp+

lemma no_tasks_ok: "tasks_ok no_tasks"
  by (simp add: tasks_ok_def no_tasks_def empty_store_def store_ok_def)

lemma demo_accepted_ok: "tasks_ok demo_accepted"
  unfolding demo_accepted_def
  by (intro refines_tasks_ok begin_task_refines accept_refines no_tasks_ok)

lemma demo_world_ok: "world_ok \<lparr>dw_db = demo_accepted, dw_sent = []\<rparr>"
proof -
  have "list_all (\<lambda>r. dr_dispatch_status r = ''pending'') (td_outbox demo_accepted)" by code_simp
  then show ?thesis using demo_accepted_ok by (auto simp: world_ok_def list_all_iff)
qed

lemma honest_alone: "honest (\<lambda>_ s. s)"
  by (simp add: honest_def)

end
