(* ===== verification/TaskProperties.thy ===== *)
theory TaskProperties
  imports TaskDemo
begin

text \<open>
  The properties of the task queue, each with a witness on the run of \<open>TaskDemo\<close>.
\<close>

text \<open>
  C33. The queue keeps its invariant. A delivery of the weekly task, whatever its preflight, its
  pipeline and its commits do and whatever honest sessions commit between its transactions, leaves a
  state reached by the abstract changes, and so do an acceptance and a reconciliation; in each of
  them the keys are unique, every row satisfies its CHECK constraints, the state and the phase of a
  task agree, the epoch counts the attempts, of which there are at most three, and every task, message
  and dead letter refers to rows that exist.
\<close>

theorem queue_refined:
  assumes "tasks_ok s" and "honest others"
  shows "task_change\<^sup>*\<^sup>* s (snd (run_weekly_pipeline_task D E others s)) \<and>
    task_change\<^sup>*\<^sup>* s (snd (begin_task F (accept_async_task F week user) s)) \<and>
    task_change\<^sup>*\<^sup>* s (snd (reconcile_one F locked s)) \<and>
    tasks_ok (snd (run_weekly_pipeline_task D E others s)) \<and>
    tasks_ok (snd (begin_task F (accept_async_task F week user) s)) \<and> tasks_ok (snd (reconcile_one F locked s))"
  by (intro conjI refines_path refines_tasks_ok delivery_refines begin_task_refines accept_refines
      reconcile_one_refines assms)

theorem queue_refined_witness: "tasks_ok (snd (run_weekly_pipeline_task demo_delivery demo_worker (\<lambda>_ s. s) demo_accepted))"
  using queue_refined [OF demo_accepted_ok honest_alone] by blast

text \<open>
  C34. A task is executed at most once. Once a worker moved a task to \<open>prefect_started\<close>, no later
  \<open>start_prefect\<close> for it succeeds, with any claim and after any changes: it reports that no row
  matched, or raises, and leaves the tables as they are.
\<close>

theorem task_started_once:
  assumes "tasks_ok s" and "start_prefect E i token epoch secs s = (Inr True, s1)"
    and "task_change\<^sup>*\<^sup>* s1 s2" and "start_prefect F i token' epoch' secs' s2 = (res, s3)"
  shows "s3 = s2 \<and> res \<noteq> Inr True"
  by (rule started_once [OF assms])

theorem task_started_once_witness:
  "start_prefect (demo_env 101) demo_task (te_uuid4 (demo_env 100) 0) 2 60 demo_started = (Inr False, demo_started)"
proof -
  have ok: "tasks_ok demo_reclaimed" unfolding demo_reclaimed_def demo_claimed_def
    by (intro refines_tasks_ok claim_execution_refines demo_accepted_ok)
  have first: "start_prefect (demo_env 101) demo_task (te_uuid4 (demo_env 100) 0) 2 60 demo_reclaimed = (Inr True, demo_started)"
    using demo_start by (simp add: demo_started_def prod_eq_iff)
  show ?thesis using task_started_once [OF ok first rtranclp.rtrancl_refl surjective_pairing] demo_restart
    by (simp add: prod_eq_iff)
qed

text \<open>
  C35. An overtaken claim is fenced. After another worker claimed the task, at any later time and
  after any changes, the holder of the earlier claim cannot start it, prolong it, finish it, put it
  back or fail it: each statement reports that no row matched, or raises, and changes nothing.
\<close>

theorem overtaken_claim_fenced:
  assumes "tasks_ok s" and "claim_execution E i secs s = (Inr (Some c), s1)"
    and "task_change\<^sup>*\<^sup>* s1 s2" and "claim_execution F i secs' s2 = (Inr (Some c'), s3)" and "task_change\<^sup>*\<^sup>* s3 d"
    and "m \<in> {start_prefect G i token (at_execution_epoch c) lease,
      heartbeat_execution G i token (at_execution_epoch c) lease,
      finish_execution G i token (at_execution_epoch c) st status published result code message,
      schedule_retry G i token (at_execution_epoch c) next_at retry_code retry_message,
      fail_claim G i token (at_execution_epoch c) st retry_code retry_message}"
  shows "snd (m d) = d \<and> fst (m d) \<noteq> Inr True"
proof -
  have "\<not> owns i token (at_execution_epoch c) st phase t" if "t \<in> set (td_tasks d)" for st phase t
    using overtaken [OF assms(1-5)] that by (fastforce simp: owns_def)
  note gone = this
  from assms(6) show ?thesis
    unfolding start_prefect_def heartbeat_execution_def finish_execution_def schedule_retry_def fail_claim_def
    by (elim insertE emptyE) (hypsubst, rule update_tasks_fenced, simp add: gone)+
qed

theorem overtaken_claim_fenced_witness:
  "snd (start_prefect (demo_env 101) demo_task (te_uuid4 (demo_env 3) 0) 1 60 demo_reclaimed) = demo_reclaimed"
proof -
  have first: "claim_execution (demo_env 3) demo_task 60 demo_accepted = (Inr (Some (demo_claim 3)), demo_claimed)"
    using demo_first_claim by (simp add: demo_claimed_def prod_eq_iff)
  have second: "claim_execution (demo_env 100) demo_task 60 demo_claimed = (Inr (Some (demo_claim 100)), demo_reclaimed)"
    using demo_second_claim by (simp add: demo_reclaimed_def prod_eq_iff)
  have "at_execution_epoch (demo_claim 3) = 1" by code_simp
  then show ?thesis
    using overtaken_claim_fenced [OF demo_accepted_ok first rtranclp.rtrancl_refl second rtranclp.rtrancl_refl insertI1,
      of "demo_env 101" "te_uuid4 (demo_env 3) 0" 60] by simp
qed

text \<open>
  C36. A delivery that returns a result has it stored. Outside the eager mode, a result is returned
  only when the task is stored as finished with that result, so the acknowledgement of the message
  never loses it; and the delivery of a task that had already succeeded returns the result stored
  then, and changes nothing of the task but its dispatch status.
\<close>

theorem delivery_returns_stored:
  assumes "\<not> dv_eager D" and "run_weekly_pipeline_task D E others s = (Inr p, u)"
    and "tasks_ok s" and "honest others"
  shows "(\<exists>i. dv_task_id D = Some i \<and> stored_as u i p) \<and>
    (\<forall>t \<in> set (td_tasks s). dv_task_id D = Some (at_task_id t) \<longrightarrow> at_execution_state t = ''succeeded'' \<longrightarrow>
       p = or_else (at_result_summary t) (JObj []) \<and> (\<exists>t' \<in> set (td_tasks u). settled_part t' = settled_part t))"
proof -
  obtain i where i: "dv_task_id D = Some i" "stored_as u i p" using delivery_stored [OF assms(1,2)] by blast
  have path: "task_change\<^sup>*\<^sup>* s u" by (rule refinesD [OF delivery_refines [OF assms(4,3)] assms(2)])
  have "p = or_else (at_result_summary t) (JObj []) \<and> (\<exists>t' \<in> set (td_tasks u). settled_part t' = settled_part t)"
    if t: "t \<in> set (td_tasks s)" "at_task_id t = i" "at_execution_state t = ''succeeded''" for t
  proof -
    obtain t' where t': "t' \<in> set (td_tasks u)" "settled_part t' = settled_part t"
      using settled_kept [OF path t(1)] t(3) by (auto simp: FINAL_STATES_def)
    have same: "at_task_id t' = i" "at_result_summary t' = at_result_summary t"
      using arg_cong [OF t'(2), of at_task_id] arg_cong [OF t'(2), of at_result_summary] t(2)
      by (simp_all add: settled_part_def)
    have "tasks_ok u" by (rule task_changes_ok [OF path assms(3)])
    then show ?thesis using i(2) same t' by (auto simp: stored_as_def tasks_ok_def dest: keys_uniqueD)
  qed
  then show ?thesis using i by auto
qed

theorem delivery_returns_stored_witness:
  "\<exists>p. fst demo_first = Inr p \<and> fst demo_second = Inr p \<and> stored_as (snd demo_second) demo_task p"
proof -
  obtain p where p: "fst demo_first = Inr p" "fst demo_second = Inr p"
    using demo_deliveries by (auto split: sum.splits)
  have first: "demo_first = (Inr p, snd demo_first)" and second: "demo_second = (Inr p, snd demo_second)"
    using p by (simp_all add: prod_eq_iff)
  have w: "world_ok \<lparr>dw_db = demo_accepted, dw_sent = []\<rparr>" by (rule demo_world_ok)
  have "world_ok demo_relayed" unfolding demo_relayed_def
    using world_changes_ok [OF relay_refines [OF w] w] by (metis prod.collapse rtranclp.rtrancl_refl)
  then have ok: "tasks_ok (dw_db demo_relayed)" by (simp add: world_ok_def)
  then have "tasks_ok (snd demo_first)" unfolding demo_first_def
    by (intro refines_tasks_ok delivery_refines honest_alone)
  then show ?thesis
    using p delivery_returns_stored [OF _ second [unfolded demo_second_def] _ honest_alone]
    by (simp add: demo_delivery_def demo_second_def)
qed

text \<open>
  C37. An acceptance is all or nothing and gives a week one run. When the week has an active run, it
  is the answer and nothing changes; otherwise one pending run of the week, one task for it and one
  message with their identities are stored together, and the new run is then the active one. When
  the acceptance fails without its commit having been lost, nothing is stored.
\<close>

theorem acceptance_atomic:
  assumes "begin_task E (accept_async_task E week user) s = (res, u)" and "te_commit E \<noteq> CommitLost"
  shows "case res of
      Inl _ \<Rightarrow> u = s
    | Inr (run, task, created) \<Rightarrow>
        (case active_run week (td_store s) of
           Some r \<Rightarrow> u = s \<and> run = rr_run_id r \<and> \<not> created
         | None \<Rightarrow> created \<and> accepted_as s u week user run task)"
proof (cases res)
  case (Inl e)
  then show ?thesis using assms by (auto simp: begin_task_def split: prod.splits sum.splits commit_outcome.splits)
next
  case (Inr x)
  obtain run task created where x: "x = (run, task, created)" by (cases x)
  have acc: "accept_async_task E week user s = (Inr (run, task, created), u)"
    using assms Inr x by (auto simp: begin_task_def split: prod.splits sum.splits commit_outcome.splits)
  show ?thesis
    using Inr x accept_existing [OF acc] accept_created [OF acc] by (simp split: option.splits)
qed

theorem acceptance_atomic_witness:
  "accepted_as no_tasks demo_accepted 4 ''user'' (te_uuid4 (demo_env 0) 0) demo_task"
proof -
  have "begin_task (demo_env 0) (accept_async_task (demo_env 0) 4 ''user'') no_tasks =
      (Inr (te_uuid4 (demo_env 0) 0, demo_task, True), demo_accepted)"
    using demo_accept_run by (simp add: demo_accepted_def prod_eq_iff)
  from acceptance_atomic [OF this] show ?thesis using demo_nothing_active by (simp add: demo_env_def)
qed

text \<open>
  C38. The relay marks a message as published only when the broker has it. From a state where this
  holds, a call of the relay that other sessions interleave, with every outcome of the sending and of
  the commits, leaves a state where it holds, reached by changes that keep the tables consistent and
  lose no message.
\<close>

theorem relay_publishes_sent:
  assumes "world_ok w" and "\<And>v. world_ok v \<Longrightarrow> world_change\<^sup>*\<^sup>* v (others v)"
    and "relay_once E F locked outcome others K w = (res, w')"
  shows "world_change\<^sup>*\<^sup>* w w' \<and> tasks_ok (dw_db w') \<and> set (dw_sent w) \<subseteq> set (dw_sent w') \<and>
    (\<forall>r \<in> set (td_outbox (dw_db w')). dr_dispatch_status r = ''published'' \<longrightarrow>
       (\<exists>m \<in> set (dw_sent w'). message_of (dr_payload r) = Some m))"
proof -
  have path: "world_change\<^sup>*\<^sup>* w w'" by (rule relay_refines [OF assms])
  then show ?thesis using world_changes_ok [OF path assms(1)] sent_grows_path [OF path]
    by (auto simp: world_ok_def sent_for_def)
qed

theorem relay_publishes_sent_witness:
  "map dr_dispatch_status (td_outbox (dw_db demo_relayed)) = [''published''] \<and> tasks_ok (dw_db demo_relayed)"
proof -
  obtain res where run: "relay_once (demo_env 1) (demo_env 2) (\<lambda>_. False) Sent (\<lambda>w. w) demo_relay
     \<lparr>dw_db = demo_accepted, dw_sent = []\<rparr> = (res, demo_relayed)"
    by (metis demo_relayed_def prod.collapse)
  show ?thesis
    using relay_publishes_sent [OF demo_world_ok rtranclp.rtrancl_refl run] demo_published by simp
qed

end
