(* ===== verification/WeeklyEvents.thy ===== *)
theory WeeklyEvents
  imports InventoryModels Weeks
begin

text \<open>
  Validation and deduplication of telemetry rows, the first half of \<open>pipelines/weekly_performance.py\<close>.
  A row is what the extraction hands over: an absent field is \<open>JNull\<close>, a timestamp is an instant, or
  a value that \<open>datetime\<close> refuses together with the message of the refusal. Sets of the code whose
  sorted tuple is returned are kept as sorted lists without repetition.
\<close>

section \<open>Rows\<close>

datatype event_id = IdUuid uuid | IdText string | IdOther

datatype event_time = Instant time | Unusable string string

record weekly_event =
  we_id :: event_id
  we_timestamp :: event_time
  we_event_type :: json
  we_service :: json
  we_tags :: json

definition INBOUND_ORDER_CREATED :: string where
  "INBOUND_ORDER_CREATED = ''inbound_order_created''"

definition OUTBOUND_ORDER_CREATED :: string where
  "OUTBOUND_ORDER_CREATED = ''outbound_order_created''"

definition STOCK_THRESHOLD_TRIGGERED :: string where
  "STOCK_THRESHOLD_TRIGGERED = ''stock_threshold_triggered''"

definition INVENTORY_DISCREPANCY_DETECTED :: string where
  "INVENTORY_DISCREPANCY_DETECTED = ''inventory_discrepancy_detected''"

definition OFFICIAL_EVENT_TYPES :: "string list" where
  "OFFICIAL_EVENT_TYPES = [INBOUND_ORDER_CREATED, OUTBOUND_ORDER_CREATED, STOCK_THRESHOLD_TRIGGERED,
     INVENTORY_DISCREPANCY_DETECTED]"

definition EXPECTED_OPERATIONAL_SERVICE :: string where
  "EXPECTED_OPERATIONAL_SERVICE = ''api''"

record quality_issue =
  qi_code :: string
  qi_message :: string
  qi_event_ids :: "string list"
  qi_movement_key :: "(string \<times> string) option"

record movement_week_evidence =
  mw_week_starts :: "date list"
  mw_complete :: bool

type_synonym week_evidence = "(string \<times> string \<Rightarrow> movement_week_evidence option) option"

record validated_event =
  ve_row_id :: string
  ve_event_type :: string
  ve_timestamp :: time
  ve_week_start :: date
  ve_warehouse :: string
  ve_client_id :: string
  ve_tags :: tags

record prepared_events =
  pe_events :: "validated_event list"
  pe_rejected :: "string list"
  pe_duplicate_ids :: "string list"
  pe_duplicate_movements :: "(string \<times> string) list"
  pe_duplicate_movement_ids :: "string list"
  pe_conflicts :: "(string \<times> string) list"
  pe_issues :: "quality_issue list"
  pe_pending :: "(string \<times> string) list"

definition sorted_set :: "'a::linorder list \<Rightarrow> 'a list" where
  "sorted_set xs = sort (remdups xs)"

section \<open>UUIDs in texts\<close>

text \<open>
  \<open>uuid.UUID(text)\<close>: the prefixes and hyphens are dropped, and the 32 characters that are left are read
  by \<open>int(hex, 16)\<close>, which takes surrounding white space, a sign, a \<open>0x\<close> prefix and single underscores
  between digits.
\<close>

fun remove_text :: "string \<Rightarrow> nat \<Rightarrow> string \<Rightarrow> string" where
  "remove_text pat n [] = []"
| "remove_text pat (Suc n) (c # cs) = remove_text pat n cs"
| "remove_text pat 0 (c # cs) =
     (if starts_with pat (c # cs) then remove_text pat (length pat - 1) cs else c # remove_text pat 0 cs)"

definition strip_chars :: "char list \<Rightarrow> string \<Rightarrow> string" where
  "strip_chars cs xs = rev (dropWhile (\<lambda>c. c \<in> set cs) (rev (dropWhile (\<lambda>c. c \<in> set cs) xs)))"

definition hex_value :: "char \<Rightarrow> int option" where
  "hex_value c =
     (let n = of_char c :: int
      in if 48 \<le> n \<and> n \<le> 57 then Some (n - 48) else if 97 \<le> n \<and> n \<le> 102 then Some (n - 87)
         else if 65 \<le> n \<and> n \<le> 70 then Some (n - 55) else None)"

fun hex_number :: "bool \<Rightarrow> int \<Rightarrow> string \<Rightarrow> int option" where
  "hex_number digit acc [] = (if digit then Some acc else None)"
| "hex_number digit acc (c # cs) =
     (case hex_value c of
        Some v \<Rightarrow> hex_number True (16 * acc + v) cs
      | None \<Rightarrow> if c = CHR ''_'' \<and> digit then hex_number False acc cs else None)"

definition unprefixed :: "string \<Rightarrow> int option" where
  "unprefixed xs =
     (if starts_with ''0x'' xs \<or> starts_with ''0X'' xs
      then (case drop 2 xs of c # cs \<Rightarrow> hex_number False 0 (if c = CHR ''_'' then cs else c # cs) | [] \<Rightarrow> None)
      else hex_number False 0 xs)"

definition int_base_16 :: "string \<Rightarrow> int option" where
  "int_base_16 text =
     (case py_strip text of
        [] \<Rightarrow> None
      | c # cs \<Rightarrow> if c = CHR ''-'' then map_option uminus (unprefixed cs)
                 else unprefixed (if c = CHR ''+'' then cs else c # cs))"

definition parse_uuid :: "string \<Rightarrow> uuid option" where
  "parse_uuid text =
     (let hex = filter (\<lambda>c. c \<noteq> CHR ''-'') (strip_chars [CHR ''{'', CHR ''}''] (remove_text ''uuid:'' 0 (remove_text ''urn:'' 0 text)))
      in if length hex \<noteq> 32 then None
         else (case int_base_16 hex of
             None \<Rightarrow> None
           | Some n \<Rightarrow> if 0 \<le> n \<and> n < 2 ^ 128 then Some (word_of_int n) else None))"

section \<open>Fields\<close>

definition row_id :: "event_id \<Rightarrow> string + string" where
  "row_id v =
     (case v of
        IdUuid u \<Rightarrow> Inr (uuid_str u)
      | IdText t \<Rightarrow> (case parse_uuid t of None \<Rightarrow> Inl ''id must be a UUID'' | Some u \<Rightarrow> Inr (uuid_str u))
      | IdOther \<Rightarrow> Inl ''id must be a UUID'')"

definition parse_utc_timestamp :: "event_time \<Rightarrow> string + time" where
  "parse_utc_timestamp v = (case v of Instant t \<Rightarrow> Inr t | Unusable message _ \<Rightarrow> Inl message)"

definition iso_week_of :: "time \<Rightarrow> date" where
  "iso_week_of t = utc_date t - weekday (utc_date t)"

definition iso_week_start :: "event_time \<Rightarrow> string + date" where
  "iso_week_start v = bind_result (parse_utc_timestamp v) (\<lambda>t. Inr (iso_week_of t))"

definition iso_week_bounds :: "date \<Rightarrow> string + (time \<times> time)" where
  "iso_week_bounds week_start =
     (if weekday week_start \<noteq> 0 then Inl ''week_start must be a Monday''
      else let start = week_start * 86400000000 in Inr (start, start + 7 * 86400000000))"

definition canonical_warehouse :: "json \<Rightarrow> string + string" where
  "canonical_warehouse v =
     (case v of
        JStr w \<Rightarrow>
          if w = ''los_angeles'' \<or> w = ''zaragoza'' then Inr w
          else (case canonical_telemetry_warehouse w of
              Some c \<Rightarrow> if c = ''los_angeles'' \<or> c = ''zaragoza'' then Inr c
                else Inl ''warehouse is not a documented alias or canonical value''
            | None \<Rightarrow> Inl ''warehouse is not a documented alias or canonical value'')
      | _ \<Rightarrow> Inl ''warehouse must be a recognized string'')"

definition text_given :: "json \<Rightarrow> bool" where
  "text_given v = (case v of JStr x \<Rightarrow> \<not> blank x | _ \<Rightarrow> False)"

definition valid_client_id :: "json \<Rightarrow> string + string" where
  "valid_client_id v =
     (case v of
        JStr c \<Rightarrow> if blank c then Inl ''client_id must be a non-empty string'' else Inr c
      | _ \<Rightarrow> Inl ''client_id must be a non-empty string'')"

definition integer_quantity :: "json \<Rightarrow> bool \<Rightarrow> string + int" where
  "integer_quantity v allow_zero =
     (let message = ''quantity must be a '' @ (if allow_zero then ''non-negative'' else ''positive'') @
            '' integer (not boolean)''
      in case v of
           JInt n \<Rightarrow> if n < (if allow_zero then 0 else 1) then Inl message else Inr n
         | _ \<Rightarrow> Inl message)"

definition uuid_v4_given :: "json \<Rightarrow> bool" where
  "uuid_v4_given v =
     (case v of
        JStr x \<Rightarrow> (case parse_uuid x of None \<Rightarrow> False | Some u \<Rightarrow> uuid_version u = Some 4)
      | _ \<Rightarrow> False)"

definition tag :: "tags \<Rightarrow> string \<Rightarrow> json" where
  "tag tags k = (case map_of tags k of None \<Rightarrow> JNull | Some v \<Rightarrow> v)"

section \<open>Validation\<close>

definition check_identity :: "string \<Rightarrow> tags \<Rightarrow> string + unit" where
  "check_identity event_type tags =
     (if event_type = INBOUND_ORDER_CREATED then
        bind_result (guard (text_given (tag tags ''movement_id''))
          ''movement_id must be a non-empty string for inbound movements'') (\<lambda>_.
        bind_result (integer_quantity (tag tags ''quantity'') False) (\<lambda>_. Inr ()))
      else if event_type = OUTBOUND_ORDER_CREATED then
        guard (uuid_v4_given (tag tags ''order_id'')) ''order_id must be a UUID v4 for outbound orders''
      else if event_type = STOCK_THRESHOLD_TRIGGERED then
        bind_result (guard (text_given (tag tags ''movement_id''))
          ''movement_id must be a non-empty string for threshold events'') (\<lambda>_.
        bind_result (integer_quantity (tag tags ''quantity'') True) (\<lambda>_. Inr ()))
      else if event_type = INVENTORY_DISCREPANCY_DETECTED then
        bind_result (guard (uuid_v4_given (tag tags ''count_id''))
          ''count_id must be a UUID v4 for discrepancy events'') (\<lambda>_.
        bind_result (integer_quantity (tag tags ''quantity'') False) (\<lambda>_. Inr ()))
      else Inr ())"

definition product_id_ok :: "json \<Rightarrow> bool" where
  "product_id_ok v = (case v of JNull \<Rightarrow> True | JStr x \<Rightarrow> \<not> blank x | JInt _ \<Rightarrow> True | _ \<Rightarrow> False)"

definition official_type :: "json \<Rightarrow> string + string" where
  "official_type v =
     (case v of
        JStr e \<Rightarrow> if e \<in> set OFFICIAL_EVENT_TYPES then Inr e
          else Inl ''event_type is not one of the four official business event types''
      | JList _ \<Rightarrow> Inl (''unhashable type: '' @ quoted ''list'')
      | JObj _ \<Rightarrow> Inl (''unhashable type: '' @ quoted ''dict'')
      | _ \<Rightarrow> Inl ''event_type is not one of the four official business event types'')"

definition validate_event :: "weekly_event \<Rightarrow> string + validated_event" where
  "validate_event row =
     bind_result (row_id (we_id row)) (\<lambda>i.
     bind_result (official_type (we_event_type row)) (\<lambda>event_type.
     bind_result (guard (we_service row = JStr EXPECTED_OPERATIONAL_SERVICE)
       ''unexpected service provenance; expected api'') (\<lambda>_.
     case we_tags row of
       JObj tags \<Rightarrow>
         bind_result (parse_utc_timestamp (we_timestamp row)) (\<lambda>timestamp.
         bind_result (canonical_warehouse (tag tags ''warehouse'')) (\<lambda>warehouse.
         bind_result (valid_client_id (tag tags ''client_id'')) (\<lambda>client_id.
         bind_result (check_identity event_type tags) (\<lambda>_.
         bind_result (guard (product_id_ok (tag tags ''product_id''))
           ''product_id must be a non-empty string or integer when present'') (\<lambda>_.
         Inr \<lparr>ve_row_id = i, ve_event_type = event_type, ve_timestamp = timestamp,
           ve_week_start = iso_week_of timestamp, ve_warehouse = warehouse, ve_client_id = client_id,
           ve_tags = tags\<rparr>)))))
     | _ \<Rightarrow> Inl ''tags must be a JSON object'')))"

definition identity_field :: "string \<Rightarrow> string option" where
  "identity_field event_type =
     map_of [(INBOUND_ORDER_CREATED, ''movement_id''), (OUTBOUND_ORDER_CREATED, ''order_id''),
       (STOCK_THRESHOLD_TRIGGERED, ''movement_id''), (INVENTORY_DISCREPANCY_DETECTED, ''count_id'')] event_type"

definition movement_key :: "validated_event \<Rightarrow> (string \<times> string) option" where
  "movement_key e =
     (case identity_field (ve_event_type e) of
        None \<Rightarrow> None
      | Some f \<Rightarrow> (case tag (ve_tags e) f of JStr identity \<Rightarrow> Some (ve_event_type e, identity) | _ \<Rightarrow> None))"

section \<open>Comparable values\<close>

text \<open>
  \<open>_stable_value\<close>: dicts become sorted tuples of pairs and lists become tuples, which then compare by
  Python's equality, under which a bool is the integer 0 or 1.
\<close>

datatype stable = SNone | SInt int | SStr string | STuple "stable list"

fun stable_value :: "json \<Rightarrow> stable" where
  "stable_value JNull = SNone"
| "stable_value (JBool b) = SInt (if b then 1 else 0)"
| "stable_value (JInt n) = SInt n"
| "stable_value (JStr s) = SStr s"
| "stable_value (JList xs) = STuple (map stable_value xs)"
| "stable_value (JObj kvs) =
     STuple (map (\<lambda>(k, v). STuple [SStr k, v]) (sort_key fst (map (\<lambda>(k, v). (k, stable_value v)) kvs)))"

definition same_persisted_row :: "weekly_event \<Rightarrow> weekly_event \<Rightarrow> bool" where
  "same_persisted_row l r \<longleftrightarrow> we_timestamp l = we_timestamp r \<and>
     stable_value (we_event_type l) = stable_value (we_event_type r) \<and>
     stable_value (we_service l) = stable_value (we_service r) \<and>
     stable_value (we_tags l) = stable_value (we_tags r)"

definition movement_signature :: "validated_event \<Rightarrow> string \<times> string \<times> stable \<times> date" where
  "movement_signature e = (ve_warehouse e, ve_client_id e, stable_value (JObj (ve_tags e)), ve_week_start e)"

definition evidence_for_key :: "week_evidence \<Rightarrow> string \<times> string \<Rightarrow> date list \<Rightarrow> bool \<times> bool" where
  "evidence_for_key evidence key observed =
     (case (case evidence of None \<Rightarrow> None | Some f \<Rightarrow> f key) of
        None \<Rightarrow> (True, False)
      | Some item \<Rightarrow>
          if \<not> mw_complete item then (True, False)
          else if length (remdups (mw_week_starts item)) > 1 \<or> set (mw_week_starts item) \<noteq> set observed
          then (False, True)
          else (False, False))"

section \<open>Deduplication\<close>

definition result_of :: "'e + 'a \<Rightarrow> 'a list" where
  "result_of r = (case r of Inl _ \<Rightarrow> [] | Inr a \<Rightarrow> [a])"

definition issue :: "string \<Rightarrow> string \<Rightarrow> string list \<Rightarrow> (string \<times> string) option \<Rightarrow> quality_issue" where
  "issue code message ids key = \<lparr>qi_code = code, qi_message = message, qi_event_ids = ids, qi_movement_key = key\<rparr>"

definition id_issues :: "weekly_event list \<Rightarrow> quality_issue list" where
  "id_issues events = concat (map (\<lambda>r. case row_id (we_id r) of
     Inl message \<Rightarrow> [issue ''invalid_row_id'' message [] None] | Inr _ \<Rightarrow> []) events)"

definition id_groups :: "weekly_event list \<Rightarrow> (string \<times> weekly_event list) list" where
  "id_groups events =
     map (\<lambda>i. (i, filter (\<lambda>r. row_id (we_id r) = Inr i) events))
       (sorted_set (concat (map (\<lambda>r. result_of (row_id (we_id r))) events)))"

definition consistent_rows :: "weekly_event list \<Rightarrow> bool" where
  "consistent_rows rows \<longleftrightarrow> list_all (same_persisted_row (hd rows)) (tl rows)"

definition conflict_ids :: "(string \<times> weekly_event list) list \<Rightarrow> string list" where
  "conflict_ids groups = map fst (filter (\<lambda>(_, rows). \<not> consistent_rows rows) groups)"

definition unique_rows :: "(string \<times> weekly_event list) list \<Rightarrow> weekly_event list" where
  "unique_rows groups = map (\<lambda>(_, rows). hd rows) (filter (\<lambda>(_, rows). consistent_rows rows) groups)"

definition repeated_ids :: "(string \<times> weekly_event list) list \<Rightarrow> string list" where
  "repeated_ids groups = map fst (filter (\<lambda>(_, rows). consistent_rows rows \<and> length rows > 1) groups)"

definition validation_issues :: "weekly_event list \<Rightarrow> quality_issue list" where
  "validation_issues rows = concat (map (\<lambda>r. case validate_event r of
     Inl message \<Rightarrow> [issue ''event_validation_failed'' message (result_of (row_id (we_id r))) None]
   | Inr _ \<Rightarrow> []) rows)"

definition invalid_ids :: "weekly_event list \<Rightarrow> string list" where
  "invalid_ids rows = concat (map (\<lambda>r. case validate_event r of
     Inl _ \<Rightarrow> result_of (row_id (we_id r)) | Inr _ \<Rightarrow> []) rows)"

definition validated_rows :: "weekly_event list \<Rightarrow> validated_event list" where
  "validated_rows rows = concat (map (\<lambda>r. result_of (validate_event r)) rows)"

definition movement_groups :: "validated_event list \<Rightarrow> ((string \<times> string) \<times> validated_event list) list" where
  "movement_groups events =
     map (\<lambda>k. (k, sort_key ve_row_id (filter (\<lambda>e. movement_key e = Some k) events)))
       (sorted_set (List.map_filter movement_key events))"

text \<open>Whether the evidence of a group is pending, contradicts the weeks, and whether the group conflicts.\<close>

definition group_evidence :: "week_evidence \<Rightarrow> (string \<times> string) \<times> validated_event list \<Rightarrow> bool \<times> bool" where
  "group_evidence evidence g = evidence_for_key evidence (fst g) (map ve_week_start (snd g))"

definition group_conflict :: "week_evidence \<Rightarrow> (string \<times> string) \<times> validated_event list \<Rightarrow> bool" where
  "group_conflict evidence g \<longleftrightarrow>
     length (remdups (map movement_signature (snd g))) > 1 \<or> snd (group_evidence evidence g)"

definition conflict_issue :: "week_evidence \<Rightarrow> (string \<times> string) \<times> validated_event list \<Rightarrow> quality_issue" where
  "conflict_issue evidence g =
     issue ''movement_conflict''
       (if snd (group_evidence evidence g)
        then ''Complete movement evidence attributes this movement to conflicting ISO weeks.''
        else ''Repeated business identities conflict on event tags, warehouse, client, or week.'')
       (map ve_row_id (snd g)) (Some (fst g))"

definition event_order :: "validated_event \<Rightarrow> date \<times> string \<times> string \<times> string" where
  "event_order e = (ve_week_start e, ve_warehouse e, ve_client_id e, ve_row_id e)"

definition prepare_weekly_events :: "weekly_event list \<Rightarrow> week_evidence \<Rightarrow> prepared_events" where
  "prepare_weekly_events events evidence =
     (let groups = id_groups events; unique = unique_rows groups; validated = validated_rows unique;
          movements = movement_groups validated;
          conflicts = filter (group_conflict evidence) movements;
          kept = filter (\<lambda>g. \<not> group_conflict evidence g) movements
      in \<lparr>pe_events = sort_key event_order
            (filter (\<lambda>e. movement_key e = None) validated @ map (hd \<circ> snd) kept),
          pe_rejected = sorted_set (conflict_ids groups @ invalid_ids unique @
            concat (map (map ve_row_id \<circ> snd) conflicts)),
          pe_duplicate_ids = sorted_set (repeated_ids groups),
          pe_duplicate_movements = sorted_set (map fst (filter (\<lambda>g. length (snd g) > 1) kept)),
          pe_duplicate_movement_ids = sorted_set (concat (map (map ve_row_id \<circ> tl \<circ> snd) kept)),
          pe_conflicts = sorted_set (map fst conflicts),
          pe_issues = id_issues events @ map (\<lambda>i. issue ''telemetry_row_id_conflict''
              ''Repeated telemetry_events.id values have different row contents.'' [i] None) (conflict_ids groups) @
            validation_issues unique @ map (conflict_issue evidence) conflicts,
          pe_pending = sorted_set (map fst (filter (\<lambda>g. fst (group_evidence evidence g)) movements))\<rparr>)"

end
