(* ===== verification/WeeklyPerformance.thy ===== *)
theory WeeklyPerformance
  imports WeeklyEvents RunStore
begin

text \<open>
  The four weekly counters and their composition, the second half of
  \<open>pipelines/weekly_performance.py\<close>. \<open>decimal_ratio\<close> is the division of Python's \<open>decimal\<close> module in a
  context of 28 digits that rounds half to even: a coefficient and a power of ten.
\<close>

section \<open>Keys and results\<close>

datatype aggregate_key = AggregateKey (key_warehouse: string) (key_client_id: string) (key_week: date)

definition key_tuple :: "aggregate_key \<Rightarrow> string \<times> string \<times> date" where
  "key_tuple k = (key_warehouse k, key_client_id k, key_week k)"

lemma key_tuple_inj: "key_tuple k = key_tuple k' \<Longrightarrow> k = k'"
  by (simp add: key_tuple_def aggregate_key.expand)

instantiation aggregate_key :: linorder
begin

definition less_eq_aggregate_key :: "aggregate_key \<Rightarrow> aggregate_key \<Rightarrow> bool" where
  "less_eq_aggregate_key k k' \<longleftrightarrow> key_tuple k \<le> key_tuple k'"

definition less_aggregate_key :: "aggregate_key \<Rightarrow> aggregate_key \<Rightarrow> bool" where
  "less_aggregate_key k k' \<longleftrightarrow> key_tuple k < key_tuple k'"

instance
  by standard (auto simp: less_eq_aggregate_key_def less_aggregate_key_def dest: key_tuple_inj)

end

type_synonym decimal = "int \<times> int"

record weekly_aggregate =
  wa_key :: aggregate_key
  wa_inbound_units :: int
  wa_outbound_orders :: int
  wa_stockout_events :: int
  wa_discrepancy_events :: int
  wa_discrepancy_rate :: decimal

record commercial_order_record =
  cor_order_id :: string
  cor_warehouse :: string
  cor_client_id :: string
  cor_dispatch_count :: int

record commercial_order_evidence =
  ce_records :: "string \<Rightarrow> commercial_order_record option"
  ce_lookup_complete :: bool

record metric_contribution =
  mc_index :: nat
  mc_values :: "(aggregate_key \<times> int \<times> string list) list"
  mc_accepted :: "string list"
  mc_rejected :: "string list"
  mc_conflicts :: "(string \<times> string) list"
  mc_issues :: "quality_issue list"

record quality_report =
  qr_accepted :: "string list"
  qr_rejected :: "string list"
  qr_duplicate_ids :: "string list"
  qr_duplicate_movements :: "(string \<times> string) list"
  qr_duplicate_movement_ids :: "string list"
  qr_conflicts :: "(string \<times> string) list"
  qr_issues :: "quality_issue list"
  qr_pending :: "(string \<times> string) list"
  qr_coverage_pending :: "string list"

record weekly_result =
  wr_aggregates :: "weekly_aggregate list"
  wr_quality :: quality_report

definition INTEGER_COUNT_FIELDS :: "string list" where
  "INTEGER_COUNT_FIELDS =
     [''inbound_units_count'', ''outbound_orders_count'', ''stockout_events_count'', ''discrepancy_events_count'']"

section \<open>One counter\<close>

definition aggregate_key_of :: "validated_event \<Rightarrow> aggregate_key" where
  "aggregate_key_of e = AggregateKey (ve_warehouse e) (ve_client_id e) (ve_week_start e)"

definition group_metric_values ::
  "nat \<Rightarrow> (aggregate_key \<times> int \<times> string) list \<Rightarrow> string list \<Rightarrow> string list \<Rightarrow> (string \<times> string) list \<Rightarrow>
   quality_issue list \<Rightarrow> metric_contribution" where
  "group_metric_values index rows accepted rejected conflicts issues =
     \<lparr>mc_index = index,
      mc_values = map (\<lambda>k. let mine = filter (\<lambda>r. fst r = k) rows
        in (k, sum_list (map (fst \<circ> snd) mine), sorted_set (map (snd \<circ> snd) mine))) (sorted_set (map fst rows)),
      mc_accepted = sort accepted, mc_rejected = sort rejected, mc_conflicts = sort conflicts, mc_issues = issues\<rparr>"

definition counted :: "nat \<Rightarrow> string \<Rightarrow> prepared_events \<Rightarrow> metric_contribution" where
  "counted index event_type prepared =
     (let mine = filter (\<lambda>e. ve_event_type e = event_type) (pe_events prepared)
      in group_metric_values index (map (\<lambda>e. (aggregate_key_of e, 1, ve_row_id e)) mine) (map ve_row_id mine) [] [] [])"

text \<open>The quantity of a validated inbound event is a positive integer, so reading it again cannot raise.\<close>

definition inbound_quantity :: "validated_event \<Rightarrow> int" where
  "inbound_quantity e = (case integer_quantity (tag (ve_tags e) ''quantity'') False of Inr n \<Rightarrow> n | Inl _ \<Rightarrow> 0)"

definition calculate_inbound_volume :: "prepared_events \<Rightarrow> metric_contribution" where
  "calculate_inbound_volume prepared =
     (let mine = filter (\<lambda>e. ve_event_type e = INBOUND_ORDER_CREATED) (pe_events prepared)
      in group_metric_values 0 (map (\<lambda>e. (aggregate_key_of e, inbound_quantity e, ve_row_id e)) mine)
           (map ve_row_id mine) [] [] [])"

definition identity_conflicts :: "validated_event \<Rightarrow> string \<Rightarrow> commercial_order_record \<Rightarrow> string list" where
  "identity_conflicts e order_id r =
     (if cor_order_id r \<noteq> order_id then [''order_id''] else []) @
     (case canonical_warehouse (JStr (cor_warehouse r)) of
        Inl _ \<Rightarrow> [''warehouse (invalid in order evidence)'']
      | Inr w \<Rightarrow> if w \<noteq> ve_warehouse e then [''warehouse''] else []) @
     (if cor_client_id r \<noteq> ve_client_id e then [''client_id''] else []) @
     (if cor_dispatch_count r < 1 then [''dispatch_count''] else [])"

fun joined_by :: "string \<Rightarrow> string list \<Rightarrow> string" where
  "joined_by sep [] = []"
| "joined_by sep [x] = x"
| "joined_by sep (x # xs) = x @ sep @ joined_by sep xs"

text \<open>The judgement of one outbound event: accepted, or an issue, which may be a conflict.\<close>

definition outbound_issue :: "commercial_order_evidence \<Rightarrow> validated_event \<Rightarrow> (quality_issue \<times> bool) option" where
  "outbound_issue evidence e =
     (case tag (ve_tags e) ''order_id'' of
        JStr order_id \<Rightarrow>
         (case ce_records evidence order_id of
            None \<Rightarrow> Some (if ce_lookup_complete evidence
               then issue ''commercial_order_missing''
                 ''No matching commercial order with a dispatch was found by the complete auxiliary lookup.''
                 [ve_row_id e] (movement_key e)
               else issue ''outbound_order_verification_unavailable''
                 ''Commercial-order verification was unavailable; an order was not presumed.''
                 [ve_row_id e] (movement_key e), False)
          | Some r \<Rightarrow>
             (case identity_conflicts e order_id r of
                [] \<Rightarrow> None
              | cs \<Rightarrow> Some (issue ''commercial_order_identity_conflict''
                  (''Commercial-order identity contradicts telemetry: '' @ joined_by '', '' cs)
                  [ve_row_id e] (movement_key e), True)))
      | _ \<Rightarrow> None)"

definition calculate_outbound_throughput ::
  "prepared_events \<Rightarrow> commercial_order_evidence \<Rightarrow> metric_contribution" where
  "calculate_outbound_throughput prepared evidence =
     (let mine = filter (\<lambda>e. ve_event_type e = OUTBOUND_ORDER_CREATED) (pe_events prepared);
          good = filter (\<lambda>e. outbound_issue evidence e = None) mine;
          bad = filter (\<lambda>e. outbound_issue evidence e \<noteq> None) mine
      in group_metric_values 1 (map (\<lambda>e. (aggregate_key_of e, 1, ve_row_id e)) good) (map ve_row_id good)
           (map ve_row_id bad)
           (List.map_filter movement_key (filter (\<lambda>e. case outbound_issue evidence e of Some (_, c) \<Rightarrow> c | None \<Rightarrow> False) mine))
           (List.map_filter (\<lambda>e. map_option fst (outbound_issue evidence e)) mine))"

definition calculate_stockout_frequency :: "prepared_events \<Rightarrow> metric_contribution" where
  "calculate_stockout_frequency = counted 2 STOCK_THRESHOLD_TRIGGERED"

definition calculate_discrepancy_events :: "prepared_events \<Rightarrow> metric_contribution" where
  "calculate_discrepancy_events = counted 3 INVENTORY_DISCREPANCY_DETECTED"

section \<open>Decimal division\<close>

function digits :: "int \<Rightarrow> nat" where
  "digits n = (if n < 10 then 1 else 1 + digits (n div 10))"
  by auto
termination by (relation "measure nat") auto

declare digits.simps [simp del]

definition half_even :: "int \<Rightarrow> nat \<Rightarrow> int" where
  "half_even n k =
     (let q = n div 10 ^ k; r = n mod 10 ^ k
      in if 2 * r > 10 ^ k \<or> 2 * r = 10 ^ k \<and> odd q then q + 1 else q)"

definition fix_precision :: "nat \<Rightarrow> decimal \<Rightarrow> decimal" where
  "fix_precision prec d =
     (case d of (c, e) \<Rightarrow>
        if digits c \<le> prec then (c, e)
        else let k = digits c - prec; r = half_even c k
             in if digits r > prec then (r div 10, e + int k + 1) else (r, e + int k))"

fun trim_zeros :: "int \<Rightarrow> nat \<Rightarrow> decimal" where
  "trim_zeros c 0 = (c, 0)"
| "trim_zeros c (Suc k) = (if c mod 10 = 0 then trim_zeros (c div 10) k else (c, - int (Suc k)))"

definition decimal_ratio :: "int \<Rightarrow> int \<Rightarrow> decimal" where
  "decimal_ratio n d =
     (if n = 0 then (0, 0)
      else let shift = int (digits d) - int (digits n) + 29;
               top = n * 10 ^ nat shift; bottom = d * 10 ^ nat (- shift);
               c = top div bottom
           in fix_precision 28
                (if top mod bottom \<noteq> 0 then (if c mod 5 = 0 then c + 1 else c, - shift)
                 else if shift > 0 then trim_zeros c (nat shift) else (c, - shift)))"

section \<open>Composition\<close>

definition postgres_integer_overflows :: "int list \<Rightarrow> string list" where
  "postgres_integer_overflows counts =
     map fst (filter (\<lambda>(_, n). n < 0 \<or> n > POSTGRES_INTEGER_MAX) (zip INTEGER_COUNT_FIELDS counts))"

definition count_at :: "metric_contribution \<Rightarrow> aggregate_key \<Rightarrow> int" where
  "count_at c k = (case map_of (mc_values c) k of None \<Rightarrow> 0 | Some (n, _) \<Rightarrow> n)"

definition ids_at :: "metric_contribution \<Rightarrow> aggregate_key \<Rightarrow> string list" where
  "ids_at c k = (case map_of (mc_values c) k of None \<Rightarrow> [] | Some (_, ids) \<Rightarrow> ids)"

definition overflow_message :: "string \<Rightarrow> aggregate_key \<Rightarrow> string" where
  "overflow_message field k =
     field @ '' exceeds PostgreSQL integer range for warehouse='' @ key_warehouse k @ '', client_id='' @
     key_client_id k @ '', week_start='' @ iso_date (key_week k) @ ''; the complete weekly result is blocked.''"

definition key_overflows ::
  "metric_contribution list \<Rightarrow> aggregate_key \<Rightarrow> (string \<times> string list) list" where
  "key_overflows contributions k =
     filter (\<lambda>(field, _). field \<in> set (postgres_integer_overflows (map (\<lambda>c. count_at c k) contributions)))
       (zip INTEGER_COUNT_FIELDS (map (\<lambda>c. ids_at c k) contributions))"

definition aggregate_of :: "metric_contribution list \<Rightarrow> aggregate_key \<Rightarrow> weekly_aggregate" where
  "aggregate_of contributions k =
     (let n = (\<lambda>i. count_at (contributions ! i) k)
      in \<lparr>wa_key = k, wa_inbound_units = n 0, wa_outbound_orders = n 1, wa_stockout_events = n 2,
          wa_discrepancy_events = n 3,
          wa_discrepancy_rate = (if n 1 = 0 then (0, 0) else decimal_ratio (n 3) (n 1))\<rparr>)"

definition COVERAGE_PENDING :: "string list" where
  "COVERAGE_PENDING =
     [''Coverage is unverified: stock_threshold_triggered has no confirmed producer/capture guarantee.'',
      ''Coverage is unverified: inventory_discrepancy_detected has no confirmed producer/capture guarantee.'',
      ''An outbound order lacks verified commercial-order identity and dispatch evidence.'']"

definition compose_weekly_performance ::
  "prepared_events \<Rightarrow> metric_contribution list \<Rightarrow> string + weekly_result" where
  "compose_weekly_performance prepared contributions =
     (if map mc_index contributions \<noteq> [0, 1, 2, 3]
      then Inl ''all four KPI contributions are required in canonical order''
      else
        let keys = sorted_set (concat (map (map fst \<circ> mc_values) contributions));
            overflows = concat (map (\<lambda>k. map (\<lambda>(field, ids). (field, k, ids)) (key_overflows contributions k)) keys);
            blocked = concat (map (\<lambda>(_, _, ids). ids) overflows);
            issues = pe_issues prepared @ concat (map mc_issues contributions) @
              map (\<lambda>(field, k, ids). issue ''aggregate_integer_overflow'' (overflow_message field k) (sorted_set ids) None) overflows
        in Inr \<lparr>wr_aggregates = (if overflows \<noteq> [] then [] else map (aggregate_of contributions) keys),
             wr_quality = \<lparr>
               qr_accepted = sorted_set (filter (\<lambda>i. i \<notin> set blocked) (concat (map mc_accepted contributions))),
               qr_rejected = sorted_set (pe_rejected prepared @ concat (map mc_rejected contributions) @ blocked),
               qr_duplicate_ids = pe_duplicate_ids prepared,
               qr_duplicate_movements = pe_duplicate_movements prepared,
               qr_duplicate_movement_ids = pe_duplicate_movement_ids prepared,
               qr_conflicts = sorted_set (pe_conflicts prepared @ concat (map mc_conflicts contributions)),
               qr_issues = sort_key (\<lambda>q. (qi_code q, qi_event_ids q, qi_message q)) issues,
               qr_pending = pe_pending prepared, qr_coverage_pending = COVERAGE_PENDING\<rparr>\<rparr>)"

definition transform_weekly_performance ::
  "weekly_event list \<Rightarrow> commercial_order_evidence \<Rightarrow> week_evidence \<Rightarrow> string + weekly_result" where
  "transform_weekly_performance events orders evidence =
     (let prepared = prepare_weekly_events events evidence
      in compose_weekly_performance prepared
           [calculate_inbound_volume prepared, calculate_outbound_throughput prepared orders,
            calculate_stockout_frequency prepared, calculate_discrepancy_events prepared])"

end
