(* ===== verification/PublicationBatch.thy ===== *)
theory PublicationBatch
  imports WeeklyPerformance
begin

text \<open>
  The checks of a weekly batch before it is written, from \<open>pipelines/publication.py\<close>: the batch, the
  quality report and the classification of database exceptions. The arguments have the types the
  functions expect, so the \<open>isinstance\<close> tests on them cannot fail and are left out; a rate is a
  finite \<open>Decimal\<close>.
\<close>

section \<open>Decimals\<close>

text \<open>Python compares decimals by their value and prints them in scientific notation when it is short.\<close>

definition decimal_eq :: "decimal \<Rightarrow> decimal \<Rightarrow> bool" where
  "decimal_eq a b \<longleftrightarrow> (let m = min (snd a) (snd b) in fst a * 10 ^ nat (snd a - m) = fst b * 10 ^ nat (snd b - m))"

definition decimal_str :: "decimal \<Rightarrow> string" where
  "decimal_str d =
     (let text = str_nat (nat \<bar>fst d\<bar>); n = int (length text); left = snd d + n;
          point = (if snd d \<le> 0 \<and> left > - 6 then left else 1);
          body = (if point \<le> 0 then ''0.'' @ replicate (nat (- point)) (CHR ''0'') @ text
            else if point \<ge> n then text @ replicate (nat (point - n)) (CHR ''0'')
            else take (nat point) text @ ''.'' @ drop (nat point) text);
          power = (if left = point then [] else ''E'' @ (if left - point < 0 then [] else ''+'') @ str_int (left - point))
      in (if fst d < 0 then ''-'' else []) @ body @ power)"

lemma decimal_eq_refl [simp]: "decimal_eq a a"
  by (simp add: decimal_eq_def)

lemma decimal_eq_sym: "decimal_eq a b \<Longrightarrow> decimal_eq b a"
  by (simp add: decimal_eq_def Let_def min.commute)

definition official_discrepancy_rate :: "int \<Rightarrow> int \<Rightarrow> decimal" where
  "official_discrepancy_rate outbound discrepancies =
     (if outbound = 0 then (0, 0) else decimal_ratio discrepancies outbound)"

section \<open>Exceptions\<close>

datatype sql_class = Sql_Integrity | Sql_Data | Sql_Programming | Sql_Operational | Sql_Interface
  | Sql_Disconnection | Sql_PendingRollback | Sql_Other | Not_Sql

record db_exception =
  dx_class :: sql_class
  dx_sqlstate :: "string option"
  dx_text :: string

definition UNCERTAIN_SQLSTATES :: "string list" where
  "UNCERTAIN_SQLSTATES = [''08000'', ''08001'', ''08003'', ''08004'', ''08006'', ''08007'', ''57P01'', ''57P02'', ''57P03'']"

definition CONNECTION_MARKERS :: "string list" where
  "CONNECTION_MARKERS = [''could not connect'', ''connection refused'', ''server closed the connection'',
     ''connection already closed'', ''consuming input failed'', ''could not receive data'', ''ssl syscall error'',
     ''connection reset'', ''broken pipe'']"

definition connection_marker :: "db_exception \<Rightarrow> bool" where
  "connection_marker ex \<longleftrightarrow> list_ex (\<lambda>m. occurs_in m (py_lower (dx_text ex))) CONNECTION_MARKERS"

definition uncertain_state :: "string \<Rightarrow> bool" where
  "uncertain_state st \<longleftrightarrow> st \<in> set UNCERTAIN_SQLSTATES \<or> starts_with ''08'' st"

definition is_connection_failure :: "db_exception \<Rightarrow> bool" where
  "is_connection_failure ex \<longleftrightarrow> dx_class ex \<in> {Sql_Disconnection, Sql_Interface} \<or>
     (case dx_sqlstate ex of None \<Rightarrow> False | Some st \<Rightarrow> uncertain_state st) \<or> connection_marker ex"

definition commit_failure_is_uncertain :: "db_exception \<Rightarrow> bool" where
  "commit_failure_is_uncertain ex =
     (if dx_class ex \<in> {Sql_Integrity, Sql_Data, Sql_Programming, Sql_PendingRollback} then False
      else if (case dx_sqlstate ex of None \<Rightarrow> False | Some st \<Rightarrow> uncertain_state st) then True
      else if (case dx_sqlstate ex of None \<Rightarrow> False | Some st \<Rightarrow> take 2 st \<in> {''22'', ''23'', ''40'', ''42''}) then False
      else if dx_class ex \<in> {Sql_Disconnection, Sql_Interface} then True
      else if connection_marker ex then True
      else if occurs_in ''timed out'' (py_lower (dx_text ex)) \<or> occurs_in ''timeout'' (py_lower (dx_text ex)) then True
      else dx_class ex = Sql_Operational \<or> dx_class ex = Not_Sql)"

section \<open>Issues\<close>

record publication_issue =
  pi_code :: string
  pi_message :: string
  pi_sqlstate :: "string option"

definition problem :: "string \<Rightarrow> string \<Rightarrow> publication_issue" where
  "problem code message = \<lparr>pi_code = code, pi_message = message, pi_sqlstate = None\<rparr>"

definition database_issue :: "db_exception \<Rightarrow> string \<Rightarrow> publication_issue" where
  "database_issue ex phase =
     \<lparr>pi_code = (if is_connection_failure ex then ''connection_error''
        else if dx_class ex = Sql_Integrity then ''integrity_error''
        else if dx_class ex \<in> {Sql_Data, Sql_Programming} then ''write_error''
        else if phase = ''upsert'' then ''write_error'' else ''database_error''),
      pi_message = phase @ '': '' @ dx_text ex, pi_sqlstate = dx_sqlstate ex\<rparr>"

definition BLOCKING_QUALITY_CODES :: "string list" where
  "BLOCKING_QUALITY_CODES = [''aggregate_integer_overflow'', ''stockexit_identity_conflict'',
     ''stockexit_identity_unverified'', ''stockexit_movement_missing'', ''stockexit_type_unknown'',
     ''outbound_classification_unavailable'', ''invalid_row_id'', ''event_validation_failed'',
     ''telemetry_row_id_conflict'']"

definition blocking_quality_issues :: "quality_report \<Rightarrow> publication_issue list" where
  "blocking_quality_issues q =
     map (\<lambda>i. problem ''quality_blocked'' (qi_code i @ '': '' @ qi_message i))
       (filter (\<lambda>i. qi_code i \<in> set BLOCKING_QUALITY_CODES) (qr_issues q)) @
     (if qr_coverage_pending q \<noteq> []
      then [problem ''coverage_insufficient'' ''Coverage diagnostics are unresolved; the batch cannot be certified''] else []) @
     (if qr_conflicts q \<noteq> []
      then [problem ''identity_conflict'' ''Conflicting identities are unresolved; the batch cannot be written''] else []) @
     (if qr_pending q \<noteq> []
      then [problem ''classification_incomplete'' ''Cross-week classification is incomplete; the batch cannot be written''] else [])"

definition public_quality_issues :: "quality_report option \<Rightarrow> publication_issue list \<times> string" where
  "public_quality_issues quality =
     (case quality of
        None \<Rightarrow> ([problem ''quality_required''
          ''A QualityReport is required; omitting it does not clear coverage or classification''], ''missing'')
      | Some q \<Rightarrow> let issues = blocking_quality_issues q
          in (issues, if issues \<noteq> [] then ''blocked'' else ''diagnostics_clear''))"

section \<open>The batch\<close>

definition CANONICAL_WAREHOUSES :: "string list" where
  "CANONICAL_WAREHOUSES = [''los_angeles'', ''zaragoza'']"

definition week_issue :: "date \<Rightarrow> publication_issue option" where
  "week_issue week_start =
     (case iso_week_bounds week_start of Inl m \<Rightarrow> Some (problem ''invalid_week_start'' m) | Inr _ \<Rightarrow> None)"

definition complete_week_issue :: "date \<Rightarrow> time \<Rightarrow> publication_issue option" where
  "complete_week_issue week_start now =
     (case iso_week_bounds week_start of
        Inr (_, next_start) \<Rightarrow> if now < next_start
          then Some (problem ''incomplete_week'' ''week_start is not a fully elapsed ISO UTC week'') else None
      | Inl _ \<Rightarrow> None)"

definition opt_list :: "'a option \<Rightarrow> 'a list" where
  "opt_list x = (case x of None \<Rightarrow> [] | Some a \<Rightarrow> [a])"

definition wa_counts :: "weekly_aggregate \<Rightarrow> int list" where
  "wa_counts a = [wa_inbound_units a, wa_outbound_orders a, wa_stockout_events a, wa_discrepancy_events a]"

definition counter_issues :: "weekly_aggregate \<Rightarrow> publication_issue list" where
  "counter_issues a = concat (map (\<lambda>(name, value).
     if value < 0 then [problem ''negative_counter'' (name @ '' must be non-negative'')]
     else if value > POSTGRES_INTEGER_MAX
     then [problem ''counter_overflow'' (name @ '' exceeds PostgreSQL integer '' @ str_int POSTGRES_INTEGER_MAX)]
     else []) (zip INTEGER_COUNT_FIELDS (wa_counts a)))"

definition aggregate_issues :: "date \<Rightarrow> weekly_aggregate \<Rightarrow> publication_issue list" where
  "aggregate_issues week_start a =
     (if key_week (wa_key a) \<noteq> week_start
      then [problem ''week_mismatch'' ''aggregate week_start does not match the requested publication week''] else []) @
     (if key_warehouse (wa_key a) \<notin> set CANONICAL_WAREHOUSES
      then [problem ''noncanonical_warehouse''
        ''warehouse must already be los_angeles or zaragoza; aliases are not rewritten''] else []) @
     (case valid_client_id (JStr (key_client_id (wa_key a))) of
        Inl m \<Rightarrow> [problem ''invalid_client_id'' m]
      | Inr c \<Rightarrow> if c \<noteq> key_client_id (wa_key a)
          then [problem ''invalid_client_id'' ''client_id would require silent modification''] else []) @
     counter_issues a @
     (let expected = official_discrepancy_rate (wa_outbound_orders a) (wa_discrepancy_events a)
      in if counter_issues a = [] \<and> \<not> decimal_eq (wa_discrepancy_rate a) expected
         then [problem ''discrepancy_rate_mismatch'' (''discrepancy_rate '' @ decimal_str (wa_discrepancy_rate a) @
           '' does not match the official value '' @ decimal_str expected)] else [])"

fun batch_issues :: "date \<Rightarrow> aggregate_key list \<Rightarrow> weekly_aggregate list \<Rightarrow> publication_issue list" where
  "batch_issues week_start seen [] = []"
| "batch_issues week_start seen (a # as) =
     aggregate_issues week_start a @
     (if wa_key a \<in> set seen
      then [problem ''duplicate_aggregate_key'' (''duplicate publication key warehouse='' @ key_warehouse (wa_key a) @
        '', client_id='' @ key_client_id (wa_key a) @ '', week_start='' @ iso_date (key_week (wa_key a)))] else []) @
     batch_issues week_start (wa_key a # seen) as"

definition validate_weekly_publication_batch ::
  "date \<Rightarrow> weekly_aggregate list \<Rightarrow> time \<Rightarrow> publication_issue list" where
  "validate_weekly_publication_batch week_start aggregates now =
     (case week_issue week_start of Some i \<Rightarrow> [i] | None \<Rightarrow> opt_list (complete_week_issue week_start now)) @
     (if aggregates = []
      then [problem ''empty_batch_not_certified'' ''An empty batch is not a certified week without activity'']
      else batch_issues week_start [] aggregates)"

section \<open>A batch without issues\<close>

lemma batch_issues_Nil:
  "batch_issues w seen as = [] \<longleftrightarrow> (\<forall>a \<in> set as. aggregate_issues w a = []) \<and> distinct (map wa_key as) \<and>
     set (map wa_key as) \<inter> set seen = {}"
  by (induction as arbitrary: seen) auto

lemma aggregate_issues_Nil:
  assumes "aggregate_issues w a = []"
  shows "key_week (wa_key a) = w \<and> key_warehouse (wa_key a) \<in> set CANONICAL_WAREHOUSES \<and> \<not> blank (key_client_id (wa_key a)) \<and>
    list_all (\<lambda>n. 0 \<le> n \<and> n \<le> POSTGRES_INTEGER_MAX) (wa_counts a) \<and>
    decimal_eq (wa_discrepancy_rate a) (official_discrepancy_rate (wa_outbound_orders a) (wa_discrepancy_events a))"
proof -
  have "counter_issues a = []" using assms by (simp add: aggregate_issues_def Let_def split: if_splits)
  then have "list_all (\<lambda>n. 0 \<le> n \<and> n \<le> POSTGRES_INTEGER_MAX) (wa_counts a)"
    by (auto simp: counter_issues_def wa_counts_def INTEGER_COUNT_FIELDS_def split: if_splits)
  then show ?thesis using assms
    by (auto simp: aggregate_issues_def valid_client_id_def Let_def split: if_splits)
qed

lemma batch_valid:
  assumes "validate_weekly_publication_batch w as now = []"
  shows "weekday w = 0 \<and> (w + 7) * 86400000000 \<le> now \<and> as \<noteq> [] \<and> distinct (map wa_key as) \<and>
    (\<forall>a \<in> set as. aggregate_issues w a = [])"
  using assms
  by (auto simp: validate_weekly_publication_batch_def week_issue_def complete_week_issue_def iso_week_bounds_def
      opt_list_def batch_issues_Nil Let_def algebra_simps split: if_splits option.splits)

lemma batch_without_issues:
  assumes "weekday w = 0" and "(w + 7) * 86400000000 \<le> now" and "as \<noteq> []" and "distinct (map wa_key as)"
    and "\<forall>a \<in> set as. aggregate_issues w a = []"
  shows "validate_weekly_publication_batch w as now = []"
  using assms
  by (auto simp: validate_weekly_publication_batch_def week_issue_def complete_week_issue_def iso_week_bounds_def
      opt_list_def batch_issues_Nil Let_def algebra_simps)

lemma aggregate_without_issues:
  assumes "key_warehouse (wa_key a) \<in> set CANONICAL_WAREHOUSES" and "\<not> blank (key_client_id (wa_key a))"
    and "list_all (\<lambda>n. 0 \<le> n \<and> n \<le> POSTGRES_INTEGER_MAX) (wa_counts a)"
    and "wa_discrepancy_rate a = official_discrepancy_rate (wa_outbound_orders a) (wa_discrepancy_events a)"
  shows "aggregate_issues (key_week (wa_key a)) a = []"
  using assms by (simp add: aggregate_issues_def counter_issues_def wa_counts_def INTEGER_COUNT_FIELDS_def valid_client_id_def Let_def)

end
