(* ===== verification/PublicationStage.thy ===== *)
theory PublicationStage
  imports PublicationBatch WeekLease PublicationResult
begin

text \<open>
  Staging a weekly batch in an open transaction, \<open>pipelines/publication.py\<close>, over the table of
  \<open>infra/sql/reporting_weekly_warehouse_client_performance.sql\<close> and the week controls. The tables as
  they are committed stand beside what the open business transaction has made of them; from the
  verification of the lease on, that transaction holds the row locks of the week, so no other session
  changes these rows before it ends. Runs are committed by the operational connection and visible to
  both, as under \<open>READ COMMITTED\<close>.
\<close>

section \<open>The tables\<close>

type_synonym kpis = "int list \<times> decimal"

record published_row =
  pr_key :: aggregate_key
  pr_kpis :: kpis
  pr_computed_at :: time

record business_tables =
  bt_controls :: "week_control list"
  bt_weekly :: "published_row list"

record publication_world =
  pw_store :: run_db
  pw_weekly :: "published_row list"
  pw_open :: "business_tables option"
  pw_unusable :: bool

type_synonym ('e, 'a) publication_cmd = "(publication_world, 'e, 'a) cmd"

text \<open>
  The environment: the two connections, the statements of the stager that raise, the time its
  transaction began (\<open>now()\<close>) and the time of its statement, what a rollback raises, and the exception of the business commit with whether the commit
  took effect nevertheless.
\<close>

record publication_env =
  pb_business :: conn
  pb_operational :: conn
  pb_separate :: bool
  pb_fails :: "string \<Rightarrow> db_exception option"
  pb_transaction_time :: time
  pb_statement_time :: time
  pb_rollback_fails :: "db_exception option"
  pb_commit_fails :: "(db_exception \<times> bool) option"
  pb_history_commit :: "string \<Rightarrow> commit_outcome"

definition same_kpis :: "kpis \<Rightarrow> kpis \<Rightarrow> bool" where
  "same_kpis a b \<longleftrightarrow> fst a = fst b \<and> decimal_eq (snd a) (snd b)"

definition kpi_tuple :: "weekly_aggregate \<Rightarrow> kpis" where
  "kpi_tuple a = (wa_counts a, wa_discrepancy_rate a)"

section \<open>The business transaction\<close>

text \<open>A command on the run store, run by the business connection: it sees and changes its own tables.\<close>

definition on_business :: "(run_db, 'e, 'a) cmd \<Rightarrow> ('e, 'a) publication_cmd" where
  "on_business m w =
     (case pw_open w of
        None \<Rightarrow>
          (case m (pw_store w) of
             (r, s) \<Rightarrow> (r, w\<lparr>pw_store := s\<lparr>rd_controls := rd_controls (pw_store w)\<rparr>,
                pw_open := Some \<lparr>bt_controls = rd_controls s, bt_weekly = pw_weekly w\<rparr>\<rparr>))
      | Some b \<Rightarrow>
          (case m ((pw_store w)\<lparr>rd_controls := bt_controls b\<rparr>) of
             (r, s) \<Rightarrow> (r, w\<lparr>pw_store := s\<lparr>rd_controls := rd_controls (pw_store w)\<rparr>,
                pw_open := Some (b\<lparr>bt_controls := rd_controls s\<rparr>)\<rparr>)))"

definition weekly_of :: "publication_world \<Rightarrow> published_row list" where
  "weekly_of w = (case pw_open w of None \<Rightarrow> pw_weekly w | Some b \<Rightarrow> bt_weekly b)"

definition set_weekly :: "published_row list \<Rightarrow> publication_world \<Rightarrow> publication_world" where
  "set_weekly rows w = w\<lparr>pw_open := (case pw_open w of
     None \<Rightarrow> Some \<lparr>bt_controls = rd_controls (pw_store w), bt_weekly = rows\<rparr>
   | Some b \<Rightarrow> Some (b\<lparr>bt_weekly := rows\<rparr>))\<rparr>"

text \<open>
  \<open>rollback()\<close>: a rollback that raises leaves the transaction as it is; what it wrote stays uncommitted.
\<close>

definition rollback_quietly :: "publication_env \<Rightarrow> publication_world \<Rightarrow> bool \<times> publication_world" where
  "rollback_quietly E w = (case pb_rollback_fails E of Some _ \<Rightarrow> (False, w) | None \<Rightarrow> (True, w\<lparr>pw_open := None\<rparr>))"

record transaction_observation =
  tob_status :: string
  tob_error :: "publication_issue option"
  tob_rollback_observed :: bool

definition rollback_publication_transaction ::
  "publication_env \<Rightarrow> publication_world \<Rightarrow> transaction_observation \<times> publication_world" where
  "rollback_publication_transaction E w =
     (case pb_rollback_fails E of
        Some ex \<Rightarrow> (\<lparr>tob_status = ''rollback_failed'', tob_error = Some \<lparr>pi_code = ''rollback_failed'',
            pi_message = dx_text ex, pi_sqlstate = dx_sqlstate ex\<rparr>, tob_rollback_observed = False\<rparr>, w\<lparr>pw_unusable := True\<rparr>)
      | None \<Rightarrow> (\<lparr>tob_status = ''rolled_back'', tob_error = None, tob_rollback_observed = True\<rparr>, w\<lparr>pw_open := None\<rparr>))"

definition attempt_technical_commit :: "publication_world \<Rightarrow> transaction_observation" where
  "attempt_technical_commit w =
     \<lparr>tob_status = ''commit_unauthorized'',
      tob_error = Some (if pw_unusable w
        then problem ''transaction_aborted'' ''Refusing to commit an aborted or unusable transaction''
        else problem ''commit_unauthorized''
          ''This module does not commit. Phase 2.2 must authorize the same transaction before its own COMMIT.''),
      tob_rollback_observed = False\<rparr>"

definition transaction_issue :: "publication_env \<Rightarrow> publication_world \<Rightarrow> publication_issue option" where
  "transaction_issue E w =
     (if pw_unusable w
      then Some (problem ''transaction_aborted'' ''The transaction is aborted or unusable and cannot accept more statements'')
      else if cn_autocommit (pb_business E)
      then Some (problem ''autocommit_forbidden'' ''Autocommit connections cannot stage a weekly batch atomically'')
      else if cn_dialect (pb_business E) \<noteq> Some ''postgresql''
      then Some (problem ''postgresql_required'' ''Weekly publication requires a PostgreSQL connection'')
      else if \<not> cn_in_transaction (pb_business E)
      then Some (problem ''transaction_required''
        ''An open transaction is required; this module will not begin or commit one'')
      else None)"

definition close_failed_transaction :: "bool \<Rightarrow> bool \<Rightarrow> publication_world \<Rightarrow> string \<times> publication_world" where
  "close_failed_transaction connection_failure rollback_observed w =
     (if connection_failure then (''connection_error'', w\<lparr>pw_unusable := True\<rparr>)
      else if rollback_observed then (''rolled_back'', w)
      else (''rollback_failed'', w\<lparr>pw_unusable := True\<rparr>))"

section \<open>Reconciliation with the published keys\<close>

record reconciliation_result =
  rc_disappeared :: "aggregate_key list"
  rc_errors :: "publication_issue list"
  rc_read_completed :: bool
  rc_published :: "(aggregate_key \<times> kpis) list"

definition unread :: "publication_issue list \<Rightarrow> reconciliation_result" where
  "unread errors = \<lparr>rc_disappeared = [], rc_errors = errors, rc_read_completed = False, rc_published = []\<rparr>"

definition published_keys :: "date \<Rightarrow> published_row list \<Rightarrow> (aggregate_key \<times> kpis) list" where
  "published_keys week_start rows =
     map (\<lambda>r. (pr_key r, pr_kpis r)) (filter (\<lambda>r. key_week (pr_key r) = week_start) rows)"

definition reconcile_disappeared_keys ::
  "publication_env \<Rightarrow> date \<Rightarrow> weekly_aggregate list \<Rightarrow> publication_world \<Rightarrow> reconciliation_result" where
  "reconcile_disappeared_keys E week_start aggregates w =
     (case week_issue week_start of
        Some i \<Rightarrow> unread [i]
      | None \<Rightarrow>
         (case transaction_issue E w of
            Some i \<Rightarrow> unread [i]
          | None \<Rightarrow>
             (case pb_fails E ''reconcile'' of
                Some ex \<Rightarrow> unread [database_issue ex ''reconcile'']
              | None \<Rightarrow>
                  let published = published_keys week_start (weekly_of w);
                      calculated = map wa_key (filter (\<lambda>a. key_week (wa_key a) = week_start) aggregates)
                  in if \<not> distinct (map fst published)
                     then unread [problem ''published_key_duplicate''
                       ''Destination returned a duplicate logical key for the week'']
                     else \<lparr>rc_disappeared = sort (filter (\<lambda>k. k \<notin> set calculated) (map fst published)),
                       rc_errors = [], rc_read_completed = True, rc_published = published\<rparr>)))"

section \<open>The upsert\<close>

text \<open>
  \<open>INSERT ... ON CONFLICT (warehouse, client_id, week_start) DO UPDATE ... WHERE ... IS DISTINCT FROM\<close>,
  one aggregate after the other, with the keys that \<open>RETURNING\<close> gives back. An inserted row takes the
  default \<open>now()\<close> of its column, an updated one \<open>statement_timestamp()\<close>.
\<close>

definition upsert_row :: "time \<Rightarrow> time \<Rightarrow> weekly_aggregate \<Rightarrow> published_row list \<Rightarrow> aggregate_key list \<times> published_row list" where
  "upsert_row began now a rows =
     (case find (\<lambda>r. pr_key r = wa_key a) rows of
        None \<Rightarrow> ([wa_key a], rows @ [\<lparr>pr_key = wa_key a, pr_kpis = kpi_tuple a, pr_computed_at = began\<rparr>])
      | Some r \<Rightarrow>
          if same_kpis (pr_kpis r) (kpi_tuple a) then ([], rows)
          else ([wa_key a], put_row pr_key (r\<lparr>pr_kpis := kpi_tuple a, pr_computed_at := now\<rparr>) rows))"

fun upsert_rows :: "time \<Rightarrow> time \<Rightarrow> weekly_aggregate list \<Rightarrow> published_row list \<Rightarrow> aggregate_key list \<times> published_row list" where
  "upsert_rows began now [] rows = ([], rows)"
| "upsert_rows began now (a # as) rows =
     (case upsert_row began now a rows of
        (ks, rows') \<Rightarrow> (case upsert_rows began now as rows' of (ks', rows'') \<Rightarrow> (ks @ ks', rows'')))"

definition counts_from_snapshot ::
  "weekly_aggregate list \<Rightarrow> (aggregate_key \<times> kpis) list \<Rightarrow> aggregate_key list \<Rightarrow> string + (int \<times> int \<times> int)" where
  "counts_from_snapshot aggregates published returned =
     (let inserted = filter (\<lambda>a. map_of published (wa_key a) = None) aggregates;
          changed = (\<lambda>a. case map_of published (wa_key a) of None \<Rightarrow> False | Some v \<Rightarrow> \<not> same_kpis v (kpi_tuple a));
          updated = filter changed aggregates
      in if \<not> distinct returned then Inl ''RETURNING contained a duplicate logical key''
         else if sort returned \<noteq> sort (map wa_key inserted @ map wa_key updated)
         then Inl ''RETURNING keys do not match the locked snapshot classification''
         else Inr (int (length inserted), int (length updated),
           int (length aggregates) - int (length inserted) - int (length updated)))"

record publication_outcome =
  po_status :: string
  po_inserted :: int
  po_updated :: int
  po_unchanged :: int
  po_errors :: "publication_issue list"
  po_disappeared :: "aggregate_key list"
  po_writes_attempted :: bool
  po_rollback_observed :: bool
  po_staged_uncommitted :: bool
  po_quality_gate :: string

definition outcome :: "string \<Rightarrow> string \<Rightarrow> publication_issue list \<Rightarrow> publication_outcome" where
  "outcome gate status errors = \<lparr>po_status = status, po_inserted = 0, po_updated = 0, po_unchanged = 0,
     po_errors = errors, po_disappeared = [], po_writes_attempted = False, po_rollback_observed = False,
     po_staged_uncommitted = False, po_quality_gate = gate\<rparr>"

definition status_for_issues :: "publication_issue list \<Rightarrow> string" where
  "status_for_issues issues =
     (if list_ex (\<lambda>i. pi_code i = ''connection_error'') issues then ''connection_error'' else ''blocked'')"

text \<open>The places where the stager stops: the batch, the read of the published keys, the write.\<close>

definition refused_batch :: "publication_issue list \<Rightarrow> bool" where
  "refused_batch issues \<longleftrightarrow> list_ex (\<lambda>i. pi_code i = ''invalid_week_start'') issues \<or>
     issues \<noteq> [] \<and> \<not> list_all (\<lambda>i. pi_code i = ''empty_batch_not_certified'') issues"

definition unread_outcome ::
  "publication_env \<Rightarrow> string \<Rightarrow> publication_issue list \<Rightarrow> reconciliation_result \<Rightarrow> publication_world \<Rightarrow>
   publication_outcome \<times> publication_world" where
  "unread_outcome E gate issues r w =
     (let errors = issues @ rc_errors r
      in if list_ex (\<lambda>i. pi_code i \<in> {''connection_error'', ''database_error'', ''integrity_error'', ''write_error''}) (rc_errors r)
         then (case rollback_quietly E w of
             (observed, w1) \<Rightarrow>
               (case close_failed_transaction (list_ex (\<lambda>i. pi_code i = ''connection_error'') errors) observed w1 of
                  (_, w2) \<Rightarrow> ((outcome gate (status_for_issues errors) errors)\<lparr>po_rollback_observed := observed\<rparr>, w2)))
         else (outcome gate (status_for_issues errors) errors, w))"

definition failed_outcome ::
  "publication_env \<Rightarrow> string \<Rightarrow> publication_issue \<Rightarrow> bool \<Rightarrow> publication_world \<Rightarrow> publication_outcome \<times> publication_world" where
  "failed_outcome E gate err connection_failure w =
     (case rollback_quietly E w of
        (observed, w1) \<Rightarrow>
          (case close_failed_transaction connection_failure observed w1 of
             (status, w2) \<Rightarrow> ((outcome gate status [err])\<lparr>po_writes_attempted := True, po_rollback_observed := observed\<rparr>, w2)))"

definition write_batch ::
  "publication_env \<Rightarrow> string \<Rightarrow> weekly_aggregate list \<Rightarrow> reconciliation_result \<Rightarrow> publication_world \<Rightarrow>
   publication_outcome \<times> publication_world" where
  "write_batch E gate aggregates r w =
     (let ordered = sort_key wa_key aggregates
      in case pb_fails E ''upsert'' of
           Some ex \<Rightarrow> failed_outcome E gate (database_issue ex ''upsert'') (is_connection_failure ex) w
         | None \<Rightarrow>
            (case upsert_rows (pb_transaction_time E) (pb_statement_time E) ordered (weekly_of w) of
               (returned, rows) \<Rightarrow>
                 (case counts_from_snapshot ordered (rc_published r) returned of
                    Inl m \<Rightarrow> failed_outcome E gate (problem ''upsert_result_unreadable'' m) False (set_weekly rows w)
                  | Inr (inserted, updated, unchanged) \<Rightarrow>
                      ((outcome gate ''staged'' [])\<lparr>po_inserted := inserted, po_updated := updated, po_unchanged := unchanged,
                         po_staged_uncommitted := True, po_writes_attempted := True\<rparr>, set_weekly rows w))))"

definition stage_batch ::
  "publication_env \<Rightarrow> date \<Rightarrow> weekly_aggregate list \<Rightarrow> time \<Rightarrow> string \<Rightarrow> publication_world \<Rightarrow>
   publication_outcome \<times> publication_world" where
  "stage_batch E week_start aggregates now gate w =
     (let issues = validate_weekly_publication_batch week_start aggregates now
      in if refused_batch issues then (outcome gate ''blocked'' issues, w)
         else case transaction_issue E w of
           Some i \<Rightarrow> (outcome gate (status_for_issues [i]) (issues @ [i]), w)
         | None \<Rightarrow>
             let r = reconcile_disappeared_keys E week_start aggregates w
             in if \<not> rc_read_completed r then unread_outcome E gate issues r w
                else
                  let blockers = issues @ (if rc_disappeared r \<noteq> []
                        then [problem ''reconciliation_conflict''
                          ''Published keys are absent from the calculated batch; automatic deletion is not allowed''] else [])
                  in if blockers \<noteq> []
                     then ((outcome gate ''blocked'' blockers)\<lparr>po_disappeared := rc_disappeared r\<rparr>, w)
                     else write_batch E gate aggregates r w)"

definition stage_weekly_upsert ::
  "publication_env \<Rightarrow> date \<Rightarrow> weekly_aggregate list \<Rightarrow> time \<Rightarrow> quality_report option \<Rightarrow> publication_world \<Rightarrow>
   publication_outcome \<times> publication_world" where
  "stage_weekly_upsert E week_start aggregates now quality w =
     (case public_quality_issues quality of
        (issues, gate) \<Rightarrow>
          if issues \<noteq> []
          then (outcome gate ''blocked'' (validate_weekly_publication_batch week_start aggregates now @ issues), w)
          else stage_batch E week_start aggregates now gate w)"

end
