(* ===== verification/Coordinator.thy ===== *)
theory Coordinator
  imports PublicationStage
begin

text \<open>
  The protected publication of one week, \<open>pipelines/coordinator.py\<close>: quality checks, the lease that was
  granted before, the business transaction (verification, batch, publication record, release) with its
  single commit, and the run history on the operational connection. What a function raises besides a
  \<open>CoordinatorError\<close> is kept as it is.
\<close>

section \<open>Evidence\<close>

record coverage_evidence =
  cv_confirmed_event_types :: "string list"
  cv_dispatch_order_ids :: "(string \<times> string) list"
  cv_lookup_complete :: bool
  cv_source :: string

record confirmed_lease_right =
  cl_week_start :: date
  cl_run_id :: uuid
  cl_fencing_token :: int
  cl_acquisition_committed :: bool

datatype coordinator_error =
    CoordinatorError string string
  | RaisedStore store_error
  | RaisedLease lease_error

type_synonym 'a coordinator_cmd = "(publication_world, coordinator_error, 'a) cmd"

definition REQUIRED_COVERAGE_EVENTS :: "string list" where
  "REQUIRED_COVERAGE_EVENTS = [''stock_threshold_triggered'', ''inventory_discrepancy_detected'']"

definition FINGERPRINT_PARTS :: "string list" where
  "FINGERPRINT_PARTS = [''telemetry='', ''movements='', ''stockexit='', ''rules='']"

definition coverage_issues :: "coverage_evidence option \<Rightarrow> string list" where
  "coverage_issues coverage =
     (case coverage of
        None \<Rightarrow> [''coverage_evidence_required'']
      | Some c \<Rightarrow>
          if cv_source c \<notin> {''synthetic_fixture'', ''operational_checkpoints''} \<or> \<not> cv_lookup_complete c
          then [''coverage_insufficient'']
          else if \<not> set REQUIRED_COVERAGE_EVENTS \<subseteq> set (cv_confirmed_event_types c)
          then [''coverage_insufficient'']
          else if list_ex (\<lambda>(m, order). m = [] \<or> order = []) (cv_dispatch_order_ids c) \<or>
                  \<not> distinct (map fst (cv_dispatch_order_ids c))
          then [''dispatch_order_not_unique'']
          else [])"

definition fingerprint_issue :: "string option \<Rightarrow> date \<Rightarrow> bool" where
  "fingerprint_issue value week_start =
     (case value of
        None \<Rightarrow> True
      | Some v \<Rightarrow>
          let compact = py_strip v
          in length compact < 32 \<or> compact = iso_date week_start \<or> starts_with ''MAX('' compact \<or>
             list_ex (\<lambda>part. \<not> occurs_in part compact) FINGERPRINT_PARTS)"

definition pre_write_issues ::
  "date \<Rightarrow> weekly_aggregate list \<Rightarrow> quality_report option \<Rightarrow> coverage_evidence option \<Rightarrow> string option \<Rightarrow>
   string option \<Rightarrow> time \<Rightarrow> string list" where
  "pre_write_issues week_start aggregates quality coverage dependency_fingerprint rules_version now =
     rev (remdups (rev (map pi_code (validate_weekly_publication_batch week_start aggregates now) @
       (case quality of None \<Rightarrow> [''quality_required''] | Some q \<Rightarrow> map pi_code (blocking_quality_issues q)) @
       coverage_issues coverage @
       (if fingerprint_issue dependency_fingerprint week_start then [''fingerprint_incomplete''] else []) @
       (case rules_version of
          None \<Rightarrow> [''rules_version_required'']
        | Some v \<Rightarrow> if blank v then [''rules_version_required''] else []))))"

definition durable_claim :: "confirmed_lease_right option \<Rightarrow> date \<Rightarrow> uuid \<Rightarrow> confirmed_lease_right option" where
  "durable_claim lease week_start run_id =
     (case lease of
        None \<Rightarrow> None
      | Some l \<Rightarrow>
          if cl_acquisition_committed l \<and> cl_week_start l = week_start \<and> cl_run_id l = run_id \<and> 0 \<le> cl_fencing_token l
          then Some l else None)"

section \<open>The operational connection\<close>

text \<open>
  A change of the run history and its commit. A statement that raises leaves the history as it was.
\<close>

definition history :: "publication_env \<Rightarrow> string \<Rightarrow> 'a run_cmd \<Rightarrow> unit coordinator_cmd" where
  "history E stage m w =
     (case m (pw_store w) of
        (Inl e, s) \<Rightarrow> (Inl (RaisedStore e), w\<lparr>pw_store := (pw_store w)\<lparr>rd_ticks := rd_ticks s\<rparr>\<rparr>)
      | (Inr _, s) \<Rightarrow>
         (case pb_history_commit E stage of
            CommitOk \<Rightarrow> (Inr (), w\<lparr>pw_store := s\<rparr>)
          | CommitRolledBack \<Rightarrow>
              (Inl (CoordinatorError ''operational_commit_failed'' ''run history could not be committed''),
               w\<lparr>pw_store := (pw_store w)\<lparr>rd_ticks := rd_ticks s\<rparr>\<rparr>)
          | CommitLost \<Rightarrow>
              (Inl (CoordinatorError ''operational_commit_failed'' ''run history could not be committed''),
               w\<lparr>pw_store := s\<rparr>)))"

definition identified_run :: "publication_env \<Rightarrow> uuid \<Rightarrow> date \<Rightarrow> run_record coordinator_cmd" where
  "identified_run E run_id week_start w =
     (case get_run (pb_operational E) run_id (pw_store w) of
        (Inl e, _) \<Rightarrow> (Inl (CoordinatorError (store_code e) (store_message e)), w)
      | (Inr None, _) \<Rightarrow> (Inl (CoordinatorError ''run_not_found'' ''publication requires an existing run''), w)
      | (Inr (Some r), _) \<Rightarrow>
          if rr_target_week_start r \<noteq> week_start
          then (Inl (CoordinatorError ''week_mismatch'' ''run target week does not match the publication week''), w)
          else if rr_status r \<noteq> ''pending''
          then (Inl (CoordinatorError ''status_conflict'' ''publication requires a pending run''), w)
          else (Inr r, w))"

definition separated_transactions :: "publication_env \<Rightarrow> coordinator_error + unit" where
  "separated_transactions E =
     (if \<not> pb_separate E
      then Inl (CoordinatorError ''transaction_separation_required'' ''business and operational transactions must be distinct'')
      else if cn_autocommit (pb_business E)
      then Inl (CoordinatorError ''autocommit_forbidden'' ''business connection must not autocommit'')
      else if \<not> cn_in_transaction (pb_business E)
      then Inl (CoordinatorError ''transaction_required'' ''business connection has no open transaction'')
      else if cn_autocommit (pb_operational E)
      then Inl (CoordinatorError ''autocommit_forbidden'' ''operational connection must not autocommit'')
      else if \<not> cn_in_transaction (pb_operational E)
      then Inl (CoordinatorError ''transaction_required'' ''operational connection has no open transaction'')
      else Inr ())"

definition mark_running :: "publication_env \<Rightarrow> uuid \<Rightarrow> unit coordinator_cmd" where
  "mark_running E run_id = history E ''mark_running''
     (update_run (pb_operational E) run_id ''pending'' ''running''
       (no_changes\<lparr>ch_stage_reached := Some ''publish'', ch_commit_result := Some ''uncommitted''\<rparr>))"

record finish =
  fi_expected :: string
  fi_status :: string
  fi_stage :: string
  fi_errors :: "string list"
  fi_commit_result :: string
  fi_block_reason :: "string option"
  fi_error_code :: "string option"
  fi_error_message :: "string option"
  fi_inserted :: int
  fi_updated :: int
  fi_unchanged :: int
  fi_aggregates :: "int option"
  fi_records_processed :: "int option"

definition finishing :: "string \<Rightarrow> string \<Rightarrow> string \<Rightarrow> string list \<Rightarrow> string \<Rightarrow> finish" where
  "finishing expected status stage errors commit_result =
     \<lparr>fi_expected = expected, fi_status = status, fi_stage = stage, fi_errors = errors,
      fi_commit_result = commit_result, fi_block_reason = None, fi_error_code = None, fi_error_message = None,
      fi_inserted = 0, fi_updated = 0, fi_unchanged = 0, fi_aggregates = None, fi_records_processed = None\<rparr>"

definition finish_changes :: "finish \<Rightarrow> time \<Rightarrow> run_changes" where
  "finish_changes f now = no_changes\<lparr>ch_finished_at := Some now, ch_stage_reached := Some (fi_stage f),
     ch_records_processed := fi_records_processed f, ch_aggregates_calculated := fi_aggregates f,
     ch_rows_inserted := Some (fi_inserted f), ch_rows_updated := Some (fi_updated f),
     ch_rows_unchanged := Some (fi_unchanged f),
     ch_error_code := (if truthy (fi_error_code f) then fi_error_code f
       else if fi_status f = ''failed_retryable'' \<and> fi_errors f \<noteq> [] then Some (hd (fi_errors f)) else None),
     ch_error_message := fi_error_message f, ch_block_reason := fi_block_reason f,
     ch_commit_result := Some (fi_commit_result f)\<rparr>"

definition finish_run :: "publication_env \<Rightarrow> uuid \<Rightarrow> time \<Rightarrow> finish \<Rightarrow> unit coordinator_cmd" where
  "finish_run E run_id now f = history E ''finish''
     (update_run (pb_operational E) run_id (fi_expected f) (fi_status f) (finish_changes f now))"

definition observe_uncertain :: "publication_env \<Rightarrow> uuid \<Rightarrow> string \<Rightarrow> unit coordinator_cmd" where
  "observe_uncertain E run_id commit_result = history E ''observe''
     (record_commit_observation (pb_operational E) run_id commit_result ''commit'' ''commit_uncertain''
       ''business commit was not confirmed; writes were not retried'')"

section \<open>Outcomes\<close>

definition the_result :: "date \<Rightarrow> uuid option \<Rightarrow> string \<Rightarrow> string list \<Rightarrow> string \<Rightarrow> coordinator_result" where
  "the_result week_start run_id status errors commit_result =
     \<lparr>cr_week_start = week_start, cr_run_id = run_id, cr_status = status, cr_errors = errors, cr_inserted = 0,
      cr_updated = 0, cr_unchanged = 0, cr_commit_result = commit_result, cr_publication_recorded = False,
      cr_recovered = False, cr_evidence_inconclusive = False, cr_coverage_source = None\<rparr>"

text \<open>Roll the business transaction back, record the end of the run, and answer.\<close>

definition end_run ::
  "publication_env \<Rightarrow> bool \<Rightarrow> uuid \<Rightarrow> time \<Rightarrow> finish \<Rightarrow> coordinator_result \<Rightarrow> coordinator_result coordinator_cmd" where
  "end_run E release run_id now f r w =
     bind_cmd (finish_run E run_id now f) (\<lambda>_. return_cmd r)
       (if release then snd (rollback_publication_transaction E w) else w)"

definition lease_rejection_status :: "lease_decision \<Rightarrow> string" where
  "lease_rejection_status d =
     (if ld_owner_run_id d \<noteq> None \<and> ld_owner_run_id d \<noteq> ld_run_id d then ''skipped_in_progress'' else ''superseded'')"

definition lease_status_name :: "lease_status \<Rightarrow> string" where
  "lease_status_name st =
     (case st of Acquired \<Rightarrow> ''acquired'' | Recovered \<Rightarrow> ''recovered'' | Occupied \<Rightarrow> ''occupied''
      | AlreadyHeld \<Rightarrow> ''already_held'' | Verified \<Rightarrow> ''verified'' | Renewed \<Rightarrow> ''renewed''
      | Released \<Rightarrow> ''released'' | Rejected \<Rightarrow> ''rejected'')"

definition abort_staged ::
  "publication_env \<Rightarrow> date \<Rightarrow> uuid \<Rightarrow> publication_outcome \<Rightarrow> time \<Rightarrow> coordinator_result coordinator_cmd" where
  "abort_staged E week_start run_id staged now =
     (let codes = (if po_errors staged = [] then [po_status staged] else map pi_code (po_errors staged));
          blocked = po_status staged = ''blocked'' \<or> list_ex (\<lambda>c. c \<in>
            {''reconciliation_conflict'', ''empty_batch_not_certified'', ''quality_blocked''}) codes;
          status = (if blocked then ''blocked_quality'' else ''failed_retryable'');
          commit_result = (if po_rollback_observed staged \<or> blocked then ''rolled_back'' else ''uncertain'');
          f = (finishing ''running'' status ''publish'' codes commit_result)\<lparr>
            fi_block_reason := (if blocked then Some (hd codes) else None),
            fi_error_code := (if blocked then None else Some (hd codes)),
            fi_error_message := Some (if po_errors staged = [] then po_status staged else pi_message (hd (po_errors staged)))\<rparr>
      in end_run E (\<not> po_rollback_observed staged) run_id now f
           (the_result week_start (Some run_id) status codes commit_result))"

text \<open>The record of the publication and the release of the lease, in the business transaction.\<close>

definition error_text :: "lease_error \<Rightarrow> string" where
  "error_text e = (case e of Store s \<Rightarrow> store_message s | ConcurrencyError _ m \<Rightarrow> m)"

definition record_and_release ::
  "publication_env \<Rightarrow> date \<Rightarrow> uuid \<Rightarrow> int \<Rightarrow> time \<Rightarrow> int \<Rightarrow> string option \<Rightarrow> string option \<Rightarrow>
   (publication_world, lease_error, lease_decision) cmd" where
  "record_and_release E week_start run_id token now rows dependency_fingerprint rules_version =
     bind_cmd (on_business (map_error Store (record_valid_publication (pb_business E) week_start run_id now rows
       dependency_fingerprint rules_version))) (\<lambda>_.
     on_business (release_week_lease (pb_business E) week_start run_id token))"

definition commit_business :: "publication_env \<Rightarrow> publication_world \<Rightarrow> string \<times> publication_world" where
  "commit_business E w =
     (let published = (case pw_open w of
            None \<Rightarrow> w
          | Some b \<Rightarrow> w\<lparr>pw_store := (pw_store w)\<lparr>rd_controls := bt_controls b\<rparr>, pw_weekly := bt_weekly b, pw_open := None\<rparr>)
      in case pb_commit_fails E of
           None \<Rightarrow> (''technically_observed'', published)
         | Some (ex, took_effect) \<Rightarrow>
             (if commit_failure_is_uncertain ex then ''uncertain'' else ''rolled_back'',
              if took_effect then published else w\<lparr>pw_open := None\<rparr>))"

section \<open>The publication\<close>

record publication_request =
  pq_week_start :: date
  pq_run_id :: uuid
  pq_aggregates :: "weekly_aggregate list"
  pq_quality :: "quality_report option"
  pq_coverage :: "coverage_evidence option"
  pq_dependency_fingerprint :: "string option"
  pq_rules_version :: "string option"
  pq_lease :: "confirmed_lease_right option"
  pq_now :: time
  pq_records_processed :: "int option"

definition with_source :: "publication_request \<Rightarrow> coordinator_result \<Rightarrow> coordinator_result" where
  "with_source Q r = r\<lparr>cr_coverage_source := map_option cv_source (pq_coverage Q)\<rparr>"

definition with_counts :: "publication_outcome \<Rightarrow> coordinator_result \<Rightarrow> coordinator_result" where
  "with_counts staged r = r\<lparr>cr_inserted := po_inserted staged, cr_updated := po_updated staged,
     cr_unchanged := po_unchanged staged\<rparr>"

definition commit_phase ::
  "publication_env \<Rightarrow> publication_request \<Rightarrow> publication_outcome \<Rightarrow> coordinator_result coordinator_cmd" where
  "commit_phase E Q staged w =
     (case commit_business E w of
        (commit_result, w1) \<Rightarrow>
          if commit_result \<noteq> ''technically_observed''
          then bind_cmd (observe_uncertain E (pq_run_id Q) commit_result) (\<lambda>_. return_cmd
            (with_source Q (with_counts staged
              (the_result (pq_week_start Q) (Some (pq_run_id Q)) ''commit_uncertain'' [''commit_uncertain''] commit_result)))) w1
          else
            let final = (if po_inserted staged = 0 \<and> po_updated staged = 0 then ''succeeded_noop'' else ''succeeded'')
            in bind_cmd (finish_run E (pq_run_id Q) (pq_now Q)
                 ((finishing ''running'' final ''committed'' [] ''technically_observed'')\<lparr>fi_inserted := po_inserted staged,
                    fi_updated := po_updated staged, fi_unchanged := po_unchanged staged,
                    fi_aggregates := Some (int (length (pq_aggregates Q))),
                    fi_records_processed := pq_records_processed Q\<rparr>)) (\<lambda>_. return_cmd
               ((with_source Q (with_counts staged
                 (the_result (pq_week_start Q) (Some (pq_run_id Q)) final [] ''technically_observed'')))
                  \<lparr>cr_publication_recorded := True\<rparr>)) w1)"

definition record_phase ::
  "publication_env \<Rightarrow> publication_request \<Rightarrow> int \<Rightarrow> publication_outcome \<Rightarrow> coordinator_result coordinator_cmd" where
  "record_phase E Q token staged w =
     (case record_and_release E (pq_week_start Q) (pq_run_id Q) token (pq_now Q)
             (po_inserted staged + po_updated staged + po_unchanged staged) (pq_dependency_fingerprint Q)
             (pq_rules_version Q) w of
        (Inl e, w1) \<Rightarrow>
          end_run E True (pq_run_id Q) (pq_now Q)
            ((finishing ''running'' ''failed_retryable'' ''publish'' [''publication_metadata_failed''] ''rolled_back'')
              \<lparr>fi_error_code := Some ''publication_metadata_failed'', fi_error_message := Some (take 500 (error_text e))\<rparr>)
            (the_result (pq_week_start Q) (Some (pq_run_id Q)) ''failed_retryable'' [''publication_metadata_failed''] ''rolled_back'') w1
      | (Inr released, w1) \<Rightarrow>
          if ld_status released \<noteq> Released
          then end_run E True (pq_run_id Q) (pq_now Q)
            ((finishing ''running'' ''failed_retryable'' ''lease'' [''lease_release_rejected''] ''rolled_back'')
              \<lparr>fi_error_code := Some ''lease_release_rejected'',
               fi_error_message := Some ''owner or fencing token no longer matches''\<rparr>)
            (the_result (pq_week_start Q) (Some (pq_run_id Q)) ''failed_retryable'' [''lease_release_rejected''] ''rolled_back'') w1
          else commit_phase E Q staged w1)"

definition write_phase ::
  "publication_env \<Rightarrow> publication_request \<Rightarrow> int \<Rightarrow> coordinator_result coordinator_cmd" where
  "write_phase E Q token w =
     (case mark_running E (pq_run_id Q) w of
        (Inl (CoordinatorError c m), w1) \<Rightarrow>
          (Inl (CoordinatorError c m), snd (rollback_publication_transaction E w1))
      | (Inl e, w1) \<Rightarrow> (Inl e, w1)
      | (Inr _, w1) \<Rightarrow>
         (case stage_batch E (pq_week_start Q) (pq_aggregates Q) (pq_now Q) ''coordinator_checked'' w1 of
            (staged, w2) \<Rightarrow>
              if po_status staged \<noteq> ''staged''
              then abort_staged E (pq_week_start Q) (pq_run_id Q) staged (pq_now Q) w2
              else record_phase E Q token staged w2))"

definition lease_phase ::
  "publication_env \<Rightarrow> publication_request \<Rightarrow> int \<Rightarrow> coordinator_result coordinator_cmd" where
  "lease_phase E Q token w =
     (case on_business (verify_week_lease (pb_business E) (pq_week_start Q) (pq_run_id Q) token) w of
        (Inl (ConcurrencyError code m), w1) \<Rightarrow>
          end_run E True (pq_run_id Q) (pq_now Q)
            ((finishing ''pending'' ''failed_retryable'' ''lease'' [code] ''uncertain'')
              \<lparr>fi_error_code := Some code, fi_error_message := Some m\<rparr>)
            (the_result (pq_week_start Q) (Some (pq_run_id Q)) ''failed_retryable'' [code] ''not_attempted'') w1
      | (Inl e, w1) \<Rightarrow> (Inl (RaisedLease e), w1)
      | (Inr d, w1) \<Rightarrow>
          if \<not> lease_verified d
          then end_run E True (pq_run_id Q) (pq_now Q)
            ((finishing ''pending'' (lease_rejection_status d) ''lease'' [''lease_rejected''] ''not_attempted'')
              \<lparr>fi_block_reason := Some (''lease verification rejected: '' @ lease_status_name (ld_status d))\<rparr>)
            (the_result (pq_week_start Q) (Some (pq_run_id Q)) (lease_rejection_status d) [''lease_rejected''] ''not_attempted'') w1
          else write_phase E Q token w1)"

definition publish_weekly_business_report ::
  "publication_env \<Rightarrow> publication_request \<Rightarrow> coordinator_result coordinator_cmd" where
  "publish_weekly_business_report E Q =
     bind_cmd (lift_result (separated_transactions E)) (\<lambda>_.
     bind_cmd (identified_run E (pq_run_id Q) (pq_week_start Q)) (\<lambda>run.
     let issues = pre_write_issues (pq_week_start Q) (pq_aggregates Q) (pq_quality Q) (pq_coverage Q)
           (pq_dependency_fingerprint Q) (pq_rules_version Q) (pq_now Q)
     in if issues \<noteq> []
        then end_run E False (pq_run_id Q) (pq_now Q)
          ((finishing ''pending'' ''blocked_quality'' ''quality'' issues ''not_attempted'')\<lparr>fi_block_reason := Some (hd issues)\<rparr>)
          (with_source Q (the_result (pq_week_start Q) (Some (pq_run_id Q)) ''blocked_quality'' issues ''not_attempted''))
        else case durable_claim (pq_lease Q) (pq_week_start Q) (pq_run_id Q) of
          None \<Rightarrow>
            end_run E False (pq_run_id Q) (pq_now Q)
              ((finishing ''pending'' ''superseded'' ''lease'' [''lease_not_durable''] ''not_attempted'')
                \<lparr>fi_block_reason := Some ''lease acquisition was not confirmed before publication''\<rparr>)
              (the_result (pq_week_start Q) (Some (pq_run_id Q)) ''superseded'' [''lease_not_durable''] ''not_attempted'')
        | Some l \<Rightarrow> lease_phase E Q (cl_fencing_token l)))"

section \<open>Recovery\<close>

text \<open>
  \<open>resolve_uncertain_publication\<close> recognises a committed publication from what is stored and never
  writes the weekly table. \<open>operational\<close> says whether an operational connection is given.
\<close>

definition matches ::
  "uuid \<Rightarrow> string \<Rightarrow> string \<Rightarrow> int option \<Rightarrow> valid_publication option \<Rightarrow> bool" where
  "matches run_id dependency_fingerprint rules_version row_count publication =
     (case publication of
        None \<Rightarrow> False
      | Some p \<Rightarrow> vp_run_id p = run_id \<and> vp_dependency_fingerprint p = Some dependency_fingerprint \<and>
          vp_rules_version p = Some rules_version \<and>
          (case row_count of None \<Rightarrow> True | Some n \<Rightarrow> vp_published_row_count p = n))"

definition repair_history :: "publication_env \<Rightarrow> uuid \<Rightarrow> time \<Rightarrow> unit coordinator_cmd" where
  "repair_history E run_id now w =
     (case get_run (pb_operational E) run_id (pw_store w) of
        (Inl e, _) \<Rightarrow> (Inl (RaisedStore e), w)
      | (Inr (Some r), _) \<Rightarrow>
          if rr_status r = ''running''
          then finish_run E run_id now (finishing ''running'' ''succeeded'' ''recovered'' [] ''technically_observed'') w
          else (Inr (), w)
      | (Inr None, _) \<Rightarrow> (Inr (), w))"

definition resolve_uncertain_publication ::
  "publication_env \<Rightarrow> date \<Rightarrow> uuid \<Rightarrow> string \<Rightarrow> string \<Rightarrow> int option \<Rightarrow> bool \<Rightarrow> time option \<Rightarrow> bool \<Rightarrow>
   coordinator_result coordinator_cmd" where
  "resolve_uncertain_publication E week_start run_id dependency_fingerprint rules_version row_count operational now persist w =
     (case latest_valid_publication (pb_business E) week_start (pw_store w) of
        (Inl e, _) \<Rightarrow> (Inl (RaisedStore e), w)
      | (Inr publication, _) \<Rightarrow>
          if matches run_id dependency_fingerprint rules_version row_count publication
          then bind_cmd
            (if \<not> persist then return_cmd ()
             else if \<not> operational \<or> now = None
             then raise_cmd (CoordinatorError ''operational_required''
               ''persisting recovery needs an operational transaction and now'')
             else repair_history E run_id (the now)) (\<lambda>_. return_cmd
            ((the_result week_start (Some run_id) ''succeeded'' [] ''technically_observed'')
              \<lparr>cr_publication_recorded := True, cr_recovered := True\<rparr>)) w
          else bind_cmd
            (if persist \<and> operational \<and> now \<noteq> None then observe_uncertain E run_id ''uncertain'' else return_cmd ())
            (\<lambda>_. return_cmd
            ((the_result week_start (Some run_id) ''commit_uncertain'' [''evidence_inconclusive''] ''uncertain'')
              \<lparr>cr_evidence_inconclusive := True\<rparr>)) w)"

end
