(* ===== verification/PublicationFacts.thy ===== *)
theory PublicationFacts
  imports PublicationStage "HOL-Library.Multiset"
begin

text \<open>
  What staging a batch does to the weekly table: the rows of the batch take the figures of the batch,
  every other row is kept, and the counts of the answer are those of the rows that change.
\<close>

section \<open>The upsert\<close>

definition row_of :: "published_row list \<Rightarrow> weekly_aggregate \<Rightarrow> published_row option" where
  "row_of rows a = find (\<lambda>r. pr_key r = wa_key a) rows"

definition differs :: "published_row list \<Rightarrow> weekly_aggregate \<Rightarrow> bool" where
  "differs rows a \<longleftrightarrow> (case row_of rows a of None \<Rightarrow> True | Some r \<Rightarrow> \<not> same_kpis (pr_kpis r) (kpi_tuple a))"

definition shows_batch :: "weekly_aggregate list \<Rightarrow> published_row list \<Rightarrow> bool" where
  "shows_batch as rows \<longleftrightarrow> (\<forall>a \<in> set as. \<exists>r \<in> set rows. pr_key r = wa_key a \<and> same_kpis (pr_kpis r) (kpi_tuple a))"

lemma same_kpis_refl [simp]: "same_kpis k k"
  by (simp add: same_kpis_def)

lemma row_of_Some: "row_of rows a = Some r \<Longrightarrow> r \<in> set rows \<and> pr_key r = wa_key a"
  unfolding row_of_def by (rule find_SomeD)

lemma row_of_None: "row_of rows a = None \<longleftrightarrow> wa_key a \<notin> pr_key ` set rows"
  by (force simp: row_of_def find_None_iff)

lemma row_of_unique: "keys_unique pr_key rows \<Longrightarrow> r \<in> set rows \<Longrightarrow> pr_key r = wa_key a \<Longrightarrow> row_of rows a = Some r"
  using keys_unique_find [of pr_key rows r] by (simp add: row_of_def)

lemma shows_differs:
  assumes "keys_unique pr_key rows"
  shows "(\<exists>r \<in> set rows. pr_key r = wa_key a \<and> same_kpis (pr_kpis r) (kpi_tuple a)) \<longleftrightarrow> \<not> differs rows a"
proof (cases "row_of rows a")
  case None
  then have "wa_key a \<notin> pr_key ` set rows" by (simp add: row_of_None)
  then show ?thesis using None by (force simp: differs_def)
next
  case (Some r)
  then have "r' = r" if "r' \<in> set rows" "pr_key r' = wa_key a" for r' using row_of_unique [OF assms that] by simp
  then show ?thesis using row_of_Some [OF Some] Some by (auto simp: differs_def)
qed

lemma shows_batch_differs: "keys_unique pr_key rows \<Longrightarrow> shows_batch as rows \<longleftrightarrow> (\<forall>a \<in> set as. \<not> differs rows a)"
  by (simp add: shows_batch_def shows_differs)

lemma upsert_row_facts:
  assumes run: "upsert_row began now a rows = (ks, rows')" and uniq: "keys_unique pr_key rows"
  shows "ks = (if differs rows a then [wa_key a] else []) \<and> keys_unique pr_key rows' \<and>
    pr_key ` set rows' = insert (wa_key a) (pr_key ` set rows) \<and>
    (\<exists>r \<in> set rows'. pr_key r = wa_key a \<and> same_kpis (pr_kpis r) (kpi_tuple a)) \<and>
    (\<forall>p. \<not> p (wa_key a) \<longrightarrow> filter (\<lambda>r. p (pr_key r)) rows' = filter (\<lambda>r. p (pr_key r)) rows) \<and>
    (\<not> differs rows a \<longrightarrow> rows' = rows)"
proof (cases "row_of rows a")
  case None
  moreover have "wa_key a \<notin> pr_key ` set rows" using None by (simp add: row_of_None)
  moreover have "differs rows a" using None by (simp add: differs_def)
  ultimately show ?thesis using run uniq by (auto simp: upsert_row_def row_of_def [symmetric])
next
  case (Some r)
  note r = row_of_Some [OF this]
  have keep: "filter (\<lambda>x. p (pr_key x)) (put_row pr_key r' rows) = filter (\<lambda>x. p (pr_key x)) rows"
    if "pr_key r' = wa_key a" "\<not> p (wa_key a)" for r' p
    unfolding put_row_def using that by (induction rows) auto
  have mem: "wa_key a \<in> pr_key ` set rows" using r by (metis imageI)
  then have keys: "pr_key ` set rows = insert (wa_key a) (pr_key ` set rows)" by (simp add: insert_absorb)
  show ?thesis
  proof (cases "same_kpis (pr_kpis r) (kpi_tuple a)")
    case True
    then have "ks = []" "rows' = rows" "\<not> differs rows a"
      using run Some by (simp_all add: upsert_row_def differs_def row_of_def)
    then show ?thesis using uniq keys True r by auto
  next
    case False
    let ?r = "r\<lparr>pr_kpis := kpi_tuple a, pr_computed_at := now\<rparr>"
    have rows': "ks = [wa_key a]" "rows' = put_row pr_key ?r rows" "differs rows a"
      using run Some False by (simp_all add: upsert_row_def differs_def row_of_def)
    have "pr_key ` set rows' = pr_key ` set rows"
      unfolding rows' by (metis list.set_map map_put_row)
    moreover have "?r \<in> set rows'" using r mem by (simp add: rows' set_put_row)
    ultimately show ?thesis using uniq keys keep [of ?r] r rows' by (auto intro!: bexI [of _ ?r])
  qed
qed

lemma find_as_filter: "find p xs = (case filter p xs of [] \<Rightarrow> None | x # _ \<Rightarrow> Some x)"
  by (induction xs) auto

lemma differs_kept:
  assumes "upsert_row began now a rows = (ks, rows')" and "keys_unique pr_key rows" and "wa_key b \<noteq> wa_key a"
  shows "differs rows' b = differs rows b"
proof -
  have "filter (\<lambda>r. pr_key r = wa_key b) rows' = filter (\<lambda>r. pr_key r = wa_key b) rows"
    using upsert_row_facts [OF assms(1,2)] assms(3) by (elim conjE allE [of _ "\<lambda>k. k = wa_key b"]) simp
  then show ?thesis by (simp add: differs_def row_of_def find_as_filter)
qed

lemma upsert_rows_facts:
  assumes "upsert_rows began now as rows = (ks, rows')" and "keys_unique pr_key rows" and "distinct (map wa_key as)"
  shows "ks = map wa_key (filter (differs rows) as) \<and> keys_unique pr_key rows' \<and>
    pr_key ` set rows' = pr_key ` set rows \<union> wa_key ` set as \<and> shows_batch as rows' \<and>
    (\<forall>p. (\<forall>a \<in> set as. \<not> p (wa_key a)) \<longrightarrow> filter (\<lambda>r. p (pr_key r)) rows' = filter (\<lambda>r. p (pr_key r)) rows) \<and>
    ((\<forall>a \<in> set as. \<not> differs rows a) \<longrightarrow> rows' = rows)"
  using assms
proof (induction as arbitrary: ks rows)
  case (Cons a as)
  obtain ks1 rows1 where a: "upsert_row began now a rows = (ks1, rows1)" by (cases "upsert_row began now a rows")
  obtain ks2 where as: "upsert_rows began now as rows1 = (ks2, rows')" "ks = ks1 @ ks2"
    using Cons.prems(1) a by (auto split: prod.splits)
  note one = upsert_row_facts [OF a Cons.prems(2)]
  have dist: "distinct (map wa_key as)" and new: "wa_key a \<notin> wa_key ` set as" using Cons.prems(3) by auto
  note rest = Cons.IH [OF as(1) conjunct1 [OF conjunct2 [OF one]] dist]
  have same: "differs rows1 b = differs rows b" if "b \<in> set as" for b
    using differs_kept [OF a Cons.prems(2)] new that by (metis image_eqI)
  then have "filter (differs rows1) as = filter (differs rows) as" by (intro filter_cong) simp_all
  moreover have keep: "filter (\<lambda>r. p (pr_key r)) rows' = filter (\<lambda>r. p (pr_key r)) rows1" if "\<forall>b \<in> set as. \<not> p (wa_key b)" for p
    using rest that by blast
  have "filter (\<lambda>r. pr_key r = wa_key a) rows' = filter (\<lambda>r. pr_key r = wa_key a) rows1"
    using new by (intro keep [of "\<lambda>k. k = wa_key a"]) (metis imageI)
  from arg_cong [where f = set, OF this]
  have mine: "r \<in> set rows' \<and> pr_key r = wa_key a" if "r \<in> set rows1" "pr_key r = wa_key a" for r
    using that by auto
  from one obtain r where "r \<in> set rows1" "pr_key r = wa_key a" "same_kpis (pr_kpis r) (kpi_tuple a)" by blast
  then have "\<exists>r \<in> set rows'. pr_key r = wa_key a \<and> same_kpis (pr_kpis r) (kpi_tuple a)" using mine by blast
  ultimately have "shows_batch (a # as) rows'" "ks = map wa_key (filter (differs rows) (a # as))"
    using rest one as(2) by (auto simp: shows_batch_def)
  moreover have "pr_key ` set rows' = pr_key ` set rows \<union> wa_key ` set (a # as)" using rest one by simp
  moreover have "filter (\<lambda>r. p (pr_key r)) rows' = filter (\<lambda>r. p (pr_key r)) rows" if "\<forall>b \<in> set (a # as). \<not> p (wa_key b)" for p
    using keep [OF _] one that by simp
  moreover have "rows' = rows" if "\<forall>b \<in> set (a # as). \<not> differs rows b" using rest one same that by simp
  ultimately show ?case using rest one by blast
qed (simp add: shows_batch_def)

text \<open>A row after the upsert is an old one or carries the figures of an aggregate of the batch.\<close>

lemma upsert_rows_origin:
  "upsert_rows began now as rows = (ks, rows') \<Longrightarrow> r \<in> set rows' \<Longrightarrow>
   r \<in> set rows \<or> (\<exists>a \<in> set as. pr_key r = wa_key a \<and> pr_kpis r = kpi_tuple a)"
proof (induction as arbitrary: ks rows)
  case (Cons a as)
  obtain ks1 rows1 where a: "upsert_row began now a rows = (ks1, rows1)" by (cases "upsert_row began now a rows")
  have "x \<in> set rows \<or> pr_key x = wa_key a \<and> pr_kpis x = kpi_tuple a" if "x \<in> set rows1" for x
    using a that by (auto simp: upsert_row_def set_put_row dest!: find_SomeD split: option.splits if_splits)
  moreover obtain ks2 where "upsert_rows began now as rows1 = (ks2, rows')" using Cons.prems(1) a by (auto split: prod.splits)
  ultimately show ?case using Cons.IH [of rows1 ks2] Cons.prems(2) by auto
qed simp

section \<open>The counts\<close>

lemma map_of_published:
  "map_of (published_keys w rows) k =
     (if key_week k = w then map_option pr_kpis (find (\<lambda>r. pr_key r = k) rows) else None)"
  by (induction rows) (auto simp: published_keys_def)

lemma published_distinct: "keys_unique pr_key rows \<Longrightarrow> distinct (map fst (published_keys w rows))"
  by (auto simp: published_keys_def keys_unique_def comp_def distinct_map_filter)

lemma published_mem: "k \<in> fst ` set (published_keys w rows) \<longleftrightarrow> key_week k = w \<and> k \<in> pr_key ` set rows"
  by (auto simp: published_keys_def image_iff)

definition absent :: "published_row list \<Rightarrow> weekly_aggregate \<Rightarrow> bool" where
  "absent rows a \<longleftrightarrow> wa_key a \<notin> pr_key ` set rows"

definition batch_counts :: "published_row list \<Rightarrow> weekly_aggregate list \<Rightarrow> int \<times> int \<times> int" where
  "batch_counts rows as = (let n = (\<lambda>p. int (length (filter p as)))
     in (n (absent rows), n (\<lambda>a. differs rows a \<and> \<not> absent rows a), n (\<lambda>a. \<not> differs rows a)))"

lemma batch_counts_sum: "batch_counts rows as = (i, u, n) \<Longrightarrow> i + u + n = int (length as)"
proof -
  have "absent rows a \<Longrightarrow> differs rows a" for a by (auto simp: absent_def differs_def row_of_None [symmetric])
  then have "length (filter (absent rows) as) + length (filter (\<lambda>a. differs rows a \<and> \<not> absent rows a) as) +
      length (filter (\<lambda>a. \<not> differs rows a) as) = length as"
    by (induction as) auto
  then show "batch_counts rows as = (i, u, n) \<Longrightarrow> i + u + n = int (length as)"
    by (auto simp: batch_counts_def Let_def simp flip: of_nat_add)
qed

lemma counts_snapshot:
  assumes "keys_unique pr_key rows" and dist: "distinct (map wa_key as)" and week: "\<forall>a \<in> set as. key_week (wa_key a) = w"
  shows "counts_from_snapshot as (published_keys w rows) (map wa_key (filter (differs rows) as)) =
    Inr (batch_counts rows as)"
proof -
  let ?new = "\<lambda>a. map_of (published_keys w rows) (wa_key a) = None"
  let ?changed = "\<lambda>a. case map_of (published_keys w rows) (wa_key a) of None \<Rightarrow> False | Some v \<Rightarrow> \<not> same_kpis v (kpi_tuple a)"
  have new: "?new a = absent rows a" and changed: "?changed a = (differs rows a \<and> \<not> absent rows a)" if "a \<in> set as" for a
    using week that by (auto simp: map_of_published differs_def absent_def row_of_def [symmetric] row_of_None [symmetric]
        split: option.splits)
  have "filter ?new as = filter (absent rows) as" "filter ?changed as = filter (\<lambda>a. differs rows a \<and> \<not> absent rows a) as"
    using new changed by (auto intro!: filter_cong)
  moreover have "sort (map wa_key (filter (differs rows) as)) =
      sort (map wa_key (filter (absent rows) as) @ map wa_key (filter (\<lambda>a. differs rows a \<and> \<not> absent rows a) as))"
  proof (rule properties_for_sort)
    have "absent rows a \<Longrightarrow> differs rows a" for a by (auto simp: absent_def differs_def row_of_None [symmetric])
    then have "mset (filter (absent rows) as) + mset (filter (\<lambda>a. differs rows a \<and> \<not> absent rows a) as) =
        mset (filter (differs rows) as)"
      by (induction as) auto
    from arg_cong [where f = "image_mset wa_key", OF this]
    show "mset (sort (map wa_key (filter (absent rows) as) @ map wa_key (filter (\<lambda>a. differs rows a \<and> \<not> absent rows a) as)))
        = mset (map wa_key (filter (differs rows) as))" by simp
  qed simp
  ultimately show ?thesis
    using dist batch_counts_sum [of rows as]
    by (auto simp: counts_from_snapshot_def Let_def batch_counts_def distinct_map_filter)
qed

section \<open>Staging\<close>

lemma length_filter_sort_key [simp]: "length (filter p (sort_key f xs)) = length (filter p xs)"
proof -
  have "mset (filter p (sort_key f xs)) = mset (filter p xs)" by simp
  then show ?thesis by (metis size_mset)
qed

lemma batch_counts_sorted [simp]: "batch_counts rows (sort_key f as) = batch_counts rows as"
  by (simp add: batch_counts_def Let_def)

lemma distinct_map_sort_key: "distinct (map f as) \<Longrightarrow> distinct (map f (sort_key g as))"
  by (metis distinct_map distinct_sort set_sort)

definition staged_rows :: "publication_env \<Rightarrow> weekly_aggregate list \<Rightarrow> published_row list \<Rightarrow> published_row list" where
  "staged_rows E as rows =
     snd (upsert_rows (pb_transaction_time E) (pb_statement_time E) (sort_key wa_key as) rows)"

definition covers_week :: "date \<Rightarrow> weekly_aggregate list \<Rightarrow> published_row list \<Rightarrow> bool" where
  "covers_week week_start as rows \<longleftrightarrow> (\<forall>r \<in> set rows. key_week (pr_key r) = week_start \<longrightarrow> pr_key r \<in> wa_key ` set as)"

text \<open>A well-formed weekly table: the key of the unique constraint, and rows that a valid batch may hold.\<close>

definition published_row_ok :: "published_row \<Rightarrow> bool" where
  "published_row_ok r \<longleftrightarrow> key_warehouse (pr_key r) \<in> set CANONICAL_WAREHOUSES \<and> \<not> blank (key_client_id (pr_key r)) \<and>
     weekday (key_week (pr_key r)) = 0 \<and> list_all (\<lambda>n. 0 \<le> n \<and> n \<le> POSTGRES_INTEGER_MAX) (fst (pr_kpis r)) \<and>
     length (fst (pr_kpis r)) = 4 \<and>
     decimal_eq (snd (pr_kpis r)) (official_discrepancy_rate (fst (pr_kpis r) ! 1) (fst (pr_kpis r) ! 3))"

definition table_ok :: "published_row list \<Rightarrow> bool" where
  "table_ok rows \<longleftrightarrow> keys_unique pr_key rows \<and> (\<forall>r \<in> set rows. published_row_ok r)"

lemma table_okD: "table_ok rows \<Longrightarrow> keys_unique pr_key rows"
  by (simp add: table_ok_def)

text \<open>The weekly table after a publication of the batch.\<close>

definition batch_published ::
  "date \<Rightarrow> weekly_aggregate list \<Rightarrow> published_row list \<Rightarrow> published_row list \<Rightarrow> bool" where
  "batch_published week_start as rows rows' \<longleftrightarrow>
     keys_unique pr_key rows' \<and> shows_batch as rows' \<and> covers_week week_start as rows' \<and>
     filter (\<lambda>r. key_week (pr_key r) \<noteq> week_start) rows' = filter (\<lambda>r. key_week (pr_key r) \<noteq> week_start) rows \<and>
     pr_key ` set rows \<subseteq> pr_key ` set rows'"

lemma staged_published:
  assumes uniq: "keys_unique pr_key rows" and dist: "distinct (map wa_key as)"
    and week: "\<forall>a \<in> set as. key_week (wa_key a) = w" and cover: "covers_week w as rows"
  shows "batch_published w as rows (staged_rows E as rows)"
proof -
  obtain ks where run: "upsert_rows (pb_transaction_time E) (pb_statement_time E) (sort_key wa_key as) rows = (ks, staged_rows E as rows)"
    by (metis staged_rows_def prod.collapse)
  note facts = upsert_rows_facts [OF run uniq distinct_map_sort_key [OF dist]]
  have keys: "pr_key ` set (staged_rows E as rows) = pr_key ` set rows \<union> wa_key ` set as" using facts by simp
  have "pr_key r \<in> wa_key ` set as" if "r \<in> set (staged_rows E as rows)" "key_week (pr_key r) = w" for r
  proof -
    have "pr_key r \<in> pr_key ` set rows \<union> wa_key ` set as" using that(1) keys by blast
    then show ?thesis using cover that(2) by (auto simp: covers_week_def)
  qed
  moreover have "filter (\<lambda>r. key_week (pr_key r) \<noteq> w) (staged_rows E as rows) = filter (\<lambda>r. key_week (pr_key r) \<noteq> w) rows"
    using facts week by (elim conjE allE [of _ "\<lambda>k. key_week k \<noteq> w"]) simp
  ultimately show ?thesis
    using facts keys by (simp add: batch_published_def covers_week_def shows_batch_def)
qed

lemma staged_table_ok:
  assumes ok: "table_ok rows" and valid: "validate_weekly_publication_batch w as now = []"
  shows "table_ok (staged_rows E as rows)"
proof -
  note batch = batch_valid [OF valid]
  obtain ks where run: "upsert_rows (pb_transaction_time E) (pb_statement_time E) (sort_key wa_key as) rows = (ks, staged_rows E as rows)"
    by (metis staged_rows_def prod.collapse)
  have "published_row_ok r" if r: "pr_key r = wa_key a" "pr_kpis r = kpi_tuple a" "a \<in> set as" for r a
    using aggregate_issues_Nil [of w a] batch r by (simp add: published_row_ok_def kpi_tuple_def wa_counts_def)
  then have "published_row_ok r" if "r \<in> set (staged_rows E as rows)" for r
    using upsert_rows_origin [OF run that] ok by (auto simp: table_ok_def)
  moreover have "distinct (map wa_key as)" using batch by blast
  from upsert_rows_facts [OF run table_okD [OF ok] distinct_map_sort_key [OF this]]
  have "keys_unique pr_key (staged_rows E as rows)" by blast
  ultimately show ?thesis by (simp add: table_ok_def)
qed

lemma staged_unchanged:
  assumes uniq: "keys_unique pr_key rows" and dist: "distinct (map wa_key as)" and shown: "shows_batch as rows"
  shows "staged_rows E as rows = rows \<and> batch_counts rows as = (0, 0, int (length as))"
proof -
  obtain ks where run: "upsert_rows (pb_transaction_time E) (pb_statement_time E) (sort_key wa_key as) rows = (ks, staged_rows E as rows)"
    by (metis staged_rows_def prod.collapse)
  have same: "\<forall>a \<in> set as. \<not> differs rows a" using shown shows_batch_differs [OF uniq] by simp
  moreover have "\<not> absent rows a" if "\<not> differs rows a" for a
    using that by (cases "row_of rows a") (auto simp: absent_def differs_def row_of_None [symmetric])
  ultimately have "batch_counts rows as = (0, 0, int (length as))"
    using same by (auto simp: batch_counts_def Let_def filter_empty_conv intro!: arg_cong [where f = length] filter_True)
  moreover have "staged_rows E as rows = rows"
    using upsert_rows_facts [OF run uniq distinct_map_sort_key [OF dist]] same by simp
  ultimately show ?thesis by simp
qed

text \<open>What may follow a refusal: the committed tables are as they were, the transaction too unless it was rolled back.\<close>

definition kept :: "publication_world \<Rightarrow> publication_world \<Rightarrow> bool" where
  "kept w w' \<longleftrightarrow> pw_store w' = pw_store w \<and> pw_weekly w' = pw_weekly w \<and> (pw_open w' = None \<or> pw_open w' = pw_open w)"

lemma kept_simps [simp]: "kept w w" "kept w (w\<lparr>pw_open := None\<rparr>)" "kept w (w'\<lparr>pw_unusable := u\<rparr>) = kept w w'"
  by (simp_all add: kept_def)

lemma rollback_kept: "rollback_quietly E w = (b, w') \<Longrightarrow> kept w w'"
  "kept w (snd (rollback_publication_transaction E w))"
  by (auto simp: rollback_quietly_def rollback_publication_transaction_def split: option.splits)

lemma close_kept: "close_failed_transaction c b w = (st, w') \<Longrightarrow> kept w w' \<and> st \<noteq> ''staged''"
  by (auto simp: close_failed_transaction_def split: if_splits)

lemma kept_trans: "kept u v \<Longrightarrow> kept v w \<Longrightarrow> kept u w"
  by (auto simp: kept_def)

lemma failed_outcome_kept: "failed_outcome E gate err c w = (out, w') \<Longrightarrow> kept w w' \<and> po_status out \<noteq> ''staged'' \<and> po_errors out = [err]"
  by (auto simp: failed_outcome_def outcome_def split: prod.splits dest!: close_kept rollback_kept(1) intro: kept_trans)

lemma unread_outcome_kept: "unread_outcome E gate issues r w = (out, w') \<Longrightarrow> kept w w' \<and> po_status out \<noteq> ''staged''"
  by (auto simp: unread_outcome_def outcome_def status_for_issues_def Let_def split: prod.splits if_splits
      dest!: close_kept rollback_kept(1) intro: kept_trans)

definition staged_as ::
  "publication_env \<Rightarrow> date \<Rightarrow> weekly_aggregate list \<Rightarrow> time \<Rightarrow> publication_world \<Rightarrow> publication_outcome \<Rightarrow> publication_world \<Rightarrow> bool" where
  "staged_as E week_start as now w out w' \<longleftrightarrow>
     validate_weekly_publication_batch week_start as now = [] \<and> covers_week week_start as (weekly_of w) \<and>
     w' = set_weekly (staged_rows E as (weekly_of w)) w \<and>
     (po_inserted out, po_updated out, po_unchanged out) = batch_counts (weekly_of w) as"

lemma valid_batch_rows:
  assumes "validate_weekly_publication_batch w as now = []"
  shows "distinct (map wa_key as)" "\<forall>a \<in> set as. key_week (wa_key a) = w"
  using batch_valid [OF assms] aggregate_issues_Nil by blast+

lemma write_batch_result:
  assumes run: "write_batch E gate as r w = (out, w')" and uniq: "keys_unique pr_key (weekly_of w)"
    and valid: "validate_weekly_publication_batch week_start as now = []"
    and r: "rc_published r = published_keys week_start (weekly_of w)"
  shows "if po_status out = ''staged'' then w' = set_weekly (staged_rows E as (weekly_of w)) w \<and>
      (po_inserted out, po_updated out, po_unchanged out) = batch_counts (weekly_of w) as
    else kept w w' \<and> (\<exists>ex. pb_fails E ''upsert'' = Some ex \<and> po_errors out = [database_issue ex ''upsert''])"
proof (cases "pb_fails E ''upsert''")
  case (Some ex)
  then show ?thesis using run failed_outcome_kept by (auto simp: write_batch_def Let_def)
next
  case None
  note batch = valid_batch_rows [OF valid]
  obtain ks rows where ups: "upsert_rows (pb_transaction_time E) (pb_statement_time E) (sort_key wa_key as) (weekly_of w) = (ks, rows)"
    by fastforce
  have "counts_from_snapshot (sort_key wa_key as) (published_keys week_start (weekly_of w)) ks = Inr (batch_counts (weekly_of w) as)"
    using counts_snapshot [OF uniq distinct_map_sort_key [OF batch(1)], where w = week_start and g1 = wa_key] batch(2)
      upsert_rows_facts [OF ups uniq distinct_map_sort_key [OF batch(1)]] by simp
  then show ?thesis
    using run None ups r by (auto simp: write_batch_def Let_def staged_rows_def outcome_def split: prod.splits)
qed

lemma stage_batch_result:
  assumes run: "stage_batch E week_start as now gate w = (out, w')" and uniq: "keys_unique pr_key (weekly_of w)"
  shows "if po_status out = ''staged'' then staged_as E week_start as now w out w' else kept w w'"
proof -
  let ?issues = "validate_weekly_publication_batch week_start as now"
  let ?r = "reconcile_disappeared_keys E week_start as w"
  consider (refused) "po_status out \<noteq> ''staged''" and "kept w w'"
    | (written) "?issues = []" and "rc_read_completed ?r" and "rc_disappeared ?r = []" and "write_batch E gate as ?r w = (out, w')"
  proof (cases "refused_batch ?issues \<or> transaction_issue E w \<noteq> None \<or> \<not> rc_read_completed ?r \<or>
      ?issues \<noteq> [] \<or> rc_disappeared ?r \<noteq> []")
    case True
    then have "po_status out \<noteq> ''staged'' \<and> kept w w'"
      using run unread_outcome_kept [of E gate ?issues ?r w out w']
      by (auto simp: stage_batch_def Let_def outcome_def status_for_issues_def split: if_splits option.splits)
    then show ?thesis using refused by blast
  next
    case False
    then show ?thesis using run written by (auto simp: stage_batch_def Let_def split: option.splits)
  qed
  then show ?thesis
  proof cases
    case written
    have sort_Nil: "sort ks = [] \<Longrightarrow> ks = []" for ks :: "aggregate_key list" by (metis set_empty set_sort)
    from written have read: "rc_published ?r = published_keys week_start (weekly_of w)"
      "filter (\<lambda>k. k \<notin> set (map wa_key (filter (\<lambda>a. key_week (wa_key a) = week_start) as)))
        (map fst (published_keys week_start (weekly_of w))) = []"
      by (auto simp: reconcile_disappeared_keys_def unread_def Let_def dest!: sort_Nil split: option.splits if_splits)
    then have "covers_week week_start as (weekly_of w)"
      by (auto simp: covers_week_def published_keys_def filter_empty_conv)
    then show ?thesis
      using write_batch_result [OF written(4) uniq written(1) read(1)] written(1) by (auto simp: staged_as_def)
  qed simp
qed

end
