(* ===== verification/PublicationOutcomes.thy ===== *)
theory PublicationOutcomes
  imports Coordinator PublicationFacts RunOutcomes
begin

text \<open>
  What the protected sequence leaves behind: the committed weekly table and week controls are either as
  they were or those of the whole publication, and the run history agrees with the answer.
\<close>

section \<open>Frames\<close>

definition untouched :: "publication_world \<Rightarrow> publication_world \<Rightarrow> bool" where
  "untouched w w' \<longleftrightarrow> pw_weekly w' = pw_weekly w \<and> rd_controls (pw_store w') = rd_controls (pw_store w)"

text \<open>The run store as the business connection sees it.\<close>

definition business_view :: "publication_world \<Rightarrow> run_db" where
  "business_view w = (case pw_open w of None \<Rightarrow> pw_store w | Some b \<Rightarrow> (pw_store w)\<lparr>rd_controls := bt_controls b\<rparr>)"

text \<open>A step that leaves the committed tables and what the business transaction has made of them.\<close>

definition aside :: "publication_world \<Rightarrow> publication_world \<Rightarrow> bool" where
  "aside w w' \<longleftrightarrow> untouched w w' \<and> weekly_of w' = weekly_of w \<and>
     rd_controls (business_view w') = rd_controls (business_view w) \<and> (pw_open w \<noteq> None \<longrightarrow> pw_open w' \<noteq> None)"

lemma untouched_refl [simp]: "untouched w w"
  by (simp add: untouched_def)

lemma untouched_trans: "untouched u v \<Longrightarrow> untouched v w \<Longrightarrow> untouched u w"
  by (simp add: untouched_def)

lemma kept_untouched: "kept w w' \<Longrightarrow> untouched w w'"
  by (simp add: kept_def untouched_def)

lemma aside_trans: "aside u v \<Longrightarrow> aside v w \<Longrightarrow> aside u w"
  by (auto simp: aside_def untouched_def)

lemma on_business_view:
  assumes "on_business m w = (r, w')"
  shows "m (business_view w) = (r, business_view w') \<and> untouched w w' \<and> weekly_of w' = weekly_of w \<and> pw_open w' \<noteq> None"
  using assms
  by (auto simp: on_business_def business_view_def untouched_def weekly_of_def split: option.splits prod.splits)

lemma set_weekly_view [simp]:
  "rd_controls (business_view (set_weekly rows w)) = rd_controls (business_view w)"
  "rd_runs (business_view (set_weekly rows w)) = rd_runs (business_view w)"
  "weekly_of (set_weekly rows w) = rows" "pw_weekly (set_weekly rows w) = pw_weekly w" "pw_store (set_weekly rows w) = pw_store w"
  "pw_open (set_weekly rows w) \<noteq> None"
  by (simp_all add: set_weekly_def business_view_def weekly_of_def split: option.splits)

lemma history_aside:
  assumes "history E stage m w = (r, w')" and "\<And>s x t. m s = (x, t) \<Longrightarrow> rd_controls t = rd_controls s"
  shows "aside w w'"
  using assms(1) assms(2) [of "pw_store w"]
  by (auto simp: history_def aside_def untouched_def weekly_of_def business_view_def
      split: prod.splits sum.splits commit_outcome.splits option.splits)

lemma finish_run_aside: "finish_run E i now f w = (r, w') \<Longrightarrow> aside w w'"
  unfolding finish_run_def by (erule history_aside) (rule update_run_controls)

lemma mark_running_aside: "mark_running E i w = (r, w') \<Longrightarrow> aside w w'"
  unfolding mark_running_def by (erule history_aside) (rule update_run_controls)

lemma observe_aside: "observe_uncertain E i cr w = (r, w') \<Longrightarrow> aside w w'"
  unfolding observe_uncertain_def by (erule history_aside) (rule observation_controls)

section \<open>The invariant\<close>

definition publication_ok :: "publication_world \<Rightarrow> bool" where
  "publication_ok w \<longleftrightarrow> store_ok (pw_store w) \<and> store_ok (business_view w) \<and> table_ok (pw_weekly w) \<and> table_ok (weekly_of w)"

lemma store_ok_controls:
  "store_ok s \<Longrightarrow> store_ok t \<Longrightarrow> run_weeks s \<subseteq> run_weeks t \<Longrightarrow> store_ok (t\<lparr>rd_controls := rd_controls s\<rparr>)"
  by (auto simp: store_ok_def intro: control_row_ok_mono)

lemma store_ok_runs: "store_ok s \<Longrightarrow> rd_runs t = rd_runs s \<Longrightarrow> rd_controls t = rd_controls s \<Longrightarrow> store_ok t"
  by (simp add: store_ok_def run_weeks_def)

lemma business_view_runs [simp]: "rd_runs (business_view w) = rd_runs (pw_store w)"
  by (simp add: business_view_def split: option.splits)

lemma business_view_closed: "pw_open w = None \<Longrightarrow> business_view w = pw_store w \<and> weekly_of w = pw_weekly w"
  by (simp add: business_view_def weekly_of_def)

lemma kept_ok: "kept w w' \<Longrightarrow> publication_ok w \<Longrightarrow> publication_ok w'"
  by (auto simp: kept_def publication_ok_def business_view_def weekly_of_def split: option.splits)

lemma history_ok:
  assumes run: "history E stage m w = (r, w')" and m: "\<And>s. store_ok s \<Longrightarrow> refines (change clk) m s"
    and keep: "\<And>s x t. m s = (x, t) \<Longrightarrow> rd_controls t = rd_controls s" and ok: "publication_ok w"
  shows "publication_ok w'"
proof -
  obtain x t where x: "m (pw_store w) = (x, t)" by (cases "m (pw_store w)")
  have store: "store_ok (pw_store w)" using ok by (simp add: publication_ok_def)
  note path = withinD [OF m [OF store] x]
  have t: "store_ok t" "run_weeks (pw_store w) \<subseteq> run_weeks t"
    using changes_store_ok [OF path store] changes_grow [OF path store] by simp_all
  have st: "pw_store w' = t \<or> pw_store w' = (pw_store w)\<lparr>rd_ticks := rd_ticks t\<rparr>"
    using run x by (auto simp: history_def split: sum.splits commit_outcome.splits)
  then have weeks: "run_weeks (pw_store w) \<subseteq> run_weeks (pw_store w')" "store_ok (pw_store w')"
    using t store by (auto simp: store_ok_def)
  have aside: "aside w w'" using run keep by (rule history_aside)
  have "run_weeks (business_view w) \<subseteq> run_weeks (pw_store w')" using weeks by (simp add: run_weeks_def)
  from store_ok_controls [OF _ weeks(2) this] ok
  have "store_ok ((pw_store w')\<lparr>rd_controls := rd_controls (business_view w)\<rparr>)" by (simp add: publication_ok_def)
  then have "store_ok (business_view w')"
    by (rule store_ok_runs) (use aside in \<open>simp_all add: aside_def\<close>)
  then show ?thesis using ok aside weeks(2) by (simp add: publication_ok_def aside_def untouched_def)
qed

lemma finish_run_ok: "finish_run E i now f w = (r, w') \<Longrightarrow> publication_ok w \<Longrightarrow> publication_ok w'"
  unfolding finish_run_def by (erule history_ok [where clk = "\<lambda>_. 0"]) (auto intro: update_run_within update_run_controls)

lemma mark_running_ok: "mark_running E i w = (r, w') \<Longrightarrow> publication_ok w \<Longrightarrow> publication_ok w'"
  unfolding mark_running_def by (erule history_ok [where clk = "\<lambda>_. 0"]) (auto intro: update_run_within update_run_controls)

lemma observe_ok: "observe_uncertain E i cr w = (r, w') \<Longrightarrow> publication_ok w \<Longrightarrow> publication_ok w'"
  unfolding observe_uncertain_def by (erule history_ok [where clk = "\<lambda>_. 0"]) (auto intro: observation_within observation_controls)

lemma on_business_ok:
  assumes run: "on_business m w = (r, w')" and m: "\<And>s. store_ok s \<Longrightarrow> refines (change clk) m s"
    and keep: "rd_runs (business_view w') = rd_runs (business_view w)" and ok: "publication_ok w"
  shows "publication_ok w'"
proof -
  note view = on_business_view [OF run]
  have "store_ok (business_view w)" using ok by (simp add: publication_ok_def)
  then have "store_ok (business_view w')" using withinD [OF m] view changes_store_ok by blast
  moreover have "store_ok (pw_store w')"
    using ok keep view by (auto simp: publication_ok_def untouched_def intro: store_ok_runs [of "pw_store w"])
  ultimately show ?thesis using ok view by (simp add: publication_ok_def untouched_def)
qed

lemma rollback_ok: "publication_ok w \<Longrightarrow> publication_ok (snd (rollback_publication_transaction E w))"
  by (rule kept_ok [OF rollback_kept(2)])

lemma rollback_untouched: "untouched w (snd (rollback_publication_transaction E w))"
  by (rule kept_untouched [OF rollback_kept(2)])

section \<open>The history of the run\<close>

text \<open>
  The stored run agrees with the answer, when there is one: the run is terminal with the status and the
  counts of the answer, or it is running and the commit had reported a failure.
\<close>

definition agrees :: "publication_env \<Rightarrow> uuid \<Rightarrow> coordinator_error + coordinator_result \<Rightarrow> publication_world \<Rightarrow> bool" where
  "agrees E i res w \<longleftrightarrow> (case res of
     Inl _ \<Rightarrow> True
   | Inr r \<Rightarrow> \<exists>row. find_run (pw_store w) i = Some row \<and>
       (if cr_status r = ''commit_uncertain''
        then rr_status row = ''running'' \<and> rr_commit_result row = cr_commit_result r \<and>
          cr_commit_result r \<noteq> ''technically_observed'' \<and> pb_commit_fails E \<noteq> None
        else cr_status r \<in> set TERMINAL_STATUSES \<and> rr_status row = cr_status r \<and> rr_rows_inserted row = Some (cr_inserted r) \<and>
          rr_rows_updated row = Some (cr_updated r) \<and> rr_rows_unchanged row = Some (cr_unchanged r)))"

lemma stored_row: "store_ok s \<Longrightarrow> r \<in> set (rd_runs s) \<Longrightarrow> find_run s (rr_run_id r) = Some r"
  using keys_unique_find [of rr_run_id "rd_runs s" r] by (simp add: find_run_def store_ok_def)

lemma history_Inr:
  "history E stage m w = (Inr u, w') \<Longrightarrow> \<exists>a. m (pw_store w) = (Inr a, pw_store w')"
  by (auto simp: history_def split: prod.splits sum.splits commit_outcome.splits)

lemma update_run_stored:
  assumes ok: "store_ok s" and run: "update_run C i expected status ch s = (Inr r, t)"
  shows "find_run t i = Some r \<and> rr_status r = status \<and> rr_rows_inserted r = ch_rows_inserted ch \<and>
    rr_rows_updated r = ch_rows_updated ch \<and> rr_rows_unchanged r = ch_rows_unchanged ch"
proof -
  have t: "store_ok t" for clk :: "nat \<Rightarrow> time"
    using refinesD [OF update_run_within [OF ok, of clk] run] changes_store_ok ok by blast
  from run obtain cur p where p: "update_parameters cur status ch = Inr p"
    and rows: "update_run_rows C ''update_run'' (\<lambda>r. rr_run_id r = i \<and> rr_status r = expected)
       (set_run_columns p) ''run status changed before the update'' s = (Inr r, t)"
    by (auto simp: update_run_def bind_cmd_eq_Inr require_run_Inr)
  obtain x where x: "x \<in> set (rd_runs s)" "rr_run_id x = i" "r = set_run_columns p x"
    "t = s\<lparr>rd_runs := sql_update (\<lambda>r. rr_run_id r = i \<and> rr_status r = expected) (set_run_columns p) (rd_runs s)\<rparr>"
    "rr_status x = expected"
    using update_run_rows_Inr [OF rows] by auto
  then have "r \<in> set (rd_runs t)" by (auto simp: sql_update_def)
  then show ?thesis
    using stored_row [OF t, of r] x update_parameters_Inr [OF p] by (simp add: set_run_columns_def)
qed

lemma observation_stored:
  assumes ok: "store_ok s" and run: "record_commit_observation C i cr stage code msg s = (Inr r, t)"
  shows "find_run t i = Some r \<and> rr_status r = ''running'' \<and> rr_commit_result r = cr"
proof -
  have t: "store_ok t" for clk :: "nat \<Rightarrow> time"
    using refinesD [OF observation_within [OF ok, of clk] run] changes_store_ok ok by blast
  from run have "r \<in> set (rd_runs t)" "rr_run_id r = i" "rr_status r = ''running'' \<and> rr_commit_result r = cr"
    by (auto simp: record_commit_observation_def bind_cmd_eq_Inr require_run_Inr sql_update_def dest!: update_run_rows_Inr)
  then show ?thesis using stored_row [OF t, of r] by simp
qed

lemma finish_run_agrees:
  assumes run: "finish_run E i now f w = (Inr u, w')" and ok: "publication_ok w"
    and r: "cr_status r = fi_status f" "cr_status r \<in> set TERMINAL_STATUSES" "cr_inserted r = fi_inserted f"
      "cr_updated r = fi_updated f" "cr_unchanged r = fi_unchanged f"
  shows "agrees E i (Inr r) w'"
proof -
  obtain x where "update_run (pb_operational E) i (fi_expected f) (fi_status f) (finish_changes f now) (pw_store w) =
      (Inr x, pw_store w')"
    using history_Inr [OF run [unfolded finish_run_def]] by blast
  moreover have "cr_status r \<noteq> ''commit_uncertain''" using r(2) by (auto simp: terminal_statuses)
  ultimately show ?thesis using update_run_stored ok r
    by (fastforce simp: agrees_def publication_ok_def finish_changes_def)
qed

lemma observe_agrees:
  assumes run: "observe_uncertain E i cr w = (Inr u, w')" and ok: "publication_ok w"
    and r: "cr_status r = ''commit_uncertain''" "cr_commit_result r = cr" "cr \<noteq> ''technically_observed''"
      "pb_commit_fails E \<noteq> None"
  shows "agrees E i (Inr r) w'"
proof -
  obtain x where "record_commit_observation (pb_operational E) i cr ''commit'' ''commit_uncertain''
       ''business commit was not confirmed; writes were not retried'' (pw_store w) = (Inr x, pw_store w')"
    using history_Inr [OF run [unfolded observe_uncertain_def]] by blast
  from observation_stored [OF _ this] ok r show ?thesis by (simp add: agrees_def publication_ok_def)
qed

section \<open>Ends\<close>

text \<open>An end without a publication.\<close>

definition nothing_published ::
  "publication_world \<Rightarrow> coordinator_error + coordinator_result \<Rightarrow> publication_world \<Rightarrow> bool" where
  "nothing_published w res w' \<longleftrightarrow> untouched w w' \<and>
     (\<forall>r. res = Inr r \<longrightarrow> \<not> cr_publication_recorded r \<and> cr_status r \<notin> {''succeeded'', ''succeeded_noop''})"

lemma nothing_after: "untouched u w \<Longrightarrow> nothing_published w res w' \<Longrightarrow> nothing_published u res w'"
  by (auto simp: nothing_published_def intro: untouched_trans)

text \<open>The recorded end and the answer of a run that publishes nothing.\<close>

definition quiet_end :: "finish \<Rightarrow> coordinator_result \<Rightarrow> bool" where
  "quiet_end f r \<longleftrightarrow> cr_status r = fi_status f \<and>
     fi_status f \<in> {''failed_retryable'', ''blocked_quality'', ''superseded'', ''skipped_in_progress''} \<and> cr_inserted r = fi_inserted f \<and>
     cr_updated r = fi_updated f \<and> cr_unchanged r = fi_unchanged f \<and> \<not> cr_publication_recorded r"

lemmas quiet_end_simps = quiet_end_def the_result_def finishing_def with_source_def lease_rejection_status_def

lemma end_run_result:
  assumes run: "end_run E rel i now f r w = (res, w')" and r: "quiet_end f r" and ok: "publication_ok w"
  shows "nothing_published w res w' \<and> publication_ok w' \<and> agrees E i res w'"
proof -
  let ?w = "if rel then snd (rollback_publication_transaction E w) else w"
  have start: "untouched w ?w" "publication_ok ?w" using ok rollback_ok rollback_untouched by auto
  obtain x v where fin: "finish_run E i now f ?w = (x, v)" by (cases "finish_run E i now f ?w")
  have v: "untouched w v" "publication_ok v"
    using finish_run_aside [OF fin] finish_run_ok [OF fin start(2)] start(1) by (auto simp: aside_def intro: untouched_trans)
  show ?thesis
  proof (cases x)
    case (Inl e)
    then have "res = Inl e" "w' = v" using run fin by (simp_all add: end_run_def bind_cmd_def)
    then show ?thesis using v by (simp add: nothing_published_def agrees_def)
  next
    case (Inr u)
    then have "res = Inr r" "w' = v" using run fin by (simp_all add: end_run_def bind_cmd_def)
    then show ?thesis
      using v r finish_run_agrees [OF fin [unfolded Inr] start(2), of r]
      by (auto simp: nothing_published_def quiet_end_def terminal_statuses)
  qed
qed

text \<open>An end with the committed tables \<open>rows\<close> and \<open>controls\<close>, and the counts of the batch.\<close>

definition published ::
  "published_row list \<Rightarrow> week_control list \<Rightarrow> int \<times> int \<times> int \<Rightarrow> coordinator_error + coordinator_result \<Rightarrow>
   publication_world \<Rightarrow> bool" where
  "published rows controls n res w' \<longleftrightarrow> pw_weekly w' = rows \<and> rd_controls (pw_store w') = controls \<and>
     (\<forall>r. res = Inr r \<longrightarrow> (cr_inserted r, cr_updated r, cr_unchanged r) = n \<and>
       (cr_status r = ''commit_uncertain'' \<or> business_publication_valid r \<and>
         cr_status r = (if fst n = 0 \<and> fst (snd n) = 0 then ''succeeded_noop'' else ''succeeded'')))"

lemma published_aside: "published rows cs n res v \<Longrightarrow> untouched v w' \<Longrightarrow> published rows cs n res w'"
  by (simp add: published_def untouched_def)

lemma commit_business_result:
  assumes run: "commit_business E w = (cr, v)" and ok: "publication_ok w"
  shows "publication_ok v \<and> pw_open v = None \<and> cr \<in> {''technically_observed'', ''uncertain'', ''rolled_back''} \<and>
    (cr \<noteq> ''technically_observed'' \<and> untouched w v \<or>
     pw_weekly v = weekly_of w \<and> rd_controls (pw_store v) = rd_controls (business_view w))"
proof -
  obtain p where p_def: "p = (case pw_open w of
       None \<Rightarrow> w
     | Some b \<Rightarrow> w\<lparr>pw_store := (pw_store w)\<lparr>rd_controls := bt_controls b\<rparr>, pw_weekly := bt_weekly b, pw_open := None\<rparr>)"
    by simp
  have p: "pw_weekly p = weekly_of w" "pw_store p = business_view w" "pw_open p = None"
    unfolding p_def by (simp_all add: weekly_of_def business_view_def split: option.splits)
  then have "publication_ok p" using ok by (simp add: publication_ok_def business_view_closed)
  moreover have "publication_ok (w\<lparr>pw_open := None\<rparr>)"
    using ok by (simp add: publication_ok_def business_view_def weekly_of_def)
  moreover have "(cr, v) = (case pb_commit_fails E of
           None \<Rightarrow> (''technically_observed'', p)
         | Some (ex, took_effect) \<Rightarrow>
             (if commit_failure_is_uncertain ex then ''uncertain'' else ''rolled_back'',
              if took_effect then p else w\<lparr>pw_open := None\<rparr>))"
    using run unfolding commit_business_def p_def Let_def by simp
  ultimately show ?thesis
    using p by (auto simp: untouched_def split: option.splits if_splits)
qed

lemma commit_phase_result:
  assumes run: "commit_phase E Q staged w = (res, w')" and ok: "publication_ok w"
  shows "publication_ok w' \<and> agrees E (pq_run_id Q) res w' \<and>
    (nothing_published w res w' \<or>
     published (weekly_of w) (rd_controls (business_view w)) (po_inserted staged, po_updated staged, po_unchanged staged) res w')"
proof -
  obtain cr v where com: "commit_business E w = (cr, v)" by (cases "commit_business E w")
  note v = commit_business_result [OF com ok]
  show ?thesis
  proof (cases "cr = ''technically_observed''")
    case False
    let ?r = "with_source Q (with_counts staged
        (the_result (pq_week_start Q) (Some (pq_run_id Q)) ''commit_uncertain'' [''commit_uncertain''] cr))"
    obtain x u where obs: "observe_uncertain E (pq_run_id Q) cr v = (x, u)" by (cases "observe_uncertain E (pq_run_id Q) cr v")
    have failed: "pb_commit_fails E \<noteq> None"
      using com False by (auto simp: commit_business_def Let_def split: option.splits)
    have res: "res = (case x of Inl e \<Rightarrow> Inl e | Inr _ \<Rightarrow> Inr ?r)" "w' = u"
      using run False com obs by (auto simp: commit_phase_def bind_cmd_def split: sum.splits)
    have u: "untouched v u" "publication_ok u"
      using observe_aside [OF obs] observe_ok [OF obs] v by (simp_all add: aside_def)
    have r: "cr_status ?r = ''commit_uncertain''" "cr_commit_result ?r = cr" "\<not> cr_publication_recorded ?r"
      "(cr_inserted ?r, cr_updated ?r, cr_unchanged ?r) = (po_inserted staged, po_updated staged, po_unchanged staged)"
      by (simp_all add: with_source_def with_counts_def the_result_def)
    have "agrees E (pq_run_id Q) res w'"
    proof (cases x)
      case (Inr y)
      then show ?thesis
        using observe_agrees [OF obs [unfolded Inr] conjunct1 [OF v] r(1,2) False failed] res by simp
    qed (simp add: res agrees_def)
    moreover from v False consider "untouched w v"
      | "pw_weekly v = weekly_of w" "rd_controls (pw_store v) = rd_controls (business_view w)" by blast
    then have "nothing_published w res w' \<or>
        published (weekly_of w) (rd_controls (business_view w)) (po_inserted staged, po_updated staged, po_unchanged staged) res w'"
    proof cases
      case 1
      then have "nothing_published w res w'"
        using u r res by (auto simp: nothing_published_def intro: untouched_trans split: sum.splits)
      then show ?thesis ..
    next
      case 2
      then show ?thesis
        using u r res by (auto simp: published_def untouched_def split: sum.splits)
    qed
    ultimately show ?thesis using u res by simp
  next
    case True
    let ?final = "if po_inserted staged = 0 \<and> po_updated staged = 0 then ''succeeded_noop'' else ''succeeded''"
    let ?f = "(finishing ''running'' ?final ''committed'' [] ''technically_observed'')\<lparr>fi_inserted := po_inserted staged,
        fi_updated := po_updated staged, fi_unchanged := po_unchanged staged,
        fi_aggregates := Some (int (length (pq_aggregates Q))), fi_records_processed := pq_records_processed Q\<rparr>"
    let ?r = "(with_source Q (with_counts staged
        (the_result (pq_week_start Q) (Some (pq_run_id Q)) ?final [] ''technically_observed'')))\<lparr>cr_publication_recorded := True\<rparr>"
    obtain x u where fin: "finish_run E (pq_run_id Q) (pq_now Q) ?f v = (x, u)"
      by (cases "finish_run E (pq_run_id Q) (pq_now Q) ?f v")
    have res: "res = (case x of Inl e \<Rightarrow> Inl e | Inr _ \<Rightarrow> Inr ?r)" "w' = u"
      using run True com fin by (auto simp: commit_phase_def bind_cmd_def Let_def split: sum.splits)
    have u: "untouched v u" "publication_ok u"
      using finish_run_aside [OF fin] finish_run_ok [OF fin] v by (simp_all add: aside_def)
    have r: "cr_status ?r = ?final" "business_publication_valid ?r"
      "(cr_inserted ?r, cr_updated ?r, cr_unchanged ?r) = (po_inserted staged, po_updated staged, po_unchanged staged)"
      by (simp_all add: with_source_def with_counts_def the_result_def business_publication_valid_def)
    have "agrees E (pq_run_id Q) res w'"
    proof (cases x)
      case (Inr y)
      have "agrees E (pq_run_id Q) (Inr ?r) u"
        by (rule finish_run_agrees [OF fin [unfolded Inr] conjunct1 [OF v]])
          (simp_all add: finishing_def with_source_def with_counts_def the_result_def terminal_statuses)
      then show ?thesis using Inr res by simp
    qed (simp add: res agrees_def)
    moreover have "published (weekly_of w) (rd_controls (business_view w)) (po_inserted staged, po_updated staged, po_unchanged staged) res w'"
      using v True u r res by (auto simp: published_def untouched_def split: sum.splits)
    ultimately show ?thesis using u res by simp
  qed
qed

section \<open>The phases\<close>

lemma on_business_record:
  assumes run: "on_business (map_error Store (record_valid_publication C week i now n fp rules)) w = (x, v)"
    and ok: "publication_ok w"
  shows "publication_ok v \<and> untouched w v \<and> weekly_of v = weekly_of w \<and>
    (\<forall>a c. x = Inr a \<longrightarrow> find_control (business_view w) week = Some c \<longrightarrow>
      rd_controls (business_view v) = put_row wc_week_start (publish_row i now (Some n) fp rules c) (rd_controls (business_view w)))"
proof -
  note view = on_business_view [OF run]
  have state: "\<exists>y. record_valid_publication C week i now n fp rules (business_view w) = (y, business_view v) \<and>
      (\<forall>a. x = Inr a \<longrightarrow> y = Inr a)"
    using view by (auto simp: map_error_def split: prod.splits sum.splits)
  then have "rd_runs (business_view v) = rd_runs (business_view w)" using record_valid_publication_runs by blast
  then have "publication_ok v"
    using on_business_ok [OF run, of "\<lambda>_. 0"] ok refines_map_error [OF record_valid_publication_within] by blast
  moreover have "store_ok (business_view w)" using ok by (simp add: publication_ok_def)
  ultimately show ?thesis using view state record_valid_publication_row by blast
qed

lemma on_business_release:
  assumes run: "on_business (release_week_lease C week i k) w = (x, v)" and ok: "publication_ok w"
  shows "publication_ok v \<and> untouched w v \<and> weekly_of v = weekly_of w \<and>
    (\<forall>d c. x = Inr d \<longrightarrow> ld_status d = Released \<longrightarrow> find_control (business_view w) week = Some c \<longrightarrow> held week i k c \<and>
      rd_controls (business_view v) = put_row wc_week_start (release_row c) (rd_controls (business_view w)))"
proof -
  note view = on_business_view [OF run]
  then have "rd_runs (business_view v) = rd_runs (business_view w)" using release_week_lease_runs by blast
  then have "publication_ok v" using on_business_ok [OF run, of "\<lambda>_. 0"] ok release_within by blast
  moreover have "store_ok (business_view w)" using ok by (simp add: publication_ok_def)
  ultimately show ?thesis using view release_week_lease_row by blast
qed

lemma record_and_release_result:
  assumes run: "record_and_release E week i k now n fp rules w = (x, v)" and ok: "publication_ok w"
    and c: "find_control (business_view w) week = Some c"
  shows "publication_ok v \<and> untouched w v \<and> weekly_of v = weekly_of w \<and>
    (\<forall>d. x = Inr d \<longrightarrow> ld_status d = Released \<longrightarrow> held week i k c \<and>
      rd_controls (business_view v) =
        put_row wc_week_start (release_row (publish_row i now (Some n) fp rules c)) (rd_controls (business_view w)))"
proof -
  obtain y u where rec: "on_business (map_error Store (record_valid_publication (pb_business E) week i now n fp rules)) w = (y, u)"
    by fastforce
  note u = on_business_record [OF rec ok]
  show ?thesis
  proof (cases y)
    case (Inl e)
    then show ?thesis using run rec u by (auto simp: record_and_release_def bind_cmd_def)
  next
    case (Inr a)
    then have rel: "on_business (release_week_lease (pb_business E) week i k) u = (x, v)"
      using run rec by (simp add: record_and_release_def bind_cmd_def)
    note v = on_business_release [OF rel conjunct1 [OF u]]
    let ?c = "publish_row i now (Some n) fp rules c"
    have controls: "rd_controls (business_view u) = put_row wc_week_start ?c (rd_controls (business_view w))"
      using u Inr c by blast
    moreover have "wc_week_start ?c = week" "week \<in> wc_week_start ` set (rd_controls (business_view w))"
      using find_control_Some [OF c] by auto
    ultimately have found: "find_control (business_view u) week = Some ?c" by (simp add: find_control_def find_put_row)
    have "held week i k ?c = held week i k c" by (simp add: held_def publish_row_def)
    moreover have "put_row wc_week_start (release_row ?c) (rd_controls (business_view u)) =
        put_row wc_week_start (release_row ?c) (rd_controls (business_view w))"
      unfolding controls by (rule put_row_again) simp
    ultimately show ?thesis using u v found by (auto intro: untouched_trans)
  qed
qed

text \<open>The control row of the week after a publication.\<close>

definition control_after :: "publication_request \<Rightarrow> int \<Rightarrow> week_control \<Rightarrow> week_control" where
  "control_after Q n c = release_row
     (publish_row (pq_run_id Q) (pq_now Q) (Some n) (pq_dependency_fingerprint Q) (pq_rules_version Q) c)"

lemma record_phase_result:
  assumes run: "record_phase E Q k staged w = (res, w')" and ok: "publication_ok w"
    and c: "find_control (business_view w) (pq_week_start Q) = Some c"
  shows "publication_ok w' \<and> agrees E (pq_run_id Q) res w' \<and>
    (nothing_published w res w' \<or> held (pq_week_start Q) (pq_run_id Q) k c \<and>
     published (weekly_of w) (put_row wc_week_start
         (control_after Q (po_inserted staged + po_updated staged + po_unchanged staged) c) (rd_controls (business_view w)))
       (po_inserted staged, po_updated staged, po_unchanged staged) res w')"
proof -
  obtain x v where rr: "record_and_release E (pq_week_start Q) (pq_run_id Q) k (pq_now Q)
      (po_inserted staged + po_updated staged + po_unchanged staged) (pq_dependency_fingerprint Q) (pq_rules_version Q) w = (x, v)"
    by fastforce
  note v = record_and_release_result [OF rr ok c]
  have ended: ?thesis if "\<exists>f r. end_run E True (pq_run_id Q) (pq_now Q) f r v = (res, w') \<and> quiet_end f r"
    using that end_run_result [OF _ _ conjunct1 [OF v]] v nothing_after by blast
  show ?thesis
  proof (cases x)
    case (Inl e)
    then show ?thesis using run rr
      by (intro ended) (simp add: record_phase_def, intro exI conjI, assumption, simp add: quiet_end_simps)
  next
    case (Inr d)
    show ?thesis
    proof (cases "ld_status d = Released")
      case False
      then show ?thesis using run rr Inr
        by (intro ended) (simp add: record_phase_def, intro exI conjI, assumption, simp add: quiet_end_simps)
    next
      case True
      then have "commit_phase E Q staged v = (res, w')" using run rr Inr by (simp add: record_phase_def)
      from commit_phase_result [OF this conjunct1 [OF v]]
      show ?thesis using v Inr True nothing_after unfolding control_after_def by auto
    qed
  qed
qed

lemma write_phase_result:
  assumes run: "write_phase E Q k w = (res, w')" and ok: "publication_ok w"
    and c: "find_control (business_view w) (pq_week_start Q) = Some c"
  shows "publication_ok w' \<and> agrees E (pq_run_id Q) res w' \<and>
    (nothing_published w res w' \<or> held (pq_week_start Q) (pq_run_id Q) k c \<and>
     validate_weekly_publication_batch (pq_week_start Q) (pq_aggregates Q) (pq_now Q) = [] \<and>
     covers_week (pq_week_start Q) (pq_aggregates Q) (weekly_of w) \<and>
     published (staged_rows E (pq_aggregates Q) (weekly_of w))
       (put_row wc_week_start (control_after Q (int (length (pq_aggregates Q))) c) (rd_controls (business_view w)))
       (batch_counts (weekly_of w) (pq_aggregates Q)) res w')"
proof -
  obtain x v where mark: "mark_running E (pq_run_id Q) w = (x, v)" by fastforce
  have v: "aside w v" "publication_ok v" using mark_running_aside [OF mark] mark_running_ok [OF mark ok] .
  show ?thesis
  proof (cases x)
    case (Inl e)
    have "res = Inl e" "w' = v \<or> w' = snd (rollback_publication_transaction E v)"
      using run mark Inl by (cases e; simp add: write_phase_def; blast)+
    moreover have "untouched w v" using v(1) by (simp add: aside_def)
    ultimately show ?thesis
      using v(2) rollback_ok [OF v(2), of E] untouched_trans [OF _ rollback_untouched, of w v E]
      by (auto simp: agrees_def nothing_published_def)
  next
    case (Inr u)
    obtain staged t where stage: "stage_batch E (pq_week_start Q) (pq_aggregates Q) (pq_now Q) ''coordinator_checked'' v = (staged, t)"
      by fastforce
    have rows: "weekly_of v = weekly_of w" "rd_controls (business_view v) = rd_controls (business_view w)" "untouched w v"
      using v(1) by (simp_all add: aside_def)
    have "keys_unique pr_key (weekly_of v)" using v(2) by (simp add: publication_ok_def table_ok_def)
    note t = stage_batch_result [OF stage this]
    show ?thesis
    proof (cases "po_status staged = ''staged''")
      case False
      then have t': "kept v t" using t by simp
      have "publication_ok t" using kept_ok [OF t' v(2)] .
      moreover have "abort_staged E (pq_week_start Q) (pq_run_id Q) staged (pq_now Q) t = (res, w')"
        using run mark Inr stage False by (simp add: write_phase_def)
      then have "\<exists>f r rel. end_run E rel (pq_run_id Q) (pq_now Q) f r t = (res, w') \<and> quiet_end f r"
        unfolding abort_staged_def Let_def by (intro exI conjI, assumption) (simp add: quiet_end_simps)
      ultimately show ?thesis
        using end_run_result nothing_after [OF untouched_trans [OF rows(3) kept_untouched [OF t']]] by blast
    next
      case True
      note s = t [unfolded True, simplified, unfolded staged_as_def rows(1)]
      have batch: "t = set_weekly (staged_rows E (pq_aggregates Q) (weekly_of w)) v"
        "batch_counts (weekly_of w) (pq_aggregates Q) = (po_inserted staged, po_updated staged, po_unchanged staged)"
        using s by simp_all
      have "table_ok (staged_rows E (pq_aggregates Q) (weekly_of w))"
        using staged_table_ok s ok by (auto simp: publication_ok_def)
      moreover have "store_ok (business_view t)"
        using v(2) unfolding batch(1) by (auto simp: publication_ok_def intro: store_ok_runs [of "business_view v"])
      ultimately have t_ok: "publication_ok t" using v(2) by (simp add: batch(1) publication_ok_def)
      have "record_phase E Q k staged t = (res, w')" using run mark Inr stage True by (simp add: write_phase_def)
      moreover have "find_control (business_view t) (pq_week_start Q) = Some c"
        using c rows(2) by (simp add: batch(1) find_control_def)
      ultimately have rec: "publication_ok w' \<and> agrees E (pq_run_id Q) res w' \<and>
        (nothing_published t res w' \<or> held (pq_week_start Q) (pq_run_id Q) k c \<and>
         published (weekly_of t) (put_row wc_week_start
             (control_after Q (po_inserted staged + po_updated staged + po_unchanged staged) c) (rd_controls (business_view t)))
           (po_inserted staged, po_updated staged, po_unchanged staged) res w')"
        using record_phase_result [OF _ t_ok] by blast
      have "untouched w t" using rows(3) by (simp add: batch(1) untouched_def)
      moreover have "po_inserted staged + po_updated staged + po_unchanged staged = int (length (pq_aggregates Q))"
        using batch_counts_sum [OF batch(2)] .
      moreover have "weekly_of t = staged_rows E (pq_aggregates Q) (weekly_of w)"
        "rd_controls (business_view t) = rd_controls (business_view w)" using rows(2) by (simp_all add: batch(1))
      ultimately show ?thesis using rec s nothing_after [of w t res w'] unfolding batch(2) by (elim conjE disjE) simp_all
    qed
  qed
qed

lemma lease_phase_result:
  assumes run: "lease_phase E Q k w = (res, w')" and ok: "publication_ok w"
  shows "publication_ok w' \<and> agrees E (pq_run_id Q) res w' \<and>
    (nothing_published w res w' \<or>
     (\<exists>c. find_control (business_view w) (pq_week_start Q) = Some c \<and> held (pq_week_start Q) (pq_run_id Q) k c \<and>
       unexpired c (cn_clock (pb_business E) (rd_ticks (business_view w))) \<and>
     validate_weekly_publication_batch (pq_week_start Q) (pq_aggregates Q) (pq_now Q) = [] \<and>
     covers_week (pq_week_start Q) (pq_aggregates Q) (weekly_of w) \<and>
     published (staged_rows E (pq_aggregates Q) (weekly_of w))
       (put_row wc_week_start (control_after Q (int (length (pq_aggregates Q))) c) (rd_controls (business_view w)))
       (batch_counts (weekly_of w) (pq_aggregates Q)) res w'))"
proof -
  obtain x v where ver: "on_business (verify_week_lease (pb_business E) (pq_week_start Q) (pq_run_id Q) k) w = (x, v)"
    by fastforce
  note view = on_business_view [OF ver]
  have same: "rd_runs (business_view v) = rd_runs (business_view w)" "rd_controls (business_view v) = rd_controls (business_view w)"
    using view verify_week_lease_runs by blast+
  have v: "publication_ok v" using on_business_ok [OF ver, of "\<lambda>_. 0"] ok same verify_within by blast
  have un: "untouched w v" using view by blast
  have ended: ?thesis if "\<exists>f r. end_run E True (pq_run_id Q) (pq_now Q) f r v = (res, w') \<and> quiet_end f r"
    using that end_run_result [OF _ _ v] nothing_after [OF un] by blast
  show ?thesis
  proof (cases x)
    case (Inl e)
    then show ?thesis
    proof (cases e)
      case (ConcurrencyError code m)
      then show ?thesis using run ver Inl
        by (intro ended) (simp add: lease_phase_def, intro exI conjI, assumption, simp add: quiet_end_simps)
    next
      case (Store s)
      then show ?thesis using run ver Inl un v by (auto simp: lease_phase_def agrees_def nothing_published_def)
    qed
  next
    case (Inr d)
    show ?thesis
    proof (cases "lease_verified d")
      case False
      then show ?thesis using run ver Inr
        by (intro ended) (simp add: lease_phase_def, intro exI conjI, assumption, simp add: quiet_end_simps)
    next
      case True
      have ok': "store_ok (business_view w)" using ok by (simp add: publication_ok_def)
      obtain c where c: "find_control (business_view w) (pq_week_start Q) = Some c"
        "unexpired c (cn_clock (pb_business E) (rd_ticks (business_view w)))"
        using verify_verified [OF ok' _ True] view Inr by blast
      have "find_control (business_view v) (pq_week_start Q) = Some c" using c(1) same by (simp add: find_control_def)
      moreover have "write_phase E Q k v = (res, w')" using run ver Inr True by (simp add: lease_phase_def)
      ultimately show ?thesis
        using write_phase_result [OF _ v, of E Q k res w' c] c view same(2) nothing_after [OF un] by auto
    qed
  qed
qed

section \<open>The publication\<close>

text \<open>
  A whole publication: the batch was valid and covered the published keys of its week, the week was held
  by the run with an unexpired lease, the table shows the batch, and the control row names the run and
  is free.
\<close>

definition week_published :: "publication_env \<Rightarrow> publication_request \<Rightarrow> publication_world \<Rightarrow> publication_world \<Rightarrow> bool" where
  "week_published E Q w w' \<longleftrightarrow>
     validate_weekly_publication_batch (pq_week_start Q) (pq_aggregates Q) (pq_now Q) = [] \<and>
     batch_published (pq_week_start Q) (pq_aggregates Q) (pw_weekly w) (pw_weekly w') \<and>
     (\<exists>l c. durable_claim (pq_lease Q) (pq_week_start Q) (pq_run_id Q) = Some l \<and>
       find_control (pw_store w) (pq_week_start Q) = Some c \<and>
       held (pq_week_start Q) (pq_run_id Q) (cl_fencing_token l) c \<and>
       unexpired c (cn_clock (pb_business E) (rd_ticks (pw_store w))) \<and>
       rd_controls (pw_store w') = put_row wc_week_start (control_after Q (int (length (pq_aggregates Q))) c)
         (rd_controls (pw_store w)))"

lemma identified_run_state: "snd (identified_run E i week w) = w"
  by (simp add: identified_run_def split: prod.splits sum.splits option.splits)

lemma publish_result:
  assumes run: "publish_weekly_business_report E Q w = (res, w')" and ok: "publication_ok w" and closed: "pw_open w = None"
  shows "publication_ok w' \<and> agrees E (pq_run_id Q) res w' \<and>
    (nothing_published w res w' \<or> week_published E Q w w' \<and> (\<exists>controls.
       published (staged_rows E (pq_aggregates Q) (pw_weekly w)) controls
         (batch_counts (pw_weekly w) (pq_aggregates Q)) res w'))"
proof -
  note view = business_view_closed [OF closed]
  have raised: ?thesis if "res = Inl e" "w' = w" for e
    using that ok by (simp add: agrees_def nothing_published_def)
  have quiet: ?thesis if "\<exists>f r. end_run E False (pq_run_id Q) (pq_now Q) f r w = (res, w') \<and> quiet_end f r"
    using that end_run_result [OF _ _ ok] by blast
  obtain x where x: "identified_run E (pq_run_id Q) (pq_week_start Q) w = (x, w)"
    using identified_run_state [of E "pq_run_id Q" "pq_week_start Q" w] by (metis prod.collapse)
  let ?issues = "pre_write_issues (pq_week_start Q) (pq_aggregates Q) (pq_quality Q) (pq_coverage Q)
      (pq_dependency_fingerprint Q) (pq_rules_version Q) (pq_now Q)"
  consider e where "separated_transactions E = Inl e" | e where "separated_transactions E = Inr ()" "x = Inl e"
    | r where "separated_transactions E = Inr ()" "x = Inr r" "?issues \<noteq> []"
    | r where "separated_transactions E = Inr ()" "x = Inr r" "?issues = []"
        "durable_claim (pq_lease Q) (pq_week_start Q) (pq_run_id Q) = None"
    | r l where "separated_transactions E = Inr ()" "x = Inr r" "?issues = []"
        "durable_claim (pq_lease Q) (pq_week_start Q) (pq_run_id Q) = Some l"
    by (cases "separated_transactions E"; cases x; cases "?issues = []";
        cases "durable_claim (pq_lease Q) (pq_week_start Q) (pq_run_id Q)") auto
  then show ?thesis
  proof cases
    case 1
    then show ?thesis using run by (intro raised [of e]) (simp_all add: publish_weekly_business_report_def bind_cmd_def)
  next
    case 2
    then show ?thesis using run x by (intro raised [of e]) (simp_all add: publish_weekly_business_report_def bind_cmd_def)
  next
    case 3
    then show ?thesis using run x
      by (intro quiet) (simp add: publish_weekly_business_report_def bind_cmd_def Let_def, intro exI conjI, assumption,
        simp add: quiet_end_simps)
  next
    case 4
    then show ?thesis using run x
      by (intro quiet) (simp add: publish_weekly_business_report_def bind_cmd_def Let_def, intro exI conjI, assumption,
        simp add: quiet_end_simps)
  next
    case 5
    then have "lease_phase E Q (cl_fencing_token l) w = (res, w')"
      using run x by (simp add: publish_weekly_business_report_def bind_cmd_def Let_def)
    note lease = lease_phase_result [OF this ok]
    consider "nothing_published w res w'" | c where "find_control (pw_store w) (pq_week_start Q) = Some c"
        "held (pq_week_start Q) (pq_run_id Q) (cl_fencing_token l) c"
        "unexpired c (cn_clock (pb_business E) (rd_ticks (pw_store w)))"
        "validate_weekly_publication_batch (pq_week_start Q) (pq_aggregates Q) (pq_now Q) = []"
        "covers_week (pq_week_start Q) (pq_aggregates Q) (pw_weekly w)"
        "published (staged_rows E (pq_aggregates Q) (pw_weekly w))
           (put_row wc_week_start (control_after Q (int (length (pq_aggregates Q))) c) (rd_controls (pw_store w)))
           (batch_counts (pw_weekly w) (pq_aggregates Q)) res w'"
      using lease view by auto
    then show ?thesis
    proof cases
      case 1
      then show ?thesis using lease by blast
    next
      case 2
      have "keys_unique pr_key (pw_weekly w)" using ok by (simp add: publication_ok_def table_ok_def)
      from staged_published [OF this valid_batch_rows [OF 2(4)] 2(5)]
      have "week_published E Q w w'"
        using 2 5(4) by (auto simp: week_published_def published_def)
      then show ?thesis using lease 2(6) by blast
    qed
  qed
qed

section \<open>Recovery\<close>

lemma latest_valid_publication_answer:
  assumes "latest_valid_publication C w s = (Inr p, t)" and "find_control s w = Some c"
  shows "p = None \<or> (\<exists>q. p = Some q \<and> wc_last_valid_publication_run_id c = Some (vp_run_id q))"
  using assms
  by (auto simp: latest_valid_publication_def bind_cmd_eq_Inr execute_Inr split: option.splits prod.splits)

lemma latest_valid_publication_none:
  assumes "latest_valid_publication C w s = (Inr p, t)" and "find_control s w = None"
  shows "p = None"
  using assms by (auto simp: latest_valid_publication_def bind_cmd_eq_Inr execute_Inr split: option.splits)

lemma latest_valid_publication_after:
  assumes "latest_valid_publication C (pq_week_start Q) s = (Inr p, t)"
    and "find_control s (pq_week_start Q) = Some (control_after Q n c)"
  shows "\<exists>q. p = Some q \<and> vp_run_id q = pq_run_id Q \<and> vp_dependency_fingerprint q = pq_dependency_fingerprint Q \<and>
    vp_rules_version q = pq_rules_version Q \<and> vp_published_row_count q = n"
  using assms
  by (auto simp: latest_valid_publication_def bind_cmd_eq_Inr execute_Inr control_after_def release_row_def publish_row_def)

lemma resolve_untouched:
  assumes "resolve_uncertain_publication E week i fp rules n op now persist w = (res, w')"
  shows "untouched w w'"
proof -
  have fin: "untouched w u" if "finish_run E i t f w = (x, u)" for t f x u
    using finish_run_aside [OF that] by (simp add: aside_def)
  have obs: "untouched w u" if "observe_uncertain E i cr w = (x, u)" for cr x u
    using observe_aside [OF that] by (simp add: aside_def)
  have rep: "untouched w u" if "repair_history E i t w = (x, u)" for t x u
    using that fin by (auto simp: repair_history_def split: prod.splits sum.splits option.splits if_splits)
  show ?thesis using assms
    by (auto simp: resolve_uncertain_publication_def bind_cmd_def split: prod.splits sum.splits if_splits dest!: rep obs)
qed

lemma resolve_answer:
  assumes run: "resolve_uncertain_publication E week i fp rules n op now persist w = (Inr r, w')"
    and read: "latest_valid_publication (pb_business E) week (pw_store w) = (Inr p, t)"
  shows "business_publication_valid r \<longleftrightarrow> matches i fp rules n p"
  using run read
  by (auto simp: resolve_uncertain_publication_def bind_cmd_eq_Inr the_result_def business_publication_valid_def
      split: if_splits)

lemma resolve_read:
  assumes "resolve_uncertain_publication E week i fp rules n op now persist w = (Inr r, w')"
  obtains p t where "latest_valid_publication (pb_business E) week (pw_store w) = (Inr p, t)"
  using assms by (auto simp: resolve_uncertain_publication_def split: prod.splits sum.splits)

lemma resolve_ok:
  assumes "resolve_uncertain_publication E week i fp rules n op now persist w = (res, w')" and "publication_ok w"
  shows "publication_ok w' \<and> (pw_open w = None \<longrightarrow> pw_open w' = None)"
proof -
  have closed: "pw_open u = pw_open w" if "history E stage m w = (x, u)" for stage m x u
    using that by (auto simp: history_def split: prod.splits sum.splits commit_outcome.splits)
  have fin: "publication_ok u \<and> pw_open u = pw_open w" if "finish_run E i t f w = (x, u)" for t f x u
    using finish_run_ok [OF that assms(2)] closed that unfolding finish_run_def by blast
  have obs: "publication_ok u \<and> pw_open u = pw_open w" if "observe_uncertain E i cr w = (x, u)" for cr x u
    using observe_ok [OF that assms(2)] closed that unfolding observe_uncertain_def by blast
  have rep: "publication_ok u \<and> pw_open u = pw_open w" if "repair_history E i t w = (x, u)" for t x u
    using that fin assms(2) by (auto simp: repair_history_def split: prod.splits sum.splits option.splits if_splits)
  show ?thesis using assms
    by (auto simp: resolve_uncertain_publication_def bind_cmd_def split: prod.splits sum.splits if_splits dest!: rep obs)
qed

lemma latest_valid_publication_returns:
  assumes "healthy C" and "store_ok s" and "weekday w = 0"
  shows "\<exists>p. fst (latest_valid_publication C w s) = Inr p"
proof (cases "find_control s w")
  case None
  then show ?thesis using assms by (simp add: latest_valid_publication_def bind_cmd_def execute_def healthyD week_guard_def)
next
  case (Some c)
  then have "control_row_ok (run_weeks s) c" using assms(2) find_control_Some [OF Some] by (simp add: store_ok_def)
  then have "wc_last_valid_publication_run_id c = None \<or> wc_last_valid_published_at c \<noteq> None"
    "\<exists>n. count_guard (wc_published_row_count c) f = Inr n" "token_guard (wc_fencing_token c) = Inr (wc_fencing_token c)" for f
    by (auto simp: control_row_ok_def count_ok_def split: option.splits)
  then show ?thesis using assms Some
    by (auto simp: latest_valid_publication_def bind_cmd_def execute_def healthyD week_guard_def count_guard_def
        token_guard_def control_row_ok_def split: option.splits)
qed

text \<open>The stored pointer recognises the publication that took effect, and no other.\<close>

lemma published_recognised:
  assumes pub: "week_published E Q w w'"
    and read: "latest_valid_publication C (pq_week_start Q) s = (Inr p, t)"
    and same: "find_control s (pq_week_start Q) = find_control (pw_store w') (pq_week_start Q)"
    and "pq_dependency_fingerprint Q = Some fp" and "pq_rules_version Q = Some rules"
  shows "matches (pq_run_id Q) fp rules (Some (int (length (pq_aggregates Q)))) p"
proof -
  obtain c where c: "find_control (pw_store w) (pq_week_start Q) = Some c"
      "rd_controls (pw_store w') = put_row wc_week_start (control_after Q (int (length (pq_aggregates Q))) c) (rd_controls (pw_store w))"
    using pub by (auto simp: week_published_def)
  have "wc_week_start (control_after Q n c) = pq_week_start Q" for n
    using find_control_Some [OF c(1)] by (simp add: control_after_def)
  moreover have "pq_week_start Q \<in> wc_week_start ` set (rd_controls (pw_store w))"
    using find_control_Some [OF c(1)] by force
  ultimately have "find_control s (pq_week_start Q) = Some (control_after Q (int (length (pq_aggregates Q))) c)"
    unfolding same by (simp add: find_control_def c(2) find_put_row)
  from latest_valid_publication_after [OF read this] show ?thesis
    using assms(4,5) by (auto simp: matches_def)
qed

lemma unpublished_not_recognised:
  assumes "untouched w w'" and read: "latest_valid_publication C (pq_week_start Q) s = (Inr p, t)"
    and same: "find_control s (pq_week_start Q) = find_control (pw_store w') (pq_week_start Q)"
    and new: "\<forall>c. find_control (pw_store w) (pq_week_start Q) = Some c \<longrightarrow> wc_last_valid_publication_run_id c \<noteq> Some (pq_run_id Q)"
  shows "\<not> matches (pq_run_id Q) fp rules n p"
proof -
  have kept: "find_control s (pq_week_start Q) = find_control (pw_store w) (pq_week_start Q)"
    unfolding same using assms(1) by (simp add: find_control_def untouched_def)
  show ?thesis
  proof (cases "find_control (pw_store w) (pq_week_start Q)")
    case None
    then show ?thesis using latest_valid_publication_none [OF read] kept by (simp add: matches_def)
  next
    case (Some c)
    then show ?thesis using latest_valid_publication_answer [OF read, of c] new kept by (auto simp: matches_def)
  qed
qed

end
