(* ===== verification/WeeklyFacts.thy ===== *)
theory WeeklyFacts
  imports WeeklyPerformance "HOL-Library.Multiset"
begin

text \<open>
  Facts on the weekly transformation: a row identity is one validated event, a business movement is
  kept once, the counters are sums over the prepared events, and none of it depends on the order in
  which the rows were extracted.
\<close>

section \<open>Sorted sets\<close>

lemma sorted_set_facts [simp]: "set (sorted_set xs) = set xs" "sorted (sorted_set xs)" "distinct (sorted_set xs)"
  by (simp_all add: sorted_set_def)

lemma sorted_set_strict: "sorted_wrt (<) (sorted_set xs)"
  using sorted_set_facts strict_sorted_iff by blast

lemma sorted_set_cong: "set xs = set ys \<Longrightarrow> sorted_set xs = sorted_set ys"
  by (rule sorted_distinct_set_unique) simp_all

lemma sorted_set_Nil [simp]: "sorted_set [] = []"
  by (simp add: sorted_set_def)

lemma set_result_of [simp]: "a \<in> set (result_of r) \<longleftrightarrow> r = Inr a"
  by (auto simp: result_of_def split: sum.splits)

section \<open>Validated events\<close>

lemma canonical_warehouse_Inr: "canonical_warehouse v = Inr w \<Longrightarrow> w = ''los_angeles'' \<or> w = ''zaragoza''"
  by (auto simp: canonical_warehouse_def split: json.splits if_splits option.splits)

lemma valid_client_Inr: "valid_client_id v = Inr c \<Longrightarrow> \<not> blank c"
  by (auto simp: valid_client_id_def split: json.splits if_splits)

lemma iso_week_monday: "weekday (iso_week_of t) = 0"
  unfolding iso_week_of_def by (rule monday_of)

lemma validate_event_Inr:
  assumes "validate_event r = Inr e"
  shows "row_id (we_id r) = Inr (ve_row_id e) \<and> ve_event_type e \<in> set OFFICIAL_EVENT_TYPES \<and>
    (ve_warehouse e = ''los_angeles'' \<or> ve_warehouse e = ''zaragoza'') \<and> \<not> blank (ve_client_id e) \<and>
    weekday (ve_week_start e) = 0 \<and> check_identity (ve_event_type e) (ve_tags e) = Inr ()"
proof -
  obtain tags where tags: "we_tags r = JObj tags"
    using assms by (cases "we_tags r") (simp_all add: validate_event_def bind_result_Inr)
  show ?thesis using assms
    by (auto simp: validate_event_def tags bind_result_Inr official_type_def iso_week_monday
        split: json.splits if_splits dest!: canonical_warehouse_Inr valid_client_Inr)
qed

lemma text_given_str: "text_given v \<Longrightarrow> \<exists>x. v = JStr x"
  by (cases v) (simp_all add: text_given_def)

lemma uuid_given_str: "uuid_v4_given v \<Longrightarrow> \<exists>x. v = JStr x"
  by (cases v) (simp_all add: uuid_v4_given_def)

lemma event_type_names:
  "INBOUND_ORDER_CREATED \<noteq> OUTBOUND_ORDER_CREATED" "INBOUND_ORDER_CREATED \<noteq> STOCK_THRESHOLD_TRIGGERED"
  "INBOUND_ORDER_CREATED \<noteq> INVENTORY_DISCREPANCY_DETECTED" "OUTBOUND_ORDER_CREATED \<noteq> STOCK_THRESHOLD_TRIGGERED"
  "OUTBOUND_ORDER_CREATED \<noteq> INVENTORY_DISCREPANCY_DETECTED"
  "STOCK_THRESHOLD_TRIGGERED \<noteq> INVENTORY_DISCREPANCY_DETECTED"
  by (simp_all add: INBOUND_ORDER_CREATED_def OUTBOUND_ORDER_CREATED_def STOCK_THRESHOLD_TRIGGERED_def
      INVENTORY_DISCREPANCY_DETECTED_def)

lemma identity_given:
  assumes "e \<in> set OFFICIAL_EVENT_TYPES" and "check_identity e tags = Inr ()"
  shows "\<exists>f x. identity_field e = Some f \<and> tag tags f = JStr x"
proof -
  note names = event_type_names event_type_names [symmetric]
  from assms(1) consider "e = INBOUND_ORDER_CREATED" | "e = OUTBOUND_ORDER_CREATED" | "e = STOCK_THRESHOLD_TRIGGERED"
    | "e = INVENTORY_DISCREPANCY_DETECTED" by (auto simp: OFFICIAL_EVENT_TYPES_def)
  then show ?thesis
    using assms(2) by cases (auto simp: identity_field_def check_identity_def names bind_result_Inr
        dest!: text_given_str uuid_given_str)
qed

lemma movement_key_given: "validate_event r = Inr e \<Longrightarrow> \<exists>x. movement_key e = Some (ve_event_type e, x)"
  using validate_event_Inr [of r e] identity_given [of "ve_event_type e" "ve_tags e"]
  by (auto simp: movement_key_def)

section \<open>One row for an identity\<close>

lemma id_groups_keys: "map fst (id_groups events) = sorted_set (concat (map (\<lambda>r. result_of (row_id (we_id r))) events))"
  by (simp add: id_groups_def comp_def)

lemma id_group_rows:
  assumes "(i, rows) \<in> set (id_groups events)"
  shows "rows = filter (\<lambda>r. row_id (we_id r) = Inr i) events \<and> rows \<noteq> []"
  using assms by (auto simp: id_groups_def result_of_def filter_empty_conv split: sum.splits)

lemma unique_rows_ids:
  "map (\<lambda>r. row_id (we_id r)) (unique_rows (id_groups events)) =
     map (Inr \<circ> fst) (filter (\<lambda>(_, rows). consistent_rows rows) (id_groups events))"
proof -
  have "row_id (we_id (hd rows)) = Inr i" if "(i, rows) \<in> set (id_groups events)" for i rows
  proof -
    have "hd rows \<in> set (filter (\<lambda>r. row_id (we_id r) = Inr i) events)"
      using id_group_rows [OF that] hd_in_set by metis
    then show ?thesis by simp
  qed
  then show ?thesis by (auto simp: unique_rows_def)
qed

lemma unique_rows_distinct: "distinct (map (\<lambda>r. row_id (we_id r)) (unique_rows (id_groups events)))"
proof -
  have "distinct (map fst (id_groups events))" by (simp add: id_groups_keys)
  then have "distinct (map fst (filter (\<lambda>(_, rows). consistent_rows rows) (id_groups events)))"
    by (rule distinct_map_filter)
  then have "distinct (map Inr (map fst (filter (\<lambda>(_, rows). consistent_rows rows) (id_groups events))))"
    by (subst distinct_map) (simp add: inj_on_def)
  then show ?thesis by (simp add: unique_rows_ids)
qed

lemma validated_rows_distinct:
  assumes "distinct (map (\<lambda>r. row_id (we_id r)) rows)"
  shows "distinct (map ve_row_id (validated_rows rows))"
  using assms
proof (induction rows)
  case (Cons r rows)
  have here: "Inr (ve_row_id e) \<in> (\<lambda>r. row_id (we_id r)) ` set rows" if e: "e \<in> set (validated_rows rows)" for e :: validated_event
  proof -
    obtain x where "x \<in> set rows" "validate_event x = Inr e"
      using e by (auto simp: validated_rows_def)
    then show ?thesis using validate_event_Inr [of x e] by (intro image_eqI [of _ _ x]) simp_all
  qed
  have "validated_rows (r # rows) = result_of (validate_event r) @ validated_rows rows"
    by (simp add: validated_rows_def)
  moreover have "ve_row_id e \<notin> ve_row_id ` set (validated_rows rows)" if "validate_event r = Inr e" for e
  proof
    assume "ve_row_id e \<in> ve_row_id ` set (validated_rows rows)"
    then obtain e' where "e' \<in> set (validated_rows rows)" "ve_row_id e' = ve_row_id e" by auto
    then show False using here [of e'] validate_event_Inr [OF that] Cons.prems by simp
  qed
  ultimately show ?case using Cons by (cases "validate_event r") (simp_all add: result_of_def)
qed (simp add: validated_rows_def)

definition validated :: "weekly_event list \<Rightarrow> validated_event list" where
  "validated events = validated_rows (unique_rows (id_groups events))"

lemma validated_distinct: "distinct (map ve_row_id (validated events))"
  unfolding validated_def by (intro validated_rows_distinct unique_rows_distinct)

lemma validated_same: "e \<in> set (validated events) \<Longrightarrow> e' \<in> set (validated events) \<Longrightarrow> ve_row_id e = ve_row_id e' \<Longrightarrow> e = e'"
  using validated_distinct [of events] by (auto simp: distinct_map inj_on_def)

lemma validated_row: "e \<in> set (validated events) \<Longrightarrow> \<exists>r \<in> set (unique_rows (id_groups events)). validate_event r = Inr e"
  by (auto simp: validated_def validated_rows_def)

section \<open>One event for a movement\<close>

lemma movement_group_rows:
  assumes "g \<in> set (movement_groups events)"
  shows "set (snd g) = {e \<in> set events. movement_key e = Some (fst g)} \<and> snd g \<noteq> []"
  using assms by (auto simp: movement_groups_def map_filter_def filter_empty_conv simp flip: set_empty)

lemma movement_groups_distinct: "distinct (map fst (movement_groups events))"
  by (simp add: movement_groups_def comp_def)

definition kept_groups :: "weekly_event list \<Rightarrow> week_evidence \<Rightarrow> ((string \<times> string) \<times> validated_event list) list" where
  "kept_groups events evidence = filter (\<lambda>g. \<not> group_conflict evidence g) (movement_groups (validated events))"

lemma pe_events_kept: "set (pe_events (prepare_weekly_events events evidence)) = (hd \<circ> snd) ` set (kept_groups events evidence)"
proof -
  have "movement_key e \<noteq> None" if "e \<in> set (validated events)" for e
    using validated_row [OF that] movement_key_given by fastforce
  then have "filter (\<lambda>e. movement_key e = None) (validated events) = []" by (simp add: filter_empty_conv)
  then show ?thesis by (simp add: prepare_weekly_events_def Let_def kept_groups_def flip: validated_def)
qed

lemma kept_group:
  assumes "g \<in> set (kept_groups events evidence)"
  shows "hd (snd g) \<in> set (validated events) \<and> movement_key (hd (snd g)) = Some (fst g) \<and>
    g \<in> set (movement_groups (validated events)) \<and> \<not> group_conflict evidence g"
proof -
  have g: "g \<in> set (movement_groups (validated events))" "\<not> group_conflict evidence g"
    using assms by (simp_all add: kept_groups_def)
  note rows = movement_group_rows [OF g(1)]
  have "hd (snd g) \<in> set (snd g)" by (rule hd_in_set) (rule conjunct2 [OF rows])
  then have "hd (snd g) \<in> {e \<in> set (validated events). movement_key e = Some (fst g)}" by (simp only: rows)
  then show ?thesis using g by blast
qed

lemma pe_events_mset:
  "mset (pe_events (prepare_weekly_events events evidence)) = mset (map (hd \<circ> snd) (kept_groups events evidence))"
proof -
  have "movement_key e \<noteq> None" if "e \<in> set (validated events)" for e
    using validated_row [OF that] movement_key_given by fastforce
  then have "filter (\<lambda>e. movement_key e = None) (validated events) = []" by (simp add: filter_empty_conv)
  then show ?thesis by (simp add: prepare_weekly_events_def Let_def kept_groups_def flip: validated_def)
qed

lemma pe_events_movements: "distinct (map movement_key (pe_events (prepare_weekly_events events evidence)))"
proof -
  have "map (movement_key \<circ> (hd \<circ> snd)) (kept_groups events evidence) = map (Some \<circ> fst) (kept_groups events evidence)"
    by (rule map_cong) (simp_all add: kept_group)
  moreover have "distinct (map fst (kept_groups events evidence))"
    unfolding kept_groups_def by (intro distinct_map_filter movement_groups_distinct)
  then have "distinct (map (Some \<circ> fst) (kept_groups events evidence))"
    by (simp add: distinct_map inj_on_def)
  ultimately have "distinct (map movement_key (map (hd \<circ> snd) (kept_groups events evidence)))"
    by (simp only: map_map)
  moreover have "mset (map movement_key (pe_events (prepare_weekly_events events evidence))) =
      mset (map movement_key (map (hd \<circ> snd) (kept_groups events evidence)))"
    using pe_events_mset by (metis mset_map)
  ultimately show ?thesis using mset_eq_imp_distinct_iff by blast
qed

lemma pe_event_validated:
  assumes "e \<in> set (pe_events (prepare_weekly_events events evidence))"
  shows "e \<in> set (validated events)"
  using assms kept_group unfolding pe_events_kept by fastforce

lemma conflict_ids_groups: "i \<in> set (conflict_ids groups) \<Longrightarrow> \<exists>rows. (i, rows) \<in> set groups \<and> \<not> consistent_rows rows"
  by (auto simp: conflict_ids_def)

lemma validated_group:
  assumes "e \<in> set (validated events)"
  shows "\<exists>rows. (ve_row_id e, rows) \<in> set (id_groups events) \<and> consistent_rows rows \<and> validate_event (hd rows) = Inr e"
proof -
  obtain r where r: "r \<in> set (unique_rows (id_groups events))" "validate_event r = Inr e"
    using validated_row [OF assms] by blast
  then obtain i rows where g: "(i, rows) \<in> set (id_groups events)" "consistent_rows rows" "r = hd rows"
    by (auto simp: unique_rows_def)
  have "hd rows \<in> set (filter (\<lambda>r. row_id (we_id r) = Inr i) events)"
    using id_group_rows [OF g(1)] hd_in_set by metis
  then have "i = ve_row_id e" using validate_event_Inr [OF r(2)] g(3) by simp
  then show ?thesis using g r(2) by blast
qed

lemma id_group_unique:
  assumes "(i, rows) \<in> set (id_groups events)" and "(i, rows') \<in> set (id_groups events)"
  shows "rows = rows'"
  using id_group_rows [OF assms(1)] id_group_rows [OF assms(2)] by simp

text \<open>No event that is counted is among the rejected ones of the preparation.\<close>

lemma prepared_not_rejected:
  assumes "e \<in> set (pe_events (prepare_weekly_events events evidence))"
  shows "ve_row_id e \<notin> set (pe_rejected (prepare_weekly_events events evidence))"
proof
  assume "ve_row_id e \<in> set (pe_rejected (prepare_weekly_events events evidence))"
  then consider "ve_row_id e \<in> set (conflict_ids (id_groups events))"
    | "ve_row_id e \<in> set (invalid_ids (unique_rows (id_groups events)))"
    | g e' where "g \<in> set (movement_groups (validated events))" "group_conflict evidence g" "e' \<in> set (snd g)"
        "ve_row_id e' = ve_row_id e"
    by (auto simp: prepare_weekly_events_def Let_def simp flip: validated_def)
  then show False
  proof cases
    case 1
    then show ?thesis
      using conflict_ids_groups validated_group [OF pe_event_validated [OF assms]] id_group_unique by metis
  next
    case 2
    then obtain r where r: "r \<in> set (unique_rows (id_groups events))" "row_id (we_id r) = Inr (ve_row_id e)"
      "\<exists>m. validate_event r = Inl m"
      by (auto simp: invalid_ids_def intro: sym split: sum.splits)
    obtain r' where r': "r' \<in> set (unique_rows (id_groups events))" "validate_event r' = Inr e"
      using validated_row [OF pe_event_validated [OF assms]] by blast
    have "r = r'" using unique_rows_distinct [of events] r(1,2) r'(1) validate_event_Inr [OF r'(2)]
      by (auto simp: distinct_map inj_on_def)
    then show ?thesis using r(3) r'(2) by simp
  next
    case 3
    obtain k where k: "k \<in> set (kept_groups events evidence)" "e = hd (snd k)"
      using assms unfolding pe_events_kept by auto
    note kept = kept_group [OF k(1)]
    have "e' \<in> set (validated events)" "movement_key e' = Some (fst g)" using movement_group_rows [OF 3(1)] 3(3) by auto
    then have "e' = e" "fst g = fst k" using validated_same [of e' events e] 3(4) kept k(2) by auto
    then have "g = k" using movement_groups_distinct [of "validated events"] 3(1) kept by (auto simp: distinct_map inj_on_def)
    then show ?thesis using 3(2) kept by blast
  qed
qed

section \<open>Order of extraction\<close>

lemma same_elements:
  assumes "mset xs = mset ys" and "\<And>x y. x \<in> set xs \<Longrightarrow> y \<in> set xs \<Longrightarrow> x = y"
  shows "xs = ys"
proof (cases xs)
  case (Cons a zs)
  have "set ys = set xs" by (rule mset_eq_setD [OF assms(1), symmetric])
  then have "\<forall>x \<in> set xs. x = a" "\<forall>y \<in> set ys. y = a" using assms(2) Cons by auto
  then have "xs = replicate (length xs) a" "ys = replicate (length ys) a" by (simp_all add: replicate_eqI)
  then show ?thesis using mset_eq_length [OF assms(1)] by metis
qed (use assms in simp)

lemma id_issues_replicate:
  "id_issues events = replicate (length (filter (\<lambda>r. \<exists>m. row_id (we_id r) = Inl m) events))
     (issue ''invalid_row_id'' ''id must be a UUID'' [] None)"
proof (induction events)
  case (Cons r events)
  have "row_id (we_id r) = Inl m \<Longrightarrow> m = ''id must be a UUID''" for m
    by (auto simp: row_id_def split: event_id.splits option.splits)
  then show ?case using Cons by (cases "row_id (we_id r)") (auto simp: id_issues_def)
qed (simp add: id_issues_def)

definition repeats_identical :: "weekly_event list \<Rightarrow> bool" where
  "repeats_identical events \<longleftrightarrow> list_all (\<lambda>r. list_all (\<lambda>r'.
     (case row_id (we_id r) of Inl _ \<Rightarrow> True | Inr i \<Rightarrow> row_id (we_id r') = Inr i \<longrightarrow> r' = r)) events) events"

lemma prepare_permuted:
  assumes perm: "mset events = mset events'" and same: "repeats_identical events"
  shows "prepare_weekly_events events evidence = prepare_weekly_events events' evidence"
proof -
  have sets: "set events = set events'" by (rule mset_eq_setD [OF perm])
  have parts: "mset (filter p events) = mset (filter p events')" for p using perm by (simp add: mset_filter)
  have issues: "id_issues events = id_issues events'"
    unfolding id_issues_replicate using mset_eq_length [OF parts] by simp
  have rows: "filter (\<lambda>r. row_id (we_id r) = Inr i) events = filter (\<lambda>r. row_id (we_id r) = Inr i) events'" for i
  proof (rule same_elements [OF parts])
    fix x y assume "x \<in> set (filter (\<lambda>r. row_id (we_id r) = Inr i) events)" "y \<in> set (filter (\<lambda>r. row_id (we_id r) = Inr i) events)"
    then show "x = y" using same unfolding repeats_identical_def list_all_iff by (auto split: sum.splits)
  qed
  have keys: "sorted_set (concat (map (\<lambda>r. result_of (row_id (we_id r))) events)) =
      sorted_set (concat (map (\<lambda>r. result_of (row_id (we_id r))) events'))"
    by (rule sorted_set_cong) (simp add: sets)
  have "id_groups events = id_groups events'" unfolding id_groups_def by (simp add: keys rows)
  then show ?thesis unfolding prepare_weekly_events_def by (simp add: issues)
qed

section \<open>Counters\<close>

lemma map_of_keys: "map_of (map (\<lambda>k. (k, f k)) ks) k = (if k \<in> set ks then Some (f k) else None)"
  by (induction ks) auto

lemma count_at_group:
  "count_at (group_metric_values i rows a r c q) k = sum_list (map (fst \<circ> snd) (filter (\<lambda>x. fst x = k) rows))"
proof (cases "k \<in> fst ` set rows")
  case False
  then have "filter (\<lambda>x. fst x = k) rows = []" by (auto simp: filter_empty_conv)
  then show ?thesis using False by (simp add: count_at_def group_metric_values_def Let_def map_of_keys)
qed (simp add: count_at_def group_metric_values_def Let_def map_of_keys)

lemma group_metric_simps [simp]:
  "mc_index (group_metric_values i rows a r c q) = i"
  "fst ` set (mc_values (group_metric_values i rows a r c q)) = fst ` set rows"
  "set (mc_accepted (group_metric_values i rows a r c q)) = set a"
  "set (mc_rejected (group_metric_values i rows a r c q)) = set r"
  by (simp_all add: group_metric_values_def Let_def image_image)

lemma filter_of_rows:
  "filter (\<lambda>x. fst x = k) (map (\<lambda>e. (f e, g e)) xs) = map (\<lambda>e. (f e, g e)) (filter (\<lambda>e. f e = k) xs)"
  by (induction xs) simp_all

lemma count_at_events:
  "count_at (group_metric_values i (map (\<lambda>e. (f e, v e, w e)) xs) a r c q) k = sum_list (map v (filter (\<lambda>e. f e = k) xs))"
  by (simp add: count_at_group filter_of_rows comp_def)

section \<open>The reference\<close>

text \<open>
  The counters read off the events that count: the prepared events, less the outbound orders that the
  evidence does not confirm.
\<close>

definition counts :: "commercial_order_evidence \<Rightarrow> validated_event \<Rightarrow> bool" where
  "counts orders e \<longleftrightarrow> ve_event_type e = OUTBOUND_ORDER_CREATED \<longrightarrow> outbound_issue orders e = None"

definition counted_events :: "weekly_event list \<Rightarrow> commercial_order_evidence \<Rightarrow> week_evidence \<Rightarrow> validated_event list" where
  "counted_events events orders evidence = filter (counts orders) (pe_events (prepare_weekly_events events evidence))"

definition of_type :: "string \<Rightarrow> aggregate_key \<Rightarrow> validated_event list \<Rightarrow> validated_event list" where
  "of_type event_type k es = filter (\<lambda>e. ve_event_type e = event_type \<and> aggregate_key_of e = k) es"

definition reference_counts :: "validated_event list \<Rightarrow> aggregate_key \<Rightarrow> int list" where
  "reference_counts es k =
     [sum_list (map inbound_quantity (of_type INBOUND_ORDER_CREATED k es)),
      int (length (of_type OUTBOUND_ORDER_CREATED k es)), int (length (of_type STOCK_THRESHOLD_TRIGGERED k es)),
      int (length (of_type INVENTORY_DISCREPANCY_DETECTED k es))]"

definition reference_aggregate :: "validated_event list \<Rightarrow> aggregate_key \<Rightarrow> weekly_aggregate" where
  "reference_aggregate es k =
     (let n = reference_counts es k
      in \<lparr>wa_key = k, wa_inbound_units = n ! 0, wa_outbound_orders = n ! 1, wa_stockout_events = n ! 2,
          wa_discrepancy_events = n ! 3,
          wa_discrepancy_rate = (if n ! 1 = 0 then (0, 0) else decimal_ratio (n ! 3) (n ! 1))\<rparr>)"

definition contributions ::
  "prepared_events \<Rightarrow> commercial_order_evidence \<Rightarrow> metric_contribution list" where
  "contributions prepared orders =
     [calculate_inbound_volume prepared, calculate_outbound_throughput prepared orders,
      calculate_stockout_frequency prepared, calculate_discrepancy_events prepared]"

lemma sum_list_ones: "sum_list (map (\<lambda>_. 1) xs) = int (length xs)"
  by (induction xs) simp_all

lemma inbound_quantity_nonneg: "0 \<le> inbound_quantity e"
  by (auto simp: inbound_quantity_def integer_quantity_def Let_def split: json.splits sum.splits if_splits)

lemma contribution_counts:
  assumes "es = filter (counts orders) (pe_events p)"
  shows "map (\<lambda>c. count_at c k) (contributions p orders) = reference_counts es k"
  unfolding assms contributions_def reference_counts_def of_type_def calculate_inbound_volume_def
    calculate_outbound_throughput_def calculate_stockout_frequency_def calculate_discrepancy_events_def counted_def Let_def
  by (simp add: count_at_events sum_list_ones counts_def conj_commute conj_left_commute event_type_names
      event_type_names [symmetric] cong: conj_cong)

lemma pe_event_type:
  assumes "e \<in> set (pe_events (prepare_weekly_events events evidence))"
  shows "ve_event_type e \<in> {INBOUND_ORDER_CREATED, OUTBOUND_ORDER_CREATED, STOCK_THRESHOLD_TRIGGERED,
    INVENTORY_DISCREPANCY_DETECTED}"
proof -
  obtain r where "validate_event r = Inr e" using validated_row [OF pe_event_validated [OF assms]] by blast
  then show ?thesis using validate_event_Inr [of r e] by (simp add: OFFICIAL_EVENT_TYPES_def)
qed

lemma contribution_keys:
  assumes "\<forall>e \<in> set (pe_events p). ve_event_type e \<in> {INBOUND_ORDER_CREATED, OUTBOUND_ORDER_CREATED,
      STOCK_THRESHOLD_TRIGGERED, INVENTORY_DISCREPANCY_DETECTED}"
  shows "set (concat (map (map fst \<circ> mc_values) (contributions p orders))) =
    aggregate_key_of ` set (filter (counts orders) (pe_events p))"
proof -
  have parts: "set (concat (map (map fst \<circ> mc_values) (contributions p orders))) =
      aggregate_key_of ` {e \<in> set (pe_events p). ve_event_type e = INBOUND_ORDER_CREATED} \<union>
      aggregate_key_of ` {e \<in> set (pe_events p). ve_event_type e = OUTBOUND_ORDER_CREATED \<and> outbound_issue orders e = None} \<union>
      aggregate_key_of ` {e \<in> set (pe_events p). ve_event_type e = STOCK_THRESHOLD_TRIGGERED} \<union>
      aggregate_key_of ` {e \<in> set (pe_events p). ve_event_type e = INVENTORY_DISCREPANCY_DETECTED}"
    unfolding contributions_def calculate_inbound_volume_def calculate_outbound_throughput_def
      calculate_stockout_frequency_def calculate_discrepancy_events_def counted_def Let_def
    by (simp add: image_image Un_assoc)
  have "set (filter (counts orders) (pe_events p)) =
      {e \<in> set (pe_events p). ve_event_type e = INBOUND_ORDER_CREATED} \<union>
      {e \<in> set (pe_events p). ve_event_type e = OUTBOUND_ORDER_CREATED \<and> outbound_issue orders e = None} \<union>
      {e \<in> set (pe_events p). ve_event_type e = STOCK_THRESHOLD_TRIGGERED} \<union>
      {e \<in> set (pe_events p). ve_event_type e = INVENTORY_DISCREPANCY_DETECTED}"
    using assms event_type_names event_type_names [symmetric] unfolding counts_def by auto
  then show ?thesis unfolding parts by (simp add: image_Un)
qed

lemma contributions_index: "map mc_index (contributions p orders) = [0, 1, 2, 3]"
  by (simp add: contributions_def calculate_inbound_volume_def calculate_outbound_throughput_def
      calculate_stockout_frequency_def calculate_discrepancy_events_def counted_def Let_def)

lemma inbound_sum_nonneg: "0 \<le> sum_list (map inbound_quantity xs)"
  by (induction xs) (auto simp: inbound_quantity_nonneg)

lemma reference_nonneg: "n \<in> set (reference_counts es k) \<Longrightarrow> 0 \<le> n"
  by (auto simp: reference_counts_def inbound_sum_nonneg)

lemma aggregate_of_reference:
  assumes "es = filter (counts orders) (pe_events p)"
  shows "aggregate_of (contributions p orders) k = reference_aggregate es k"
proof -
  have nth: "count_at (contributions p orders ! i) k = reference_counts es k ! i" if i: "i < 4" for i
  proof -
    have "map (\<lambda>c. count_at c k) (contributions p orders) ! i = count_at (contributions p orders ! i) k"
      using i by (intro nth_map) (simp add: contributions_def)
    then show ?thesis by (simp add: contribution_counts [OF assms])
  qed
  show ?thesis using nth [of 0] nth [of 1] nth [of 2] nth [of 3] by (simp add: aggregate_of_def reference_aggregate_def Let_def)
qed

lemma overflow_fields:
  assumes "es = filter (counts orders) (pe_events p)"
  shows "key_overflows (contributions p orders) k = [] \<longleftrightarrow> (\<forall>n \<in> set (reference_counts es k). n \<le> POSTGRES_INTEGER_MAX)"
proof -
  obtain a b c d where n: "reference_counts es k = [a, b, c, d]" by (simp add: reference_counts_def)
  have pos: "0 \<le> a" "0 \<le> b" "0 \<le> c" "0 \<le> d" using reference_nonneg [of _ es k] n by auto
  obtain w x y z where ids: "map (\<lambda>c. ids_at c k) (contributions p orders) = [w, x, y, z]"
    by (simp add: contributions_def)
  show ?thesis unfolding key_overflows_def contribution_counts [OF assms] n ids
    using pos by (auto simp: postgres_integer_overflows_def INTEGER_COUNT_FIELDS_def not_less)
qed

lemma compose_result:
  assumes "map mc_index cs = [0, 1, 2, 3]"
  shows "\<exists>r. compose_weekly_performance p cs = Inr r \<and>
    (let keys = sorted_set (concat (map (map fst \<circ> mc_values) cs));
         overflow = list_ex (\<lambda>k. key_overflows cs k \<noteq> []) keys
     in wr_aggregates r = (if overflow then [] else map (aggregate_of cs) keys) \<and>
        (overflow \<longrightarrow> (\<exists>q \<in> set (qr_issues (wr_quality r)). qi_code q = ''aggregate_integer_overflow'')))"
proof -
  let ?keys = "sorted_set (concat (map (map fst \<circ> mc_values) cs))"
  let ?overflows = "concat (map (\<lambda>k. map (\<lambda>(field, ids). (field, k, ids)) (key_overflows cs k)) ?keys)"
  define ov where "ov = ?overflows"
  have some: "ov \<noteq> [] \<longleftrightarrow> list_ex (\<lambda>k. key_overflows cs k \<noteq> []) ?keys"
    by (auto simp: ov_def list_ex_iff)
  let ?f = "\<lambda>(field, k, ids). issue ''aggregate_integer_overflow'' (overflow_message field k) (sorted_set ids) None"
  have issue: "\<exists>q \<in> set (map ?f ov). qi_code q = ''aggregate_integer_overflow''" if nonempty: "ov \<noteq> []"
  proof -
    have "hd ov \<in> set ov" by (rule hd_in_set [OF nonempty])
    then have "?f (hd ov) \<in> set (map ?f ov)" by (simp only: list.set_map imageI)
    moreover have "qi_code (?f x) = ''aggregate_integer_overflow''" for x by (simp add: issue_def split: prod.splits)
    ultimately show ?thesis by blast
  qed
  show ?thesis
    unfolding compose_weekly_performance_def assms Let_def ov_def [symmetric] some [symmetric]
    using issue by auto
qed

section \<open>The whole transformation\<close>

lemma transform_contributions:
  "transform_weekly_performance events orders evidence =
     (let p = prepare_weekly_events events evidence in compose_weekly_performance p (contributions p orders))"
  by (simp add: transform_weekly_performance_def contributions_def Let_def)

lemma transform_reference:
  "\<exists>r. transform_weekly_performance events orders evidence = Inr r \<and>
    (let es = counted_events events orders evidence; keys = sorted_set (map aggregate_key_of es);
         fits = list_all (\<lambda>k. list_all (\<lambda>n. n \<le> POSTGRES_INTEGER_MAX) (reference_counts es k)) keys
     in wr_aggregates r = (if fits then map (reference_aggregate es) keys else []) \<and>
        (fits \<or> (\<exists>q \<in> set (qr_issues (wr_quality r)). qi_code q = ''aggregate_integer_overflow'')))"
proof -
  let ?p = "prepare_weekly_events events evidence" and ?es = "counted_events events orders evidence"
  let ?cs = "contributions ?p orders"
  have es: "?es = filter (counts orders) (pe_events ?p)" by (simp add: counted_events_def)
  have "set (concat (map (map fst \<circ> mc_values) ?cs)) = set (map aggregate_key_of ?es)"
    unfolding es by (subst contribution_keys) (use pe_event_type in \<open>auto\<close>)
  then have keys: "sorted_set (concat (map (map fst \<circ> mc_values) ?cs)) = sorted_set (map aggregate_key_of ?es)"
    by (rule sorted_set_cong)
  have fits: "list_ex (\<lambda>k. key_overflows ?cs k \<noteq> []) ks \<longleftrightarrow>
      \<not> list_all (\<lambda>k. list_all (\<lambda>n. n \<le> POSTGRES_INTEGER_MAX) (reference_counts ?es k)) ks" for ks
    by (simp add: overflow_fields [OF es] list_ex_iff list_all_iff)
  have "aggregate_of ?cs = reference_aggregate ?es" by (rule ext) (rule aggregate_of_reference [OF es])
  then show ?thesis
    using compose_result [of ?cs ?p, OF contributions_index]
    unfolding transform_contributions Let_def keys fits by auto
qed

lemma accepted_counted:
  "set (concat (map mc_accepted (contributions p orders))) \<subseteq> ve_row_id ` set (filter (counts orders) (pe_events p))"
  unfolding contributions_def calculate_inbound_volume_def calculate_outbound_throughput_def
    calculate_stockout_frequency_def calculate_discrepancy_events_def counted_def Let_def
  using event_type_names by (auto simp: counts_def)

lemma rejected_uncounted:
  "set (concat (map mc_rejected (contributions p orders))) \<subseteq> ve_row_id ` {e \<in> set (pe_events p). \<not> counts orders e}"
  unfolding contributions_def calculate_inbound_volume_def calculate_outbound_throughput_def
    calculate_stockout_frequency_def calculate_discrepancy_events_def counted_def Let_def
  by (auto simp: counts_def)

lemma compose_quality:
  assumes "map mc_index cs = [0, 1, 2, 3]" and "compose_weekly_performance p cs = Inr r"
  shows "\<exists>blocked. set (qr_accepted (wr_quality r)) = {i \<in> set (concat (map mc_accepted cs)). i \<notin> set blocked} \<and>
    set (qr_rejected (wr_quality r)) = set (pe_rejected p) \<union> set (concat (map mc_rejected cs)) \<union> set blocked"
proof -
  define blocked where "blocked = concat (map (\<lambda>(_, _, ids). ids) (concat (map (\<lambda>k. map (\<lambda>(field, ids). (field, k, ids))
    (key_overflows cs k)) (sorted_set (concat (map (map fst \<circ> mc_values) cs))))))"
  have "qr_accepted (wr_quality r) = sorted_set (filter (\<lambda>i. i \<notin> set blocked) (concat (map mc_accepted cs)))"
    "qr_rejected (wr_quality r) = sorted_set (pe_rejected p @ concat (map mc_rejected cs) @ blocked)"
    using assms(2) unfolding compose_weekly_performance_def assms(1) Let_def blocked_def [symmetric]
    by (auto simp del: set_concat)
  then show ?thesis by (intro exI [of _ blocked]) (simp add: Un_assoc del: set_concat)
qed

lemma transform_disjoint:
  assumes "transform_weekly_performance events orders evidence = Inr r"
  shows "set (qr_accepted (wr_quality r)) \<inter> set (qr_rejected (wr_quality r)) = {}"
proof -
  let ?p = "prepare_weekly_events events evidence"
  let ?cs = "contributions ?p orders"
  obtain blocked where acc: "set (qr_accepted (wr_quality r)) = {i \<in> set (concat (map mc_accepted ?cs)). i \<notin> set blocked}"
    and rej: "set (qr_rejected (wr_quality r)) = set (pe_rejected ?p) \<union> set (concat (map mc_rejected ?cs)) \<union> set blocked"
    using compose_quality [OF contributions_index assms [unfolded transform_contributions Let_def]] by blast
  have False if i: "i \<in> set (qr_accepted (wr_quality r))" "i \<in> set (qr_rejected (wr_quality r))" for i
  proof -
    have i': "i \<in> set (concat (map mc_accepted ?cs))" "i \<notin> set blocked" using i(1) unfolding acc by simp_all
    then obtain e where e: "e \<in> set (pe_events ?p)" "counts orders e" "i = ve_row_id e"
      using accepted_counted [of ?p orders] by (auto simp del: set_concat)
    have "i \<notin> set (pe_rejected ?p)" using prepared_not_rejected [OF e(1)] e(3) by simp
    then have "i \<in> set (concat (map mc_rejected ?cs))" using i(2) i'(2) unfolding rej by (simp del: set_concat)
    then obtain e' where e': "e' \<in> set (pe_events ?p)" "\<not> counts orders e'" "i = ve_row_id e'"
      using rejected_uncounted [of ?p orders] by (auto simp del: set_concat)
    then have "e = e'" using validated_same [OF pe_event_validated [OF e(1)] pe_event_validated [OF e'(1)]] e(3) by simp
    then show False using e(2) e'(2) by simp
  qed
  then show ?thesis by blast
qed

lemma reference_row:
  assumes "k \<in> set (map aggregate_key_of (counted_events events orders evidence))"
  shows "(key_warehouse k = ''los_angeles'' \<or> key_warehouse k = ''zaragoza'') \<and> \<not> blank (key_client_id k) \<and>
    weekday (key_week k) = 0"
proof -
  obtain e where e: "e \<in> set (pe_events (prepare_weekly_events events evidence))" "k = aggregate_key_of e"
    using assms by (auto simp: counted_events_def)
  obtain row where "validate_event row = Inr e" using validated_row [OF pe_event_validated [OF e(1)]] by blast
  then show ?thesis using validate_event_Inr [of row e] e(2) by (simp add: aggregate_key_of_def)
qed

lemma unique_rows_events: "row \<in> set (unique_rows (id_groups events)) \<Longrightarrow> row \<in> set events"
  using hd_in_set by (fastforce simp: unique_rows_def dest: id_group_rows)

lemma counted_week:
  assumes "e \<in> set (counted_events events orders evidence)"
    and "\<forall>row \<in> set events. \<forall>t. parse_utc_timestamp (we_timestamp row) = Inr t \<longrightarrow> iso_week_of t = w"
  shows "key_week (aggregate_key_of e) = w"
proof -
  have "e \<in> set (pe_events (prepare_weekly_events events evidence))" using assms(1) by (simp add: counted_events_def)
  then obtain row where row: "row \<in> set (unique_rows (id_groups events))" "validate_event row = Inr e"
    using validated_row pe_event_validated by blast
  obtain t where "parse_utc_timestamp (we_timestamp row) = Inr t" "ve_week_start e = iso_week_of t"
    using row(2) by (cases "we_tags row") (auto simp: validate_event_def bind_result_Inr)
  moreover have "row \<in> set events" using unique_rows_events [OF row(1)] .
  ultimately show ?thesis using assms(2) by (auto simp: aggregate_key_of_def)
qed

end
