(* ===== verification/WeeklyProperties.thy ===== *)
theory WeeklyProperties
  imports WeeklyFacts
begin

text \<open>
  The properties of the weekly transformation, with a week of four rows: a receipt extracted twice, a
  confirmed order, an order without evidence and a discrepancy.
\<close>

section \<open>A week\<close>

definition demo_row :: "nat \<Rightarrow> string \<Rightarrow> tags \<Rightarrow> weekly_event" where
  "demo_row n event_type tags = \<lparr>we_id = IdUuid (0x40008000000000000000 + word_of_nat n),
     we_timestamp = Instant (5 * 86400000000), we_event_type = JStr event_type, we_service = JStr ''api'',
     we_tags = JObj ([(''warehouse'', JStr ''LA''), (''client_id'', JStr ''c1'')] @ tags)\<rparr>"

definition demo_order_id :: string where
  "demo_order_id = ''00000000-0000-4000-8000-00000000000a''"

definition demo_week :: "weekly_event list" where
  "demo_week =
     [demo_row 1 INBOUND_ORDER_CREATED [(''movement_id'', JStr ''m1''), (''quantity'', JInt 5)],
      demo_row 2 OUTBOUND_ORDER_CREATED [(''order_id'', JStr demo_order_id)],
      demo_row 1 INBOUND_ORDER_CREATED [(''movement_id'', JStr ''m1''), (''quantity'', JInt 5)],
      demo_row 3 OUTBOUND_ORDER_CREATED [(''order_id'', JStr ''00000000-0000-4000-8000-00000000000b'')],
      demo_row 4 INVENTORY_DISCREPANCY_DETECTED [(''count_id'', JStr ''00000000-0000-4000-8000-00000000000c''),
        (''quantity'', JInt 2)]]"

definition demo_orders :: commercial_order_evidence where
  "demo_orders = \<lparr>ce_records = (\<lambda>i. if i = demo_order_id
       then Some \<lparr>cor_order_id = i, cor_warehouse = ''Los Angeles'', cor_client_id = ''c1'', cor_dispatch_count = 1\<rparr>
       else None), ce_lookup_complete = True\<rparr>"

definition demo_aggregates :: "weekly_event list \<Rightarrow> (int list \<times> decimal) list" where
  "demo_aggregates events =
     (case transform_weekly_performance events demo_orders None of
        Inl _ \<Rightarrow> []
      | Inr r \<Rightarrow> map (\<lambda>a. ([wa_inbound_units a, wa_outbound_orders a, wa_stockout_events a, wa_discrepancy_events a],
          wa_discrepancy_rate a)) (wr_aggregates r))"

lemma demo_week_repeats: "repeats_identical demo_week"
  by code_simp

lemma demo_week_result: "demo_aggregates demo_week = [([5, 1, 0, 1], 1, 0)]"
  by code_simp

section \<open>Properties\<close>

definition weekly_row_ok :: "weekly_aggregate \<Rightarrow> bool" where
  "weekly_row_ok a \<longleftrightarrow>
     (key_warehouse (wa_key a) = ''los_angeles'' \<or> key_warehouse (wa_key a) = ''zaragoza'') \<and>
     \<not> blank (key_client_id (wa_key a)) \<and> weekday (key_week (wa_key a)) = 0 \<and>
     list_all (\<lambda>n. 0 \<le> n \<and> n \<le> POSTGRES_INTEGER_MAX)
       [wa_inbound_units a, wa_outbound_orders a, wa_stockout_events a, wa_discrepancy_events a]"

text \<open>
  C39. The transformation is total and its result is well typed, whatever rows it is given: every
  aggregate has a canonical warehouse, a client, the Monday of its week and four counts that fit a
  PostgreSQL integer; the aggregates have distinct keys in ascending order; and no row is reported both
  as accepted and as rejected.
\<close>

theorem weekly_result_typed:
  "\<exists>r. transform_weekly_performance events orders evidence = Inr r \<and>
    list_all weekly_row_ok (wr_aggregates r) \<and> sorted_wrt (<) (map wa_key (wr_aggregates r)) \<and>
    set (qr_accepted (wr_quality r)) \<inter> set (qr_rejected (wr_quality r)) = {}"
proof -
  let ?es = "counted_events events orders evidence"
  let ?keys = "sorted_set (map aggregate_key_of ?es)"
  obtain r where r: "transform_weekly_performance events orders evidence = Inr r"
    and rows: "wr_aggregates r = (if list_all (\<lambda>k. list_all (\<lambda>n. n \<le> POSTGRES_INTEGER_MAX) (reference_counts ?es k)) ?keys
      then map (reference_aggregate ?es) ?keys else [])"
    using transform_reference [of events orders evidence] by (auto simp: Let_def)
  have key: "wa_key (reference_aggregate ?es k) = k" for k by (simp add: reference_aggregate_def Let_def)
  have ok: "weekly_row_ok (reference_aggregate ?es k)"
    if k: "k \<in> set ?keys" "list_all (\<lambda>n. n \<le> POSTGRES_INTEGER_MAX) (reference_counts ?es k)" for k
  proof -
    have "k \<in> set (map aggregate_key_of ?es)" using k(1) by simp
    from reference_row [OF this] show ?thesis
      using k(2) by (simp add: weekly_row_ok_def reference_aggregate_def reference_counts_def Let_def inbound_sum_nonneg)
  qed
  have "sorted_wrt (<) (map wa_key (wr_aggregates r))"
    using sorted_set_strict [of "map aggregate_key_of ?es"] by (simp add: rows key comp_def)
  moreover have "list_all weekly_row_ok (wr_aggregates r)" using ok by (auto simp: rows list_all_iff)
  ultimately show ?thesis using r transform_disjoint [OF r] by blast
qed

text \<open>
  C40. The counters are the reference. A business movement is counted by at most one event. When every
  count fits, there is one aggregate for each warehouse, client and week with a counted event, and its
  counts are the units received, the confirmed orders, the crossings and the discrepancies of the
  counted events; when one does not, there is no aggregate at all and the overflow is reported.
\<close>

theorem weekly_counts_reference:
  "distinct (map movement_key (counted_events events orders evidence)) \<and>
   (\<exists>r. transform_weekly_performance events orders evidence = Inr r \<and>
    (let es = counted_events events orders evidence; keys = sorted_set (map aggregate_key_of es);
         fits = list_all (\<lambda>k. list_all (\<lambda>n. n \<le> POSTGRES_INTEGER_MAX) (reference_counts es k)) keys
     in wr_aggregates r = (if fits then map (reference_aggregate es) keys else []) \<and>
        (fits \<or> (\<exists>q \<in> set (qr_issues (wr_quality r)). qi_code q = ''aggregate_integer_overflow''))))"
proof -
  have "distinct (map movement_key (counted_events events orders evidence))"
    unfolding counted_events_def by (intro distinct_map_filter pe_events_movements)
  then show ?thesis by (intro conjI transform_reference)
qed

text \<open>
  C24. The order of extraction is irrelevant. When the repeated rows of an identity are identical, any
  permutation of the extracted rows gives the same aggregates and the same quality report.
\<close>

theorem weekly_order_irrelevant:
  assumes "mset events = mset events'" and "repeats_identical events"
  shows "transform_weekly_performance events orders evidence = transform_weekly_performance events' orders evidence"
  unfolding transform_contributions prepare_permuted [OF assms] ..

theorem weekly_order_irrelevant_witness: "demo_aggregates (rev demo_week) = [([5, 1, 0, 1], 1, 0)]"
proof -
  have "transform_weekly_performance demo_week demo_orders None = transform_weekly_performance (rev demo_week) demo_orders None"
    by (rule weekly_order_irrelevant [OF _ demo_week_repeats]) simp
  then show ?thesis using demo_week_result by (simp add: demo_aggregates_def)
qed

end
