(* ===== verification/PublicationProperties.thy ===== *)
theory PublicationProperties
  imports PublicationOutcomes RunDemo WeeklyProperties
begin

text \<open>
  The properties of the weekly publication, with two runs of one week: the first publishes the batch
  computed from the demonstration week, the second publishes the same batch again.
\<close>

section \<open>Two publications\<close>

definition demo_publication_env :: "(db_exception \<times> bool) option \<Rightarrow> publication_env" where
  "demo_publication_env failure = \<lparr>pb_business = demo_conn, pb_operational = demo_conn, pb_separate = True,
     pb_fails = (\<lambda>_. None), pb_transaction_time = 5000000, pb_statement_time = 6000000,
     pb_rollback_fails = None, pb_commit_fails = failure, pb_history_commit = (\<lambda>_. CommitOk)\<rparr>"

definition demo_lost :: "(db_exception \<times> bool) option" where
  "demo_lost = Some (\<lparr>dx_class = Sql_Operational, dx_sqlstate = Some ''08006'', dx_text = ''server closed the connection''\<rparr>, True)"

definition demo_batch :: "weekly_aggregate list" where
  "demo_batch = [\<lparr>wa_key = AggregateKey ''los_angeles'' ''c1'' 4, wa_inbound_units = 5, wa_outbound_orders = 1,
     wa_stockout_events = 0, wa_discrepancy_events = 1, wa_discrepancy_rate = (1, 0)\<rparr>]"

definition demo_quality :: quality_report where
  "demo_quality = \<lparr>qr_accepted = [], qr_rejected = [], qr_duplicate_ids = [], qr_duplicate_movements = [],
     qr_duplicate_movement_ids = [], qr_conflicts = [], qr_issues = [], qr_pending = [], qr_coverage_pending = []\<rparr>"

definition demo_request :: "uuid \<Rightarrow> int \<Rightarrow> publication_request" where
  "demo_request i token = \<lparr>pq_week_start = 4, pq_run_id = i, pq_aggregates = demo_batch, pq_quality = Some demo_quality,
     pq_coverage = Some \<lparr>cv_confirmed_event_types = REQUIRED_COVERAGE_EVENTS, cv_dispatch_order_ids = [],
       cv_lookup_complete = True, cv_source = ''operational_checkpoints''\<rparr>,
     pq_dependency_fingerprint = Some ''telemetry=4;movements=1;stockexit=0;rules=v1'', pq_rules_version = Some ''v1'',
     pq_lease = Some \<lparr>cl_week_start = 4, cl_run_id = i, cl_fencing_token = token, cl_acquisition_committed = True\<rparr>,
     pq_now = 30 * 86400000000, pq_records_processed = Some 4\<rparr>"

definition demo_leased :: run_db where
  "demo_leased = snd (acquire_week_lease demo_conn 4 1 60 demo_two)"

definition demo_world :: publication_world where
  "demo_world = \<lparr>pw_store = demo_leased, pw_weekly = [], pw_open = None, pw_unusable = False\<rparr>"

definition demo_first_publication :: "(coordinator_error + coordinator_result) \<times> publication_world" where
  "demo_first_publication = publish_weekly_business_report (demo_publication_env None) (demo_request 1 1) demo_world"

definition demo_again :: publication_world where
  "demo_again = (snd demo_first_publication)\<lparr>pw_store :=
     snd (acquire_week_lease demo_conn 4 2 60 (pw_store (snd demo_first_publication)))\<rparr>"

definition demo_second_publication :: "(coordinator_error + coordinator_result) \<times> publication_world" where
  "demo_second_publication = publish_weekly_business_report (demo_publication_env None) (demo_request 2 2) demo_again"

definition demo_lost_publication :: "(coordinator_error + coordinator_result) \<times> publication_world" where
  "demo_lost_publication = publish_weekly_business_report (demo_publication_env demo_lost) (demo_request 1 1) demo_world"

definition demo_resolved :: "(coordinator_error + coordinator_result) \<times> publication_world" where
  "demo_resolved = resolve_uncertain_publication (demo_publication_env None) 4 1
     ''telemetry=4;movements=1;stockexit=0;rules=v1'' ''v1'' (Some 1) False None False (snd demo_lost_publication)"

text \<open>What the witnesses read of an end: the answer and the committed table.\<close>

definition demo_end :: "(coordinator_error + coordinator_result) \<times> publication_world \<Rightarrow>
    (string \<times> bool \<times> int \<times> int \<times> int) option \<times> (string \<times> int list) list" where
  "demo_end x = (case fst x of Inl _ \<Rightarrow> None
      | Inr r \<Rightarrow> Some (cr_status r, business_publication_valid r, cr_inserted r, cr_updated r, cr_unchanged r),
    map (\<lambda>r. (key_client_id (pr_key r), fst (pr_kpis r))) (pw_weekly (snd x)))"

lemma demo_first_end: "demo_end demo_first_publication = (Some (''succeeded'', True, 1, 0, 0), [(''c1'', [5, 1, 0, 1])])"
  by code_simp

lemma demo_second_end: "demo_end demo_second_publication = (Some (''succeeded_noop'', True, 0, 0, 1), [(''c1'', [5, 1, 0, 1])])"
  by code_simp

lemma demo_lost_end: "demo_end demo_lost_publication = (Some (''commit_uncertain'', False, 1, 0, 0), [(''c1'', [5, 1, 0, 1])])"
  by code_simp

lemma demo_resolved_end: "demo_end demo_resolved = (Some (''succeeded'', True, 0, 0, 0), [(''c1'', [5, 1, 0, 1])])"
  by code_simp

lemma demo_leased_steps: "(store_step demo_clk)\<^sup>*\<^sup>* empty_store demo_leased"
proof -
  have "store_step demo_clk demo_two demo_leased"
    unfolding demo_leased_def by (rule st_acquire [OF demo_clock(1)], rule prod.collapse [symmetric])
  then show ?thesis using demo_steps(1) by simp
qed

lemma demo_publication_ok: "publication_ok demo_world" "pw_open demo_world = None"
  using store_steps_ok [OF demo_leased_steps empty_store_ok]
  by (simp_all add: demo_world_def publication_ok_def business_view_def weekly_of_def table_ok_def)

lemma demo_unpublished:
  "list_all (\<lambda>c. wc_last_valid_publication_run_id c = None) (rd_controls demo_leased)"
  by code_simp

lemma demo_closed: "pw_open (snd demo_first_publication) = None"
  by code_simp

lemma demo_usable: "pw_unusable (snd demo_first_publication) = False"
  by code_simp

lemma demo_again_ok: "publication_ok demo_again" "pw_open demo_again = None"
proof -
  have first: "publication_ok (snd demo_first_publication)"
    using publish_result [OF _ demo_publication_ok, of "demo_publication_env None" "demo_request 1 1"
        "fst demo_first_publication" "snd demo_first_publication"] by (simp add: demo_first_publication_def)
  let ?s = "pw_store (snd demo_first_publication)"
  have ok: "store_ok ?s" using first by (simp add: publication_ok_def)
  have "store_step demo_clk ?s (pw_store demo_again)"
    unfolding demo_again_def by simp (rule st_acquire [OF demo_clock(1)], rule prod.collapse [symmetric])
  then have "store_ok (pw_store demo_again)" using store_steps_ok ok by blast
  moreover show closed: "pw_open demo_again = None" using demo_closed by (simp add: demo_again_def)
  moreover have "pw_weekly demo_again = pw_weekly (snd demo_first_publication)" by (simp add: demo_again_def)
  ultimately show "publication_ok demo_again"
    using first business_view_closed [OF closed] by (simp add: publication_ok_def)
qed

section \<open>Properties\<close>


text \<open>
  C6. A publication is all or nothing. Whatever fails, whether the answer is a result or an exception,
  the committed weekly table and the week controls are either as they were, and then no success is
  answered; or they are those of the whole publication: the batch was valid and no published key of the
  week was missing from it, the table shows the batch and is otherwise unchanged, the run held the week
  under its confirmed token with an unexpired lease, and the control row names the publication and is
  free again. A valid publication is answered only in the second case.
\<close>

theorem publication_all_or_nothing:
  assumes "publish_weekly_business_report E Q w = (res, w')" and "publication_ok w" and "pw_open w = None"
  shows "untouched w w' \<and> (\<forall>r. res = Inr r \<longrightarrow> \<not> business_publication_valid r \<and> cr_status r \<notin> {''succeeded'', ''succeeded_noop''}) \<or>
    week_published E Q w w' \<and> (\<forall>r. res = Inr r \<longrightarrow> business_publication_valid r \<or> cr_status r = ''commit_uncertain'')"
  using publish_result [OF assms]
  by (auto simp: nothing_published_def published_def business_publication_valid_def)

theorem publication_all_or_nothing_witness:
  "week_published (demo_publication_env None) (demo_request 1 1) demo_world (snd demo_first_publication)"
proof -
  have "publish_weekly_business_report (demo_publication_env None) (demo_request 1 1) demo_world =
      (fst demo_first_publication, snd demo_first_publication)" by (simp add: demo_first_publication_def)
  from publication_all_or_nothing [OF this demo_publication_ok] show ?thesis
    using demo_first_end by (auto simp: demo_end_def split: sum.splits)
qed



text \<open>
  C15. A republication changes nothing. After a valid publication of a batch, as long as no other
  publication changes the weekly table, a later valid publication of the same figures by any run, in any
  order of the rows, leaves the table exactly as it is, its \<open>computed_at\<close> included, and answers
  \<open>succeeded_noop\<close> with every row unchanged.
\<close>

theorem republication_noop:
  assumes "publish_weekly_business_report E Q w = (Inr r, w1)" and "publication_ok w" and "pw_open w = None"
    and "business_publication_valid r" and "pw_weekly v = pw_weekly w1"
    and "publish_weekly_business_report E' Q' v = (Inr r', v')" and "publication_ok v" and "pw_open v = None"
    and "business_publication_valid r'" and "mset (pq_aggregates Q') = mset (pq_aggregates Q)"
  shows "cr_status r' = ''succeeded_noop'' \<and> cr_inserted r' = 0 \<and> cr_updated r' = 0 \<and>
    cr_unchanged r' = int (length (pq_aggregates Q)) \<and> pw_weekly v' = pw_weekly v"
proof -
  have "shows_batch (pq_aggregates Q) (pw_weekly w1)"
    using publish_result [OF assms(1-3)] assms(4)
    by (auto simp: nothing_published_def business_publication_valid_def week_published_def batch_published_def)
  moreover have same: "set (pq_aggregates Q') = set (pq_aggregates Q)" "length (pq_aggregates Q') = length (pq_aggregates Q)"
    using assms(10) by (metis mset_eq_setD, metis size_mset)
  ultimately have shown: "shows_batch (pq_aggregates Q') (pw_weekly v)" by (simp add: shows_batch_def assms(5))
  obtain controls where pub: "week_published E' Q' v v'" "published (staged_rows E' (pq_aggregates Q') (pw_weekly v)) controls
      (batch_counts (pw_weekly v) (pq_aggregates Q')) (Inr r') v'"
    using publish_result [OF assms(6-8)] assms(9) by (auto simp: nothing_published_def business_publication_valid_def)
  have "distinct (map wa_key (pq_aggregates Q'))"
    using pub(1) valid_batch_rows(1) by (auto simp: week_published_def)
  moreover have "keys_unique pr_key (pw_weekly v)" using assms(7) by (simp add: publication_ok_def table_ok_def)
  ultimately have "staged_rows E' (pq_aggregates Q') (pw_weekly v) = pw_weekly v \<and>
      batch_counts (pw_weekly v) (pq_aggregates Q') = (0, 0, int (length (pq_aggregates Q)))"
    using staged_unchanged [OF _ _ shown] same(2) by simp
  then show ?thesis
    using pub(2) assms(9) by (auto simp: published_def business_publication_valid_def)
qed

theorem republication_noop_witness:
  "\<exists>r. fst demo_second_publication = Inr r \<and> cr_status r = ''succeeded_noop'' \<and>
    pw_weekly (snd demo_second_publication) = pw_weekly (snd demo_first_publication)"
proof -
  obtain r where r: "fst demo_first_publication = Inr r" "business_publication_valid r"
    using demo_first_end by (auto simp: demo_end_def split: sum.splits)
  obtain r' where r': "fst demo_second_publication = Inr r'" "business_publication_valid r'"
    using demo_second_end by (auto simp: demo_end_def split: sum.splits)
  have one: "publish_weekly_business_report (demo_publication_env None) (demo_request 1 1) demo_world =
      (Inr r, snd demo_first_publication)"
    using r(1) by (metis demo_first_publication_def prod.collapse)
  have two: "publish_weekly_business_report (demo_publication_env None) (demo_request 2 2) demo_again =
      (Inr r', snd demo_second_publication)"
    using r'(1) by (metis demo_second_publication_def prod.collapse)
  have "mset (pq_aggregates (demo_request 2 2)) = mset (pq_aggregates (demo_request 1 1))" by (simp add: demo_request_def)
  from republication_noop [OF one demo_publication_ok r(2) _ two demo_again_ok r'(2) this] r'(1) show ?thesis
    by (simp add: demo_again_def)
qed



text \<open>
  C28. An uncertain commit is resolved by what is stored. After a publication that answered
  \<open>commit_uncertain\<close>, of a run that was not named by the publication pointer of its week before, the
  recovery with the metadata of the request recognises the publication exactly when it took effect, from
  any later state with the same week controls; it never changes the weekly table, and without the
  request to repair the history it always answers on a healthy connection.
\<close>

theorem uncertain_commit_resolved:
  assumes "publish_weekly_business_report E Q w = (Inr r, w')" and "publication_ok w" and "pw_open w = None"
    and "cr_status r = ''commit_uncertain''"
    and "\<forall>c. find_control (pw_store w) (pq_week_start Q) = Some c \<longrightarrow> wc_last_valid_publication_run_id c \<noteq> Some (pq_run_id Q)"
    and "pq_dependency_fingerprint Q = Some fp" and "pq_rules_version Q = Some rules"
    and "rd_controls (pw_store v) = rd_controls (pw_store w')" and "publication_ok v"
  shows "(\<forall>r' v'. resolve_uncertain_publication E' (pq_week_start Q) (pq_run_id Q) fp rules
        (Some (int (length (pq_aggregates Q)))) operational now persist v = (Inr r', v') \<longrightarrow>
      (business_publication_valid r' \<longleftrightarrow> week_published E Q w w') \<and> pw_weekly v' = pw_weekly v) \<and>
    (healthy (pb_business E') \<and> weekday (pq_week_start Q) = 0 \<longrightarrow>
      (\<exists>r'. fst (resolve_uncertain_publication E' (pq_week_start Q) (pq_run_id Q) fp rules
        (Some (int (length (pq_aggregates Q)))) operational now False v) = Inr r'))"
proof (intro conjI allI impI)
  fix r' v'
  assume res: "resolve_uncertain_publication E' (pq_week_start Q) (pq_run_id Q) fp rules
        (Some (int (length (pq_aggregates Q)))) operational now persist v = (Inr r', v')"
  show "pw_weekly v' = pw_weekly v" using resolve_untouched [OF res] by (simp add: untouched_def)
  obtain p t where read: "latest_valid_publication (pb_business E') (pq_week_start Q) (pw_store v) = (Inr p, t)"
    using resolve_read [OF res] .
  note answer = resolve_answer [OF res read]
  have same: "find_control (pw_store v) (pq_week_start Q) = find_control (pw_store w') (pq_week_start Q)"
    using assms(8) by (simp add: find_control_def)
  show "business_publication_valid r' \<longleftrightarrow> week_published E Q w w'"
  proof (cases "week_published E Q w w'")
    case True
    then show ?thesis using answer published_recognised [OF True read same assms(6,7)] by blast
  next
    case False
    then have "untouched w w'" using publish_result [OF assms(1-3)] by (auto simp: nothing_published_def)
    then show ?thesis using answer False unpublished_not_recognised [OF _ read same assms(5)] by blast
  qed
next
  assume h: "healthy (pb_business E') \<and> weekday (pq_week_start Q) = 0"
  have "store_ok (pw_store v)" using assms(9) by (simp add: publication_ok_def)
  then obtain p where "fst (latest_valid_publication (pb_business E') (pq_week_start Q) (pw_store v)) = Inr p"
    using latest_valid_publication_returns h by blast
  then show "\<exists>r'. fst (resolve_uncertain_publication E' (pq_week_start Q) (pq_run_id Q) fp rules
        (Some (int (length (pq_aggregates Q)))) operational now False v) = Inr r'"
    by (auto simp: resolve_uncertain_publication_def bind_cmd_def split: prod.splits)
qed

theorem uncertain_commit_resolved_witness:
  "\<exists>r. fst demo_resolved = Inr r \<and> business_publication_valid r \<and>
    week_published (demo_publication_env demo_lost) (demo_request 1 1) demo_world (snd demo_lost_publication)"
proof -
  let ?E = "demo_publication_env demo_lost" and ?Q = "demo_request 1 1"
  obtain r where r: "fst demo_lost_publication = Inr r" "cr_status r = ''commit_uncertain''"
    using demo_lost_end by (auto simp: demo_end_def split: sum.splits)
  obtain r' where r': "fst demo_resolved = Inr r'" "business_publication_valid r'"
    using demo_resolved_end by (auto simp: demo_end_def split: sum.splits)
  have run: "publish_weekly_business_report ?E ?Q demo_world = (Inr r, snd demo_lost_publication)"
    using r(1) by (metis demo_lost_publication_def prod.collapse)
  have Q: "pq_week_start ?Q = 4" "pq_run_id ?Q = 1" "int (length (pq_aggregates ?Q)) = 1"
    "pq_dependency_fingerprint ?Q = Some ''telemetry=4;movements=1;stockexit=0;rules=v1''" "pq_rules_version ?Q = Some ''v1''"
    by (simp_all add: demo_request_def demo_batch_def)
  have new: "\<forall>c. find_control (pw_store demo_world) (pq_week_start ?Q) = Some c \<longrightarrow>
      wc_last_valid_publication_run_id c \<noteq> Some (pq_run_id ?Q)"
    using demo_unpublished by (auto simp: demo_world_def list_all_iff dest!: find_control_Some)
  have ok: "publication_ok (snd demo_lost_publication)" using publish_result [OF run demo_publication_ok] by blast
  have "resolve_uncertain_publication (demo_publication_env None) (pq_week_start ?Q) (pq_run_id ?Q)
      ''telemetry=4;movements=1;stockexit=0;rules=v1'' ''v1'' (Some (int (length (pq_aggregates ?Q)))) False None False
      (snd demo_lost_publication) = (Inr r', snd demo_resolved)"
    unfolding Q using r'(1) by (metis demo_resolved_def prod.collapse)
  with uncertain_commit_resolved [OF run demo_publication_ok r(2) new Q(4,5) refl ok] r' show ?thesis by blast
qed

text \<open>
  The steps of the publication world: a publication after which its connections are closed, a recovery,
  and a committed operation of any other session on the run store.
\<close>

inductive publication_step :: "publication_world \<Rightarrow> publication_world \<Rightarrow> bool" where
  ps_publish: "publish_weekly_business_report E Q w = (res, w') \<Longrightarrow>
    publication_step w (w'\<lparr>pw_open := None, pw_unusable := False\<rparr>)"
| ps_resolve: "resolve_uncertain_publication E week i fp rules n op now persist w = (res, w') \<Longrightarrow> publication_step w w'"
| ps_store: "store_step clk (pw_store w) s \<Longrightarrow> publication_step w (w\<lparr>pw_store := s\<rparr>)"

inductive_cases publication_stepE: "publication_step w w'"

lemma publication_step_kept:
  assumes "publication_step w w'" and "publication_ok w" and "pw_open w = None"
  shows "publication_ok w' \<and> pw_open w' = None \<and> pr_key ` set (pw_weekly w) \<subseteq> pr_key ` set (pw_weekly w')"
  using assms(1)
proof (cases rule: publication_step.cases)
  case (ps_publish E Q res v)
  have "publication_ok v" "pr_key ` set (pw_weekly w) \<subseteq> pr_key ` set (pw_weekly v)"
    using publish_result [OF ps_publish(2) assms(2,3)]
    by (auto simp: nothing_published_def untouched_def week_published_def batch_published_def)
  then show ?thesis by (simp add: ps_publish(1) publication_ok_def business_view_def weekly_of_def)
next
  case (ps_resolve E week i fp rules n op now persist res)
  then show ?thesis using resolve_ok [OF ps_resolve assms(2)] resolve_untouched [OF ps_resolve] assms(3)
    by (simp add: untouched_def)
next
  case (ps_store clk s)
  moreover have "store_ok (pw_store w)" using assms(2) by (simp add: publication_ok_def)
  ultimately have "store_ok s" using store_steps_ok [OF r_into_rtranclp] by blast
  then show ?thesis using assms(2,3) ps_store(1)
    by (simp add: publication_ok_def business_view_def weekly_of_def)
qed

text \<open>
  C29. The published table stays well formed and loses nothing. In every state reached from an empty
  world by publications, recoveries and operations of other sessions on the run store, whatever fails,
  the keys of the weekly table are unique, every row has a canonical warehouse, a client, a Monday, four
  counts that fit a PostgreSQL integer and the official rate of its counts, the run store is well
  formed, and no published key is ever deleted by later steps.
\<close>

theorem published_table_invariant:
  assumes "publication_step\<^sup>*\<^sup>* \<lparr>pw_store = empty_store, pw_weekly = [], pw_open = None, pw_unusable = False\<rparr> w"
    and "publication_step\<^sup>*\<^sup>* w w'"
  shows "keys_unique pr_key (pw_weekly w) \<and> list_all published_row_ok (pw_weekly w) \<and> store_ok (pw_store w) \<and>
    pr_key ` set (pw_weekly w) \<subseteq> pr_key ` set (pw_weekly w')"
proof -
  let ?start = "\<lparr>pw_store = empty_store, pw_weekly = [], pw_open = None, pw_unusable = False\<rparr>"
  have start: "publication_ok ?start" "pw_open ?start = None"
    using empty_store_ok by (simp_all add: publication_ok_def business_view_def weekly_of_def table_ok_def)
  have reach: "publication_ok b \<and> pw_open b = None \<and> pr_key ` set (pw_weekly a) \<subseteq> pr_key ` set (pw_weekly b)"
    if "publication_step\<^sup>*\<^sup>* a b" "publication_ok a" "pw_open a = None" for a b
    using that
  proof (induction rule: rtranclp_induct)
    case (step b c)
    then show ?case using publication_step_kept [OF step.hyps(2)] by auto
  qed simp
  have w: "publication_ok w" "pw_open w = None" using reach [OF assms(1) start] by blast+
  have "pr_key ` set (pw_weekly w) \<subseteq> pr_key ` set (pw_weekly w')" using reach [OF assms(2) w] by blast
  then show ?thesis using w(1) by (simp add: publication_ok_def table_ok_def list_all_iff)
qed

theorem published_table_invariant_witness:
  "pr_key ` set (pw_weekly (snd demo_first_publication)) \<subseteq> pr_key ` set (pw_weekly (snd demo_second_publication)) \<and>
   pw_weekly (snd demo_first_publication) \<noteq> []"
proof -
  let ?start = "\<lparr>pw_store = empty_store, pw_weekly = [], pw_open = None, pw_unusable = False\<rparr>"
  let ?close = "\<lambda>w. w\<lparr>pw_open := None, pw_unusable := False\<rparr>"
  have store: "publication_step\<^sup>*\<^sup>* w (w\<lparr>pw_store := s\<rparr>)" if "(store_step demo_clk)\<^sup>*\<^sup>* (pw_store w) s" for w s
    using that
  proof (induction rule: rtranclp_induct)
    case (step t u)
    have "publication_step (w\<lparr>pw_store := t\<rparr>) (w\<lparr>pw_store := u\<rparr>)"
      using ps_store [of demo_clk "w\<lparr>pw_store := t\<rparr>" u] step by simp
    then show ?case using step by simp
  qed simp
  have "publication_step\<^sup>*\<^sup>* ?start demo_world" using store [of ?start demo_leased] demo_leased_steps by (simp add: demo_world_def)
  moreover have "publication_step demo_world (?close (snd demo_first_publication))"
    unfolding demo_first_publication_def by (rule ps_publish, rule prod.collapse [symmetric])
  ultimately have first: "publication_step\<^sup>*\<^sup>* ?start (?close (snd demo_first_publication))" by simp
  have "store_step demo_clk (pw_store (snd demo_first_publication)) (pw_store demo_again)"
    unfolding demo_again_def by simp (rule st_acquire [OF demo_clock(1)], rule prod.collapse [symmetric])
  then have "publication_step (snd demo_first_publication) demo_again"
    using ps_store by (metis demo_again_def publication_world.simps(1) publication_world.surjective publication_world.update_convs(1))
  moreover have "?close (snd demo_first_publication) = snd demo_first_publication"
    using demo_closed demo_usable by (cases "snd demo_first_publication") simp
  moreover have "publication_step demo_again (?close (snd demo_second_publication))"
    unfolding demo_second_publication_def by (rule ps_publish, rule prod.collapse [symmetric])
  ultimately have "publication_step\<^sup>*\<^sup>* (?close (snd demo_first_publication)) (?close (snd demo_second_publication))"
    by (metis rtranclp.rtrancl_into_rtrancl rtranclp.rtrancl_refl)
  from published_table_invariant [OF first this] demo_first_end show ?thesis by (auto simp: demo_end_def)
qed

end
