(* ===== verification/InventoryTraces.thy ===== *)
theory InventoryTraces
  imports InventoryFrames
begin

text \<open>
  The trail a movement, an order or a count leaves: its threshold evaluation and its outbox row, both
  at its own instant and with its own content, and for each outbox row the one source it comes from.
  What the rows of a trail say never changes, so each statement about one row survives every later
  transaction, and a transaction has to establish it for the rows it adds only.
\<close>

section \<open>Trails\<close>

text \<open>The columns of a product that no transaction changes.\<close>

definition sku_fact :: "sku_row \<Rightarrow> int \<times> string option \<times> string \<times> string" where
  "sku_fact p = (sku_id p, sku_client_id p, sku_category p, sku_warehouse p)"

definition sku_facts :: "inventory_db \<Rightarrow> (int \<times> string option \<times> string \<times> string) set" where
  "sku_facts d = sku_fact ` set (db_skus d)"

definition product_of :: "inventory_db \<Rightarrow> int \<Rightarrow> string \<Rightarrow> sku_row \<Rightarrow> bool" where
  "product_of d k w p \<longleftrightarrow> sku_fact p \<in> sku_facts d \<and> sku_id p = k \<and> sku_warehouse p = w"

text \<open>The columns of an outbox row that no relay writes.\<close>

definition outbox_fact :: "outbox_row \<Rightarrow> uuid \<times> (string \<times> int \<times> string) \<times> time \<times> tags" where
  "outbox_fact r = (ob_event_id r, ob_source r, ob_occurred_at r, ob_tags r)"

definition outbox_facts :: "inventory_db \<Rightarrow> (uuid \<times> (string \<times> int \<times> string) \<times> time \<times> tags) set" where
  "outbox_facts d = outbox_fact ` set (db_outbox d)"

definition threshold_crossed :: "threshold_evaluation \<Rightarrow> bool" where
  "threshold_crossed v \<longleftrightarrow> (case te_threshold_quantity v of
     None \<Rightarrow> False | Some t \<Rightarrow> te_before_quantity v > t \<and> te_after_quantity v \<le> t)"

definition evaluates :: "string \<times> int \<Rightarrow> sku_row \<Rightarrow> time \<Rightarrow> threshold_evaluation \<Rightarrow> bool" where
  "evaluates source p tm v \<longleftrightarrow> te_source v = source \<and> te_sku_id v = sku_id p \<and>
     te_client_id v = sku_client_id p \<and> te_warehouse v = sku_warehouse p \<and> te_evaluated_at v = tm"

definition entry_traced :: "inventory_db \<Rightarrow> stock_entry \<Rightarrow> bool" where
  "entry_traced d e \<longleftrightarrow> (\<exists>p. product_of d (en_sku_id e) (en_warehouse e) p \<and>
     (\<exists>v \<in> set (db_evals d). evaluates (''stockentry'', en_id e) p (en_created_at e) v \<and>
        te_after_quantity v = te_before_quantity v + en_quantity e \<and> \<not> te_crossed v \<and> te_event_id v = None) \<and>
     (sku_client_id p \<noteq> None \<longrightarrow> (\<exists>u w. canonical_telemetry_warehouse (en_warehouse e) = Some w \<and>
        (u, (''stockentry'', en_id e, ''inbound_order_created''), en_created_at e, inbound_tags p w e) \<in> outbox_facts d)))"

definition exit_traced :: "inventory_db \<Rightarrow> stock_exit \<Rightarrow> bool" where
  "exit_traced d x \<longleftrightarrow> (\<exists>p. product_of d (ex_sku_id x) (ex_warehouse x) p \<and>
     (\<exists>v \<in> set (db_evals d). evaluates (''stockexit'', ex_id x) p (ex_created_at x) v \<and>
        te_after_quantity v = te_before_quantity v - ex_quantity x \<and> (te_crossed v \<longleftrightarrow> threshold_crossed v) \<and>
        (if te_crossed v
         then \<exists>u w. te_event_id v = Some u \<and> canonical_telemetry_warehouse (ex_warehouse x) = Some w \<and>
           sku_client_id p \<noteq> None \<and>
           (u, (''stockexit'', ex_id x, ''stock_threshold_triggered''), ex_created_at x,
            threshold_tags p w (te_after_quantity v) (the (te_threshold_quantity v)) (ex_id x)) \<in> outbox_facts d
         else te_event_id v = None)))"

definition order_traced :: "inventory_db \<Rightarrow> commercial_order \<Rightarrow> bool" where
  "order_traced d c \<longleftrightarrow>
     (\<exists>x \<in> set (db_exits d). ex_commercial_order_id x = Some (co_id c) \<and> ex_warehouse x = co_warehouse c) \<and>
     (\<exists>u. (u, (''commercial_order'', co_id c, ''outbound_order_created''), co_created_at c, outbound_tags c) \<in> outbox_facts d)"

definition count_traced :: "inventory_db \<Rightarrow> physical_count \<Rightarrow> bool" where
  "count_traced d c \<longleftrightarrow> (\<exists>p. product_of d (pc_sku_id c) (pc_warehouse c) p \<and> sku_client_id p = Some (pc_client_id c) \<and>
     (pc_observed_quantity c \<noteq> pc_expected_quantity c \<longrightarrow>
       (\<exists>u w. canonical_telemetry_warehouse (pc_warehouse c) = Some w \<and>
        (u, (''inventory_physical_count'', pc_id c, ''inventory_discrepancy_detected''), pc_confirmed_at c,
         discrepancy_tags p w c) \<in> outbox_facts d)))"

text \<open>The one source of an outbox row, at the instant of the row.\<close>

definition from_entry :: "inventory_db \<Rightarrow> outbox_row \<Rightarrow> bool" where
  "from_entry d r \<longleftrightarrow> (\<exists>e \<in> set (db_entries d).
     ob_source r = (''stockentry'', en_id e, ''inbound_order_created'') \<and> ob_occurred_at r = en_created_at e)"

definition from_order :: "inventory_db \<Rightarrow> outbox_row \<Rightarrow> bool" where
  "from_order d r \<longleftrightarrow> (\<exists>c \<in> set (db_orders d).
     ob_source r = (''commercial_order'', co_id c, ''outbound_order_created'') \<and> ob_occurred_at r = co_created_at c)"

definition from_exit :: "inventory_db \<Rightarrow> outbox_row \<Rightarrow> bool" where
  "from_exit d r \<longleftrightarrow> (\<exists>x \<in> set (db_exits d). \<exists>v \<in> set (db_evals d).
     ob_source r = (''stockexit'', ex_id x, ''stock_threshold_triggered'') \<and> ob_occurred_at r = ex_created_at x \<and>
     te_source v = (''stockexit'', ex_id x) \<and> te_crossed v)"

definition from_count :: "inventory_db \<Rightarrow> outbox_row \<Rightarrow> bool" where
  "from_count d r \<longleftrightarrow> (\<exists>c \<in> set (db_counts d). pc_observed_quantity c \<noteq> pc_expected_quantity c \<and>
     ob_source r = (''inventory_physical_count'', pc_id c, ''inventory_discrepancy_detected'') \<and>
     ob_occurred_at r = pc_confirmed_at c)"

definition sourced :: "inventory_db \<Rightarrow> outbox_row \<Rightarrow> bool" where
  "sourced d r \<longleftrightarrow> from_entry d r \<or> from_order d r \<or> from_exit d r \<or> from_count d r"

definition traced :: "inventory_db \<Rightarrow> bool" where
  "traced d \<longleftrightarrow> (\<forall>e \<in> set (db_entries d). entry_traced d e) \<and> (\<forall>x \<in> set (db_exits d). exit_traced d x) \<and>
     (\<forall>c \<in> set (db_orders d). order_traced d c) \<and> (\<forall>c \<in> set (db_counts d). count_traced d c) \<and>
     (\<forall>r \<in> set (db_outbox d). sourced d r)"

section \<open>Trails survive\<close>

definition extends :: "inventory_db \<Rightarrow> inventory_db \<Rightarrow> bool" where
  "extends d d' \<longleftrightarrow> sku_facts d \<subseteq> sku_facts d' \<and> outbox_facts d \<subseteq> outbox_facts d' \<and>
     set (db_entries d) \<subseteq> set (db_entries d') \<and> set (db_exits d) \<subseteq> set (db_exits d') \<and>
     set (db_orders d) \<subseteq> set (db_orders d') \<and> set (db_counts d) \<subseteq> set (db_counts d') \<and>
     set (db_evals d) \<subseteq> set (db_evals d')"

lemma trail_extends_refl [simp]: "extends d d"
  by (simp add: extends_def)

lemma extends_trans: "extends d d' \<Longrightarrow> extends d' d'' \<Longrightarrow> extends d d''"
  by (auto simp: extends_def)

lemma product_of_extends: "extends d d' \<Longrightarrow> product_of d k w p \<Longrightarrow> product_of d' k w p"
  by (auto simp: extends_def product_of_def)

lemma trails_survive:
  assumes "extends d d'"
  shows "entry_traced d e \<Longrightarrow> entry_traced d' e" "exit_traced d x \<Longrightarrow> exit_traced d' x"
    "order_traced d c \<Longrightarrow> order_traced d' c" "count_traced d k \<Longrightarrow> count_traced d' k" "sourced d r \<Longrightarrow> sourced d' r"
proof -
  note sub = assms [unfolded extends_def] product_of_extends [OF assms]
  show "entry_traced d e \<Longrightarrow> entry_traced d' e"
    unfolding entry_traced_def using sub by (meson subsetD)
  show "exit_traced d x \<Longrightarrow> exit_traced d' x"
    unfolding exit_traced_def using sub by (smt (verit, best) subsetD)
  show "order_traced d c \<Longrightarrow> order_traced d' c"
    unfolding order_traced_def using sub by (meson subsetD)
  show "count_traced d k \<Longrightarrow> count_traced d' k"
    unfolding count_traced_def using sub by (meson subsetD)
  show "sourced d r \<Longrightarrow> sourced d' r"
    unfolding sourced_def from_entry_def from_order_def from_exit_def from_count_def using sub by (meson subsetD)
qed

lemma traced_extends:
  assumes "traced d" and "extends d d'"
    and "\<And>e. e \<in> set (db_entries d') \<Longrightarrow> e \<in> set (db_entries d) \<or> entry_traced d' e"
    and "\<And>x. x \<in> set (db_exits d') \<Longrightarrow> x \<in> set (db_exits d) \<or> exit_traced d' x"
    and "\<And>c. c \<in> set (db_orders d') \<Longrightarrow> c \<in> set (db_orders d) \<or> order_traced d' c"
    and "\<And>c. c \<in> set (db_counts d') \<Longrightarrow> c \<in> set (db_counts d) \<or> count_traced d' c"
    and "\<And>r. r \<in> set (db_outbox d') \<Longrightarrow> r \<in> set (db_outbox d) \<or> sourced d' r"
  shows "traced d'"
  using assms trails_survive [OF assms(2)] unfolding traced_def by blast

section \<open>Issues\<close>

lemma sku_fact_in: "p \<in> set (db_skus d) \<Longrightarrow> sku_fact p \<in> sku_facts d"
  by (simp add: sku_facts_def)

lemma outbox_fact_in: "r \<in> set (db_outbox d) \<Longrightarrow> (ob_event_id r, ob_source r, ob_occurred_at r, ob_tags r) \<in> outbox_facts d"
  by (force simp: outbox_facts_def outbox_fact_def)

lemma crosses_evaluated:
  "evaluation_of st pk p before after i tm v \<Longrightarrow> crosses p before after \<longleftrightarrow> threshold_crossed v"
  by (auto simp: evaluation_of_def crosses_def threshold_crossed_def split: option.splits)

lemma evaluation_evaluates:
  "evaluation_of st pk p before after i tm v \<Longrightarrow>
     evaluates (st, pk) p tm v \<and> te_before_quantity v = before \<and> te_after_quantity v = after \<and>
     te_threshold_quantity v = sku_minimum_stock_threshold p \<and> te_event_id v = i \<and> (te_crossed v \<longleftrightarrow> i \<noteq> None)"
  by (auto simp: evaluation_of_def evaluates_def te_source_def)

lemma issue_step_traced:
  assumes "issue_step d x d'"
  shows "extends d d' \<and> exit_traced d' x \<and>
    (\<forall>r \<in> set (db_outbox d'). r \<in> set (db_outbox d) \<or> sourced d' r)"
  using assms
proof cases
  case (issue_stepI p before i table v)
  note v = evaluation_evaluates [OF issue_stepI(13)] and c = crosses_evaluated [OF issue_stepI(13)]
  have p: "product_of d' (ex_sku_id x) (ex_warehouse x) p"
    using issue_stepI(2-4) by (simp add: product_of_def sku_fact_in issue_stepI(1) sku_facts_def)
  have v_in: "v \<in> set (db_evals d')" by (simp add: issue_stepI(1))
  show ?thesis
  proof (cases "crosses p before (before - ex_quantity x)")
    case False
    then have out: "i = None" "table = db_outbox d" using issue_stepI(12) by (auto simp: threshold_outcome_def)
    have "extends d d'" by (auto simp: extends_def issue_stepI(1) out sku_facts_def outbox_facts_def)
    moreover have "exit_traced d' x"
      unfolding exit_traced_def using p v v_in c False out by (intro exI [of _ p] conjI bexI [of _ v]) auto
    ultimately show ?thesis by (simp add: issue_stepI(1) out)
  next
    case True
    then obtain u w where out: "i = Some u" "canonical_telemetry_warehouse (sku_warehouse p) = Some w" "truthy (sku_client_id p)"
      and enq: "enqueue_inventory_event u (ex_created_at x) ''stockexit'' (ex_id x) ''stock_threshold_triggered''
        (threshold_tags p w (before - ex_quantity x) (the (sku_minimum_stock_threshold p)) (ex_id x)) (db_outbox d) = (Inr (), table)"
      using issue_stepI(12) by (auto simp: threshold_outcome_def)
    let ?r = "new_outbox_row u (ex_created_at x) ''stockexit'' (ex_id x) ''stock_threshold_triggered''
        (threshold_tags p w (before - ex_quantity x) (the (sku_minimum_stock_threshold p)) (ex_id x))"
    have table: "table = db_outbox d @ [?r]" using enq by (simp add: enqueue_Inr)
    have known: "sku_client_id p \<noteq> None" using out(3) by (cases "sku_client_id p") simp_all
    have fact: "(u, (''stockexit'', ex_id x, ''stock_threshold_triggered''), ex_created_at x,
        threshold_tags p w (te_after_quantity v) (the (te_threshold_quantity v)) (ex_id x)) \<in> outbox_facts d'"
      using outbox_fact_in [of ?r d'] v by (simp add: issue_stepI(1) table)
    have "extends d d'" by (auto simp: extends_def issue_stepI(1) table sku_facts_def outbox_facts_def)
    moreover have "exit_traced d' x"
      unfolding exit_traced_def using p v v_in c True out fact known issue_stepI(4)
      by (intro exI [of _ p] conjI bexI [of _ v]) auto
    moreover have "sourced d' ?r"
      unfolding sourced_def from_exit_def
      using v v_in out(1) by (auto simp: issue_stepI(1) evaluates_def)
    ultimately show ?thesis by (simp add: issue_stepI(1) table)
  qed
qed

lemma issue_all_traced:
  "issue_all d xs d' \<Longrightarrow> extends d d' \<and> (\<forall>x \<in> set xs. exit_traced d' x) \<and>
     (\<forall>r \<in> set (db_outbox d'). r \<in> set (db_outbox d) \<or> sourced d' r)"
proof (induction rule: issue_all.induct)
  case (issue_more d x d' xs d'')
  note step = issue_step_traced [OF issue_more.hyps(1)]
  note keep = trails_survive [of d' d'']
  show ?case using step issue_more.IH keep extends_trans by auto
qed simp

section \<open>Transactions\<close>

lemma traced_issue_all:
  assumes t: "traced d" and step: "issue_all d xs d'"
  shows "traced d'"
proof -
  note s = issue_all_traced [OF step] and frame = issue_all_frame [OF step]
  show ?thesis by (rule traced_extends [OF t]) (use s frame in auto)
qed

lemma traced_open_order:
  assumes t: "traced d" and step: "issue_all (d\<lparr>db_orders := db_orders d @ [c]\<rparr>) xs d'" and xs: "xs \<noteq> []"
    and disp: "\<forall>x \<in> set xs. dispatch_of d c x"
    and enq: "enqueue_inventory_event u (co_created_at c) ''commercial_order'' (co_id c) ''outbound_order_created''
        (outbound_tags c) (db_outbox d') = (Inr (), table)"
  shows "traced (d'\<lparr>db_outbox := table\<rparr>)" (is "traced ?d")
proof -
  let ?r = "new_outbox_row u (co_created_at c) ''commercial_order'' (co_id c) ''outbound_order_created'' (outbound_tags c)"
  note s = issue_all_traced [OF step] and frame = issue_all_frame [OF step]
  have table: "table = db_outbox d' @ [?r]" using enq by (simp add: enqueue_Inr)
  have ext: "extends d' ?d" by (auto simp: extends_def table sku_facts_def outbox_facts_def)
  have "extends d (d\<lparr>db_orders := db_orders d @ [c]\<rparr>)" by (auto simp: extends_def sku_facts_def outbox_facts_def)
  then have d: "extends d ?d" using s ext extends_trans by blast
  have order: "order_traced ?d c"
  proof -
    obtain x where "x \<in> set xs" using xs by (cases xs) auto
    then show ?thesis
      using disp frame outbox_fact_in [of ?r ?d] unfolding order_traced_def
      by (auto simp: table dispatch_of_def intro!: bexI [of _ x])
  qed
  show ?thesis
  proof (rule traced_extends [OF t d])
    show "x \<in> set (db_exits d) \<or> exit_traced ?d x" if "x \<in> set (db_exits ?d)" for x
      using that s frame trails_survive(2) [OF ext] by auto
    show "k \<in> set (db_orders d) \<or> order_traced ?d k" if "k \<in> set (db_orders ?d)" for k
      using that frame order by auto
    show "r \<in> set (db_outbox d) \<or> sourced ?d r" if "r \<in> set (db_outbox ?d)" for r
    proof -
      have "sourced ?d ?r" using frame by (auto simp: sourced_def from_order_def)
      then show ?thesis using that s trails_survive(5) [OF ext] by (auto simp: table)
    qed
  qed (use frame in simp_all)
qed

lemma traced_receive:
  assumes t: "traced d" and p: "p \<in> set (db_skus d)" "en_sku_id x = sku_id p" "en_warehouse x = sku_warehouse p"
    and known: "canonical_telemetry_warehouse (en_warehouse x) \<noteq> None"
    and out: "inbound_outcome p x (db_outbox d) table"
    and v: "evaluation_of ''stockentry'' (en_id x) p before (before + en_quantity x) None (en_created_at x) v"
  shows "traced (d\<lparr>db_entries := db_entries d @ [x], db_outbox := table, db_evals := db_evals d @ [v]\<rparr>)" (is "traced ?d")
proof -
  note ev = evaluation_evaluates [OF v]
  obtain w where w: "canonical_telemetry_warehouse (en_warehouse x) = Some w" using known by blast
  obtain rows where table: "table = db_outbox d @ rows"
    and rows: "\<forall>r \<in> set rows. ob_source r = (''stockentry'', en_id x, ''inbound_order_created'') \<and> ob_occurred_at r = en_created_at x"
    and fact: "sku_client_id p \<noteq> None \<longrightarrow> (\<exists>r \<in> set rows. ob_tags r = inbound_tags p w x)"
  proof (cases "sku_client_id p")
    case None
    then show thesis using out that [of "[]"] by (simp add: inbound_outcome_def)
  next
    case (Some c)
    then obtain u where "enqueue_inventory_event u (en_created_at x) ''stockentry'' (en_id x) ''inbound_order_created''
        (inbound_tags p w x) (db_outbox d) = (Inr (), table)"
      using out w by (auto simp: inbound_outcome_def)
    then show thesis
      by (intro that [of "[new_outbox_row u (en_created_at x) ''stockentry'' (en_id x) ''inbound_order_created''
        (inbound_tags p w x)]"]) (auto simp: enqueue_Inr)
  qed
  have ext: "extends d ?d" by (auto simp: extends_def table sku_facts_def outbox_facts_def)
  have prod: "product_of ?d (en_sku_id x) (en_warehouse x) p"
    using p by (simp add: product_of_def sku_facts_def)
  have "entry_traced ?d x"
    unfolding entry_traced_def
  proof (intro exI [of _ p] conjI prod impI bexI [of _ v])
    assume "sku_client_id p \<noteq> None"
    then obtain r where r: "r \<in> set rows" "ob_tags r = inbound_tags p w x" using fact by blast
    then have "(ob_event_id r, ob_source r, ob_occurred_at r, ob_tags r) \<in> outbox_facts ?d"
      by (intro outbox_fact_in) (simp add: table)
    then show "\<exists>u w. canonical_telemetry_warehouse (en_warehouse x) = Some w \<and>
        (u, (''stockentry'', en_id x, ''inbound_order_created''), en_created_at x, inbound_tags p w x) \<in> outbox_facts ?d"
      using r rows w by auto
  qed (use ev in auto)
  moreover have "sourced ?d r" if "r \<in> set rows" for r
    using that rows by (auto simp: sourced_def from_entry_def)
  ultimately show ?thesis by (intro traced_extends [OF t ext]) (auto simp: table)
qed

lemma traced_count:
  assumes t: "traced d" and p: "p \<in> set (db_skus d)" "pc_sku_id c = sku_id p" "pc_warehouse c = sku_warehouse p"
    "sku_client_id p = Some (pc_client_id c)" and out: "count_outcome p c (db_outbox d) table"
  shows "traced (d\<lparr>db_counts := db_counts d @ [c], db_outbox := table\<rparr>)" (is "traced ?d")
proof -
  let ?differs = "pc_observed_quantity c \<noteq> pc_expected_quantity c"
  obtain rows where table: "table = db_outbox d @ rows"
    and rows: "\<forall>r \<in> set rows. ?differs \<and> ob_source r = (''inventory_physical_count'', pc_id c, ''inventory_discrepancy_detected'') \<and>
        ob_occurred_at r = pc_confirmed_at c"
    and fact: "?differs \<longrightarrow> (\<exists>r \<in> set rows. \<exists>w. canonical_telemetry_warehouse (pc_warehouse c) = Some w \<and> ob_tags r = discrepancy_tags p w c)"
  proof (cases ?differs)
    case False
    then show thesis using out that [of "[]"] by (simp add: count_outcome_def)
  next
    case True
    then obtain u w where w: "canonical_telemetry_warehouse (pc_warehouse c) = Some w"
      and enq: "enqueue_inventory_event u (pc_confirmed_at c) ''inventory_physical_count'' (pc_id c)
        ''inventory_discrepancy_detected'' (discrepancy_tags p w c) (db_outbox d) = (Inr (), table)"
      using out by (auto simp: count_outcome_def)
    show thesis using enq w True
      by (intro that [of "[new_outbox_row u (pc_confirmed_at c) ''inventory_physical_count'' (pc_id c)
        ''inventory_discrepancy_detected'' (discrepancy_tags p w c)]"]) (auto simp: enqueue_Inr)
  qed
  have ext: "extends d ?d" by (auto simp: extends_def table sku_facts_def outbox_facts_def)
  have prod: "product_of ?d (pc_sku_id c) (pc_warehouse c) p"
    using p by (simp add: product_of_def sku_facts_def)
  have "count_traced ?d c"
    unfolding count_traced_def
  proof (intro exI [of _ p] conjI prod p(4) impI)
    assume ?differs
    then obtain r w where r: "r \<in> set rows" "canonical_telemetry_warehouse (pc_warehouse c) = Some w" "ob_tags r = discrepancy_tags p w c"
      using fact by blast
    then have "(ob_event_id r, ob_source r, ob_occurred_at r, ob_tags r) \<in> outbox_facts ?d"
      by (intro outbox_fact_in) (simp add: table)
    then show "\<exists>u w. canonical_telemetry_warehouse (pc_warehouse c) = Some w \<and>
        (u, (''inventory_physical_count'', pc_id c, ''inventory_discrepancy_detected''), pc_confirmed_at c, discrepancy_tags p w c) \<in> outbox_facts ?d"
      using r rows by auto
  qed
  moreover have "sourced ?d r" if "r \<in> set rows" for r
    using that rows by (auto simp: sourced_def from_count_def)
  ultimately show ?thesis by (intro traced_extends [OF t ext]) (auto simp: table)
qed

lemma txn_traced:
  assumes "txn d d'" and ok: "inventory_ok d" and t: "traced d"
  shows "traced d'"
  using assms(1)
proof cases
  case (txn_product r)
  have "extends d d'" by (auto simp: txn_product(1) extends_def sku_facts_def outbox_facts_def)
  then show ?thesis by (intro traced_extends [OF t]) (auto simp: txn_product(1))
next
  case (txn_threshold threshold k)
  have "sku_facts d' = sku_facts d"
  proof -
    have "map sku_fact (db_skus d') = map sku_fact (db_skus d)"
      by (simp add: txn_threshold(1) sql_update_def sku_fact_def)
    then show ?thesis unfolding sku_facts_def by (metis list.set_map)
  qed
  then have "extends d d'" by (auto simp: extends_def txn_threshold(1) outbox_facts_def)
  then show ?thesis by (intro traced_extends [OF t]) (auto simp: txn_threshold(1))
next
  case (txn_receive p x before table v)
  have "parse_warehouse (sku_warehouse p) \<noteq> None"
    using ok txn_receive(2) by (auto simp: inventory_ok_def tables_ok_def sku_ok_def)
  then have "canonical_telemetry_warehouse (en_warehouse x) \<noteq> None"
    using sku_warehouse_known [of "sku_warehouse p"] txn_receive(4) by auto
  then show ?thesis using traced_receive [OF t txn_receive(2-4)] txn_receive by blast
next
  case (txn_issue x)
  have "issue_all d [x] d'" using txn_issue(1) by (auto intro: issue_all.intros)
  then show ?thesis by (rule traced_issue_all [OF t])
next
  case (txn_count p c table)
  then show ?thesis using traced_count [OF t] by blast
next
  case (txn_open_order c xs e u table)
  then show ?thesis using traced_open_order [OF t] by blast
next
  case (txn_extend_order c xs)
  then show ?thesis using traced_issue_all [OF t] by blast
qed

end
