(* ===== verification/WeeklyExtraction.thy ===== *)
theory WeeklyExtraction
  imports WeeklyPerformance InventoryStore DatabaseIdentity
begin

text \<open>
  The read-only extraction of one ISO week, \<open>pipelines/extraction.py\<close>. A database is the rows of its
  tables as the snapshot of the reading transaction shows them: the telemetry rows, and the inventory
  tables for the commercial orders and their dispatches. A connection carries the dialect the code
  asks for and, for each point at which SQLAlchemy can raise, the text of the error. The instants of
  the tables are UTC, so \<open>_as_datetime\<close> accepts them all. A rollback after a failed read is silent.
\<close>

section \<open>The tables as they are read\<close>

record reporting_row =
  rp_id :: uuid
  rp_timestamp :: time
  rp_service :: string
  rp_event_type :: string
  rp_level :: "string option"
  rp_value :: "int option"
  rp_message :: "string option"
  rp_tags :: tags

text \<open>A row that is stored without an identity takes the one the database draws.\<close>

definition stored_row :: "(nat \<Rightarrow> uuid) \<Rightarrow> nat \<times> telemetry_row \<Rightarrow> reporting_row" where
  "stored_row drawn = (\<lambda>(n, r). \<lparr>rp_id = or_else (tr_id r) (drawn n), rp_timestamp = tr_timestamp r,
     rp_service = tr_service r, rp_event_type = tr_event_type r, rp_level = tr_level r,
     rp_value = tr_value r, rp_message = tr_message r, rp_tags = tr_tags r\<rparr>)"

definition stored_rows :: "(nat \<Rightarrow> uuid) \<Rightarrow> telemetry_row list \<Rightarrow> reporting_row list" where
  "stored_rows drawn table = map (stored_row drawn) (List.enumerate 0 table)"

datatype read_point = Connecting | Beginning | Isolating | Reading string | Committing | Closing

record read_connection =
  rc_engine :: engine
  rc_dialect :: "string option"
  rc_fails :: "read_point \<Rightarrow> string option"

datatype extraction_error =
    WeeklyExtractionError string date string
  | ExtractionValueError string
  | ExtractionIsolation isolation_error

definition reads :: "read_connection \<Rightarrow> read_point \<Rightarrow> string \<Rightarrow> date \<Rightarrow> extraction_error + unit" where
  "reads C p phase week_start =
     (case rc_fails C p of None \<Rightarrow> Inr () | Some m \<Rightarrow> Inl (WeeklyExtractionError phase week_start m))"

section \<open>Results\<close>

record movement_occurrence =
  mo_event_type :: string
  mo_identity :: string
  mo_telemetry_id :: string
  mo_timestamp :: time
  mo_week_start :: date

record extraction_metadata =
  xm_week_start :: date
  xm_next_week_start :: date
  xm_extracted_at :: time
  xm_event_count :: nat
  xm_movement_occurrence_count :: nat
  xm_commercial_order_requested_ids :: "string list"
  xm_commercial_order_invalid_ids :: "string list"
  xm_snapshot_isolation :: string
  xm_read_only :: bool
  xm_snapshot_consistent :: bool
  xm_movement_evidence_complete :: bool
  xm_commercial_order_evidence_complete :: bool

record weekly_extraction =
  wx_events :: "weekly_event list"
  wx_orders :: commercial_order_evidence
  wx_movement_weeks :: "string \<times> string \<Rightarrow> movement_week_evidence option"
  wx_occurrences :: "movement_occurrence list"
  wx_metadata :: extraction_metadata

section \<open>The statements\<close>

definition weekly_rows :: "reporting_row list \<Rightarrow> time \<Rightarrow> time \<Rightarrow> reporting_row list" where
  "weekly_rows table start next_start = sort_key (\<lambda>r. (rp_timestamp r, rp_id r))
     (filter (\<lambda>r. rp_event_type r \<in> set OFFICIAL_EVENT_TYPES \<and> start \<le> rp_timestamp r \<and>
       rp_timestamp r < next_start) table)"

text \<open>\<open>_movement_key\<close>\<close>

definition business_key :: "string \<Rightarrow> tags \<Rightarrow> (string \<times> string) option" where
  "business_key event_type event_tags =
     (case identity_field event_type of
        None \<Rightarrow> None
      | Some f \<Rightarrow>
          (case tag event_tags f of
             JStr identity \<Rightarrow> if blank identity then None else Some (event_type, identity)
           | _ \<Rightarrow> None))"

definition row_key :: "reporting_row \<Rightarrow> (string \<times> string) option" where
  "row_key r = business_key (rp_event_type r) (rp_tags r)"

text \<open>
  \<open>tags->>'...'\<close> of the statement that looks for other occurrences. The text of an array or an object
  may equal a key, but the code passes over such a row, which has no key itself.
\<close>

definition tag_text :: "tags \<Rightarrow> string \<Rightarrow> string option" where
  "tag_text event_tags f =
     (case tag event_tags f of
        JStr s \<Rightarrow> Some s
      | JInt n \<Rightarrow> Some (str_int n)
      | JBool b \<Rightarrow> Some (if b then ''true'' else ''false'')
      | _ \<Rightarrow> None)"

definition looked_up :: "reporting_row \<Rightarrow> string option" where
  "looked_up r =
     (if rp_event_type r = ''outbound_order_created'' then tag_text (rp_tags r) ''order_id''
      else if rp_event_type r = ''inventory_discrepancy_detected'' then tag_text (rp_tags r) ''count_id''
      else tag_text (rp_tags r) ''movement_id'')"

definition movement_rows :: "reporting_row list \<Rightarrow> (string \<times> string) list \<Rightarrow> reporting_row list" where
  "movement_rows table keys = sort_key (\<lambda>r. (rp_event_type r, rp_timestamp r, rp_id r))
     (filter (\<lambda>r. case looked_up r of None \<Rightarrow> False | Some i \<Rightarrow> (rp_event_type r, i) \<in> set keys) table)"

text \<open>Orders joined with their dispatches, counted by order.\<close>

definition dispatched_orders :: "inventory_db \<Rightarrow> (commercial_order \<times> stock_exit) list" where
  "dispatched_orders d = concat (map (\<lambda>c. map (Pair c)
     (filter (\<lambda>x. ex_commercial_order_id x = Some (co_id c) \<and> ex_exit_type x = ''dispatch'') (db_exits d)))
     (db_orders d))"

definition commercial_order_rows :: "inventory_db \<Rightarrow> string list \<Rightarrow> ((uuid \<times> string \<times> string) \<times> int) list" where
  "commercial_order_rows d order_ids = sort_key (fst \<circ> fst)
     (sql_group_sum (\<lambda>(c, _). (co_order_id c, co_warehouse c, co_client_id c)) (\<lambda>_. 1)
       (filter (\<lambda>(c, _). uuid_str (co_order_id c) \<in> set order_ids) (dispatched_orders d)))"

definition commercial_order_records :: "inventory_db \<Rightarrow> string list \<Rightarrow> string \<Rightarrow> commercial_order_record option" where
  "commercial_order_records d order_ids =
     (if order_ids = [] then (\<lambda>_. None)
      else map_of (rev (map (\<lambda>((i, w, c), n). (uuid_str i,
        \<lparr>cor_order_id = uuid_str i, cor_warehouse = w, cor_client_id = c, cor_dispatch_count = n\<rparr>))
        (commercial_order_rows d order_ids))))"

section \<open>What is made of the rows\<close>

definition event_of_row :: "reporting_row \<Rightarrow> weekly_event" where
  "event_of_row r = \<lparr>we_id = IdText (uuid_str (rp_id r)), we_timestamp = Instant (rp_timestamp r),
     we_event_type = JStr (rp_event_type r), we_service = JStr (rp_service r), we_tags = JObj (rp_tags r)\<rparr>"

definition movement_keys :: "reporting_row list \<Rightarrow> (string \<times> string) list" where
  "movement_keys rows = sorted_set (List.map_filter row_key rows)"

definition occurrences_of :: "reporting_row list \<Rightarrow> (string \<times> string) list \<Rightarrow> movement_occurrence list" where
  "occurrences_of rows keys = concat (map (\<lambda>r. case row_key r of
       None \<Rightarrow> []
     | Some key \<Rightarrow>
         if key \<notin> set keys then []
         else [\<lparr>mo_event_type = fst key, mo_identity = snd key, mo_telemetry_id = uuid_str (rp_id r),
           mo_timestamp = rp_timestamp r, mo_week_start = iso_week_of (rp_timestamp r)\<rparr>]) rows)"

definition movement_evidence :: "(string \<times> string) list \<Rightarrow> movement_occurrence list \<Rightarrow>
    string \<times> string \<Rightarrow> movement_week_evidence option" where
  "movement_evidence keys occurrences key =
     (if key \<notin> set keys then None
      else Some \<lparr>mw_week_starts = remdups (map mo_week_start
          (filter (\<lambda>c. (mo_event_type c, mo_identity c) = key) occurrences)), mw_complete = True\<rparr>)"

text \<open>\<open>_commercial_order_id\<close>: the canonical text of a UUID of version 4.\<close>

definition commercial_order_id :: "string \<Rightarrow> string option" where
  "commercial_order_id order_id =
     (case parse_uuid order_id of
        None \<Rightarrow> None
      | Some u \<Rightarrow> if uuid_version u \<noteq> Some 4 \<or> uuid_str u \<noteq> order_id then None else Some order_id)"

definition outbound_ids :: "(string \<times> string) list \<Rightarrow> string list" where
  "outbound_ids keys = sorted_set (map snd (filter (\<lambda>k. fst k = OUTBOUND_ORDER_CREATED) keys))"

definition parsed_ids :: "string list \<Rightarrow> string list" where
  "parsed_ids ids = List.map_filter commercial_order_id ids"

definition invalid_outbound_ids :: "string list \<Rightarrow> string list" where
  "invalid_outbound_ids ids = filter (\<lambda>i. commercial_order_id i = None) ids"

section \<open>The snapshots\<close>

text \<open>The telemetry connection, which also reads the orders when it is the only one.\<close>

definition telemetry_snapshot :: "read_connection \<Rightarrow> date \<Rightarrow> bool \<Rightarrow> (string \<times> string) list \<Rightarrow> string list \<Rightarrow> extraction_error + unit" where
  "telemetry_snapshot C week_start single keys order_ids =
     bind_result (reads C Connecting ''connect'' week_start) (\<lambda>_.
     bind_result (guard (rc_dialect C = Some ''postgresql'') (WeeklyExtractionError ''snapshot'' week_start
       (''PostgreSQL is required for JSONB extraction and read-only repeatable-read snapshots; got '' @
        (case rc_dialect C of None \<Rightarrow> ''None'' | Some name \<Rightarrow> quoted name)))) (\<lambda>_.
     bind_result (reads C Beginning ''transaction'' week_start) (\<lambda>_.
     bind_result (reads C Isolating ''snapshot'' week_start) (\<lambda>_.
     bind_result (reads C (Reading ''weekly-events'') ''weekly-events'' week_start) (\<lambda>_.
     bind_result (if keys = [] then Inr ()
       else reads C (Reading ''movement-week-evidence'') ''movement-week-evidence'' week_start) (\<lambda>_.
     bind_result (if single \<and> order_ids \<noteq> []
       then reads C (Reading ''commercial-order-evidence'') ''commercial-order-evidence'' week_start else Inr ()) (\<lambda>_.
     bind_result (reads C Committing ''transaction'' week_start) (\<lambda>_.
     reads C Closing ''connection'' week_start))))))))"

definition order_snapshot :: "read_connection \<Rightarrow> date \<Rightarrow> extraction_error + unit" where
  "order_snapshot C week_start =
     bind_result (reads C Connecting ''commercial-order-source'' week_start) (\<lambda>_.
     bind_result (reads C Beginning ''commercial-order-source'' week_start) (\<lambda>_.
     bind_result (reads C Isolating ''commercial-order-source'' week_start) (\<lambda>_.
     bind_result (reads C (Reading ''commercial-order-evidence'') ''commercial-order-evidence'' week_start) (\<lambda>_.
     bind_result (reads C Committing ''commercial-order-source'' week_start) (\<lambda>_.
     reads C Closing ''commercial-order-source'' week_start)))))"

text \<open>
  \<open>extract_weekly_inputs\<close>: the telemetry engine, the inventory engine if one is given, the tables of
  both and the clock of \<open>extracted_at\<close>.
\<close>

definition extract_weekly_inputs ::
  "read_connection \<Rightarrow> read_connection option \<Rightarrow> date \<Rightarrow> time \<Rightarrow> reporting_row list \<Rightarrow> inventory_db \<Rightarrow>
   extraction_error + weekly_extraction" where
  "extract_weekly_inputs C inventory week_start extracted_at table d =
     (case iso_week_bounds week_start of
        Inl m \<Rightarrow> Inl (ExtractionValueError m)
      | Inr (start, next_start) \<Rightarrow>
          let single = (case inventory of None \<Rightarrow> True | Some I \<Rightarrow> en_object (rc_engine I) = en_object (rc_engine C));
              rows = weekly_rows table start next_start;
              keys = movement_keys rows;
              occurrences = (if keys = [] then [] else occurrences_of (movement_rows table keys) keys);
              ids = outbound_ids keys; order_ids = parsed_ids ids; invalid = invalid_outbound_ids ids
          in bind_result (case inventory of
                 None \<Rightarrow> Inr ()
               | Some I \<Rightarrow> if single then Inr ()
                   else (case ensure_distinct_postgresql_databases (rc_engine I) (rc_engine C) of
                       Inl e \<Rightarrow> Inl (ExtractionIsolation e) | Inr _ \<Rightarrow> Inr ())) (\<lambda>_.
             bind_result (telemetry_snapshot C week_start single keys order_ids) (\<lambda>_.
             bind_result (if order_ids \<noteq> [] \<and> \<not> single then order_snapshot (the inventory) week_start else Inr ()) (\<lambda>_.
             Inr \<lparr>wx_events = map event_of_row rows,
               wx_orders = \<lparr>ce_records = commercial_order_records d order_ids, ce_lookup_complete = (invalid = [])\<rparr>,
               wx_movement_weeks = movement_evidence keys occurrences,
               wx_occurrences = occurrences,
               wx_metadata = \<lparr>xm_week_start = week_start, xm_next_week_start = utc_date next_start,
                 xm_extracted_at = extracted_at, xm_event_count = length rows,
                 xm_movement_occurrence_count = length occurrences,
                 xm_commercial_order_requested_ids = sort order_ids,
                 xm_commercial_order_invalid_ids = sort invalid,
                 xm_snapshot_isolation = ''REPEATABLE READ'', xm_read_only = True,
                 xm_snapshot_consistent = single, xm_movement_evidence_complete = True,
                 xm_commercial_order_evidence_complete = (invalid = [])\<rparr>\<rparr>))))"

end
