(* ===== verification/OperationalCoverage.thy ===== *)
theory OperationalCoverage
  imports WeeklyExtraction OutboxRelay Coordinator
begin

text \<open>
  The audit of one closed week, \<open>pipelines/operational_coverage.py\<close>: the movements, orders and counts
  of the week, their threshold evaluations, the outbox and telemetry are compared row by row, and the
  week is covered only when nothing differs. The rows are those of the inventory tables and of the
  telemetry table as the two read-only snapshots show them; dicts are compared as in the relay.
\<close>

section \<open>The snapshot\<close>

record audit_entry =
  ae_id :: int
  ae_sku_id :: int
  ae_quantity :: int
  ae_warehouse :: string
  ae_client_id :: "string option"
  ae_category :: string

record audit_movement =
  am_source_table :: string
  am_source_pk :: int
  am_sku_id :: int
  am_quantity :: int
  am_warehouse :: string
  am_client_id :: "string option"
  am_category :: string
  am_created_at :: time

record audit_count =
  ac_id :: int
  ac_count_id :: uuid
  ac_sku_id :: int
  ac_client_id :: string
  ac_warehouse :: string
  ac_expected_quantity :: int
  ac_observed_quantity :: int
  ac_category :: string

record operational_snapshot =
  os_entries :: "audit_entry list"
  os_orders :: "commercial_order list"
  os_dispatches :: "(uuid option \<times> int) list"
  os_movements :: "audit_movement list"
  os_checkpoints :: "threshold_evaluation list"
  os_counts :: "audit_count list"
  os_outbox :: "outbox_row list"
  os_telemetry :: "reporting_row list"

record coverage_audit =
  oa_evidence :: coverage_evidence
  oa_diagnostics :: "string list"
  oa_audited_events :: "weekly_event list"

definition OPERATIONAL_COVERAGE_SOURCE :: string where
  "OPERATIONAL_COVERAGE_SOURCE = ''operational_checkpoints''"

definition audit_complete :: "coverage_audit \<Rightarrow> bool" where
  "audit_complete a \<longleftrightarrow> oa_diagnostics a = [] \<and> cv_lookup_complete (oa_evidence a)"

section \<open>Values\<close>

definition audit_warehouse :: "string \<Rightarrow> string option" where
  "audit_warehouse w =
     (if w = ''los_angeles'' \<or> w = ''zaragoza'' then Some w else canonical_telemetry_warehouse w)"

definition json_text :: "string option \<Rightarrow> json" where
  "json_text v = (case v of None \<Rightarrow> JNull | Some t \<Rightarrow> JStr t)"

text \<open>\<open>str\<close> of an optional UUID.\<close>

definition uuid_text :: "uuid option \<Rightarrow> string" where
  "uuid_text v = (case v of None \<Rightarrow> ''None'' | Some u \<Rightarrow> uuid_str u)"

text \<open>
  \<open>_canonical_event\<close>. An identity that is neither a UUID nor a text equals no audited one. The events
  are sorted by their text, which begins with the identity; the audited identities are distinct, so
  the order of events that share one does not matter to the comparison.
\<close>

definition canonical_event :: "weekly_event \<Rightarrow> weekly_event" where
  "canonical_event e = e\<lparr>we_id := (case we_id e of IdUuid u \<Rightarrow> IdText (uuid_str u) | i \<Rightarrow> i)\<rparr>"

definition id_text :: "weekly_event \<Rightarrow> string" where
  "id_text e = (case we_id e of IdText t \<Rightarrow> t | _ \<Rightarrow> [])"

definition canonical_events :: "weekly_event list \<Rightarrow> weekly_event list" where
  "canonical_events events = sort_key id_text (map canonical_event events)"

definition same_json :: "json \<Rightarrow> json \<Rightarrow> bool" where
  "same_json a b = (case (a, b) of (JObj x, JObj y) \<Rightarrow> same_dict x y | _ \<Rightarrow> a = b)"

definition same_event :: "weekly_event \<Rightarrow> weekly_event \<Rightarrow> bool" where
  "same_event a b \<longleftrightarrow> we_id a = we_id b \<and> we_timestamp a = we_timestamp b \<and> we_service a = we_service b \<and>
     we_event_type a = we_event_type b \<and> same_json (we_tags a) (we_tags b)"

section \<open>The comparisons\<close>

definition outbox_rows :: "outbox_row list \<Rightarrow> string \<times> int \<times> string \<Rightarrow> outbox_row list" where
  "outbox_rows outbox key = filter (\<lambda>r. ob_source r = key) outbox"

text \<open>\<open>exact_outbox\<close> and the comparison of the tags of the row it finds.\<close>

definition exact_outbox :: "outbox_row list \<Rightarrow> string \<times> int \<times> string \<Rightarrow> tags \<Rightarrow> string \<Rightarrow> string list" where
  "exact_outbox outbox key expected mismatch =
     (case outbox_rows outbox key of
        [r] \<Rightarrow> if same_dict (ob_tags r) expected then [] else [mismatch]
      | _ \<Rightarrow> [snd (snd key) @ ''_outbox_count_mismatch''])"

definition entry_key :: "audit_entry \<Rightarrow> string \<times> int \<times> string" where
  "entry_key e = (''stockentry'', ae_id e, ''inbound_order_created'')"

definition entry_tags :: "audit_entry \<Rightarrow> tags" where
  "entry_tags e =
     [(''warehouse'', json_text (audit_warehouse (ae_warehouse e))),
      (''client_id'', json_text (ae_client_id e)),
      (''product_id'', JStr (str_int (ae_sku_id e))),
      (''product_category'', JStr (ae_category e)),
      (''quantity'', JInt (ae_quantity e)),
      (''movement_id'', JStr (str_int (ae_id e)))]"

definition entry_diagnostics :: "operational_snapshot \<Rightarrow> audit_entry \<Rightarrow> string list" where
  "entry_diagnostics s e =
     exact_outbox (os_outbox s) (entry_key e) (entry_tags e) ''inbound_outbox_content_mismatch''"

definition order_key :: "commercial_order \<Rightarrow> string \<times> int \<times> string" where
  "order_key c = (''commercial_order'', co_id c, ''outbound_order_created'')"

definition order_tags :: "commercial_order \<Rightarrow> tags" where
  "order_tags c =
     [(''order_id'', JStr (uuid_str (co_order_id c))),
      (''warehouse'', json_text (audit_warehouse (co_warehouse c))),
      (''client_id'', JStr (co_client_id c))]"

definition related_dispatches :: "operational_snapshot \<Rightarrow> commercial_order \<Rightarrow> (uuid option \<times> int) list" where
  "related_dispatches s c = filter (\<lambda>x. snd x = co_id c) (os_dispatches s)"

definition order_diagnostics :: "operational_snapshot \<Rightarrow> commercial_order \<Rightarrow> string list" where
  "order_diagnostics s c =
     (if related_dispatches s c = [] then [''commercial_order_without_dispatch''] else []) @
     exact_outbox (os_outbox s) (order_key c) (order_tags c) ''outbound_outbox_content_mismatch''"

definition dispatch_pairs :: "operational_snapshot \<Rightarrow> (string \<times> string) list" where
  "dispatch_pairs s = concat (map (\<lambda>c. map (\<lambda>x. (uuid_text (fst x), uuid_str (co_order_id c)))
     (related_dispatches s c)) (os_orders s))"

definition am_source :: "audit_movement \<Rightarrow> string \<times> int" where
  "am_source m = (am_source_table m, am_source_pk m)"

definition movement_dict :: "operational_snapshot \<Rightarrow> ((string \<times> int) \<times> audit_movement) list" where
  "movement_dict s = py_dict (map (\<lambda>m. (am_source m, m)) (os_movements s))"

definition checkpoints_for :: "operational_snapshot \<Rightarrow> string \<times> int \<Rightarrow> threshold_evaluation list" where
  "checkpoints_for s key = filter (\<lambda>v. te_source v = key) (os_checkpoints s)"

definition audit_crossed :: "string \<times> int \<Rightarrow> threshold_evaluation \<Rightarrow> bool" where
  "audit_crossed key v \<longleftrightarrow> fst key = ''stockexit'' \<and>
     (case te_threshold_quantity v of
        None \<Rightarrow> False | Some t \<Rightarrow> te_before_quantity v > t \<and> te_after_quantity v \<le> t)"

definition threshold_key :: "string \<times> int \<Rightarrow> string \<times> int \<times> string" where
  "threshold_key key = (fst key, snd key, ''stock_threshold_triggered'')"

definition crossing_tags :: "string \<times> int \<Rightarrow> audit_movement \<Rightarrow> threshold_evaluation \<Rightarrow> tags" where
  "crossing_tags key m v =
     [(''warehouse'', json_text (audit_warehouse (am_warehouse m))),
      (''client_id'', json_text (am_client_id m)),
      (''product_id'', JStr (str_int (am_sku_id m))),
      (''product_category'', JStr (am_category m)),
      (''quantity'', JInt (te_after_quantity v)),
      (''threshold_quantity'', case te_threshold_quantity v of None \<Rightarrow> JNull | Some t \<Rightarrow> JInt t),
      (''movement_id'', JStr (str_int (snd key)))]"

definition checkpoint_mismatch :: "string \<times> int \<Rightarrow> audit_movement \<Rightarrow> threshold_evaluation \<Rightarrow> bool" where
  "checkpoint_mismatch key m v \<longleftrightarrow>
     te_sku_id v \<noteq> am_sku_id m \<or> te_client_id v \<noteq> am_client_id m \<or> te_warehouse v \<noteq> am_warehouse m \<or>
     te_after_quantity v \<noteq> (if fst key = ''stockentry'' then te_before_quantity v + am_quantity m
        else te_before_quantity v - am_quantity m) \<or>
     te_crossed v \<noteq> audit_crossed key v"

definition movement_diagnostics :: "operational_snapshot \<Rightarrow> (string \<times> int) \<times> audit_movement \<Rightarrow> string list" where
  "movement_diagnostics s km =
     (case km of (key, m) \<Rightarrow>
       case checkpoints_for s key of
         [v] \<Rightarrow>
           (let rows = outbox_rows (os_outbox s) (threshold_key key) in
            (if checkpoint_mismatch key m v then [''threshold_checkpoint_content_mismatch''] else []) @
            (if te_evaluated_at v \<noteq> am_created_at m then [''threshold_checkpoint_timestamp_mismatch''] else []) @
            (if audit_crossed key v then
               (case rows of
                  [r] \<Rightarrow>
                    if te_event_id v \<noteq> Some (ob_event_id r) then [''threshold_crossed_event_mismatch'']
                    else if \<not> same_dict (ob_tags r) (crossing_tags key m v) then [''threshold_outbox_content_mismatch'']
                    else []
                | _ \<Rightarrow> [''threshold_crossed_event_mismatch''])
             else if rows \<noteq> [] \<or> te_event_id v \<noteq> None then [''threshold_not_crossed_has_event''] else []))
       | _ \<Rightarrow> [''threshold_checkpoint_count_mismatch''])"

definition count_key :: "audit_count \<Rightarrow> string \<times> int \<times> string" where
  "count_key c = (''inventory_physical_count'', ac_id c, ''inventory_discrepancy_detected'')"

definition discrepant :: "audit_count \<Rightarrow> bool" where
  "discrepant c \<longleftrightarrow> ac_expected_quantity c \<noteq> ac_observed_quantity c"

definition count_tags :: "audit_count \<Rightarrow> tags" where
  "count_tags c =
     (let delta = ac_observed_quantity c - ac_expected_quantity c in
      [(''warehouse'', json_text (audit_warehouse (ac_warehouse c))),
       (''client_id'', JStr (ac_client_id c)),
       (''product_id'', JStr (str_int (ac_sku_id c))),
       (''product_category'', JStr (ac_category c)),
       (''quantity'', JInt \<bar>delta\<bar>),
       (''system_quantity'', JInt (ac_expected_quantity c)),
       (''counted_quantity'', JInt (ac_observed_quantity c)),
       (''discrepancy_delta'', JInt delta),
       (''discrepancy_type'', JStr (if delta > 0 then ''surplus'' else ''shortage'')),
       (''count_id'', JStr (uuid_str (ac_count_id c)))])"

definition count_diagnostics :: "operational_snapshot \<Rightarrow> audit_count \<Rightarrow> string list" where
  "count_diagnostics s c =
     (let rows = outbox_rows (os_outbox s) (count_key c) in
      if discrepant c then
        (case rows of
           [r] \<Rightarrow> if same_dict (ob_tags r) (count_tags c) then [] else [''discrepancy_outbox_content_mismatch'']
         | _ \<Rightarrow> [''discrepancy_outbox_count_mismatch''])
      else if rows \<noteq> [] then [''matching_count_has_discrepancy_event''] else [])"

text \<open>The keys that the sources of the week account for.\<close>

definition crossed_keys :: "operational_snapshot \<Rightarrow> (string \<times> int \<times> string) list" where
  "crossed_keys s = concat (map (\<lambda>(key, m). case checkpoints_for s key of
     [v] \<Rightarrow> if audit_crossed key v then [threshold_key key] else [] | _ \<Rightarrow> []) (movement_dict s))"

definition expected_keys :: "operational_snapshot \<Rightarrow> (string \<times> int \<times> string) list" where
  "expected_keys s = map entry_key (os_entries s) @ map order_key (os_orders s) @ crossed_keys s @
     map count_key (filter discrepant (os_counts s))"

definition set_diagnostics :: "operational_snapshot \<Rightarrow> string list" where
  "set_diagnostics s =
     (let sources = map te_source (os_checkpoints s); keys = map ob_source (os_outbox s) in
      (if list_ex (\<lambda>k. k \<notin> set (map fst (movement_dict s))) sources then [''unexpected_threshold_checkpoint''] else []) @
      (if list_ex (\<lambda>k. k \<notin> set (expected_keys s)) keys then [''unexpected_outbox''] else []) @
      (if list_ex (\<lambda>k. k \<notin> set keys) (expected_keys s) then [''expected_outbox_missing''] else []))"

definition official_telemetry :: "operational_snapshot \<Rightarrow> reporting_row list" where
  "official_telemetry s =
     filter (\<lambda>e. rp_service e = ''api'' \<and> rp_event_type e \<in> set OFFICIAL_EVENT_TYPES) (os_telemetry s)"

text \<open>The comparison of every field of a telemetry row with the projection of the event.\<close>

definition as_telemetry :: "reporting_row \<Rightarrow> telemetry_row" where
  "as_telemetry e = \<lparr>tr_id = Some (rp_id e), tr_timestamp = rp_timestamp e, tr_service = rp_service e,
     tr_event_type = rp_event_type e, tr_level = rp_level e, tr_value = rp_value e,
     tr_message = rp_message e, tr_tags = rp_tags e\<rparr>"

definition delivery_diagnostics :: "operational_snapshot \<Rightarrow> outbox_row \<Rightarrow> string list" where
  "delivery_diagnostics s r =
     (if ob_published_at r = None then [''outbox_pending''] else []) @
     (case filter (\<lambda>e. rp_id e = ob_event_id r) (official_telemetry s) of
        [e] \<Rightarrow> if same_destination (as_telemetry e) (outbox_to_row r) then [] else [''telemetry_target_content_mismatch'']
      | _ \<Rightarrow> [''telemetry_target_count_mismatch''])"

definition dispatch_id_diagnostics :: "operational_snapshot \<Rightarrow> string list" where
  "dispatch_id_diagnostics s =
     (if distinct (map (uuid_text \<circ> fst) (os_dispatches s)) then [] else [''dispatch_id_duplicate''])"

definition unmatched_telemetry :: "operational_snapshot \<Rightarrow> string list" where
  "unmatched_telemetry s =
     (if list_ex (\<lambda>e. rp_id e \<notin> ob_event_id ` set (os_outbox s)) (official_telemetry s)
      then [''official_telemetry_without_outbox''] else [])"

definition all_diagnostics :: "operational_snapshot \<Rightarrow> string list" where
  "all_diagnostics s =
     dispatch_id_diagnostics s @ concat (map (entry_diagnostics s) (os_entries s)) @
     concat (map (order_diagnostics s) (os_orders s)) @
     concat (map (movement_diagnostics s) (movement_dict s)) @
     concat (map (count_diagnostics s) (os_counts s)) @ set_diagnostics s @ unmatched_telemetry s @
     concat (map (delivery_diagnostics s) (os_outbox s))"

definition audit_operational_snapshot :: "operational_snapshot \<Rightarrow> coverage_audit" where
  "audit_operational_snapshot s =
     (let diagnostics = sorted_set (all_diagnostics s); clean = (diagnostics = [])
      in \<lparr>oa_evidence = \<lparr>cv_confirmed_event_types = (if clean then OFFICIAL_EVENT_TYPES else []),
            cv_dispatch_order_ids = sort (dispatch_pairs s), cv_lookup_complete = clean,
            cv_source = OPERATIONAL_COVERAGE_SOURCE\<rparr>,
          oa_diagnostics = diagnostics,
          oa_audited_events =
            (if clean then canonical_events (map event_of_row (official_telemetry s)) else [])\<rparr>)"

definition apply_operational_coverage ::
  "weekly_result \<Rightarrow> coverage_audit \<Rightarrow> weekly_extraction \<Rightarrow> weekly_result" where
  "apply_operational_coverage transformed audit extracted =
     (if \<not> audit_complete audit then transformed
      else if \<not> list_all2 same_event (canonical_events (wx_events extracted)) (oa_audited_events audit)
      then transformed
      else transformed\<lparr>wr_quality := (wr_quality transformed)\<lparr>qr_coverage_pending := []\<rparr>\<rparr>)"

section \<open>Loading\<close>

definition within_week :: "time \<times> time \<Rightarrow> time \<Rightarrow> bool" where
  "within_week bounds t \<longleftrightarrow> fst bounds \<le> t \<and> t < snd bounds"

text \<open>A join with the products.\<close>

definition with_sku :: "inventory_db \<Rightarrow> ('r \<Rightarrow> int) \<Rightarrow> (sku_row \<Rightarrow> 'r \<Rightarrow> 'b) \<Rightarrow> 'r list \<Rightarrow> 'b list" where
  "with_sku d sku_key f rows =
     concat (map (\<lambda>r. map (\<lambda>p. f p r) (filter (\<lambda>p. sku_id p = sku_key r) (db_skus d))) rows)"

definition audited_entry :: "sku_row \<Rightarrow> stock_entry \<Rightarrow> audit_entry" where
  "audited_entry p e = \<lparr>ae_id = en_id e, ae_sku_id = en_sku_id e, ae_quantity = en_quantity e,
     ae_warehouse = en_warehouse e, ae_client_id = sku_client_id p, ae_category = sku_category p\<rparr>"

definition inbound_movement :: "sku_row \<Rightarrow> stock_entry \<Rightarrow> audit_movement" where
  "inbound_movement p e = \<lparr>am_source_table = ''stockentry'', am_source_pk = en_id e, am_sku_id = en_sku_id e,
     am_quantity = en_quantity e, am_warehouse = en_warehouse e, am_client_id = sku_client_id p,
     am_category = sku_category p, am_created_at = en_created_at e\<rparr>"

definition outbound_movement :: "sku_row \<Rightarrow> stock_exit \<Rightarrow> audit_movement" where
  "outbound_movement p x = \<lparr>am_source_table = ''stockexit'', am_source_pk = ex_id x, am_sku_id = ex_sku_id x,
     am_quantity = ex_quantity x, am_warehouse = ex_warehouse x, am_client_id = sku_client_id p,
     am_category = sku_category p, am_created_at = ex_created_at x\<rparr>"

definition audited_count :: "sku_row \<Rightarrow> physical_count \<Rightarrow> audit_count" where
  "audited_count p c = \<lparr>ac_id = pc_id c, ac_count_id = pc_count_id c, ac_sku_id = pc_sku_id c,
     ac_client_id = pc_client_id c, ac_warehouse = pc_warehouse c, ac_expected_quantity = pc_expected_quantity c,
     ac_observed_quantity = pc_observed_quantity c, ac_category = sku_category p\<rparr>"

definition load_snapshot :: "inventory_db \<Rightarrow> reporting_row list \<Rightarrow> time \<times> time \<Rightarrow> operational_snapshot" where
  "load_snapshot d table bounds =
     (let entries = filter (\<lambda>e. within_week bounds (en_created_at e)) (db_entries d);
          exits = filter (\<lambda>x. within_week bounds (ex_created_at x)) (db_exits d)
      in \<lparr>os_entries = with_sku d en_sku_id audited_entry entries,
          os_orders = filter (\<lambda>c. within_week bounds (co_created_at c)) (db_orders d),
          os_dispatches = List.map_filter (\<lambda>x. map_option (Pair (ex_dispatch_id x)) (ex_commercial_order_id x)) (db_exits d),
          os_movements = with_sku d en_sku_id inbound_movement entries @ with_sku d ex_sku_id outbound_movement exits,
          os_checkpoints = filter (\<lambda>v. within_week bounds (te_evaluated_at v)) (db_evals d),
          os_counts = with_sku d pc_sku_id audited_count (filter (\<lambda>c. within_week bounds (pc_confirmed_at c)) (db_counts d)),
          os_outbox = filter (\<lambda>r. within_week bounds (ob_occurred_at r)) (db_outbox d),
          os_telemetry = filter (\<lambda>e. within_week bounds (rp_timestamp e) \<and> rp_service e = ''api'' \<and>
              rp_event_type e \<in> set OFFICIAL_EVENT_TYPES) table\<rparr>)"

datatype coverage_error = CoverageIsolation isolation_error | CoverageValueError string | CoverageDatabaseError string

definition SOURCE_READS :: "read_point list" where
  "SOURCE_READS = [Connecting, Beginning, Isolating, Reading ''entries'', Reading ''orders'', Reading ''dispatches'',
     Reading ''movements'', Reading ''checkpoints'', Reading ''counts'', Reading ''outbox'', Closing]"

definition REPORTING_READS :: "read_point list" where
  "REPORTING_READS = [Connecting, Beginning, Isolating, Reading ''telemetry'', Closing]"

fun read_all :: "read_connection \<Rightarrow> read_point list \<Rightarrow> coverage_error + unit" where
  "read_all C [] = Inr ()"
| "read_all C (p # ps) =
     (case rc_fails C p of Some m \<Rightarrow> Inl (CoverageDatabaseError m) | None \<Rightarrow> read_all C ps)"

definition audit_operational_coverage ::
  "read_connection \<Rightarrow> read_connection \<Rightarrow> date \<Rightarrow> inventory_db \<Rightarrow> reporting_row list \<Rightarrow> coverage_error + coverage_audit" where
  "audit_operational_coverage source reporting week_start d table =
     (case ensure_distinct_postgresql_databases (rc_engine source) (rc_engine reporting) of
        Inl e \<Rightarrow> Inl (CoverageIsolation e)
      | Inr _ \<Rightarrow>
          (case iso_week_bounds week_start of
             Inl m \<Rightarrow> Inl (CoverageValueError m)
           | Inr bounds \<Rightarrow>
               bind_result (read_all source SOURCE_READS) (\<lambda>_.
               bind_result (read_all reporting REPORTING_READS) (\<lambda>_.
               Inr (audit_operational_snapshot (load_snapshot d table bounds))))))"

end
