(* ===== verification/CoverageSystem.thy ===== *)
theory CoverageSystem
  imports InventoryTraces RelayDelivery OperationalCoverage
begin

text \<open>
  The inventory service, the relay and the other writers of telemetry as one system over the two
  databases, and what holds of it in every state: the tables are consistent, every row has its trail,
  what is published is in telemetry, and every official row of telemetry comes from the outbox.
\<close>

section \<open>The system\<close>

definition queue_of :: "inventory_state \<Rightarrow> relay_db" where
  "queue_of s = \<lparr>rl_outbox = db_outbox (inv_db s), rl_events = telemetry_table s\<rparr>"

definition with_queue :: "relay_db \<Rightarrow> inventory_state \<Rightarrow> inventory_state" where
  "with_queue q s = s\<lparr>inv_db := (inv_db s)\<lparr>db_outbox := rl_outbox q\<rparr>, telemetry_table := rl_events q\<rparr>"

definition official_row :: "telemetry_row \<Rightarrow> bool" where
  "official_row e \<longleftrightarrow> tr_service e = ''api'' \<and> tr_event_type e \<in> set OFFICIAL_EVENT_TYPES"

definition background :: "telemetry_row \<Rightarrow> bool" where
  "background e \<longleftrightarrow> tr_id e = None \<and> \<not> official_row e"

inductive system_step :: "inventory_state \<Rightarrow> inventory_state \<Rightarrow> bool" where
  sys_request: "handle E user request_id r s = (res, t) \<Longrightarrow> system_step s t"
| sys_relay: "relay_iteration E (queue_of s) = (res_i, q) \<Longrightarrow> system_step s (with_queue q s)"
| sys_telemetry: "list_all background rows \<Longrightarrow> system_step s (s\<lparr>telemetry_table := telemetry_table s @ rows\<rparr>)"

definition events_sourced :: "relay_db \<Rightarrow> bool" where
  "events_sourced q \<longleftrightarrow> (\<forall>e \<in> set (rl_events q). official_row e \<longrightarrow> (\<exists>r \<in> set (rl_outbox q). e = outbox_to_row r))"

text \<open>Every product has a client, which the API gives each product it creates.\<close>

definition clients_known :: "inventory_db \<Rightarrow> bool" where
  "clients_known d \<longleftrightarrow> (\<forall>p \<in> set (db_skus d). sku_client_id p \<noteq> None)"

definition system_ok :: "inventory_state \<Rightarrow> bool" where
  "system_ok s \<longleftrightarrow> inventory_ok (inv_db s) \<and> traced (inv_db s) \<and> relay_ok (queue_of s) \<and> events_sourced (queue_of s) \<and> clients_known (inv_db s)"

lemma txn_clients_known: "txn d d' \<Longrightarrow> clients_known d \<Longrightarrow> clients_known d'"
  by (induction rule: txn.induct)
    (auto simp: clients_known_def sql_update_def dest!: issue_all_frame elim!: issue_step.cases)

lemma queue_of_simps [simp]:
  "rl_outbox (queue_of s) = db_outbox (inv_db s)" "rl_events (queue_of s) = telemetry_table s"
  by (simp_all add: queue_of_def)

lemma with_queue_simps [simp]:
  "inv_db (with_queue q s) = (inv_db s)\<lparr>db_outbox := rl_outbox q\<rparr>" "telemetry_table (with_queue q s) = rl_events q"
  "queue_of (with_queue q s) = q"
  by (simp_all add: with_queue_def queue_of_def)

section \<open>Requests\<close>

text \<open>A transaction only adds outbox rows, and they are pending.\<close>

definition enqueued :: "inventory_db \<Rightarrow> inventory_db \<Rightarrow> bool" where
  "enqueued d d' \<longleftrightarrow> (\<exists>rows. db_outbox d' = db_outbox d @ rows \<and> list_all pending rows)"

lemma enqueued_refl [simp]: "enqueued d d"
  by (simp add: enqueued_def)

lemma enqueued_trans: "enqueued d d' \<Longrightarrow> enqueued d' d'' \<Longrightarrow> enqueued d d''"
  by (auto simp: enqueued_def)

lemma enqueue_enqueued:
  "enqueue_inventory_event u tm st pk et tgs table = (Inr (), table') \<Longrightarrow>
     \<exists>rows. table' = table @ rows \<and> list_all pending rows"
  by (auto simp: enqueue_Inr pending_def)

lemma issue_step_enqueued: "issue_step d x d' \<Longrightarrow> enqueued d d'"
  by (auto simp: enqueued_def threshold_outcome_def elim!: issue_step.cases dest!: enqueue_enqueued split: if_splits)

lemma issue_all_enqueued: "issue_all d xs d' \<Longrightarrow> enqueued d d'"
  by (induction rule: issue_all.induct) (auto intro: enqueued_trans issue_step_enqueued)

lemma txn_enqueued:
  assumes "txn d d'"
  shows "enqueued d d'"
  using assms
proof cases
  case (txn_receive p x before table v)
  then show ?thesis by (auto simp: enqueued_def inbound_outcome_def dest!: enqueue_enqueued split: option.splits)
next
  case (txn_issue x)
  then show ?thesis using issue_step_enqueued by blast
next
  case (txn_count p c table)
  then show ?thesis by (auto simp: enqueued_def count_outcome_def dest!: enqueue_enqueued split: if_splits)
next
  case (txn_open_order c xs e u table)
  have "enqueued (d\<lparr>db_orders := db_orders d @ [c]\<rparr>) e" using txn_open_order issue_all_enqueued by blast
  then show ?thesis using txn_open_order by (auto simp: enqueued_def dest!: enqueue_enqueued)
next
  case (txn_extend_order c xs)
  then show ?thesis using issue_all_enqueued by blast
qed (simp_all add: enqueued_def)

text \<open>The telemetry a request writes itself is of other types and without an identity.\<close>

definition writes_background :: "'a inv_cmd \<Rightarrow> bool" where
  "writes_background m \<longleftrightarrow>
     (\<forall>s. \<exists>rows. telemetry_table (snd (m s)) = telemetry_table s @ rows \<and> list_all background rows)"

named_theorems background_intros \<open>commands that write background telemetry only\<close>

lemma writes_backgroundI:
  "(\<And>s. telemetry_table (snd (m s)) = telemetry_table s) \<Longrightarrow> writes_background m"
  by (simp add: writes_background_def)

lemma background_bind [background_intros]:
  assumes "writes_background m" and "\<And>a. writes_background (f a)"
  shows "writes_background (bind_cmd m f)"
  unfolding writes_background_def
proof
  fix s
  obtain rows where rows: "telemetry_table (snd (m s)) = telemetry_table s @ rows" "list_all background rows"
    using assms(1) by (auto simp: writes_background_def)
  show "\<exists>rows. telemetry_table (snd (bind_cmd m f s)) = telemetry_table s @ rows \<and> list_all background rows"
  proof (cases "m s")
    case (Pair res t)
    show ?thesis
    proof (cases res)
      case (Inl e)
      then show ?thesis using rows Pair by (auto simp: bind_cmd_def)
    next
      case (Inr a)
      obtain more where "telemetry_table (snd (f a t)) = telemetry_table t @ more" "list_all background more"
        using assms(2) by (auto simp: writes_background_def)
      then show ?thesis using rows Pair Inr by (auto simp: bind_cmd_def)
    qed
  qed
qed

lemma background_basic [background_intros]:
  "writes_background (return_cmd a)" "writes_background (raise_cmd e)" "writes_background (lift_result r)"
  "writes_background (insert_sku r1)" "writes_background (insert_entry r2)" "writes_background (insert_exit r3)"
  "writes_background (insert_order r4)" "writes_background (insert_count r5)" "writes_background (insert_eval r6)"
  "writes_background (draw_uuid E)" "writes_background (enqueue_event i tm st pk et tgs)"
  "writes_background (set_sku_threshold k threshold sku)"
  by (auto simp: insert_sku_def insert_entry_def insert_exit_def insert_order_def insert_count_def insert_eval_def
      draw_uuid_def enqueue_event_def set_sku_threshold_def Let_def lift_result_def return_cmd_def raise_cmd_def
      split: option.splits prod.splits sum.splits intro!: writes_backgroundI)

lemma background_events [background_intros]:
  "writes_background (event_cmd E ty user rid tm tgs)"
  "writes_background (threshold_event E sku pk b a user rid tm)"
  "writes_background (record_threshold_evaluation st pk sku b a ev tm)"
  "writes_background (inbound_event E sku x user rid)"
  "writes_background (discrepancy_event E data sku c k user rid)"
  "writes_background (outbound_event E order user rid)"
proof -
  show 1: "writes_background (event_cmd E ty user rid tm tgs)" for ty tm tgs
    by (auto simp: event_cmd_def intro!: background_intros)
  show "writes_background (threshold_event E sku pk b a user rid tm)"
    by (auto simp: threshold_event_def Let_def intro!: background_intros 1 split: option.splits)
  show "writes_background (record_threshold_evaluation st pk sku b a ev tm)"
    by (auto simp: record_threshold_evaluation_def intro!: background_intros)
  show "writes_background (inbound_event E sku x user rid)"
    by (auto simp: inbound_event_def Let_def intro!: background_intros 1 split: option.splits)
  show "writes_background (discrepancy_event E data sku c k user rid)"
    by (auto simp: discrepancy_event_def Let_def intro!: background_intros 1 split: option.splits)
  show "writes_background (outbound_event E order user rid)"
    by (auto simp: outbound_event_def Let_def intro!: background_intros 1 split: option.splits)
qed

lemma background_dispatches [background_intros]:
  "writes_background (add_dispatch E c skus user rid item running)"
  "writes_background (add_dispatches E c skus user rid items running)"
proof -
  show 1: "writes_background (add_dispatch E c skus user rid item running)" for item running
    by (auto simp: add_dispatch_def Let_def intro!: background_intros split: option.splits)
  show "writes_background (add_dispatches E c skus user rid items running)"
    by (induction items arbitrary: running) (auto intro!: background_intros 1 split: prod.splits)
qed

lemma background_order_dispatches [background_intros]: "writes_background (add_order_dispatches E c items skus user rid)"
  using background_dispatches(2) by (simp add: writes_background_def add_order_dispatches_def)

lemma background_bodies [background_intros]:
  "writes_background (stock_entry_body E d1 sku before user rid)"
  "writes_background (stock_exit_body E d2 sku before user rid)"
  "writes_background (physical_count_body E d3 sku before user rid)"
  "writes_background (commercial_order_body E d4 skus user rid)"
  by (auto simp: stock_entry_body_def stock_exit_body_def physical_count_body_def
      commercial_order_body_def intro!: background_intros split: prod.splits)

lemma background_in_transaction [background_intros]: "writes_background m \<Longrightarrow> writes_background (in_transaction E m)"
  unfolding writes_background_def in_transaction_def
  by (auto split: prod.splits sum.splits commit_outcome.splits) (metis snd_conv)+

lemma background_session_read [background_intros]: "writes_background (session_read works a)"
  by (auto simp: writes_background_def)

lemma background_commit_and_refresh [background_intros]:
  "writes_background m \<Longrightarrow> writes_background (commit_and_refresh E m)"
  by (simp add: commit_and_refresh_def background_intros)

lemma background_effects [simp]:
  "telemetry_table (capture_after_commit E events s) = telemetry_table s"
  "telemetry_table (invalidate_products_cache E s) = telemetry_table s"
  "telemetry_table (invalidate_orders_cache E s) = telemetry_table s"
  "telemetry_table (invalidate_inventory_cache E s) = telemetry_table s"
  "telemetry_table (snd (capture_telemetry_events E events s)) = telemetry_table s"
  "telemetry_table (lock_idempotency_keys E values s) = telemetry_table s"
  "telemetry_table (snd (lock_skus ids s)) = telemetry_table s"
  by (simp_all add: capture_after_commit_def capture_telemetry_events_def invalidate_inventory_cache_def
      invalidate_products_cache_def invalidate_orders_cache_def lock_idempotency_keys_def lock_skus_def Let_def)

lemma lock_skus_telemetry: "lock_skus ids s = (rows, t) \<Longrightarrow> telemetry_table t = telemetry_table s"
  using background_effects(7) [of ids s] by simp

lemma writes_backgroundD:
  "writes_background m \<Longrightarrow> m s = (r, t) \<Longrightarrow> telemetry_table s = table \<Longrightarrow>
     \<exists>rows. telemetry_table t = table @ rows \<and> list_all background rows"
  by (metis snd_conv writes_background_def)

lemma event_cmd_telemetry: "event_cmd E ty user rid tm tgs s = (r, t) \<Longrightarrow> telemetry_table t = telemetry_table s"
  by (auto simp: event_cmd_def bind_cmd_def draw_uuid_def lift_result_def split: prod.splits sum.splits)

lemma product_telemetry [simp]: "telemetry_table (product_created_telemetry E sku user rid s) = telemetry_table s"
  by (auto simp: product_created_telemetry_def split: option.splits prod.splits sum.splits dest: event_cmd_telemetry)

lemma insufficient_background:
  assumes "telemetry_table s = table"
  shows "\<exists>rows. telemetry_table (insufficient_stock_telemetry E sku w q a user rid s) = table @ rows \<and> list_all background rows"
proof (cases "sku_client_id sku = None \<or> canonical_telemetry_warehouse w = None")
  case True
  then show ?thesis using assms by (auto simp: insufficient_stock_telemetry_def split: option.splits)
next
  case False
  then obtain c wh where e: "sku_client_id sku = Some c" "canonical_telemetry_warehouse w = Some wh" by auto
  obtain event t where ev: "event_cmd E ''inventory_stock_insufficient'' user rid (env_now E)
      [(''warehouse'', JStr wh), (''client_id'', JStr c), (''product_id'', JStr (str_int (sku_id sku))),
       (''product_category'', JStr (sku_category sku)), (''requested_quantity'', JInt q), (''available_quantity'', JInt a)] s = (event, t)"
    by fastforce
  note t = event_cmd_telemetry [OF ev]
  show ?thesis
  proof (cases event)
    case (Inl x)
    then show ?thesis using t assms by (simp add: insufficient_stock_telemetry_def e ev)
  next
    case (Inr x)
    have "tv_event_type x = ''inventory_stock_insufficient''" using event_cmd_Inr [OF ev [unfolded Inr]] by simp
    then have "background (map_event_to_row ''api'' x)"
      by (simp add: background_def official_row_def map_event_to_row_def OFFICIAL_EVENT_TYPES_def
          INBOUND_ORDER_CREATED_def OUTBOUND_ORDER_CREATED_def STOCK_THRESHOLD_TRIGGERED_def INVENTORY_DISCREPANCY_DETECTED_def)
    then show ?thesis
      using t Inr assms by (auto simp: insufficient_stock_telemetry_def e ev capture_telemetry_events_def
          persist_backend_telemetry_best_effort_def persist_backend_telemetry_def bulk_insert_telemetry_def)
  qed
qed

lemma background_operations [background_intros]:
  "writes_background (create_stock_entry E d1 user rid)"
  "writes_background (create_stock_exit E d2 user rid)"
  "writes_background (update_sku_threshold E k threshold)"
  "writes_background (confirm_inventory_physical_count E d3 user rid)"
proof -
  note in_tx = background_commit_and_refresh [THEN writes_backgroundD]
  show "writes_background (create_stock_entry E d1 user rid)"
    unfolding writes_background_def create_stock_entry_def
    by (auto simp: Let_def split: prod.splits option.splits sum.splits
        dest!: lock_skus_telemetry in_tx [OF background_bodies(1)])
  show "writes_background (create_stock_exit E d2 user rid)"
    unfolding writes_background_def create_stock_exit_def
    by (auto simp: Let_def split: prod.splits option.splits sum.splits intro: insufficient_background
        dest!: lock_skus_telemetry in_tx [OF background_bodies(2)])
  show "writes_background (update_sku_threshold E k threshold)"
    unfolding writes_background_def update_sku_threshold_def
    by (auto simp: Let_def split: prod.splits option.splits sum.splits
        dest!: lock_skus_telemetry in_tx [OF background_basic(12)])
  show "writes_background (confirm_inventory_physical_count E d3 user rid)"
    unfolding writes_background_def confirm_inventory_physical_count_def
    by (auto simp: Let_def split: prod.splits option.splits sum.splits
        dest!: lock_skus_telemetry in_tx [OF background_bodies(3)])
qed

lemma find_order_telemetry: "find_order i s = (r, t) \<Longrightarrow> telemetry_table t = telemetry_table s"
  by (auto simp: find_order_def split: option.splits)

lemma validate_skus_telemetry: "validate_order_skus ds c w s = (r, t) \<Longrightarrow> telemetry_table t = telemetry_table s"
  by (auto simp: validate_order_skus_def Let_def split: prod.splits option.splits if_splits sum.splits
      dest!: lock_skus_telemetry)

lemma background_orders [background_intros]:
  "writes_background (create_commercial_order E d1 user rid)"
  "writes_background (append_commercial_order_dispatches E d2 user rid)"
proof -
  note in_tx = background_commit_and_refresh [THEN writes_backgroundD]
    background_in_transaction [THEN writes_backgroundD]
  show "writes_background (create_commercial_order E d1 user rid)"
    unfolding writes_background_def create_commercial_order_def
    by (auto simp: Let_def split: prod.splits option.splits sum.splits
        dest!: find_order_telemetry validate_skus_telemetry in_tx(1) [OF background_bodies(4)])
  show "writes_background (append_commercial_order_dispatches E d2 user rid)"
    unfolding writes_background_def append_commercial_order_dispatches_def
    by (auto simp: Let_def split: prod.splits option.splits sum.splits list.splits
        dest!: find_order_telemetry validate_skus_telemetry in_tx(2) [OF background_order_dispatches])
qed

lemma background_reads [background_intros]:
  "writes_background (list_products E)" "writes_background (list_orders_endpoint E)"
  "writes_background (\<lambda>s. (get_product (inv_db s) k, s))"
  by (auto simp: list_products_def list_orders_endpoint_def Let_def split: prod.splits option.splits sum.splits
      intro!: writes_backgroundI)

lemma background_routes [background_intros]:
  "writes_background (create_product E p1 user rid)"
  "writes_background (configure_product_threshold E k threshold)"
  "writes_background (create_order_with_dispatches E p2 user rid)"
  "writes_background (append_order_dispatches E i p3 user rid)"
  "writes_background (create_inbound_order E p4 user rid)"
  "writes_background (create_outbound_order E p5 user rid)"
proof -
  show "writes_background (create_product E p1 user rid)"
    unfolding writes_background_def create_product_def
    by (auto simp: Let_def split: prod.splits sum.splits
        dest!: background_commit_and_refresh [THEN writes_backgroundD, OF background_basic(4)])
  show "writes_background (configure_product_threshold E k threshold)"
    unfolding writes_background_def configure_product_threshold_def
    by (auto simp: Let_def bind_cmd_def session_read_def lift_result_def split: prod.splits sum.splits
        dest!: writes_backgroundD [OF background_operations(3)])
qed (auto simp: create_order_with_dispatches_def append_order_dispatches_def create_inbound_order_def
    create_outbound_order_def intro!: background_intros split: prod.splits)

lemma background_handle: "writes_background (handle E user rid r)"
  by (induction E user rid r rule: handle.induct)
    (auto simp: reply_def checked_def intro!: background_intros)

section \<open>The invariant\<close>

lemma handle_system_ok:
  assumes run: "handle E user rid r s = (res, t)" and ok: "system_ok s"
  shows "system_ok t"
proof -
  have inv: "inventory_ok (inv_db s)" and tr: "traced (inv_db s)" and rel: "relay_ok (queue_of s)"
    and src: "events_sourced (queue_of s)" and known: "clients_known (inv_db s)"
    using ok by (simp_all add: system_ok_def)
  obtain rows where rows: "telemetry_table t = telemetry_table s @ rows" "list_all background rows"
    using writes_backgroundD [OF background_handle run refl] by blast
  have "inv_db t = inv_db s \<or> txn (inv_db s) (inv_db t)"
    using handle_atomic [OF inv, of E user rid r] run by (auto simp: atomic_at_def split: sum.splits)
  then have d: "inventory_ok (inv_db t)" "traced (inv_db t)" "enqueued (inv_db s) (inv_db t)"
    "clients_known (inv_db t)"
    using inv tr known txn_ok txn_traced txn_enqueued txn_clients_known by auto
  obtain more where more: "db_outbox (inv_db t) = db_outbox (inv_db s) @ more" "list_all pending more"
    using d(3) by (auto simp: enqueued_def)
  have "event_ids rows = []" using rows(2) by (auto simp: event_ids_def background_def list_all_iff)
  then have "relay_ok (queue_of t)"
    using rel d(1) more rows(1) in_telemetry_mono [of "telemetry_table s" _ "telemetry_table t"]
    by (auto simp: relay_ok_def inventory_ok_def list_all_iff)
  moreover have "events_sourced (queue_of t)"
    using src more(1) rows by (auto simp: events_sourced_def list_all_iff background_def)
  ultimately show ?thesis using d by (simp add: system_ok_def)
qed

text \<open>A relay writes the state of delivery only, and adds the row of an event to telemetry.\<close>

lemma fact_simps [simp]:
  "outbox_fact (record_attempt now code r) = outbox_fact r" "outbox_fact (acknowledge pub now r) = outbox_fact r"
  by (simp_all add: outbox_fact_def) (simp_all add: record_attempt_def acknowledge_def)

lemma relay_iteration_frame:
  assumes "relay_iteration E q = (res, q')"
  shows "map outbox_fact (rl_outbox q') = map outbox_fact (rl_outbox q)"
    and "\<exists>rows. rl_events q' = rl_events q @ rows \<and> (\<forall>e \<in> set rows. \<exists>r \<in> set (rl_outbox q). e = outbox_to_row r)"
proof -
  have upd: "map outbox_fact (sql_update p f table) = map outbox_fact table"
    if "\<And>r. outbox_fact (f r) = outbox_fact r" for p f table
    using that by (simp add: sql_update_def)
  show "map outbox_fact (rl_outbox q') = map outbox_fact (rl_outbox q)"
    using assms by (auto simp: relay_iteration_def source_transaction_def upd
        split: option.splits prod.splits tx_outcome.splits)
  have dest: "\<exists>rows. table' = table @ rows \<and> set rows \<subseteq> {x}" if "destination_transaction F x table = (code, table')" for F x table code table'
    using that by (auto simp: destination_transaction_def persist_destination_event_def
        split: tx_outcome.splits option.splits if_splits)
  show "\<exists>rows. rl_events q' = rl_events q @ rows \<and> (\<forall>e \<in> set rows. \<exists>r \<in> set (rl_outbox q). e = outbox_to_row r)"
  proof (cases "next_pending E (rl_outbox q)")
    case None
    then show ?thesis using assms by (auto simp: relay_iteration_def source_transaction_def split: option.splits tx_outcome.splits)
  next
    case (Some r)
    obtain code ev where d: "destination_transaction E (outbox_to_row r) (rl_events q) = (code, ev)" by fastforce
    have "rl_events q' = rl_events q \<or> rl_events q' = ev"
      using assms by (auto simp: relay_iteration_def source_transaction_def Some d split: option.splits tx_outcome.splits)
    then show ?thesis using dest [OF d] next_pending_Some [OF Some] by auto
  qed
qed

lemma fact_projections:
  "ob_event_id r = fst (outbox_fact r)" "ob_source r = fst (snd (outbox_fact r))"
  "ob_occurred_at r = fst (snd (snd (outbox_fact r)))" "ob_tags r = snd (snd (snd (outbox_fact r)))"
  "ob_source_table r = fst (fst (snd (outbox_fact r)))" "ob_source_pk r = fst (snd (fst (snd (outbox_fact r))))"
  "ob_event_type r = snd (snd (fst (snd (outbox_fact r))))"
  by (simp_all add: outbox_fact_def ob_source_def)

lemma outbox_to_row_fact: "outbox_fact r = outbox_fact r' \<Longrightarrow> outbox_to_row r = outbox_to_row r'"
  by (simp add: outbox_to_row_def fact_projections)

lemma same_facts_row:
  assumes "map outbox_fact table' = map outbox_fact table" and "r' \<in> set table'"
  obtains r where "r \<in> set table" "outbox_fact r = outbox_fact r'"
proof -
  have "outbox_fact r' \<in> outbox_fact ` set table" using assms by (metis image_eqI list.set_map)
  then show thesis using that by auto
qed

lemma sourced_fact: "outbox_fact r = outbox_fact r' \<Longrightarrow> sourced d r = sourced d r'"
  by (simp add: sourced_def from_entry_def from_order_def from_exit_def from_count_def fact_projections(2,3))

lemma same_facts_images:
  assumes "map outbox_fact table' = map outbox_fact table"
  shows "map ob_source_pk (filter (\<lambda>r. ob_source_table r = st) table') = map ob_source_pk (filter (\<lambda>r. ob_source_table r = st) table)"
    "map (\<lambda>r. ((c, ob_source_pk r), ob_event_id r)) (filter (\<lambda>r. ob_source_table r = st) table') =
     map (\<lambda>r. ((c, ob_source_pk r), ob_event_id r)) (filter (\<lambda>r. ob_source_table r = st) table)"
proof -
  have "map (h \<circ> outbox_fact) (filter (p \<circ> outbox_fact) table') = map (h \<circ> outbox_fact) (filter (p \<circ> outbox_fact) table)"
    for p and h :: "_ \<Rightarrow> 'x"
    using arg_cong [OF assms, of "\<lambda>fs. map h (filter p fs)"] by (simp add: filter_map comp_def)
  note eq = this [unfolded comp_def]
  show "map ob_source_pk (filter (\<lambda>r. ob_source_table r = st) table') = map ob_source_pk (filter (\<lambda>r. ob_source_table r = st) table)"
    unfolding fact_projections(5,6) [abs_def] by (rule eq)
  show "map (\<lambda>r. ((c, ob_source_pk r), ob_event_id r)) (filter (\<lambda>r. ob_source_table r = st) table') =
     map (\<lambda>r. ((c, ob_source_pk r), ob_event_id r)) (filter (\<lambda>r. ob_source_table r = st) table)"
    unfolding fact_projections(1,5,6) by (rule eq)
qed

lemma inventory_ok_facts:
  assumes ok: "inventory_ok d" and wf: "outbox_wf table" and same: "map outbox_fact table = map outbox_fact (db_outbox d)"
  shows "inventory_ok (d\<lparr>db_outbox := table\<rparr>)" (is "inventory_ok ?d")
proof -
  note img = same_facts_images [OF same]
  have pks: "ob_source_pk ` set (rows_of st ?d) = ob_source_pk ` set (rows_of st d)" for st
    using arg_cong [OF img(1), of set] by (simp add: rows_of_def)
  have cross: "(\<lambda>r. ((''stockexit'', ob_source_pk r), ob_event_id r)) ` set (rows_of ''stockexit'' ?d) =
      (\<lambda>r. ((''stockexit'', ob_source_pk r), ob_event_id r)) ` set (rows_of ''stockexit'' d)"
    using arg_cong [OF img(2), of set] by (simp add: rows_of_def)
  have tags: "tags_ok ?d"
    unfolding tags_ok_def
  proof
    fix r' assume "r' \<in> set (db_outbox ?d)"
    then have "r' \<in> set table" by simp
    then obtain r where "r \<in> set (db_outbox d)" "outbox_fact r = outbox_fact r'" by (rule same_facts_row [OF same])
    moreover have "filter_tags (ob_event_type r) (ob_tags r) = ob_tags r"
      using ok \<open>r \<in> set (db_outbox d)\<close> by (simp add: inventory_ok_def tags_ok_def)
    ultimately show "filter_tags (ob_event_type r') (ob_tags r') = ob_tags r'" by (simp add: fact_projections)
  qed
  have proj: "sku_clients ?d = sku_clients d" by (simp add: sku_clients_def)
  show ?thesis
    using ok wf pks cross tags
    by (simp add: inventory_ok_def tables_ok_def links_ok_def exit_link_ok_def stock_nonneg_def evals_ok_def
        crossings_published_def orders_published_def counts_published_def entries_published_def client_known_def
        get_current_stock_sums proj)
qed

lemma traced_facts:
  assumes t: "traced d" and same: "map outbox_fact table = map outbox_fact (db_outbox d)"
  shows "traced (d\<lparr>db_outbox := table\<rparr>)" (is "traced ?d")
proof -
  have "outbox_facts ?d = outbox_facts d"
    using arg_cong [OF same, of set] by (simp add: outbox_facts_def)
  then have ext: "extends d ?d" by (simp add: extends_def sku_facts_def)
  have "sourced ?d r'" if "r' \<in> set table" for r'
    using same_facts_row [OF same that] t trails_survive(5) [OF ext] sourced_fact unfolding traced_def by metis
  then show ?thesis by (intro traced_extends [OF t ext]) auto
qed

lemma relay_system_ok:
  assumes run: "relay_iteration E (queue_of s) = (res, q)" and ok: "system_ok s"
  shows "system_ok (with_queue q s)"
proof -
  note frame = relay_iteration_frame [OF run]
  have rel: "relay_ok q" using relay_iteration_ok [OF _ run] ok by (simp add: system_ok_def)
  have same: "map outbox_fact (rl_outbox q) = map outbox_fact (db_outbox (inv_db s))" using frame(1) by simp
  have "inventory_ok ((inv_db s)\<lparr>db_outbox := rl_outbox q\<rparr>)"
    using ok rel same by (intro inventory_ok_facts) (simp_all add: system_ok_def relay_ok_def)
  moreover have "traced ((inv_db s)\<lparr>db_outbox := rl_outbox q\<rparr>)"
    using ok same by (intro traced_facts) (simp_all add: system_ok_def)
  moreover have "events_sourced q"
    unfolding events_sourced_def
  proof (intro ballI impI)
    fix e assume e: "e \<in> set (rl_events q)" "official_row e"
    have "\<exists>r \<in> set (db_outbox (inv_db s)). e = outbox_to_row r"
      using e frame(2) ok by (auto simp: system_ok_def events_sourced_def)
    then obtain r where r: "r \<in> set (db_outbox (inv_db s))" "e = outbox_to_row r" by blast
    obtain r' where "r' \<in> set (rl_outbox q)" "outbox_fact r' = outbox_fact r"
      by (rule same_facts_row [OF same [symmetric] r(1)])
    then show "\<exists>r \<in> set (rl_outbox q). e = outbox_to_row r" using r(2) outbox_to_row_fact by metis
  qed
  moreover have "clients_known (inv_db (with_queue q s))" using ok by (simp add: system_ok_def clients_known_def)
  ultimately show ?thesis using rel by (simp add: system_ok_def)
qed

lemma system_step_ok: "system_step s t \<Longrightarrow> system_ok s \<Longrightarrow> system_ok t"
proof (induction rule: system_step.induct)
  case (sys_telemetry rows s)
  have "event_ids rows = []" using sys_telemetry.hyps by (auto simp: event_ids_def background_def list_all_iff)
  then show ?case
    using sys_telemetry in_telemetry_mono [of "telemetry_table s" _ "telemetry_table s @ rows"]
    by (auto simp: system_ok_def relay_ok_def events_sourced_def queue_of_def list_all_iff background_def)
qed (use handle_system_ok relay_system_ok in blast)+

lemma system_steps_ok: "system_step\<^sup>*\<^sup>* s t \<Longrightarrow> system_ok s \<Longrightarrow> system_ok t"
  by (induction rule: rtranclp_induct) (auto intro: system_step_ok)

end
