(* ===== verification/CoverageFacts.thy ===== *)
theory CoverageFacts
  imports CoverageSystem
begin

text \<open>
  The audit of a week of the system: in a consistent state whose events of the week are delivered, each
  comparison of the audit finds what it looks for.
\<close>

section \<open>Loading\<close>

lemma set_with_sku:
  "x \<in> set (with_sku d key f rows) \<longleftrightarrow> (\<exists>r \<in> set rows. \<exists>p \<in> set (db_skus d). sku_id p = key r \<and> x = f p r)"
  by (auto simp: with_sku_def)

lemma set_py_dict: "x \<in> set (py_dict kvs) \<Longrightarrow> x \<in> set kvs"
proof -
  have sub: "set (foldl (\<lambda>d (k, v). AList.update k v d) a kvs) \<subseteq> set a \<union> set kvs" for a
  proof (induction kvs arbitrary: a)
    case (Cons kv kvs)
    obtain k v where kv: "kv = (k, v)" by (cases kv)
    have "set (AList.update k v a) \<subseteq> insert (k, v) (set a)" by (induction a) auto
    then show ?case using Cons [of "AList.update k v a"] by (simp add: kv) blast
  qed simp
  then show "x \<in> set (py_dict kvs) \<Longrightarrow> x \<in> set kvs" using sub [of "[]"] by (simp add: py_dict_def) blast
qed

lemma keys_py_dict: "fst ` set (py_dict kvs) = fst ` set kvs"
proof -
  have "fst ` set (foldl (\<lambda>d (k, v). AList.update k v d) a kvs) = fst ` set a \<union> fst ` set kvs" for a
  proof (induction kvs arbitrary: a)
    case (Cons kv kvs)
    then show ?case by (cases kv) (auto simp: dom_update)
  qed simp
  then show ?thesis by (simp add: py_dict_def)
qed

lemma the_row:
  assumes "keys_unique key rows" and "r \<in> set rows" and "p r"
  shows "filter (\<lambda>x. key x = key r) (filter p rows) = [r]"
proof -
  have "filter (\<lambda>x. key x = key r) (filter p rows) = filter p (filter (\<lambda>x. key x = key r) rows)"
    by (simp add: conj_commute)
  also have "filter (\<lambda>x. key x = key r) rows = [r]"
    using keys_unique_filter [OF assms(1), of "key r"] keys_unique_find [OF assms(1,2)] by simp
  finally show ?thesis using assms(3) by simp
qed

section \<open>A settled week\<close>

text \<open>
  What the week put in the outbox is published.
\<close>

definition week_delivered :: "inventory_db \<Rightarrow> time \<times> time \<Rightarrow> bool" where
  "week_delivered d bounds \<longleftrightarrow>
     (\<forall>r \<in> set (db_outbox d). within_week bounds (ob_occurred_at r) \<longrightarrow> ob_published_at r \<noteq> None)"

lemma product_columns:
  assumes "keys_unique sku_id (db_skus d)" and "product_of d k w p" and "p' \<in> set (db_skus d)" and "sku_id p' = k"
  shows "sku_client_id p' = sku_client_id p \<and> sku_category p' = sku_category p \<and> sku_warehouse p' = w"
proof -
  obtain q where q: "q \<in> set (db_skus d)" "sku_fact q = sku_fact p"
    using assms(2) by (auto simp: product_of_def sku_facts_def)
  then have "q = p'" using assms by (auto simp: product_of_def sku_fact_def dest: keys_uniqueD)
  then show ?thesis using q assms(2) by (auto simp: product_of_def sku_fact_def)
qed

lemma product_there: "product_of d k w p \<Longrightarrow> \<exists>p' \<in> set (db_skus d). sku_id p' = k"
  by (auto simp: product_of_def sku_facts_def sku_fact_def)

lemma audit_warehouse_Some: "canonical_telemetry_warehouse w = Some c \<Longrightarrow> audit_warehouse w = Some c"
  by (auto simp: audit_warehouse_def canonical_telemetry_warehouse_def split: if_splits)

lemma same_dict_refl [simp]: "same_dict t t"
  by (auto simp: same_dict_def list_all_iff)

lemma load_simps [simp]:
  "os_outbox (load_snapshot d table bounds) = filter (\<lambda>r. within_week bounds (ob_occurred_at r)) (db_outbox d)"
  "os_orders (load_snapshot d table bounds) = filter (\<lambda>c. within_week bounds (co_created_at c)) (db_orders d)"
  "os_checkpoints (load_snapshot d table bounds) = filter (\<lambda>v. within_week bounds (te_evaluated_at v)) (db_evals d)"
  by (simp_all add: load_snapshot_def Let_def)

lemma fact_row:
  assumes wf: "outbox_wf (db_outbox d)" and fact: "(u, key, t, tgs) \<in> outbox_facts d" and "within_week bounds t"
  obtains r where "outbox_rows (os_outbox (load_snapshot d table bounds)) key = [r]" "r \<in> set (db_outbox d)"
    "ob_event_id r = u" "ob_source r = key" "ob_occurred_at r = t" "ob_tags r = tgs"
proof -
  obtain r where r: "r \<in> set (db_outbox d)" "ob_event_id r = u" "ob_source r = key" "ob_occurred_at r = t" "ob_tags r = tgs"
    using fact by (auto simp: outbox_facts_def outbox_fact_def)
  have "outbox_rows (os_outbox (load_snapshot d table bounds)) key = [r]"
    using the_row [of ob_source "db_outbox d" r] wf r assms(3) by (simp add: outbox_rows_def outbox_wf_def)
  then show thesis using r that by blast
qed

lemma exact_fact:
  assumes "outbox_wf (db_outbox d)" and "(u, key, t, tgs) \<in> outbox_facts d" and "within_week bounds t"
  shows "exact_outbox (os_outbox (load_snapshot d table bounds)) key tgs mismatch = []"
proof -
  obtain r where "outbox_rows (os_outbox (load_snapshot d table bounds)) key = [r]" "ob_tags r = tgs"
    by (rule fact_row [OF assms, of table])
  then show ?thesis by (simp add: exact_outbox_def)
qed

section \<open>Entries, orders and counts\<close>

lemma entry_clean:
  assumes ok: "inventory_ok d" "traced d" "clients_known d"
    and e: "e \<in> set (os_entries (load_snapshot d table bounds))"
  shows "entry_diagnostics (load_snapshot d table bounds) e = [] \<and> entry_key e \<in> ob_source ` set (os_outbox (load_snapshot d table bounds))"
proof -
  obtain x p where x: "x \<in> set (db_entries d)" "within_week bounds (en_created_at x)"
    and p: "p \<in> set (db_skus d)" "sku_id p = en_sku_id x"
    and e_def: "e = audited_entry p x"
    using e by (auto simp: load_snapshot_def Let_def set_with_sku)
  note e_def = e_def [unfolded audited_entry_def]
  obtain q where q: "product_of d (en_sku_id x) (en_warehouse x) q"
    and fact: "sku_client_id q \<noteq> None \<longrightarrow> (\<exists>u w. canonical_telemetry_warehouse (en_warehouse x) = Some w \<and>
        (u, (''stockentry'', en_id x, ''inbound_order_created''), en_created_at x, inbound_tags q w x) \<in> outbox_facts d)"
    using ok(2) x(1) unfolding traced_def entry_traced_def by blast
  have uniq: "keys_unique sku_id (db_skus d)" "outbox_wf (db_outbox d)" using ok(1) by (auto simp: inventory_ok_def tables_ok_def)
  note cols = product_columns [OF uniq(1) q p]
  have known: "sku_client_id q \<noteq> None" using ok(3) p(1) cols unfolding clients_known_def by metis
  then obtain c where c: "sku_client_id q = Some c" by auto
  obtain u w where w: "canonical_telemetry_warehouse (en_warehouse x) = Some w"
    and f: "(u, entry_key e, en_created_at x, inbound_tags q w x) \<in> outbox_facts d"
    using fact known by (auto simp: e_def entry_key_def)
  have tags: "inbound_tags q w x = entry_tags e"
    using cols q c p(2) by (simp add: inbound_tags_def entry_tags_def e_def json_text_def audit_warehouse_Some [OF w] product_of_def)
  obtain r where r: "r \<in> set (db_outbox d)" "ob_source r = entry_key e" "ob_occurred_at r = en_created_at x"
    by (rule fact_row [OF uniq(2) f x(2), of table])
  show ?thesis
    using exact_fact [OF uniq(2) f x(2)] r x(2) by (auto simp: entry_diagnostics_def tags intro!: image_eqI [of _ _ r])
qed

lemma order_clean:
  assumes ok: "inventory_ok d" "traced d" and c: "c \<in> set (os_orders (load_snapshot d table bounds))"
  shows "order_diagnostics (load_snapshot d table bounds) c = [] \<and> order_key c \<in> ob_source ` set (os_outbox (load_snapshot d table bounds))"
proof -
  have c: "c \<in> set (db_orders d)" "within_week bounds (co_created_at c)" using c by simp_all
  obtain x u where x: "x \<in> set (db_exits d)" "ex_commercial_order_id x = Some (co_id c)" "ex_warehouse x = co_warehouse c"
    and f: "(u, order_key c, co_created_at c, outbound_tags c) \<in> outbox_facts d"
    using ok(2) c(1) by (auto simp: traced_def order_traced_def order_key_def)
  have wf: "outbox_wf (db_outbox d)" using ok(1) by (simp add: inventory_ok_def)
  obtain p where "p \<in> set (db_skus d)" "sku_warehouse p = co_warehouse c" "sku_ok p"
    using ok(1) x by (fastforce simp: inventory_ok_def tables_ok_def movement_of_sku_def sku_warehouses_def)
  then obtain w where w: "canonical_telemetry_warehouse (co_warehouse c) = Some w"
    by (metis sku_ok_def sku_warehouse_known)
  have tags: "outbound_tags c = order_tags c"
    by (simp add: outbound_tags_def order_tags_def w audit_warehouse_Some [OF w] json_text_def)
  have "(ex_dispatch_id x, co_id c) \<in> set (related_dispatches (load_snapshot d table bounds) c)"
    using x by (force simp: related_dispatches_def load_snapshot_def Let_def map_filter_def)
  then have "related_dispatches (load_snapshot d table bounds) c \<noteq> []" by auto
  moreover obtain r where "r \<in> set (db_outbox d)" "ob_source r = order_key c" "ob_occurred_at r = co_created_at c"
    by (rule fact_row [OF wf f c(2), of table])
  ultimately show ?thesis
    using exact_fact [OF wf f c(2)] c(2) by (auto simp: order_diagnostics_def tags intro!: image_eqI [of _ _ r])
qed

lemma count_clean:
  assumes ok: "inventory_ok d" "traced d" and k: "k \<in> set (os_counts (load_snapshot d table bounds))"
  shows "count_diagnostics (load_snapshot d table bounds) k = [] \<and>
    (discrepant k \<longrightarrow> count_key k \<in> ob_source ` set (os_outbox (load_snapshot d table bounds)))"
proof -
  obtain x p where x: "x \<in> set (db_counts d)" "within_week bounds (pc_confirmed_at x)"
    and p: "p \<in> set (db_skus d)" "sku_id p = pc_sku_id x"
    and k_def: "k = audited_count p x"
    using k by (auto simp: load_snapshot_def Let_def set_with_sku)
  note k_def = k_def [unfolded audited_count_def]
  have uniq: "keys_unique sku_id (db_skus d)" "outbox_wf (db_outbox d)" "keys_unique pc_id (db_counts d)"
    using ok(1) by (auto simp: inventory_ok_def tables_ok_def)
  have key: "count_key k = (''inventory_physical_count'', pc_id x, ''inventory_discrepancy_detected'')"
    by (simp add: count_key_def k_def)
  obtain q where q: "product_of d (pc_sku_id x) (pc_warehouse x) q" "sku_client_id q = Some (pc_client_id x)"
    and fact: "pc_observed_quantity x \<noteq> pc_expected_quantity x \<longrightarrow> (\<exists>u w. canonical_telemetry_warehouse (pc_warehouse x) = Some w \<and>
        (u, count_key k, pc_confirmed_at x, discrepancy_tags q w x) \<in> outbox_facts d)"
  proof -
    have "count_traced d x" using ok(2) x(1) by (simp add: traced_def)
    then show thesis using that unfolding count_traced_def key by metis
  qed
  note cols = product_columns [OF uniq(1) q(1) p]
  show ?thesis
  proof (cases "discrepant k")
    case True
    then obtain u w where w: "canonical_telemetry_warehouse (pc_warehouse x) = Some w"
      and f: "(u, count_key k, pc_confirmed_at x, discrepancy_tags q w x) \<in> outbox_facts d"
      using fact by (auto simp: discrepant_def k_def)
    have tags: "discrepancy_tags q w x = count_tags k"
      using cols q p(2) by (simp add: discrepancy_tags_def count_tags_def k_def json_text_def audit_warehouse_Some [OF w] product_of_def)
    obtain r where "outbox_rows (os_outbox (load_snapshot d table bounds)) (count_key k) = [r]" "r \<in> set (db_outbox d)"
      "ob_source r = count_key k" "ob_occurred_at r = pc_confirmed_at x" "ob_tags r = discrepancy_tags q w x"
      by (rule fact_row [OF uniq(2) f x(2), of table])
    then show ?thesis using True x(2) by (auto simp: count_diagnostics_def tags intro!: image_eqI [of _ _ r])
  next
    case False
    have "r \<notin> set (db_outbox d)" if src: "ob_source r = count_key k" for r
    proof
      assume "r \<in> set (db_outbox d)"
      then have "sourced d r" using ok(2) by (simp add: traced_def)
      then obtain y where y: "y \<in> set (db_counts d)" "pc_observed_quantity y \<noteq> pc_expected_quantity y" "pc_id y = pc_id x"
        using src [unfolded key] by (auto simp: sourced_def from_entry_def from_order_def from_exit_def from_count_def)
      have "y = x" by (rule keys_uniqueD [OF uniq(3) y(1) x(1) y(3)])
      then show False using False y(2) by (simp add: discrepant_def k_def)
    qed
    then have "outbox_rows (os_outbox (load_snapshot d table bounds)) (count_key k) = []"
      by (auto simp: outbox_rows_def filter_empty_conv)
    then show ?thesis using False by (simp add: count_diagnostics_def)
  qed
qed

section \<open>Movements\<close>

text \<open>A movement of the snapshot is an entry or an exit of the week.\<close>

lemma movement_source:
  assumes "(key, m) \<in> set (movement_dict (load_snapshot d table bounds))"
  obtains (entry) e p where "e \<in> set (db_entries d)" "within_week bounds (en_created_at e)" "p \<in> set (db_skus d)"
      "sku_id p = en_sku_id e" "key = (''stockentry'', en_id e)"
      "m = inbound_movement p e"
  | (exit) x p where "x \<in> set (db_exits d)" "within_week bounds (ex_created_at x)" "p \<in> set (db_skus d)"
      "sku_id p = ex_sku_id x" "key = (''stockexit'', ex_id x)"
      "m = outbound_movement p x"
proof -
  have "m \<in> set (os_movements (load_snapshot d table bounds))" "key = am_source m"
    using set_py_dict [OF assms [unfolded movement_dict_def]] by auto
  then show thesis
    using that by (auto simp: load_snapshot_def Let_def set_with_sku am_source_def inbound_movement_def outbound_movement_def)
qed

lemma the_checkpoint:
  assumes "evals_ok d" and "v \<in> set (db_evals d)" and "within_week bounds (te_evaluated_at v)"
  shows "checkpoints_for (load_snapshot d table bounds) (te_source v) = [v]"
  using the_row [of te_source "db_evals d" v] assms by (simp add: checkpoints_for_def evals_ok_def)

lemma no_rows:
  assumes "\<And>r. r \<in> set (db_outbox d) \<Longrightarrow> ob_source r \<noteq> key"
  shows "outbox_rows (os_outbox (load_snapshot d table bounds)) key = []"
  using assms by (auto simp: outbox_rows_def filter_empty_conv)

lemma entry_movement_clean:
  assumes ok: "inventory_ok d" "traced d" and e: "e \<in> set (db_entries d)" "within_week bounds (en_created_at e)"
    and p: "p \<in> set (db_skus d)" "sku_id p = en_sku_id e"
    and m: "m = inbound_movement p e"
  shows "movement_diagnostics (load_snapshot d table bounds) ((''stockentry'', en_id e), m) = [] \<and>
    (\<exists>v. checkpoints_for (load_snapshot d table bounds) (''stockentry'', en_id e) = [v] \<and> \<not> audit_crossed (''stockentry'', en_id e) v)"
proof -
  note m = m [unfolded inbound_movement_def]
  obtain q v where q: "product_of d (en_sku_id e) (en_warehouse e) q"
    and v: "v \<in> set (db_evals d)" "evaluates (''stockentry'', en_id e) q (en_created_at e) v"
      "te_after_quantity v = te_before_quantity v + en_quantity e" "\<not> te_crossed v" "te_event_id v = None"
    using ok(2) e(1) unfolding traced_def entry_traced_def by blast
  have evs: "evals_ok d" and uniq: "keys_unique sku_id (db_skus d)" using ok(1) by (simp_all add: inventory_ok_def tables_ok_def)
  have cp: "checkpoints_for (load_snapshot d table bounds) (''stockentry'', en_id e) = [v]"
    using the_checkpoint [OF evs v(1), of bounds table] v(2) e(2) by (simp add: evaluates_def)
  have rows: "outbox_rows (os_outbox (load_snapshot d table bounds)) (threshold_key (''stockentry'', en_id e)) = []"
    using ok(2) by (intro no_rows) (auto simp: traced_def sourced_def from_entry_def from_order_def from_exit_def
        from_count_def threshold_key_def)
  have nc: "\<not> audit_crossed (''stockentry'', en_id e) v" by (simp add: audit_crossed_def)
  note cols = product_columns [OF uniq q p]
  have "\<not> checkpoint_mismatch (''stockentry'', en_id e) m v"
    using v cols q p(2) by (simp add: checkpoint_mismatch_def m evaluates_def product_of_def nc)
  moreover have "te_evaluated_at v = am_created_at m" using v(2) by (simp add: m evaluates_def)
  ultimately show ?thesis using v(5) by (auto simp: movement_diagnostics_def cp rows [simplified] nc)
qed

lemma exit_movement_clean:
  assumes ok: "inventory_ok d" "traced d" and x: "x \<in> set (db_exits d)" "within_week bounds (ex_created_at x)"
    and p: "p \<in> set (db_skus d)" "sku_id p = ex_sku_id x"
    and m: "m = outbound_movement p x"
  shows "movement_diagnostics (load_snapshot d table bounds) ((''stockexit'', ex_id x), m) = [] \<and>
    (\<exists>v. checkpoints_for (load_snapshot d table bounds) (''stockexit'', ex_id x) = [v] \<and> v \<in> set (db_evals d) \<and>
      (audit_crossed (''stockexit'', ex_id x) v \<longleftrightarrow> te_crossed v) \<and>
      (te_crossed v \<longrightarrow> threshold_key (''stockexit'', ex_id x) \<in> ob_source ` set (os_outbox (load_snapshot d table bounds))))"
proof -
  let ?key = "(''stockexit'', ex_id x)" and ?snap = "load_snapshot d table bounds"
  note m = m [unfolded outbound_movement_def]
  obtain q v where q: "product_of d (ex_sku_id x) (ex_warehouse x) q"
    and v: "v \<in> set (db_evals d)" "evaluates ?key q (ex_created_at x) v"
      "te_after_quantity v = te_before_quantity v - ex_quantity x" "te_crossed v \<longleftrightarrow> threshold_crossed v"
    and ev: "if te_crossed v
         then \<exists>u w. te_event_id v = Some u \<and> canonical_telemetry_warehouse (ex_warehouse x) = Some w \<and> sku_client_id q \<noteq> None \<and>
           (u, threshold_key ?key, ex_created_at x,
            threshold_tags q w (te_after_quantity v) (the (te_threshold_quantity v)) (ex_id x)) \<in> outbox_facts d
         else te_event_id v = None"
    using ok(2) x(1) unfolding traced_def exit_traced_def threshold_key_def by auto
  have evs: "evals_ok d" and uniq: "keys_unique sku_id (db_skus d)" "outbox_wf (db_outbox d)"
    using ok(1) by (simp_all add: inventory_ok_def tables_ok_def)
  have src: "te_source v = ?key" using v(2) by (simp add: evaluates_def)
  have cp: "checkpoints_for ?snap ?key = [v]"
    using the_checkpoint [OF evs v(1), of bounds table] v(2) x(2) by (simp add: evaluates_def)
  have ac: "audit_crossed ?key v \<longleftrightarrow> te_crossed v" using v(4) by (simp add: audit_crossed_def threshold_crossed_def)
  note cols = product_columns [OF uniq(1) q p]
  have "\<not> checkpoint_mismatch ?key m v"
    using v cols q p(2) by (simp add: checkpoint_mismatch_def m evaluates_def product_of_def ac)
  moreover have "te_evaluated_at v = am_created_at m" using v(2) by (simp add: m evaluates_def)
  moreover have "(if te_crossed v then \<exists>r. outbox_rows (os_outbox ?snap) (threshold_key ?key) = [r] \<and> r \<in> set (os_outbox ?snap) \<and>
        ob_source r = threshold_key ?key \<and> te_event_id v = Some (ob_event_id r) \<and> same_dict (ob_tags r) (crossing_tags ?key m v)
      else outbox_rows (os_outbox ?snap) (threshold_key ?key) = [] \<and> te_event_id v = None)"
  proof (cases "te_crossed v")
    case True
    then obtain u w c where u: "te_event_id v = Some u" and w: "canonical_telemetry_warehouse (ex_warehouse x) = Some w"
      and c: "sku_client_id q = Some c"
      and f: "(u, threshold_key ?key, ex_created_at x,
            threshold_tags q w (te_after_quantity v) (the (te_threshold_quantity v)) (ex_id x)) \<in> outbox_facts d"
      using ev by auto
    obtain t where t: "te_threshold_quantity v = Some t"
      using True v(4) by (auto simp: threshold_crossed_def split: option.splits)
    have "threshold_tags q w (te_after_quantity v) (the (te_threshold_quantity v)) (ex_id x) = crossing_tags ?key m v"
      using cols q c p(2) by (simp add: threshold_tags_def crossing_tags_def m t json_text_def audit_warehouse_Some [OF w] product_of_def)
    moreover obtain r where "outbox_rows (os_outbox ?snap) (threshold_key ?key) = [r]" "r \<in> set (db_outbox d)" "ob_event_id r = u"
      "ob_source r = threshold_key ?key" "ob_occurred_at r = ex_created_at x"
      "ob_tags r = threshold_tags q w (te_after_quantity v) (the (te_threshold_quantity v)) (ex_id x)"
      by (rule fact_row [OF uniq(2) f x(2), of table])
    ultimately show ?thesis using True u x(2) by simp
  next
    case False
    have "ob_source r \<noteq> threshold_key ?key" if r: "r \<in> set (db_outbox d)" for r
    proof
      assume "ob_source r = threshold_key ?key"
      then obtain v' where "v' \<in> set (db_evals d)" "te_source v' = ?key" "te_crossed v'"
        using ok(2) r by (auto simp: traced_def sourced_def from_entry_def from_order_def from_exit_def from_count_def threshold_key_def)
      then show False using False evs v(1) src keys_uniqueD [of te_source "db_evals d" v' v] by (simp add: evals_ok_def)
    qed
    then show ?thesis using False ev no_rows [of d] by simp
  qed
  ultimately show ?thesis
    using v(1) cp ac by (cases "te_crossed v") (auto simp: movement_diagnostics_def intro!: rev_image_eqI)
qed

section \<open>Telemetry\<close>

lemma stored_row_simps [simp]:
  "rp_timestamp (stored_row drawn (n, e)) = tr_timestamp e" "rp_service (stored_row drawn (n, e)) = tr_service e"
  "rp_event_type (stored_row drawn (n, e)) = tr_event_type e"
  "rp_id (stored_row drawn (n, e)) = or_else (tr_id e) (drawn n)" "rp_tags (stored_row drawn (n, e)) = tr_tags e"
  by (simp_all add: stored_row_def)

lemma as_telemetry_stored: "tr_id e = Some i \<Longrightarrow> as_telemetry (stored_row drawn (n, e)) = e"
  by (simp add: as_telemetry_def stored_row_def or_else_def)

lemma load_telemetry:
  "official_telemetry (load_snapshot d table bounds) =
     filter (\<lambda>e. within_week bounds (rp_timestamp e) \<and> rp_service e = ''api'' \<and> rp_event_type e \<in> set OFFICIAL_EVENT_TYPES) table"
  by (simp add: official_telemetry_def load_snapshot_def Let_def)

lemma enumerate_member: "(n, e) \<in> set (List.enumerate k xs) \<Longrightarrow> e \<in> set xs"
  unfolding enumerate_eq_zip by (rule set_zip_rightD)

lemma stored_member:
  assumes "e' \<in> set (stored_rows drawn table)"
  obtains n e where "e \<in> set table" "e' = stored_row drawn (n, e)"
proof -
  obtain x where x: "x \<in> set (List.enumerate 0 table)" "e' = stored_row drawn x" using assms by (auto simp: stored_rows_def)
  obtain n e where "x = (n, e)" by (cases x)
  then show thesis
    by (intro that [of e n]) (use x enumerate_member [of n e 0 table] in simp_all)
qed

lemma official_types: "set OUTBOX_EVENT_TYPES = set OFFICIAL_EVENT_TYPES"
  by (auto simp: OUTBOX_EVENT_TYPES_def OUTBOX_SOURCE_EVENT_TYPES_def OFFICIAL_EVENT_TYPES_def INBOUND_ORDER_CREATED_def
      OUTBOUND_ORDER_CREATED_def STOCK_THRESHOLD_TRIGGERED_def INVENTORY_DISCREPANCY_DETECTED_def)

lemma outbox_to_row_official:
  assumes "outbox_wf table" and "r \<in> set table"
  shows "official_row (outbox_to_row r)"
proof -
  have "(ob_source_table r, ob_event_type r) \<in> set OUTBOX_SOURCE_EVENT_TYPES" using assms by (simp add: outbox_wf_def)
  then have "ob_event_type r \<in> set OFFICIAL_EVENT_TYPES" using source_event_pairD official_types by blast
  then show ?thesis by (simp add: official_row_def outbox_to_row_def map_outbox_event_to_row_def)
qed

lemma same_destination_columns:
  assumes "same_destination a b"
  shows "tr_service a = tr_service b \<and> tr_event_type a = tr_event_type b \<and> tr_timestamp a = tr_timestamp b \<and> tr_id a = tr_id b"
proof -
  have "tr_service (a\<lparr>tr_tags := []\<rparr>) = tr_service (b\<lparr>tr_tags := []\<rparr>)" "tr_event_type (a\<lparr>tr_tags := []\<rparr>) = tr_event_type (b\<lparr>tr_tags := []\<rparr>)"
    "tr_timestamp (a\<lparr>tr_tags := []\<rparr>) = tr_timestamp (b\<lparr>tr_tags := []\<rparr>)" "tr_id (a\<lparr>tr_tags := []\<rparr>) = tr_id (b\<lparr>tr_tags := []\<rparr>)"
    using assms by (simp_all add: same_destination_def)
  then show ?thesis by simp
qed

lemma delivery_clean:
  assumes ok: "system_ok s" and r: "r \<in> set (db_outbox (inv_db s))" "within_week bounds (ob_occurred_at r)"
    and pub: "ob_published_at r \<noteq> None"
  shows "delivery_diagnostics (load_snapshot (inv_db s) (stored_rows drawn (telemetry_table s)) bounds) r = []"
proof -
  let ?table = "telemetry_table s" and ?i = "ob_event_id r"
  have rel: "relay_ok (queue_of s)" and src: "events_sourced (queue_of s)" and wf: "outbox_wf (db_outbox (inv_db s))"
    using ok by (simp_all add: system_ok_def inventory_ok_def)
  have "in_telemetry ?table r" using rel r(1) pub by (simp add: relay_ok_def pending_def)
  then obtain e where e: "filter (\<lambda>e. tr_id e = Some ?i) ?table = [e]" "same_destination e (outbox_to_row r)"
    using in_telemetry_once [of ?table r] rel by (auto simp: relay_ok_def)
  have e_in: "e \<in> set ?table" "tr_id e = Some ?i" using arg_cong [OF e(1), of set] by auto
  note cols = same_destination_columns [OF e(2)]
  have off: "official_row e" "within_week bounds (tr_timestamp e)"
    using cols outbox_to_row_official [OF wf r(1)] r(2)
    by (simp_all add: official_row_def outbox_to_row_def map_outbox_event_to_row_def)
  let ?p = "\<lambda>e'. within_week bounds (rp_timestamp e') \<and> rp_service e' = ''api'' \<and> rp_event_type e' \<in> set OFFICIAL_EVENT_TYPES"
  have same: "(rp_id (stored_row drawn x) = ?i \<and> ?p (stored_row drawn x)) = (tr_id (snd x) = Some ?i)"
    if mem: "x \<in> set (List.enumerate 0 ?table)" for x
  proof -
    obtain n f where nf: "x = (n, f)" by (cases x)
    have x: "x = (n, f)" "f \<in> set ?table" using nf mem enumerate_member [of n f 0 ?table] by simp_all
    show ?thesis
    proof
      assume a: "rp_id (stored_row drawn x) = ?i \<and> ?p (stored_row drawn x)"
      then obtain r' where "f = outbox_to_row r'" using src x by (auto simp: events_sourced_def official_row_def)
      then show "tr_id (snd x) = Some ?i" using a x by (simp add: or_else_def)
    next
      assume a: "tr_id (snd x) = Some ?i"
      then have "f \<in> set (filter (\<lambda>e. tr_id e = Some ?i) ?table)" using x by simp
      then have "f = e" by (simp add: e(1))
      then show "rp_id (stored_row drawn x) = ?i \<and> ?p (stored_row drawn x)"
        using off e_in x by (simp add: official_row_def or_else_def)
    qed
  qed
  have "map snd (filter (\<lambda>x. tr_id (snd x) = Some ?i) (List.enumerate 0 ?table)) = filter (\<lambda>e. tr_id e = Some ?i) ?table"
    using filter_map [of "\<lambda>e. tr_id e = Some ?i" snd "List.enumerate 0 ?table"] by (simp add: comp_def)
  then obtain n where one: "filter (\<lambda>x. tr_id (snd x) = Some ?i) (List.enumerate 0 ?table) = [(n, e)]"
    unfolding e(1) by auto
  have "filter (\<lambda>e'. rp_id e' = ?i) (filter ?p (stored_rows drawn ?table)) =
      map (stored_row drawn) (filter (\<lambda>x. rp_id (stored_row drawn x) = ?i \<and> ?p (stored_row drawn x)) (List.enumerate 0 ?table))"
    by (simp add: stored_rows_def filter_map comp_def conj_commute)
  also have "filter (\<lambda>x. rp_id (stored_row drawn x) = ?i \<and> ?p (stored_row drawn x)) (List.enumerate 0 ?table) = [(n, e)]"
    unfolding one [symmetric] by (rule filter_cong [OF refl]) (rule same)
  finally show ?thesis
    using pub e(2) as_telemetry_stored [OF e_in(2)] by (simp add: delivery_diagnostics_def load_telemetry)
qed

lemma telemetry_matched:
  assumes ok: "system_ok s"
  shows "unmatched_telemetry (load_snapshot (inv_db s) (stored_rows drawn (telemetry_table s)) bounds) = []"
proof -
  have "rp_id e' \<in> ob_event_id ` set (filter (\<lambda>r. within_week bounds (ob_occurred_at r)) (db_outbox (inv_db s)))"
    if e': "e' \<in> set (stored_rows drawn (telemetry_table s))" "within_week bounds (rp_timestamp e')" "rp_service e' = ''api''"
      "rp_event_type e' \<in> set OFFICIAL_EVENT_TYPES" for e'
  proof -
    obtain n e where e: "e \<in> set (telemetry_table s)" "e' = stored_row drawn (n, e)" by (rule stored_member [OF e'(1)])
    then obtain r where "r \<in> set (db_outbox (inv_db s))" "e = outbox_to_row r"
      using ok e' by (auto simp: system_ok_def events_sourced_def official_row_def)
    then show ?thesis using e'(2) e(2) by (auto simp: or_else_def outbox_to_row_def map_outbox_event_to_row_def)
  qed
  then show ?thesis by (auto simp: unmatched_telemetry_def load_telemetry list_ex_iff)
qed

section \<open>The audit\<close>

lemma uuid_text_Some: "a \<noteq> None \<Longrightarrow> b \<noteq> None \<Longrightarrow> uuid_text a = uuid_text b \<Longrightarrow> a = b"
  by (auto simp: uuid_text_def uuid_str_inject)

lemma dispatch_ids_clean:
  assumes ok: "inventory_ok d"
  shows "dispatch_id_diagnostics (load_snapshot d table bounds) = []"
proof -
  let ?xs = "filter (\<lambda>x. ex_commercial_order_id x \<noteq> None) (db_exits d)"
  have some: "ex_dispatch_id x \<noteq> None" if "x \<in> set ?xs" for x
    using that ok by (auto simp: inventory_ok_def links_ok_def exit_link_ok_def)
  have mf: "List.map_filter (\<lambda>x. map_option (Pair (ex_dispatch_id x)) (ex_commercial_order_id x)) xs =
      map (\<lambda>x. (ex_dispatch_id x, the (ex_commercial_order_id x))) (filter (\<lambda>x. ex_commercial_order_id x \<noteq> None) xs)" for xs
    by (induction xs) (auto simp: map_filter_simps split: option.splits)
  have ds: "map (uuid_text \<circ> fst) (os_dispatches (load_snapshot d table bounds)) = map (uuid_text \<circ> ex_dispatch_id) ?xs"
    by (simp add: load_snapshot_def Let_def mf)
  have "distinct (map ex_dispatch_id (filter (\<lambda>x. ex_dispatch_id x \<noteq> None) (db_exits d)))"
    using ok by (simp add: inventory_ok_def tables_ok_def keys_unique_def)
  then have "distinct (map ex_dispatch_id (filter (\<lambda>x. ex_commercial_order_id x \<noteq> None) (filter (\<lambda>x. ex_dispatch_id x \<noteq> None) (db_exits d))))"
    by (rule distinct_map_filter)
  moreover have "filter (\<lambda>x. ex_commercial_order_id x \<noteq> None) (filter (\<lambda>x. ex_dispatch_id x \<noteq> None) (db_exits d)) = ?xs"
    using some by (auto intro: filter_cong)
  ultimately have "distinct (map ex_dispatch_id ?xs)" by simp
  then have "distinct (map uuid_text (map ex_dispatch_id ?xs))"
    unfolding distinct_map [of uuid_text]
  proof
    show "inj_on uuid_text (set (map ex_dispatch_id ?xs))"
    proof (rule inj_onI)
      fix a b assume ab: "a \<in> set (map ex_dispatch_id ?xs)" "b \<in> set (map ex_dispatch_id ?xs)" "uuid_text a = uuid_text b"
      have "a \<noteq> None" "b \<noteq> None" using ab(1,2) some by auto
      then show "a = b" using ab(3) by (rule uuid_text_Some)
    qed
  qed
  then show ?thesis by (simp add: dispatch_id_diagnostics_def ds)
qed

lemma movement_there:
  assumes "am \<in> set (os_movements (load_snapshot d table bounds))"
  shows "am_source am \<in> fst ` set (movement_dict (load_snapshot d table bounds))"
  using assms by (auto simp: movement_dict_def keys_py_dict image_image)

lemma loaded_rows:
  "\<lbrakk>e \<in> set (db_entries d); within_week bounds (en_created_at e); p \<in> set (db_skus d); sku_id p = en_sku_id e\<rbrakk>
     \<Longrightarrow> audited_entry p e \<in> set (os_entries (load_snapshot d table bounds)) \<and>
         inbound_movement p e \<in> set (os_movements (load_snapshot d table bounds))"
  "\<lbrakk>x \<in> set (db_exits d); within_week bounds (ex_created_at x); p \<in> set (db_skus d); sku_id p = ex_sku_id x\<rbrakk>
     \<Longrightarrow> outbound_movement p x \<in> set (os_movements (load_snapshot d table bounds))"
  "\<lbrakk>c \<in> set (db_counts d); within_week bounds (pc_confirmed_at c); p \<in> set (db_skus d); sku_id p = pc_sku_id c\<rbrakk>
     \<Longrightarrow> audited_count p c \<in> set (os_counts (load_snapshot d table bounds))"
  unfolding load_snapshot_def Let_def by (simp_all add: set_with_sku) blast+

lemma entry_there:
  assumes "e \<in> set (db_entries d)" "within_week bounds (en_created_at e)" "p \<in> set (db_skus d)" "sku_id p = en_sku_id e"
  shows "(''stockentry'', en_id e) \<in> fst ` set (movement_dict (load_snapshot d table bounds))"
  using movement_there [of "inbound_movement p e" d table bounds] loaded_rows(1) [OF assms]
  by (simp add: am_source_def inbound_movement_def)

lemma exit_there:
  assumes "x \<in> set (db_exits d)" "within_week bounds (ex_created_at x)" "p \<in> set (db_skus d)" "sku_id p = ex_sku_id x"
  shows "(''stockexit'', ex_id x) \<in> fst ` set (movement_dict (load_snapshot d table bounds))"
  using movement_there [of "outbound_movement p x" d table bounds] loaded_rows(2) [OF assms]
  by (simp add: am_source_def outbound_movement_def)

lemma checkpoint_expected:
  assumes ok: "inventory_ok d" "traced d" and v: "v \<in> set (db_evals d)" "within_week bounds (te_evaluated_at v)"
  shows "te_source v \<in> fst ` set (movement_dict (load_snapshot d table bounds))"
proof -
  have evs: "evals_ok d" using ok(1) by (simp add: inventory_ok_def)
  have "te_source v \<in> te_source ` set (db_evals d)" using v(1) by simp
  then have "te_source v \<in> (\<lambda>e. (''stockentry'', en_id e)) ` set (db_entries d) \<union> (\<lambda>x. (''stockexit'', ex_id x)) ` set (db_exits d)"
    using evs by (simp only: evals_ok_def)
  then consider e where "e \<in> set (db_entries d)" "te_source v = (''stockentry'', en_id e)"
    | x where "x \<in> set (db_exits d)" "te_source v = (''stockexit'', ex_id x)" by auto
  then show ?thesis
  proof cases
    case (1 e)
    then obtain q v' where q: "product_of d (en_sku_id e) (en_warehouse e) q" "v' \<in> set (db_evals d)"
      "evaluates (''stockentry'', en_id e) q (en_created_at e) v'"
      using ok(2) unfolding traced_def entry_traced_def by blast
    then have "v' = v" using evs v(1) 1(2) by (intro keys_uniqueD [of te_source "db_evals d"]) (simp_all add: evals_ok_def evaluates_def)
    then have t: "within_week bounds (en_created_at e)" using v(2) q(3) by (simp add: evaluates_def)
    obtain p where "p \<in> set (db_skus d)" "sku_id p = en_sku_id e" using product_there [OF q(1)] by blast
    then show ?thesis using entry_there [OF 1(1) t] 1(2) by simp
  next
    case (2 x)
    then obtain q v' where q: "product_of d (ex_sku_id x) (ex_warehouse x) q" "v' \<in> set (db_evals d)"
      "evaluates (''stockexit'', ex_id x) q (ex_created_at x) v'"
      using ok(2) unfolding traced_def exit_traced_def by blast
    then have "v' = v" using evs v(1) 2(2) by (intro keys_uniqueD [of te_source "db_evals d"]) (simp_all add: evals_ok_def evaluates_def)
    then have t: "within_week bounds (ex_created_at x)" using v(2) q(3) by (simp add: evaluates_def)
    obtain p where "p \<in> set (db_skus d)" "sku_id p = ex_sku_id x" using product_there [OF q(1)] by blast
    then show ?thesis using exit_there [OF 2(1) t] 2(2) by simp
  qed
qed

lemma outbox_expected:
  assumes ok: "inventory_ok d" "traced d" and r: "r \<in> set (db_outbox d)" "within_week bounds (ob_occurred_at r)"
  shows "ob_source r \<in> set (expected_keys (load_snapshot d table bounds))"
proof -
  let ?snap = "load_snapshot d table bounds"
  have "sourced d r" using ok(2) r(1) by (simp add: traced_def)
  then consider e where "e \<in> set (db_entries d)" "ob_source r = (''stockentry'', en_id e, ''inbound_order_created'')" "ob_occurred_at r = en_created_at e"
    | c where "c \<in> set (db_orders d)" "ob_source r = order_key c" "ob_occurred_at r = co_created_at c"
    | x v where "x \<in> set (db_exits d)" "ob_source r = threshold_key (''stockexit'', ex_id x)" "ob_occurred_at r = ex_created_at x"
        "v \<in> set (db_evals d)" "te_source v = (''stockexit'', ex_id x)" "te_crossed v"
    | c where "c \<in> set (db_counts d)" "pc_observed_quantity c \<noteq> pc_expected_quantity c"
        "ob_source r = (''inventory_physical_count'', pc_id c, ''inventory_discrepancy_detected'')" "ob_occurred_at r = pc_confirmed_at c"
    unfolding sourced_def from_entry_def from_order_def from_exit_def from_count_def order_key_def threshold_key_def
    by (elim disjE bexE conjE) simp_all
  then show ?thesis
  proof cases
    case (1 e)
    obtain p where "p \<in> set (db_skus d)" "sku_id p = en_sku_id e"
      using ok(2) 1(1) product_there unfolding traced_def entry_traced_def by metis
    then have "audited_entry p e \<in> set (os_entries ?snap)" using 1 r(2) by (intro conjunct1 [OF loaded_rows(1)]) simp_all
    moreover have "entry_key (audited_entry p e) = ob_source r" by (simp add: 1 entry_key_def audited_entry_def)
    ultimately show ?thesis by (force simp: expected_keys_def)
  next
    case (2 c)
    then show ?thesis using r(2) by (simp add: expected_keys_def)
  next
    case (3 x v)
    obtain p where p: "p \<in> set (db_skus d)" "sku_id p = ex_sku_id x"
      using ok(2) 3(1) product_there unfolding traced_def exit_traced_def by metis
    have week: "within_week bounds (ex_created_at x)" using 3(3) r(2) by simp
    obtain m where m: "((''stockexit'', ex_id x), m) \<in> set (movement_dict ?snap)"
      using exit_there [OF 3(1) week p, of table] by auto
    obtain w where w: "checkpoints_for ?snap (''stockexit'', ex_id x) = [w]" "w \<in> set (db_evals d)"
      "audit_crossed (''stockexit'', ex_id x) w \<longleftrightarrow> te_crossed w"
      using exit_movement_clean [OF ok 3(1) week p refl, of table] by blast
    have "te_source w = (''stockexit'', ex_id x)" using arg_cong [OF w(1), of set] by (auto simp: checkpoints_for_def)
    then have "w = v" using ok(1) 3(4,5) w(2) by (intro keys_uniqueD [of te_source "db_evals d"]) (simp_all add: inventory_ok_def evals_ok_def)
    then have "threshold_key (''stockexit'', ex_id x) \<in> set (crossed_keys ?snap)"
      using m w 3(6) by (force simp: crossed_keys_def)
    then show ?thesis using 3(2) by (simp add: expected_keys_def)
  next
    case (4 c)
    obtain p where "p \<in> set (db_skus d)" "sku_id p = pc_sku_id c"
      using ok(2) 4(1) product_there unfolding traced_def count_traced_def by metis
    then have "audited_count p c \<in> set (os_counts ?snap)" using 4 r(2) by (intro loaded_rows(3)) simp_all
    moreover have "count_key (audited_count p c) = ob_source r" "discrepant (audited_count p c)"
      using 4(2) by (simp_all add: 4(3) count_key_def audited_count_def discrepant_def)
    ultimately show ?thesis by (force simp: expected_keys_def)
  qed
qed

lemma expected_there:
  assumes ok: "inventory_ok d" "traced d" "clients_known d" and k: "k \<in> set (expected_keys (load_snapshot d table bounds))"
  shows "k \<in> ob_source ` set (os_outbox (load_snapshot d table bounds))"
proof -
  let ?snap = "load_snapshot d table bounds"
  from k consider e where "e \<in> set (os_entries ?snap)" "k = entry_key e" | c where "c \<in> set (os_orders ?snap)" "k = order_key c"
    | "k \<in> set (crossed_keys ?snap)" | c where "c \<in> set (os_counts ?snap)" "discrepant c" "k = count_key c"
    unfolding expected_keys_def by auto
  then show ?thesis
  proof cases
    case 3
    then obtain key m where km: "(key, m) \<in> set (movement_dict ?snap)"
      and k: "k \<in> set (case checkpoints_for ?snap key of [v] \<Rightarrow> if audit_crossed key v then [threshold_key key] else [] | _ \<Rightarrow> [])"
      by (force simp: crossed_keys_def)
    obtain v where v: "checkpoints_for ?snap key = [v]"
      using k by (cases "checkpoints_for ?snap key"; cases "tl (checkpoints_for ?snap key)") auto
    then have "audit_crossed key v" "k = threshold_key key" using k by (simp_all split: if_splits)
    note m = km v this
    from m(1) show ?thesis
    proof (cases rule: movement_source)
      case (entry e p)
      then show ?thesis using m(3) by (simp add: audit_crossed_def)
    next
      case (exit x p)
      then show ?thesis using exit_movement_clean [OF ok(1,2) exit(1-4) exit(6), of table] m by auto
    qed
  qed (use entry_clean [OF ok] order_clean [OF ok(1,2)] count_clean [OF ok(1,2)] in blast)+
qed

lemma movements_clean:
  assumes ok: "inventory_ok d" "traced d" and m: "(key, m) \<in> set (movement_dict (load_snapshot d table bounds))"
  shows "movement_diagnostics (load_snapshot d table bounds) (key, m) = []"
  using m
proof (cases rule: movement_source)
  case (entry e p)
  then show ?thesis using entry_movement_clean [OF ok entry(1-4) entry(6), of table] by simp
next
  case (exit x p)
  then show ?thesis using exit_movement_clean [OF ok exit(1-4) exit(6), of table] by simp
qed

lemma set_clean:
  assumes ok: "inventory_ok d" "traced d" "clients_known d"
  shows "set_diagnostics (load_snapshot d table bounds) = []"
proof -
  have "te_source v \<in> set (map fst (movement_dict (load_snapshot d table bounds)))"
    if "v \<in> set (os_checkpoints (load_snapshot d table bounds))" for v
    using checkpoint_expected [OF ok(1,2), of v bounds table] that by simp
  moreover have "ob_source r \<in> set (expected_keys (load_snapshot d table bounds))"
    if "r \<in> set (os_outbox (load_snapshot d table bounds))" for r
    using outbox_expected [OF ok(1,2), of r bounds table] that by simp
  moreover have "k \<in> set (map ob_source (os_outbox (load_snapshot d table bounds)))"
    if "k \<in> set (expected_keys (load_snapshot d table bounds))" for k
    using expected_there [OF ok that] by simp
  ultimately show ?thesis unfolding set_diagnostics_def Let_def by (fastforce simp: list_ex_iff)
qed

lemma settled_week_clean:
  assumes ok: "system_ok s" and delivered: "week_delivered (inv_db s) bounds"
  shows "all_diagnostics (load_snapshot (inv_db s) (stored_rows drawn (telemetry_table s)) bounds) = []"
proof -
  have inv: "inventory_ok (inv_db s)" "traced (inv_db s)" and known: "clients_known (inv_db s)"
    using ok by (simp_all add: system_ok_def)
  define snap where "snap = load_snapshot (inv_db s) (stored_rows drawn (telemetry_table s)) bounds"
  have "delivery_diagnostics snap r = []" if "r \<in> set (os_outbox snap)" for r
    using that delivered unfolding snap_def by (intro delivery_clean [OF ok]) (simp_all add: week_delivered_def)
  moreover have "movement_diagnostics snap km = []" if "km \<in> set (movement_dict snap)" for km
  proof (cases km)
    case (Pair key m)
    then show ?thesis using that movements_clean [OF inv] unfolding snap_def by simp
  qed
  moreover have "entry_diagnostics snap e = []" if "e \<in> set (os_entries snap)" for e
    using that entry_clean [OF inv known] unfolding snap_def by blast
  moreover have "order_diagnostics snap c = []" if "c \<in> set (os_orders snap)" for c
    using that order_clean [OF inv] unfolding snap_def by blast
  moreover have "count_diagnostics snap c = []" if "c \<in> set (os_counts snap)" for c
    using that count_clean [OF inv] unfolding snap_def by blast
  moreover have "dispatch_id_diagnostics snap = []" "set_diagnostics snap = []" "unmatched_telemetry snap = []"
    unfolding snap_def by (rule dispatch_ids_clean [OF inv(1)], rule set_clean [OF inv known], rule telemetry_matched [OF ok])
  ultimately show ?thesis unfolding snap_def [symmetric] all_diagnostics_def by simp
qed

lemma clean_audit:
  assumes "all_diagnostics s = []"
  shows "audit_operational_snapshot s =
    \<lparr>oa_evidence = \<lparr>cv_confirmed_event_types = OFFICIAL_EVENT_TYPES, cv_dispatch_order_ids = sort (dispatch_pairs s),
       cv_lookup_complete = True, cv_source = OPERATIONAL_COVERAGE_SOURCE\<rparr>,
     oa_diagnostics = [], oa_audited_events = canonical_events (map event_of_row (official_telemetry s))\<rparr>"
  using assms by (simp add: audit_operational_snapshot_def Let_def sorted_set_def)

end
