(* ===== verification/CoverageOutcomes.thy ===== *)
theory CoverageOutcomes
  imports CoverageFacts
begin

text \<open>
  What follows for the reads of a settled week: the audit is complete, its evidence is accepted by the
  publication, and the events it audited are the extracted ones.
\<close>

section \<open>Evidence\<close>

lemma distinct_joined:
  assumes "distinct (map f ds)" and "distinct (map g os)"
  shows "distinct (concat (map (\<lambda>c. map f (filter (\<lambda>x. h x = g c) ds)) os))"
  using assms(2)
proof (induction os)
  case (Cons c os)
  have inj: "inj_on f (set ds)" using assms(1) by (simp add: distinct_map)
  have "y \<notin> set (concat (map (\<lambda>c. map f (filter (\<lambda>x. h x = g c) ds)) os))"
    if mem: "y \<in> set (map f (filter (\<lambda>x. h x = g c) ds))" for y
  proof
    assume "y \<in> set (concat (map (\<lambda>c. map f (filter (\<lambda>x. h x = g c) ds)) os))"
    then obtain c' x' where c': "c' \<in> set os" "x' \<in> set ds" "h x' = g c'" "y = f x'" by auto
    obtain x where x: "x \<in> set ds" "h x = g c" "y = f x" using mem by auto
    have "x = x'" using inj x c' by (simp add: inj_on_def)
    then show False using Cons.prems x(2) c'(1,3) by (metis distinct.simps(2) image_eqI list.set_map list.simps(9))
  qed
  then show ?case using Cons distinct_map_filter [OF assms(1)] by auto
qed simp

lemma dispatch_pairs_ids:
  "map fst (dispatch_pairs s) =
     concat (map (\<lambda>c. map (uuid_text \<circ> fst) (filter (\<lambda>x. snd x = co_id c) (os_dispatches s))) (os_orders s))"
  by (simp add: dispatch_pairs_def related_dispatches_def map_concat comp_def)

lemma uuid_str_nonempty: "uuid_str u \<noteq> []"
  by (simp add: uuid_str_def Let_def)

lemma uuid_text_nonempty: "uuid_text v \<noteq> []"
  by (simp add: uuid_text_def uuid_str_nonempty split: option.splits)

lemma required_confirmed: "set REQUIRED_COVERAGE_EVENTS \<subseteq> set OFFICIAL_EVENT_TYPES"
  by (simp add: REQUIRED_COVERAGE_EVENTS_def OFFICIAL_EVENT_TYPES_def STOCK_THRESHOLD_TRIGGERED_def
      INVENTORY_DISCREPANCY_DETECTED_def)

lemma clean_evidence_accepted:
  assumes ok: "inventory_ok d" and clean: "all_diagnostics (load_snapshot d table bounds) = []"
  shows "coverage_issues (Some (oa_evidence (audit_operational_snapshot (load_snapshot d table bounds)))) = []"
proof -
  let ?snap = "load_snapshot d table bounds"
  have "dispatch_id_diagnostics ?snap = []" using clean by (simp add: all_diagnostics_def)
  then have ds: "distinct (map (uuid_text \<circ> fst) (os_dispatches ?snap))"
    by (simp add: dispatch_id_diagnostics_def split: if_splits)
  have "distinct (map co_id (os_orders ?snap))"
    using ok by (simp add: inventory_ok_def tables_ok_def keys_unique_def distinct_map_filter)
  then have "distinct (map fst (dispatch_pairs ?snap))"
    unfolding dispatch_pairs_ids by (rule distinct_joined [OF ds])
  then have "distinct (map fst (sort (dispatch_pairs ?snap)))"
    by (metis distinct_map distinct_sort set_sort)
  moreover have "\<not> list_ex (\<lambda>(m, order). m = [] \<or> order = []) (sort (dispatch_pairs ?snap))"
    by (auto simp: list_ex_iff dispatch_pairs_def uuid_text_nonempty uuid_str_nonempty)
  ultimately show ?thesis
    using required_confirmed
    by (simp add: clean_audit [OF clean] coverage_issues_def OPERATIONAL_COVERAGE_SOURCE_def)
qed

section \<open>The extracted events\<close>

lemma canonical_of_row [simp]: "canonical_event (event_of_row r) = event_of_row r"
  by (simp add: canonical_event_def event_of_row_def)

lemma id_text_row [simp]: "id_text (event_of_row r) = uuid_str (rp_id r)"
  by (simp add: id_text_def event_of_row_def)

lemma same_event_refl [simp]: "same_event e e"
  by (auto simp: same_event_def same_json_def split: json.splits)

lemma sort_rows_once:
  assumes "mset ys = mset xs" and "\<And>a b. a \<in> set xs \<Longrightarrow> b \<in> set xs \<Longrightarrow> rp_id a = rp_id b \<Longrightarrow> event_of_row a = event_of_row b"
  shows "canonical_events (map event_of_row ys) = canonical_events (map event_of_row xs)"
proof -
  have "inj_on id_text (set (map event_of_row ys))"
  proof (rule inj_onI)
    fix a b assume ab: "a \<in> set (map event_of_row ys)" "b \<in> set (map event_of_row ys)" "id_text a = id_text b"
    have same: "set ys = set xs" using assms(1) by (rule mset_eq_setD)
    obtain r where r: "r \<in> set xs" "a = event_of_row r" using ab(1) unfolding set_map same by (rule imageE)
    obtain r' where r': "r' \<in> set xs" "b = event_of_row r'" using ab(2) unfolding set_map same by (rule imageE)
    have "rp_id r = rp_id r'" using ab(3) unfolding r(2) r'(2) id_text_row uuid_str_inject .
    then show "a = b" unfolding r(2) r'(2) by (rule assms(2) [OF r(1) r'(1)])
  qed
  then have "sort_key id_text (map event_of_row ys) = sort_key id_text (map event_of_row xs)"
    using assms(1) by (intro sort_key_inj_key_eq) simp_all
  then show ?thesis by (simp add: canonical_events_def comp_def)
qed

text \<open>No other service writes rows of the official types in the week.\<close>

definition no_foreign_events :: "telemetry_row list \<Rightarrow> time \<times> time \<Rightarrow> bool" where
  "no_foreign_events table bounds \<longleftrightarrow> (\<forall>e \<in> set table. tr_event_type e \<in> set OFFICIAL_EVENT_TYPES \<longrightarrow>
     within_week bounds (tr_timestamp e) \<longrightarrow> tr_service e = ''api'')"

lemma event_ids_unique:
  "distinct (event_ids table) \<Longrightarrow> a \<in> set table \<Longrightarrow> b \<in> set table \<Longrightarrow> tr_id a = Some i \<Longrightarrow> tr_id b = Some i \<Longrightarrow> a = b"
proof (induction table)
  case (Cons x table)
  have sub: "distinct (event_ids table)" using Cons.prems(1) by (simp add: event_ids_def split: option.splits)
  have fresh: "tr_id x = Some i \<Longrightarrow> i \<notin> set (event_ids table)" using Cons.prems(1) by (simp add: event_ids_def)
  show ?case
    using Cons.IH [OF sub] Cons.prems fresh set_event_ids [of i table] by auto
qed simp

lemma extracted_audited:
  assumes ok: "system_ok s" and foreign: "no_foreign_events (telemetry_table s) bounds"
  shows "canonical_events (map event_of_row (weekly_rows (stored_rows drawn (telemetry_table s)) (fst bounds) (snd bounds))) =
    canonical_events (map event_of_row (official_telemetry (load_snapshot (inv_db s) (stored_rows drawn (telemetry_table s)) bounds)))"
proof (rule sort_rows_once)
  let ?rows = "stored_rows drawn (telemetry_table s)"
  let ?off = "official_telemetry (load_snapshot (inv_db s) ?rows bounds)"
  have "(rp_event_type r \<in> set OFFICIAL_EVENT_TYPES \<and> fst bounds \<le> rp_timestamp r \<and> rp_timestamp r < snd bounds) =
      (within_week bounds (rp_timestamp r) \<and> rp_service r = ''api'' \<and> rp_event_type r \<in> set OFFICIAL_EVENT_TYPES)"
    if mem: "r \<in> set ?rows" for r
  proof -
    obtain n e where e: "e \<in> set (telemetry_table s)" "r = stored_row drawn (n, e)" by (rule stored_member [OF mem])
    then show ?thesis using foreign by (auto simp: no_foreign_events_def within_week_def)
  qed
  then have "filter (\<lambda>r. rp_event_type r \<in> set OFFICIAL_EVENT_TYPES \<and> fst bounds \<le> rp_timestamp r \<and> rp_timestamp r < snd bounds) ?rows = ?off"
    unfolding load_telemetry by (intro filter_cong) simp_all
  then show "mset (weekly_rows ?rows (fst bounds) (snd bounds)) = mset ?off" by (simp add: weekly_rows_def)
  fix a b assume ab: "a \<in> set ?off" "b \<in> set ?off" "rp_id a = rp_id b"
  have row: "\<exists>e \<in> set (telemetry_table s). \<exists>n i. r = stored_row drawn (n, e) \<and> tr_id e = Some i" if mem: "r \<in> set ?off" for r
  proof -
    have r: "r \<in> set ?rows" "rp_service r = ''api''" "rp_event_type r \<in> set OFFICIAL_EVENT_TYPES"
      using mem by (simp_all add: load_telemetry)
    obtain n e where e: "e \<in> set (telemetry_table s)" "r = stored_row drawn (n, e)" by (rule stored_member [OF r(1)])
    then obtain q where "e = outbox_to_row q"
      using ok r(2,3) by (auto simp: system_ok_def events_sourced_def official_row_def)
    then show ?thesis using e by auto
  qed
  obtain e n i where e: "e \<in> set (telemetry_table s)" "a = stored_row drawn (n, e)" "tr_id e = Some i" using row [OF ab(1)] by blast
  obtain f m j where f: "f \<in> set (telemetry_table s)" "b = stored_row drawn (m, f)" "tr_id f = Some j" using row [OF ab(2)] by blast
  have "i = j" using ab(3) e f by (simp add: or_else_def)
  then have "e = f" using ok e f event_ids_unique [of "telemetry_table s" e f i] by (simp add: system_ok_def relay_ok_def)
  then show "event_of_row a = event_of_row b" using e f by (simp add: event_of_row_def or_else_def)
qed

text \<open>With a row of another service the extraction reads more events than were audited.\<close>

lemma extracted_foreign:
  assumes "\<not> no_foreign_events table bounds"
  shows "length (official_telemetry (load_snapshot d (stored_rows drawn table) bounds)) <
    length (weekly_rows (stored_rows drawn table) (fst bounds) (snd bounds))"
proof -
  let ?week = "filter (\<lambda>r. rp_event_type r \<in> set OFFICIAL_EVENT_TYPES \<and> fst bounds \<le> rp_timestamp r \<and> rp_timestamp r < snd bounds)
    (stored_rows drawn table)"
  obtain e where e: "e \<in> set table" "tr_event_type e \<in> set OFFICIAL_EVENT_TYPES" "within_week bounds (tr_timestamp e)"
      "tr_service e \<noteq> ''api''"
    using assms unfolding no_foreign_events_def by blast
  have "e \<in> snd ` set (List.enumerate 0 table)"
    using e(1) by (simp only: set_map [symmetric] map_snd_enumerate)
  then obtain n where "(n, e) \<in> set (List.enumerate 0 table)" by auto
  then have "stored_row drawn (n, e) \<in> set ?week" using e(2,3) by (simp add: stored_rows_def within_week_def)
  then have "\<exists>r \<in> set ?week. \<not> rp_service r = ''api''" using e(4)
    by (intro bexI [of _ "stored_row drawn (n, e)"]) simp_all
  then have "length (filter (\<lambda>r. rp_service r = ''api'') ?week) < length ?week"
    by (blast intro: length_filter_less)
  moreover have "filter (\<lambda>r. rp_service r = ''api'') ?week = official_telemetry (load_snapshot d (stored_rows drawn table) bounds)"
    unfolding load_telemetry filter_filter by (rule filter_cong) (auto simp: within_week_def)
  ultimately show ?thesis by (simp add: weekly_rows_def)
qed

section \<open>Reads that succeed\<close>

definition healthy_reader :: "read_connection \<Rightarrow> bool" where
  "healthy_reader C \<longleftrightarrow> rc_dialect C = Some ''postgresql'' \<and> (\<forall>p. rc_fails C p = None)"

lemma read_all_healthy: "healthy_reader C \<Longrightarrow> read_all C ps = Inr ()"
  by (induction ps) (simp_all add: healthy_reader_def)

lemma reads_healthy: "healthy_reader C \<Longrightarrow> reads C p phase week = Inr ()"
  by (simp add: reads_def healthy_reader_def)

lemma audit_healthy:
  assumes "healthy_reader source" and "healthy_reader reporting"
    and "ensure_distinct_postgresql_databases (rc_engine source) (rc_engine reporting) = Inr ()"
    and "iso_week_bounds week = Inr bounds"
  shows "audit_operational_coverage source reporting week d table = Inr (audit_operational_snapshot (load_snapshot d table bounds))"
  using assms by (simp add: audit_operational_coverage_def read_all_healthy bind_result_def)

lemma snapshot_healthy: "healthy_reader C \<Longrightarrow> telemetry_snapshot C week single keys ids = Inr ()"
  by (simp add: telemetry_snapshot_def reads_healthy bind_result_def guard_def) (simp add: healthy_reader_def)

lemma order_snapshot_healthy: "healthy_reader C \<Longrightarrow> order_snapshot C week = Inr ()"
  by (simp add: order_snapshot_def reads_healthy bind_result_def)

lemma different_engines:
  "ensure_distinct_postgresql_databases a b = Inr u \<Longrightarrow> en_object a \<noteq> en_object b"
  by (auto simp: ensure_distinct_postgresql_databases_def)

lemma extract_healthy:
  assumes h: "healthy_reader source" "healthy_reader reporting"
    and distinct: "ensure_distinct_postgresql_databases (rc_engine source) (rc_engine reporting) = Inr ()"
    and week: "iso_week_bounds week = Inr (start, end)"
  shows "\<exists>x. extract_weekly_inputs reporting (Some source) week now table d = Inr x \<and>
    wx_events x = map event_of_row (weekly_rows table start end)"
  using different_engines [OF distinct]
  by (simp add: extract_weekly_inputs_def week Let_def distinct snapshot_healthy [OF h(2)] order_snapshot_healthy [OF h(1)]
      bind_result_def)

section \<open>Fresh systems\<close>

definition fresh_system :: "inventory_state \<Rightarrow> bool" where
  "fresh_system s \<longleftrightarrow> inv_db s = \<lparr>db_skus = [], db_entries = [], db_exits = [], db_orders = [], db_counts = [],
     db_evals = [], db_outbox = []\<rparr> \<and> list_all background (telemetry_table s)"

lemma fresh_system_ok: "fresh_system s \<Longrightarrow> system_ok s"
proof -
  assume f: "fresh_system s"
  then have "event_ids (telemetry_table s) = []"
    by (auto simp: fresh_system_def event_ids_def background_def list_all_iff)
  then show ?thesis
    using f by (auto simp: fresh_system_def system_ok_def inventory_ok_def tables_ok_def links_ok_def stock_nonneg_def
        get_current_stock_sums evals_ok_def outbox_wf_def crossings_published_def orders_published_def rows_of_def
        counts_published_def entries_published_def tags_ok_def traced_def relay_ok_def events_sourced_def clients_known_def
        list_all_iff background_def)
qed

end
