(* ===== verification/CoverageSoundness.thy ===== *)
theory CoverageSoundness
  imports CoverageOutcomes
begin

text \<open>
  What a complete audit says of the tables it read: the official telemetry of the week and the business
  facts of the week are in one-to-one correspondence through the outbox, with their contents.
\<close>

section \<open>Matching\<close>

lemma matched_lists:
  assumes "distinct (map k ys)" and "\<And>y. y \<in> set ys \<Longrightarrow> \<exists>x. filter (\<lambda>x. j x = k y) xs = [x] \<and> g x = h y"
    and "\<And>x. x \<in> set xs \<Longrightarrow> j x \<in> k ` set ys"
  shows "mset (map g xs) = mset (map h ys)"
  using assms
proof (induction ys arbitrary: xs)
  case Nil
  then have "xs = []" by (cases xs) auto
  then show ?case by simp
next
  case (Cons y ys)
  let ?rest = "filter (\<lambda>x. j x \<noteq> k y) xs"
  obtain x where x: "filter (\<lambda>x. j x = k y) xs = [x]" "g x = h y" using Cons.prems(2) [of y] by auto
  have fresh: "k z \<noteq> k y" if "z \<in> set ys" for z
    using Cons.prems(1) that by (metis distinct.simps(2) image_eqI list.map(2) list.set_map)
  have "mset (map g ?rest) = mset (map h ys)"
  proof (rule Cons.IH)
    show "distinct (map k ys)" using Cons.prems(1) by simp
    show "\<exists>x. filter (\<lambda>x. j x = k z) ?rest = [x] \<and> g x = h z" if mem: "z \<in> set ys" for z
    proof -
      have "filter (\<lambda>x. j x = k z) ?rest = filter (\<lambda>x. j x = k z) xs"
        using fresh [OF mem] by (simp, intro filter_cong) auto
      then show ?thesis using Cons.prems(2) [of z] mem by simp
    qed
    show "j z \<in> k ` set ys" if mem: "z \<in> set ?rest" for z using Cons.prems(3) [of z] mem by auto
  qed
  moreover have "mset xs = mset (filter (\<lambda>x. j x = k y) xs) + mset ?rest"
    unfolding mset_filter by (rule multiset_partition)
  then have "mset xs = {#x#} + mset ?rest" unfolding x(1) by simp
  ultimately show ?case using x(2) by (simp add: mset_map del: mset_filter)
qed

lemma tag_same_dict: "same_dict a b \<Longrightarrow> tag a k = tag b k"
proof -
  assume same: "same_dict a b"
  have "map_of a k = map_of b k"
  proof (cases "k \<in> fst ` set (a @ b)")
    case True
    then show ?thesis using same by (auto simp: same_dict_def list_all_iff)
  next
    case False
    then have "map_of a k = None" "map_of b k = None" by (auto simp: map_of_eq_None_iff)
    then show ?thesis by simp
  qed
  then show ?thesis by (simp add: tag_def)
qed

lemma concat_if_single: "concat (map (\<lambda>x. if p x then [f x] else []) xs) = map f (filter p xs)"
  by (induction xs) auto

lemma with_sku_map:
  assumes "keys_unique sku_id (db_skus d)" and "\<forall>r \<in> set rows. key r \<in> sku_id ` set (db_skus d)"
    and "\<And>p r. g (f p r) = h r"
  shows "map g (with_sku d key f rows) = map h rows"
  using assms(2)
proof (induction rows)
  case (Cons r rows)
  obtain p where p: "p \<in> set (db_skus d)" "sku_id p = key r" using Cons.prems by auto
  have "filter (\<lambda>p. sku_id p = key r) (db_skus d) = [p]"
    using keys_unique_filter [OF assms(1), of "key r"] keys_unique_find [OF assms(1) p(1)] p(2) by simp
  then show ?case using Cons by (simp add: with_sku_def assms(3))
qed (simp add: with_sku_def)

section \<open>Telemetry and outbox\<close>

definition events_of :: "string \<Rightarrow> operational_snapshot \<Rightarrow> reporting_row list" where
  "events_of ty s = filter (\<lambda>e. rp_event_type e = ty) (official_telemetry s)"

definition queued_of :: "string \<Rightarrow> operational_snapshot \<Rightarrow> outbox_row list" where
  "queued_of ty s = filter (\<lambda>r. ob_event_type r = ty) (os_outbox s)"

lemma clean_parts:
  assumes "all_diagnostics s = []"
  shows "dispatch_id_diagnostics s = []" and "\<And>e. e \<in> set (os_entries s) \<Longrightarrow> entry_diagnostics s e = []"
    and "\<And>c. c \<in> set (os_orders s) \<Longrightarrow> order_diagnostics s c = []"
    and "\<And>k m. (k, m) \<in> set (movement_dict s) \<Longrightarrow> movement_diagnostics s (k, m) = []"
    and "\<And>c. c \<in> set (os_counts s) \<Longrightarrow> count_diagnostics s c = []"
    and "set_diagnostics s = []" and "unmatched_telemetry s = []"
    and "\<And>r. r \<in> set (os_outbox s) \<Longrightarrow> delivery_diagnostics s r = []"
  using assms unfolding all_diagnostics_def by auto

lemma delivered_match:
  assumes "delivery_diagnostics s r = []"
  shows "\<exists>e. filter (\<lambda>e. rp_id e = ob_event_id r) (official_telemetry s) = [e] \<and> same_destination (as_telemetry e) (outbox_to_row r)"
  using assms by (auto simp: delivery_diagnostics_def split: list.splits if_splits)

lemma same_destination_facts:
  assumes "same_destination (as_telemetry e) (outbox_to_row r)"
  shows "rp_event_type e = ob_event_type r"
    and "filter_tags (ob_event_type r) (ob_tags r) = ob_tags r \<Longrightarrow> tag (rp_tags e) k = tag (ob_tags r) k"
  using assms tag_same_dict [of "rp_tags e" "ob_tags r" k]
  by (auto simp: same_destination_def as_telemetry_def outbox_to_row_def map_outbox_event_to_row_def)

lemma telemetry_outbox:
  assumes clean: "all_diagnostics s = []" and ids: "distinct (map ob_event_id (os_outbox s))"
    and kept: "\<forall>r \<in> set (os_outbox s). filter_tags (ob_event_type r) (ob_tags r) = ob_tags r"
  shows "mset (map (\<lambda>e. map (tag (rp_tags e)) ks) (events_of ty s)) = mset (map (\<lambda>r. map (tag (ob_tags r)) ks) (queued_of ty s))"
proof (rule matched_lists [where j = rp_id and k = ob_event_id])
  show "distinct (map ob_event_id (queued_of ty s))" using ids by (simp add: queued_of_def distinct_map_filter)
  note match = delivered_match [OF clean_parts(8) [OF clean]]
  fix r assume r: "r \<in> set (queued_of ty s)"
  then have r': "r \<in> set (os_outbox s)" "ob_event_type r = ty" by (auto simp: queued_of_def)
  obtain e where e: "filter (\<lambda>e. rp_id e = ob_event_id r) (official_telemetry s) = [e]"
      "same_destination (as_telemetry e) (outbox_to_row r)" using match [OF r'(1)] by blast
  have "filter (\<lambda>e. rp_id e = ob_event_id r) (events_of ty s) =
      filter (\<lambda>e. rp_event_type e = ty) (filter (\<lambda>e. rp_id e = ob_event_id r) (official_telemetry s))"
    by (simp add: events_of_def conj_commute)
  also have "\<dots> = [e]" using e r'(2) same_destination_facts(1) [OF e(2)] by simp
  finally show "\<exists>e. filter (\<lambda>e. rp_id e = ob_event_id r) (events_of ty s) = [e] \<and>
      map (tag (rp_tags e)) ks = map (tag (ob_tags r)) ks"
    using same_destination_facts(2) [OF e(2)] kept r'(1) by auto
next
  fix e assume e: "e \<in> set (events_of ty s)"
  then have "rp_id e \<in> ob_event_id ` set (os_outbox s)"
    using clean_parts(7) [OF clean] by (auto simp: unmatched_telemetry_def list_ex_iff events_of_def split: if_splits)
  then obtain r where r: "r \<in> set (os_outbox s)" "rp_id e = ob_event_id r" by blast
  obtain e' where e': "filter (\<lambda>e. rp_id e = ob_event_id r) (official_telemetry s) = [e']"
      "same_destination (as_telemetry e') (outbox_to_row r)"
    using delivered_match [OF clean_parts(8) [OF clean r(1)]] by blast
  have "e \<in> set (filter (\<lambda>e. rp_id e = ob_event_id r) (official_telemetry s))" using e r(2) by (simp add: events_of_def)
  then have "e = e'" using e'(1) by simp
  then have "ob_event_type r = ty" using same_destination_facts(1) [OF e'(2)] e by (simp add: events_of_def)
  then show "rp_id e \<in> ob_event_id ` set (queued_of ty s)" using r by (auto simp: queued_of_def)
qed

section \<open>Outbox and business\<close>

lemma exact_outbox_row:
  "exact_outbox outbox key expected mismatch = [] \<Longrightarrow> \<exists>r. outbox_rows outbox key = [r] \<and> same_dict (ob_tags r) expected"
  by (auto simp: exact_outbox_def split: list.splits if_splits)

lemma expected_key:
  assumes clean: "all_diagnostics s = []" and r: "r \<in> set (os_outbox s)"
  shows "ob_source r \<in> set (expected_keys s)"
proof (rule ccontr)
  assume no: "ob_source r \<notin> set (expected_keys s)"
  have "ob_source r \<in> set (map ob_source (os_outbox s))" using r by simp
  then have "list_ex (\<lambda>k. k \<notin> set (expected_keys s)) (map ob_source (os_outbox s))" using no unfolding list_ex_iff by blast
  then show False using clean_parts(6) [OF clean] by (simp add: set_diagnostics_def Let_def)
qed

lemma queued_rows: "snd (snd key) = ty \<Longrightarrow> filter (\<lambda>r. ob_source r = key) (queued_of ty s) = outbox_rows (os_outbox s) key"
  by (auto simp: queued_of_def outbox_rows_def ob_source_def intro!: filter_cong)

text \<open>The queued events of a type and the sources that account for them.\<close>

lemma outbox_sources:
  assumes clean: "all_diagnostics s = []" and keys: "distinct (map key ys)" and types: "\<And>y. snd (snd (key y)) = ty"
    and rows: "\<And>y. y \<in> set ys \<Longrightarrow> \<exists>r. outbox_rows (os_outbox s) (key y) = [r] \<and> same_dict (ob_tags r) (content y)"
    and all: "\<And>k. k \<in> set (expected_keys s) \<Longrightarrow> snd (snd k) = ty \<Longrightarrow> k \<in> key ` set ys"
  shows "mset (map (\<lambda>r. map (tag (ob_tags r)) ks) (queued_of ty s)) = mset (map (\<lambda>y. map (tag (content y)) ks) ys)"
proof (rule matched_lists [where j = ob_source and k = key])
  fix y assume "y \<in> set ys"
  from rows [OF this] obtain r where "outbox_rows (os_outbox s) (key y) = [r]" "same_dict (ob_tags r) (content y)" by blast
  then show "\<exists>r. filter (\<lambda>r. ob_source r = key y) (queued_of ty s) = [r] \<and> map (tag (ob_tags r)) ks = map (tag (content y)) ks"
    using queued_rows [OF types] tag_same_dict by auto
next
  fix r assume "r \<in> set (queued_of ty s)"
  then show "ob_source r \<in> key ` set ys"
    using expected_key [OF clean] by (intro all) (auto simp: queued_of_def ob_source_def)
qed (rule keys)

lemma key_types [simp]:
  "snd (snd (entry_key e)) = ''inbound_order_created''" "snd (snd (order_key c)) = ''outbound_order_created''"
  "snd (snd (threshold_key k)) = ''stock_threshold_triggered''" "snd (snd (count_key n)) = ''inventory_discrepancy_detected''"
  by (simp_all add: entry_key_def order_key_def threshold_key_def count_key_def)

lemma crossed_keys_type: "k \<in> set (crossed_keys s) \<Longrightarrow> snd (snd k) = ''stock_threshold_triggered''"
  by (auto simp: crossed_keys_def split: list.splits if_splits)

lemma inbound_sources:
  assumes clean: "all_diagnostics s = []" and keys: "distinct (map ae_id (os_entries s))"
  shows "mset (map (\<lambda>r. map (tag (ob_tags r)) ks) (queued_of ''inbound_order_created'' s)) =
    mset (map (\<lambda>e. map (tag (entry_tags e)) ks) (os_entries s))"
proof (rule outbox_sources [OF clean, where key = entry_key])
  show "distinct (map entry_key (os_entries s))" using keys by (simp add: distinct_map inj_on_def entry_key_def)
  show "\<exists>r. outbox_rows (os_outbox s) (entry_key e) = [r] \<and> same_dict (ob_tags r) (entry_tags e)" if "e \<in> set (os_entries s)" for e
    using clean_parts(2) [OF clean that] exact_outbox_row by (simp add: entry_diagnostics_def)
  show "k \<in> entry_key ` set (os_entries s)" if "k \<in> set (expected_keys s)" "snd (snd k) = ''inbound_order_created''" for k
    using that by (auto simp: expected_keys_def dest: crossed_keys_type)
qed simp

lemma outbound_sources:
  assumes clean: "all_diagnostics s = []" and keys: "distinct (map co_id (os_orders s))"
  shows "mset (map (\<lambda>r. map (tag (ob_tags r)) ks) (queued_of ''outbound_order_created'' s)) =
    mset (map (\<lambda>c. map (tag (order_tags c)) ks) (os_orders s))"
proof (rule outbox_sources [OF clean, where key = order_key])
  show "distinct (map order_key (os_orders s))" using keys by (simp add: distinct_map inj_on_def order_key_def)
  show "\<exists>r. outbox_rows (os_outbox s) (order_key c) = [r] \<and> same_dict (ob_tags r) (order_tags c)" if "c \<in> set (os_orders s)" for c
    using clean_parts(3) [OF clean that] exact_outbox_row by (simp add: order_diagnostics_def split: if_splits)
  show "k \<in> order_key ` set (os_orders s)" if "k \<in> set (expected_keys s)" "snd (snd k) = ''outbound_order_created''" for k
    using that by (auto simp: expected_keys_def dest: crossed_keys_type)
qed simp

lemma discrepancy_sources:
  assumes clean: "all_diagnostics s = []" and keys: "distinct (map ac_id (os_counts s))"
  shows "mset (map (\<lambda>r. map (tag (ob_tags r)) ks) (queued_of ''inventory_discrepancy_detected'' s)) =
    mset (map (\<lambda>c. map (tag (count_tags c)) ks) (filter discrepant (os_counts s)))"
proof (rule outbox_sources [OF clean, where key = count_key])
  show "distinct (map count_key (filter discrepant (os_counts s)))"
    using keys by (auto simp: distinct_map inj_on_def count_key_def)
  show "\<exists>r. outbox_rows (os_outbox s) (count_key c) = [r] \<and> same_dict (ob_tags r) (count_tags c)"
    if "c \<in> set (filter discrepant (os_counts s))" for c
    using clean_parts(5) [OF clean, of c] that by (auto simp: count_diagnostics_def Let_def split: list.splits if_splits)
  show "k \<in> count_key ` set (filter discrepant (os_counts s))"
    if "k \<in> set (expected_keys s)" "snd (snd k) = ''inventory_discrepancy_detected''" for k
    using that by (auto simp: expected_keys_def dest: crossed_keys_type)
qed simp

text \<open>The crossings of the week are the crossed evaluations of its movements.\<close>

definition movement_at :: "operational_snapshot \<Rightarrow> string \<times> int \<Rightarrow> audit_movement" where
  "movement_at s k = the (map_of (movement_dict s) k)"

lemma py_dict_keys_distinct: "distinct (map fst (py_dict kvs))"
proof -
  have "distinct (map fst a) \<Longrightarrow> distinct (map fst (foldl (\<lambda>d (k, v). AList.update k v d) a kvs))" for a
    by (induction kvs arbitrary: a) (auto simp: distinct_update)
  then show ?thesis by (simp add: py_dict_def)
qed

lemma crossed_key:
  assumes "k \<in> set (crossed_keys s)"
  shows "\<exists>key m v. (key, m) \<in> set (movement_dict s) \<and> checkpoints_for s key = [v] \<and> audit_crossed key v \<and> k = threshold_key key"
proof -
  obtain key m where m: "(key, m) \<in> set (movement_dict s)"
      "k \<in> set (case checkpoints_for s key of [v] \<Rightarrow> if audit_crossed key v then [threshold_key key] else [] | _ \<Rightarrow> [])"
    using assms unfolding crossed_keys_def by auto
  then have "\<exists>v. checkpoints_for s key = [v] \<and> audit_crossed key v \<and> k = threshold_key key"
    by (cases "checkpoints_for s key"; cases "tl (checkpoints_for s key)") (auto split: if_splits)
  then show ?thesis using m(1) by blast
qed

lemma movement_checked:
  assumes clean: "all_diagnostics s = []" and m: "(k, m) \<in> set (movement_dict s)"
  shows "movement_at s k = m \<and> (\<exists>v. checkpoints_for s k = [v] \<and> te_crossed v = audit_crossed k v \<and>
    (te_crossed v \<longrightarrow> (\<exists>r. outbox_rows (os_outbox s) (threshold_key k) = [r] \<and> same_dict (ob_tags r) (crossing_tags k m v))))"
proof
  have "distinct (map fst (movement_dict s))" by (simp add: movement_dict_def py_dict_keys_distinct)
  then show "movement_at s k = m" using m by (simp add: movement_at_def)
  show "\<exists>v. checkpoints_for s k = [v] \<and> te_crossed v = audit_crossed k v \<and>
    (te_crossed v \<longrightarrow> (\<exists>r. outbox_rows (os_outbox s) (threshold_key k) = [r] \<and> same_dict (ob_tags r) (crossing_tags k m v)))"
    using clean_parts(4) [OF clean m]
    by (auto simp: movement_diagnostics_def Let_def checkpoint_mismatch_def split: list.splits if_splits)
qed

lemma crossing_sources:
  assumes clean: "all_diagnostics s = []" and keys: "distinct (map te_source (os_checkpoints s))"
  shows "mset (map (\<lambda>r. map (tag (ob_tags r)) ks) (queued_of ''stock_threshold_triggered'' s)) =
    mset (map (\<lambda>v. map (tag (crossing_tags (te_source v) (movement_at s (te_source v)) v)) ks) (filter te_crossed (os_checkpoints s)))"
proof (rule outbox_sources [OF clean, where key = "\<lambda>v. threshold_key (te_source v)"])
  show "distinct (map (\<lambda>v. threshold_key (te_source v)) (filter te_crossed (os_checkpoints s)))"
    using keys by (auto simp: distinct_map inj_on_def threshold_key_def prod_eq_iff)
next
  fix v assume v: "v \<in> set (filter te_crossed (os_checkpoints s))"
  then have "te_source v \<in> fst ` set (movement_dict s)"
    using clean_parts(6) [OF clean] by (auto simp: set_diagnostics_def Let_def list_ex_iff split: if_splits)
  then obtain m where m: "(te_source v, m) \<in> set (movement_dict s)" by auto
  have "v \<in> set (checkpoints_for s (te_source v))" using v by (simp add: checkpoints_for_def)
  then show "\<exists>r. outbox_rows (os_outbox s) (threshold_key (te_source v)) = [r] \<and>
      same_dict (ob_tags r) (crossing_tags (te_source v) (movement_at s (te_source v)) v)"
    using movement_checked [OF clean m] v by auto
next
  fix k assume k: "k \<in> set (expected_keys s)" "snd (snd k) = ''stock_threshold_triggered''"
  then have "k \<in> set (crossed_keys s)" by (auto simp: expected_keys_def)
  then obtain key m v where km: "(key, m) \<in> set (movement_dict s)" "checkpoints_for s key = [v]" "audit_crossed key v" "k = threshold_key key"
    using crossed_key by blast
  have "te_crossed v" using movement_checked [OF clean km(1)] km(2,3) by simp
  moreover have "v \<in> set (checkpoints_for s key)" using km(2) by simp
  ultimately show "k \<in> (\<lambda>v. threshold_key (te_source v)) ` set (filter te_crossed (os_checkpoints s))"
    using km(4) by (auto simp: checkpoints_for_def)
qed simp

section \<open>The week in the tables\<close>

definition events_reported :: "reporting_row list \<Rightarrow> time \<times> time \<Rightarrow> string \<Rightarrow> reporting_row list" where
  "events_reported table bounds ty =
     filter (\<lambda>e. rp_service e = ''api'' \<and> rp_event_type e = ty \<and> within_week bounds (rp_timestamp e)) table"

lemma events_reported:
  "ty \<in> set OFFICIAL_EVENT_TYPES \<Longrightarrow> events_of ty (load_snapshot d table bounds) = events_reported table bounds ty"
  by (auto simp: events_of_def load_telemetry events_reported_def intro!: filter_cong)

text \<open>The rows a week's facts are read from, and what the events say of them.\<close>

definition receipts_in :: "inventory_db \<Rightarrow> time \<times> time \<Rightarrow> stock_entry list" where
  "receipts_in d bounds = filter (\<lambda>e. within_week bounds (en_created_at e)) (db_entries d)"

definition orders_in :: "inventory_db \<Rightarrow> time \<times> time \<Rightarrow> commercial_order list" where
  "orders_in d bounds = filter (\<lambda>c. within_week bounds (co_created_at c)) (db_orders d)"

definition crossings_in :: "inventory_db \<Rightarrow> time \<times> time \<Rightarrow> threshold_evaluation list" where
  "crossings_in d bounds = filter (\<lambda>v. within_week bounds (te_evaluated_at v) \<and> te_crossed v) (db_evals d)"

definition discrepancies_in :: "inventory_db \<Rightarrow> time \<times> time \<Rightarrow> physical_count list" where
  "discrepancies_in d bounds = filter (\<lambda>c. within_week bounds (pc_confirmed_at c) \<and>
     pc_expected_quantity c \<noteq> pc_observed_quantity c) (db_counts d)"

definition said :: "string list \<Rightarrow> reporting_row \<Rightarrow> json list" where
  "said ks e = map (tag (rp_tags e)) ks"

lemma loaded_telemetry:
  assumes ok: "inventory_ok d" and clean: "all_diagnostics (load_snapshot d table bounds) = []" and ty: "ty \<in> set OFFICIAL_EVENT_TYPES"
  shows "mset (map (said ks) (events_reported table bounds ty)) =
    mset (map (\<lambda>r. map (tag (ob_tags r)) ks) (queued_of ty (load_snapshot d table bounds)))"
proof -
  have "keys_unique ob_event_id (db_outbox d)" "tags_ok d" using ok by (simp_all add: inventory_ok_def outbox_wf_def)
  then show ?thesis
    using telemetry_outbox [OF clean, of ks ty] events_reported [OF ty, of d table bounds]
    by (simp add: said_def keys_unique_def distinct_map_filter tags_ok_def cong: map_cong)
qed

lemma complete_clean: "audit_complete (audit_operational_snapshot s) \<Longrightarrow> all_diagnostics s = []"
proof -
  assume "audit_complete (audit_operational_snapshot s)"
  then have "sorted_set (all_diagnostics s) = []" by (simp add: audit_complete_def audit_operational_snapshot_def Let_def)
  then have "set (sorted_set (all_diagnostics s)) = {}" by simp
  then show ?thesis by (simp add: sorted_set_def)
qed

lemma receipts_exact:
  assumes ok: "inventory_ok d" and clean: "all_diagnostics (load_snapshot d table bounds) = []"
  shows "mset (map (said [''movement_id'', ''product_id'', ''quantity'']) (events_reported table bounds ''inbound_order_created'')) =
    mset (map (\<lambda>e. [JStr (str_int (en_id e)), JStr (str_int (en_sku_id e)), JInt (en_quantity e)]) (receipts_in d bounds))"
proof -
  let ?s = "load_snapshot d table bounds"
  have skus: "keys_unique sku_id (db_skus d)" "\<forall>e \<in> set (receipts_in d bounds). en_sku_id e \<in> sku_id ` set (db_skus d)"
    using ok by (auto simp: inventory_ok_def tables_ok_def movement_of_sku_def sku_warehouses_def receipts_in_def)
  have entries: "os_entries ?s = with_sku d en_sku_id audited_entry (receipts_in d bounds)"
    by (simp add: load_snapshot_def Let_def receipts_in_def)
  have "map ae_id (os_entries ?s) = map en_id (receipts_in d bounds)"
    unfolding entries by (rule with_sku_map [OF skus]) (simp add: audited_entry_def)
  then have ids: "distinct (map ae_id (os_entries ?s))"
    using ok by (simp add: inventory_ok_def tables_ok_def keys_unique_def receipts_in_def distinct_map_filter)
  have "mset (map (said [''movement_id'', ''product_id'', ''quantity'']) (events_reported table bounds ''inbound_order_created'')) =
      mset (map (\<lambda>r. map (tag (ob_tags r)) [''movement_id'', ''product_id'', ''quantity'']) (queued_of ''inbound_order_created'' ?s))"
    by (rule loaded_telemetry [OF ok clean]) (simp add: OFFICIAL_EVENT_TYPES_def INBOUND_ORDER_CREATED_def)
  also have "\<dots> = mset (map (\<lambda>e. map (tag (entry_tags e)) [''movement_id'', ''product_id'', ''quantity'']) (os_entries ?s))"
    by (rule inbound_sources [OF clean ids])
  also have "map (\<lambda>e. map (tag (entry_tags e)) [''movement_id'', ''product_id'', ''quantity'']) (os_entries ?s) =
      map (\<lambda>e. [JStr (str_int (en_id e)), JStr (str_int (en_sku_id e)), JInt (en_quantity e)]) (receipts_in d bounds)"
    unfolding entries by (rule with_sku_map [OF skus]) (simp add: audited_entry_def entry_tags_def tag_def)
  finally show ?thesis .
qed

lemma orders_exact:
  assumes ok: "inventory_ok d" and clean: "all_diagnostics (load_snapshot d table bounds) = []"
  shows "mset (map (said [''order_id'', ''client_id'']) (events_reported table bounds ''outbound_order_created'')) =
    mset (map (\<lambda>c. [JStr (uuid_str (co_order_id c)), JStr (co_client_id c)]) (orders_in d bounds))"
proof -
  let ?s = "load_snapshot d table bounds"
  have ids: "distinct (map co_id (os_orders ?s))"
    using ok by (simp add: inventory_ok_def tables_ok_def keys_unique_def distinct_map_filter)
  have "mset (map (said [''order_id'', ''client_id'']) (events_reported table bounds ''outbound_order_created'')) =
      mset (map (\<lambda>r. map (tag (ob_tags r)) [''order_id'', ''client_id'']) (queued_of ''outbound_order_created'' ?s))"
    by (rule loaded_telemetry [OF ok clean]) (simp add: OFFICIAL_EVENT_TYPES_def OUTBOUND_ORDER_CREATED_def)
  also have "\<dots> = mset (map (\<lambda>c. map (tag (order_tags c)) [''order_id'', ''client_id'']) (os_orders ?s))"
    by (rule outbound_sources [OF clean ids])
  also have "map (\<lambda>c. map (tag (order_tags c)) [''order_id'', ''client_id'']) (os_orders ?s) =
      map (\<lambda>c. [JStr (uuid_str (co_order_id c)), JStr (co_client_id c)]) (orders_in d bounds)"
    by (simp add: orders_in_def order_tags_def tag_def)
  finally show ?thesis .
qed

lemma crossings_exact:
  assumes ok: "inventory_ok d" and clean: "all_diagnostics (load_snapshot d table bounds) = []"
  shows "mset (map (said [''movement_id'', ''quantity'']) (events_reported table bounds ''stock_threshold_triggered'')) =
    mset (map (\<lambda>v. [JStr (str_int (te_source_pk v)), JInt (te_after_quantity v)]) (crossings_in d bounds))"
proof -
  let ?s = "load_snapshot d table bounds"
  have ids: "distinct (map te_source (os_checkpoints ?s))"
    using ok by (simp add: inventory_ok_def evals_ok_def keys_unique_def distinct_map_filter)
  have rows: "filter te_crossed (os_checkpoints ?s) = crossings_in d bounds" by (simp add: crossings_in_def conj_commute)
  have "mset (map (said [''movement_id'', ''quantity'']) (events_reported table bounds ''stock_threshold_triggered'')) =
      mset (map (\<lambda>r. map (tag (ob_tags r)) [''movement_id'', ''quantity'']) (queued_of ''stock_threshold_triggered'' ?s))"
    by (rule loaded_telemetry [OF ok clean]) (simp add: OFFICIAL_EVENT_TYPES_def STOCK_THRESHOLD_TRIGGERED_def)
  also have "\<dots> = mset (map (\<lambda>v. map (tag (crossing_tags (te_source v) (movement_at ?s (te_source v)) v)) [''movement_id'', ''quantity'']) (filter te_crossed (os_checkpoints ?s)))"
    by (rule crossing_sources [OF clean ids])
  also have "map (\<lambda>v. map (tag (crossing_tags (te_source v) (movement_at ?s (te_source v)) v)) [''movement_id'', ''quantity'']) (filter te_crossed (os_checkpoints ?s)) =
      map (\<lambda>v. [JStr (str_int (te_source_pk v)), JInt (te_after_quantity v)]) (crossings_in d bounds)"
    unfolding rows by (simp add: crossing_tags_def tag_def te_source_def)
  finally show ?thesis .
qed

lemma discrepancies_exact:
  assumes ok: "inventory_ok d" and known: "\<forall>c \<in> set (db_counts d). pc_sku_id c \<in> sku_id ` set (db_skus d)"
    and clean: "all_diagnostics (load_snapshot d table bounds) = []"
  shows "mset (map (said [''count_id'', ''product_id'', ''discrepancy_delta'']) (events_reported table bounds ''inventory_discrepancy_detected'')) =
    mset (map (\<lambda>c. [JStr (uuid_str (pc_count_id c)), JStr (str_int (pc_sku_id c)),
      JInt (pc_observed_quantity c - pc_expected_quantity c)]) (discrepancies_in d bounds))"
proof -
  let ?s = "load_snapshot d table bounds" and ?rows = "filter (\<lambda>c. within_week bounds (pc_confirmed_at c)) (db_counts d)"
  let ?say = "\<lambda>c. map (tag (count_tags c)) [''count_id'', ''product_id'', ''discrepancy_delta'']"
  have skus: "keys_unique sku_id (db_skus d)" "\<forall>c \<in> set ?rows. pc_sku_id c \<in> sku_id ` set (db_skus d)"
    using ok known by (auto simp: inventory_ok_def tables_ok_def)
  have counts: "os_counts ?s = with_sku d pc_sku_id audited_count ?rows" by (simp add: load_snapshot_def Let_def)
  have "map ac_id (os_counts ?s) = map pc_id ?rows"
    unfolding counts by (rule with_sku_map [OF skus]) (simp add: audited_count_def)
  then have ids: "distinct (map ac_id (os_counts ?s))"
    using ok by (simp add: inventory_ok_def tables_ok_def keys_unique_def distinct_map_filter)
  have "map (\<lambda>c. if discrepant c then [?say c] else []) (os_counts ?s) =
      map (\<lambda>c. if pc_expected_quantity c \<noteq> pc_observed_quantity c then [[JStr (uuid_str (pc_count_id c)),
        JStr (str_int (pc_sku_id c)), JInt (pc_observed_quantity c - pc_expected_quantity c)]] else []) ?rows"
    unfolding counts by (rule with_sku_map [OF skus]) (simp add: audited_count_def count_tags_def tag_def discrepant_def Let_def)
  from arg_cong [OF this, of concat]
  have facts: "map ?say (filter discrepant (os_counts ?s)) = map (\<lambda>c. [JStr (uuid_str (pc_count_id c)), JStr (str_int (pc_sku_id c)),
      JInt (pc_observed_quantity c - pc_expected_quantity c)]) (discrepancies_in d bounds)"
    by (simp add: concat_if_single discrepancies_in_def conj_commute)
  have "mset (map (said [''count_id'', ''product_id'', ''discrepancy_delta'']) (events_reported table bounds ''inventory_discrepancy_detected'')) =
      mset (map (\<lambda>r. map (tag (ob_tags r)) [''count_id'', ''product_id'', ''discrepancy_delta'']) (queued_of ''inventory_discrepancy_detected'' ?s))"
    by (rule loaded_telemetry [OF ok clean]) (simp add: OFFICIAL_EVENT_TYPES_def INVENTORY_DISCREPANCY_DETECTED_def)
  also have "\<dots> = mset (map (\<lambda>c. map (tag (count_tags c)) [''count_id'', ''product_id'', ''discrepancy_delta'']) (filter discrepant (os_counts ?s)))"
    by (rule discrepancy_sources [OF clean ids])
  also have "map (\<lambda>c. map (tag (count_tags c)) [''count_id'', ''product_id'', ''discrepancy_delta'']) (filter discrepant (os_counts ?s)) =
      map (\<lambda>c. [JStr (uuid_str (pc_count_id c)), JStr (str_int (pc_sku_id c)), JInt (pc_observed_quantity c - pc_expected_quantity c)]) (discrepancies_in d bounds)"
    by (rule facts)
  finally show ?thesis .
qed

end
