(* ===== verification/CoverageProperties.thy ===== *)
theory CoverageProperties
  imports CoverageSoundness InventoryProperties RelayProperties
begin

text \<open>
  The properties of the weekly audit, with the demonstration run of the inventory service whose
  three events the relay delivers.
\<close>

section \<open>A delivered week\<close>

definition demo_relayed :: "inventory_state \<Rightarrow> inventory_state" where
  "demo_relayed s = with_queue (snd (relay_iteration (demo_relay_env 0) (queue_of s))) s"

definition demo_settled :: inventory_state where
  "demo_settled = demo_relayed (demo_relayed (demo_relayed demo_ordered))"

definition demo_reader :: "nat \<Rightarrow> read_connection" where
  "demo_reader n = \<lparr>rc_engine = demo_engine n, rc_dialect = Some ''postgresql'', rc_fails = (\<lambda>_. None)\<rparr>"

lemma demo_fresh: "fresh_system demo_start"
  by (simp add: fresh_system_def demo_start_def)

lemma demo_request_step: "system_step s (demo_step r s)"
  unfolding demo_step_def by (rule sys_request) (rule surjective_pairing)

lemma demo_relay_step: "system_step s (demo_relayed s)"
  unfolding demo_relayed_def by (rule sys_relay) (rule surjective_pairing)

lemma demo_system_steps: "system_step\<^sup>*\<^sup>* demo_start demo_settled"
proof -
  have "system_step\<^sup>*\<^sup>* demo_start demo_stocked"
    using demo_request_step [of demo_start "PostProduct demo_sku"]
      demo_request_step [of "demo_step (PostProduct demo_sku) demo_start" "PostInbound demo_entry"]
    by (simp add: demo_run_stocked)
  moreover have "system_step demo_stocked demo_ordered"
    using demo_request_step [of demo_stocked "PostOrder demo_order"] by (simp add: demo_run_ordered)
  ultimately have "system_step\<^sup>*\<^sup>* demo_start demo_ordered" by simp
  then show ?thesis
    unfolding demo_settled_def using demo_relay_step by (meson rtranclp.rtrancl_into_rtrancl)
qed

lemma demo_week: "iso_week_bounds (-3) = Inr (-259200000000, 345600000000)"
  by code_simp

lemma demo_week_delivered: "week_delivered (inv_db demo_settled) (-259200000000, 345600000000)"
  by code_simp

lemma demo_no_foreign: "no_foreign_events (telemetry_table demo_settled) (-259200000000, 345600000000)"
  by code_simp

lemma demo_events: "map tr_event_type (telemetry_table demo_settled) =
    [''inbound_order_created'', ''stock_threshold_triggered'', ''outbound_order_created'']"
  by code_simp

lemma demo_reader_healthy: "healthy_reader (demo_reader n)"
  by (simp add: healthy_reader_def demo_reader_def)

lemma demo_readers_distinct:
  "ensure_distinct_postgresql_databases (rc_engine (demo_reader 1)) (rc_engine (demo_reader 2)) = Inr ()"
  by code_simp

section \<open>Properties\<close>

text \<open>
  C2. A settled week is covered. Whatever requests, relay iterations and telemetry writes a system
  that began with empty tables has gone through, once the outbox rows of a week are published, and when
  both readers answer and the databases are distinct, the audit of that week is complete, its evidence
  passes the checks of the publication, and the extraction of the week succeeds. The coverage reserve is
  then lifted from the weekly result exactly when no other service has stored rows of the official types
  in the week: the extraction selects by type alone, and with such a row the reserve stays.
\<close>

theorem settled_week_covered:
  assumes "fresh_system s0" and "system_step\<^sup>*\<^sup>* s0 s" and "iso_week_bounds week = Inr bounds"
    and "week_delivered (inv_db s) bounds"
    and "healthy_reader source" and "healthy_reader reporting"
    and "ensure_distinct_postgresql_databases (rc_engine source) (rc_engine reporting) = Inr ()"
  shows "\<exists>a x. audit_operational_coverage source reporting week (inv_db s) (stored_rows drawn (telemetry_table s)) = Inr a \<and>
    audit_complete a \<and> coverage_issues (Some (oa_evidence a)) = [] \<and>
    extract_weekly_inputs reporting (Some source) week now (stored_rows drawn (telemetry_table s)) (inv_db s) = Inr x \<and>
    (\<forall>r. qr_coverage_pending (wr_quality (apply_operational_coverage r a x)) =
       (if no_foreign_events (telemetry_table s) bounds then [] else qr_coverage_pending (wr_quality r)))"
proof -
  let ?table = "stored_rows drawn (telemetry_table s)"
  define a where "a = audit_operational_snapshot (load_snapshot (inv_db s) ?table bounds)"
  have ok: "system_ok s" using system_steps_ok [OF assms(2) fresh_system_ok [OF assms(1)]] .
  note clean = settled_week_clean [OF ok assms(4), of drawn]
  have audit: "audit_operational_coverage source reporting week (inv_db s) ?table = Inr a"
    unfolding a_def by (rule audit_healthy [OF assms(5,6,7,3)])
  have complete: "audit_complete a" by (simp add: a_def audit_complete_def clean_audit [OF clean])
  have evidence: "coverage_issues (Some (oa_evidence a)) = []"
    unfolding a_def using ok by (intro clean_evidence_accepted [OF _ clean]) (simp add: system_ok_def)
  obtain x where x: "extract_weekly_inputs reporting (Some source) week now ?table (inv_db s) = Inr x"
      "wx_events x = map event_of_row (weekly_rows ?table (fst bounds) (snd bounds))"
    using extract_healthy [OF assms(5-7), of week "fst bounds" "snd bounds" now ?table "inv_db s"] assms(3) by auto
  have "canonical_events (wx_events x) = oa_audited_events a" if "no_foreign_events (telemetry_table s) bounds"
    unfolding a_def clean_audit [OF clean] x(2) using extracted_audited [OF ok that] by simp
  moreover have "length (canonical_events (wx_events x)) \<noteq> length (oa_audited_events a)"
    if "\<not> no_foreign_events (telemetry_table s) bounds"
    unfolding a_def clean_audit [OF clean] x(2) canonical_events_def
    using extracted_foreign [OF that, of "inv_db s" drawn] by simp
  ultimately have "qr_coverage_pending (wr_quality (apply_operational_coverage r a x)) =
      (if no_foreign_events (telemetry_table s) bounds then [] else qr_coverage_pending (wr_quality r))" for r
    using complete by (auto simp: apply_operational_coverage_def list_all2_refl dest: list_all2_lengthD)
  then show ?thesis using audit complete evidence x(1) by blast
qed

theorem settled_week_covered_witness:
  "\<exists>a x. audit_operational_coverage (demo_reader 1) (demo_reader 2) (-3) (inv_db demo_settled)
        (stored_rows demo_uuid (telemetry_table demo_settled)) = Inr a \<and> audit_complete a \<and>
    extract_weekly_inputs (demo_reader 2) (Some (demo_reader 1)) (-3) 5 (stored_rows demo_uuid (telemetry_table demo_settled))
        (inv_db demo_settled) = Inr x \<and>
    (\<forall>r. qr_coverage_pending (wr_quality (apply_operational_coverage r a x)) = []) \<and> length (telemetry_table demo_settled) = 3"
  using settled_week_covered [OF demo_fresh demo_system_steps demo_week demo_week_delivered
      demo_reader_healthy demo_reader_healthy demo_readers_distinct, of demo_uuid 5] arg_cong [OF demo_events, of length] demo_no_foreign
  by fastforce

text \<open>
  C3. A covered week is exact. When the audit of a week of consistent tables is complete, the official
  telemetry of the week says exactly what happened: its inbound events are the receipts of the week with
  their products and quantities, its outbound events the orders, its threshold events the crossings with
  the stock they left, and its discrepancy events the physical counts that differed with their
  differences, each once. Every count belongs to a product, as its foreign key says.
\<close>

theorem covered_week_exact:
  assumes "inventory_ok d" and "\<forall>c \<in> set (db_counts d). pc_sku_id c \<in> sku_id ` set (db_skus d)"
    and "audit_complete (audit_operational_snapshot (load_snapshot d table bounds))"
  shows "mset (map (said [''movement_id'', ''product_id'', ''quantity'']) (events_reported table bounds ''inbound_order_created'')) =
      mset (map (\<lambda>e. [JStr (str_int (en_id e)), JStr (str_int (en_sku_id e)), JInt (en_quantity e)]) (receipts_in d bounds)) \<and>
    mset (map (said [''order_id'', ''client_id'']) (events_reported table bounds ''outbound_order_created'')) =
      mset (map (\<lambda>c. [JStr (uuid_str (co_order_id c)), JStr (co_client_id c)]) (orders_in d bounds)) \<and>
    mset (map (said [''movement_id'', ''quantity'']) (events_reported table bounds ''stock_threshold_triggered'')) =
      mset (map (\<lambda>v. [JStr (str_int (te_source_pk v)), JInt (te_after_quantity v)]) (crossings_in d bounds)) \<and>
    mset (map (said [''count_id'', ''product_id'', ''discrepancy_delta'']) (events_reported table bounds ''inventory_discrepancy_detected'')) =
      mset (map (\<lambda>c. [JStr (uuid_str (pc_count_id c)), JStr (str_int (pc_sku_id c)),
        JInt (pc_observed_quantity c - pc_expected_quantity c)]) (discrepancies_in d bounds))"
  using assms(1,2) complete_clean [OF assms(3)]
  by (intro conjI receipts_exact orders_exact crossings_exact discrepancies_exact)

lemma demo_settled_audit:
  "inventory_ok (inv_db demo_settled)"
  "audit_complete (audit_operational_snapshot (load_snapshot (inv_db demo_settled)
     (stored_rows demo_uuid (telemetry_table demo_settled)) (-259200000000, 345600000000)))"
proof -
  have ok: "system_ok demo_settled" using system_steps_ok [OF demo_system_steps fresh_system_ok [OF demo_fresh]] .
  then show "inventory_ok (inv_db demo_settled)" by (simp add: system_ok_def)
  show "audit_complete (audit_operational_snapshot (load_snapshot (inv_db demo_settled)
     (stored_rows demo_uuid (telemetry_table demo_settled)) (-259200000000, 345600000000)))"
    using clean_audit [OF settled_week_clean [OF ok demo_week_delivered]] by (simp add: audit_complete_def)
qed

lemma demo_settled_facts:
  "map (\<lambda>e. [JStr (str_int (en_id e)), JStr (str_int (en_sku_id e)), JInt (en_quantity e)])
     (receipts_in (inv_db demo_settled) (-259200000000, 345600000000)) = [[JStr ''1'', JStr ''1'', JInt 5]]"
  "db_counts (inv_db demo_settled) = []"
  by code_simp+

theorem covered_week_exact_witness:
  "mset (map (said [''movement_id'', ''product_id'', ''quantity'']) (events_reported
      (stored_rows demo_uuid (telemetry_table demo_settled)) (-259200000000, 345600000000) ''inbound_order_created'')) =
    {#[JStr ''1'', JStr ''1'', JInt 5]#}"
  using conjunct1 [OF covered_week_exact [OF demo_settled_audit(1) _ demo_settled_audit(2)]]
  unfolding demo_settled_facts by simp

end
