(* ===== verification/WeeklyPipeline.thy ===== *)
theory WeeklyPipeline
  imports OperationalCoverage
begin

text \<open>
  The weekly flow of \<open>pipelines/pipeline.py\<close>: relay, audit, extraction, calculation, quality gate, lease
  and publication, with the run record each failure leaves. A raised exception is its text, which is
  what the flow stores. Prefect is outside: a task runs once and again after a failed attempt while it
  has retries, so each retried task has the list of its attempts; the cached transformation is the
  same pure function of its inputs. The runtime is one without the technical coverage attestation of
  the test suite, as both builders make it.
\<close>

section \<open>Runtime and environment\<close>

record pipeline_runtime =
  rt_engine :: engine
  rt_coverage :: coverage_evidence
  rt_dependency_fingerprint :: string
  rt_source_engine :: "engine option"
  rt_rules_version :: string
  rt_lease_seconds :: int
  rt_trigger_type :: string
  rt_state_sink :: bool
  rt_accepted_run_id :: "uuid option"

record pipeline_state =
  ps_source :: inventory_db
  ps_events :: "telemetry_row list"
  ps_world :: publication_world

type_synonym 'a pipeline_cmd = "(pipeline_state, string, 'a) cmd"
type_synonym read_faults = "read_point \<Rightarrow> string option"

text \<open>
  The environment of one flow: what Prefect knows of it, the clock and the connections of each task
  with the errors of connecting and committing, the attempts of the retried tasks, what other sessions
  commit before each stage, and what raises around the subflows.
\<close>

record pipeline_env =
  pv_flow_run :: "string option"
  pv_task_run :: "string \<Rightarrow> string option"
  pv_uuid4 :: uuid
  pv_clock :: "string \<Rightarrow> time"
  pv_connect_fails :: "string \<Rightarrow> string option"
  pv_conn :: "string \<Rightarrow> conn"
  pv_commit :: "string \<Rightarrow> commit_outcome"
  pv_commit_text :: string
  pv_exception_text :: "string \<Rightarrow> string"
  pv_relay :: "(nat \<Rightarrow> relay_env) \<times> (nat \<Rightarrow> relay_env) list"
  pv_relay_others :: "nat \<Rightarrow> relay_db \<Rightarrow> relay_db"
  pv_audit :: "(read_faults \<times> read_faults) \<times> (read_faults \<times> read_faults) list"
  pv_extract :: "(read_faults \<times> read_faults) \<times> (read_faults \<times> read_faults) list"
  pv_drawn :: "nat \<Rightarrow> uuid"
  pv_publication :: publication_env
  pv_extraction_flow_fails :: "string option"
  pv_sink_raises :: "string option"
  pv_others :: "string \<Rightarrow> pipeline_state \<Rightarrow> pipeline_state"

text \<open>The attempts Prefect makes of a task: a later one follows a failed one.\<close>

fun attempts :: "('x \<Rightarrow> ('s, 'e, 'a) cmd) \<Rightarrow> 'x \<Rightarrow> 'x list \<Rightarrow> ('s, 'e, 'a) cmd" where
  "attempts f x [] s = f x s"
| "attempts f x (y # ys) s = (case f x s of (Inl _, t) \<Rightarrow> attempts f y ys t | (Inr a, t) \<Rightarrow> (Inr a, t))"

text \<open>What other sessions commit before a stage.\<close>

definition interleaved :: "pipeline_env \<Rightarrow> string \<Rightarrow> 'a pipeline_cmd \<Rightarrow> 'a pipeline_cmd" where
  "interleaved E stage m s = m (pv_others E stage s)"

fun comma_separated :: "string list \<Rightarrow> string" where
  "comma_separated [] = []"
| "comma_separated [x] = x"
| "comma_separated (x # y # xs) = x @ '','' @ comma_separated (y # xs)"

section \<open>Connections\<close>

text \<open>
  \<open>with runtime.engine.connect()\<close>, the body and its commit: a statement or a commit that raises leaves
  the tables as they were, unless the commit took effect before its answer was lost.
\<close>

definition on_connection :: "pipeline_env \<Rightarrow> string \<Rightarrow> ('e \<Rightarrow> string) \<Rightarrow> (conn \<Rightarrow> (run_db, 'e, 'a) cmd) \<Rightarrow> 'a pipeline_cmd" where
  "on_connection E task message m s =
     (let w = ps_world s in
      case pv_connect_fails E task of
        Some text \<Rightarrow> (Inl text, s)
      | None \<Rightarrow>
         (case m (pv_conn E task) (pw_store w) of
            (Inl e, t) \<Rightarrow>
              (Inl (message e), s\<lparr>ps_world := w\<lparr>pw_store := (pw_store w)\<lparr>rd_ticks := rd_ticks t\<rparr>\<rparr>\<rparr>)
          | (Inr a, t) \<Rightarrow>
             (case pv_commit E task of
                CommitOk \<Rightarrow> (Inr a, s\<lparr>ps_world := w\<lparr>pw_store := t\<rparr>\<rparr>)
              | CommitRolledBack \<Rightarrow>
                  (Inl (pv_commit_text E), s\<lparr>ps_world := w\<lparr>pw_store := (pw_store w)\<lparr>rd_ticks := rd_ticks t\<rparr>\<rparr>\<rparr>)
              | CommitLost \<Rightarrow> (Inl (pv_commit_text E), s\<lparr>ps_world := w\<lparr>pw_store := t\<rparr>\<rparr>))))"

fun isolation_text :: "isolation_error \<Rightarrow> string" where
  "isolation_text (DatabaseIsolationError m) = m"

definition coordinator_text :: "coordinator_error \<Rightarrow> string" where
  "coordinator_text e =
     (case e of CoordinatorError _ m \<Rightarrow> m | RaisedStore x \<Rightarrow> store_message x | RaisedLease x \<Rightarrow> error_text x)"

definition reader :: "engine \<Rightarrow> read_faults \<Rightarrow> read_connection" where
  "reader e faults = \<lparr>rc_engine = e, rc_dialect = en_dialect e, rc_fails = faults\<rparr>"

section \<open>Relay, audit and extraction\<close>

definition relay_failure :: "relay_result \<Rightarrow> string" where
  "relay_failure r = ''outbox_relay_incomplete:'' @
     (let codes = comma_separated (rs_error_codes r) in if codes = [] then ''destination_failure'' else codes)"

definition relay_text :: "pipeline_env \<Rightarrow> relay_error \<Rightarrow> string" where
  "relay_text E e =
     (case e of RelayValueError m \<Rightarrow> m | RelayIsolation i \<Rightarrow> isolation_text i | RelayRaised t \<Rightarrow> pv_exception_text E t)"

definition relay_outbox_task :: "pipeline_env \<Rightarrow> engine \<Rightarrow> engine \<Rightarrow> (nat \<Rightarrow> relay_env) \<Rightarrow> relay_result pipeline_cmd" where
  "relay_outbox_task E source reporting R s =
     (case relay_inventory_outbox R (pv_relay_others E) source reporting 100
             \<lparr>rl_outbox = db_outbox (ps_source s), rl_events = ps_events s\<rparr> of
        (r, t) \<Rightarrow>
          ((case r of
              Inl e \<Rightarrow> Inl (relay_text E e)
            | Inr result \<Rightarrow> if rs_failed result \<noteq> 0 then Inl (relay_failure result) else Inr result),
           s\<lparr>ps_source := (ps_source s)\<lparr>db_outbox := rl_outbox t\<rparr>, ps_events := rl_events t\<rparr>))"

definition coverage_text :: "coverage_error \<Rightarrow> string" where
  "coverage_text e =
     (case e of CoverageIsolation i \<Rightarrow> isolation_text i | CoverageValueError m \<Rightarrow> m | CoverageDatabaseError m \<Rightarrow> m)"

definition audit_operational_coverage_task ::
  "pipeline_env \<Rightarrow> engine \<Rightarrow> engine \<Rightarrow> date \<Rightarrow> read_faults \<times> read_faults \<Rightarrow> coverage_audit pipeline_cmd" where
  "audit_operational_coverage_task E source reporting week_start faults s =
     (case audit_operational_coverage (reader source (fst faults)) (reader reporting (snd faults)) week_start
             (ps_source s) (stored_rows (pv_drawn E) (ps_events s)) of
        Inl e \<Rightarrow> (Inl (coverage_text e), s) | Inr a \<Rightarrow> (Inr a, s))"

text \<open>The message of a \<open>WeeklyExtractionError\<close>.\<close>

definition extraction_text :: "extraction_error \<Rightarrow> string" where
  "extraction_text e =
     (case e of
        WeeklyExtractionError phase week m \<Rightarrow>
          ''Weekly extraction failed during '' @ phase @ '' for '' @ iso_date week @ '': '' @ m
      | ExtractionValueError m \<Rightarrow> m
      | ExtractionIsolation i \<Rightarrow> isolation_text i)"

definition extract_week_task ::
  "pipeline_env \<Rightarrow> engine \<Rightarrow> date \<Rightarrow> engine option \<Rightarrow> read_faults \<times> read_faults \<Rightarrow> weekly_extraction pipeline_cmd" where
  "extract_week_task E engine week_start source faults s =
     (case extract_weekly_inputs (reader engine (fst faults)) (map_option (\<lambda>e. reader e (snd faults)) source)
             week_start (pv_clock E ''extract'') (stored_rows (pv_drawn E) (ps_events s)) (ps_source s) of
        Inl e \<Rightarrow> (Inl (extraction_text e), s) | Inr x \<Rightarrow> (Inr x, s))"

record extraction_stage =
  es_runtime :: pipeline_runtime
  es_extracted :: "weekly_extraction option"
  es_audit :: "coverage_audit option"
  es_failed_stage :: "string option"
  es_error :: "string option"

definition failed_stage :: "pipeline_runtime \<Rightarrow> string \<Rightarrow> string \<Rightarrow> extraction_stage" where
  "failed_stage R stage text =
     \<lparr>es_runtime = R, es_extracted = None, es_audit = None, es_failed_stage = Some stage, es_error = Some text\<rparr>"

definition extract_stage ::
  "pipeline_env \<Rightarrow> pipeline_runtime \<Rightarrow> date \<Rightarrow> coverage_audit option \<Rightarrow> extraction_stage pipeline_cmd" where
  "extract_stage E R week_start audit =
     interleaved E ''extract'' (\<lambda>s.
       case attempts (extract_week_task E (rt_engine R) week_start (rt_source_engine R))
              (fst (pv_extract E)) (snd (pv_extract E)) s of
         (Inl text, t) \<Rightarrow> (Inr (failed_stage R ''extract'' text), t)
       | (Inr x, t) \<Rightarrow>
           (Inr \<lparr>es_runtime = R, es_extracted = Some x, es_audit = audit, es_failed_stage = None, es_error = None\<rparr>, t))"

definition extract_weekly_warehouse_events_flow ::
  "pipeline_env \<Rightarrow> pipeline_runtime \<Rightarrow> date \<Rightarrow> extraction_stage pipeline_cmd" where
  "extract_weekly_warehouse_events_flow E R week_start s =
     (case pv_extraction_flow_fails E of
        Some text \<Rightarrow> (Inl text, s)
      | None \<Rightarrow>
         (case rt_source_engine R of
            Some source \<Rightarrow>
              if en_object source = en_object (rt_engine R) then extract_stage E R week_start None s
              else
               (case attempts (relay_outbox_task E source (rt_engine R)) (fst (pv_relay E)) (snd (pv_relay E))
                       (pv_others E ''relay'' s) of
                  (Inl text, t) \<Rightarrow> (Inr (failed_stage R ''relay'' text), t)
                | (Inr _, t) \<Rightarrow>
                   (case attempts (audit_operational_coverage_task E source (rt_engine R) week_start)
                           (fst (pv_audit E)) (snd (pv_audit E)) (pv_others E ''coverage_audit'' t) of
                      (Inl text, u) \<Rightarrow> (Inr (failed_stage R ''coverage_audit'' text), u)
                    | (Inr audit, u) \<Rightarrow>
                        extract_stage E (R\<lparr>rt_coverage := oa_evidence audit\<rparr>) week_start (Some audit) u))
          | None \<Rightarrow> extract_stage E R week_start None s))"

section \<open>Calculation\<close>

definition prepare_weekly_events_task :: "weekly_extraction \<Rightarrow> date \<Rightarrow> string + prepared_events" where
  "prepare_weekly_events_task extracted week_start =
     (if xm_week_start (wx_metadata extracted) \<noteq> week_start
      then Inl ''extraction week does not match calculation week''
      else Inr (prepare_weekly_events (wx_events extracted) (Some (wx_movement_weeks extracted))))"

definition transform_week_task ::
  "weekly_extraction \<Rightarrow> date \<Rightarrow> prepared_events option \<Rightarrow> metric_contribution option list \<Rightarrow> string + weekly_result" where
  "transform_week_task extracted week_start events contributions =
     (if xm_week_start (wx_metadata extracted) \<noteq> week_start
      then Inl ''extraction week does not match transformation week''
      else case events of
        Some p \<Rightarrow>
          if None \<notin> set contributions then compose_weekly_performance p (map the contributions)
          else Inl ''prepared events and all KPI contributions must be supplied together''
      | None \<Rightarrow>
          if list_ex (\<lambda>c. c \<noteq> None) contributions
          then Inl ''prepared events and all KPI contributions must be supplied together''
          else transform_weekly_performance (wx_events extracted) (wx_orders extracted) (Some (wx_movement_weeks extracted)))"

definition calculate_warehouse_client_indicators_flow ::
  "date \<Rightarrow> weekly_extraction \<Rightarrow> coverage_audit option \<Rightarrow> string + weekly_result" where
  "calculate_warehouse_client_indicators_flow week_start extracted audit =
     bind_result (prepare_weekly_events_task extracted week_start) (\<lambda>p.
     bind_result (transform_week_task extracted week_start (Some p)
       [Some (calculate_inbound_volume p), Some (calculate_outbound_throughput p (wx_orders extracted)),
        Some (calculate_stockout_frequency p), Some (calculate_discrepancy_events p)]) (\<lambda>transformed.
     Inr (case audit of
         None \<Rightarrow> transformed
       | Some a \<Rightarrow> apply_operational_coverage transformed a extracted)))"

section \<open>The run record\<close>

definition or_text :: "string option \<Rightarrow> string \<Rightarrow> string" where
  "or_text v fallback = (if truthy v then the v else fallback)"

definition create_run_task :: "pipeline_env \<Rightarrow> pipeline_runtime \<Rightarrow> date \<Rightarrow> uuid pipeline_cmd" where
  "create_run_task E R week_start =
     (let run_id = or_else (rt_accepted_run_id R) (pv_uuid4 E); now = pv_clock E ''create'' in
      interleaved E ''create'' (on_connection E ''create'' id (\<lambda>C.
        case rt_accepted_run_id R of
          Some i \<Rightarrow>
            bind_cmd (map_error store_message (get_run C run_id)) (\<lambda>existing.
            bind_cmd (lift_result (guard
              (case existing of None \<Rightarrow> False | Some r \<Rightarrow> rr_target_week_start r = week_start \<and> rr_status r = ''pending'')
              ''accepted run is missing, mismatched, or no longer pending'')) (\<lambda>_.
            bind_cmd (map_error store_message (correlate_pending_run C run_id
              (or_text (pv_flow_run E) ''unavailable-flow-run'')
              (or_text (pv_task_run E ''create'') ''unavailable-task-run''))) (\<lambda>_.
            return_cmd run_id)))
        | None \<Rightarrow>
            bind_cmd (map_error store_message (create_run C (pv_uuid4 E) week_start (rt_trigger_type R)
              WEEKLY_PIPELINE_NAME (Some run_id) (Some now) (Some ''prefect'') (pv_flow_run E)
              (pv_task_run E ''create''))) (\<lambda>_.
            return_cmd run_id))))"

definition fail_run_task ::
  "pipeline_env \<Rightarrow> pipeline_runtime \<Rightarrow> date \<Rightarrow> uuid \<Rightarrow> string \<Rightarrow> string \<Rightarrow> int option \<Rightarrow> coordinator_result pipeline_cmd" where
  "fail_run_task E R week_start run_id stage text records_processed =
     interleaved E ''fail'' (on_connection E ''fail'' store_message (\<lambda>C.
       bind_cmd (update_run C run_id ''pending'' ''failed_retryable''
         (no_changes\<lparr>ch_finished_at := Some (pv_clock E ''fail''), ch_stage_reached := Some stage,
            ch_records_processed := records_processed, ch_error_code := Some (stage @ ''_failed''),
            ch_error_message := Some (take 500 text), ch_prefect_flow_run_id := pv_flow_run E,
            ch_prefect_task_run_id := pv_task_run E ''fail''\<rparr>)) (\<lambda>_.
       return_cmd (the_result week_start (Some run_id) ''failed_retryable'' [stage @ ''_failed''] ''not_attempted''))))"

section \<open>Publication\<close>

definition quality_gate_task ::
  "pipeline_env \<Rightarrow> pipeline_runtime \<Rightarrow> date \<Rightarrow> uuid \<Rightarrow> weekly_result \<Rightarrow> int \<Rightarrow> coordinator_result option pipeline_cmd" where
  "quality_gate_task E R week_start run_id transformed records_processed =
     (let now = pv_clock E ''quality'';
          issues = pre_write_issues week_start (wr_aggregates transformed) (Some (wr_quality transformed))
            (Some (rt_coverage R)) (Some (rt_dependency_fingerprint R)) (Some (rt_rules_version R)) now
      in if issues = [] then return_cmd None
         else interleaved E ''quality'' (on_connection E ''quality'' store_message (\<lambda>C.
           bind_cmd (update_run C run_id ''pending'' ''blocked_quality''
             (no_changes\<lparr>ch_finished_at := Some now, ch_stage_reached := Some ''quality'',
                ch_records_processed := Some records_processed,
                ch_aggregates_calculated := Some (int (length (wr_aggregates transformed))),
                ch_block_reason := Some (hd issues), ch_error_message := Some (take 500 (comma_separated issues)),
                ch_prefect_flow_run_id := pv_flow_run E, ch_prefect_task_run_id := pv_task_run E ''quality''\<rparr>)) (\<lambda>_.
           return_cmd (Some (the_result week_start (Some run_id) ''blocked_quality'' issues ''not_attempted''))))))"

text \<open>\<open>PreparedRun\<close>: the right to publish, or the answer that ends the run.\<close>

definition acquire_lease_task ::
  "pipeline_env \<Rightarrow> pipeline_runtime \<Rightarrow> date \<Rightarrow> uuid \<Rightarrow> (coordinator_result + confirmed_lease_right) pipeline_cmd" where
  "acquire_lease_task E R week_start run_id =
     interleaved E ''lease'' (on_connection E ''lease'' error_text (\<lambda>C.
       bind_cmd (acquire_week_lease C week_start run_id (rt_lease_seconds R)) (\<lambda>d.
       if \<not> granted d then
         (let status = (if ld_status d \<in> {Occupied, AlreadyHeld} then ''skipped_in_progress'' else ''superseded'') in
          bind_cmd (record_lease_run_status C run_id status (pv_clock E ''lease'') (lease_status_name (ld_status d))) (\<lambda>_.
          return_cmd (Inl (the_result week_start (Some run_id) status [lease_status_name (ld_status d)] ''not_attempted''))))
       else return_cmd (Inr \<lparr>cl_week_start = week_start, cl_run_id = run_id,
         cl_fencing_token = the (ld_fencing_token d), cl_acquisition_committed = True\<rparr>))))"

text \<open>The two connections are opened for the publication and closed, which ends what they left open.\<close>

definition disconnected :: "publication_world \<Rightarrow> publication_world" where
  "disconnected w = w\<lparr>pw_open := None, pw_unusable := False\<rparr>"

definition publish_week_task ::
  "pipeline_env \<Rightarrow> pipeline_runtime \<Rightarrow> date \<Rightarrow> uuid \<Rightarrow> confirmed_lease_right \<Rightarrow> weekly_result \<Rightarrow> int \<Rightarrow>
   coordinator_result pipeline_cmd" where
  "publish_week_task E R week_start run_id lease transformed records_processed =
     interleaved E ''publish'' (\<lambda>s.
       case pv_connect_fails E ''publish'' of
         Some text \<Rightarrow> (Inl text, s)
       | None \<Rightarrow>
          (case publish_weekly_business_report (pv_publication E)
             \<lparr>pq_week_start = week_start, pq_run_id = run_id, pq_aggregates = wr_aggregates transformed,
              pq_quality = Some (wr_quality transformed), pq_coverage = Some (rt_coverage R),
              pq_dependency_fingerprint = Some (rt_dependency_fingerprint R),
              pq_rules_version = Some (rt_rules_version R), pq_lease = Some lease,
              pq_now = pv_clock E ''publish'', pq_records_processed = Some records_processed\<rparr>
             (disconnected (ps_world s)) of
             (r, w) \<Rightarrow>
               ((case r of Inl e \<Rightarrow> Inl (coordinator_text e) | Inr a \<Rightarrow> Inr a), s\<lparr>ps_world := disconnected w\<rparr>)))"

definition publish_weekly_business_report_flow ::
  "pipeline_env \<Rightarrow> pipeline_runtime \<Rightarrow> date \<Rightarrow> uuid \<Rightarrow> weekly_extraction \<Rightarrow> weekly_result \<Rightarrow>
   coordinator_result pipeline_cmd" where
  "publish_weekly_business_report_flow E R week_start run_id extracted transformed =
     (let processed = int (xm_event_count (wx_metadata extracted)) in
      bind_cmd (quality_gate_task E R week_start run_id transformed processed) (\<lambda>blocked.
      case blocked of
        Some r \<Rightarrow> return_cmd r
      | None \<Rightarrow>
          bind_cmd (acquire_lease_task E R week_start run_id) (\<lambda>right.
          case right of
            Inl r \<Rightarrow> return_cmd r
          | Inr lease \<Rightarrow> publish_week_task E R week_start run_id lease transformed processed)))"

section \<open>The flow\<close>

text \<open>
  \<open>_run_optional_observer\<close>: the state of the observer is handed to the sink if there is one; an
  observer that fails is only a state, a sink that raises raises.
\<close>

definition run_optional_observer :: "pipeline_env \<Rightarrow> pipeline_runtime \<Rightarrow> unit pipeline_cmd" where
  "run_optional_observer E R s =
     (case pv_sink_raises E of
        Some text \<Rightarrow> if rt_state_sink R then (Inl text, s) else (Inr (), s)
      | None \<Rightarrow> (Inr (), s))"

definition observed :: "pipeline_env \<Rightarrow> pipeline_runtime \<Rightarrow> 'a pipeline_cmd \<Rightarrow> 'a pipeline_cmd" where
  "observed E R m = bind_cmd m (\<lambda>a. bind_cmd (run_optional_observer E R) (\<lambda>_. return_cmd a))"

definition publish_stage ::
  "pipeline_env \<Rightarrow> pipeline_runtime \<Rightarrow> date \<Rightarrow> uuid \<Rightarrow> weekly_extraction \<Rightarrow> weekly_result \<Rightarrow>
   coordinator_result pipeline_cmd" where
  "publish_stage E R week_start run_id extracted transformed s =
     (case publish_weekly_business_report_flow E R week_start run_id extracted transformed s of
        (Inl text, t) \<Rightarrow> bind_cmd (run_optional_observer E R) (\<lambda>_. raise_cmd text) t
      | (Inr r, t) \<Rightarrow> bind_cmd (run_optional_observer E R) (\<lambda>_. return_cmd r) t)"

definition weekly_performance_flow :: "pipeline_env \<Rightarrow> pipeline_runtime \<Rightarrow> date \<Rightarrow> coordinator_result pipeline_cmd" where
  "weekly_performance_flow E R week_start =
     bind_cmd (create_run_task E R week_start) (\<lambda>run_id s.
       case extract_weekly_warehouse_events_flow E R week_start s of
         (Inl text, t) \<Rightarrow> observed E R (fail_run_task E R week_start run_id ''extract'' text None) t
       | (Inr stage, t) \<Rightarrow>
           let R' = es_runtime stage in
           (case (es_failed_stage stage, es_extracted stage) of
              (None, Some extracted) \<Rightarrow>
               (case calculate_warehouse_client_indicators_flow week_start extracted (es_audit stage) of
                  Inl text \<Rightarrow>
                    observed E R' (fail_run_task E R' week_start run_id ''transform'' text
                      (Some (int (xm_event_count (wx_metadata extracted))))) t
                | Inr transformed \<Rightarrow> publish_stage E R' week_start run_id extracted transformed t)
            | _ \<Rightarrow>
               observed E R' (fail_run_task E R' week_start run_id (or_text (es_failed_stage stage) ''extract'')
                 (or_text (es_error stage) ''weekly extraction did not return data'') None) t))"

definition run_weekly_pipeline :: "pipeline_env \<Rightarrow> pipeline_runtime \<Rightarrow> date \<Rightarrow> coordinator_result pipeline_cmd" where
  "run_weekly_pipeline = weekly_performance_flow"

end
