(* ===== verification/PipelineOutcomes.thy ===== *)
theory PipelineOutcomes
  imports WeeklyPipeline PublicationOutcomes RunLeases
begin

text \<open>
  What each task of the weekly flow leaves behind: the run store stays well formed, only the publication
  writes the weekly table, and a task that answers has recorded its answer.
\<close>

section \<open>Attempts\<close>

lemma attempts_readonly:
  assumes "\<And>x u. snd (f x u) = u" and "attempts f x ys s = (r, t)"
  shows "t = s \<and> (\<exists>y. f y s = (r, s))"
  using assms(2)
proof (induction ys arbitrary: x)
  case Nil
  then have f: "f x s = (r, t)" by simp
  then have "t = s" using assms(1) [of x s] by simp
  then show ?case using f by blast
next
  case (Cons y ys)
  have s: "snd (f x s) = s" by (rule assms(1))
  show ?case
  proof (cases "fst (f x s)")
    case (Inl e)
    then have "attempts f y ys s = (r, t)" using Cons.prems s by (cases "f x s") simp
    then show ?thesis by (rule Cons.IH)
  next
    case (Inr a)
    then have "f x s = (r, t)" using Cons.prems by (cases "f x s") simp
    then show ?thesis using s by auto
  qed
qed

lemma attempts_frame:
  assumes "\<And>x u. g (snd (f x u)) = g u"
  shows "g (snd (attempts f x ys s)) = g s"
  using assms by (induction ys arbitrary: x s) (auto split: prod.splits sum.splits, (metis snd_conv)+)

section \<open>Well-formed states\<close>

definition pipeline_ok :: "pipeline_state \<Rightarrow> bool" where
  "pipeline_ok s \<longleftrightarrow> publication_ok (ps_world s) \<and> pw_open (ps_world s) = None"

lemma pipeline_ok_store:
  "pipeline_ok s \<longleftrightarrow> store_ok (pw_store (ps_world s)) \<and> table_ok (pw_weekly (ps_world s)) \<and> pw_open (ps_world s) = None"
  by (auto simp: pipeline_ok_def publication_ok_def business_view_def weekly_of_def)

text \<open>What other sessions commit between the stages keeps the tables well formed.\<close>

definition others_sound :: "pipeline_env \<Rightarrow> bool" where
  "others_sound E \<longleftrightarrow> (\<forall>stage u. pipeline_ok u \<longrightarrow> pipeline_ok (pv_others E stage u))"

definition others_publish_nothing :: "pipeline_env \<Rightarrow> bool" where
  "others_publish_nothing E \<longleftrightarrow> (\<forall>stage u. pw_weekly (ps_world (pv_others E stage u)) = pw_weekly (ps_world u))"

section \<open>Connections\<close>

lemma connection_frame:
  "on_connection E task message m s = (r, t) \<Longrightarrow> pw_weekly (ps_world t) = pw_weekly (ps_world s) \<and>
     pw_open (ps_world t) = pw_open (ps_world s) \<and> ps_source t = ps_source s \<and> ps_events t = ps_events s"
  by (auto simp: on_connection_def Let_def split: option.splits prod.splits sum.splits commit_outcome.splits)

lemma connection_Inr:
  "on_connection E task message m s = (Inr a, t) \<Longrightarrow>
     m (pv_conn E task) (pw_store (ps_world s)) = (Inr a, pw_store (ps_world t))"
  by (auto simp: on_connection_def Let_def split: option.splits prod.splits sum.splits commit_outcome.splits)

lemma connection_ok:
  assumes run: "on_connection E task message m s = (r, t)" and ok: "pipeline_ok s"
    and m: "\<And>u. store_ok u \<Longrightarrow> refines (change (cn_clock (pv_conn E task))) (m (pv_conn E task)) u"
  shows "pipeline_ok t"
proof -
  have store: "store_ok (pw_store (ps_world s))" using ok by (simp add: pipeline_ok_store)
  obtain x u where x: "m (pv_conn E task) (pw_store (ps_world s)) = (x, u)" by fastforce
  have "store_ok u" using changes_store_ok [OF refinesD [OF m [OF store] x] store] .
  moreover have "pw_store (ps_world t) \<in> {u, (pw_store (ps_world s))\<lparr>rd_ticks := rd_ticks u\<rparr>, pw_store (ps_world s)}"
    using run x by (auto simp: on_connection_def Let_def split: option.splits sum.splits commit_outcome.splits)
  ultimately have "store_ok (pw_store (ps_world t))" using store by (auto simp: store_ok_def)
  then show ?thesis using ok connection_frame [OF run] by (simp add: pipeline_ok_store)
qed

lemma sound_connection:
  assumes sound: "others_sound E" and run: "interleaved E stage (on_connection E task message m) s = (r, t)" and ok: "pipeline_ok s"
    and m: "\<And>u. store_ok u \<Longrightarrow> refines (change (cn_clock (pv_conn E task))) (m (pv_conn E task)) u"
  shows "pipeline_ok t" and "pipeline_ok (pv_others E stage s)"
proof -
  show others: "pipeline_ok (pv_others E stage s)" using sound ok by (simp add: others_sound_def)
  show "pipeline_ok t" using connection_ok [OF run [unfolded interleaved_def] others m] .
qed

lemma unpublished_connection:
  assumes "others_publish_nothing E" and "interleaved E stage (on_connection E task message m) s = (r, t)"
  shows "pw_weekly (ps_world t) = pw_weekly (ps_world s)"
  using assms connection_frame [of E task message m "pv_others E stage s" r t]
  by (simp add: others_publish_nothing_def interleaved_def)

section \<open>The commands on the run store\<close>

lemma get_run_within: "refines (change clk) (get_run C i) s"
  unfolding get_run_def by (intro within_guard within_execute) auto

lemma fail_within:
  "store_ok s \<Longrightarrow> refines (change clk) (bind_cmd (update_run C i x y ch) (\<lambda>_. return_cmd a)) s"
  by (intro within_bind update_run_within) (auto intro: within_intros)

lemma lease_within:
  "store_ok s \<Longrightarrow> refines (change clk) (bind_cmd (record_lease_run_status C i x y ch) (\<lambda>_. return_cmd a)) s"
  by (intro within_bind lease_run_status_within) (auto intro: within_intros)

section \<open>The tasks that write the run\<close>

definition answered :: "pipeline_env \<Rightarrow> uuid \<Rightarrow> coordinator_result \<Rightarrow> pipeline_state \<Rightarrow> bool" where
  "answered E i r t \<longleftrightarrow> (\<exists>row. find_run (pw_store (ps_world t)) i = Some row \<and>
     (if cr_status r = ''commit_uncertain''
      then rr_status row = ''running'' \<and> rr_commit_result row = cr_commit_result r \<and>
        cr_commit_result r \<noteq> ''technically_observed'' \<and> pb_commit_fails (pv_publication E) \<noteq> None
      else cr_status r \<in> set TERMINAL_STATUSES \<and> rr_status row = cr_status r))"

definition unpublished_end :: "pipeline_env \<Rightarrow> pipeline_state \<Rightarrow> string + coordinator_result \<Rightarrow> pipeline_state \<Rightarrow> bool" where
  "unpublished_end E s res t \<longleftrightarrow> (others_publish_nothing E \<longrightarrow> pw_weekly (ps_world t) = pw_weekly (ps_world s)) \<and>
     (\<forall>r. res = Inr r \<longrightarrow> cr_status r \<notin> {''succeeded'', ''succeeded_noop''})"

lemma create_run_result:
  assumes run: "create_run_task E R week s = (r, t)"
  shows "others_sound E \<Longrightarrow> pipeline_ok s \<Longrightarrow> pipeline_ok t"
    and "others_publish_nothing E \<Longrightarrow> pw_weekly (ps_world t) = pw_weekly (ps_world s)"
proof -
  note run' = run [unfolded create_run_task_def Let_def]
  show "others_publish_nothing E \<Longrightarrow> pw_weekly (ps_world t) = pw_weekly (ps_world s)"
    using unpublished_connection [OF _ run'] .
  show "others_sound E \<Longrightarrow> pipeline_ok s \<Longrightarrow> pipeline_ok t"
    by (erule sound_connection(1) [OF _ run'], assumption)
      (auto simp: get_run_def bind_cmd_eq_Inr execute_Inr split: option.splits
        intro!: within_bind within_map_error within_guard within_execute correlate_within create_run_within
        intro: within_intros)
qed

lemma fail_run_result:
  assumes run: "fail_run_task E R week i stage text n s = (res, t)" and sound: "others_sound E" and ok: "pipeline_ok s"
  shows "pipeline_ok t \<and> unpublished_end E s res t \<and> (\<forall>r. res = Inr r \<longrightarrow> answered E i r t)"
proof -
  note run' = run [unfolded fail_run_task_def]
  have others: "pipeline_ok (pv_others E ''fail'' s)" and t: "pipeline_ok t"
    using sound_connection [OF sound run' ok fail_within] by auto
  have store: "store_ok (pw_store (ps_world (pv_others E ''fail'' s)))" using others by (simp add: pipeline_ok_store)
  show ?thesis
  proof (cases res)
    case (Inl e)
    then show ?thesis using t unpublished_connection [OF _ run'] by (simp add: unpublished_end_def)
  next
    case (Inr r)
    note stored = connection_Inr [OF run' [unfolded interleaved_def Inr]]
    obtain x where x: "update_run (pv_conn E ''fail'') i ''pending'' ''failed_retryable''
         (no_changes\<lparr>ch_finished_at := Some (pv_clock E ''fail''), ch_stage_reached := Some stage,
            ch_records_processed := n, ch_error_code := Some (stage @ ''_failed''),
            ch_error_message := Some (take 500 text), ch_prefect_flow_run_id := pv_flow_run E,
            ch_prefect_task_run_id := pv_task_run E ''fail''\<rparr>) (pw_store (ps_world (pv_others E ''fail'' s))) =
       (Inr x, pw_store (ps_world t))" "cr_status r = ''failed_retryable''"
      using stored by (auto simp: bind_cmd_eq_Inr the_result_def)
    show ?thesis
      using t x(2) Inr unpublished_connection [OF _ run'] update_run_stored [OF store x(1)]
      by (simp add: unpublished_end_def answered_def terminal_statuses)
  qed
qed

lemma quality_gate_result:
  assumes run: "quality_gate_task E R week i tr n s = (res, t)" and sound: "others_sound E" and ok: "pipeline_ok s"
  shows "pipeline_ok t \<and> (case res of
      Inl _ \<Rightarrow> unpublished_end E s (Inl []) t
    | Inr None \<Rightarrow> t = s \<and> pre_write_issues week (wr_aggregates tr) (Some (wr_quality tr)) (Some (rt_coverage R))
        (Some (rt_dependency_fingerprint R)) (Some (rt_rules_version R)) (pv_clock E ''quality'') = []
    | Inr (Some r) \<Rightarrow> unpublished_end E s (Inr r) t \<and> answered E i r t)"
proof -
  let ?issues = "pre_write_issues week (wr_aggregates tr) (Some (wr_quality tr)) (Some (rt_coverage R))
        (Some (rt_dependency_fingerprint R)) (Some (rt_rules_version R)) (pv_clock E ''quality'')"
  show ?thesis
  proof (cases "?issues = []")
    case True
    then show ?thesis using run ok by (auto simp: quality_gate_task_def)
  next
    case False
    note run' = run [unfolded quality_gate_task_def Let_def if_not_P [OF False]]
    have others: "pipeline_ok (pv_others E ''quality'' s)" and t: "pipeline_ok t"
      using sound_connection [OF sound run' ok fail_within] by auto
    have store: "store_ok (pw_store (ps_world (pv_others E ''quality'' s)))" using others by (simp add: pipeline_ok_store)
    show ?thesis
    proof (cases res)
      case (Inl e)
      then show ?thesis using t unpublished_connection [OF _ run'] by (simp add: unpublished_end_def)
    next
      case (Inr b)
      note stored = connection_Inr [OF run' [unfolded interleaved_def Inr]]
      then obtain ch x r where x: "update_run (pv_conn E ''quality'') i ''pending'' ''blocked_quality'' ch
           (pw_store (ps_world (pv_others E ''quality'' s))) = (Inr x, pw_store (ps_world t))"
          "b = Some r" "cr_status r = ''blocked_quality''"
        by (auto simp: bind_cmd_eq_Inr the_result_def)
      show ?thesis
        using t x(2,3) Inr unpublished_connection [OF _ run'] update_run_stored [OF store x(1)]
        by (simp add: unpublished_end_def answered_def terminal_statuses)
    qed
  qed
qed

lemma lease_status_stored:
  assumes run: "record_lease_run_status C i status fin reason s = (Inr row, t)" and ok: "store_ok s"
  shows "find_run t i = Some row \<and> rr_status row = status"
  using run update_run_stored [OF ok]
  by (auto simp: record_lease_run_status_def bind_cmd_eq_Inr require_run_Inr split: if_splits)

lemma acquire_lease_result:
  assumes run: "acquire_lease_task E R week i s = (res, t)" and sound: "others_sound E" and ok: "pipeline_ok s"
  shows "pipeline_ok t \<and> (case res of
      Inl _ \<Rightarrow> unpublished_end E s (Inl []) t
    | Inr (Inl r) \<Rightarrow> unpublished_end E s (Inr r) t \<and> answered E i r t
    | Inr (Inr l) \<Rightarrow> unpublished_end E s (Inl []) t)"
proof -
  note run' = run [unfolded acquire_lease_task_def]
  let ?C = "pv_conn E ''lease''" and ?u = "pw_store (ps_world (pv_others E ''lease'' s))"
  let ?granting = "\<lambda>d. \<lparr>cl_week_start = week, cl_run_id = i, cl_fencing_token = the (ld_fencing_token d), cl_acquisition_committed = True\<rparr>"
  have steps: "refines (change (cn_clock C)) (bind_cmd (acquire_week_lease C week i (rt_lease_seconds R)) (\<lambda>d.
       if \<not> granted d then
         (let status = (if ld_status d \<in> {Occupied, AlreadyHeld} then ''skipped_in_progress'' else ''superseded'') in
          bind_cmd (record_lease_run_status C i status (pv_clock E ''lease'') (lease_status_name (ld_status d))) (\<lambda>_.
          return_cmd (Inl (the_result week (Some i) status [lease_status_name (ld_status d)] ''not_attempted''))))
       else return_cmd (Inr (?granting d)))) u" if store: "store_ok u" for C u
    using store
    by (auto intro!: within_bind [OF acquire_within [OF store refl]] lease_within changes_store_ok intro: within_intros
        simp: Let_def)
  have others: "pipeline_ok (pv_others E ''lease'' s)" and t: "pipeline_ok t"
    using sound_connection [OF sound run' ok steps] by auto
  have store: "store_ok ?u" using others by (simp add: pipeline_ok_store)
  have weekly: "others_publish_nothing E \<Longrightarrow> pw_weekly (ps_world t) = pw_weekly (ps_world s)"
    using unpublished_connection [OF _ run'] .
  show ?thesis
  proof (cases res)
    case (Inr b)
    note stored = connection_Inr [OF run' [unfolded interleaved_def Inr]]
    then obtain d v where d: "acquire_week_lease ?C week i (rt_lease_seconds R) ?u = (Inr d, v)"
      by (auto simp: bind_cmd_eq_Inr)
    have v: "store_ok v" using changes_store_ok [OF refinesD [OF acquire_within [OF store refl] d] store] .
    show ?thesis
    proof (cases b)
      case (Inl r)
      then obtain status reason row where r: "record_lease_run_status ?C i status (pv_clock E ''lease'') reason v =
          (Inr row, pw_store (ps_world t))" "cr_status r = status" "status \<in> {''skipped_in_progress'', ''superseded''}"
        using stored d by (auto simp: bind_cmd_eq_Inr Let_def the_result_def split: if_splits)
      show ?thesis
        using t weekly Inr Inl r lease_status_stored [OF r(1) v] by (auto simp: unpublished_end_def answered_def terminal_statuses)
    qed (use t weekly Inr in \<open>auto simp: unpublished_end_def\<close>)
  qed (use t weekly in \<open>auto simp: unpublished_end_def\<close>)
qed

section \<open>The publication\<close>

lemma disconnected_ok: "publication_ok w \<Longrightarrow> publication_ok (disconnected w) \<and> pw_open (disconnected w) = None"
  by (auto simp: publication_ok_def disconnected_def business_view_def weekly_of_def)

lemma disconnected_simps [simp]:
  "pw_weekly (disconnected w) = pw_weekly w" "pw_store (disconnected w) = pw_store w"
  by (simp_all add: disconnected_def)

definition published_end :: "pipeline_env \<Rightarrow> date \<Rightarrow> weekly_result \<Rightarrow> pipeline_state \<Rightarrow> pipeline_state \<Rightarrow> bool" where
  "published_end E week tr s t \<longleftrightarrow> (others_publish_nothing E \<longrightarrow>
     batch_published week (wr_aggregates tr) (pw_weekly (ps_world s)) (pw_weekly (ps_world t)))"

lemma publish_week_result:
  assumes run: "publish_week_task E R week i lease tr n s = (res, t)" and sound: "others_sound E" and ok: "pipeline_ok s"
  shows "pipeline_ok t \<and> (unpublished_end E s res t \<or> published_end E week tr s t) \<and> (\<forall>r. res = Inr r \<longrightarrow> answered E i r t)"
proof -
  let ?u = "pv_others E ''publish'' s"
  have u: "pipeline_ok ?u" using sound ok by (simp add: others_sound_def)
  have weekly: "others_publish_nothing E \<Longrightarrow> pw_weekly (ps_world ?u) = pw_weekly (ps_world s)"
    by (simp add: others_publish_nothing_def)
  show ?thesis
  proof (cases "pv_connect_fails E ''publish''")
    case (Some msg)
    then show ?thesis
      using run u weekly by (auto simp: publish_week_task_def interleaved_def unpublished_end_def)
  next
    case None
    let ?Q = "\<lparr>pq_week_start = week, pq_run_id = i, pq_aggregates = wr_aggregates tr,
              pq_quality = Some (wr_quality tr), pq_coverage = Some (rt_coverage R),
              pq_dependency_fingerprint = Some (rt_dependency_fingerprint R),
              pq_rules_version = Some (rt_rules_version R), pq_lease = Some lease,
              pq_now = pv_clock E ''publish'', pq_records_processed = Some n\<rparr>"
    obtain r w where p: "publish_weekly_business_report (pv_publication E) ?Q (disconnected (ps_world ?u)) = (r, w)" by fastforce
    have t: "t = ?u\<lparr>ps_world := disconnected w\<rparr>" and res: "res = (case r of Inl e \<Rightarrow> Inl (coordinator_text e) | Inr a \<Rightarrow> Inr a)"
      using run p None by (auto simp: publish_week_task_def interleaved_def)
    have "publication_ok (disconnected (ps_world ?u)) \<and> pw_open (disconnected (ps_world ?u)) = None"
      using u disconnected_ok by (auto simp: pipeline_ok_def)
    then have result: "publication_ok w" "agrees (pv_publication E) i r w" "nothing_published (disconnected (ps_world ?u)) r w \<or>
        week_published (pv_publication E) ?Q (disconnected (ps_world ?u)) w"
      using publish_result [OF p] by auto
    have "pipeline_ok t" using disconnected_ok [OF result(1)] t by (simp add: pipeline_ok_def)
    moreover have "answered E i a t" if "res = Inr a" for a
      using that result(2) t res by (auto simp: agrees_def answered_def split: sum.splits if_splits)
    moreover have "unpublished_end E s res t \<or> published_end E week tr s t"
      using result(3) weekly t res
      by (auto simp: nothing_published_def untouched_def week_published_def unpublished_end_def published_end_def split: sum.splits)
    ultimately show ?thesis by blast
  qed
qed

lemma publication_flow_result:
  assumes run: "publish_weekly_business_report_flow E R week i x tr s = (res, t)"
    and sound: "others_sound E" and ok: "pipeline_ok s"
  shows "pipeline_ok t \<and> (\<forall>r. res = Inr r \<longrightarrow> answered E i r t) \<and> (unpublished_end E s res t \<or> published_end E week tr s t \<and>
    pre_write_issues week (wr_aggregates tr) (Some (wr_quality tr)) (Some (rt_coverage R))
      (Some (rt_dependency_fingerprint R)) (Some (rt_rules_version R)) (pv_clock E ''quality'') = [])"
proof -
  let ?n = "int (xm_event_count (wx_metadata x))"
  have weaken: "unpublished_end E s (Inl e) t" if "unpublished_end E s (Inl []) t" for e
    using that by (simp add: unpublished_end_def)
  obtain g u where gate: "quality_gate_task E R week i tr ?n s = (g, u)" by fastforce
  note gate' = quality_gate_result [OF gate sound ok]
  consider e where "g = Inl e" | r where "g = Inr (Some r)" | "g = Inr None"
    by (cases g; cases "case g of Inr b \<Rightarrow> b | _ \<Rightarrow> None") (auto split: sum.splits)
  then show ?thesis
  proof cases
    case 3
    then have u: "u = s" using gate' by simp
    obtain l v where lease: "acquire_lease_task E R week i s = (l, v)" by fastforce
    note lease' = acquire_lease_result [OF lease sound ok]
    consider e where "l = Inl e" | r where "l = Inr (Inl r)" | c where "l = Inr (Inr c)"
      by (cases l; cases "case l of Inr b \<Rightarrow> b | _ \<Rightarrow> undefined") (auto split: sum.splits)
    then show ?thesis
    proof cases
      case inner: 3
      have "publish_week_task E R week i c tr ?n v = (res, t)"
        using run gate 3 u lease inner by (simp add: publish_weekly_business_report_flow_def bind_cmd_def Let_def)
      from publish_week_result [OF this sound] lease' inner
      have "pipeline_ok t \<and> (unpublished_end E v res t \<or> published_end E week tr v t) \<and> (\<forall>r. res = Inr r \<longrightarrow> answered E i r t)"
        by simp
      then show ?thesis using lease' inner gate' 3 by (auto simp: unpublished_end_def published_end_def)
    qed (use run gate 3 u lease lease' weaken in \<open>auto simp: publish_weekly_business_report_flow_def bind_cmd_def Let_def\<close>)
  qed (use run gate gate' weaken in \<open>auto simp: publish_weekly_business_report_flow_def bind_cmd_def Let_def\<close>)
qed

section \<open>Calculation\<close>

lemma calculated:
  assumes "calculate_warehouse_client_indicators_flow week x audit = Inr tr"
  shows "\<exists>r. transform_weekly_performance (wx_events x) (wx_orders x) (Some (wx_movement_weeks x)) = Inr r \<and>
    qr_coverage_pending (wr_quality r) = COVERAGE_PENDING \<and>
    tr = (case audit of None \<Rightarrow> r | Some a \<Rightarrow> apply_operational_coverage r a x)"
  using assms
  by (auto simp: calculate_warehouse_client_indicators_flow_def prepare_weekly_events_task_def transform_week_task_def
      transform_weekly_performance_def compose_weekly_performance_def bind_result_def Let_def split: if_splits sum.splits)

lemma lifted_reserve:
  assumes "qr_coverage_pending (wr_quality (apply_operational_coverage r a x)) = []"
    and "qr_coverage_pending (wr_quality r) = COVERAGE_PENDING"
  shows "audit_complete a \<and> list_all2 same_event (canonical_events (wx_events x)) (oa_audited_events a)"
  using assms by (auto simp: apply_operational_coverage_def COVERAGE_PENDING_def split: if_splits)

lemma applied_aggregates [simp]: "wr_aggregates (apply_operational_coverage r a x) = wr_aggregates r"
  by (simp add: apply_operational_coverage_def)

lemma gate_passed:
  "pre_write_issues week as (Some q) c f v now = [] \<Longrightarrow> qr_coverage_pending q = []"
  by (simp add: pre_write_issues_def blocking_quality_issues_def split: if_splits)

section \<open>Extraction\<close>

text \<open>The state the audit of a run reads: after the relay has ended.\<close>

definition audited_state :: "pipeline_env \<Rightarrow> engine \<Rightarrow> pipeline_runtime \<Rightarrow> pipeline_state \<Rightarrow> pipeline_state" where
  "audited_state E source R s = pv_others E ''coverage_audit''
     (snd (attempts (relay_outbox_task E source (rt_engine R)) (fst (pv_relay E)) (snd (pv_relay E))
       (pv_others E ''relay'' s)))"

lemma relay_task_world [simp]: "ps_world (snd (relay_outbox_task E source reporting A s)) = ps_world s"
  by (simp add: relay_outbox_task_def split: prod.splits)

lemma relay_attempts_world [simp]:
  "ps_world (snd (attempts (relay_outbox_task E source reporting) A As s)) = ps_world s"
  by (rule attempts_frame) simp

lemma audit_task_state: "snd (audit_operational_coverage_task E source reporting week f s) = s"
  by (simp add: audit_operational_coverage_task_def split: sum.splits)

lemma audit_attempts_state: "snd (attempts (audit_operational_coverage_task E source reporting week) f fs u) = u"
proof -
  obtain a b where ab: "attempts (audit_operational_coverage_task E source reporting week) f fs u = (a, b)" by fastforce
  show ?thesis using attempts_readonly [OF audit_task_state ab] ab by simp
qed

lemma extract_task_state: "snd (extract_week_task E engine week source f s) = s"
  by (simp add: extract_week_task_def split: sum.splits)

lemma world_only: "ps_world t = ps_world s \<Longrightarrow> pipeline_ok t = pipeline_ok s"
  by (simp add: pipeline_ok_def)

text \<open>An extraction that some attempt read from a state.\<close>

definition extraction_read :: "pipeline_env \<Rightarrow> engine \<Rightarrow> engine option \<Rightarrow> date \<Rightarrow> pipeline_state \<Rightarrow> weekly_extraction \<Rightarrow> bool" where
  "extraction_read E engine source week u x \<longleftrightarrow>
     (\<exists>f g. extract_weekly_inputs (reader engine f) (map_option (\<lambda>e. reader e g) source)
        week (pv_clock E ''extract'') (stored_rows (pv_drawn E) (ps_events u)) (ps_source u) = Inr x)"

lemma extract_task_read:
  "extract_week_task E engine week source f u = (Inr x, u') \<Longrightarrow> extraction_read E engine source week u x"
  unfolding extraction_read_def extract_week_task_def by (rule exI [of _ "fst f"], rule exI [of _ "snd f"]) (auto split: sum.splits)

lemma extract_stage_result:
  assumes run: "extract_stage E R week audit s = (res, t)"
  shows "t = pv_others E ''extract'' s \<and> (\<forall>stage x. res = Inr stage \<longrightarrow> es_runtime stage = R \<and>
    (es_failed_stage stage = None \<and> es_extracted stage = Some x \<longrightarrow> es_audit stage = audit \<and>
      extraction_read E (rt_engine R) (rt_source_engine R) week t x))"
proof -
  obtain a u where a: "attempts (extract_week_task E (rt_engine R) week (rt_source_engine R)) (fst (pv_extract E))
      (snd (pv_extract E)) (pv_others E ''extract'' s) = (a, u)" by fastforce
  note ro = attempts_readonly [OF extract_task_state a]
  then obtain f where "extract_week_task E (rt_engine R) week (rt_source_engine R) f (pv_others E ''extract'' s) =
      (a, pv_others E ''extract'' s)" by blast
  then have f: "u = pv_others E ''extract'' s" "extract_week_task E (rt_engine R) week (rt_source_engine R) f u = (a, u)"
    using ro by simp_all
  show ?thesis
  proof (cases a)
    case (Inl e)
    then show ?thesis using run a f by (auto simp: extract_stage_def interleaved_def failed_stage_def)
  next
    case (Inr y)
    have "extraction_read E (rt_engine R) (rt_source_engine R) week u y"
      using f(2) Inr extract_task_read by blast
    then show ?thesis using run a f(1) Inr by (auto simp: extract_stage_def interleaved_def)
  qed
qed

lemma extraction_world:
  assumes run: "extract_weekly_warehouse_events_flow E R week s = (res, t)"
    and start: "P (ps_world s)" and step: "\<And>stage u. P (ps_world u) \<Longrightarrow> P (ps_world (pv_others E stage u))"
  shows "P (ps_world t)"
proof -
  have stage: "P (ps_world u')" if st: "extract_stage E R' week a u = (r, u')" and u: "P (ps_world u)" for R' a u u' r
    using extract_stage_result [OF st] step [OF u] by simp
  note run' = run [unfolded extract_weekly_warehouse_events_flow_def]
  show ?thesis
  proof (cases "pv_extraction_flow_fails E")
    case None
    note run' = run' [unfolded None option.case]
    show ?thesis
    proof (cases "rt_source_engine R")
      case (Some source)
      obtain q b where m: "attempts (relay_outbox_task E source (rt_engine R)) (fst (pv_relay E)) (snd (pv_relay E))
          (pv_others E ''relay'' s) = (q, b)" by fastforce
      have "P (ps_world b)"
        using relay_attempts_world [of E source "rt_engine R" "fst (pv_relay E)" "snd (pv_relay E)" "pv_others E ''relay'' s"]
          m step [OF start] by simp
      then have u: "P (ps_world (pv_others E ''coverage_audit'' b))" by (rule step)
      obtain k v where k: "attempts (audit_operational_coverage_task E source (rt_engine R) week) (fst (pv_audit E))
          (snd (pv_audit E)) (pv_others E ''coverage_audit'' b) = (k, v)" by fastforce
      have v: "P (ps_world v)" using attempts_readonly [OF audit_task_state k] u by simp
      show ?thesis
        using run' Some m k start v \<open>P (ps_world b)\<close> stage by (cases q; cases k) (auto split: if_splits)
    qed (use run' start stage in auto)
  qed (use run' start in simp)
qed

lemma extraction_frame:
  assumes run: "extract_weekly_warehouse_events_flow E R week s = (res, t)"
  shows "others_sound E \<Longrightarrow> pipeline_ok s \<Longrightarrow> pipeline_ok t"
    and "others_publish_nothing E \<Longrightarrow> pw_weekly (ps_world t) = pw_weekly (ps_world s)"
  using extraction_world [OF run, of "\<lambda>w. publication_ok w \<and> pw_open w = None"]
    extraction_world [OF run, of "\<lambda>w. pw_weekly w = pw_weekly (ps_world s)"]
  by (simp_all add: others_sound_def pipeline_ok_def others_publish_nothing_def)

text \<open>What a run with a separate source reads: a clean audit after the relay, and the extraction after it.\<close>

definition audited_run ::
  "pipeline_env \<Rightarrow> engine \<Rightarrow> pipeline_runtime \<Rightarrow> date \<Rightarrow> pipeline_state \<Rightarrow> coverage_audit \<Rightarrow> weekly_extraction \<Rightarrow> bool" where
  "audited_run E source R week s a x \<longleftrightarrow>
     (let u = audited_state E source R s; v = pv_others E ''extract'' u in
      (\<exists>bounds. iso_week_bounds week = Inr bounds \<and>
         a = audit_operational_snapshot (load_snapshot (ps_source u) (stored_rows (pv_drawn E) (ps_events u)) bounds)) \<and>
      extraction_read E (rt_engine R) (Some source) week v x)"

lemma audit_Inr:
  "audit_operational_coverage C D week d table = Inr a \<Longrightarrow>
     \<exists>bounds. iso_week_bounds week = Inr bounds \<and> a = audit_operational_snapshot (load_snapshot d table bounds)"
  by (auto simp: audit_operational_coverage_def bind_result_Inr split: sum.splits)

lemma extraction_audited:
  assumes run: "extract_weekly_warehouse_events_flow E R week s = (Inr stage, t)"
    and source: "rt_source_engine R = Some source" "en_object source \<noteq> en_object (rt_engine R)"
    and got: "es_failed_stage stage = None" "es_extracted stage = Some x"
  shows "\<exists>a. es_audit stage = Some a \<and> es_runtime stage = R\<lparr>rt_coverage := oa_evidence a\<rparr> \<and> audited_run E source R week s a x"
proof -
  define m where "m = attempts (relay_outbox_task E source (rt_engine R)) (fst (pv_relay E)) (snd (pv_relay E)) (pv_others E ''relay'' s)"
  have state: "audited_state E source R s = pv_others E ''coverage_audit'' (snd m)" by (simp add: audited_state_def m_def)
  obtain q b where m: "m = (q, b)" by (cases m)
  let ?u = "pv_others E ''coverage_audit'' b"
  obtain k v where k: "attempts (audit_operational_coverage_task E source (rt_engine R) week) (fst (pv_audit E)) (snd (pv_audit E)) ?u = (k, v)"
    by fastforce
  note audit = attempts_readonly [OF audit_task_state k]
  note run' = run [unfolded extract_weekly_warehouse_events_flow_def]
  have ends: "pv_extraction_flow_fails E = None" "\<exists>y. q = Inr y"
    using run' source got m by (auto simp: m_def failed_stage_def split: option.splits sum.splits)
  then obtain a where a: "k = Inr a"
    using run' source got m k audit by (cases k) (auto simp: m_def failed_stage_def split: sum.splits)
  have stage: "extract_stage E (R\<lparr>rt_coverage := oa_evidence a\<rparr>) week (Some a) ?u = (Inr stage, t)"
    using run' source ends m k a audit by (auto simp: m_def)
  note result = extract_stage_result [OF stage]
  obtain f where "audit_operational_coverage_task E source (rt_engine R) week f ?u = (Inr a, ?u)" using audit a by auto
  then have "\<exists>bounds. iso_week_bounds week = Inr bounds \<and>
      a = audit_operational_snapshot (load_snapshot (ps_source ?u) (stored_rows (pv_drawn E) (ps_events ?u)) bounds)"
    using audit_Inr by (fastforce simp: audit_operational_coverage_task_def split: sum.splits)
  then show ?thesis using result got source m by (auto simp: audited_run_def state Let_def)
qed

section \<open>The flow\<close>

lemma observer_state: "run_optional_observer E R s = (r, t) \<Longrightarrow> t = s"
  by (auto simp: run_optional_observer_def split: option.splits if_splits)

lemma observed_run:
  assumes "observed E R m s = (res, t)"
  shows "\<exists>r. m s = (r, t) \<and> (res = r \<or> (\<exists>e. res = Inl e))"
  using assms observer_state by (fastforce simp: observed_def bind_cmd_def split: prod.splits sum.splits)

lemma publish_stage_run:
  assumes "publish_stage E R week i x tr s = (res, t)"
  shows "\<exists>r. publish_weekly_business_report_flow E R week i x tr s = (r, t) \<and> (res = r \<or> (\<exists>e. res = Inl e))"
  using assms observer_state by (fastforce simp: publish_stage_def bind_cmd_def split: prod.splits sum.splits)

text \<open>The publication at the end of a run, with what the run computed it from.\<close>

definition computed_publication ::
  "pipeline_env \<Rightarrow> pipeline_runtime \<Rightarrow> date \<Rightarrow> pipeline_state \<Rightarrow> pipeline_state \<Rightarrow> bool" where
  "computed_publication E R week s t \<longleftrightarrow> (\<exists>i u stage v x tr. create_run_task E R week s = (Inr i, u) \<and>
     extract_weekly_warehouse_events_flow E R week u = (Inr stage, v) \<and>
     es_failed_stage stage = None \<and> es_extracted stage = Some x \<and>
     calculate_warehouse_client_indicators_flow week x (es_audit stage) = Inr tr \<and>
     qr_coverage_pending (wr_quality tr) = [] \<and> published_end E week tr s t)"

lemma unpublished_later:
  assumes "others_publish_nothing E \<Longrightarrow> pw_weekly (ps_world u) = pw_weekly (ps_world s)" and "unpublished_end E u r t"
    and "res = r \<or> (\<exists>e. res = Inl e)"
  shows "unpublished_end E s res t"
  using assms by (auto simp: unpublished_end_def)

lemma flow_result:
  assumes run: "weekly_performance_flow E R week s = (res, t)" and sound: "others_sound E" and ok: "pipeline_ok s"
  shows "(\<forall>r. res = Inr r \<longrightarrow> (\<exists>i u. create_run_task E R week s = (Inr i, u) \<and> answered E i r t)) \<and>
    (unpublished_end E s res t \<or> computed_publication E R week s t)"
proof -
  obtain c u where c: "create_run_task E R week s = (c, u)" by fastforce
  note created = create_run_result [OF c]
  show ?thesis
  proof (cases c)
    case (Inl e)
    then have "res = Inl e" "t = u" using run c by (simp_all add: weekly_performance_flow_def bind_cmd_def)
    then show ?thesis using created by (auto simp: unpublished_end_def)
  next
    case (Inr i)
    have u: "pipeline_ok u" using created(1) sound ok .
    obtain x v where x: "extract_weekly_warehouse_events_flow E R week u = (x, v)" by fastforce
    have v: "pipeline_ok v" "others_publish_nothing E \<Longrightarrow> pw_weekly (ps_world v) = pw_weekly (ps_world s)"
      using extraction_frame [OF x] sound u created(2) by simp_all
    have failed: ?thesis if "observed E R' (fail_run_task E R' week i stage msg n) v = (res, t)" for R' stage msg n
    proof -
      obtain r where r: "fail_run_task E R' week i stage msg n v = (r, t)" "res = r \<or> (\<exists>e. res = Inl e)"
        using observed_run [OF \<open>observed E R' (fail_run_task E R' week i stage msg n) v = (res, t)\<close>] by blast
      note result = fail_run_result [OF r(1) sound v(1)]
      then have "unpublished_end E s res t" using unpublished_later [OF v(2)] r(2) by blast
      then show ?thesis using result c Inr r(2) by auto
    qed
    note run' = run [unfolded weekly_performance_flow_def bind_cmd_def c prod.case Inr sum.case x]
    show ?thesis
    proof (cases x)
      case (Inr stage)
      show ?thesis
      proof (cases "es_failed_stage stage = None \<and> es_extracted stage \<noteq> None")
        case True
        then obtain y where y: "es_failed_stage stage = None" "es_extracted stage = Some y" by blast
        show ?thesis
        proof (cases "calculate_warehouse_client_indicators_flow week y (es_audit stage)")
          case (Inl e)
          then show ?thesis using run' Inr y by (intro failed) (simp add: Let_def)
        next
          case tr: (Inr tr)
          then have "publish_stage E (es_runtime stage) week i y tr v = (res, t)" using run' Inr y by (simp add: Let_def)
          then obtain r where r: "publish_weekly_business_report_flow E (es_runtime stage) week i y tr v = (r, t)"
            "res = r \<or> (\<exists>e. res = Inl e)" using publish_stage_run by blast
          note result = publication_flow_result [OF r(1) sound v(1)]
          have "computed_publication E R week s t" if "\<not> unpublished_end E v r t"
            using result that c x \<open>c = Inr i\<close> Inr y tr v(2) gate_passed
            by (fastforce simp: computed_publication_def published_end_def)
          then have "unpublished_end E s res t \<or> computed_publication E R week s t"
            using unpublished_later [OF v(2)] r(2) by blast
          then show ?thesis using result c \<open>c = Inr i\<close> r(2) by auto
        qed
      next
        case False
        then have "\<exists>e msg. observed E (es_runtime stage) (fail_run_task E (es_runtime stage) week i e msg None) v = (res, t)"
          using run' Inr by (cases "es_failed_stage stage") (auto simp: Let_def split: option.splits)
        then show ?thesis using failed by blast
      qed
    next
      case (Inl e)
      then have "observed E R (fail_run_task E R week i ''extract'' e None) v = (res, t)" using run' by simp
      then show ?thesis by (rule failed)
    qed
  qed
qed

end
