(* ===== verification/PipelineProperties.thy ===== *)
theory PipelineProperties
  imports CoverageProperties PublicationProperties PipelineOutcomes
begin

text \<open>
  The properties of the weekly flow, with a whole run: the receipt of the demonstration inventory is
  relayed, audited, extracted, counted and published.
\<close>

section \<open>A run of the flow\<close>

definition demo_runtime :: pipeline_runtime where
  "demo_runtime = \<lparr>rt_engine = demo_engine 2, rt_coverage = \<lparr>cv_confirmed_event_types = [], cv_dispatch_order_ids = [],
     cv_lookup_complete = False, cv_source = OPERATIONAL_COVERAGE_SOURCE\<rparr>,
     rt_dependency_fingerprint = ''telemetry=3;movements=1;stockexit=2;rules=v1'', rt_source_engine = Some (demo_engine 3),
     rt_rules_version = ''v1'', rt_lease_seconds = 60, rt_trigger_type = ''http'', rt_state_sink = False,
     rt_accepted_run_id = None\<rparr>"

definition demo_flow_env :: pipeline_env where
  "demo_flow_env = \<lparr>pv_flow_run = None, pv_task_run = (\<lambda>_. None), pv_uuid4 = 1, pv_clock = (\<lambda>_. 30 * 86400000000),
     pv_connect_fails = (\<lambda>_. None), pv_conn = (\<lambda>_. demo_conn), pv_commit = (\<lambda>_. CommitOk), pv_commit_text = [],
     pv_exception_text = id, pv_relay = (demo_relay_env, []), pv_relay_others = (\<lambda>_ u. u),
     pv_audit = ((\<lambda>_. None, \<lambda>_. None), []), pv_extract = ((\<lambda>_. None, \<lambda>_. None), []), pv_drawn = demo_uuid,
     pv_publication = demo_publication_env None, pv_extraction_flow_fails = None, pv_sink_raises = None,
     pv_others = (\<lambda>_ u. u)\<rparr>"

definition demo_before :: pipeline_state where
  "demo_before = \<lparr>ps_source = inv_db demo_stocked, ps_events = [],
     ps_world = \<lparr>pw_store = empty_store, pw_weekly = [], pw_open = None, pw_unusable = False\<rparr>\<rparr>"

definition demo_flow :: "(string + coordinator_result) \<times> pipeline_state" where
  "demo_flow = weekly_performance_flow demo_flow_env demo_runtime (-3) demo_before"

text \<open>The values between its stages, written out.\<close>

definition demo_created :: pipeline_state where
  "demo_created = snd (create_run_task demo_flow_env demo_runtime (-3) demo_before)"

definition demo_delivered :: pipeline_state where
  "demo_delivered = snd (attempts (relay_outbox_task demo_flow_env (demo_engine 3) (demo_engine 2)) demo_relay_env [] demo_created)"

definition demo_received :: weekly_event where
  "demo_received = \<lparr>we_id = IdText ''00000000-0000-4000-8000-000000000001'', we_timestamp = Instant 1000,
     we_event_type = JStr ''inbound_order_created'', we_service = JStr ''api'',
     we_tags = JObj [(''warehouse'', JStr ''los_angeles''), (''client_id'', JStr demo_client), (''product_id'', JStr ''1''),
       (''product_category'', JStr ''fashion''), (''quantity'', JInt 5), (''movement_id'', JStr ''1'')]\<rparr>"

definition demo_audit :: coverage_audit where
  "demo_audit = \<lparr>oa_evidence = \<lparr>cv_confirmed_event_types = OFFICIAL_EVENT_TYPES, cv_dispatch_order_ids = [],
       cv_lookup_complete = True, cv_source = ''operational_checkpoints''\<rparr>,
     oa_diagnostics = [], oa_audited_events = [demo_received]\<rparr>"

definition demo_occurrence :: movement_occurrence where
  "demo_occurrence = \<lparr>mo_event_type = ''inbound_order_created'', mo_identity = ''1'',
     mo_telemetry_id = ''00000000-0000-4000-8000-000000000001'', mo_timestamp = 1000, mo_week_start = -3\<rparr>"

definition demo_extracted :: weekly_extraction where
  "demo_extracted = \<lparr>wx_events = [demo_received], wx_orders = \<lparr>ce_records = (\<lambda>_. None), ce_lookup_complete = True\<rparr>,
     wx_movement_weeks = movement_evidence [(''inbound_order_created'', ''1'')] [demo_occurrence],
     wx_occurrences = [demo_occurrence],
     wx_metadata = \<lparr>xm_week_start = -3, xm_next_week_start = 4, xm_extracted_at = 2592000000000, xm_event_count = 1,
       xm_movement_occurrence_count = 1, xm_commercial_order_requested_ids = [], xm_commercial_order_invalid_ids = [],
       xm_snapshot_isolation = ''REPEATABLE READ'', xm_read_only = True, xm_snapshot_consistent = False,
       xm_movement_evidence_complete = True, xm_commercial_order_evidence_complete = True\<rparr>\<rparr>"

definition demo_figures :: weekly_result where
  "demo_figures = \<lparr>wr_aggregates = [\<lparr>wa_key = AggregateKey ''los_angeles'' demo_client (-3), wa_inbound_units = 5,
       wa_outbound_orders = 0, wa_stockout_events = 0, wa_discrepancy_events = 0, wa_discrepancy_rate = (0, 0)\<rparr>],
     wr_quality = \<lparr>qr_accepted = [''00000000-0000-4000-8000-000000000001''], qr_rejected = [], qr_duplicate_ids = [],
       qr_duplicate_movements = [], qr_duplicate_movement_ids = [], qr_conflicts = [], qr_issues = [], qr_pending = [],
       qr_coverage_pending = []\<rparr>\<rparr>"

definition demo_prepared_week :: prepared_events where
  "demo_prepared_week = \<lparr>pe_events = [\<lparr>ve_row_id = ''00000000-0000-4000-8000-000000000001'',
       ve_event_type = ''inbound_order_created'', ve_timestamp = 1000, ve_week_start = -3,
       ve_warehouse = ''los_angeles'', ve_client_id = demo_client,
       ve_tags = [(''warehouse'', JStr ''los_angeles''), (''client_id'', JStr demo_client), (''product_id'', JStr ''1''),
         (''product_category'', JStr ''fashion''), (''quantity'', JInt 5), (''movement_id'', JStr ''1'')]\<rparr>],
     pe_rejected = [], pe_duplicate_ids = [], pe_duplicate_movements = [], pe_duplicate_movement_ids = [],
     pe_conflicts = [], pe_issues = [], pe_pending = []\<rparr>"

definition demo_metric :: "nat \<Rightarrow> metric_contribution" where
  "demo_metric n = (let ids = (if n = 0 then [''00000000-0000-4000-8000-000000000001''] else []) in
     \<lparr>mc_index = n, mc_values = map (\<lambda>i. (AggregateKey ''los_angeles'' demo_client (-3), 5, [i])) ids,
       mc_accepted = ids, mc_rejected = [], mc_conflicts = [], mc_issues = []\<rparr>)"

definition demo_end_of_flow :: "(string + coordinator_result) \<times> pipeline_state" where
  "demo_end_of_flow = publish_weekly_business_report_flow demo_flow_env
     (demo_runtime\<lparr>rt_coverage := oa_evidence demo_audit\<rparr>) (-3) 1 demo_extracted demo_figures demo_delivered"

lemma demo_create: "fst (create_run_task demo_flow_env demo_runtime (-3) demo_before) = Inr 1"
  by code_simp

lemma demo_deliver: "fst (attempts (relay_outbox_task demo_flow_env (demo_engine 3) (demo_engine 2)) demo_relay_env [] demo_created) =
    Inr \<lparr>rs_delivered = 1, rs_failed = 0, rs_error_codes = []\<rparr>"
  by code_simp

lemma demo_audit_read: "fst (audit_operational_coverage_task demo_flow_env (demo_engine 3) (demo_engine 2) (-3)
     (\<lambda>_. None, \<lambda>_. None) demo_delivered) = Inr demo_audit"
  by code_simp

lemma demo_rows:
  "map event_of_row (weekly_rows (stored_rows demo_uuid (ps_events demo_delivered)) (-259200000000) 345600000000) = [demo_received]"
  "movement_keys (weekly_rows (stored_rows demo_uuid (ps_events demo_delivered)) (-259200000000) 345600000000) = [(''inbound_order_created'', ''1'')]"
  "occurrences_of (movement_rows (stored_rows demo_uuid (ps_events demo_delivered)) [(''inbound_order_created'', ''1'')])
     [(''inbound_order_created'', ''1'')] = [demo_occurrence]"
  "outbound_ids [(''inbound_order_created'', ''1'')] = []"
  by code_simp+

lemma demo_prepare: "prepare_weekly_events_task demo_extracted (-3) = Inr demo_prepared_week"
  by code_simp

lemma demo_metrics:
  "calculate_inbound_volume demo_prepared_week = demo_metric 0"
  "calculate_outbound_throughput demo_prepared_week (wx_orders demo_extracted) = demo_metric 1"
  "calculate_stockout_frequency demo_prepared_week = demo_metric 2"
  "calculate_discrepancy_events demo_prepared_week = demo_metric 3"
  by code_simp+

lemma demo_compose: "compose_weekly_performance demo_prepared_week [demo_metric 0, demo_metric 1, demo_metric 2, demo_metric 3] =
    Inr (demo_figures\<lparr>wr_quality := (wr_quality demo_figures)\<lparr>qr_coverage_pending := COVERAGE_PENDING\<rparr>\<rparr>)"
  by code_simp

lemma demo_apply: "apply_operational_coverage
    (demo_figures\<lparr>wr_quality := (wr_quality demo_figures)\<lparr>qr_coverage_pending := COVERAGE_PENDING\<rparr>\<rparr>) demo_audit demo_extracted =
    demo_figures"
  by code_simp

lemma demo_transform: "transform_week_task demo_extracted (-3) (Some demo_prepared_week)
    [Some (demo_metric 0), Some (demo_metric 1), Some (demo_metric 2), Some (demo_metric 3)] =
    Inr (demo_figures\<lparr>wr_quality := (wr_quality demo_figures)\<lparr>qr_coverage_pending := COVERAGE_PENDING\<rparr>\<rparr>)"
  unfolding demo_compose [symmetric] by (simp add: transform_week_task_def demo_extracted_def)

lemma demo_calculate: "calculate_warehouse_client_indicators_flow (-3) demo_extracted (Some demo_audit) = Inr demo_figures"
  by (simp add: calculate_warehouse_client_indicators_flow_def demo_prepare demo_metrics demo_transform demo_apply
      bind_result_def del: One_nat_def)

lemma demo_publish: "(case fst demo_end_of_flow of Inl _ \<Rightarrow> None | Inr r \<Rightarrow> Some (cr_status r)) = Some ''succeeded''"
  by code_simp

lemma demo_reads: "healthy_reader (reader (demo_engine n) (\<lambda>_. None))"
  by (simp add: healthy_reader_def reader_def demo_engine_def)

lemma demo_distinct: "ensure_distinct_postgresql_databases (demo_engine 3) (demo_engine 2) = Inr ()"
  by code_simp

lemma demo_env_simps:
  "rt_engine demo_runtime = demo_engine 2" "rt_source_engine demo_runtime = Some (demo_engine 3)" "rt_state_sink demo_runtime = False"
  "pv_others demo_flow_env = (\<lambda>_ u. u)" "pv_relay demo_flow_env = (demo_relay_env, [])"
  "pv_audit demo_flow_env = ((\<lambda>_. None, \<lambda>_. None), [])" "pv_extract demo_flow_env = ((\<lambda>_. None, \<lambda>_. None), [])"
  "pv_extraction_flow_fails demo_flow_env = None" "pv_sink_raises demo_flow_env = None"
  "pv_drawn demo_flow_env = demo_uuid" "pv_clock demo_flow_env = (\<lambda>_. 2592000000000)"
  by (simp_all add: demo_flow_env_def demo_runtime_def)

lemma demo_objects: "en_object (demo_engine 3) = 3" "en_object (demo_engine 2) = 2"
  by (simp_all add: demo_engine_def)

lemma demo_extract: "extract_week_task demo_flow_env (demo_engine 2) (-3) (Some (demo_engine 3)) (\<lambda>_. None, \<lambda>_. None) demo_delivered =
    (Inr demo_extracted, demo_delivered)"
proof -
  have one: "length (weekly_rows (stored_rows demo_uuid (ps_events demo_delivered)) (-259200000000) 345600000000) = 1"
    using arg_cong [OF demo_rows(1), of length] by simp
  have "utc_date 345600000000 = 4" by code_simp
  then show ?thesis
    using snapshot_healthy [OF demo_reads] order_snapshot_healthy [OF demo_reads] one demo_rows
    by (simp add: extract_week_task_def extract_weekly_inputs_def demo_week demo_env_simps demo_objects demo_distinct
        reader_def Let_def bind_result_def parsed_ids_def invalid_outbound_ids_def commercial_order_records_def
        demo_extracted_def map_filter_simps)
qed

lemma demo_flow_stages: "demo_flow = demo_end_of_flow"
proof -
  have create: "create_run_task demo_flow_env demo_runtime (-3) demo_before = (Inr 1, demo_created)"
    by (simp add: demo_created_def demo_create prod_eq_iff)
  have relay: "attempts (relay_outbox_task demo_flow_env (demo_engine 3) (demo_engine 2)) demo_relay_env [] demo_created =
      (Inr \<lparr>rs_delivered = 1, rs_failed = 0, rs_error_codes = []\<rparr>, demo_delivered)"
    using demo_deliver by (simp add: demo_delivered_def prod_eq_iff del: attempts.simps One_nat_def)
  have audit: "audit_operational_coverage_task demo_flow_env (demo_engine 3) (demo_engine 2) (-3) (\<lambda>_. None, \<lambda>_. None) demo_delivered =
      (Inr demo_audit, demo_delivered)"
    using demo_audit_read audit_task_state by (simp add: prod_eq_iff)
  have stage: "extract_stage demo_flow_env (demo_runtime\<lparr>rt_coverage := oa_evidence demo_audit\<rparr>) (-3) (Some demo_audit) demo_delivered =
      (Inr \<lparr>es_runtime = demo_runtime\<lparr>rt_coverage := oa_evidence demo_audit\<rparr>, es_extracted = Some demo_extracted,
         es_audit = Some demo_audit, es_failed_stage = None, es_error = None\<rparr>, demo_delivered)"
    by (simp add: extract_stage_def interleaved_def demo_env_simps demo_extract)
  have "extract_weekly_warehouse_events_flow demo_flow_env demo_runtime (-3) demo_created =
      (Inr \<lparr>es_runtime = demo_runtime\<lparr>rt_coverage := oa_evidence demo_audit\<rparr>, es_extracted = Some demo_extracted,
         es_audit = Some demo_audit, es_failed_stage = None, es_error = None\<rparr>, demo_delivered)"
    using relay audit stage by (simp add: extract_weekly_warehouse_events_flow_def demo_env_simps demo_objects)
  then show ?thesis
    by (simp add: demo_flow_def weekly_performance_flow_def bind_cmd_def create Let_def demo_calculate publish_stage_def
        run_optional_observer_def demo_env_simps demo_end_of_flow_def return_cmd_def raise_cmd_def split: prod.splits sum.splits)
qed

lemma demo_flow_run: "weekly_performance_flow demo_flow_env demo_runtime (-3) demo_before = (fst demo_flow, snd demo_flow)"
  by (simp add: demo_flow_def)

lemma demo_flow_answer: "\<exists>r. fst demo_flow = Inr r \<and> cr_status r = ''succeeded''"
  using demo_publish by (auto simp: demo_flow_stages split: sum.splits)

lemma demo_before_ok: "pipeline_ok demo_before"
  by (simp add: pipeline_ok_store demo_before_def empty_store_def store_ok_def table_ok_def)

lemma demo_alone: "others_sound demo_flow_env" "others_publish_nothing demo_flow_env"
  by (simp_all add: others_sound_def others_publish_nothing_def demo_flow_env_def)

lemma demo_source: "rt_source_engine demo_runtime = Some (demo_engine 3)"
  "en_object (demo_engine 3) \<noteq> en_object (rt_engine demo_runtime)"
  by (simp_all add: demo_env_simps demo_objects)

section \<open>Properties\<close>

text \<open>
  C1. Only covered weeks are published. When a run with a separate inventory database changes the weekly
  table or answers a success, then after its relay the audit of the week was complete, the extraction
  read the very events that were audited, and the table shows the batch computed from them and is
  otherwise unchanged; this whatever fails and whatever other sessions do to the inventory, to telemetry
  and to the run history, as long as they leave the weekly table to this run.
\<close>

theorem only_covered_weeks_published:
  assumes run: "weekly_performance_flow E R week s = (res, t)" and "pipeline_ok s"
    and "others_sound E" and alone: "others_publish_nothing E"
    and source: "rt_source_engine R = Some source" "en_object source \<noteq> en_object (rt_engine R)"
    and end_state: "pw_weekly (ps_world t) \<noteq> pw_weekly (ps_world s) \<or>
      (\<exists>r. res = Inr r \<and> cr_status r \<in> {''succeeded'', ''succeeded_noop''})"
  shows "\<exists>i u a x r. create_run_task E R week s = (Inr i, u) \<and> audited_run E source R week u a x \<and> audit_complete a \<and>
    list_all2 same_event (canonical_events (wx_events x)) (oa_audited_events a) \<and>
    transform_weekly_performance (wx_events x) (wx_orders x) (Some (wx_movement_weeks x)) = Inr r \<and>
    batch_published week (wr_aggregates r) (pw_weekly (ps_world s)) (pw_weekly (ps_world t))"
proof -
  have "computed_publication E R week s t"
    using flow_result [OF assms(1,3,2)] end_state alone by (auto simp: unpublished_end_def)
  then obtain i u stage v x tr where run: "create_run_task E R week s = (Inr i, u)"
      "extract_weekly_warehouse_events_flow E R week u = (Inr stage, v)"
      "es_failed_stage stage = None" "es_extracted stage = Some x"
      "calculate_warehouse_client_indicators_flow week x (es_audit stage) = Inr tr"
      "qr_coverage_pending (wr_quality tr) = []" "published_end E week tr s t"
    unfolding computed_publication_def by blast
  obtain a where a: "es_audit stage = Some a" "audited_run E source R week u a x"
    using extraction_audited [OF run(2) source run(3,4)] by blast
  obtain r where r: "transform_weekly_performance (wx_events x) (wx_orders x) (Some (wx_movement_weeks x)) = Inr r"
      "qr_coverage_pending (wr_quality r) = COVERAGE_PENDING" "tr = apply_operational_coverage r a x"
    using calculated [OF run(5)] a(1) by auto
  have "audit_complete a \<and> list_all2 same_event (canonical_events (wx_events x)) (oa_audited_events a)"
    by (rule lifted_reserve [OF run(6) [unfolded r(3)] r(2)])
  moreover have "batch_published week (wr_aggregates r) (pw_weekly (ps_world s)) (pw_weekly (ps_world t))"
    using run(7) alone r(3) by (simp add: published_end_def)
  ultimately show ?thesis using run(1) a(2) r(1) by blast
qed

theorem only_covered_weeks_published_witness:
  "\<exists>i u a x r. create_run_task demo_flow_env demo_runtime (-3) demo_before = (Inr i, u) \<and>
    audited_run demo_flow_env (demo_engine 3) demo_runtime (-3) u a x \<and> audit_complete a \<and>
    list_all2 same_event (canonical_events (wx_events x)) (oa_audited_events a) \<and>
    transform_weekly_performance (wx_events x) (wx_orders x) (Some (wx_movement_weeks x)) = Inr r \<and>
    batch_published (-3) (wr_aggregates r) [] (pw_weekly (ps_world (snd demo_flow)))"
proof -
  have w: "pw_weekly (ps_world demo_before) = []" by (simp add: demo_before_def)
  have "pw_weekly (ps_world (snd demo_flow)) \<noteq> pw_weekly (ps_world demo_before) \<or>
      (\<exists>r. fst demo_flow = Inr r \<and> cr_status r \<in> {''succeeded'', ''succeeded_noop''})"
    using demo_flow_answer by auto
  from only_covered_weeks_published [OF demo_flow_run demo_before_ok demo_alone demo_source this] show ?thesis
    unfolding w .
qed

text \<open>
  C10. A run that answers is settled. Whatever fails on the way and whatever other sessions do between
  the stages, when the flow returns an answer, its run is stored, and either the status of the answer is
  terminal and is the stored one, or the answer is \<open>commit_uncertain\<close>: then the business commit had
  reported a failure, and the run is running with the commit result of the answer, which is not a
  success. No answered run is left pending.
\<close>

theorem answered_run_recorded:
  assumes "weekly_performance_flow E R week s = (Inr r, t)" and "pipeline_ok s" and "others_sound E"
  shows "\<exists>i u row. create_run_task E R week s = (Inr i, u) \<and> find_run (pw_store (ps_world t)) i = Some row \<and>
    (cr_status r \<in> set TERMINAL_STATUSES \<and> rr_status row = cr_status r \<or>
     cr_status r = ''commit_uncertain'' \<and> rr_status row = ''running'' \<and> rr_commit_result row = cr_commit_result r \<and>
       cr_commit_result r \<noteq> ''technically_observed'' \<and> pb_commit_fails (pv_publication E) \<noteq> None)"
proof -
  obtain i u where "create_run_task E R week s = (Inr i, u)" "answered E i r t"
    using flow_result [OF assms(1,3,2)] by blast
  then show ?thesis by (cases "cr_status r = ''commit_uncertain''") (auto simp: answered_def)
qed

theorem answered_run_recorded_witness:
  "\<exists>i row. find_run (pw_store (ps_world (snd demo_flow))) i = Some row \<and> rr_status row = ''succeeded''"
proof -
  obtain r where r: "fst demo_flow = Inr r" "cr_status r = ''succeeded''" using demo_flow_answer by blast
  have "weekly_performance_flow demo_flow_env demo_runtime (-3) demo_before = (Inr r, snd demo_flow)"
    using demo_flow_run r(1) by simp
  from answered_run_recorded [OF this demo_before_ok demo_alone(1)] r(2) show ?thesis by fastforce
qed

end
