(* ===== verification/Spec2Isabelle.thy ===== *)
theory Spec2Isabelle
  imports InventoryProperties RunProperties JobProperties RelayProperties TaskProperties PublicationProperties
    CoverageProperties PipelineProperties
begin

text \<open>
  TrackFlow keeps the stock of two warehouses for its clients and publishes weekly figures about it.
  This development models the Python services that do so and proves what they promise each other.

  The parts and how they interact. The inventory service (\<open>services/api\<close>) records receipts, issues,
  orders and physical counts, and writes one row per business event to its outbox in the transaction
  of the movement. The outbox relay (\<open>pipelines/outbox_relay.py\<close>) carries these rows to the telemetry
  table of another database. The audit (\<open>pipelines/operational_coverage.py\<close>) compares the movements, orders and
  counts of a week with their threshold evaluations, outbox rows and telemetry rows, the extraction
  (\<open>pipelines/extraction.py\<close>) reads the telemetry of the week. The weekly transformation (\<open>pipelines/weekly_performance.py\<close>) turns the
  telemetry rows of a week into counters. The run store (\<open>pipelines/run_store.py\<close>) keeps the history
  of the weekly runs and the pointer to the valid publication of a week, the week leases
  (\<open>pipelines/concurrency.py\<close>) let one run at a time work on a week, and the flow (\<open>pipelines/pipeline.py\<close>)
  composes relay, audit, extraction, calculation, quality gate, lease and publication into one run. The task queue
  (\<open>services/task_queue\<close>) accepts a request for a run, dispatches it to the broker and executes it in
  a worker; the job control (\<open>services/job_runner\<close>) does the same for the nightly jobs.

  Theories and sources.
    \<^item> \<open>Prelude\<close>: Python values, commands that read and write a state and may raise, SQL operations on
      tables with unique keys; \<open>Refinement\<close>: commands that refine a step relation; \<open>Regex\<close>: the regular
      expressions of the standard library the code uses.
    \<^item> \<open>StatusTables\<close> and \<open>Fencing\<close>: the two contracts shared by the operational tables, as locales. A row
      changes its status by compare-and-set and is history once it is final; a token never decreases
      and an owner changes only with it. They are interpreted for runs and leases (\<open>RunLeases\<close>), jobs
      (\<open>JobControl\<close>) and tasks (\<open>TaskChanges\<close>).
    \<^item> Inventory: \<open>InventoryModels\<close> (\<open>inventory_models.py\<close>, \<open>inventory_schemas.py\<close>,
      \<open>inventory_clients.py\<close>), \<open>InventoryOutbox\<close> (\<open>inventory_outbox.py\<close>), \<open>InventoryStore\<close>,
      \<open>InventoryService\<close> and \<open>InventoryOrders\<close> (\<open>inventory_service.py\<close>), \<open>InventoryRoutes\<close>
      (\<open>routes/inventory.py\<close>), \<open>Cache\<close> (\<open>cache.py\<close>), \<open>Telemetry\<close> (\<open>telemetry_storage.py\<close>). The
      specification is the ledger of \<open>InventoryLedger\<close>; \<open>InventoryInvariants\<close>, \<open>InventoryRefinement\<close>,
      \<open>InventoryFrames\<close>, \<open>InventoryCoherence\<close>, \<open>InventoryRetries\<close> and \<open>InventoryOutcomes\<close> prove its
      invariants, that every request is at most one transaction of it, lock order, cache coherence,
      idempotence and exact answers.
    \<^item> Runs: \<open>RunStore\<close> and \<open>WeekLease\<close>; the abstract changes and the invariant are in \<open>RunChanges\<close>, that
      every operation is a sequence of them in \<open>RunRefinement\<close> and \<open>LeaseRefinement\<close>, what the
      operations answer in \<open>RunOutcomes\<close> and \<open>LeaseOutcomes\<close>.
    \<^item> Jobs: \<open>JobRuns\<close> (\<open>service.py\<close> of the job runner, \<open>job_runs.sql\<close>) and \<open>JobControl\<close>.
    \<^item> Relay: \<open>DatabaseIdentity\<close>, \<open>OutboxRelay\<close> and \<open>RelayDelivery\<close>.
    \<^item> Tasks: \<open>Diagnostics\<close> (\<open>sanitization.py\<close>), \<open>Weeks\<close> (the closed weeks of \<open>pipeline.py\<close>), \<open>TaskStore\<close>
      (\<open>store.py\<close>, \<open>reporting_async_tasks.sql\<close>), \<open>TaskReconciliation\<close>, \<open>TaskRelay\<close>, \<open>PublicationResult\<close> (the
      result type of \<open>coordinator.py\<close>) and \<open>TaskWorker\<close> (\<open>tasks.py\<close>). \<open>TaskChanges\<close> has the
      invariant and the abstract changes, \<open>TaskRefinement\<close>, \<open>TaskDelivery\<close> and \<open>DispatchRefinement\<close> that
      the operations, the worker and the relay refine them, \<open>TaskOutcomes\<close> what they answer.
    \<^item> Weeks of figures: \<open>WeeklyEvents\<close> and \<open>WeeklyPerformance\<close>; \<open>WeeklyFacts\<close> relates them to reference
      counts over the prepared events.
    \<^item> Publication: \<open>PublicationBatch\<close> (the checks of a batch and the classification of database failures)
      and \<open>PublicationStage\<close> (\<open>publication.py\<close> over the weekly table), \<open>Coordinator\<close> (\<open>coordinator.py\<close>). A
      world has the committed tables, the tables of the open business transaction and the run store, which
      the operational connection commits by itself. \<open>PublicationFacts\<close> shows what the upsert does to the
      weekly table, \<open>PublicationOutcomes\<close> what each phase of the protected sequence leaves behind.
    \<^item> Coverage: \<open>WeeklyExtraction\<close> (\<open>extraction.py\<close>) and \<open>OperationalCoverage\<close> (\<open>operational_coverage.py\<close>)
      read the rows of \<open>InventoryStore\<close> and of telemetry. \<open>InventoryTraces\<close> shows that every movement,
      order and count leaves a trail and every outbox row has one source, \<open>CoverageSystem\<close> runs requests,
      relays and other telemetry writers as one system and keeps its invariant, \<open>CoverageFacts\<close> and
      \<open>CoverageOutcomes\<close> show what the audit and the extraction read of it, \<open>CoverageSoundness\<close> what a
      complete audit says of the tables.
    \<^item> Flow: \<open>WeeklyPipeline\<close> (\<open>pipeline.py\<close>), one definition per task and subflow. The attempts Prefect
      makes of a task, and what other sessions commit before a stage, are fields of its environment.
      \<open>PipelineOutcomes\<close> shows what each task leaves behind and composes it to the whole run.
    \<^item> The properties stand in the theories named \<open>...Properties\<close>, their witnesses evaluate the concrete
      runs of \<open>InventoryDemo\<close>, \<open>RunDemo\<close>, \<open>TaskDemo\<close> and of the property theories.

  How state is modelled. A table is a list of records in the order of insertion; a statement is a
  function on the tables that may raise; a transaction is undone as a whole when it raises, and its
  commit may succeed, be rolled back, or take effect although the client sees an error. The readings
  of clocks, the generated identifiers, the failures of statements and commits are fields of an
  environment record, so every theorem holds for all of them. Concurrent sessions appear in two ways:
  inside one transaction the locks of the code make the operations serial; between the transactions
  of one operation the other sessions are an argument, of which only the abstract changes are assumed
  (\<open>honest\<close>, or the assumption on \<open>others\<close>).

  Bounds. Recursion is structural, or on a measure; the only fuel is the limit of \<open>relay_loop\<close>, which is
  the limit of the code, and the length of the text for the regular expressions. Tokens and epochs are
  integers with the range of \<open>bigint\<close> as an explicit guard, counts have the range of \<open>integer\<close>.
  UUIDs are 128-bit words. Characters are code points below 256.

  Not modelled. Wiring: the FastAPI application, authentication, the Celery application, the Prefect
  engine, the runtime builders and the command line of \<open>pipeline.py\<close>, process loops, signals,
  environment variables and logging. The attestation of controlled test databases
  (\<open>technical_coverage.py\<close>), which no runtime the builders make carries. The
  regression of the sales forecast and its evaluation, which compute with floating-point numbers of
  third-party libraries. Batch and operational scripts. The front end and other languages.
\<close>

end
